(* ===== verification/Saep_Prelude.thy ===== *)
theory Saep_Prelude
  imports Complex_Main "HOL-Library.Word" "HOL-Library.Sublist" "HOL-Library.Multiset"
begin

text \<open>
  Shared ground of the development: what the TypeScript sources use of their language and of
  its standard library, with the lemmas the component theories need about it.

  \<^item> A call that may throw is a value of \<open>'a js\<close>: \<open>Inl msg\<close> is a thrown \<open>Error(msg)\<close>,
    \<open>Inr v\<close> a normal return.
  \<^item> A \<open>Map\<close> keeps its keys in insertion order; overwriting a key keeps its place. It is an
    association list with distinct keys, and the locale \<open>js_map\<close> is its contract.
  \<^item> \<open>Array.prototype.sort\<close> is stable; \<open>js_sort\<close> is a stable insertion sort over a comparator.
  \<^item> Numbers that may be fractional are \<open>rat\<close>, exact (rounding of IEEE doubles is not
    modelled); \<open>bigint\<close>s are \<open>int\<close>; byte arrays are lists of 8-bit words.
\<close>

named_theorems js_defs \<open>definitions of the language layer\<close>
named_theorems js_map_simps \<open>what lookups, sizes and keys are after a Map operation\<close>

subsection \<open>Errors\<close>

type_synonym 'a js = "string + 'a"

definition js_ok :: "'a js \<Rightarrow> bool" where
  "js_ok r = (case r of Inl _ \<Rightarrow> False | Inr _ \<Rightarrow> True)"

lemma js_ok_simps [simp]: "\<not> js_ok (Inl e)" "js_ok (Inr v)"
  by (simp_all add: js_ok_def)

text \<open>\<open>errors.join('; ')\<close>\<close>

fun join :: "string \<Rightarrow> string list \<Rightarrow> string" where
  "join sep [] = []"
| "join sep [x] = x"
| "join sep (x # y # xs) = x @ sep @ join sep (y # xs)"

subsection \<open>Truthiness and numbers\<close>

text \<open>A value of type \<open>string | null\<close> or \<open>string | undefined\<close> is truthy when present and not
  empty.\<close>

definition truthy :: "string option \<Rightarrow> bool" where
  "truthy s = (case s of None \<Rightarrow> False | Some x \<Rightarrow> x \<noteq> [])"

lemma truthy_simps [simp]: "\<not> truthy None" "truthy (Some x) = (x \<noteq> [])"
  by (simp_all add: truthy_def)

text \<open>\<open>Number.isInteger\<close>\<close>

definition isInteger :: "rat \<Rightarrow> bool" where
  "isInteger x = (x = of_int \<lfloor>x\<rfloor>)"

lemma isInteger_of_int [simp]: "isInteger (of_int k)"
  by (simp add: isInteger_def)

lemma isInteger_numeral [simp]: "isInteger (numeral k)" "isInteger 0" "isInteger 1"
  using isInteger_of_int [of "numeral k"] isInteger_of_int [of 0] isInteger_of_int [of 1]
  by simp_all

lemma isInteger_add [intro]: "isInteger x \<Longrightarrow> isInteger y \<Longrightarrow> isInteger (x + y)"
  by (metis isInteger_def isInteger_of_int of_int_add)

lemma isInteger_mult [intro]: "isInteger x \<Longrightarrow> isInteger y \<Longrightarrow> isInteger (x * y)"
  by (metis isInteger_def isInteger_of_int of_int_mult)

subsection \<open>Strings\<close>

definition startsWith :: "'a list \<Rightarrow> 'a list \<Rightarrow> bool" where
  "startsWith s p = (take (length p) s = p)"

definition endsWith :: "'a list \<Rightarrow> 'a list \<Rightarrow> bool" where
  "endsWith s p = (length p \<le> length s \<and> drop (length s - length p) s = p)"

fun js_includes :: "'a list \<Rightarrow> 'a list \<Rightarrow> bool" where
  "js_includes [] p = (p = [])"
| "js_includes (c # s) p = (startsWith (c # s) p \<or> js_includes s p)"

lemma startsWith_append [simp]: "startsWith (p @ s) p"
  by (simp add: startsWith_def)

lemma startsWith_prefix: "startsWith s p = prefix p s"
  by (metis append_eq_conv_conj prefix_def startsWith_append startsWith_def append_take_drop_id)

lemma endsWith_suffix: "endsWith s p = suffix p s"
  by (auto simp: endsWith_def suffix_def) (metis append_take_drop_id)

text \<open>Decimal printing of a natural number, \<open>String(n)\<close> and \<open>n.toString()\<close>.\<close>

fun show_nat :: "nat \<Rightarrow> string" where
  "show_nat n = (if n < 10 then [char_of (48 + n)] else show_nat (n div 10) @ [char_of (48 + n mod 10)])"

declare show_nat.simps [simp del]

definition show_int :: "int \<Rightarrow> string" where
  "show_int k = (if k < 0 then ''-'' @ show_nat (nat (- k)) else show_nat (nat k))"

text \<open>Reading a decimal back, \<open>BigInt(s)\<close> for a string of digits.\<close>

definition digit_val :: "char \<Rightarrow> nat" where
  "digit_val c = of_char c - (48::nat)"

definition is_digit :: "char \<Rightarrow> bool" where
  "is_digit c = (48 \<le> (of_char c :: nat) \<and> (of_char c :: nat) \<le> 57)"

definition read_nat :: "string \<Rightarrow> nat" where
  "read_nat s = foldl (\<lambda>acc c. 10 * acc + digit_val c) 0 s"

lemma digit_val_char [simp]: "(d::nat) < 10 \<Longrightarrow> digit_val (char_of (48 + d)) = d"
  by (simp add: digit_val_def of_char_of)

lemma is_digit_char [simp]: "(d::nat) < 10 \<Longrightarrow> is_digit (char_of (48 + d))"
  by (simp add: is_digit_def of_char_of)

lemma read_show_nat [simp]: "read_nat (show_nat n) = n"
proof (induction n rule: show_nat.induct)
  case (1 n)
  show ?case
  proof (cases "n < 10")
    case True
    then show ?thesis by (subst show_nat.simps) (simp add: read_nat_def)
  next
    case False
    with 1 have "read_nat (show_nat (n div 10)) = n div 10" by simp
    with False show ?thesis by (subst show_nat.simps) (simp add: read_nat_def)
  qed
qed

lemma show_nat_digits: "list_all is_digit (show_nat n)"
proof (induction n rule: show_nat.induct)
  case (1 n)
  then show ?case by (subst show_nat.simps) (simp)
qed

lemma show_nat_inj [simp]: "show_nat m = show_nat n \<longleftrightarrow> m = n"
  by (metis read_show_nat)

lemma show_nat_nonempty [simp]: "show_nat n \<noteq> []"
  by (subst show_nat.simps) simp

subsection \<open>Arrays\<close>

text \<open>\<open>xs.slice(0, n)\<close>: a negative end counts from the back.\<close>

definition slice0 :: "int \<Rightarrow> 'a list \<Rightarrow> 'a list" where
  "slice0 n xs = (if 0 \<le> n then take (nat n) xs else take (nat (int (length xs) + n)) xs)"

lemma set_slice0: "set (slice0 n xs) \<subseteq> set xs"
  by (auto simp: slice0_def dest: in_set_takeD)

lemma length_slice0: "0 \<le> n \<Longrightarrow> int (length (slice0 n xs)) \<le> n"
  by (simp add: slice0_def)

lemma sorted_wrt_slice0: "sorted_wrt P xs \<Longrightarrow> sorted_wrt P (slice0 n xs)"
  by (simp add: slice0_def sorted_wrt_take)

text \<open>\<open>xs.sort(cmp)\<close> for a consistent comparator: stable, so an element moves only past those
  that compare greater.\<close>

fun js_insert :: "('a \<Rightarrow> 'a \<Rightarrow> int) \<Rightarrow> 'a \<Rightarrow> 'a list \<Rightarrow> 'a list" where
  "js_insert cmp x [] = [x]"
| "js_insert cmp x (y # ys) = (if cmp x y \<le> 0 then x # y # ys else y # js_insert cmp x ys)"

definition js_sort :: "('a \<Rightarrow> 'a \<Rightarrow> int) \<Rightarrow> 'a list \<Rightarrow> 'a list" where
  "js_sort cmp xs = foldr (js_insert cmp) xs []"

lemma mset_js_insert [simp]: "mset (js_insert cmp x ys) = add_mset x (mset ys)"
  by (induction ys) auto

lemma mset_js_sort [simp]: "mset (js_sort cmp xs) = mset xs"
  by (induction xs) (auto simp: js_sort_def)

lemma set_js_sort [simp]: "set (js_sort cmp xs) = set xs"
  by (metis mset_js_sort set_mset_mset)

lemma length_js_sort [simp]: "length (js_sort cmp xs) = length xs"
  by (metis mset_js_sort size_mset)

lemma distinct_js_sort [simp]: "distinct (map f (js_sort cmp xs)) = distinct (map f xs)"
  by (rule mset_eq_imp_distinct_iff) simp

lemma sorted_js_insert:
  assumes key: "\<And>x y. cmp x y \<le> 0 \<Longrightarrow> (f x :: 'b :: linorder) \<le> f y"
    and tot: "\<And>x y. \<not> cmp x y \<le> 0 \<Longrightarrow> f y \<le> f x"
    and "sorted (map f ys)"
  shows "sorted (map f (js_insert cmp x ys))"
  using assms(3)
proof (induction ys)
  case Nil
  then show ?case by simp
next
  case (Cons y ys)
  have s: "set (js_insert cmp x ys) = insert x (set ys)"
    by (metis mset_js_insert set_mset_add_mset_insert set_mset_mset)
  show ?case
  proof (cases "cmp x y \<le> 0")
    case True
    with Cons.prems show ?thesis by (auto dest: key intro: order_trans)
  next
    case False
    with Cons show ?thesis by (auto simp: s dest: tot)
  qed
qed

lemma sorted_js_sort:
  assumes "\<And>x y. cmp x y \<le> 0 \<Longrightarrow> (f x :: 'b :: linorder) \<le> f y"
    and "\<And>x y. \<not> cmp x y \<le> 0 \<Longrightarrow> f y \<le> f x"
  shows "sorted (map f (js_sort cmp xs))"
  by (induction xs) (auto simp: js_sort_def intro: sorted_js_insert assms)

subsection \<open>Map, the insertion-ordered dictionary\<close>

type_synonym ('k, 'v) jsmap = "('k \<times> 'v) list"

definition map_get :: "('k, 'v) jsmap \<Rightarrow> 'k \<Rightarrow> 'v option" where
  "map_get m k = map_of m k"

fun map_set :: "'k \<Rightarrow> 'v \<Rightarrow> ('k, 'v) jsmap \<Rightarrow> ('k, 'v) jsmap" where
  "map_set k v [] = [(k, v)]"
| "map_set k v ((k', v') # m) = (if k = k' then (k', v) # m else (k', v') # map_set k v m)"

definition map_delete :: "'k \<Rightarrow> ('k, 'v) jsmap \<Rightarrow> ('k, 'v) jsmap" where
  "map_delete k m = filter (\<lambda>e. fst e \<noteq> k) m"

definition map_keys :: "('k, 'v) jsmap \<Rightarrow> 'k list" where
  "map_keys m = map fst m"

definition map_values :: "('k, 'v) jsmap \<Rightarrow> 'v list" where
  "map_values m = map snd m"

definition map_ok :: "('k, 'v) jsmap \<Rightarrow> bool" where
  "map_ok m = distinct (map_keys m)"

text \<open>The contract of a \<open>Map\<close>, over its list of keys in insertion order.\<close>

locale js_map =
  fixes empty :: "'m"
    and get :: "'m \<Rightarrow> 'k \<Rightarrow> 'v option"
    and put :: "'k \<Rightarrow> 'v \<Rightarrow> 'm \<Rightarrow> 'm"
    and del :: "'k \<Rightarrow> 'm \<Rightarrow> 'm"
    and keys :: "'m \<Rightarrow> 'k list"
    and invar :: "'m \<Rightarrow> bool"
  assumes get_empty: "get empty k = None"
    and get_put: "get (put k v m) k' = (if k' = k then Some v else get m k')"
    and get_del: "get (del k m) k' = (if k' = k then None else get m k')"
    and keys_empty: "keys empty = []"
    and keys_put: "keys (put k v m) = (if k \<in> set (keys m) then keys m else keys m @ [k])"
    and keys_del: "keys (del k m) = filter (\<lambda>k'. k' \<noteq> k) (keys m)"
    and keys_get: "k \<in> set (keys m) \<longleftrightarrow> get m k \<noteq> None"
    and invar_keys: "invar m \<longleftrightarrow> distinct (keys m)"
begin

lemma invar_empty: "invar empty"
  by (simp add: invar_keys keys_empty)

lemma invar_put: "invar m \<Longrightarrow> invar (put k v m)"
  by (simp add: invar_keys keys_put)

lemma invar_del: "invar m \<Longrightarrow> invar (del k m)"
  by (simp add: invar_keys keys_del)

lemma size_put: "length (keys (put k v m)) = (if get m k = None then Suc (length (keys m)) else length (keys m))"
  using keys_get [of k m] by (simp add: keys_put)

lemma size_del_le: "length (keys (del k m)) \<le> length (keys m)"
  by (simp add: keys_del)

lemma size_del_key:
  assumes "invar m" and "k \<in> set (keys m)"
  shows "Suc (length (keys (del k m))) = length (keys m)"
proof -
  have "length (keys (del k m)) = length (remove1 k (keys m))"
    using assms by (simp add: keys_del invar_keys distinct_remove1_removeAll removeAll_filter_not_eq)
      (metis (no_types, lifting) filter_cong)
  with assms show ?thesis
    by (simp add: length_remove1) (metis Suc_pred length_pos_if_in_set)
qed

text \<open>Evicting the oldest key of a full map before inserting keeps the map within its limit.\<close>

lemma size_evict_put:
  assumes "invar m" and "length (keys m) \<le> n" and "0 < n"
  shows "length (keys (put k v (if n \<le> length (keys m) then del (hd (keys m)) m else m))) \<le> n"
proof (cases "n \<le> length (keys m)")
  case True
  with assms have "hd (keys m) \<in> set (keys m)"
    by (cases "keys m") auto
  with assms size_del_key have "Suc (length (keys (del (hd (keys m)) m))) \<le> n"
    by metis
  with True show ?thesis by (simp add: size_put)
next
  case False
  with assms show ?thesis by (simp add: size_put)
qed

end

lemma map_keys_set: "map_keys (map_set k v m) = (if k \<in> set (map_keys m) then map_keys m else map_keys m @ [k])"
  by (induction m) (force simp: map_keys_def)+

lemma map_get_set: "map_get (map_set k v m) k' = (if k' = k then Some v else map_get m k')"
  by (induction m) (auto simp: map_get_def)

interpretation jsm: js_map "[]" map_get map_set map_delete map_keys map_ok
proof unfold_locales
  fix m :: "('a, 'b) jsmap" and k k' :: 'a and v :: 'b
  show "map_get [] k = (None :: 'b option)" by (simp add: map_get_def)
  show "map_get (map_set k v m) k' = (if k' = k then Some v else map_get m k')"
    by (rule map_get_set)
  show "map_get (map_delete k m) k' = (if k' = k then None else map_get m k')"
    by (induction m) (auto simp: map_get_def map_delete_def)
  show "map_keys ([] :: ('a, 'b) jsmap) = []" by (simp add: map_keys_def)
  show "map_keys (map_set k v m) = (if k \<in> set (map_keys m) then map_keys m else map_keys m @ [k])"
    by (rule map_keys_set)
  show "map_keys (map_delete k m) = filter (\<lambda>k'. k' \<noteq> k) (map_keys m)"
    by (simp add: map_keys_def map_delete_def filter_map o_def)
  show "k \<in> set (map_keys m) \<longleftrightarrow> map_get m k \<noteq> None"
    by (force simp: map_keys_def map_get_def map_of_eq_None_iff)
  show "map_ok m \<longleftrightarrow> distinct (map_keys m)" by (simp add: map_ok_def)
qed

lemmas map_specs [js_map_simps] = jsm.get_empty jsm.get_put jsm.get_del jsm.invar_empty jsm.invar_put jsm.invar_del

lemma map_values_get:
  assumes "map_ok m"
  shows "v \<in> set (map_values m) \<longleftrightarrow> (\<exists>k. map_get m k = Some v)"
  using assms by (auto simp: map_values_def map_get_def map_ok_def map_keys_def)
    (metis image_eqI map_of_SomeD snd_conv)

lemma map_get_map_of: "map_ok m \<Longrightarrow> map_get m k = Some v \<longleftrightarrow> (k, v) \<in> set m"
  by (simp add: map_get_def map_ok_def map_keys_def)

text \<open>A \<open>Map\<close> filled from a list of values, each under its own key; a map whose keys are the keys of its
  values comes back from the list of its values.\<close>

definition map_load :: "('v \<Rightarrow> 'k) \<Rightarrow> 'v list \<Rightarrow> ('k, 'v) jsmap" where
  "map_load key vs = foldl (\<lambda>m v. map_set (key v) v m) [] vs"

definition keyed :: "('v \<Rightarrow> 'k) \<Rightarrow> ('k, 'v) jsmap \<Rightarrow> bool" where
  "keyed key m = (map_ok m \<and> (\<forall>k v. map_get m k = Some v \<longrightarrow> key v = k))"

lemma map_set_fresh: "k \<notin> set (map_keys m) \<Longrightarrow> map_set k v m = m @ [(k, v)]"
  by (induction m) (auto simp: map_keys_def)

lemma map_load_snoc: "map_load key (vs @ [v]) = map_set (key v) v (map_load key vs)"
  by (simp add: map_load_def)

lemma map_load_distinct: "distinct (map key vs) \<Longrightarrow> map_load key vs = map (\<lambda>v. (key v, v)) vs"
proof (induction vs rule: rev_induct)
  case Nil
  then show ?case by (simp add: map_load_def)
next
  case (snoc v vs)
  then have "key v \<notin> set (map_keys (map (\<lambda>v. (key v, v)) vs))" by (auto simp: map_keys_def)
  with snoc show ?case by (simp add: map_load_snoc map_set_fresh)
qed

lemma keyed_entries: "keyed key m \<Longrightarrow> (k, v) \<in> set m \<Longrightarrow> key v = k"
  by (auto simp: keyed_def map_get_map_of)

lemma keyed_values: "keyed key m \<Longrightarrow> map key (map_values m) = map_keys m"
  using keyed_entries by (fastforce simp: map_values_def map_keys_def)

lemma map_load_values:
  assumes "keyed key m"
  shows "map_load key (map_values m) = m"
proof -
  have "distinct (map key (map_values m))" using assms keyed_values [OF assms] by (simp add: keyed_def map_ok_def)
  then have "map_load key (map_values m) = map (\<lambda>v. (key v, v)) (map snd m)"
    by (simp add: map_load_distinct map_values_def)
  also have "\<dots> = map (\<lambda>x. x) m" using keyed_entries [OF assms] by (simp only: map_map o_def map_eq_conv) auto
  finally show ?thesis by simp
qed

lemma keyed_set: "keyed key m \<Longrightarrow> keyed key (map_set (key v) v m)"
  by (auto simp: keyed_def map_specs)

lemma keyed_Nil [simp]: "keyed key []"
  by (simp add: keyed_def map_specs)

lemma keyed_load: "keyed key (map_load key vs)"
  by (induction vs rule: rev_induct) (simp_all add: map_load_snoc keyed_set, simp add: map_load_def)

lemma map_values_update:
  "map_get m k = Some v \<Longrightarrow> f v' = f v \<Longrightarrow> map f (map_values (map_set k v' m)) = map f (map_values m)"
  by (induction m) (auto simp: map_get_def map_values_def split: if_splits)

subsection \<open>Bytes\<close>

type_synonym bytes = "8 word list"

text \<open>Big-endian reading and fixed-width writing of an unsigned integer.\<close>

definition be_nat :: "bytes \<Rightarrow> nat" where
  "be_nat bs = foldl (\<lambda>acc b. acc * 256 + unat b) 0 bs"

fun be_bytes :: "nat \<Rightarrow> nat \<Rightarrow> bytes" where
  "be_bytes 0 n = []"
| "be_bytes (Suc w) n = be_bytes w (n div 256) @ [of_nat (n mod 256)]"

lemma length_be_bytes [simp]: "length (be_bytes w n) = w"
  by (induction w arbitrary: n) auto

lemma be_nat_snoc: "be_nat (bs @ [b]) = be_nat bs * 256 + unat b"
  by (simp add: be_nat_def)

lemma unat_byte: "unat (b :: 8 word) < 256"
  using unsigned_less [of b, where 'a = nat] by simp

lemma unat_of_nat_byte: "unat (of_nat (n mod 256) :: 8 word) = n mod 256"
  by (simp add: unat_of_nat take_bit_eq_mod)

lemma be_nat_be_bytes: "be_nat (be_bytes w n) = n mod 256 ^ w"
proof (induction w arbitrary: n)
  case 0
  then show ?case by (simp add: be_nat_def)
next
  case (Suc w)
  have "n mod 256 ^ Suc w = (n div 256) mod 256 ^ w * 256 + n mod 256"
    by (metis mod_mult2_eq mult.commute power_Suc add.commute)
  with Suc show ?case by (simp add: be_nat_snoc unat_of_nat_byte)
qed

lemma be_nat_bound: "be_nat bs < 256 ^ length bs"
proof (induction bs rule: rev_induct)
  case Nil
  then show ?case by (simp add: be_nat_def)
next
  case (snoc b bs)
  have "unat b < 256" by (rule unat_byte)
  with snoc show ?case by (simp add: be_nat_snoc)
qed

lemma be_bytes_be_nat: "be_bytes (length bs) (be_nat bs) = bs"
proof (induction bs rule: rev_induct)
  case Nil
  then show ?case by simp
next
  case (snoc b bs)
  have b: "unat b < 256" by (rule unat_byte)
  have "of_nat (unat b) = b" by simp
  with snoc b show ?case by (simp add: be_nat_snoc)
qed

text \<open>\<open>TextEncoder\<close>: strings are their UTF-8 bytes, so encoding only changes the type.\<close>

definition text_encode :: "string \<Rightarrow> bytes" where
  "text_encode s = map (\<lambda>c. of_nat (of_char c)) s"

lemma text_encode_inj: "text_encode a = text_encode b \<longleftrightarrow> a = b"
proof -
  have "inj (\<lambda>c. of_nat (of_char c) :: 8 word)"
    by (rule inj_on_inverseI [of _ "\<lambda>w. char_of (unat w)"]) (simp add: unat_of_nat take_bit_eq_mod)
  then show ?thesis by (simp add: text_encode_def inj_map_eq_map)
qed

lemma length_text_encode [simp]: "length (text_encode s) = length s"
  by (simp add: text_encode_def)

end
