(* ===== verification/Json_Canonical.thy ===== *)
theory Json_Canonical
  imports Saep_Prelude
begin

text \<open>
  The output of \<open>JSON.stringify\<close> on a flat object whose values are strings, integers and
  \<open>null\<close>: the form in which attestations, envelopes, proxy requests and cancel requests are
  signed. Strings are UTF-8 bytes, so the text is also what \<open>TextEncoder\<close> makes of it. The
  result of the theory is that the text determines the object, fields and values
  (\<open>json_obj_inj\<close>): a signature over it binds every field.
\<close>

datatype jval = JStr string | JNum int | JNull

definition hex_digit :: "nat \<Rightarrow> char" where
  "hex_digit n = (if n < 10 then char_of (48 + n) else char_of (87 + n))"

definition json_escape :: "char \<Rightarrow> string" where
  "json_escape c =
     (let n = (of_char c :: nat) in
      if n = 34 then [CHR 0x5C, CHR 0x22]
      else if n = 92 then [CHR 0x5C, CHR 0x5C]
      else if n = 8 then [CHR 0x5C, CHR ''b'']
      else if n = 9 then [CHR 0x5C, CHR ''t'']
      else if n = 10 then [CHR 0x5C, CHR ''n'']
      else if n = 12 then [CHR 0x5C, CHR ''f'']
      else if n = 13 then [CHR 0x5C, CHR ''r'']
      else if n < 32 then [CHR 0x5C, CHR ''u'', CHR ''0'', CHR ''0'', hex_digit (n div 16), hex_digit (n mod 16)]
      else [c])"

definition json_string :: "string \<Rightarrow> string" where
  "json_string s = CHR 0x22 # concat (map json_escape s) @ [CHR 0x22]"

fun json_val :: "jval \<Rightarrow> string" where
  "json_val (JStr s) = json_string s"
| "json_val (JNum k) = show_int k"
| "json_val JNull = ''null''"

definition json_field :: "string \<times> jval \<Rightarrow> string" where
  "json_field f = json_string (fst f) @ '':'' @ json_val (snd f)"

definition json_obj :: "(string \<times> jval) list \<Rightarrow> string" where
  "json_obj fs = ''{'' @ join '','' (map json_field fs) @ ''}''"

subsection \<open>Strings\<close>

lemma json_escape_nonempty [simp]: "json_escape c \<noteq> []"
  by (simp add: json_escape_def Let_def)

lemma json_escape_Cons: "\<exists>a r. json_escape c = a # r \<and> a \<noteq> CHR 0x22"
  by (auto simp: json_escape_def Let_def)

text \<open>A decoder for one escaped character; it exists for the proof that escapes are prefix-free.\<close>

definition unhex :: "char \<Rightarrow> nat" where
  "unhex c = (let n = (of_char c :: nat) in if n < 58 then n - 48 else n - 87)"

lemma unhex_hex_digit [simp]: "n < 16 \<Longrightarrow> unhex (hex_digit n) = n"
  by (auto simp: unhex_def hex_digit_def Let_def of_char_of)

definition unescape :: "string \<Rightarrow> char \<times> string" where
  "unescape s =
     (if hd s \<noteq> CHR 0x5C then (hd s, tl s)
      else let e = s ! 1 in
        if e = CHR ''u'' then (char_of (16 * unhex (s ! 4) + unhex (s ! 5)), drop 6 s)
        else (if e = CHR ''b'' then CHR 0x08 else if e = CHR ''t'' then CHR 0x09 else if e = CHR ''n'' then CHR 0x0A
              else if e = CHR ''f'' then CHR 0x0C else if e = CHR ''r'' then CHR 0x0D else e, drop 2 s))"

lemma unescape_json_escape: "unescape (json_escape c @ x) = (c, x)"
proof -
  have code: "c = e \<longleftrightarrow> (of_char c :: nat) = of_char e" for e
    by simp
  have code': "e = c \<longleftrightarrow> (of_char c :: nat) = of_char e" for e
    by auto
  note codes = code' [of "CHR 0x22"] code' [of "CHR 0x5C"] code' [of "CHR 0x08"] code' [of "CHR 0x09"]
    code' [of "CHR 0x0A"] code' [of "CHR 0x0C"] code' [of "CHR 0x0D"]
  let ?n = "of_char c :: nat"
  have hex: "char_of (16 * (?n div 16) + ?n mod 16) = c" by simp
  show ?thesis
    using hex by (simp add: unescape_def json_escape_def Let_def code [of "CHR 0x5C"] codes)
qed

lemma json_escape_prefix_free:
  assumes "json_escape c @ x = json_escape d @ y"
  shows "c = d \<and> x = y"
  using arg_cong [OF assms, of unescape] by (simp add: unescape_json_escape)

lemma json_escapes_inj:
  "concat (map json_escape s) @ CHR 0x22 # x = concat (map json_escape t) @ CHR 0x22 # y
   \<Longrightarrow> s = t \<and> x = y"
proof (induction s arbitrary: t)
  case Nil
  show ?case
  proof (cases t)
    case (Cons d t')
    obtain a r where "json_escape d = a # r" "a \<noteq> CHR 0x22" using json_escape_Cons by blast
    with Nil Cons show ?thesis by simp
  qed (use Nil in simp)
next
  case (Cons c s)
  show ?case
  proof (cases t)
    case Nil
    obtain a r where "json_escape c = a # r" "a \<noteq> CHR 0x22" using json_escape_Cons by blast
    with Cons.prems Nil show ?thesis by simp
  next
    case (Cons d t')
    from Cons.prems have "json_escape c @ (concat (map json_escape s) @ CHR 0x22 # x)
        = json_escape d @ (concat (map json_escape t') @ CHR 0x22 # y)"
      by (simp add: Cons)
    from json_escape_prefix_free [OF this] Cons.IH [of t'] show ?thesis by (simp add: Cons)
  qed
qed

lemma json_string_inj: "json_string s @ x = json_string t @ y \<Longrightarrow> s = t \<and> x = y"
  using json_escapes_inj [of s x t y] by (simp add: json_string_def)

subsection \<open>Values and objects\<close>

definition num_char :: "char \<Rightarrow> bool" where
  "num_char c = (is_digit c \<or> c = CHR ''-'')"

lemma show_int_chars: "list_all num_char (show_int k)"
  using show_nat_digits by (auto simp: show_int_def num_char_def list_all_iff)

lemma show_int_nonempty [simp]: "show_int k \<noteq> []"
  by (simp add: show_int_def)

lemma show_nat_hd: "hd (show_nat n) \<noteq> CHR ''-''"
  using show_nat_digits [of n] by (cases "show_nat n") (auto simp: is_digit_def)

lemma show_int_inj [simp]: "show_int k = show_int l \<longleftrightarrow> k = l"
proof
  assume eq: "show_int k = show_int l"
  have minus: "CHR ''-'' # s \<noteq> show_nat n" "show_nat n \<noteq> CHR ''-'' # s" for s n
    using show_nat_hd [of n] by (metis list.sel(1))+
  show "k = l"
    using eq minus by (auto simp: show_int_def split: if_splits)
qed simp

lemma num_prefix_inj:
  assumes "list_all num_char u" and "list_all num_char v" and "\<not> num_char c" and "\<not> num_char d"
    and "u @ c # x = v @ d # y"
  shows "u = v \<and> c # x = d # y"
proof -
  have "takeWhile num_char (u @ c # x) = u" "takeWhile num_char (v @ d # y) = v"
    using assms(1-4) by (simp_all add: list_all_iff takeWhile_append2)
  with assms(5) have "u = v" by simp
  with assms(5) show ?thesis by simp
qed

text \<open>A value is followed by a comma or a closing bracket, which no number contains.\<close>

lemma json_val_prefix_inj:
  assumes "json_val v @ c # x = json_val w @ d # y" and nc: "\<not> num_char c" "\<not> num_char d"
  shows "v = w \<and> c # x = d # y"
proof -
  have num_hd: "\<exists>e r. show_int k = e # r \<and> num_char e" for k
    using show_int_chars [of k] by (cases "show_int k") auto
  have quote: "CHR 0x22 # s \<noteq> show_int k @ t" "show_int k @ t \<noteq> CHR 0x22 # s" for s k t
    using num_hd [of k] by (auto simp: num_char_def is_digit_def)
  have nul: "CHR ''n'' # s \<noteq> show_int k @ t" "show_int k @ t \<noteq> CHR ''n'' # s" for s k t
    using num_hd [of k] by (auto simp: num_char_def is_digit_def)
  show ?thesis
  proof (cases v; cases w)
    fix s t assume "v = JStr s" "w = JStr t"
    with assms(1) json_string_inj [of s "c # x" t "d # y"] show ?thesis by simp
  next
    fix k l assume "v = JNum k" "w = JNum l"
    with assms(1) num_prefix_inj [OF show_int_chars show_int_chars nc, of k x l y] show ?thesis by simp
  qed (use assms(1) quote nul in \<open>simp_all add: json_string_def\<close>)
qed

lemma json_val_inj:
  assumes "json_val v @ c # x = json_val w @ d # y" and "c \<in> {CHR '','', CHR ''}''}" and "d \<in> {CHR '','', CHR ''}''}"
  shows "v = w \<and> c # x = d # y"
  using assms by (intro json_val_prefix_inj) (auto simp: num_char_def is_digit_def)

lemma json_fields_inj:
  "join '','' (map json_field fs) @ ''}'' @ x = join '','' (map json_field gs) @ ''}'' @ y \<Longrightarrow> fs = gs \<and> x = y"
proof (induction fs arbitrary: gs rule: list.induct)
  case Nil
  then show ?case
    by (cases gs; cases "tl gs") (auto simp: json_field_def json_string_def)
next
  case (Cons f fs)
  obtain k v where f: "f = (k, v)" by (cases f)
  have tail: "\<exists>c r. join '','' (map json_field (h # hs)) @ ''}'' @ z = json_field h @ c # r
      \<and> c \<in> {CHR '','', CHR ''}''} \<and> (c = CHR ''}'' \<longleftrightarrow> hs = []) \<and>
      r = (if hs = [] then z else join '','' (map json_field hs) @ ''}'' @ z)" for h hs z
    by (cases hs) auto
  show ?case
  proof (cases gs)
    case Nil
    with Cons.prems show ?thesis by (cases fs) (auto simp: json_field_def json_string_def)
  next
    case (Cons g gs')
    obtain l w where g: "g = (l, w)" by (cases g)
    obtain c r where 1: "join '','' (map json_field (f # fs)) @ ''}'' @ x = json_field f @ c # r"
      "c \<in> {CHR '','', CHR ''}''}" "c = CHR ''}'' \<longleftrightarrow> fs = []"
      "r = (if fs = [] then x else join '','' (map json_field fs) @ ''}'' @ x)"
      using tail by blast
    obtain d s where 2: "join '','' (map json_field (g # gs')) @ ''}'' @ y = json_field g @ d # s"
      "d \<in> {CHR '','', CHR ''}''}" "d = CHR ''}'' \<longleftrightarrow> gs' = []"
      "s = (if gs' = [] then y else join '','' (map json_field gs') @ ''}'' @ y)"
      using tail by blast
    have eq: "json_string k @ '':'' @ json_val v @ c # r = json_string l @ '':'' @ json_val w @ d # s"
      using Cons.prems [unfolded Cons 1(1) 2(1)] by (simp only: json_field_def f g fst_conv snd_conv append_assoc)
    then have kl: "k = l" and "json_val v @ c # r = json_val w @ d # s"
      using json_string_inj [OF eq] by simp_all
    from json_val_inj [OF this(2) 1(2) 2(2)] have vw: "v = w" and cd: "c = d" "r = s"
      by simp_all
    have fg: "fs = [] \<longleftrightarrow> gs' = []" using cd(1) 1(3) 2(3) by simp
    have "fs = gs' \<and> x = y"
    proof (cases "fs = []")
      case True
      with fg cd(2) 1(4) 2(4) show ?thesis by simp
    next
      case False
      with fg cd(2) 1(4) 2(4) show ?thesis by (intro Cons.IH) simp
    qed
    with kl vw show ?thesis by (simp add: f g Cons)
  qed
qed

lemma json_obj_inj: "json_obj fs = json_obj gs \<longleftrightarrow> fs = gs"
  using json_fields_inj [of fs "[]" gs "[]"] by (auto simp: json_obj_def)


text \<open>An array of values.\<close>

definition json_arr :: "jval list \<Rightarrow> string" where
  "json_arr vs = ''['' @ join '','' (map json_val vs) @ '']''"

lemma json_val_Cons: "\<exists>a r. json_val v = a # r \<and> a \<noteq> CHR '']''"
proof (cases v)
  case (JNum k)
  then show ?thesis using show_int_chars [of k] by (cases "show_int k") (auto simp: num_char_def is_digit_def)
qed (simp_all add: json_string_def)

lemma json_vals_inj:
  "join '','' (map json_val vs) @ '']'' = join '','' (map json_val ws) @ '']'' \<Longrightarrow> vs = ws"
proof (induction vs arbitrary: ws rule: list.induct)
  case Nil
  then show ?case using json_val_Cons [of "hd ws"] by (cases ws; cases "tl ws") auto
next
  case (Cons v vs)
  have tail: "\<exists>c r. join '','' (map json_val (u # us)) @ '']'' = json_val u @ c # r \<and> \<not> num_char c \<and> (c = CHR '']'' \<longleftrightarrow> us = [])
      \<and> r = (if us = [] then [] else join '','' (map json_val us) @ '']'')" for u us
    by (cases us) (auto simp: num_char_def is_digit_def)
  show ?case
  proof (cases ws)
    case Nil
    with Cons.prems json_val_Cons [of v] show ?thesis by (cases vs) auto
  next
    case (Cons w ws')
    obtain c r where 1: "join '','' (map json_val (v # vs)) @ '']'' = json_val v @ c # r" "\<not> num_char c" "c = CHR '']'' \<longleftrightarrow> vs = []"
      "r = (if vs = [] then [] else join '','' (map json_val vs) @ '']'')" using tail by blast
    obtain d s where 2: "join '','' (map json_val (w # ws')) @ '']'' = json_val w @ d # s" "\<not> num_char d" "d = CHR '']'' \<longleftrightarrow> ws' = []"
      "s = (if ws' = [] then [] else join '','' (map json_val ws') @ '']'')" using tail by blast
    have "json_val v @ c # r = json_val w @ d # s" using Cons.prems [unfolded Cons 1(1) 2(1)] .
    from json_val_prefix_inj [OF this 1(2) 2(2)] have e: "v = w" "c = d" "r = s" by simp_all
    have "vs = ws'"
    proof (cases "vs = []")
      case True
      with e(2) 1(3) 2(3) show ?thesis by simp
    next
      case False
      with e 1(3,4) 2(3,4) show ?thesis by (intro Cons.IH) simp
    qed
    with e show ?thesis by (simp add: Cons)
  qed
qed

lemma json_arr_inj: "json_arr vs = json_arr ws \<longleftrightarrow> vs = ws"
  using json_vals_inj [of vs ws] by (auto simp: json_arr_def)

end
