(* ===== verification/Compute_Bond.thy ===== *)
theory Compute_Bond
  imports Json_Canonical
begin

text \<open>
  The compute-bond record of \<open>packages/sdk/src/research/compute-bond.ts\<close>: its data, the
  validation of records and transitions, and the transition function. The contract is the
  small lifecycle \<open>bond_life\<close>: a reservation is locked to one task, then released or slashed
  for that task, or cancelled before it is locked, or expires after its slashable window. The
  lemmas show that the validated transitions are exactly the guarded steps of that lifecycle,
  that they keep a record valid, and that closed bonds stay closed.
\<close>

named_theorems bond_defs \<open>definitions of the compute-bond component\<close>

subsection \<open>Data\<close>

datatype ComputeBondProvider = Ionet | Akash

datatype ComputeBondStatus = Reserved | Locked | Released | Slashed | Cancelled | Expired

record ComputeBondAttestationPayload =
  agent_did :: string
  provider :: ComputeBondProvider
  lease_id :: string
  gpu_hours :: rat
  expires_at :: rat

record ComputeBondRecord = ComputeBondAttestationPayload +
  attestation_sig :: string
  broker_pubkey :: string
  reserved_price_usd_micro :: rat
  slashable_until :: rat
  task_id :: "string option"
  status :: ComputeBondStatus
  created_at_ms :: rat
  updated_at_ms :: rat
  status_reason :: "string option"

datatype ComputeBondTransition =
    Lock string rat
  | Release string rat
  | Slash string rat "string option"
  | Cancel rat
  | Expire rat

fun now_ms :: "ComputeBondTransition \<Rightarrow> rat" where
  "now_ms (Lock t n) = n"
| "now_ms (Release t n) = n"
| "now_ms (Slash t n r) = n"
| "now_ms (Cancel n) = n"
| "now_ms (Expire n) = n"

fun provider_str :: "ComputeBondProvider \<Rightarrow> string" where
  "provider_str Ionet = ''ionet''"
| "provider_str Akash = ''akash''"

fun status_str :: "ComputeBondStatus \<Rightarrow> string" where
  "status_str Reserved = ''reserved''"
| "status_str Locked = ''locked''"
| "status_str Released = ''released''"
| "status_str Slashed = ''slashed''"
| "status_str Cancelled = ''cancelled''"
| "status_str Expired = ''expired''"

definition terminal :: "ComputeBondStatus \<Rightarrow> bool" where
  "terminal s = (s \<in> {Released, Slashed, Cancelled, Expired})"

subsection \<open>Operations\<close>

text \<open>The numbers of an attestation are integers wherever it is signed; \<open>floor\<close> reads them.\<close>

definition canonicalComputeBondAttestation :: "'a ComputeBondAttestationPayload_scheme \<Rightarrow> string" where
  "canonicalComputeBondAttestation p = json_obj
     [(''agent_did'', JStr (agent_did p)),
      (''provider'', JStr (provider_str (provider p))),
      (''lease_id'', JStr (lease_id p)),
      (''gpu_hours'', JNum \<lfloor>gpu_hours p\<rfloor>),
      (''expires_at'', JNum \<lfloor>expires_at p\<rfloor>)]"

definition validateComputeBondAttestation :: "'a ComputeBondAttestationPayload_scheme \<Rightarrow> string list" where
  "validateComputeBondAttestation p =
     (if length (agent_did p) < 16 then [''agent_did is too short''] else []) @
     (if length (lease_id p) = 0 then [''lease_id is required''] else []) @
     (if \<not> isInteger (gpu_hours p) \<or> gpu_hours p \<le> 0 then [''gpu_hours must be a positive integer''] else []) @
     (if \<not> isInteger (expires_at p) \<or> expires_at p \<le> 0 then [''expires_at must be a positive integer''] else [])"

definition validateComputeBondRecord :: "ComputeBondRecord \<Rightarrow> string list" where
  "validateComputeBondRecord r =
     validateComputeBondAttestation r @
     (if reserved_price_usd_micro r < 0 then [''reserved_price_usd_micro must be non-negative''] else []) @
     (if \<not> isInteger (slashable_until r) \<or> slashable_until r < expires_at r
      then [''slashable_until must be >= expires_at''] else []) @
     (if \<not> isInteger (created_at_ms r) \<or> created_at_ms r \<le> 0
      then [''created_at_ms must be a positive integer''] else []) @
     (if \<not> isInteger (updated_at_ms r) \<or> updated_at_ms r < created_at_ms r
      then [''updated_at_ms must be >= created_at_ms''] else []) @
     (if status r = Locked \<and> \<not> truthy (task_id r) then [''locked bonds must carry task_id''] else []) @
     (if terminal (status r) \<and> task_id r = Some [] then [''task_id cannot be empty''] else [])"

fun validateComputeBondTransition :: "ComputeBondRecord \<Rightarrow> ComputeBondTransition \<Rightarrow> string list" where
  "validateComputeBondTransition r (Lock t n) =
     (if status r = Locked \<and> task_id r = Some t then []
      else
        (if status r \<noteq> Reserved then [''bond cannot lock from status '' @ status_str (status r)] else []) @
        (if truthy (task_id r) \<and> task_id r \<noteq> Some t then [''bond is already bound to another task''] else []) @
        (if n / 1000 \<ge> expires_at r then [''bond reservation has already expired''] else []))"
| "validateComputeBondTransition r (Release t n) =
     (if status r = Released \<and> task_id r = Some t then []
      else
        (if status r \<noteq> Locked then [''bond cannot release from status '' @ status_str (status r)] else []) @
        (if task_id r \<noteq> Some t then [''release task_id does not match locked task''] else []))"
| "validateComputeBondTransition r (Slash t n reason) =
     (if status r = Slashed \<and> task_id r = Some t then []
      else
        (if status r \<noteq> Locked then [''bond cannot slash from status '' @ status_str (status r)] else []) @
        (if task_id r \<noteq> Some t then [''slash task_id does not match locked task''] else []))"
| "validateComputeBondTransition r (Cancel n) =
     (if status r = Cancelled then []
      else (if status r \<noteq> Reserved then [''bond cannot cancel from status '' @ status_str (status r)] else []))"
| "validateComputeBondTransition r (Expire n) =
     (if status r = Expired then []
      else
        (if terminal (status r) then [''bond cannot expire from status '' @ status_str (status r)] else []) @
        (if n / 1000 < slashable_until r then [''slashable window is still active''] else []))"

fun applyComputeBond :: "ComputeBondRecord \<Rightarrow> ComputeBondTransition \<Rightarrow> ComputeBondRecord" where
  "applyComputeBond r (Lock t n) =
     r\<lparr>status := Locked, task_id := Some t, updated_at_ms := n, status_reason := None\<rparr>"
| "applyComputeBond r (Release t n) =
     r\<lparr>status := Released, updated_at_ms := n, status_reason := None\<rparr>"
| "applyComputeBond r (Slash t n reason) =
     r\<lparr>status := Slashed, updated_at_ms := n,
       status_reason := Some (case reason of None \<Rightarrow> ''task slashed'' | Some x \<Rightarrow> x)\<rparr>"
| "applyComputeBond r (Cancel n) =
     r\<lparr>status := Cancelled, updated_at_ms := n, status_reason := Some ''agent cancelled reservation''\<rparr>"
| "applyComputeBond r (Expire n) =
     r\<lparr>status := Expired, updated_at_ms := n, status_reason := Some ''slashable window elapsed''\<rparr>"

definition transitionComputeBond :: "ComputeBondRecord \<Rightarrow> ComputeBondTransition \<Rightarrow> ComputeBondRecord js" where
  "transitionComputeBond r t =
     (let errors = validateComputeBondTransition r t in
      if errors \<noteq> [] then Inl (join ''; '' errors) else Inr (applyComputeBond r t))"

text \<open>A history of accepted transitions of one bond.\<close>

fun bond_run :: "ComputeBondRecord \<Rightarrow> ComputeBondTransition list \<Rightarrow> ComputeBondRecord js" where
  "bond_run r [] = Inr r"
| "bond_run r (t # ts) = (case transitionComputeBond r t of Inl e \<Rightarrow> Inl e | Inr r' \<Rightarrow> bond_run r' ts)"

subsection \<open>The contract\<close>

datatype bond_life =
    Open
  | Bound string
  | Paid string
  | Punished string
  | Withdrawn
  | Elapsed "string option"

inductive life_step :: "bond_life \<Rightarrow> bond_life \<Rightarrow> bool" where
  bind: "t \<noteq> [] \<Longrightarrow> life_step Open (Bound t)"
| pay: "life_step (Bound t) (Paid t)"
| punish: "life_step (Bound t) (Punished t)"
| withdraw: "life_step Open Withdrawn"
| elapse_open: "life_step Open (Elapsed None)"
| elapse_bound: "life_step (Bound t) (Elapsed (Some t))"

inductive_cases life_step_PaidE: "life_step (Paid t) l"
inductive_cases life_step_PunishedE: "life_step (Punished t) l"
inductive_cases life_step_WithdrawnE: "life_step Withdrawn l"
inductive_cases life_step_ElapsedE: "life_step (Elapsed t) l"

fun task_of :: "ComputeBondRecord \<Rightarrow> string" where
  "task_of r = (case task_id r of None \<Rightarrow> [] | Some t \<Rightarrow> t)"

definition bond_abs :: "ComputeBondRecord \<Rightarrow> bond_life" where
  "bond_abs r = (case status r of
     Reserved \<Rightarrow> Open
   | Locked \<Rightarrow> Bound (task_of r)
   | Released \<Rightarrow> Paid (task_of r)
   | Slashed \<Rightarrow> Punished (task_of r)
   | Cancelled \<Rightarrow> Withdrawn
   | Expired \<Rightarrow> Elapsed (task_id r))"

text \<open>The task of a bond agrees with its status: what every bond the broker creates satisfies.\<close>

definition bond_wf :: "ComputeBondRecord \<Rightarrow> bool" where
  "bond_wf r = (case status r of
     Reserved \<Rightarrow> task_id r = None
   | Cancelled \<Rightarrow> task_id r = None
   | Expired \<Rightarrow> task_id r \<noteq> Some []
   | _ \<Rightarrow> truthy (task_id r))"

text \<open>Transitions as the broker issues them: a task id of at least one character.\<close>

fun named_task :: "ComputeBondTransition \<Rightarrow> bool" where
  "named_task (Lock t n) = (t \<noteq> [])"
| "named_task _ = True"

text \<open>The guard of each transition, with the idempotent repeats of the code.\<close>

fun bond_guard :: "ComputeBondRecord \<Rightarrow> ComputeBondTransition \<Rightarrow> bool" where
  "bond_guard r (Lock t n) =
     ((status r = Locked \<and> task_id r = Some t) \<or>
      (status r = Reserved \<and> task_id r \<in> {None, Some [], Some t} \<and> n / 1000 < expires_at r))"
| "bond_guard r (Release t n) = (status r \<in> {Locked, Released} \<and> task_id r = Some t)"
| "bond_guard r (Slash t n reason) = (status r \<in> {Locked, Slashed} \<and> task_id r = Some t)"
| "bond_guard r (Cancel n) = (status r \<in> {Reserved, Cancelled})"
| "bond_guard r (Expire n) =
     (status r = Expired \<or> (status r \<in> {Reserved, Locked} \<and> slashable_until r \<le> n / 1000))"

lemmas [bond_defs] = transitionComputeBond_def bond_abs_def bond_wf_def terminal_def

subsection \<open>Lemmas\<close>

lemma validate_iff_guard: "validateComputeBondTransition r t = [] \<longleftrightarrow> bond_guard r t"
  by (cases t; cases "status r"; cases "task_id r") (auto simp: terminal_def)

lemma transition_Inr: "transitionComputeBond r t = Inr r' \<longleftrightarrow> bond_guard r t \<and> r' = applyComputeBond r t"
  by (auto simp: transitionComputeBond_def Let_def validate_iff_guard)

lemma transition_ok_iff: "js_ok (transitionComputeBond r t) \<longleftrightarrow> bond_guard r t"
  by (simp add: transitionComputeBond_def Let_def validate_iff_guard)

lemma transition_guarded: "bond_guard r t \<Longrightarrow> transitionComputeBond r t = Inr (applyComputeBond r t)"
  by (simp add: transition_Inr)

lemma apply_keeps [simp]:
  "agent_did (applyComputeBond r t) = agent_did r"
  "provider (applyComputeBond r t) = provider r"
  "lease_id (applyComputeBond r t) = lease_id r"
  "gpu_hours (applyComputeBond r t) = gpu_hours r"
  "expires_at (applyComputeBond r t) = expires_at r"
  "attestation_sig (applyComputeBond r t) = attestation_sig r"
  "broker_pubkey (applyComputeBond r t) = broker_pubkey r"
  "reserved_price_usd_micro (applyComputeBond r t) = reserved_price_usd_micro r"
  "slashable_until (applyComputeBond r t) = slashable_until r"
  "created_at_ms (applyComputeBond r t) = created_at_ms r"
  "updated_at_ms (applyComputeBond r t) = now_ms t"
  by (cases t; simp)+

lemma transition_wf:
  assumes "bond_wf r" and "named_task t" and "transitionComputeBond r t = Inr r'"
  shows "bond_wf r'"
  using assms by (cases t) (auto simp: bond_wf_def transition_Inr split: ComputeBondStatus.splits)

lemma transition_task_kept:
  assumes "task_id r = Some t" and "t \<noteq> []" and "transitionComputeBond r tr = Inr r'"
  shows "task_id r' = Some t"
  using assms by (cases tr) (auto simp: transition_Inr)

lemma bond_run_Cons:
  "bond_run r (t # ts) = Inr s \<longleftrightarrow> (\<exists>r'. transitionComputeBond r t = Inr r' \<and> bond_run r' ts = Inr s)"
  by (auto split: sum.splits)

lemma bond_run_append:
  "bond_run r (ts @ us) = Inr s \<longleftrightarrow> (\<exists>r'. bond_run r ts = Inr r' \<and> bond_run r' us = Inr s)"
  by (induction ts arbitrary: r) (auto simp: bond_run_Cons split: sum.splits)

lemma bond_run_invariant:
  assumes step: "\<And>r t r'. P r \<Longrightarrow> t \<in> set ts \<Longrightarrow> transitionComputeBond r t = Inr r' \<Longrightarrow> P r'"
    and "P r" and "bond_run r ts = Inr s"
  shows "P s"
  using assms
proof (induction ts arbitrary: r)
  case Nil
  then show ?case by simp
next
  case (Cons t ts)
  from Cons.prems(3) obtain r' where r': "transitionComputeBond r t = Inr r'" "bond_run r' ts = Inr s"
    unfolding bond_run_Cons by blast
  from Cons.prems(1) [OF Cons.prems(2) _ r'(1)] have "P r'" by simp
  then show ?case
    by (rule Cons.IH [rotated]) (use Cons.prems(1) r'(2) in auto)
qed

lemma bond_run_task_kept:
  assumes "task_id r = Some t" and "t \<noteq> []" and "bond_run r ts = Inr s"
  shows "task_id s = Some t"
  using bond_run_invariant [where P = "\<lambda>r. task_id r = Some t"] transition_task_kept assms by blast

lemma terminal_transition:
  assumes "terminal (status r)" and "transitionComputeBond r t = Inr r'"
  shows "status r' = status r \<and> task_id r' = task_id r"
  using assms by (cases t) (auto simp: transition_Inr terminal_def)

lemma life_closed:
  "life_step l l' \<Longrightarrow> l = Open \<or> (\<exists>t. l = Bound t)"
  by (auto elim: life_step.cases)

lemma refine_step:
  assumes "bond_wf r" and "named_task t" and "transitionComputeBond r t = Inr r'"
  shows "life_step (bond_abs r) (bond_abs r') \<or> bond_abs r' = bond_abs r"
  using assms
  by (cases t; cases "task_id r") (auto simp: transition_Inr bond_abs_def bond_wf_def
      split: ComputeBondStatus.splits intro: life_step.intros)

lemma provider_str_inj [simp]: "provider_str p = provider_str q \<longleftrightarrow> p = q"
  by (cases p; cases q) auto

lemma validate_record_iff:
  "validateComputeBondRecord r = [] \<longleftrightarrow>
     16 \<le> length (agent_did r) \<and> lease_id r \<noteq> [] \<and> isInteger (gpu_hours r) \<and> 0 < gpu_hours r \<and>
     isInteger (expires_at r) \<and> 0 < expires_at r \<and> 0 \<le> reserved_price_usd_micro r \<and>
     isInteger (slashable_until r) \<and> expires_at r \<le> slashable_until r \<and>
     isInteger (created_at_ms r) \<and> 0 < created_at_ms r \<and>
     isInteger (updated_at_ms r) \<and> created_at_ms r \<le> updated_at_ms r \<and>
     (status r = Locked \<longrightarrow> truthy (task_id r)) \<and> (terminal (status r) \<longrightarrow> task_id r \<noteq> Some [])"
  by (auto simp: validateComputeBondRecord_def validateComputeBondAttestation_def)

subsection \<open>A concrete bond, for the witnesses\<close>

definition sample_bond :: ComputeBondRecord where
  "sample_bond = \<lparr>agent_did = ''4Nd1mYQzvgV8Vr3Z3nYb7pD6T8K2jF2b'', provider = Ionet, lease_id = ''ionet-mock-1'',
     gpu_hours = 8, expires_at = 2000, attestation_sig = ''sig'', broker_pubkey = ''pk'',
     reserved_price_usd_micro = 80000000, slashable_until = 88400, task_id = None, status = Reserved,
     created_at_ms = 1000000, updated_at_ms = 1000000, status_reason = None\<rparr>"

lemma sample_bond_facts [simp]:
  "bond_wf sample_bond" "status sample_bond = Reserved" "task_id sample_bond = None"
  "expires_at sample_bond = 2000" "slashable_until sample_bond = 88400" "bond_abs sample_bond = Open"
  by (simp_all add: sample_bond_def bond_wf_def bond_abs_def)

lemma sample_bond_valid: "validateComputeBondRecord sample_bond = []"
  by (simp add: validate_record_iff sample_bond_def terminal_def)

definition sample_locked :: ComputeBondRecord where
  "sample_locked = applyComputeBond sample_bond (Lock ''task-1'' 1500000)"

lemma sample_lock: "transitionComputeBond sample_bond (Lock ''task-1'' 1500000) = Inr sample_locked"
  by (simp add: transition_Inr sample_locked_def)

lemma sample_locked_facts [simp]:
  "status sample_locked = Locked" "task_id sample_locked = Some ''task-1''"
  "bond_wf sample_locked" "slashable_until sample_locked = 88400"
  by (simp_all add: sample_locked_def bond_wf_def)

subsection \<open>Properties\<close>

text \<open>
  C4. Every history of accepted transitions of a bond is a path of the lifecycle
  open, bound, paid or punished or withdrawn or elapsed, up to idempotent repeats, and the bond's
  task keeps agreeing with its status.
\<close>

theorem bond_history_refines_lifecycle:
  assumes "bond_wf r" and "\<forall>t \<in> set ts. named_task t" and "bond_run r ts = Inr s"
  shows "life_step\<^sup>*\<^sup>* (bond_abs r) (bond_abs s) \<and> bond_wf s"
proof (rule bond_run_invariant [where P = "\<lambda>s. life_step\<^sup>*\<^sup>* (bond_abs r) (bond_abs s) \<and> bond_wf s", OF _ _ assms(3)])
  fix u t u'
  assume u: "life_step\<^sup>*\<^sup>* (bond_abs r) (bond_abs u) \<and> bond_wf u" and t: "t \<in> set ts"
    and tr: "transitionComputeBond u t = Inr u'"
  from t assms(2) have "named_task t" by blast
  with u tr refine_step transition_wf
  show "life_step\<^sup>*\<^sup>* (bond_abs r) (bond_abs u') \<and> bond_wf u'"
    by (metis rtranclp.rtrancl_into_rtrancl)
qed (use assms in simp)

theorem bond_history_refines_lifecycle_witness:
  "life_step\<^sup>*\<^sup>* Open (Paid ''task-1'')"
proof -
  let ?ts = "[Lock ''task-1'' 1500000, Release ''task-1'' 1600000]"
  let ?s = "applyComputeBond sample_locked (Release ''task-1'' 1600000)"
  have run: "bond_run sample_bond ?ts = Inr ?s"
    by (simp add: sample_lock transition_guarded)
  have "bond_abs ?s = Paid ''task-1''" by (simp add: bond_abs_def)
  with bond_history_refines_lifecycle [OF _ _ run] show ?thesis by simp
qed

text \<open>
  The code implements every step of the lifecycle: from a well-formed bond each
  lifecycle step is the effect of one transition, at some time, that the validation accepts.
\<close>

theorem bond_lifecycle_complete:
  assumes "bond_wf r" and "life_step (bond_abs r) l"
  shows "\<exists>t r'. transitionComputeBond r t = Inr r' \<and> bond_abs r' = l"
proof -
  have bound: "status r = Locked \<and> task_id r = Some t" if "bond_abs r = Bound t" for t
    using that assms(1) by (auto simp: bond_abs_def bond_wf_def split: ComputeBondStatus.splits option.splits)
  have free: "status r = Reserved \<and> task_id r = None" if "bond_abs r = Open"
    using that assms(1) by (auto simp: bond_abs_def bond_wf_def split: ComputeBondStatus.splits)
  from assms(2) show ?thesis
  proof cases
    case (bind t)
    with free show ?thesis
      by (intro exI [of _ "Lock t ((expires_at r - 1) * 1000)"]) (simp add: transition_Inr bond_abs_def)
  next
    case (pay t)
    with bound show ?thesis by (intro exI [of _ "Release t 0"]) (simp add: transition_Inr bond_abs_def)
  next
    case (punish t)
    with bound show ?thesis by (intro exI [of _ "Slash t 0 None"]) (simp add: transition_Inr bond_abs_def)
  next
    case withdraw
    with free show ?thesis by (intro exI [of _ "Cancel 0"]) (simp add: transition_Inr bond_abs_def)
  next
    case elapse_open
    with free show ?thesis
      by (intro exI [of _ "Expire (slashable_until r * 1000)"]) (simp add: transition_Inr bond_abs_def)
  next
    case (elapse_bound t)
    with bound show ?thesis
      by (intro exI [of _ "Expire (slashable_until r * 1000)"]) (simp add: transition_Inr bond_abs_def)
  qed
qed

theorem bond_lifecycle_complete_witness:
  "\<exists>t r'. transitionComputeBond sample_bond t = Inr r' \<and> bond_abs r' = Bound ''task-1''"
  using bond_lifecycle_complete [of sample_bond "Bound ''task-1''"] by (simp add: life_step.bind)



text \<open>
  A released, slashed, cancelled or expired bond stays so: whatever transitions follow and
  are accepted, its status and its task no longer change.
\<close>

theorem closed_bond_stays_closed:
  assumes "terminal (status r)" and "bond_run r ts = Inr s"
  shows "status s = status r \<and> task_id s = task_id r"
  using bond_run_invariant [where P = "\<lambda>s. status s = status r \<and> task_id s = task_id r", OF _ _ assms(2)]
    terminal_transition assms(1) by metis

theorem closed_bond_stays_closed_witness:
  "let r = applyComputeBond sample_locked (Slash ''task-1'' 1600000 None) in
   status (applyComputeBond r (Slash ''task-1'' 1700000 None)) = Slashed"
proof -
  let ?r = "applyComputeBond sample_locked (Slash ''task-1'' 1600000 None)"
  have "bond_run ?r [Slash ''task-1'' 1700000 None] = Inr (applyComputeBond ?r (Slash ''task-1'' 1700000 None))"
    by (simp add: transition_guarded)
  from closed_bond_stays_closed [OF _ this] show ?thesis by (simp add: terminal_def)
qed

text \<open>
  A bond serves one task: once it is locked to a task, every later lock, release or slash
  in its history is for that same task.
\<close>

theorem bond_serves_one_task:
  assumes "bond_wf r" and "\<forall>t \<in> set ts. named_task t" and "bond_run r ts = Inr m"
    and "status m = Locked" and "task_id m = Some t" and "bond_run m us = Inr s"
    and "transitionComputeBond s tr = Inr s'" and "tr \<in> {Lock t' n, Release t' n, Slash t' n reason}"
  shows "t' = t"
proof -
  have "bond_wf m"
    using bond_run_invariant [where P = bond_wf, OF _ assms(1,3)] transition_wf assms(2) by blast
  with assms(4,5) have "t \<noteq> []" by (simp add: bond_wf_def)
  with bond_run_task_kept assms(5,6) have ts: "task_id s = Some t" by blast
  with transition_task_kept \<open>t \<noteq> []\<close> assms(7) have "task_id s' = Some t" by blast
  with ts assms(7,8) show ?thesis by (auto simp: transition_Inr)
qed

theorem bond_serves_one_task_witness:
  "\<exists>s'. transitionComputeBond sample_locked (Release ''task-1'' 1600000) = Inr s' \<and> ''task-1'' = ''task-1''"
proof -
  have run: "bond_run sample_bond [Lock ''task-1'' 1500000] = Inr sample_locked"
    by (simp add: sample_lock)
  have rel: "transitionComputeBond sample_locked (Release ''task-1'' 1600000)
      = Inr (applyComputeBond sample_locked (Release ''task-1'' 1600000))"
    by (simp add: transition_Inr)
  have "''task-1'' = ''task-1''"
    by (rule bond_serves_one_task [OF _ _ run _ _ _ rel, where us = "[]" and n = 1600000]) simp_all
  with rel show ?thesis by blast
qed

text \<open>
  A reservation is locked only before it expires and a bond expires only after its
  slashable window, so in a valid record every fresh lock happens before every expiry.
\<close>

theorem lock_precedes_expiry:
  assumes "validateComputeBondRecord r = []"
    and "status r = Reserved" and "transitionComputeBond r (Lock t n) = Inr r'"
    and "bond_run r' us = Inr m" and "status m \<noteq> Expired" and "transitionComputeBond m (Expire k) = Inr s"
  shows "n < k \<and> n / 1000 < expires_at r \<and> slashable_until r \<le> k / 1000"
proof -
  have lock: "n / 1000 < expires_at r" "r' = applyComputeBond r (Lock t n)"
    using assms(2,3) by (auto simp: transition_Inr)
  have "slashable_until m = slashable_until r"
    using bond_run_invariant [where P = "\<lambda>x. slashable_until x = slashable_until r", OF _ _ assms(4)]
    by (simp add: lock(2) transition_Inr)
  with assms(5,6) have "slashable_until r \<le> k / 1000" by (auto simp: transition_Inr)
  moreover have "expires_at r \<le> slashable_until r" using assms(1) by (simp add: validate_record_iff)
  ultimately show ?thesis using lock(1) by linarith
qed

theorem lock_precedes_expiry_witness:
  "(1500000 :: rat) < 88400000 \<and> (1500000 :: rat) / 1000 < expires_at sample_bond
   \<and> slashable_until sample_bond \<le> (88400000 :: rat) / 1000"
proof -
  have ex: "transitionComputeBond sample_locked (Expire 88400000) = Inr (applyComputeBond sample_locked (Expire 88400000))"
    by (simp add: transition_Inr)
  show ?thesis
    by (rule lock_precedes_expiry [OF sample_bond_valid _ sample_lock, where us = "[]", OF _ _ _ ex]) simp_all
qed

text \<open>
  The signed attestation text determines the attestation: two payloads with integer hours
  and expiry that canonicalise to the same text agree in every attested field.
\<close>

theorem attestation_text_binds_payload:
  fixes p q :: ComputeBondRecord
  assumes "validateComputeBondAttestation p = []" and "validateComputeBondAttestation q = []"
    and "canonicalComputeBondAttestation p = canonicalComputeBondAttestation q"
  shows "agent_did p = agent_did q \<and> provider p = provider q \<and> lease_id p = lease_id q
    \<and> gpu_hours p = gpu_hours q \<and> expires_at p = expires_at q"
proof -
  have "isInteger (gpu_hours p)" "isInteger (gpu_hours q)" "isInteger (expires_at p)" "isInteger (expires_at q)"
    using assms(1,2) by (auto simp: validateComputeBondAttestation_def split: if_splits)
  with assms(3) show ?thesis
    by (simp add: canonicalComputeBondAttestation_def json_obj_inj isInteger_def)
qed

theorem attestation_text_binds_payload_witness:
  "lease_id sample_locked = lease_id sample_bond"
proof -
  have "validateComputeBondAttestation sample_bond = []" "validateComputeBondAttestation sample_locked = []"
    by (simp_all add: validateComputeBondAttestation_def sample_locked_def sample_bond_def)
  moreover have "canonicalComputeBondAttestation sample_locked = canonicalComputeBondAttestation sample_bond"
    by (simp add: canonicalComputeBondAttestation_def sample_locked_def)
  ultimately show ?thesis using attestation_text_binds_payload by blast
qed

end
