(* ===== verification/Bond_Registry.thy ===== *)
theory Bond_Registry
  imports Compute_Bond
begin

text \<open>
  The broker's registry of bonds, \<open>services/compute-broker/src/state.ts\<close>: an
  insertion-ordered map from lease ids to records, written to a JSON file after every change
  when a store is configured. \<open>JSON.stringify\<close> followed by \<open>JSON.parse\<close> is the identity on
  snapshots (strings, integers, null), so the file is modelled by the snapshot it holds. The
  locale \<open>bond_registry\<close> is what the broker's handlers rely on.
\<close>

subsection \<open>State\<close>

text \<open>\<open>store\<close> is \<open>None\<close> without a store, \<open>Some None\<close> while the file does not exist, and
  otherwise the bonds of the saved snapshot.\<close>

record registry =
  bonds :: "(string, ComputeBondRecord) jsmap"
  store :: "ComputeBondRecord list option option"

record bond_filters =
  f_agentDid :: "string option"
  f_taskId :: "string option"
  f_taskIds :: "string list option"
  f_status :: "ComputeBondStatus option"
  f_provider :: "ComputeBondProvider option"
  f_limit :: "int option"

subsection \<open>Operations\<close>

definition store_load :: "ComputeBondRecord list option \<Rightarrow> ComputeBondRecord list" where
  "store_load f = (case f of None \<Rightarrow> [] | Some bs \<Rightarrow> bs)"

definition load_bonds :: "ComputeBondRecord list \<Rightarrow> (string, ComputeBondRecord) jsmap" where
  "load_bonds bs = foldl (\<lambda>m b. map_set (lease_id b) b m) [] bs"

definition new_registry :: "ComputeBondRecord list option option \<Rightarrow> registry" where
  "new_registry st = \<lparr>bonds = load_bonds (case st of None \<Rightarrow> [] | Some f \<Rightarrow> store_load f), store = st\<rparr>"

definition reg_get :: "registry \<Rightarrow> string \<Rightarrow> ComputeBondRecord option" where
  "reg_get g k = map_get (bonds g) k"

definition bond_matches :: "bond_filters \<Rightarrow> ComputeBondRecord \<Rightarrow> bool" where
  "bond_matches f b =
     ((truthy (f_agentDid f) \<longrightarrow> f_agentDid f = Some (agent_did b)) \<and>
      (truthy (f_taskId f) \<longrightarrow> task_id b = f_taskId f) \<and>
      (case f_taskIds f of None \<Rightarrow> True
        | Some ids \<Rightarrow> truthy (task_id b) \<and> task_id b \<in> Some ` set ids) \<and>
      (case f_status f of None \<Rightarrow> True | Some s \<Rightarrow> status b = s) \<and>
      (case f_provider f of None \<Rightarrow> True | Some p \<Rightarrow> provider b = p))"

text \<open>\<open>String.prototype.localeCompare\<close> depends on the host's collation, so it is a parameter.\<close>

definition newest_first :: "(string \<Rightarrow> string \<Rightarrow> int) \<Rightarrow> ComputeBondRecord \<Rightarrow> ComputeBondRecord \<Rightarrow> int" where
  "newest_first localeCompare a b =
     (if updated_at_ms b - updated_at_ms a < 0 then -1
      else if updated_at_ms b - updated_at_ms a > 0 then 1
      else localeCompare (lease_id a) (lease_id b))"

definition reg_list :: "(string \<Rightarrow> string \<Rightarrow> int) \<Rightarrow> registry \<Rightarrow> bond_filters \<Rightarrow> ComputeBondRecord list" where
  "reg_list localeCompare g f =
     slice0 (case f_limit f of None \<Rightarrow> 50 | Some n \<Rightarrow> n)
       (js_sort (newest_first localeCompare) (filter (bond_matches f) (map_values (bonds g))))"

definition oldest_first :: "ComputeBondRecord \<Rightarrow> ComputeBondRecord \<Rightarrow> int" where
  "oldest_first a b =
     (if created_at_ms a - created_at_ms b < 0 then -1
      else if created_at_ms a - created_at_ms b > 0 then 1 else 0)"

definition snapshot :: "registry \<Rightarrow> ComputeBondRecord list" where
  "snapshot g = js_sort oldest_first (map_values (bonds g))"

definition persist :: "registry \<Rightarrow> registry" where
  "persist g = (case store g of None \<Rightarrow> g | Some _ \<Rightarrow> g\<lparr>store := Some (Some (snapshot g))\<rparr>)"

definition reserve :: "registry \<Rightarrow> ComputeBondRecord \<Rightarrow> registry \<times> ComputeBondRecord" where
  "reserve g r = (case reg_get g (lease_id r) of
     Some existing \<Rightarrow> (g, existing)
   | None \<Rightarrow> (persist (g\<lparr>bonds := map_set (lease_id r) r (bonds g)\<rparr>), r))"

definition replace :: "registry \<Rightarrow> ComputeBondRecord \<Rightarrow> registry" where
  "replace g r = persist (g\<lparr>bonds := map_set (lease_id r) r (bonds g)\<rparr>)"

definition reg_transition :: "registry \<Rightarrow> string \<Rightarrow> ComputeBondTransition \<Rightarrow> registry \<times> ComputeBondRecord js" where
  "reg_transition g k t = (case reg_get g k of
     None \<Rightarrow> (g, Inl ''bond not found'')
   | Some current \<Rightarrow> (case transitionComputeBond current t of
       Inl e \<Rightarrow> (g, Inl e)
     | Inr next \<Rightarrow> (persist (g\<lparr>bonds := map_set k next (bonds g)\<rparr>), Inr next)))"

subsection \<open>Invariant\<close>

text \<open>Keys are the lease ids of their records, and reading the file back gives the lookups of
  the registry in memory.\<close>

definition bonds_keyed :: "(string, ComputeBondRecord) jsmap \<Rightarrow> bool" where
  "bonds_keyed m = (map_ok m \<and> (\<forall>k r. map_get m k = Some r \<longrightarrow> lease_id r = k))"

definition durable :: "registry \<Rightarrow> bool" where
  "durable g = (\<forall>f. store g = Some f \<longrightarrow> map_get (load_bonds (store_load f)) = map_get (bonds g))"

definition reg_ok :: "registry \<Rightarrow> bool" where
  "reg_ok g = (bonds_keyed (bonds g) \<and> durable g)"

subsection \<open>Lemmas\<close>

lemma bonds_keyed_Nil [simp]: "bonds_keyed []"
  by (simp add: bonds_keyed_def map_specs)

lemma bonds_keyed_set: "bonds_keyed m \<Longrightarrow> bonds_keyed (map_set (lease_id r) r m)"
  by (auto simp: bonds_keyed_def map_specs)

lemma load_bonds_snoc: "load_bonds (bs @ [b]) = map_set (lease_id b) b (load_bonds bs)"
  by (simp add: load_bonds_def)

lemma bonds_keyed_load: "bonds_keyed (load_bonds bs)"
proof (induction bs rule: rev_induct)
  case Nil
  then show ?case by (simp add: load_bonds_def)
next
  case (snoc b bs)
  then show ?case by (simp add: load_bonds_snoc bonds_keyed_set)
qed

lemma load_bonds_get:
  "distinct (map lease_id bs) \<Longrightarrow> map_get (load_bonds bs) k = Some r \<longleftrightarrow> r \<in> set bs \<and> lease_id r = k"
proof (induction bs rule: rev_induct)
  case Nil
  then show ?case by (simp add: load_bonds_def map_specs)
next
  case (snoc b bs)
  then show ?case by (auto simp: load_bonds_snoc map_specs) (metis imageI)
qed

lemma bonds_keyed_ids:
  assumes "bonds_keyed m"
  shows "map lease_id (map_values m) = map_keys m"
proof -
  have "lease_id r = k" if "(k, r) \<in> set m" for k r
    using that assms map_get_map_of [of m k r] by (simp add: bonds_keyed_def)
  then show ?thesis by (auto simp: map_values_def map_keys_def)
qed

lemma load_snapshot:
  assumes "bonds_keyed m"
  shows "map_get (load_bonds (js_sort cmp (map_values m))) = map_get m"
proof
  fix k
  have ok: "map_ok m" using assms by (simp add: bonds_keyed_def)
  then have d: "distinct (map lease_id (js_sort cmp (map_values m)))"
    using bonds_keyed_ids [OF assms] by (simp add: map_ok_def)
  have "map_get (load_bonds (js_sort cmp (map_values m))) k = Some r \<longleftrightarrow> map_get m k = Some r" for r
    using assms map_values_get [OF ok, of r] by (auto simp: load_bonds_get [OF d] bonds_keyed_def)
  then show "map_get (load_bonds (js_sort cmp (map_values m))) k = map_get m k"
    by (metis option.exhaust)
qed

lemma persist_bonds [simp]: "bonds (persist g) = bonds g"
  by (simp add: persist_def split: option.splits)

lemma persist_store: "store (persist g) = (case store g of None \<Rightarrow> None | Some _ \<Rightarrow> Some (Some (snapshot g)))"
  by (simp add: persist_def split: option.splits)

lemma persist_ok: "bonds_keyed (bonds g) \<Longrightarrow> reg_ok (persist g)"
  by (auto simp: reg_ok_def durable_def persist_store store_load_def snapshot_def load_snapshot split: option.splits)

lemma reg_get_keyed: "reg_ok g \<Longrightarrow> reg_get g k = Some r \<Longrightarrow> lease_id r = k"
  by (simp add: reg_ok_def bonds_keyed_def reg_get_def)

lemma new_registry_ok: "reg_ok (new_registry st)"
  by (simp add: reg_ok_def durable_def new_registry_def bonds_keyed_load)

lemma transition_lease: "transitionComputeBond r t = Inr r' \<Longrightarrow> lease_id r' = lease_id r"
  by (auto simp: transition_Inr)

subsection \<open>What the broker relies on\<close>

locale bond_registry =
  fixes get :: "'g \<Rightarrow> string \<Rightarrow> ComputeBondRecord option"
    and res :: "'g \<Rightarrow> ComputeBondRecord \<Rightarrow> 'g \<times> ComputeBondRecord"
    and rep :: "'g \<Rightarrow> ComputeBondRecord \<Rightarrow> 'g"
    and trans :: "'g \<Rightarrow> string \<Rightarrow> ComputeBondTransition \<Rightarrow> 'g \<times> ComputeBondRecord js"
    and ok :: "'g \<Rightarrow> bool"
  assumes key: "ok g \<Longrightarrow> get g k = Some r \<Longrightarrow> lease_id r = k"
    and get_res: "get (fst (res g r)) k = (if k = lease_id r \<and> get g k = None then Some r else get g k)"
    and get_rep: "get (rep g r) k = (if k = lease_id r then Some r else get g k)"
    and trans_none: "get g k = None \<Longrightarrow> trans g k t = (g, Inl ''bond not found'')"
    and trans_err: "get g k = Some r \<Longrightarrow> transitionComputeBond r t = Inl e \<Longrightarrow> trans g k t = (g, Inl e)"
    and trans_ok: "get g k = Some r \<Longrightarrow> transitionComputeBond r t = Inr r' \<Longrightarrow>
      snd (trans g k t) = Inr r' \<and> get (fst (trans g k t)) k' = (if k' = k then Some r' else get g k')"
    and ok_res: "ok g \<Longrightarrow> ok (fst (res g r))"
    and ok_rep: "ok g \<Longrightarrow> ok (rep g r)"
    and ok_trans: "ok g \<Longrightarrow> ok (fst (trans g k t))"
begin

text \<open>Undoing a transition by replacing the record with the one read before it, as the
  handlers do when the provider call fails, restores every lookup.\<close>

lemma rollback:
  assumes "ok g" and "get g k = Some r" and "trans g k t = (g', Inr r')"
  shows "get (rep g' r) = get g"
proof
  fix k'
  have k: "lease_id r = k" using key assms(1,2) by blast
  have "transitionComputeBond r t = Inr r'"
    using assms(3) trans_err [OF assms(2), of t] trans_ok [OF assms(2), of t _ k]
    by (cases "transitionComputeBond r t") auto
  with trans_ok [OF assms(2) this] assms(2,3) show "get (rep g' r) k' = get g k'"
    by (simp add: get_rep k)
qed

text \<open>A transition touches one lease only.\<close>

lemma trans_frame:
  assumes "k' \<noteq> k"
  shows "get (fst (trans g k t)) k' = get g k'"
proof (cases "get g k")
  case None
  then show ?thesis by (simp add: trans_none)
next
  case (Some r)
  with assms trans_err trans_ok show ?thesis by (cases "transitionComputeBond r t") auto
qed

end

interpretation reg: bond_registry reg_get reserve replace reg_transition reg_ok
proof unfold_locales
  fix g :: registry and k k' :: string and r r' :: ComputeBondRecord and t e
  show "reg_ok g \<Longrightarrow> reg_get g k = Some r \<Longrightarrow> lease_id r = k" by (rule reg_get_keyed)
  show "reg_get (fst (reserve g r)) k = (if k = lease_id r \<and> reg_get g k = None then Some r else reg_get g k)"
    by (auto simp: reserve_def reg_get_def map_specs split: option.splits)
  show "reg_get (replace g r) k = (if k = lease_id r then Some r else reg_get g k)"
    by (simp add: replace_def reg_get_def map_specs)
  show "reg_get g k = None \<Longrightarrow> reg_transition g k t = (g, Inl ''bond not found'')"
    by (simp add: reg_transition_def)
  show "reg_get g k = Some r \<Longrightarrow> transitionComputeBond r t = Inl e \<Longrightarrow> reg_transition g k t = (g, Inl e)"
    by (simp add: reg_transition_def)
  show "reg_get g k = Some r \<Longrightarrow> transitionComputeBond r t = Inr r' \<Longrightarrow>
      snd (reg_transition g k t) = Inr r' \<and>
      reg_get (fst (reg_transition g k t)) k' = (if k' = k then Some r' else reg_get g k')"
    by (simp add: reg_transition_def reg_get_def map_specs)
  show "reg_ok g \<Longrightarrow> reg_ok (fst (reserve g r))"
    by (auto simp: reserve_def reg_ok_def [of g] bonds_keyed_set persist_ok split: option.splits)
  show "reg_ok g \<Longrightarrow> reg_ok (replace g r)"
    by (simp add: replace_def reg_ok_def [of g] bonds_keyed_set persist_ok)
  show "reg_ok g \<Longrightarrow> reg_ok (fst (reg_transition g k t))"
    by (auto simp: reg_transition_def reg_ok_def [of g] persist_ok split: option.splits sum.splits)
      (metis bonds_keyed_def bonds_keyed_set persist_ok reg_get_def transition_lease registry.select_convs(1)
        registry.surjective registry.update_convs(1))
qed

subsection \<open>Properties\<close>

datatype reg_op = Op_reserve ComputeBondRecord | Op_replace ComputeBondRecord | Op_transition string ComputeBondTransition

fun reg_apply :: "reg_op \<Rightarrow> registry \<Rightarrow> registry" where
  "reg_apply (Op_reserve r) g = fst (reserve g r)"
| "reg_apply (Op_replace r) g = replace g r"
| "reg_apply (Op_transition k t) g = fst (reg_transition g k t)"

lemma reg_apply_ok: "reg_ok g \<Longrightarrow> reg_ok (reg_apply op g)"
  by (cases op) (simp_all add: reg.ok_res reg.ok_rep reg.ok_trans)

lemma fold_reg_apply_ok: "reg_ok g \<Longrightarrow> reg_ok (fold reg_apply ops g)"
  by (induction ops arbitrary: g) (simp_all add: reg_apply_ok)

lemma bonds_op_store: "store g \<noteq> None \<Longrightarrow> store (reg_apply op g) \<noteq> None"
  by (cases op) (auto simp: reserve_def replace_def reg_transition_def persist_store split: option.splits sum.splits)

text \<open>
  C10. Restarting the broker loses no bond: after any sequence of registry operations on a
  registry with a store, a registry built from the file answers every lookup as the one in
  memory does.
\<close>

theorem registry_survives_restart:
  "reg_get (new_registry (store (fold reg_apply ops (new_registry (Some f)))))
   = reg_get (fold reg_apply ops (new_registry (Some f)))"
proof -
  let ?g = "fold reg_apply ops (new_registry (Some f))"
  have "store (fold reg_apply ops g) \<noteq> None" if "store g \<noteq> None" for g
    using that bonds_op_store by (induction ops arbitrary: g) (simp_all del: not_None_eq)
  then obtain h where h: "store ?g = Some h" by (fastforce simp: new_registry_def)
  have "durable ?g" using fold_reg_apply_ok [OF new_registry_ok] by (simp add: reg_ok_def)
  with h show ?thesis by (auto simp: durable_def new_registry_def reg_get_def fun_eq_iff)
qed

lemma newest_first_sorted:
  "sorted (map (\<lambda>b. - updated_at_ms b) (js_sort (newest_first lc) xs))"
  by (rule sorted_js_sort) (auto simp: newest_first_def split: if_splits)

lemma sorted_take_drop:
  assumes "sorted (map f xs)" and "x \<in> set (take n xs)" and "y \<in> set (drop n xs)"
  shows "f x \<le> f y"
proof -
  have "sorted (map f (take n xs) @ map f (drop n xs))"
    using assms(1) by (metis append_take_drop_id map_append)
  with assms(2,3) show ?thesis by (auto simp: sorted_append)
qed

text \<open>
  Listing bonds returns only stored bonds that match the filter, newest update first, at
  most as many as the limit, all of them when they fit, and otherwise none that is older than
  one left out.
\<close>

theorem list_returns_newest_matching:
  fixes lc :: "string \<Rightarrow> string \<Rightarrow> int"
  assumes "reg_ok g" and "f_limit f = Some n" and "0 \<le> n"
  defines "out \<equiv> reg_list lc g f" and "matching \<equiv> {b. bond_matches f b \<and> reg_get g (lease_id b) = Some b}"
  shows "set out \<subseteq> matching \<and> int (length out) = min n (int (card matching))
    \<and> sorted_wrt (\<lambda>a b. updated_at_ms b \<le> updated_at_ms a) out
    \<and> (\<forall>a \<in> set out. \<forall>b \<in> matching - set out. updated_at_ms b \<le> updated_at_ms a)"
proof -
  let ?s = "js_sort (newest_first lc) (filter (bond_matches f) (map_values (bonds g)))"
  have out: "out = take (nat n) ?s"
    using assms(2,3) by (simp add: out_def reg_list_def slice0_def)
  have keyed: "bonds_keyed (bonds g)" and ok: "map_ok (bonds g)"
    using assms(1) by (simp_all add: reg_ok_def bonds_keyed_def)
  have set_s: "set ?s = matching"
    using keyed by (auto simp: matching_def reg_get_def map_values_get [OF ok] bonds_keyed_def)
  have "distinct (map lease_id (map_values (bonds g)))"
    using ok by (simp add: bonds_keyed_ids [OF keyed] map_ok_def)
  then have dist: "distinct ?s"
    using distinct_js_sort [of "\<lambda>x. x"] by (metis distinct_filter distinct_map list.map_ident)
  then have "length ?s = card matching" using set_s distinct_card by metis
  moreover have "sorted_wrt (\<lambda>a b. updated_at_ms b \<le> updated_at_ms a) ?s"
    using newest_first_sorted [of lc "filter (bond_matches f) (map_values (bonds g))"]
    by (simp add: sorted_wrt_map)
  moreover have "updated_at_ms b \<le> updated_at_ms a" if "a \<in> set out" "b \<in> matching - set out" for a b
  proof -
    have "b \<in> set (drop (nat n) ?s)"
      using that(2) set_s out by (metis Diff_iff UnE append_take_drop_id set_append)
    with sorted_take_drop [OF newest_first_sorted, of a "nat n"] that(1) show ?thesis by (simp add: out)
  qed
  ultimately show ?thesis
    using set_s assms(3) by (auto simp: out sorted_wrt_take dest: in_set_takeD)
qed

definition sample_registry :: registry where
  "sample_registry = fst (reserve (new_registry (Some None)) sample_bond)"

definition all_bonds :: "int \<Rightarrow> bond_filters" where
  "all_bonds n = \<lparr>f_agentDid = None, f_taskId = None, f_taskIds = None, f_status = None, f_provider = None, f_limit = Some n\<rparr>"

lemma sample_registry_ok: "reg_ok sample_registry"
  by (simp add: sample_registry_def reg.ok_res new_registry_ok)

theorem list_returns_newest_matching_witness:
  "set (reg_list (\<lambda>a b. 0) sample_registry (all_bonds 50)) \<subseteq>
     {b. bond_matches (all_bonds 50) b \<and> reg_get sample_registry (lease_id b) = Some b}
   \<and> reg_list (\<lambda>a b. 0) sample_registry (all_bonds 50) = [sample_bond]"
proof -
  have "reg_list (\<lambda>a b. 0) sample_registry (all_bonds 50) = [sample_bond]"
    by (simp add: reg_list_def sample_registry_def reserve_def new_registry_def load_bonds_def store_load_def
        reg_get_def map_get_def map_values_def js_sort_def slice0_def bond_matches_def all_bonds_def persist_def)
  then show ?thesis
    using list_returns_newest_matching [OF sample_registry_ok, of "all_bonds 50" 50 "\<lambda>a b. 0"]
    by (simp add: all_bonds_def)
qed

end
