(* ===== verification/Lease_Providers.thy ===== *)
theory Lease_Providers
  imports Compute_Bond
begin

text \<open>
  The compute providers of \<open>services/compute-broker/src/providers.ts\<close>. The interface
  \<open>ComputeProvider\<close> is a record of operations over a provider state, so that the broker's
  handlers can be run against any provider; io.net and Akash are remote services and stay
  parameters. \<open>MockProvider\<close> is modelled in full, and the locale \<open>compute_provider\<close> states
  what the broker expects of a provider: a reservation is a fresh lease, and an operation on a
  lease it knows succeeds and is visible in its status.
\<close>

datatype LeaseStatus = LReserved | LActive | LCancelled | LReclaimed

fun lease_status_str :: "LeaseStatus \<Rightarrow> string" where
  "lease_status_str LReserved = ''reserved''"
| "lease_status_str LActive = ''active''"
| "lease_status_str LCancelled = ''cancelled''"
| "lease_status_str LReclaimed = ''reclaimed''"

record LeaseRequest =
  rq_gpuHours :: rat
  rq_durationSecs :: rat
  rq_capabilityHints :: "string list option"

record LeaseReservation =
  leaseId :: string
  rv_gpuHours :: rat
  expiresAt :: rat
  pricedUsdMicro :: rat

record 'p ComputeProvider =
  p_reserve :: "'p \<Rightarrow> LeaseRequest \<Rightarrow> 'p \<times> LeaseReservation js"
  p_activate :: "'p \<Rightarrow> string \<Rightarrow> 'p \<times> unit js"
  p_cancel :: "'p \<Rightarrow> string \<Rightarrow> 'p \<times> rat js"
  p_reclaim :: "'p \<Rightarrow> string \<Rightarrow> 'p \<times> unit js"
  p_status :: "'p \<Rightarrow> string \<Rightarrow> LeaseStatus js"

subsection \<open>MockProvider\<close>

record MockProvider =
  mock_name :: ComputeBondProvider
  nextLeaseId :: nat
  statuses :: "(string, LeaseStatus) jsmap"

definition new_mock :: "ComputeBondProvider \<Rightarrow> MockProvider" where
  "new_mock n = \<lparr>mock_name = n, nextLeaseId = 1, statuses = []\<rparr>"

definition mock_lease_id :: "ComputeBondProvider \<Rightarrow> nat \<Rightarrow> string" where
  "mock_lease_id p n = provider_str p @ ''-mock-'' @ show_nat n"

definition mock_reserve :: "rat \<Rightarrow> MockProvider \<Rightarrow> LeaseRequest \<Rightarrow> MockProvider \<times> LeaseReservation js" where
  "mock_reserve now m req =
     (let k = mock_lease_id (mock_name m) (nextLeaseId m) in
      (m\<lparr>nextLeaseId := nextLeaseId m + 1, statuses := map_set k LReserved (statuses m)\<rparr>,
       Inr \<lparr>leaseId = k, rv_gpuHours = rq_gpuHours req,
            expiresAt = of_int \<lfloor>now / 1000\<rfloor> + rq_durationSecs req,
            pricedUsdMicro = rq_gpuHours req * 10000000\<rparr>))"

text \<open>\<open>assertLease\<close> followed by \<open>statuses.set\<close>.\<close>

definition assertLease :: "MockProvider \<Rightarrow> string \<Rightarrow> unit js" where
  "assertLease m k =
     (if map_get (statuses m) k = None then Inl (''mock provider lease not found: '' @ k) else Inr ())"

definition mock_mark :: "LeaseStatus \<Rightarrow> MockProvider \<Rightarrow> string \<Rightarrow> MockProvider \<times> unit js" where
  "mock_mark s m k = (case assertLease m k of
     Inl e \<Rightarrow> (m, Inl e)
   | Inr _ \<Rightarrow> (m\<lparr>statuses := map_set k s (statuses m)\<rparr>, Inr ()))"

definition mock_activate :: "MockProvider \<Rightarrow> string \<Rightarrow> MockProvider \<times> unit js" where
  "mock_activate = mock_mark LActive"

definition mock_cancel :: "MockProvider \<Rightarrow> string \<Rightarrow> MockProvider \<times> rat js" where
  "mock_cancel m k = (case mock_mark LCancelled m k of (m', Inl e) \<Rightarrow> (m', Inl e) | (m', Inr _) \<Rightarrow> (m', Inr 0))"

definition mock_reclaim :: "MockProvider \<Rightarrow> string \<Rightarrow> MockProvider \<times> unit js" where
  "mock_reclaim = mock_mark LReclaimed"

definition mock_status :: "MockProvider \<Rightarrow> string \<Rightarrow> LeaseStatus js" where
  "mock_status m k = (case assertLease m k of
     Inl e \<Rightarrow> Inl e
   | Inr _ \<Rightarrow> Inr (case map_get (statuses m) k of None \<Rightarrow> LReserved | Some s \<Rightarrow> s))"

definition mock_ops :: "rat \<Rightarrow> MockProvider ComputeProvider" where
  "mock_ops now = \<lparr>p_reserve = mock_reserve now, p_activate = mock_activate, p_cancel = mock_cancel,
     p_reclaim = mock_reclaim, p_status = mock_status\<rparr>"

text \<open>The unconfigured providers refuse everything.\<close>

definition unconfigured_ops :: "string \<Rightarrow> 'p ComputeProvider" where
  "unconfigured_ops msg = \<lparr>p_reserve = (\<lambda>p _. (p, Inl msg)), p_activate = (\<lambda>p _. (p, Inl msg)),
     p_cancel = (\<lambda>p _. (p, Inl msg)), p_reclaim = (\<lambda>p _. (p, Inl msg)), p_status = (\<lambda>_ _. Inl msg)\<rparr>"

definition IonetProviderUnconfigured :: "'p ComputeProvider" where
  "IonetProviderUnconfigured = unconfigured_ops ''io.net provider not configured: set IONET_API_KEY''"

definition AkashProviderUnconfigured :: "'p ComputeProvider" where
  "AkashProviderUnconfigured = unconfigured_ops ''akash provider not configured: set AKASH_WALLET''"

definition selectProvider :: "ComputeBondProvider \<Rightarrow> 'a \<times> 'a \<Rightarrow> 'a" where
  "selectProvider requested ps = (if requested = Ionet then fst ps else snd ps)"

text \<open>\<open>createProviders\<close>: mocks in mock mode, otherwise the remote provider when its credential
  is set and the refusing one when it is not.\<close>

definition createProviders ::
  "bool \<Rightarrow> string option \<Rightarrow> string option \<Rightarrow> 'p ComputeProvider \<Rightarrow> 'p ComputeProvider \<Rightarrow> 'p ComputeProvider \<Rightarrow>
   'p ComputeProvider \<times> 'p ComputeProvider" where
  "createProviders mock_mode ionetApiKey akashWallet mock ionet_live akash_live =
     (if mock_mode then (mock, mock)
      else (if truthy ionetApiKey then ionet_live else IonetProviderUnconfigured,
            if truthy akashWallet then akash_live else AkashProviderUnconfigured))"

subsection \<open>What the broker expects of a provider\<close>

locale compute_provider =
  fixes ops :: "'p ComputeProvider" and ok :: "'p \<Rightarrow> bool"
  assumes reserve_fresh: "ok p \<Longrightarrow> p_reserve ops p req = (p', Inr v) \<Longrightarrow>
      ok p' \<and> (\<exists>e. p_status ops p (leaseId v) = Inl e) \<and> p_status ops p' (leaseId v) = Inr LReserved
      \<and> (\<forall>k. k \<noteq> leaseId v \<longrightarrow> p_status ops p' k = p_status ops p k)"
    and activate_known: "ok p \<Longrightarrow> p_status ops p k = Inr s \<Longrightarrow>
      \<exists>p'. p_activate ops p k = (p', Inr ()) \<and> ok p' \<and> p_status ops p' k = Inr LActive"
    and cancel_known: "ok p \<Longrightarrow> p_status ops p k = Inr s \<Longrightarrow>
      \<exists>p' x. p_cancel ops p k = (p', Inr x) \<and> ok p' \<and> p_status ops p' k = Inr LCancelled"
    and reclaim_known: "ok p \<Longrightarrow> p_status ops p k = Inr s \<Longrightarrow>
      \<exists>p'. p_reclaim ops p k = (p', Inr ()) \<and> ok p' \<and> p_status ops p' k = Inr LReclaimed"
begin

text \<open>A lease that was just reserved can be activated at once.\<close>

lemma reserve_then_activate:
  assumes "ok p" and "p_reserve ops p req = (p', Inr v)"
  shows "\<exists>p''. p_activate ops p' (leaseId v) = (p'', Inr ()) \<and> p_status ops p'' (leaseId v) = Inr LActive"
  using reserve_fresh [OF assms] activate_known by blast

text \<open>Two reservations in a row never share a lease id.\<close>

lemma reserve_twice_distinct:
  assumes "ok p" and "p_reserve ops p req = (p', Inr v)" and "p_reserve ops p' req' = (p'', Inr v')"
  shows "leaseId v' \<noteq> leaseId v"
  using reserve_fresh [OF assms(1,2)] reserve_fresh [OF _ assms(3)] by force

end

definition mock_ok :: "MockProvider \<Rightarrow> bool" where
  "mock_ok m = (\<forall>k s. map_get (statuses m) k = Some s \<longrightarrow> (\<exists>n < nextLeaseId m. k = mock_lease_id (mock_name m) n))"

lemma mock_lease_id_inj [simp]: "mock_lease_id p m = mock_lease_id p n \<longleftrightarrow> m = n"
  by (simp add: mock_lease_id_def)

lemma mock_fresh: "mock_ok m \<Longrightarrow> map_get (statuses m) (mock_lease_id (mock_name m) (nextLeaseId m)) = None"
  by (cases "map_get (statuses m) (mock_lease_id (mock_name m) (nextLeaseId m))") (force simp: mock_ok_def)+

lemma mock_status_eq:
  "mock_status m k = (case map_get (statuses m) k of
     None \<Rightarrow> Inl (''mock provider lease not found: '' @ k) | Some s \<Rightarrow> Inr s)"
  by (simp add: mock_status_def assertLease_def split: option.splits)

lemma mock_mark_known:
  assumes "mock_status m k = Inr s"
  shows "mock_mark s' m k = (m\<lparr>statuses := map_set k s' (statuses m)\<rparr>, Inr ())"
    and "mock_status (m\<lparr>statuses := map_set k s' (statuses m)\<rparr>) k = Inr s'"
    and "mock_ok m \<Longrightarrow> mock_ok (m\<lparr>statuses := map_set k s' (statuses m)\<rparr>)"
  using assms by (auto simp: mock_status_eq mock_mark_def assertLease_def mock_ok_def map_specs split: option.splits)

lemma mock_ok_new: "mock_ok (new_mock p)"
  by (simp add: mock_ok_def new_mock_def map_specs)

interpretation mock: compute_provider "mock_ops now" mock_ok
proof unfold_locales
  fix p p' :: MockProvider and req v k s
  assume ok: "mock_ok p"
  {
    assume "p_reserve (mock_ops now) p req = (p', Inr v)"
    then have v: "leaseId v = mock_lease_id (mock_name p) (nextLeaseId p)"
      and p': "p' = p\<lparr>nextLeaseId := nextLeaseId p + 1, statuses := map_set (leaseId v) LReserved (statuses p)\<rparr>"
      by (auto simp: mock_ops_def mock_reserve_def Let_def)
    have "mock_ok p'"
      using ok by (auto simp: p' v mock_ok_def map_specs less_Suc_eq)
    with mock_fresh [OF ok] show "mock_ok p' \<and> (\<exists>e. p_status (mock_ops now) p (leaseId v) = Inl e) \<and>
      p_status (mock_ops now) p' (leaseId v) = Inr LReserved \<and>
      (\<forall>k. k \<noteq> leaseId v \<longrightarrow> p_status (mock_ops now) p' k = p_status (mock_ops now) p k)"
      by (simp add: mock_ops_def mock_status_eq v [symmetric] p' map_specs)
  }
  assume "p_status (mock_ops now) p k = Inr s"
  then have known: "mock_status p k = Inr s" by (simp add: mock_ops_def)
  note marks = mock_mark_known [OF known] mock_mark_known(3) [OF known ok]
  show "\<exists>p'. p_activate (mock_ops now) p k = (p', Inr ()) \<and> mock_ok p' \<and> p_status (mock_ops now) p' k = Inr LActive"
    by (simp add: mock_ops_def mock_activate_def marks)
  show "\<exists>p' x. p_cancel (mock_ops now) p k = (p', Inr x) \<and> mock_ok p' \<and> p_status (mock_ops now) p' k = Inr LCancelled"
    by (simp add: mock_ops_def mock_cancel_def marks)
  show "\<exists>p'. p_reclaim (mock_ops now) p k = (p', Inr ()) \<and> mock_ok p' \<and> p_status (mock_ops now) p' k = Inr LReclaimed"
    by (simp add: mock_ops_def mock_reclaim_def marks)
qed

end
