(* ===== verification/Compute_Broker.thy ===== *)
theory Compute_Broker
  imports Bond_Registry Lease_Providers
begin

text \<open>
  The compute broker's HTTP handlers, \<open>services/compute-broker/src/server.ts\<close> and
  \<open>attestation.ts\<close>. A handler maps the broker's state (registry, the two providers, the bonds
  pushed to the indexer) and a request body to the new state and the reply, a status code with
  a body. \<open>Date.now()\<close> is an argument in milliseconds; base58 and ed25519 come from
  third-party packages and are the operations of a \<open>crypto\<close> record.

  Each of lock, release and slash awaits a provider call between its registry transition and
  its rollback. The handler is therefore also given as its two halves, \<open>task_begin\<close> and
  \<open>task_end\<close>, and the step relation \<open>inter_step\<close> interleaves the halves of concurrent requests.
\<close>

subsection \<open>State, configuration, replies\<close>

record 'p broker =
  registry :: registry
  ionet :: 'p
  akash :: 'p
  synced :: "(ComputeBondRecord \<times> LeaseStatus option) list"

record broker_cfg =
  signingKeyHex :: "string option"
  maxBondDurationSecs :: rat
  bondSlashWindowSecs :: rat
  syncEnabled :: bool

record crypto =
  bs58_decode :: "string \<Rightarrow> bytes option"
  bs58_encode :: "bytes \<Rightarrow> string"
  ed_sign :: "string \<Rightarrow> bytes \<Rightarrow> bytes"
  ed_public :: "bytes \<Rightarrow> bytes"
  ed_verify :: "bytes \<Rightarrow> string \<Rightarrow> bytes \<Rightarrow> bool option"

datatype sweep_status = Swept | Skipped | SweepError

datatype body =
    ErrB string
  | ZodErr
  | ReservedB ComputeBondRecord
  | BondB ComputeBondRecord "LeaseStatus option"
  | BondsB "(ComputeBondRecord \<times> LeaseStatus option) list"
  | LeaseB string "ComputeBondProvider option" LeaseStatus "ComputeBondStatus option"
  | CancelledB string rat
  | ValidB bool
  | SweepB "(string \<times> ComputeBondProvider \<times> sweep_status) list"

type_synonym reply = "nat \<times> body"

type_synonym 'p ops2 = "'p ComputeProvider \<times> 'p ComputeProvider"

text \<open>The state of the selected provider, and storing it back.\<close>

definition prov_get :: "'p broker \<Rightarrow> ComputeBondProvider \<Rightarrow> 'p" where
  "prov_get s p = selectProvider p (ionet s, akash s)"

definition prov_set :: "'p broker \<Rightarrow> ComputeBondProvider \<Rightarrow> 'p \<Rightarrow> 'p broker" where
  "prov_set s p x = (if p = Ionet then s\<lparr>ionet := x\<rparr> else s\<lparr>akash := x\<rparr>)"

text \<open>\<open>syncBondSnapshot\<close>; a failed push is only logged, so it never changes the reply.\<close>

definition syncBondSnapshot :: "broker_cfg \<Rightarrow> 'p broker \<Rightarrow> ComputeBondRecord \<Rightarrow> LeaseStatus option \<Rightarrow> 'p broker" where
  "syncBondSnapshot cfg s b st = (if syncEnabled cfg then s\<lparr>synced := synced s @ [(b, st)]\<rparr> else s)"

definition asBondError :: "string \<Rightarrow> reply" where
  "asBondError msg = (if msg = ''bond not found'' then (404, ErrB msg) else (409, ErrB msg))"

definition inferredProviderStatus :: "ComputeBondRecord \<Rightarrow> LeaseStatus" where
  "inferredProviderStatus b = (case status b of
     Reserved \<Rightarrow> LReserved | Locked \<Rightarrow> LActive
   | Released \<Rightarrow> LReclaimed | Slashed \<Rightarrow> LReclaimed | Expired \<Rightarrow> LReclaimed
   | Cancelled \<Rightarrow> LCancelled)"

text \<open>The \<open>onReady\<close> hook: seed the indexer with every bond of the registry.\<close>

definition on_ready :: "broker_cfg \<Rightarrow> 'p broker \<Rightarrow> 'p broker" where
  "on_ready cfg s =
     (if syncEnabled cfg
      then s\<lparr>synced := synced s @ map (\<lambda>b. (b, Some (inferredProviderStatus b))) (snapshot (registry s))\<rparr>
      else s)"

definition providerStatusFor :: "'p ops2 \<Rightarrow> 'p broker \<Rightarrow> ComputeBondRecord \<Rightarrow> LeaseStatus option" where
  "providerStatusFor ops s b =
     (case p_status (selectProvider (provider b) ops) (prov_get s (provider b)) (lease_id b) of
        Inl _ \<Rightarrow> None | Inr st \<Rightarrow> Some st)"

subsection \<open>Attestations\<close>

definition hex_val :: "char \<Rightarrow> nat option" where
  "hex_val c = (let n = of_char c :: nat in
     if 48 \<le> n \<and> n \<le> 57 then Some (n - 48)
     else if 97 \<le> n \<and> n \<le> 102 then Some (n - 87)
     else if 65 \<le> n \<and> n \<le> 70 then Some (n - 55) else None)"

text \<open>\<open>parseInt(s, 16)\<close> of two characters, stored in a byte: a first character that is no hex
  digit gives NaN, which a \<open>Uint8Array\<close> stores as 0.\<close>

fun parse_hex2 :: "string \<Rightarrow> 8 word" where
  "parse_hex2 [a, b] = (case hex_val a of
     None \<Rightarrow> 0
   | Some x \<Rightarrow> (case hex_val b of None \<Rightarrow> of_nat x | Some y \<Rightarrow> of_nat (16 * x + y)))"
| "parse_hex2 _ = 0"

fun hex_pairs :: "string \<Rightarrow> bytes" where
  "hex_pairs (a # b # s) = parse_hex2 [a, b] # hex_pairs s"
| "hex_pairs _ = []"

definition hexToKey :: "string \<Rightarrow> bytes js" where
  "hexToKey hex =
     (let clean = (if startsWith hex ''0x'' then drop 2 hex else hex) in
      if length clean \<noteq> 64 then Inl ''broker key hex must be 64 chars'' else Inr (hex_pairs clean))"

definition sign :: "crypto \<Rightarrow> 'a ComputeBondAttestationPayload_scheme \<Rightarrow> bytes \<Rightarrow> (string \<times> string) js" where
  "sign c p key =
     (if length key \<noteq> 32 then Inl ''broker key must be 32 bytes''
      else Inr (bs58_encode c (ed_sign c (canonicalComputeBondAttestation p) key), bs58_encode c (ed_public c key)))"

definition verify :: "crypto \<Rightarrow> 'a ComputeBondAttestationPayload_scheme \<Rightarrow> string \<Rightarrow> string \<Rightarrow> bool" where
  "verify c p sig pk = (case (bs58_decode c sig, bs58_decode c pk) of
     (Some s, Some k) \<Rightarrow>
       if length s \<noteq> 64 \<or> length k \<noteq> 32 then False
       else (case ed_verify c s (canonicalComputeBondAttestation p) k of None \<Rightarrow> False | Some b \<Rightarrow> b)
   | _ \<Rightarrow> False)"

subsection \<open>Request bodies\<close>

definition did_ok :: "string \<Rightarrow> bool" where
  "did_ok d = (32 \<le> length d \<and> length d \<le> 44)"

record bond_request =
  b_agent_did :: string
  b_provider :: ComputeBondProvider
  b_gpu_hours :: rat
  b_duration_secs :: rat
  b_hints :: "string list option"

definition BondRequestBody :: "bond_request \<Rightarrow> bool" where
  "BondRequestBody b = (did_ok (b_agent_did b) \<and> isInteger (b_gpu_hours b) \<and> 0 < b_gpu_hours b
     \<and> isInteger (b_duration_secs b) \<and> 0 < b_duration_secs b)"

record task_action_body =
  a_lease_id :: string
  a_provider :: ComputeBondProvider
  a_agent_did :: string
  a_task_id :: string
  a_reason :: "string option"

definition BondTaskActionBody :: "task_action_body \<Rightarrow> bool" where
  "BondTaskActionBody b = (a_lease_id b \<noteq> [] \<and> did_ok (a_agent_did b) \<and> a_task_id b \<noteq> [] \<and> a_reason b \<noteq> Some [])"

record cancel_body =
  c_lease_id :: string
  c_agent_did :: string
  c_signed_request :: string

definition BondCancelBody :: "cancel_body \<Rightarrow> bool" where
  "BondCancelBody b = (c_lease_id b \<noteq> [] \<and> did_ok (c_agent_did b) \<and> c_signed_request b \<noteq> [])"

record sweep_item =
  w_lease_id :: string
  w_provider :: ComputeBondProvider
  w_slashable_until :: rat

definition ExpireSweepBody :: "rat option \<Rightarrow> sweep_item list \<Rightarrow> bool" where
  "ExpireSweepBody nu ls =
     ((case nu of None \<Rightarrow> True | Some n \<Rightarrow> isInteger n \<and> 0 < n) \<and> ls \<noteq> [] \<and>
      list_all (\<lambda>l. w_lease_id l \<noteq> [] \<and> isInteger (w_slashable_until l) \<and> 0 < w_slashable_until l) ls)"

subsection \<open>Reading handlers\<close>

definition get_lease :: "'p ops2 \<Rightarrow> 'p broker \<Rightarrow> string \<Rightarrow> reply" where
  "get_lease ops s k = (case reg_get (registry s) k of
     Some t \<Rightarrow> (case p_status (selectProvider (provider t) ops) (prov_get s (provider t)) k of
        Inl e \<Rightarrow> (501, ErrB e)
      | Inr st \<Rightarrow> (200, LeaseB k (Some (provider t)) st (Some (status t))))
   | None \<Rightarrow> (case p_status (fst ops) (ionet s) k of
        Inl e \<Rightarrow> (501, ErrB e) | Inr st \<Rightarrow> (200, LeaseB k None st None)))"

definition get_bond :: "'p ops2 \<Rightarrow> 'p broker \<Rightarrow> string \<Rightarrow> reply" where
  "get_bond ops s k = (case reg_get (registry s) k of
     None \<Rightarrow> (404, ErrB ''bond not found'')
   | Some b \<Rightarrow> (200, BondB b (providerStatusFor ops s b)))"

definition list_bonds :: "(string \<Rightarrow> string \<Rightarrow> int) \<Rightarrow> 'p ops2 \<Rightarrow> 'p broker \<Rightarrow> bond_filters \<Rightarrow> reply" where
  "list_bonds lc ops s f =
     (case f_limit f of
        Some n \<Rightarrow> if n < 1 \<or> 200 < n then (400, ZodErr)
          else (200, BondsB (map (\<lambda>b. (b, providerStatusFor ops s b)) (reg_list lc (registry s) f)))
      | None \<Rightarrow> (200, BondsB (map (\<lambda>b. (b, providerStatusFor ops s b)) (reg_list lc (registry s) f))))"

definition verify_bond :: "crypto \<Rightarrow> 'a ComputeBondAttestationPayload_scheme \<Rightarrow> string \<Rightarrow> string \<Rightarrow> reply" where
  "verify_bond c p sig pk =
     (if \<not> did_ok (agent_did p) \<or> lease_id p = [] \<or> \<not> isInteger (gpu_hours p) \<or> gpu_hours p \<le> 0
         \<or> \<not> isInteger (expires_at p) \<or> expires_at p \<le> 0 \<or> sig = [] \<or> pk = []
      then (400, ZodErr) else (200, ValidB (verify c p sig pk)))"

subsection \<open>Lease handlers\<close>

definition activate_lease :: "'p ops2 \<Rightarrow> 'p broker \<Rightarrow> string \<Rightarrow> ComputeBondProvider \<Rightarrow> 'p broker \<times> reply" where
  "activate_lease ops s k p =
     (if k = [] then (s, 400, ZodErr)
      else case p_activate (selectProvider p ops) (prov_get s p) k of
        (x, Inl e) \<Rightarrow> (prov_set s p x, 502, ErrB e)
      | (x, Inr _) \<Rightarrow> (prov_set s p x, 200, LeaseB k (Some p) LActive None))"

definition reclaim_lease :: "'p ops2 \<Rightarrow> 'p broker \<Rightarrow> string \<Rightarrow> ComputeBondProvider \<Rightarrow> 'p broker \<times> reply" where
  "reclaim_lease ops s k p =
     (if k = [] then (s, 400, ZodErr)
      else case p_reclaim (selectProvider p ops) (prov_get s p) k of
        (x, Inl e) \<Rightarrow> (prov_set s p x, 502, ErrB e)
      | (x, Inr _) \<Rightarrow> (prov_set s p x, 200, LeaseB k (Some p) LReclaimed None))"

subsection \<open>Requesting a bond\<close>

definition bond_of_reservation ::
  "broker_cfg \<Rightarrow> rat \<Rightarrow> bond_request \<Rightarrow> LeaseReservation \<Rightarrow> string \<Rightarrow> string \<Rightarrow> ComputeBondRecord" where
  "bond_of_reservation cfg now b v sig pk =
     \<lparr>agent_did = b_agent_did b, provider = b_provider b, lease_id = leaseId v,
      gpu_hours = rv_gpuHours v, expires_at = expiresAt v,
      attestation_sig = sig, broker_pubkey = pk, reserved_price_usd_micro = pricedUsdMicro v,
      slashable_until = expiresAt v + bondSlashWindowSecs cfg, task_id = None, status = Reserved,
      created_at_ms = now, updated_at_ms = now, status_reason = None\<rparr>"

definition request_bond ::
  "crypto \<Rightarrow> broker_cfg \<Rightarrow> rat \<Rightarrow> 'p ops2 \<Rightarrow> 'p broker \<Rightarrow> bond_request \<Rightarrow> 'p broker \<times> reply" where
  "request_bond c cfg now ops s b =
     (if \<not> BondRequestBody b then (s, 400, ZodErr)
      else if b_duration_secs b > maxBondDurationSecs cfg then (s, 400, ErrB ''duration exceeds maxBondDuration'')
      else case signingKeyHex cfg of
        None \<Rightarrow> (s, 503, ErrB ''broker key not loaded'')
      | Some hex \<Rightarrow>
         (case p_reserve (selectProvider (b_provider b) ops) (prov_get s (b_provider b))
             \<lparr>rq_gpuHours = b_gpu_hours b, rq_durationSecs = b_duration_secs b, rq_capabilityHints = b_hints b\<rparr> of
            (x, Inl e) \<Rightarrow> (prov_set s (b_provider b) x, 502, ErrB e)
          | (x, Inr v) \<Rightarrow>
             (let s1 = prov_set s (b_provider b) x;
                  payload = \<lparr>agent_did = b_agent_did b, provider = b_provider b, lease_id = leaseId v,
                             gpu_hours = rv_gpuHours v, expires_at = expiresAt v\<rparr>;
                  att = (case hexToKey hex of Inl e \<Rightarrow> Inl e | Inr key \<Rightarrow> sign c payload key) in
              case att of
                Inl e \<Rightarrow> (s1, 500, ErrB e)
              | Inr (sig, pk) \<Rightarrow>
                 (let r = bond_of_reservation cfg now b v sig pk; errors = validateComputeBondRecord r in
                  if errors \<noteq> [] then (s1, 500, ErrB (join ''; '' errors))
                  else (syncBondSnapshot cfg (s1\<lparr>registry := fst (reserve (registry s1) r)\<rparr>) r (Some LReserved),
                        200, ReservedB r)))))"

subsection \<open>Lock, release, slash\<close>

datatype task_action = ALock | ARelease | ASlash

fun action_transition :: "task_action \<Rightarrow> rat \<Rightarrow> task_action_body \<Rightarrow> ComputeBondTransition" where
  "action_transition ALock now b = Lock (a_task_id b) now"
| "action_transition ARelease now b = Release (a_task_id b) now"
| "action_transition ASlash now b = Slash (a_task_id b) now (a_reason b)"

fun action_call :: "task_action \<Rightarrow> 'p ComputeProvider \<Rightarrow> 'p \<Rightarrow> string \<Rightarrow> 'p \<times> unit js" where
  "action_call ALock ops = p_activate ops"
| "action_call ARelease ops = p_reclaim ops"
| "action_call ASlash ops = p_reclaim ops"

fun action_status :: "task_action \<Rightarrow> LeaseStatus" where
  "action_status ALock = LActive"
| "action_status ARelease = LReclaimed"
| "action_status ASlash = LReclaimed"

text \<open>Up to the provider call: the checks, and the registry transition. \<open>Inr (previous, next)\<close>
  when the call is to be made.\<close>

definition task_begin ::
  "task_action \<Rightarrow> rat \<Rightarrow> registry \<Rightarrow> task_action_body \<Rightarrow> registry \<times> (reply + ComputeBondRecord \<times> ComputeBondRecord)" where
  "task_begin a now g b =
     (if \<not> BondTaskActionBody b then (g, Inl (400, ZodErr))
      else case reg_get g (a_lease_id b) of
        None \<Rightarrow> (g, Inl (404, ErrB ''bond not found''))
      | Some r \<Rightarrow>
         (if provider r \<noteq> a_provider b \<or> agent_did r \<noteq> a_agent_did b
          then (g, Inl (409, ErrB ''bond request does not match stored reservation''))
          else let t = action_transition a now b; errors = validateComputeBondTransition r t in
            if errors \<noteq> [] then (g, Inl (409, ErrB (join ''; '' errors)))
            else case reg_transition g (a_lease_id b) t of
              (g', Inl e) \<Rightarrow> (g', Inl (500, ErrB e))
            | (g', Inr next) \<Rightarrow> (g', Inr (r, next))))"

text \<open>After the provider call: keep the transition, or put the previous record back.\<close>

definition task_end ::
  "broker_cfg \<Rightarrow> task_action \<Rightarrow> 'p broker \<Rightarrow> ComputeBondRecord \<Rightarrow> ComputeBondRecord \<Rightarrow> unit js \<Rightarrow> 'p broker \<times> reply" where
  "task_end cfg a s previous next res = (case res of
     Inr _ \<Rightarrow> (syncBondSnapshot cfg s next (Some (action_status a)), 200, BondB next (Some (action_status a)))
   | Inl e \<Rightarrow> (s\<lparr>registry := replace (registry s) previous\<rparr>, 502, ErrB e))"

definition task_handler ::
  "task_action \<Rightarrow> broker_cfg \<Rightarrow> rat \<Rightarrow> 'p ops2 \<Rightarrow> 'p broker \<Rightarrow> task_action_body \<Rightarrow> 'p broker \<times> reply" where
  "task_handler a cfg now ops s b = (case task_begin a now (registry s) b of
     (g, Inl rep) \<Rightarrow> (s\<lparr>registry := g\<rparr>, rep)
   | (g, Inr (previous, next)) \<Rightarrow>
      (case action_call a (selectProvider (a_provider b) ops) (prov_get s (a_provider b)) (a_lease_id b) of
         (x, res) \<Rightarrow> task_end cfg a (prov_set (s\<lparr>registry := g\<rparr>) (a_provider b) x) previous next res))"

definition lock_bond :: "broker_cfg \<Rightarrow> rat \<Rightarrow> 'p ops2 \<Rightarrow> 'p broker \<Rightarrow> task_action_body \<Rightarrow> 'p broker \<times> reply" where
  "lock_bond = task_handler ALock"

definition release_bond :: "broker_cfg \<Rightarrow> rat \<Rightarrow> 'p ops2 \<Rightarrow> 'p broker \<Rightarrow> task_action_body \<Rightarrow> 'p broker \<times> reply" where
  "release_bond = task_handler ARelease"

definition slash_bond :: "broker_cfg \<Rightarrow> rat \<Rightarrow> 'p ops2 \<Rightarrow> 'p broker \<Rightarrow> task_action_body \<Rightarrow> 'p broker \<times> reply" where
  "slash_bond = task_handler ASlash"

subsection \<open>Cancel\<close>

definition cancel_message :: "string \<Rightarrow> string \<Rightarrow> string" where
  "cancel_message k did = json_obj [(''action'', JStr ''cancel''), (''lease_id'', JStr k), (''agent_did'', JStr did)]"

definition cancel_signed :: "crypto \<Rightarrow> bytes \<Rightarrow> bytes \<Rightarrow> string \<Rightarrow> bool" where
  "cancel_signed c sig pk msg =
     (length sig = 64 \<and> length pk = 32 \<and> (case ed_verify c sig msg pk of None \<Rightarrow> False | Some b \<Rightarrow> b))"

text \<open>Ask io.net first and Akash when io.net throws, as the handler does for the status and for
  the cancellation.\<close>

definition any_status :: "'p ops2 \<Rightarrow> 'p broker \<Rightarrow> string \<Rightarrow> LeaseStatus option" where
  "any_status ops s k = (case p_status (fst ops) (ionet s) k of
     Inr st \<Rightarrow> Some st
   | Inl _ \<Rightarrow> (case p_status (snd ops) (akash s) k of Inr st \<Rightarrow> Some st | Inl _ \<Rightarrow> None))"

definition any_cancel :: "'p ops2 \<Rightarrow> 'p broker \<Rightarrow> string \<Rightarrow> 'p broker \<times> rat js" where
  "any_cancel ops s k = (case p_cancel (fst ops) (ionet s) k of
     (x, Inr refund) \<Rightarrow> (s\<lparr>ionet := x\<rparr>, Inr refund)
   | (x, Inl _) \<Rightarrow> (case p_cancel (snd ops) (akash s) k of
        (y, res) \<Rightarrow> (s\<lparr>ionet := x, akash := y\<rparr>, res)))"

definition cancel_bond ::
  "crypto \<Rightarrow> broker_cfg \<Rightarrow> rat \<Rightarrow> 'p ops2 \<Rightarrow> 'p broker \<Rightarrow> cancel_body \<Rightarrow> 'p broker \<times> reply" where
  "cancel_bond c cfg now ops s b =
     (if \<not> BondCancelBody b then (s, 400, ZodErr)
      else if signingKeyHex cfg = None then (s, 503, ErrB ''broker key not loaded'')
      else case bs58_decode c (c_signed_request b) of
        None \<Rightarrow> (s, 400, ErrB ''invalid signed_request encoding'')
      | Some sig \<Rightarrow> (case bs58_decode c (c_agent_did b) of
          None \<Rightarrow> (s, 400, ErrB ''invalid agent_did encoding'')
        | Some pk \<Rightarrow>
           (if \<not> cancel_signed c sig pk (cancel_message (c_lease_id b) (c_agent_did b))
            then (s, 403, ErrB ''signed_request verification failed'')
            else case any_status ops s (c_lease_id b) of
              None \<Rightarrow> (s, 404, ErrB ''lease not found on any provider'')
            | Some st \<Rightarrow>
               (if st = LCancelled \<or> st = LReclaimed then (s, 409, ErrB (''lease already '' @ lease_status_str st))
                else case any_cancel ops s (c_lease_id b) of
                  (s1, Inl e) \<Rightarrow> (s1, 502, ErrB e)
                | (s1, Inr refund) \<Rightarrow>
                   (case reg_get (registry s1) (c_lease_id b) of
                      None \<Rightarrow> (s1, 200, CancelledB (c_lease_id b) refund)
                    | Some _ \<Rightarrow> (case reg_transition (registry s1) (c_lease_id b) (Cancel now) of
                        (g, Inl e) \<Rightarrow> (s1\<lparr>registry := g\<rparr>, asBondError e)
                      | (g, Inr next) \<Rightarrow>
                         (syncBondSnapshot cfg (s1\<lparr>registry := g\<rparr>) next (Some LCancelled),
                          200, CancelledB (c_lease_id b) refund)))))))"

subsection \<open>Expiry sweep\<close>

definition sweep_one ::
  "broker_cfg \<Rightarrow> rat \<Rightarrow> 'p ops2 \<Rightarrow> 'p broker \<Rightarrow> sweep_item \<Rightarrow> 'p broker \<times> sweep_status" where
  "sweep_one cfg nowUnix ops s l =
     (if w_slashable_until l > nowUnix then (s, Skipped)
      else case p_reclaim (selectProvider (w_provider l) ops) (prov_get s (w_provider l)) (w_lease_id l) of
        (x, Inl e) \<Rightarrow> (prov_set s (w_provider l) x, SweepError)
      | (x, Inr _) \<Rightarrow>
         (let s1 = prov_set s (w_provider l) x in
          case reg_get (registry s1) (w_lease_id l) of
            None \<Rightarrow> (s1, Swept)
          | Some _ \<Rightarrow> (case reg_transition (registry s1) (w_lease_id l) (Expire (nowUnix * 1000)) of
              (g, Inl e) \<Rightarrow> (s1\<lparr>registry := g\<rparr>, SweepError)
            | (g, Inr next) \<Rightarrow> (syncBondSnapshot cfg (s1\<lparr>registry := g\<rparr>) next (Some LReclaimed), Swept))))"

fun sweep_all ::
  "broker_cfg \<Rightarrow> rat \<Rightarrow> 'p ops2 \<Rightarrow> 'p broker \<Rightarrow> sweep_item list \<Rightarrow> 'p broker \<times> (string \<times> ComputeBondProvider \<times> sweep_status) list" where
  "sweep_all cfg n ops s [] = (s, [])"
| "sweep_all cfg n ops s (l # ls) = (case sweep_one cfg n ops s l of
     (s1, st) \<Rightarrow> (case sweep_all cfg n ops s1 ls of
       (s2, rs) \<Rightarrow> (s2, (w_lease_id l, w_provider l, st) # rs)))"

definition expire_sweep ::
  "broker_cfg \<Rightarrow> rat \<Rightarrow> 'p ops2 \<Rightarrow> 'p broker \<Rightarrow> rat option \<Rightarrow> sweep_item list \<Rightarrow> 'p broker \<times> reply" where
  "expire_sweep cfg now ops s now_unix ls =
     (if \<not> ExpireSweepBody now_unix ls then (s, 400, ZodErr)
      else let nowUnix = (case now_unix of None \<Rightarrow> of_int \<lfloor>now / 1000\<rfloor> | Some n \<Rightarrow> n) in
        case sweep_all cfg nowUnix ops s ls of (s', rs) \<Rightarrow> (s', 200, SweepB rs))"

subsection \<open>Interleaved requests\<close>

text \<open>The registry together with the task actions that are waiting for their provider. A waiting
  action ends when its provider call returns or throws, in any order.\<close>

type_synonym waiting = "ComputeBondRecord \<times> ComputeBondRecord"

inductive inter_step :: "registry \<times> waiting list \<Rightarrow> registry \<times> waiting list \<Rightarrow> bool" where
  start: "task_begin a now g b = (g', Inr (prev, next)) \<Longrightarrow> inter_step (g, ws) (g', ws @ [(prev, next)])"
| returned: "inter_step (g, us @ (prev, next) # vs) (g, us @ vs)"
| threw: "inter_step (g, us @ (prev, next) # vs) (replace g prev, us @ vs)"

subsection \<open>One request at a time\<close>

inductive broker_step :: "crypto \<Rightarrow> broker_cfg \<Rightarrow> 'p broker \<Rightarrow> 'p broker \<Rightarrow> bool" for c cfg where
  ready: "broker_step c cfg s (on_ready cfg s)"
| activate: "broker_step c cfg s (fst (activate_lease ops s k p))"
| reclaim: "broker_step c cfg s (fst (reclaim_lease ops s k p))"
| request: "broker_step c cfg s (fst (request_bond c cfg now ops s rq))"
| task: "broker_step c cfg s (fst (task_handler a cfg now ops s b))"
| cancel: "broker_step c cfg s (fst (cancel_bond c cfg now ops s cb))"
| sweep: "broker_step c cfg s (fst (expire_sweep cfg now ops s nu ls))"

text \<open>How the bonds of one registry may differ from those of a later one: no lease loses its
  bond, a bond keeps its owner and its provider and moves along the lifecycle, and a new bond
  starts open.\<close>

definition bond_moves :: "ComputeBondRecord option \<Rightarrow> ComputeBondRecord option \<Rightarrow> bool" where
  "bond_moves x y = (case (x, y) of
     (None, None) \<Rightarrow> True
   | (None, Some r') \<Rightarrow> life_step\<^sup>*\<^sup>* Open (bond_abs r')
   | (Some r, None) \<Rightarrow> False
   | (Some r, Some r') \<Rightarrow> agent_did r' = agent_did r \<and> provider r' = provider r \<and>
        life_step\<^sup>*\<^sup>* (bond_abs r) (bond_abs r'))"

definition bonds_wf :: "registry \<Rightarrow> bool" where
  "bonds_wf g = (reg_ok g \<and> (\<forall>k r. reg_get g k = Some r \<longrightarrow> bond_wf r))"

definition reg_moves :: "registry \<Rightarrow> registry \<Rightarrow> bool" where
  "reg_moves g g' = (bonds_wf g \<longrightarrow> bonds_wf g' \<and> (\<forall>k. bond_moves (reg_get g k) (reg_get g' k)))"

subsection \<open>Lemmas\<close>

lemma bond_moves_refl [simp]: "bond_moves x x"
  by (cases x) (simp_all add: bond_moves_def)

lemma reg_moves_refl [simp]: "reg_moves g g"
  by (simp add: reg_moves_def)

lemma prov_set_registry [simp]: "registry (prov_set s p x) = registry s"
  by (simp add: prov_set_def)

lemma sync_registry [simp]: "registry (syncBondSnapshot cfg s b st) = registry s"
  by (simp add: syncBondSnapshot_def)

lemma reg_moves_transition:
  assumes "named_task t"
  shows "reg_moves g (fst (reg_transition g k t))"
proof (cases "\<exists>r r'. reg_get g k = Some r \<and> transitionComputeBond r t = Inr r'")
  case True
  then obtain r r' where r: "reg_get g k = Some r" "transitionComputeBond r t = Inr r'" by blast
  note get' = conjunct2 [OF reg.trans_ok [OF r]]
  {
    assume wf: "bonds_wf g"
    with r(1) have "bond_wf r" by (simp add: bonds_wf_def)
    note step = refine_step [OF this assms r(2)] transition_wf [OF this assms r(2)]
    have "bonds_wf (fst (reg_transition g k t))"
      using wf step(2) by (auto simp: bonds_wf_def reg.ok_trans get' split: if_splits)
    moreover have "bond_moves (reg_get g k') (reg_get (fst (reg_transition g k t)) k')" for k'
      using step(1) r by (auto simp: get' bond_moves_def transition_Inr split: option.splits)
    ultimately have "bonds_wf (fst (reg_transition g k t)) \<and>
      (\<forall>k'. bond_moves (reg_get g k') (reg_get (fst (reg_transition g k t)) k'))" by blast
  }
  then show ?thesis by (simp add: reg_moves_def)
next
  case False
  then have "fst (reg_transition g k t) = g"
    by (auto simp: reg_transition_def split: option.splits sum.splits)
  then show ?thesis by simp
qed

lemma reg_moves_trans:
  assumes "reg_moves g g'" and "reg_get g'' = reg_get g'" and "reg_ok g' \<Longrightarrow> reg_ok g''"
  shows "reg_moves g g''"
  using assms by (auto simp: reg_moves_def bonds_wf_def)

lemma reg_moves_reserve:
  assumes "status r = Reserved" and "task_id r = None"
  shows "reg_moves g (fst (reserve g r))"
proof -
  have "bonds_wf g \<Longrightarrow> bonds_wf (fst (reserve g r))"
    using assms by (auto simp: bonds_wf_def reg.ok_res reg.get_res bond_wf_def split: if_splits)
  moreover have "bond_moves (reg_get g k) (reg_get (fst (reserve g r)) k)" for k
    using assms by (cases "reg_get g k") (auto simp: reg.get_res bond_moves_def bond_abs_def)
  ultimately show ?thesis by (simp add: reg_moves_def)
qed

lemma task_begin_cases:
  assumes "task_begin a now g b = (g', res)"
  shows "(\<exists>rep. res = Inl rep \<and> fst rep \<noteq> 200 \<and> g' = g) \<or>
    (\<exists>r next. BondTaskActionBody b \<and> reg_get g (a_lease_id b) = Some r \<and> provider r = a_provider b \<and> agent_did r = a_agent_did b
       \<and> transitionComputeBond r (action_transition a now b) = Inr next
       \<and> reg_transition g (a_lease_id b) (action_transition a now b) = (g', Inr next) \<and> res = Inr (r, next))"
proof (cases "reg_get g (a_lease_id b)")
  case None
  with assms show ?thesis by (auto simp: task_begin_def split: if_splits)
next
  case (Some r)
  let ?t = "action_transition a now b"
  show ?thesis
  proof (cases "BondTaskActionBody b \<and> provider r = a_provider b \<and> agent_did r = a_agent_did b
      \<and> validateComputeBondTransition r ?t = []")
    case True
    then have tr: "transitionComputeBond r ?t = Inr (applyComputeBond r ?t)"
      by (simp add: transition_guarded validate_iff_guard)
    obtain g'' where rt: "reg_transition g (a_lease_id b) ?t = (g'', Inr (applyComputeBond r ?t))"
      using reg.trans_ok [OF Some tr] by (metis prod.collapse)
    with True Some tr assms show ?thesis by (auto simp: task_begin_def)
  next
    case False
    with Some assms show ?thesis by (auto simp: task_begin_def Let_def split: if_splits)
  qed
qed

lemma named_action: "BondTaskActionBody b \<Longrightarrow> named_task (action_transition a now b)"
  by (cases a) (simp_all add: BondTaskActionBody_def)

text \<open>A task action either applies its transition and answers 200, or changes no lookup.\<close>

lemma task_handler_cases:
  assumes "reg_ok (registry s)" and "task_handler a cfg now ops s b = (s', code, bdy)"
  obtains
    (kept) "code \<noteq> 200" "reg_get (registry s') = reg_get (registry s)" "reg_ok (registry s')"
  | (applied) r r' where "code = 200" "BondTaskActionBody b" "reg_get (registry s) (a_lease_id b) = Some r"
      "provider r = a_provider b" "agent_did r = a_agent_did b"
      "transitionComputeBond r (action_transition a now b) = Inr r'"
      "registry s' = fst (reg_transition (registry s) (a_lease_id b) (action_transition a now b))"
      "bdy = BondB r' (Some (action_status a))"
proof -
  obtain g res where tb: "task_begin a now (registry s) b = (g, res)" by fastforce
  consider (err) rep where "res = Inl rep" "fst rep \<noteq> 200" "g = registry s"
    | (go) r nx where "BondTaskActionBody b" "reg_get (registry s) (a_lease_id b) = Some r"
      "provider r = a_provider b" "agent_did r = a_agent_did b"
      "transitionComputeBond r (action_transition a now b) = Inr nx"
      "reg_transition (registry s) (a_lease_id b) (action_transition a now b) = (g, Inr nx)" "res = Inr (r, nx)"
    using task_begin_cases [OF tb] by blast
  then show thesis
  proof cases
    case err
    with tb assms(2) have "s' = s\<lparr>registry := registry s\<rparr>" "fst rep = code"
      by (auto simp: task_handler_def)
    with err assms(1) show thesis by (intro kept) auto
  next
    case go
    obtain x cres where call: "action_call a (selectProvider (a_provider b) ops) (prov_get s (a_provider b)) (a_lease_id b) = (x, cres)"
      by fastforce
    have okg: "reg_ok g" using reg.ok_trans [OF assms(1)] go(6) by (metis fst_conv)
    show thesis
    proof (cases cres)
      case (Inl e)
      then have s': "registry s' = replace g r" "code = 502"
        using tb go(7) call assms(2) by (auto simp: task_handler_def task_end_def)
      then show thesis
        using reg.rollback [OF assms(1) go(2,6)] okg by (intro kept) (simp_all add: reg.ok_rep)
    next
      case (Inr u)
      then show thesis
        using tb go call assms(2) by (intro applied) (auto simp: task_handler_def task_end_def)
    qed
  qed
qed

lemma task_handler_moves: "reg_moves (registry s) (registry (fst (task_handler a cfg now ops s b)))"
proof (cases "reg_ok (registry s)")
  case True
  obtain s' code bdy where h: "task_handler a cfg now ops s b = (s', code, bdy)" by (metis prod.collapse)
  from True h show ?thesis
  proof (cases rule: task_handler_cases)
    case kept
    with h show ?thesis using reg_moves_trans [OF reg_moves_refl] by simp
  next
    case applied
    with h reg_moves_transition [OF named_action] show ?thesis by simp
  qed
next
  case False
  then show ?thesis by (simp add: reg_moves_def bonds_wf_def)
qed

lemma cancel_registry:
  "registry (fst (cancel_bond c cfg now ops s b)) = registry s \<or>
   registry (fst (cancel_bond c cfg now ops s b)) = fst (reg_transition (registry s) (c_lease_id b) (Cancel now))"
proof -
  have any: "registry (fst (any_cancel ops s (c_lease_id b))) = registry s"
    by (auto simp: any_cancel_def split: prod.splits sum.splits)
  show ?thesis
    using any unfolding cancel_bond_def
    by (auto simp: asBondError_def split: option.splits sum.splits prod.splits)
qed

lemma request_registry:
  "registry (fst (request_bond c cfg now ops s b)) = registry s \<or>
   (\<exists>v sig pk. registry (fst (request_bond c cfg now ops s b)) =
      fst (reserve (registry s) (bond_of_reservation cfg now b v sig pk)))"
  unfolding request_bond_def
  by (auto simp: Let_def split: option.splits sum.splits prod.splits)

lemma sweep_one_registry:
  "registry (fst (sweep_one cfg n ops s l)) = registry s \<or>
   registry (fst (sweep_one cfg n ops s l)) = fst (reg_transition (registry s) (w_lease_id l) (Expire (n * 1000)))"
  by (auto simp: sweep_one_def Let_def split: option.splits sum.splits prod.splits)

lemma bond_moves_trans: "bond_moves x y \<Longrightarrow> bond_moves y z \<Longrightarrow> bond_moves x z"
  by (auto simp: bond_moves_def split: option.splits)

lemma reg_moves_trans': "reg_moves g g' \<Longrightarrow> reg_moves g' g'' \<Longrightarrow> reg_moves g g''"
  by (auto simp: reg_moves_def intro: bond_moves_trans)

lemma sweep_one_moves: "reg_moves (registry s) (registry (fst (sweep_one cfg n ops s l)))"
  using sweep_one_registry [of cfg n ops s l] reg_moves_transition [of "Expire (n * 1000)"] by auto

lemma sweep_all_moves: "reg_moves (registry s) (registry (fst (sweep_all cfg n ops s ls)))"
proof (induction ls arbitrary: s)
  case Nil
  then show ?case by simp
next
  case (Cons l ls)
  from reg_moves_trans' [OF sweep_one_moves [of s cfg n ops l] Cons] show ?case
    by (simp add: case_prod_beta)
qed

lemma broker_step_moves: "broker_step c cfg s s' \<Longrightarrow> reg_moves (registry s) (registry s')"
proof (induction rule: broker_step.induct)
  case (request s now ops rq)
  have "reg_moves (registry s) (fst (reserve (registry s) (bond_of_reservation cfg now rq v sig pk)))" for v sig pk
    by (rule reg_moves_reserve) (simp_all add: bond_of_reservation_def)
  with request_registry [of c cfg now ops s rq] show ?case by auto
next
  case (cancel s now ops cb)
  with cancel_registry [of c cfg now ops s cb] reg_moves_transition [of "Cancel now"] show ?case by auto
next
  case (sweep s now ops nu ls)
  show ?case by (simp add: expire_sweep_def Let_def case_prod_beta sweep_all_moves)
qed (auto simp: on_ready_def activate_lease_def reclaim_lease_def task_handler_moves split: prod.splits sum.splits)

lemma broker_reach_moves: "(broker_step c cfg)\<^sup>*\<^sup>* s s' \<Longrightarrow> reg_moves (registry s) (registry s')"
  by (induction rule: rtranclp_induct) (auto intro: broker_step_moves reg_moves_trans')

lemma broker_reach_task: "(broker_step c cfg)\<^sup>*\<^sup>* s (fst (task_handler a cfg now ops s b))"
  by (rule r_into_rtranclp, rule broker_step.task)

lemma life_step_from_closed: "life_step\<^sup>*\<^sup>* l l' \<Longrightarrow> l \<noteq> Open \<Longrightarrow> \<forall>t. l \<noteq> Bound t \<Longrightarrow> l' = l"
  by (induction rule: converse_rtranclp_induct) (auto dest: life_closed)

lemma closed_abs: "terminal (status r) \<Longrightarrow> bond_abs r \<noteq> Open \<and> (\<forall>t. bond_abs r \<noteq> Bound t)"
  by (auto simp: terminal_def bond_abs_def)

lemma abs_status: "bond_abs r = bond_abs r' \<Longrightarrow> status r = status r'"
  by (auto simp: bond_abs_def split: ComputeBondStatus.splits)

subsection \<open>Concrete brokers, for the witnesses\<close>

definition toy_crypto :: crypto where
  "toy_crypto = \<lparr>bs58_decode = (\<lambda>s. Some (map (\<lambda>ch. of_nat (of_char ch)) s)),
     bs58_encode = map (\<lambda>b. char_of (unat b)),
     ed_sign = (\<lambda>msg key. key @ key), ed_public = (\<lambda>key. key),
     ed_verify = (\<lambda>sig msg pk. Some (sig = pk @ pk))\<rparr>"

definition sample_cfg :: broker_cfg where
  "sample_cfg = \<lparr>signingKeyHex = Some (replicate 64 CHR ''a''), maxBondDurationSecs = 1209600,
     bondSlashWindowSecs = 86400, syncEnabled = True\<rparr>"

definition mock_pair :: "rat \<Rightarrow> MockProvider ops2" where
  "mock_pair now = (mock_ops now, mock_ops now)"

text \<open>A broker that holds the sample bond, its lease reserved at the mock io.net.\<close>

definition sample_broker :: "MockProvider broker" where
  "sample_broker = \<lparr>registry = sample_registry,
     ionet = \<lparr>mock_name = Ionet, nextLeaseId = 2, statuses = [(''ionet-mock-1'', LReserved)]\<rparr>,
     akash = new_mock Akash, synced = []\<rparr>"

definition sample_action :: task_action_body where
  "sample_action = \<lparr>a_lease_id = ''ionet-mock-1'', a_provider = Ionet,
     a_agent_did = ''4Nd1mYQzvgV8Vr3Z3nYb7pD6T8K2jF2b'', a_task_id = ''task-1'', a_reason = None\<rparr>"

lemma sample_get: "reg_get sample_registry k = (if k = ''ionet-mock-1'' then Some sample_bond else None)"
  by (simp add: sample_registry_def reg.get_res)
    (simp add: new_registry_def load_bonds_def store_load_def reg_get_def map_get_def sample_bond_def)

lemma sample_bonds_wf: "bonds_wf sample_registry"
  by (simp add: bonds_wf_def sample_registry_ok sample_get)

lemma sample_action_body: "BondTaskActionBody sample_action"
  by (simp add: BondTaskActionBody_def sample_action_def did_ok_def)

lemma sample_begin:
  "task_begin ALock 1500000 sample_registry sample_action =
     (fst (reg_transition sample_registry ''ionet-mock-1'' (Lock ''task-1'' 1500000)), Inr (sample_bond, sample_locked))"
proof -
  obtain g where "reg_transition sample_registry ''ionet-mock-1'' (Lock ''task-1'' 1500000) = (g, Inr sample_locked)"
    using reg.trans_ok [OF _ sample_lock, of sample_registry "''ionet-mock-1''"] sample_get by (metis prod.collapse)
  then show ?thesis
    using sample_action_body sample_get sample_lock
    by (simp add: task_begin_def sample_action_def transition_Inr validate_iff_guard)
      (simp add: sample_bond_def)
qed

subsection \<open>Properties\<close>

text \<open>
  C1. Whatever requests the broker serves, one at a time, in whatever order and whatever its
  providers answer, every lease keeps its bond, the bond keeps its owner and provider, its task
  keeps agreeing with its status, and it only moves along the lifecycle; new bonds start open.
\<close>

theorem broker_respects_lifecycle:
  assumes "(broker_step c cfg)\<^sup>*\<^sup>* s s'" and "bonds_wf (registry s)"
  shows "bonds_wf (registry s') \<and> (\<forall>k. bond_moves (reg_get (registry s) k) (reg_get (registry s') k))"
  using broker_reach_moves [OF assms(1)] assms(2) by (simp add: reg_moves_def)

theorem broker_respects_lifecycle_witness:
  "bonds_wf (registry (fst (task_handler ALock sample_cfg 1500000 (mock_pair 0) sample_broker sample_action)))"
  using broker_respects_lifecycle [OF broker_reach_task, of sample_broker] sample_bonds_wf
  by (simp add: sample_broker_def)



text \<open>
  Closed bonds stay closed under requests served one at a time: a released, slashed,
  cancelled or expired bond has the same status after any run of the broker.
\<close>

theorem broker_keeps_closed_bonds:
  assumes "(broker_step c cfg)\<^sup>*\<^sup>* s s'" and "bonds_wf (registry s)"
    and "reg_get (registry s) k = Some r" and "terminal (status r)"
  shows "\<exists>r'. reg_get (registry s') k = Some r' \<and> status r' = status r \<and> agent_did r' = agent_did r"
proof -
  have "bond_moves (Some r) (reg_get (registry s') k)"
    using broker_reach_moves [OF assms(1)] assms(2,3) by (simp add: reg_moves_def) metis
  then obtain r' where r': "reg_get (registry s') k = Some r'" "agent_did r' = agent_did r"
    "life_step\<^sup>*\<^sup>* (bond_abs r) (bond_abs r')"
    by (auto simp: bond_moves_def split: option.splits)
  from life_step_from_closed [OF r'(3)] closed_abs [OF assms(4)] have "bond_abs r' = bond_abs r" by blast
  with r' abs_status show ?thesis by metis
qed

definition closed_broker :: "MockProvider broker" where
  "closed_broker = sample_broker\<lparr>registry := new_registry (Some (Some [applyComputeBond sample_bond (Cancel 1600000)]))\<rparr>"

lemma closed_broker_get:
  "reg_get (registry closed_broker) k =
     (if k = ''ionet-mock-1'' then Some (applyComputeBond sample_bond (Cancel 1600000)) else None)"
  by (simp add: closed_broker_def new_registry_def store_load_def load_bonds_def reg_get_def map_get_def sample_bond_def)

theorem broker_keeps_closed_bonds_witness:
  "\<exists>r'. reg_get (registry (fst (task_handler ALock sample_cfg 1500000 (mock_pair 0) closed_broker sample_action)))
      ''ionet-mock-1'' = Some r' \<and> status r' = Cancelled"
proof -
  have wf: "bonds_wf (registry closed_broker)"
    by (simp add: bonds_wf_def closed_broker_get) (simp add: closed_broker_def new_registry_ok bond_wf_def)
  show ?thesis
    using broker_keeps_closed_bonds [OF broker_reach_task wf, of "''ionet-mock-1''"
        "applyComputeBond sample_bond (Cancel 1600000)"]
    by (simp add: closed_broker_get terminal_def) blast
qed

text \<open>What the broker relies on in base58 and ed25519: decoding inverts encoding, keys and
  signatures have their sizes, and a signature verifies under its public key.\<close>

definition crypto_laws :: "crypto \<Rightarrow> bool" where
  "crypto_laws c = ((\<forall>bs. bs58_decode c (bs58_encode c bs) = Some bs) \<and>
     (\<forall>msg key. length key = 32 \<longrightarrow> length (ed_public c key) = 32 \<and> length (ed_sign c msg key) = 64
        \<and> ed_verify c (ed_sign c msg key) msg (ed_public c key) = Some True))"

lemma length_hex_pairs: "length (hex_pairs s) = length s div 2"
  by (induction s rule: hex_pairs.induct) auto

lemma hexToKey_length: "hexToKey hex = Inr key \<Longrightarrow> length key = 32"
  by (auto simp: hexToKey_def Let_def length_hex_pairs split: if_splits)

lemma verify_sign:
  assumes "crypto_laws c" and "sign c p key = Inr (sig, pk)"
  shows "verify c p sig pk"
  using assms by (auto simp: sign_def verify_def crypto_laws_def split: if_splits)

lemma verify_cong:
  assumes eq: "canonicalComputeBondAttestation p = canonicalComputeBondAttestation q"
  shows "verify c p = verify c q"
  unfolding verify_def eq by (rule refl)

lemma canonical_truncate:
  "canonicalComputeBondAttestation (bond_of_reservation cfg now b v sig pk) =
   canonicalComputeBondAttestation \<lparr>agent_did = b_agent_did b, provider = b_provider b, lease_id = leaseId v,
     gpu_hours = rv_gpuHours v, expires_at = expiresAt v\<rparr>"
  by (simp add: canonicalComputeBondAttestation_def bond_of_reservation_def)

text \<open>
  C37. A granted reservation is sound: the record the broker answers with passes its own
  validation, is open, is slashable for the configured window after the lease's expiry, carries
  an attestation that verifies under the broker's published key, and is what the registry holds
  for the lease unless the provider handed out a lease id the registry already knew.
\<close>

theorem granted_bond_is_attested:
  assumes "crypto_laws c" and "request_bond c cfg now ops s b = (s', 200, ReservedB r)"
  shows "validateComputeBondRecord r = [] \<and> status r = Reserved \<and> task_id r = None
    \<and> agent_did r = b_agent_did b \<and> slashable_until r = expires_at r + bondSlashWindowSecs cfg
    \<and> verify c r (attestation_sig r) (broker_pubkey r)
    \<and> (reg_get (registry s) (lease_id r) = None \<longrightarrow> reg_get (registry s') (lease_id r) = Some r)
    \<and> (\<forall>k. reg_get (registry s) k \<noteq> None \<longrightarrow> reg_get (registry s') k = reg_get (registry s) k)"
proof -
  from assms(2) obtain v sig pk key where r: "r = bond_of_reservation cfg now b v sig pk"
    and valid: "validateComputeBondRecord r = []"
    and signed: "sign c \<lparr>agent_did = b_agent_did b, provider = b_provider b, lease_id = leaseId v,
        gpu_hours = rv_gpuHours v, expires_at = expiresAt v\<rparr> key = Inr (sig, pk)"
    and s': "registry s' = fst (reserve (registry s) r)"
    unfolding request_bond_def
    by (auto simp: Let_def split: if_splits option.splits sum.splits prod.splits)
  have "verify c r sig pk"
    using verify_sign [OF assms(1) signed] verify_cong [OF canonical_truncate] by (simp add: r)
  moreover have "attestation_sig r = sig" "broker_pubkey r = pk" "status r = Reserved" "task_id r = None"
    "agent_did r = b_agent_did b" "slashable_until r = expires_at r + bondSlashWindowSecs cfg"
    by (simp_all add: r bond_of_reservation_def)
  ultimately show ?thesis
    using valid s' by (simp add: reg.get_res)
qed

lemma toy_crypto_laws: "crypto_laws toy_crypto"
  by (auto simp: crypto_laws_def toy_crypto_def o_def of_char_of map_idI mod_less [OF unat_byte])

definition sample_request :: bond_request where
  "sample_request = \<lparr>b_agent_did = ''4Nd1mYQzvgV8Vr3Z3nYb7pD6T8K2jF2b'', b_provider = Ionet, b_gpu_hours = 8,
     b_duration_secs = 1000, b_hints = None\<rparr>"

theorem granted_bond_is_attested_witness:
  "\<exists>s' r. request_bond toy_crypto sample_cfg 1000000 (mock_pair 1000000) sample_broker sample_request = (s', 200, ReservedB r)
     \<and> lease_id r = ''ionet-mock-2'' \<and> verify toy_crypto r (attestation_sig r) (broker_pubkey r)"
proof -
  have "hexToKey (replicate 64 CHR ''a'') = Inr (hex_pairs (replicate 64 CHR ''a''))"
    by (simp add: hexToKey_def startsWith_def)
  moreover have "length (hex_pairs (replicate 64 CHR ''a'')) = 32" by (simp add: length_hex_pairs)
  moreover have "show_nat 2 = ''2''" by code_simp
  ultimately obtain s' r where
    req: "request_bond toy_crypto sample_cfg 1000000 (mock_pair 1000000) sample_broker sample_request = (s', 200, ReservedB r)"
    and l: "lease_id r = ''ionet-mock-2''"
    by (simp add: request_bond_def sample_cfg_def sample_request_def BondRequestBody_def did_ok_def sign_def
        sample_broker_def mock_pair_def mock_ops_def mock_reserve_def mock_lease_id_def prov_get_def
        selectProvider_def bond_of_reservation_def validate_record_iff terminal_def Let_def)
  with granted_bond_is_attested [OF toy_crypto_laws req] show ?thesis by blast
qed

text \<open>
  Cancelling does not check who owns the bond: any agent whose own signature verifies
  cancels an open bond of another agent, and the broker answers 200.
\<close>

theorem stranger_cancels_bond:
  assumes "BondCancelBody b" and "signingKeyHex cfg \<noteq> None"
    and "bs58_decode c (c_signed_request b) = Some sig" and "bs58_decode c (c_agent_did b) = Some pk"
    and "cancel_signed c sig pk (cancel_message (c_lease_id b) (c_agent_did b))"
    and "any_status ops s (c_lease_id b) = Some LReserved" and "any_cancel ops s (c_lease_id b) = (s1, Inr refund)"
    and "reg_get (registry s1) (c_lease_id b) = Some r" and "status r = Reserved"
    and "agent_did r \<noteq> c_agent_did b"
  shows "\<exists>s'. cancel_bond c cfg now ops s b = (s', 200, CancelledB (c_lease_id b) refund)
    \<and> map_option status (reg_get (registry s') (c_lease_id b)) = Some Cancelled"
proof -
  have tr: "transitionComputeBond r (Cancel now) = Inr (applyComputeBond r (Cancel now))"
    using assms(9) by (simp add: transition_guarded)
  obtain g where g: "reg_transition (registry s1) (c_lease_id b) (Cancel now) = (g, Inr (applyComputeBond r (Cancel now)))"
    using reg.trans_ok [OF assms(8) tr] by (metis prod.collapse)
  have "reg_get g (c_lease_id b) = Some (applyComputeBond r (Cancel now))"
    using reg.trans_ok [OF assms(8) tr, of "c_lease_id b"] g by simp
  with g assms show ?thesis by (simp add: cancel_bond_def)
qed

definition stranger_cancel :: cancel_body where
  "stranger_cancel = \<lparr>c_lease_id = ''ionet-mock-1'', c_agent_did = replicate 32 CHR ''x'',
     c_signed_request = replicate 64 CHR ''x''\<rparr>"

lemma stranger_facts:
  "BondCancelBody stranger_cancel"
  "bs58_decode toy_crypto (c_signed_request stranger_cancel) = Some (replicate 64 120)"
  "bs58_decode toy_crypto (c_agent_did stranger_cancel) = Some (replicate 32 120)"
  "cancel_signed toy_crypto (replicate 64 120) (replicate 32 120) msg"
  by (simp_all add: BondCancelBody_def stranger_cancel_def did_ok_def toy_crypto_def cancel_signed_def
      replicate_add [symmetric])

theorem stranger_cancels_bond_witness:
  "\<exists>s'. cancel_bond toy_crypto sample_cfg 1600000 (mock_pair 0) sample_broker stranger_cancel
      = (s', 200, CancelledB ''ionet-mock-1'' 0)
    \<and> map_option status (reg_get (registry s') ''ionet-mock-1'') = Some Cancelled
    \<and> agent_did sample_bond \<noteq> c_agent_did stranger_cancel"
proof -
  obtain s1 where s1: "any_cancel (mock_pair 0) sample_broker ''ionet-mock-1'' = (s1, Inr 0)" "registry s1 = sample_registry"
    by (simp add: any_cancel_def mock_pair_def mock_ops_def mock_cancel_def mock_mark_def assertLease_def
        sample_broker_def map_get_def)
  have st: "any_status (mock_pair 0) sample_broker ''ionet-mock-1'' = Some LReserved"
    by (simp add: any_status_def mock_pair_def mock_ops_def mock_status_eq sample_broker_def map_get_def)
  have did: "agent_did sample_bond \<noteq> c_agent_did stranger_cancel"
    by (rule notI, drule arg_cong [where f = hd]) (simp add: sample_bond_def stranger_cancel_def)
  have "c_lease_id stranger_cancel = ''ionet-mock-1''" by (simp add: stranger_cancel_def)
  with stranger_cancels_bond [OF stranger_facts(1) _ stranger_facts(2,3,4), of sample_cfg "mock_pair 0" sample_broker s1 0 sample_bond 1600000]
    s1 st did sample_get show ?thesis
    by (simp add: sample_cfg_def)
qed

text \<open>
  Cancelling calls the provider before it asks the registry: for a bond locked to a task
  the broker answers 409 and the bond stays locked, but the lease behind it is already
  cancelled at the provider.
\<close>

theorem cancel_destroys_locked_lease:
  assumes "BondCancelBody b" and "signingKeyHex cfg \<noteq> None"
    and "bs58_decode c (c_signed_request b) = Some sig" and "bs58_decode c (c_agent_did b) = Some pk"
    and "cancel_signed c sig pk (cancel_message (c_lease_id b) (c_agent_did b))"
    and "mock_ok (ionet s)" and "mock_status (ionet s) (c_lease_id b) = Inr LActive"
    and "reg_get (registry s) (c_lease_id b) = Some r" and "status r = Locked"
  shows "\<exists>s' msg. cancel_bond c cfg now (mock_pair t) s b = (s', 409, ErrB msg)
    \<and> reg_get (registry s') (c_lease_id b) = Some r \<and> mock_status (ionet s') (c_lease_id b) = Inr LCancelled"
proof -
  let ?k = "c_lease_id b"
  let ?m = "(ionet s)\<lparr>statuses := map_set ?k LCancelled (statuses (ionet s))\<rparr>"
  note marks = mock_mark_known [OF assms(7)]
  have st: "any_status (mock_pair t) s ?k = Some LActive"
    by (simp add: any_status_def mock_pair_def mock_ops_def assms(7))
  have ca: "any_cancel (mock_pair t) s ?k = (s\<lparr>ionet := ?m\<rparr>, Inr 0)"
    by (simp add: any_cancel_def mock_pair_def mock_ops_def mock_cancel_def marks)
  have msg: "transitionComputeBond r (Cancel now) = Inl ''bond cannot cancel from status locked''"
    by (simp add: transitionComputeBond_def assms(9))
  from reg.trans_err [OF assms(8) msg] marks assms st ca show ?thesis
    by (simp add: cancel_bond_def asBondError_def)
qed

definition locked_broker :: "MockProvider broker" where
  "locked_broker = sample_broker\<lparr>registry := new_registry (Some (Some [sample_locked])),
     ionet := \<lparr>mock_name = Ionet, nextLeaseId = 2, statuses = [(''ionet-mock-1'', LActive)]\<rparr>\<rparr>"

lemma locked_broker_facts:
  "reg_get (registry locked_broker) ''ionet-mock-1'' = Some sample_locked"
  "mock_status (ionet locked_broker) ''ionet-mock-1'' = Inr LActive"
  "mock_ok (ionet locked_broker)"
proof -
  have "show_nat 1 = ''1''" by code_simp
  then show "mock_ok (ionet locked_broker)"
    by (auto simp: locked_broker_def mock_ok_def map_get_def mock_lease_id_def split: if_splits intro!: exI [of _ 1])
qed (simp_all add: locked_broker_def new_registry_def store_load_def load_bonds_def reg_get_def map_get_def
      sample_locked_def sample_bond_def mock_status_eq)

theorem cancel_destroys_locked_lease_witness:
  "\<exists>s' msg. cancel_bond toy_crypto sample_cfg 1600000 (mock_pair 0) locked_broker stranger_cancel = (s', 409, ErrB msg)
    \<and> mock_status (ionet s') ''ionet-mock-1'' = Inr LCancelled"
proof -
  have "c_lease_id stranger_cancel = ''ionet-mock-1''" by (simp add: stranger_cancel_def)
  with cancel_destroys_locked_lease [OF stranger_facts(1) _ stranger_facts(2,3,4), of sample_cfg locked_broker sample_locked 1600000 0]
    locked_broker_facts show ?thesis by (auto simp: sample_cfg_def)
qed

text \<open>
  The expiry sweep believes the caller about the slashable window and about the time: for a
  locked bond whose stored window is still open it reports an error and leaves the bond locked,
  but the lease behind it has been reclaimed at the provider.
\<close>

theorem sweep_reclaims_inside_window:
  assumes "mock_ok (ionet s)" and "mock_status (ionet s) k = Inr LActive"
    and "reg_get (registry s) k = Some r" and "status r = Locked"
    and "isInteger n" and "0 < n" and "n < slashable_until r" and "k \<noteq> []"
  shows "\<exists>s'. expire_sweep cfg now (mock_pair t) s (Some n) [\<lparr>w_lease_id = k, w_provider = Ionet, w_slashable_until = n\<rparr>]
      = (s', 200, SweepB [(k, Ionet, SweepError)])
    \<and> reg_get (registry s') k = Some r \<and> mock_status (ionet s') k = Inr LReclaimed"
proof -
  note marks = mock_mark_known [OF assms(2)]
  have msg: "transitionComputeBond r (Expire (n * 1000)) = Inl ''slashable window is still active''"
    using assms(4,7) by (simp add: transitionComputeBond_def terminal_def)
  have rc: "p_reclaim (selectProvider Ionet (mock_pair t)) (prov_get s Ionet) k
      = ((ionet s)\<lparr>statuses := map_set k LReclaimed (statuses (ionet s))\<rparr>, Inr ())"
    by (simp add: mock_pair_def selectProvider_def prov_get_def mock_ops_def mock_reclaim_def marks)
  from reg.trans_err [OF assms(3) msg] marks(2) [of LReclaimed] assms rc show ?thesis
    by (simp add: expire_sweep_def ExpireSweepBody_def sweep_one_def prov_set_def)
qed

theorem sweep_reclaims_inside_window_witness:
  "\<exists>s'. expire_sweep sample_cfg 1600000 (mock_pair 0) locked_broker (Some 1600)
      [\<lparr>w_lease_id = ''ionet-mock-1'', w_provider = Ionet, w_slashable_until = 1600\<rparr>]
      = (s', 200, SweepB [(''ionet-mock-1'', Ionet, SweepError)])
    \<and> mock_status (ionet s') ''ionet-mock-1'' = Inr LReclaimed"
  using sweep_reclaims_inside_window [OF locked_broker_facts(3,2,1), of 1600 sample_cfg 1600000 0] by auto

text \<open>
  Interleaved requests break what serial ones keep: while a lock waits for its provider,
  a release of the same bond can complete; if the provider then refuses the lock, the rollback
  puts the old record back and the released bond is open again.
\<close>

theorem rollback_reopens_released_bond:
  "\<exists>g g'. inter_step\<^sup>*\<^sup>* (sample_registry, []) (g, [(sample_bond, sample_locked)])
    \<and> map_option status (reg_get g ''ionet-mock-1'') = Some Released
    \<and> inter_step (g, [(sample_bond, sample_locked)]) (g', [])
    \<and> reg_get g' ''ionet-mock-1'' = Some sample_bond"
proof -
  let ?k = "''ionet-mock-1''"
  let ?t = "Release ''task-1'' 1600000"
  define g1 where "g1 = fst (reg_transition sample_registry ?k (Lock ''task-1'' 1500000))"
  have g1: "reg_get g1 ?k = Some sample_locked"
    using reg.trans_ok [OF _ sample_lock, of sample_registry ?k ?k] sample_get by (simp add: g1_def)
  define rel where "rel = applyComputeBond sample_locked ?t"
  have tr: "transitionComputeBond sample_locked ?t = Inr rel"
    by (simp add: transition_guarded rel_def)
  define g2 where "g2 = fst (reg_transition g1 ?k ?t)"
  have rt: "reg_transition g1 ?k ?t = (g2, Inr rel)"
    using reg.trans_ok [OF g1 tr] by (metis g2_def prod.collapse)
  have g2: "reg_get g2 ?k = Some rel"
    using reg.trans_ok [OF g1 tr, of ?k] by (simp add: g2_def)
  have "task_begin ARelease 1600000 g1 sample_action = (g2, Inr (sample_locked, rel))"
    using sample_action_body g1 rt tr
    by (simp add: task_begin_def sample_action_def transition_Inr validate_iff_guard)
      (simp add: sample_locked_def sample_bond_def)
  then have step2: "inter_step (g1, [(sample_bond, sample_locked)]) (g2, [(sample_bond, sample_locked), (sample_locked, rel)])"
    using inter_step.start [where ws = "[(sample_bond, sample_locked)]"] by simp
  have step1: "inter_step (sample_registry, []) (g1, [(sample_bond, sample_locked)])"
    using inter_step.start [OF sample_begin, of "[]"] by (simp add: g1_def)
  have step3: "inter_step (g2, [(sample_bond, sample_locked), (sample_locked, rel)]) (g2, [(sample_bond, sample_locked)])"
    using inter_step.returned [of g2 "[(sample_bond, sample_locked)]" sample_locked rel "[]"] by simp
  have step4: "inter_step (g2, [(sample_bond, sample_locked)]) (replace g2 sample_bond, [])"
    using inter_step.threw [of g2 "[]" sample_bond sample_locked "[]"] by simp
  have "lease_id sample_bond = ?k" by (simp add: sample_bond_def)
  then have restored: "reg_get (replace g2 sample_bond) ?k = Some sample_bond" by (simp add: reg.get_rep)
  have "status rel = Released" by (simp add: rel_def)
  with g2 step1 step2 step3 step4 restored show ?thesis
    by (intro exI [of _ g2] exI [of _ "replace g2 sample_bond"]) (auto intro: rtranclp.intros)
qed

end
