(* ===== verification/Iacp_Limiter.thy ===== *)
theory Iacp_Limiter
  imports Saep_Prelude
begin

text \<open>
  The rate limiter of the agent message bus, \<open>services/iacp/src/rate_limit.ts\<close>: a token bucket
  and a map of buckets with lazy creation, an idle sweep and eviction of the oldest key. A
  bucket is a mutable object held by the map; every method that refills it is modelled by the
  state it leaves behind. Times and token counts are rationals.
\<close>

subsection \<open>Token bucket\<close>

record TokenBucket =
  capacity :: rat
  refillPerMs :: rat

record BucketState =
  tokens :: rat
  lastRefill :: rat
  lastConsumed :: rat

definition new_TokenBucket :: "rat \<Rightarrow> rat \<Rightarrow> TokenBucket js" where
  "new_TokenBucket cap rate =
     (if cap \<le> 0 then Inl ''capacity must be > 0''
      else if rate \<le> 0 then Inl ''refillPerMs must be > 0''
      else Inr \<lparr>capacity = cap, refillPerMs = rate\<rparr>)"

definition initial :: "TokenBucket \<Rightarrow> rat \<Rightarrow> BucketState" where
  "initial b now = \<lparr>tokens = capacity b, lastRefill = now, lastConsumed = now\<rparr>"

definition refill :: "TokenBucket \<Rightarrow> BucketState \<Rightarrow> rat \<Rightarrow> BucketState" where
  "refill b s now =
     (if now \<le> lastRefill s then s
      else s\<lparr>tokens := min (capacity b) (tokens s + (now - lastRefill s) * refillPerMs b), lastRefill := now\<rparr>)"

definition tryConsume :: "TokenBucket \<Rightarrow> BucketState \<Rightarrow> rat \<Rightarrow> rat \<Rightarrow> BucketState \<times> bool" where
  "tryConsume b s now amount =
     (let s1 = refill b s now in
      if tokens s1 < amount then (s1, False)
      else let s2 = s1\<lparr>tokens := tokens s1 - amount\<rparr> in
        (if amount > 0 then s2\<lparr>lastConsumed := now\<rparr> else s2, True))"

definition retryAfterMs :: "TokenBucket \<Rightarrow> BucketState \<Rightarrow> rat \<Rightarrow> rat \<Rightarrow> BucketState \<times> int" where
  "retryAfterMs b s now amount =
     (let s1 = refill b s now; deficit = amount - tokens s1 in
      if deficit \<le> 0 then (s1, 0) else (s1, \<lceil>deficit / refillPerMs b\<rceil>))"

definition isIdle :: "TokenBucket \<Rightarrow> BucketState \<Rightarrow> rat \<Rightarrow> rat \<Rightarrow> BucketState \<times> bool" where
  "isIdle b s now idle =
     (let s1 = refill b s now in (s1, tokens s1 \<ge> capacity b \<and> now - lastConsumed s1 \<ge> idle))"

subsection \<open>Keyed limiter\<close>

record KeyedRateLimiter =
  bucket :: TokenBucket
  states :: "(string, BucketState) jsmap"
  idleMs :: rat
  maxKeys :: nat

record ConsumeResult =
  allowed :: bool
  retry_after :: int

definition new_KeyedRateLimiter :: "rat \<Rightarrow> rat \<Rightarrow> rat option \<Rightarrow> nat option \<Rightarrow> KeyedRateLimiter js" where
  "new_KeyedRateLimiter cap rate idle mk = (case new_TokenBucket cap rate of
     Inl e \<Rightarrow> Inl e
   | Inr b \<Rightarrow> Inr \<lparr>bucket = b, states = [], idleMs = (case idle of None \<Rightarrow> 60000 | Some i \<Rightarrow> i),
        maxKeys = (case mk of None \<Rightarrow> 10000 | Some k \<Rightarrow> k)\<rparr>)"

text \<open>Deleting \<open>keys().next().value\<close> when the map is full.\<close>

definition evict_oldest :: "nat \<Rightarrow> ('k, 'v) jsmap \<Rightarrow> ('k, 'v) jsmap" where
  "evict_oldest limit m =
     (if limit \<le> length (map_keys m)
      then (case map_keys m of [] \<Rightarrow> m | k # _ \<Rightarrow> map_delete k m) else m)"

definition getOrCreate :: "KeyedRateLimiter \<Rightarrow> string \<Rightarrow> rat \<Rightarrow> KeyedRateLimiter \<times> BucketState" where
  "getOrCreate l key now = (case map_get (states l) key of
     Some s \<Rightarrow> (l, s)
   | None \<Rightarrow>
      (let s = initial (bucket l) now in
       (l\<lparr>states := map_set key s (evict_oldest (maxKeys l) (states l))\<rparr>, s)))"

definition consume :: "KeyedRateLimiter \<Rightarrow> string \<Rightarrow> rat \<Rightarrow> rat \<Rightarrow> KeyedRateLimiter \<times> ConsumeResult" where
  "consume l key amount now = (case getOrCreate l key now of (l1, s) \<Rightarrow>
     (case tryConsume (bucket l1) s now amount of (s1, ok) \<Rightarrow>
       (if ok then (l1\<lparr>states := map_set key s1 (states l1)\<rparr>, \<lparr>allowed = True, retry_after = 0\<rparr>)
        else (case retryAfterMs (bucket l1) s1 now amount of (s2, r) \<Rightarrow>
          (l1\<lparr>states := map_set key s2 (states l1)\<rparr>, \<lparr>allowed = False, retry_after = r\<rparr>)))))"

definition delete_key :: "KeyedRateLimiter \<Rightarrow> string \<Rightarrow> KeyedRateLimiter" where
  "delete_key l key = l\<lparr>states := map_delete key (states l)\<rparr>"

definition sweep :: "KeyedRateLimiter \<Rightarrow> rat \<Rightarrow> KeyedRateLimiter \<times> nat" where
  "sweep l now =
     (let refilled = map (\<lambda>(k, s). (k, isIdle (bucket l) s now (idleMs l))) (states l);
          kept = filter (\<lambda>(k, (s, idle)). \<not> idle) refilled in
      (l\<lparr>states := map (\<lambda>(k, (s, idle)). (k, s)) kept\<rparr>, length refilled - length kept))"

definition limiter_size :: "KeyedRateLimiter \<Rightarrow> nat" where
  "limiter_size l = length (map_keys (states l))"

record LimiterConfig =
  msgBurst :: rat
  msgSustainedPerS :: rat
  bwBurstBytes :: rat
  bwSustainedBytesPerS :: rat

definition defaultLimiterConfig :: LimiterConfig where
  "defaultLimiterConfig = \<lparr>msgBurst = 20, msgSustainedPerS = 5, bwBurstBytes = 256 * 1024, bwSustainedBytesPerS = 64 * 1024\<rparr>"

definition buildMsgLimiter :: "LimiterConfig \<Rightarrow> KeyedRateLimiter js" where
  "buildMsgLimiter cfg = new_KeyedRateLimiter (msgBurst cfg) (msgSustainedPerS cfg / 1000) None None"

definition buildBandwidthLimiter :: "LimiterConfig \<Rightarrow> KeyedRateLimiter js" where
  "buildBandwidthLimiter cfg = new_KeyedRateLimiter (bwBurstBytes cfg) (bwSustainedBytesPerS cfg / 1000) None None"

subsection \<open>Invariants\<close>

definition bucket_ok :: "TokenBucket \<Rightarrow> bool" where
  "bucket_ok b = (0 < capacity b \<and> 0 < refillPerMs b)"

definition state_ok :: "TokenBucket \<Rightarrow> BucketState \<Rightarrow> bool" where
  "state_ok b s = (0 \<le> tokens s \<and> tokens s \<le> capacity b)"

definition limiter_ok :: "KeyedRateLimiter \<Rightarrow> bool" where
  "limiter_ok l = (bucket_ok (bucket l) \<and> map_ok (states l) \<and> 0 < maxKeys l \<and> limiter_size l \<le> maxKeys l
     \<and> (\<forall>k s. map_get (states l) k = Some s \<longrightarrow> state_ok (bucket l) s))"

text \<open>A history of a limiter: consumptions and sweeps at given times. \<open>admitted\<close> adds up what
  was allowed for one key.\<close>

datatype limiter_op = Consume string rat rat | Sweep rat

fun op_time :: "limiter_op \<Rightarrow> rat" where
  "op_time (Consume key amount now) = now"
| "op_time (Sweep now) = now"

fun op_keys :: "limiter_op \<Rightarrow> string set" where
  "op_keys (Consume key amount now) = {key}"
| "op_keys (Sweep now) = {}"

fun op_amount_ok :: "limiter_op \<Rightarrow> bool" where
  "op_amount_ok (Consume key amount now) = (0 \<le> amount)"
| "op_amount_ok (Sweep now) = True"

fun limiter_do :: "limiter_op \<Rightarrow> KeyedRateLimiter \<Rightarrow> KeyedRateLimiter" where
  "limiter_do (Consume key amount now) l = fst (consume l key amount now)"
| "limiter_do (Sweep now) l = fst (sweep l now)"

fun op_admits :: "string \<Rightarrow> limiter_op \<Rightarrow> KeyedRateLimiter \<Rightarrow> rat" where
  "op_admits k (Consume key amount now) l = (if key = k \<and> allowed (snd (consume l key amount now)) then amount else 0)"
| "op_admits k (Sweep now) l = 0"

fun admitted :: "string \<Rightarrow> limiter_op list \<Rightarrow> KeyedRateLimiter \<Rightarrow> rat" where
  "admitted k [] l = 0"
| "admitted k (x # xs) l = op_admits k x l + admitted k xs (limiter_do x l)"

definition level :: "KeyedRateLimiter \<Rightarrow> string \<Rightarrow> rat \<Rightarrow> rat" where
  "level l k now = (case map_get (states l) k of None \<Rightarrow> capacity (bucket l) | Some s \<Rightarrow> tokens (refill (bucket l) s now))"

subsection \<open>Lemmas\<close>

lemma new_bucket_ok: "new_TokenBucket cap rate = Inr b \<Longrightarrow> bucket_ok b"
  by (auto simp: new_TokenBucket_def bucket_ok_def split: if_splits)

lemma initial_ok: "bucket_ok b \<Longrightarrow> state_ok b (initial b now)"
  by (simp add: state_ok_def initial_def bucket_ok_def)

lemma refill_ok: "bucket_ok b \<Longrightarrow> state_ok b s \<Longrightarrow> state_ok b (refill b s now)"
  by (auto simp: state_ok_def refill_def bucket_ok_def)

lemma refill_refill: "refill b (refill b s now) now = refill b s now"
  by (simp add: refill_def)

lemma refill_later:
  assumes "bucket_ok b" and "state_ok b s" and "now \<le> later"
  shows "tokens (refill b (refill b s now) later) = tokens (refill b s later)"
proof (cases "now \<le> lastRefill s")
  case True
  then show ?thesis by (simp add: refill_def)
next
  case False
  have r: "0 < refillPerMs b" using assms(1) by (simp add: bucket_ok_def)
  have "now * refillPerMs b \<le> later * refillPerMs b" using assms(3) r by simp
  with False assms(2,3) r show ?thesis
    by (auto simp: refill_def state_ok_def min_def algebra_simps)
      (meson add_left_mono less_imp_le mult_right_mono order_trans)
qed

lemma tryConsume_ok:
  assumes "bucket_ok b" and "state_ok b s" and "0 \<le> amount" and "tryConsume b s now amount = (s', ok)"
  shows "state_ok b s'"
  using refill_ok [OF assms(1,2), of now] assms(3,4)
  by (auto simp: tryConsume_def Let_def state_ok_def split: if_splits)

lemma refill_gain:
  assumes "bucket_ok b"
  shows "tokens (refill b s now) \<le> tokens s + (lastRefill (refill b s now) - lastRefill s) * refillPerMs b"
    and "lastRefill s \<le> lastRefill (refill b s now)"
    and "lastRefill (refill b s now) = max (lastRefill s) now"
  by (auto simp: refill_def)

lemma tryConsume_spend:
  assumes "bucket_ok b" and "tryConsume b s now amount = (s', ok)"
  shows "tokens s' + (if ok then amount else 0) \<le> tokens s + (lastRefill s' - lastRefill s) * refillPerMs b"
    and "lastRefill s' = max (lastRefill s) now"
  using assms(2) refill_gain [OF assms(1), of s now]
  by (auto simp: tryConsume_def Let_def split: if_splits)

lemma evict_oldest_get: "map_get (evict_oldest n m) k = Some v \<Longrightarrow> map_get m k = Some v"
  by (auto simp: evict_oldest_def map_specs split: if_splits list.splits)

lemma evict_oldest_ok: "map_ok m \<Longrightarrow> map_ok (evict_oldest n m)"
  by (auto simp: evict_oldest_def map_specs split: list.splits)

lemma evict_oldest_put_size:
  assumes "map_ok m" and "length (map_keys m) \<le> n" and "0 < n"
  shows "length (map_keys (map_set k v (evict_oldest n m))) \<le> n"
proof -
  have "evict_oldest n m = (if n \<le> length (map_keys m) then map_delete (hd (map_keys m)) m else m)"
    using assms(3) by (cases "map_keys m") (auto simp: evict_oldest_def)
  with jsm.size_evict_put [OF assms] show ?thesis by metis
qed

lemma getOrCreate_ok:
  assumes "limiter_ok l" and "getOrCreate l key now = (l1, s)"
  shows "limiter_ok l1" and "map_get (states l1) key = Some s" and "bucket l1 = bucket l"
    and "state_ok (bucket l) s" and "maxKeys l1 = maxKeys l"
  using assms evict_oldest_put_size [of "states l" "maxKeys l" key "initial (bucket l) now"]
    initial_ok [of "bucket l" now]
  by (auto simp: getOrCreate_def Let_def limiter_ok_def limiter_size_def map_specs evict_oldest_ok
      dest!: evict_oldest_get split: option.splits if_splits)

lemma limiter_put_ok:
  assumes "limiter_ok l" and "map_get (states l) key = Some s" and "state_ok (bucket l) s'"
  shows "limiter_ok (l\<lparr>states := map_set key s' (states l)\<rparr>)"
  using assms jsm.size_put [of key s' "states l"]
  by (auto simp: limiter_ok_def limiter_size_def map_specs split: if_splits)

lemma consume_ok:
  assumes "limiter_ok l" and "0 \<le> amount"
  shows "limiter_ok (fst (consume l key amount now))"
proof -
  obtain l1 s where g: "getOrCreate l key now = (l1, s)" by fastforce
  note g1 = getOrCreate_ok [OF assms(1) g]
  have b: "bucket_ok (bucket l1)" using g1(1) by (simp add: limiter_ok_def)
  obtain s1 ok where t: "tryConsume (bucket l1) s now amount = (s1, ok)" by fastforce
  have s1: "state_ok (bucket l1) s1"
    using tryConsume_ok [OF b _ assms(2) t] g1(3,4) by simp
  obtain s2 r where ra: "retryAfterMs (bucket l1) s1 now amount = (s2, r)" by fastforce
  then have "state_ok (bucket l1) s2"
    using refill_ok [OF b s1, of now] by (auto simp: retryAfterMs_def Let_def split: if_splits)
  with limiter_put_ok [OF g1(1,2)] s1 g t ra show ?thesis by (simp add: consume_def)
qed

lemma map_get_mapped: "map_get (map (\<lambda>(k, v). (k, f v)) m) k = map_option f (map_get m k)"
  by (induction m) (auto simp: map_get_def)

lemma sweep_states:
  "states (fst (sweep l now)) = map (\<lambda>(k, s). (k, refill (bucket l) s now))
     (filter (\<lambda>(k, s). \<not> snd (isIdle (bucket l) s now (idleMs l))) (states l))"
  by (simp add: sweep_def Let_def filter_map o_def split_def isIdle_def)

lemma sweep_same: "bucket (fst (sweep l now)) = bucket l" "maxKeys (fst (sweep l now)) = maxKeys l"
  by (simp_all add: sweep_def Let_def)

lemma map_get_filter: "map_ok m \<Longrightarrow> map_get (filter P m) k = (case map_get m k of None \<Rightarrow> None | Some v \<Rightarrow> if P (k, v) then Some v else None)"
proof (induction m)
  case Nil
  then show ?case by (simp add: map_get_def)
next
  case (Cons e m)
  show ?case
  proof (cases "fst e = k")
    case True
    with Cons.prems have "k \<notin> fst ` set (filter P m)" by (auto simp: map_ok_def map_keys_def)
    then have "map_get (filter P m) k = None" unfolding map_get_def map_of_eq_None_iff .
    with True show ?thesis by (cases e) (auto simp: map_get_def)
  next
    case False
    with Cons show ?thesis by (cases e) (auto simp: map_get_def map_ok_def map_keys_def)
  qed
qed

lemma sweep_get:
  assumes "map_ok (states l)"
  shows "map_get (states (fst (sweep l now))) k = (case map_get (states l) k of None \<Rightarrow> None
    | Some s \<Rightarrow> if snd (isIdle (bucket l) s now (idleMs l)) then None else Some (refill (bucket l) s now))"
  using assms by (simp add: sweep_states map_get_mapped map_get_filter split: option.splits)

lemma sweep_keys: "map_keys (states (fst (sweep l now)))
    = map fst (filter (\<lambda>(k, s). \<not> snd (isIdle (bucket l) s now (idleMs l))) (states l))"
  by (simp add: sweep_states map_keys_def case_prod_beta)

lemma sweep_ok:
  assumes "limiter_ok l"
  shows "limiter_ok (fst (sweep l now))"
proof -
  have "distinct (map fst (filter P (states l)))" for P
    using assms by (auto simp: limiter_ok_def map_ok_def map_keys_def distinct_map intro: inj_on_subset)
  moreover have "length (filter P (states l)) \<le> maxKeys l" for P
    using assms le_trans [OF length_filter_le [of P "states l"]]
    by (simp add: limiter_ok_def limiter_size_def map_keys_def)
  ultimately show ?thesis
    using assms by (auto simp: limiter_ok_def limiter_size_def sweep_same sweep_get map_ok_def [of "states (fst _)"] sweep_keys
        split: option.splits if_splits intro: refill_ok)
qed

lemma limiter_do_ok:
  assumes "limiter_ok l" and "op_amount_ok x"
  shows "limiter_ok (limiter_do x l)"
  using assms by (cases x) (simp_all add: consume_ok sweep_ok)

text \<open>\<open>consume\<close> acts on the bucket of its key: the stored one, or a full one.\<close>

definition current :: "KeyedRateLimiter \<Rightarrow> string \<Rightarrow> rat \<Rightarrow> BucketState" where
  "current l key now = (case map_get (states l) key of None \<Rightarrow> initial (bucket l) now | Some s \<Rightarrow> s)"

lemma tryConsume_snd: "snd (tryConsume b s now amount) = (amount \<le> tokens (refill b s now))"
  by (simp add: tryConsume_def Let_def)

lemma tryConsume_tokens:
  "tokens (fst (tryConsume b s now amount))
    = tokens (refill b s now) - (if amount \<le> tokens (refill b s now) then amount else 0)"
  by (simp add: tryConsume_def Let_def)

lemma refill_tryConsume: "refill b (fst (tryConsume b s now amount)) now = fst (tryConsume b s now amount)"
  by (simp add: tryConsume_def Let_def refill_def)

lemma retryAfterMs_fst: "fst (retryAfterMs b s now amount) = refill b s now"
  by (simp add: retryAfterMs_def Let_def)

lemma getOrCreate_snd: "snd (getOrCreate l key now) = current l key now"
  by (simp add: getOrCreate_def current_def Let_def split: option.split)

lemma getOrCreate_same: "bucket (fst (getOrCreate l key now)) = bucket l" "maxKeys (fst (getOrCreate l key now)) = maxKeys l"
  by (simp_all add: getOrCreate_def Let_def split: option.split)

lemma consume_fst:
  "fst (consume l key amount now) = (fst (getOrCreate l key now))
     \<lparr>states := map_set key (fst (tryConsume (bucket l) (current l key now) now amount)) (states (fst (getOrCreate l key now)))\<rparr>"
  by (simp add: consume_def case_prod_beta getOrCreate_snd getOrCreate_same retryAfterMs_fst refill_tryConsume)

lemma consume_snd:
  "snd (consume l key amount now) = (if amount \<le> tokens (refill (bucket l) (current l key now) now)
     then \<lparr>allowed = True, retry_after = 0\<rparr>
     else \<lparr>allowed = False, retry_after = snd (retryAfterMs (bucket l) (fst (tryConsume (bucket l) (current l key now) now amount)) now amount)\<rparr>)"
  by (simp add: consume_def case_prod_beta getOrCreate_snd getOrCreate_same tryConsume_snd)

lemma level_current: "level l key now = tokens (refill (bucket l) (current l key now) now)"
  by (simp add: level_def current_def refill_def initial_def split: option.split)

lemma consume_allowed: "allowed (snd (consume l key amount now)) = (amount \<le> level l key now)"
  by (simp add: consume_snd level_current)

lemma consume_level_same:
  "level (fst (consume l key amount now)) key now
    = level l key now - (if amount \<le> level l key now then amount else 0)"
proof -
  have "level (fst (consume l key amount now)) key now = tokens (fst (tryConsume (bucket l) (current l key now) now amount))"
    by (simp add: level_def consume_fst map_specs getOrCreate_same refill_tryConsume)
  then show ?thesis by (simp add: tryConsume_tokens level_current)
qed

lemma consume_other:
  assumes "k \<noteq> key" and "map_get (states l) key = None \<Longrightarrow> limiter_size l < maxKeys l"
  shows "map_get (states (fst (consume l key amount now))) k = map_get (states l) k"
  using assms
  by (auto simp: consume_fst getOrCreate_def Let_def evict_oldest_def limiter_size_def map_specs split: option.split)

lemma consume_same: "bucket (fst (consume l key amount now)) = bucket l" "maxKeys (fst (consume l key amount now)) = maxKeys l"
  by (simp_all add: consume_fst getOrCreate_same)

lemma consume_keys: "set (map_keys (states (fst (consume l key amount now)))) \<subseteq> insert key (set (map_keys (states l)))"
proof
  fix k
  assume "k \<in> set (map_keys (states (fst (consume l key amount now))))"
  then obtain s where "k = key \<or> map_get (states (fst (getOrCreate l key now))) k = Some s"
    by (auto simp: jsm.keys_get consume_fst map_specs split: if_splits)
  then have "k = key \<or> map_get (states l) k = Some s"
    by (auto simp: getOrCreate_def Let_def map_specs dest: evict_oldest_get split: option.splits if_splits)
  then show "k \<in> insert key (set (map_keys (states l)))" by (auto simp: jsm.keys_get)
qed

lemma level_bounds:
  assumes "limiter_ok l"
  shows "0 \<le> level l k now" and "level l k now \<le> capacity (bucket l)"
  using assms refill_ok [of "bucket l" _ now]
  by (auto simp: level_def limiter_ok_def bucket_ok_def state_ok_def split: option.splits)

lemma level_later:
  assumes "limiter_ok l" and "t \<le> now"
  shows "level l k now \<le> level l k t + (now - t) * refillPerMs (bucket l)"
proof (cases "map_get (states l) k")
  case None
  with assms show ?thesis by (simp add: level_def limiter_ok_def bucket_ok_def)
next
  case (Some s)
  have b: "bucket_ok (bucket l)" and s: "state_ok (bucket l) s"
    using assms(1) Some by (auto simp: limiter_ok_def)
  let ?s = "refill (bucket l) s t"
  have "lastRefill (refill (bucket l) ?s now) - lastRefill ?s \<le> now - t"
    using assms(2) by (simp add: refill_gain(3) [OF b])
  then have "(lastRefill (refill (bucket l) ?s now) - lastRefill ?s) * refillPerMs (bucket l) \<le> (now - t) * refillPerMs (bucket l)"
    using b by (intro mult_right_mono) (simp_all add: bucket_ok_def)
  with refill_gain(1) [OF b, of ?s now] refill_later [OF b s assms(2)] Some show ?thesis
    by (simp add: level_def)
qed

lemma sweep_level:
  assumes "limiter_ok l"
  shows "level (fst (sweep l now)) k now = level l k now"
  using assms level_bounds(2) [OF assms, of k now]
  by (auto simp: level_def sweep_get sweep_same limiter_ok_def isIdle_def Let_def refill_refill split: option.splits)

lemma limiter_do_level:
  assumes "limiter_ok l" and "op_amount_ok x"
    and keys: "set (map_keys (states l)) \<union> op_keys x \<subseteq> K" "finite K" "card K \<le> maxKeys l"
  shows "op_admits k x l + level (limiter_do x l) k (op_time x) \<le> level l k (op_time x)"
proof (cases x)
  case (Consume key amount now)
  have "limiter_size l < maxKeys l" if "map_get (states l) key = None"
  proof -
    have "key \<notin> set (map_keys (states l))" using that by (simp add: jsm.keys_get)
    then have "set (map_keys (states l)) \<subset> K" using keys(1) Consume by auto
    then have "card (set (map_keys (states l))) < card K" using keys(2) by (rule psubset_card_mono [rotated])
    with keys(3) assms(1) show ?thesis by (simp add: limiter_ok_def limiter_size_def map_ok_def distinct_card)
  qed
  then have "k \<noteq> key \<Longrightarrow> level (fst (consume l key amount now)) k now = level l k now"
    using consume_other [of k key l amount now] by (simp add: level_def consume_same cong: option.case_cong)
  then have "k \<noteq> key \<Longrightarrow> ?thesis" by (simp add: Consume)
  moreover have "k = key \<Longrightarrow> ?thesis"
    by (simp add: Consume consume_level_same consume_allowed)
  ultimately show ?thesis by blast
next
  case (Sweep now)
  with sweep_level [OF assms(1)] show ?thesis by simp
qed

lemma limiter_do_keys: "set (map_keys (states (limiter_do x l))) \<subseteq> set (map_keys (states l)) \<union> op_keys x"
proof (cases x)
  case (Consume key amount now)
  with consume_keys [of l key amount now] show ?thesis by auto
next
  case (Sweep now)
  have "set (map_keys (states (fst (sweep l now)))) \<subseteq> set (map_keys (states l))"
    unfolding sweep_keys by (auto simp: map_keys_def)
  with Sweep show ?thesis by simp
qed

lemma finite_op_keys: "finite (op_keys x)"
  by (cases x) simp_all

lemma limiter_do_same: "bucket (limiter_do x l) = bucket l" "maxKeys (limiter_do x l) = maxKeys l"
  by (cases x; simp add: consume_same sweep_same)+

lemma admitted_level:
  assumes "limiter_ok l" and "list_all op_amount_ok xs" and "sorted (t # map op_time xs)"
    and "set (map_keys (states l)) \<union> \<Union> (op_keys ` set xs) \<subseteq> K" and "finite K" "card K \<le> maxKeys l"
  shows "admitted k xs l \<le> level l k t + (last (t # map op_time xs) - t) * refillPerMs (bucket l)"
  using assms
proof (induction xs arbitrary: l t)
  case Nil
  then show ?case by (simp add: level_bounds)
next
  case (Cons x xs)
  let ?l = "limiter_do x l" and ?now = "op_time x"
  have "op_admits k x l + level ?l k ?now \<le> level l k ?now"
    using Cons.prems by (intro limiter_do_level [of l x K]) auto
  moreover have "level l k ?now \<le> level l k t + (?now - t) * refillPerMs (bucket l)"
    using Cons.prems by (intro level_later) auto
  moreover have "admitted k xs ?l \<le> level ?l k ?now + (last (?now # map op_time xs) - ?now) * refillPerMs (bucket ?l)"
  proof (rule Cons.IH)
    show "limiter_ok ?l" using Cons.prems(1,2) by (simp add: limiter_do_ok)
    show "sorted (?now # map op_time xs)" using Cons.prems(3) by simp
    show "set (map_keys (states ?l)) \<union> \<Union> (op_keys ` set xs) \<subseteq> K"
      using Cons.prems(4) limiter_do_keys [of x l] by auto
  qed (use Cons.prems in \<open>simp_all add: limiter_do_same\<close>)
  moreover have "last (t # map op_time (x # xs)) = last (?now # map op_time xs)" by simp
  ultimately show ?case by (simp add: limiter_do_same algebra_simps)
qed

subsection \<open>Properties\<close>

text \<open>The message limiter of the bus with its default settings, and one with room for two keys.\<close>

definition sample_limiter :: KeyedRateLimiter where
  "sample_limiter = \<lparr>bucket = \<lparr>capacity = 20, refillPerMs = 5 / 1000\<rparr>, states = [], idleMs = 60000, maxKeys = 2\<rparr>"

lemma sample_limiter_ok: "limiter_ok sample_limiter"
  by (simp add: limiter_ok_def sample_limiter_def bucket_ok_def map_ok_def limiter_size_def map_keys_def map_get_def)

lemma default_msg_limiter: "buildMsgLimiter defaultLimiterConfig
    = Inr \<lparr>bucket = \<lparr>capacity = 20, refillPerMs = 5 / 1000\<rparr>, states = [], idleMs = 60000, maxKeys = 10000\<rparr>"
  by (simp add: buildMsgLimiter_def new_KeyedRateLimiter_def new_TokenBucket_def defaultLimiterConfig_def)



text \<open>
  The advertised retry delay is honest: when a consumption of at most the capacity is refused
  with \<open>retryAfterMs = r\<close>, then \<open>r\<close> is positive and the same consumption is admitted \<open>r\<close>
  milliseconds later if the key did nothing in between.
\<close>

theorem retry_after_suffices:
  assumes "limiter_ok l" and "amount \<le> capacity (bucket l)"
    and "consume l key amount now = (l', res)" and "\<not> allowed res"
    and "lastRefill (current l key now) \<le> now"
  shows "0 < retry_after res \<and> allowed (snd (consume l' key amount (now + of_int (retry_after res))))"
proof -
  let ?b = "bucket l" and ?s = "current l key now"
  let ?s1 = "refill ?b ?s now"
  have b: "0 < refillPerMs ?b" using assms(1) by (simp add: limiter_ok_def bucket_ok_def)
  have low: "tokens ?s1 < amount"
    using assms(3,4) consume_allowed [of l key amount now] by (simp add: level_current)
  have t: "fst (tryConsume ?b ?s now amount) = ?s1" using low by (simp add: tryConsume_def Let_def)
  have r: "retry_after res = \<lceil>(amount - tokens ?s1) / refillPerMs ?b\<rceil>"
    using consume_snd [of l key amount now] assms(3) low
    by (simp add: t retryAfterMs_def Let_def refill_refill)
  have gain: "amount - tokens ?s1 \<le> of_int (retry_after res) * refillPerMs ?b"
    using b unfolding r by (simp add: pos_divide_le_eq [symmetric])
  have pos: "0 < retry_after res" using low b by (simp add: r)
  have "map_get (states l') key = Some ?s1"
    using consume_fst [of l key amount now] assms(3) by (simp add: map_specs t)
  then have cur: "current l' key (now + of_int (retry_after res)) = ?s1"
    by (simp add: current_def [of l'])
  have bk: "bucket l' = ?b" using consume_same(1) [of l key amount now] assms(3) by simp
  have "lastRefill ?s1 = now" using assms(5) by (auto simp: refill_def)
  then have "amount \<le> tokens (refill ?b ?s1 (now + of_int (retry_after res)))"
    using pos gain assms(2) by (simp add: refill_def)
  with pos show ?thesis by (simp add: consume_allowed level_current cur bk)
qed

theorem retry_after_suffices_witness:
  "\<exists>l' res. consume (fst (consume sample_limiter ''a'' 20 0)) ''a'' 1 0 = (l', res) \<and> \<not> allowed res
    \<and> 0 < retry_after res \<and> allowed (snd (consume l' ''a'' 1 (0 + of_int (retry_after res))))"
proof -
  let ?l = "fst (consume sample_limiter ''a'' 20 0)"
  obtain l' res where c: "consume ?l ''a'' 1 0 = (l', res)" by fastforce
  have cur: "current ?l ''a'' 0 = \<lparr>tokens = 0, lastRefill = 0, lastConsumed = 0\<rparr>"
    by (simp add: sample_limiter_def consume_def getOrCreate_def current_def tryConsume_def refill_def initial_def
        evict_oldest_def map_get_def map_keys_def Let_def)
  have "\<not> allowed res"
    using consume_allowed [of ?l "''a''" 1 0] c by (simp add: level_current cur refill_def)
  with retry_after_suffices [of ?l 1 "''a''" 0 l' res] c cur consume_ok [OF sample_limiter_ok, of 20 "''a''" 0]
  show ?thesis by (auto simp: consume_same sample_limiter_def)
qed

text \<open>
  The limiter holds at most \<open>maxKeys\<close> buckets, each with between zero and \<open>capacity\<close> tokens,
  after any history of consumptions and sweeps, however many keys are used and whatever the times.
\<close>

theorem limiter_stays_bounded:
  assumes "limiter_ok l" and "list_all op_amount_ok xs"
  shows "limiter_ok (foldl (\<lambda>l x. limiter_do x l) l xs)"
  using assms by (induction xs arbitrary: l) (simp_all add: limiter_do_ok)

theorem limiter_stays_bounded_witness:
  "limiter_ok (foldl (\<lambda>l x. limiter_do x l) sample_limiter
     [Consume ''a'' 20 0, Consume ''b'' 1 7, Consume ''c'' 30 3, Sweep 100])"
  using limiter_stays_bounded [OF sample_limiter_ok, of "[Consume ''a'' 20 0, Consume ''b'' 1 7, Consume ''c'' 30 3, Sweep 100]"]
  by simp

text \<open>
  Eviction forgives an exhausted key. When the limiter is full and \<open>key\<close> is its oldest entry,
  one message of a fresh key evicts \<open>key\<close>, whose next consumption up to the full burst is then
  admitted however far its bucket was drained.
\<close>

theorem eviction_refills_oldest_key:
  assumes "limiter_ok l" and "limiter_size l = maxKeys l" and "map_keys (states l) = key # ks"
    and "map_get (states l) fresh = None" and "amount \<le> capacity (bucket l)"
  shows "allowed (snd (consume (fst (consume l fresh a now)) key amount now))"
proof -
  have ne: "fresh \<noteq> key" using assms(3,4) jsm.keys_get [of key "states l"] by auto
  have "map_get (states (fst (consume l fresh a now))) key = None"
    using assms ne by (simp add: consume_fst getOrCreate_def Let_def evict_oldest_def limiter_size_def map_specs)
  with assms(5) show ?thesis by (simp add: consume_allowed level_def consume_same)
qed

theorem eviction_refills_oldest_key_witness:
  "let l = foldl (\<lambda>l x. limiter_do x l) sample_limiter [Consume ''a'' 20 0, Consume ''b'' 1 0] in
     \<not> allowed (snd (consume l ''a'' 20 0)) \<and> allowed (snd (consume (fst (consume l ''c'' 1 0)) ''a'' 20 0))"
proof -
  let ?a = "\<lparr>tokens = 0, lastRefill = 0, lastConsumed = 0\<rparr>" and ?b = "\<lparr>tokens = 19, lastRefill = 0, lastConsumed = 0\<rparr>"
  let ?l = "sample_limiter\<lparr>states := [(''a'', ?a), (''b'', ?b)]\<rparr>"
  have l: "foldl (\<lambda>l x. limiter_do x l) sample_limiter [Consume ''a'' 20 0, Consume ''b'' 1 0] = ?l"
    by (simp add: sample_limiter_def consume_def getOrCreate_def tryConsume_def refill_def initial_def
        evict_oldest_def map_get_def map_keys_def Let_def)
  have "limiter_ok ?l"
    by (simp add: limiter_ok_def sample_limiter_def bucket_ok_def map_ok_def limiter_size_def map_keys_def map_get_def state_ok_def)
  with eviction_refills_oldest_key [of ?l "''a''" "[''b'']" "''c''" 20 1 0] show ?thesis
    unfolding l Let_def
    by (simp add: limiter_size_def sample_limiter_def map_keys_def map_get_def consume_allowed level_def refill_def)
qed

end
