(* ===== verification/Iacp_Messages.thy ===== *)
theory Iacp_Messages
  imports Saep_Prelude Json_Canonical
begin

text \<open>
  Messages of the inter-agent bus: the message types and their table
  (\<open>services/iacp/src/message_types.ts\<close>), envelopes, topics and frames (\<open>schema.ts\<close>), session
  and envelope authentication (\<open>auth.ts\<close>) and the topic categories of \<open>metrics.ts\<close>.

  A zod schema is modelled by a type for the parsed value and a predicate for its refinements.
  Base58 decoding (\<open>bs58\<close>), Ed25519 verification (\<open>@noble/ed25519\<close>) and the verification of the
  session JWT are parameters.
\<close>

subsection \<open>Message types\<close>

datatype MessageType = TaskRequest | TaskAccept | TaskReject | StatusUpdate | ResultDelivery
  | PaymentRequest | BroadcastRFP | Dispute | A2AOrchestration

fun type_str :: "MessageType \<Rightarrow> string" where
  "type_str TaskRequest = ''task_request''"
| "type_str TaskAccept = ''task_accept''"
| "type_str TaskReject = ''task_reject''"
| "type_str StatusUpdate = ''status_update''"
| "type_str ResultDelivery = ''result_delivery''"
| "type_str PaymentRequest = ''payment_request''"
| "type_str BroadcastRFP = ''broadcast_rfp''"
| "type_str Dispute = ''dispute''"
| "type_str A2AOrchestration = ''a2a_orchestration''"

datatype RoutingMode = Direct | Pubsub

record MessageTypeMeta =
  ttlMs :: "int option"
  routing :: RoutingMode
  requiresAnchoring :: bool
  partialAnchoring :: bool

definition FIVE_MIN :: int where "FIVE_MIN = 5 * 60 * 1000"
definition THIRTY_SEC :: int where "THIRTY_SEC = 30 * 1000"
definition FIFTEEN_MIN :: int where "FIFTEEN_MIN = 15 * 60 * 1000"

fun MESSAGE_TYPE_META :: "MessageType \<Rightarrow> MessageTypeMeta" where
  "MESSAGE_TYPE_META TaskRequest = \<lparr>ttlMs = Some FIVE_MIN, routing = Direct, requiresAnchoring = False, partialAnchoring = False\<rparr>"
| "MESSAGE_TYPE_META TaskAccept = \<lparr>ttlMs = None, routing = Direct, requiresAnchoring = True, partialAnchoring = False\<rparr>"
| "MESSAGE_TYPE_META TaskReject = \<lparr>ttlMs = Some FIVE_MIN, routing = Direct, requiresAnchoring = False, partialAnchoring = False\<rparr>"
| "MESSAGE_TYPE_META StatusUpdate = \<lparr>ttlMs = Some THIRTY_SEC, routing = Direct, requiresAnchoring = False, partialAnchoring = False\<rparr>"
| "MESSAGE_TYPE_META ResultDelivery = \<lparr>ttlMs = None, routing = Direct, requiresAnchoring = True, partialAnchoring = False\<rparr>"
| "MESSAGE_TYPE_META PaymentRequest = \<lparr>ttlMs = None, routing = Direct, requiresAnchoring = True, partialAnchoring = False\<rparr>"
| "MESSAGE_TYPE_META BroadcastRFP = \<lparr>ttlMs = Some FIFTEEN_MIN, routing = Pubsub, requiresAnchoring = False, partialAnchoring = False\<rparr>"
| "MESSAGE_TYPE_META Dispute = \<lparr>ttlMs = None, routing = Direct, requiresAnchoring = True, partialAnchoring = False\<rparr>"
| "MESSAGE_TYPE_META A2AOrchestration = \<lparr>ttlMs = None, routing = Direct, requiresAnchoring = False, partialAnchoring = True\<rparr>"

definition isExpired :: "MessageType \<Rightarrow> int \<Rightarrow> int \<Rightarrow> int option \<Rightarrow> bool" where
  "isExpired t sentTs now taskTtlMs =
     (let ttl = (case taskTtlMs of Some ms \<Rightarrow> (if t = A2AOrchestration then Some ms else ttlMs (MESSAGE_TYPE_META t))
                 | None \<Rightarrow> ttlMs (MESSAGE_TYPE_META t)) in
      case ttl of None \<Rightarrow> False | Some ms \<Rightarrow> now - sentTs > ms)"

definition shouldAnchor :: "MessageType \<Rightarrow> bool" where
  "shouldAnchor t = requiresAnchoring (MESSAGE_TYPE_META t)"

definition isPartialAnchor :: "MessageType \<Rightarrow> bool" where
  "isPartialAnchor t = partialAnchoring (MESSAGE_TYPE_META t)"

definition routingMode :: "MessageType \<Rightarrow> RoutingMode" where
  "routingMode t = routing (MESSAGE_TYPE_META t)"

definition broadcastChannel :: "int \<Rightarrow> string" where
  "broadcastChannel cap = ''broadcast.cap-'' @ show_int cap"

subsection \<open>Typed payloads\<close>

definition between :: "char \<Rightarrow> char \<Rightarrow> char \<Rightarrow> bool" where
  "between a b c = ((of_char a :: nat) \<le> of_char c \<and> (of_char c :: nat) \<le> of_char b)"

definition hex_char :: "char \<Rightarrow> bool" where
  "hex_char c = (between (CHR ''0'') (CHR ''9'') c \<or> between (CHR ''a'') (CHR ''f'') c)"

definition taskIdHex :: "string \<Rightarrow> bool" where
  "taskIdHex s = (length s = 64 \<and> list_all hex_char s)"

definition capabilityBit :: "rat \<Rightarrow> bool" where
  "capabilityBit n = (isInteger n \<and> 0 \<le> n \<and> n \<le> 127)"

definition opt_ok :: "('a \<Rightarrow> bool) \<Rightarrow> 'a option \<Rightarrow> bool" where
  "opt_ok P x = (case x of None \<Rightarrow> True | Some v \<Rightarrow> P v)"

definition cid_ok :: "string \<Rightarrow> bool" where
  "cid_ok s = (1 \<le> length s \<and> length s \<le> 256)"

datatype TypedPayload =
    TaskRequestPayload rat "rat option"
  | TaskAcceptPayload string
  | TaskRejectPayload string "string option"
  | StatusUpdatePayload string "rat option" "string option"
  | ResultDeliveryPayload string string
  | PaymentRequestPayload string rat
  | BroadcastRFPPayload rat "string option"
  | DisputePayload string string
  | A2AOrchestrationPayload string "string option" "rat option"

fun payload_type :: "TypedPayload \<Rightarrow> MessageType" where
  "payload_type (TaskRequestPayload _ _) = TaskRequest"
| "payload_type (TaskAcceptPayload _) = TaskAccept"
| "payload_type (TaskRejectPayload _ _) = TaskReject"
| "payload_type (StatusUpdatePayload _ _ _) = StatusUpdate"
| "payload_type (ResultDeliveryPayload _ _) = ResultDelivery"
| "payload_type (PaymentRequestPayload _ _) = PaymentRequest"
| "payload_type (BroadcastRFPPayload _ _) = BroadcastRFP"
| "payload_type (DisputePayload _ _) = Dispute"
| "payload_type (A2AOrchestrationPayload _ _ _) = A2AOrchestration"

fun TypedPayloadSchema :: "TypedPayload \<Rightarrow> bool" where
  "TypedPayloadSchema (TaskRequestPayload cap budget) = (capabilityBit cap \<and> opt_ok (\<lambda>n. isInteger n \<and> 0 \<le> n) budget)"
| "TypedPayloadSchema (TaskAcceptPayload task) = taskIdHex task"
| "TypedPayloadSchema (TaskRejectPayload task reason) = (taskIdHex task \<and> opt_ok (\<lambda>s. length s \<le> 256) reason)"
| "TypedPayloadSchema (StatusUpdatePayload task pct msg) =
     (taskIdHex task \<and> opt_ok (\<lambda>n. 0 \<le> n \<and> n \<le> 100) pct \<and> opt_ok (\<lambda>s. length s \<le> 1024) msg)"
| "TypedPayloadSchema (ResultDeliveryPayload task cid) = (taskIdHex task \<and> cid_ok cid)"
| "TypedPayloadSchema (PaymentRequestPayload task amount) = (taskIdHex task \<and> isInteger amount \<and> 0 < amount)"
| "TypedPayloadSchema (BroadcastRFPPayload cap cid) = (capabilityBit cap \<and> opt_ok cid_ok cid)"
| "TypedPayloadSchema (DisputePayload task cid) = (taskIdHex task \<and> cid_ok cid)"
| "TypedPayloadSchema (A2AOrchestrationPayload task sub ttl) =
     (taskIdHex task \<and> opt_ok taskIdHex sub \<and> opt_ok (\<lambda>n. isInteger n \<and> 0 < n \<and> n \<le> 86400000) ttl)"

subsection \<open>Topics and envelopes\<close>

definition base58_char :: "char \<Rightarrow> bool" where
  "base58_char c = (between (CHR ''1'') (CHR ''9'') c \<or> between (CHR ''A'') (CHR ''H'') c
     \<or> between (CHR ''J'') (CHR ''N'') c \<or> between (CHR ''P'') (CHR ''Z'') c
     \<or> between (CHR ''a'') (CHR ''k'') c \<or> between (CHR ''m'') (CHR ''z'') c)"

definition slug_char :: "char \<Rightarrow> bool" where
  "slug_char c = (between (CHR ''a'') (CHR ''z'') c \<or> between (CHR ''0'') (CHR ''9'') c \<or> c = CHR ''-'')"

text \<open>One alternative of the topic expression: a prefix, a middle of bounded length over a
  character class, a suffix.\<close>

definition topic_alt :: "string \<Rightarrow> (char \<Rightarrow> bool) \<Rightarrow> nat \<Rightarrow> nat \<Rightarrow> string \<Rightarrow> string \<Rightarrow> bool" where
  "topic_alt pre P lo hi suf s =
     (let mid = take (length s - length pre - length suf) (drop (length pre) s) in
      s = pre @ mid @ suf \<and> lo \<le> length mid \<and> length mid \<le> hi \<and> list_all P mid)"

definition TopicSchema :: "string \<Rightarrow> bool" where
  "TopicSchema s = (1 \<le> length s \<and> length s \<le> 256 \<and>
     (topic_alt ''agent.'' base58_char 32 44 ''.inbox'' s \<or> topic_alt ''task.'' hex_char 64 64 ''.events'' s
      \<or> topic_alt ''broadcast.'' slug_char 1 64 '''' s \<or> topic_alt ''system.'' slug_char 1 64 '''' s))"

record Envelope =
  env_id :: string
  topic :: string
  from_agent :: string
  to_agent :: "string option"
  msg_type :: "MessageType option"
  payload_cid :: string
  payload_digest :: string
  signature :: string
  ts :: int

definition EnvelopeSchema :: "Envelope \<Rightarrow> bool" where
  "EnvelopeSchema e = (length (env_id e) = 26 \<and> TopicSchema (topic e)
     \<and> 32 \<le> length (from_agent e) \<and> length (from_agent e) \<le> 44
     \<and> opt_ok (\<lambda>s. 32 \<le> length s \<and> length s \<le> 44) (to_agent e)
     \<and> cid_ok (payload_cid e) \<and> taskIdHex (payload_digest e)
     \<and> 1 \<le> length (signature e) \<and> length (signature e) \<le> 128 \<and> 0 \<le> ts e)"

datatype ClientFrame = Sub string | Unsub string | Publish Envelope | Ping

fun ClientFrameSchema :: "ClientFrame \<Rightarrow> bool" where
  "ClientFrameSchema (Sub t) = TopicSchema t"
| "ClientFrameSchema (Unsub t) = TopicSchema t"
| "ClientFrameSchema (Publish e) = EnvelopeSchema e"
| "ClientFrameSchema Ping = True"

datatype axis = MsgAxis | BwAxis

datatype ServerFrame = Msg string Envelope string | Ack string | Reject "string option" string
  | RateLimit "string option" axis int | Pong

definition json_opt :: "string option \<Rightarrow> jval" where
  "json_opt x = (case x of None \<Rightarrow> JNull | Some s \<Rightarrow> JStr s)"

definition canonicalizeForSigning :: "Envelope \<Rightarrow> string" where
  "canonicalizeForSigning e = json_obj
     [(''id'', JStr (env_id e)),
      (''topic'', JStr (topic e)),
      (''from_agent'', JStr (from_agent e)),
      (''to_agent'', json_opt (to_agent e)),
      (''msg_type'', json_opt (map_option type_str (msg_type e))),
      (''payload_cid'', JStr (payload_cid e)),
      (''payload_digest'', JStr (payload_digest e)),
      (''ts'', JNum (ts e))]"

subsection \<open>Authentication\<close>

record SessionPayload =
  address :: string
  expiresAt :: int

text \<open>\<open>AuthResult\<close> is the pair of the agent key and the expiry.\<close>

definition verifySessionToken :: "(string \<Rightarrow> bytes option) \<Rightarrow> (string \<Rightarrow> SessionPayload option) \<Rightarrow> string \<Rightarrow> int \<Rightarrow> (string \<times> int) option" where
  "verifySessionToken decode58 verifySessionJwt token now = (case verifySessionJwt token of
     None \<Rightarrow> None
   | Some p \<Rightarrow>
      if expiresAt p * 1000 < now then None
      else (case decode58 (address p) of
        None \<Rightarrow> None
      | Some bs \<Rightarrow> if length bs \<noteq> 32 then None else Some (address p, expiresAt p)))"

record FreshnessOptions =
  maxAgeMs :: "int option"
  maxSkewMs :: "int option"

definition isEnvelopeTsFresh :: "int \<Rightarrow> int \<Rightarrow> FreshnessOptions \<Rightarrow> bool" where
  "isEnvelopeTsFresh t now opts =
     (if t < 0 then False
      else let maxAge = (case maxAgeMs opts of None \<Rightarrow> 5 * 60 * 1000 | Some a \<Rightarrow> a);
               maxSkew = (case maxSkewMs opts of None \<Rightarrow> 30 * 1000 | Some a \<Rightarrow> a);
               delta = t - now in
           if delta > maxSkew then False else if - delta > maxAge then False else True)"

text \<open>\<open>verifyAsync\<close> takes the signature, the signed text and the key, and may throw.\<close>

definition verifyEnvelopeSignature :: "(string \<Rightarrow> bytes option) \<Rightarrow> (bytes \<Rightarrow> string \<Rightarrow> bytes \<Rightarrow> bool js) \<Rightarrow> string \<Rightarrow> string \<Rightarrow> string \<Rightarrow> bool" where
  "verifyEnvelopeSignature decode58 verifyAsync canonical sig key =
     (case decode58 key of None \<Rightarrow> False | Some pubkey \<Rightarrow>
        (case decode58 sig of None \<Rightarrow> False | Some s \<Rightarrow>
           if length pubkey \<noteq> 32 \<or> length s \<noteq> 64 then False
           else (case verifyAsync s canonical pubkey of Inl _ \<Rightarrow> False | Inr ok \<Rightarrow> ok)))"

datatype TopicCategory = AgentInbox | TaskEvents | Broadcast | SystemTopic | OtherTopic

definition topicCategory :: "string \<Rightarrow> TopicCategory" where
  "topicCategory t =
     (if startsWith t ''agent.'' then AgentInbox
      else if startsWith t ''task.'' then TaskEvents
      else if startsWith t ''broadcast.'' then Broadcast
      else if startsWith t ''system.'' then SystemTopic
      else OtherTopic)"

subsection \<open>Lemmas\<close>

lemma type_str_inj: "type_str s = type_str t \<longleftrightarrow> s = t"
  by (cases s; cases t; simp)

lemma json_opt_inj: "json_opt x = json_opt y \<longleftrightarrow> x = y"
  by (auto simp: json_opt_def split: option.splits)

lemma type_option_inj: "map_option type_str x = map_option type_str y \<longleftrightarrow> x = y"
  by (cases x; cases y) (simp_all add: type_str_inj)

lemma direct_unless_rfp: "routingMode t = Direct \<longleftrightarrow> t \<noteq> BroadcastRFP"
  by (cases t) (simp_all add: routingMode_def)

lemma anchored_is_direct: "shouldAnchor t \<Longrightarrow> routingMode t = Direct"
  by (cases t) (simp_all add: routingMode_def shouldAnchor_def)

lemma topic_alt_prefix: "topic_alt pre P lo hi suf s \<Longrightarrow> startsWith s pre"
  by (metis startsWith_append topic_alt_def)

lemma topic_alt_iff: "topic_alt pre P lo hi suf s
    \<longleftrightarrow> (\<exists>mid. s = pre @ mid @ suf \<and> lo \<le> length mid \<and> length mid \<le> hi \<and> list_all P mid)"
proof
  assume "\<exists>mid. s = pre @ mid @ suf \<and> lo \<le> length mid \<and> length mid \<le> hi \<and> list_all P mid"
  then obtain mid where "s = pre @ mid @ suf" "lo \<le> length mid" "length mid \<le> hi" "list_all P mid" by blast
  then show "topic_alt pre P lo hi suf s" by (simp add: topic_alt_def Let_def)
qed (auto simp: topic_alt_def Let_def)

text \<open>A well-formed topic has exactly the category of its alternative.\<close>

lemma topicCategory_valid: "TopicSchema t \<Longrightarrow> topicCategory t \<noteq> OtherTopic"
  by (auto simp: TopicSchema_def topicCategory_def dest: topic_alt_prefix)

lemma inbox_topic_valid:
  assumes "32 \<le> length k" and "length k \<le> 44" and "list_all base58_char k"
  shows "TopicSchema (''agent.'' @ k @ ''.inbox'')"
proof -
  have "topic_alt ''agent.'' base58_char 32 44 ''.inbox'' (''agent.'' @ k @ ''.inbox'')"
    using assms unfolding topic_alt_iff by blast
  with assms show ?thesis by (simp add: TopicSchema_def)
qed

lemma inbox_topic_inj: "''agent.'' @ k @ ''.inbox'' = ''agent.'' @ l @ ''.inbox'' \<longleftrightarrow> k = l"
  by simp

lemma canonicalizeForSigning_inj:
  "canonicalizeForSigning e = canonicalizeForSigning f \<longleftrightarrow> e\<lparr>signature := s\<rparr> = f\<lparr>signature := s\<rparr>"
  by (cases e; cases f) (auto simp: canonicalizeForSigning_def json_obj_inj json_opt_inj type_option_inj)

lemma isEnvelopeTsFresh_window:
  "isEnvelopeTsFresh t now \<lparr>maxAgeMs = Some a, maxSkewMs = Some k\<rparr> \<longleftrightarrow> 0 \<le> t \<and> now - a \<le> t \<and> t \<le> now + k"
  by (auto simp: isEnvelopeTsFresh_def Let_def)

end
