(* ===== verification/Iacp_Stores.thy ===== *)
theory Iacp_Stores
  imports Iacp_Messages Iacp_Limiter
begin

text \<open>
  The in-memory stores of the message bus: the ring of recent messages per topic
  (\<open>services/iacp/src/ring.ts\<close>) and the cache of agent status lookups (\<open>agents.ts\<close>).

  Times are read once per call, as the \<open>now\<close> argument. The Solana RPC call of the lookup is a
  parameter: its answer is the list of data slices of the matching accounts, or an error.
\<close>

subsection \<open>Topic ring\<close>

record RingEntry =
  ring_env :: Envelope
  stream_id :: string
  received_at :: int

record TopicRing =
  buffers :: "(string, RingEntry list) jsmap"
  ring_cap :: nat

definition new_ring :: "nat \<Rightarrow> TopicRing" where
  "new_ring cap = \<lparr>buffers = [], ring_cap = cap\<rparr>"

text \<open>\<open>buf.splice(0, buf.length - cap)\<close> when the buffer is longer than \<open>cap\<close>, and
  \<open>buf.slice(-n)\<close> for positive \<open>n\<close>: both keep the last entries.\<close>

definition last_n :: "nat \<Rightarrow> 'a list \<Rightarrow> 'a list" where
  "last_n n xs = drop (length xs - n) xs"

definition ring_push :: "string \<Rightarrow> Envelope \<Rightarrow> string \<Rightarrow> int \<Rightarrow> TopicRing \<Rightarrow> TopicRing" where
  "ring_push t e sid now r =
     (let buf = (case map_get (buffers r) t of None \<Rightarrow> [] | Some b \<Rightarrow> b);
          buf1 = buf @ [\<lparr>ring_env = e, stream_id = sid, received_at = now\<rparr>];
          buf2 = (if length buf1 > ring_cap r then last_n (ring_cap r) buf1 else buf1) in
      r\<lparr>buffers := map_set t buf2 (buffers r)\<rparr>)"

definition recent :: "TopicRing \<Rightarrow> string \<Rightarrow> int \<Rightarrow> RingEntry list" where
  "recent r t limit = (case map_get (buffers r) t of
     None \<Rightarrow> []
   | Some buf \<Rightarrow> last_n (nat (max 1 (min limit (int (ring_cap r))))) buf)"

definition topics :: "TopicRing \<Rightarrow> string list" where
  "topics r = map_keys (buffers r)"

subsection \<open>Agent lookup cache\<close>

record CacheEntry =
  active :: bool
  expires :: rat

record RpcAgentLookup =
  cache :: "(string, CacheEntry) jsmap"
  positiveTtl :: rat
  negativeTtl :: rat
  maxEntries :: nat

definition OPERATOR_OFFSET :: nat where "OPERATOR_OFFSET = 8"
definition STATUS_OFFSET :: nat where "STATUS_OFFSET = 334"
definition STATUS_ACTIVE :: "8 word" where "STATUS_ACTIVE = 0"

definition new_lookup :: "rat option \<Rightarrow> rat option \<Rightarrow> nat option \<Rightarrow> RpcAgentLookup" where
  "new_lookup pos neg mx = \<lparr>cache = [],
     positiveTtl = (case pos of None \<Rightarrow> 30000 | Some x \<Rightarrow> x),
     negativeTtl = (case neg of None \<Rightarrow> 5000 | Some x \<Rightarrow> x),
     maxEntries = (case mx of None \<Rightarrow> 1024 | Some x \<Rightarrow> x)\<rparr>"

definition put :: "string \<Rightarrow> bool \<Rightarrow> rat \<Rightarrow> RpcAgentLookup \<Rightarrow> RpcAgentLookup" where
  "put key act now c = c\<lparr>cache := map_set key \<lparr>active = act, expires = now + (if act then positiveTtl c else negativeTtl c)\<rparr>
     (evict_oldest (maxEntries c) (cache c))\<rparr>"

definition account_active :: "bytes \<Rightarrow> bool" where
  "account_active d = (1 \<le> length d \<and> d ! 0 = STATUS_ACTIVE)"

text \<open>\<open>valid_key\<close> says whether \<open>new PublicKey(s)\<close> accepts the string.\<close>

definition isActiveOperator :: "(string \<Rightarrow> bool) \<Rightarrow> (string \<Rightarrow> bytes list js) \<Rightarrow> string \<Rightarrow> rat \<Rightarrow> RpcAgentLookup \<Rightarrow> RpcAgentLookup \<times> bool" where
  "isActiveOperator valid_key rpc operator now c =
     (let fetch = (if \<not> valid_key operator then (put operator False now c, False)
        else (case rpc operator of
          Inl err \<Rightarrow> (c, False)
        | Inr accounts \<Rightarrow> (let act = list_ex account_active accounts in (put operator act now c, act)))) in
      case map_get (cache c) operator of
        Some hit \<Rightarrow> if expires hit > now then (c, active hit) else fetch
      | None \<Rightarrow> fetch)"

definition invalidate :: "string \<Rightarrow> RpcAgentLookup \<Rightarrow> RpcAgentLookup" where
  "invalidate operator c = c\<lparr>cache := map_delete operator (cache c)\<rparr>"

definition lookup_size :: "RpcAgentLookup \<Rightarrow> nat" where
  "lookup_size c = length (map_keys (cache c))"

subsection \<open>The contract of a bounded log\<close>

text \<open>What readers of recent messages rely on: a log bounded per topic returns the newest entries
  appended under the topic, in order.\<close>

lemma last_n_snoc: "last_n n (last_n n xs @ [x]) = last_n n (xs @ [x])"
  by (cases "n = 0"; cases "length xs \<le> n") (simp_all add: last_n_def Suc_diff_le)

locale bounded_log =
  fixes append :: "'t \<Rightarrow> 'e \<Rightarrow> 's \<Rightarrow> 's"
    and view :: "'s \<Rightarrow> 't \<Rightarrow> 'e list"
    and bound :: "'s \<Rightarrow> nat"
  assumes view_append: "view (append t e s) t' = (if t' = t then last_n (bound s) (view s t @ [e]) else view s t')"
    and bound_append: "bound (append t e s) = bound s"
begin

lemma bound_appends: "bound (foldl (\<lambda>s x. append (fst x) (snd x) s) s xs) = bound s"
  by (induction xs arbitrary: s) (simp_all add: bound_append)

lemma view_appends:
  assumes "view s t = []"
  shows "view (foldl (\<lambda>s x. append (fst x) (snd x) s) s xs) t = last_n (bound s) (map snd (filter (\<lambda>x. fst x = t) xs))"
proof (induction xs rule: rev_induct)
  case Nil
  with assms show ?case by (simp add: last_n_def)
next
  case (snoc x xs)
  then show ?case by (auto simp: view_append bound_appends last_n_snoc)
qed

end

definition entries :: "TopicRing \<Rightarrow> string \<Rightarrow> RingEntry list" where
  "entries r t = (case map_get (buffers r) t of None \<Rightarrow> [] | Some b \<Rightarrow> b)"

definition ring_append :: "string \<Rightarrow> RingEntry \<Rightarrow> TopicRing \<Rightarrow> TopicRing" where
  "ring_append t x r = ring_push t (ring_env x) (stream_id x) (received_at x) r"

lemma last_n_id: "length xs \<le> n \<Longrightarrow> last_n n xs = xs"
  by (simp add: last_n_def)

lemma last_n_last_n: "last_n m (last_n n xs) = last_n (min m n) xs"
  by (cases "length xs \<le> n") (auto simp: last_n_def min_def)

definition ring_pushes :: "(string \<times> RingEntry) list \<Rightarrow> TopicRing \<Rightarrow> TopicRing" where
  "ring_pushes xs r = foldl (\<lambda>r x. ring_append (fst x) (snd x) r) r xs"

interpretation ring: bounded_log ring_append entries ring_cap
proof unfold_locales
  show "entries (ring_append t e r) t' = (if t' = t then last_n (ring_cap r) (entries r t @ [e]) else entries r t')" for t e r t'
    by (cases e) (simp add: entries_def ring_append_def ring_push_def Let_def map_specs last_n_id)
  show "ring_cap (ring_append t e r) = ring_cap r" for t e r
    by (simp add: ring_append_def ring_push_def Let_def)
qed

lemma recent_entries: "recent r t limit = last_n (nat (max 1 (min limit (int (ring_cap r))))) (entries r t)"
  by (simp add: recent_def entries_def last_n_def split: option.split)

subsection \<open>Invariant of the lookup cache\<close>

definition lookup_ok :: "RpcAgentLookup \<Rightarrow> bool" where
  "lookup_ok c = (map_ok (cache c) \<and> 0 < maxEntries c \<and> lookup_size c \<le> maxEntries c)"

lemma put_ok: "lookup_ok c \<Longrightarrow> lookup_ok (put k a now c)"
  by (simp add: lookup_ok_def put_def lookup_size_def map_specs evict_oldest_ok evict_oldest_put_size)

lemma isActiveOperator_ok: "lookup_ok c \<Longrightarrow> lookup_ok (fst (isActiveOperator v rpc k now c))"
  by (auto simp: isActiveOperator_def Let_def put_ok split: option.split sum.split)

text \<open>A history of lookups: each at a time and against the chain as it answers at that time. The
  log records, for every RPC answer stored, the operator, the time and what the chain said.\<close>

record lookup_query =
  q_op :: string
  q_now :: rat
  q_rpc :: "string \<Rightarrow> bytes list js"

definition chain_active :: "(string \<Rightarrow> bool) \<Rightarrow> lookup_query \<Rightarrow> bool" where
  "chain_active valid_key q = (valid_key (q_op q) \<and> (case q_rpc q (q_op q) of Inl _ \<Rightarrow> False | Inr as \<Rightarrow> list_ex account_active as))"

fun lookups :: "(string \<Rightarrow> bool) \<Rightarrow> lookup_query list \<Rightarrow> RpcAgentLookup \<Rightarrow> RpcAgentLookup" where
  "lookups valid_key [] c = c"
| "lookups valid_key (q # qs) c = lookups valid_key qs (fst (isActiveOperator valid_key (q_rpc q) (q_op q) (q_now q) c))"

lemma put_get:
  "map_get (cache (put k a now c)) k' = Some e \<Longrightarrow>
     (k' = k \<and> e = \<lparr>active = a, expires = now + (if a then positiveTtl c else negativeTtl c)\<rparr>) \<or> map_get (cache c) k' = Some e"
  by (auto simp: put_def map_specs dest: evict_oldest_get split: if_splits)

lemma isActiveOperator_same: "positiveTtl (fst (isActiveOperator v rpc k now c)) = positiveTtl c"
  by (auto simp: isActiveOperator_def Let_def put_def split: option.split sum.split)

lemma isActiveOperator_get:
  assumes "map_get (cache (fst (isActiveOperator v (q_rpc q) (q_op q) (q_now q) c))) k = Some e" and "active e"
  shows "map_get (cache c) k = Some e \<or> k = q_op q \<and> chain_active v q \<and> expires e = q_now q + positiveTtl c"
  using assms by (auto simp: isActiveOperator_def Let_def chain_active_def split: option.splits sum.splits if_splits dest!: put_get)

lemma lookups_snoc: "lookups v (qs @ [q]) c = fst (isActiveOperator v (q_rpc q) (q_op q) (q_now q) (lookups v qs c))"
  by (induction qs arbitrary: c) simp_all

lemma lookups_same: "positiveTtl (lookups v qs c) = positiveTtl c"
  by (induction qs arbitrary: c) (simp_all add: isActiveOperator_same)

lemma cached_active_observed:
  assumes "map_get (cache (lookups v qs c)) k = Some e" and "active e" and "cache c = []"
  shows "\<exists>q \<in> set qs. q_op q = k \<and> chain_active v q \<and> expires e = q_now q + positiveTtl c"
  using assms
proof (induction qs rule: rev_induct)
  case Nil
  then show ?case by (simp add: map_get_def)
next
  case (snoc q qs)
  with isActiveOperator_get [of v q "lookups v qs c" k e] show ?case
    by (auto simp: lookups_snoc lookups_same)
qed

subsection \<open>Properties\<close>

text \<open>
  The ring returns the newest messages of a topic. After any pushes to a fresh ring of positive
  capacity, \<open>recent\<close> returns exactly the last \<open>max 1 (min limit capacity)\<close> entries pushed to that
  topic, oldest first; pushes to other topics do not matter.
\<close>

theorem recent_returns_newest:
  assumes "0 < cap"
  shows "recent (ring_pushes xs (new_ring cap)) t limit
    = last_n (nat (max 1 (min limit (int cap)))) (map snd (filter (\<lambda>x. fst x = t) xs))"
proof -
  have e: "entries (new_ring cap) t = []" and c: "ring_cap (new_ring cap) = cap"
    by (simp_all add: entries_def new_ring_def map_get_def)
  have "min (nat (max 1 (min limit (int cap)))) cap = nat (max 1 (min limit (int cap)))"
    using assms by auto
  with ring.view_appends [OF e, of xs] show ?thesis
    by (simp add: ring_pushes_def recent_entries ring.bound_appends c last_n_last_n)
qed

theorem recent_returns_newest_witness:
  "let e = \<lparr>env_id = ''m'', topic = ''t'', from_agent = ''a'', to_agent = None, msg_type = None,
         payload_cid = ''c'', payload_digest = ''d'', signature = ''s'', ts = 0\<rparr>;
       x = (\<lambda>i. \<lparr>ring_env = e, stream_id = i, received_at = 0\<rparr>) in
   recent (ring_pushes [(''t'', x ''1''), (''u'', x ''2''), (''t'', x ''3''), (''t'', x ''4'')] (new_ring 2)) ''t'' 64
    = [x ''3'', x ''4'']"
  unfolding Let_def by (subst recent_returns_newest) (simp_all add: last_n_def)

text \<open>
  The lookup cache is never staler than its time to live. If, after any history of lookups from
  an empty cache, an operator is reported active at time \<open>now\<close>, then either the chain says so in
  this very call, or an earlier lookup of that operator saw an active account, less than
  \<open>positiveTtl\<close> before \<open>now\<close>.
\<close>

theorem active_answer_is_recent:
  assumes "cache c = []"
    and "snd (isActiveOperator v rpc k now (lookups v qs c))"
  shows "chain_active v \<lparr>q_op = k, q_now = now, q_rpc = rpc\<rparr>
    \<or> (\<exists>q \<in> set qs. q_op q = k \<and> chain_active v q \<and> now < q_now q + positiveTtl c)"
proof (cases "\<exists>e. map_get (cache (lookups v qs c)) k = Some e \<and> expires e > now")
  case True
  then obtain e where e: "map_get (cache (lookups v qs c)) k = Some e" "expires e > now" by blast
  with assms(2) have "active e" by (simp add: isActiveOperator_def Let_def)
  from cached_active_observed [OF e(1) this assms(1)] e(2) show ?thesis by fastforce
next
  case False
  with assms(2) show ?thesis
    by (auto simp: isActiveOperator_def Let_def chain_active_def split: option.splits sum.splits if_splits)
qed

theorem active_answer_is_recent_witness:
  "\<exists>q \<in> set [\<lparr>q_op = ''op'', q_now = 0, q_rpc = \<lambda>_. Inr [[0]]\<rparr>]. q_op q = ''op'' \<and> chain_active (\<lambda>_. True) q
     \<and> 29999 < q_now q + positiveTtl (new_lookup None None None)"
  using active_answer_is_recent [of "new_lookup None None None" "\<lambda>_. True" "\<lambda>_. Inl ''rpc down''" "''op''" 29999
      "[\<lparr>q_op = ''op'', q_now = 0, q_rpc = \<lambda>_. Inr [[0]]\<rparr>]"]
  by (simp add: new_lookup_def isActiveOperator_def put_def evict_oldest_def map_get_def map_keys_def account_active_def
      STATUS_ACTIVE_def chain_active_def)

end
