(* ===== verification/Iacp_Anchor.thy ===== *)
theory Iacp_Anchor
  imports Iacp_Messages
begin

text \<open>
  The pool that anchors envelopes on chain as memo transactions
  (\<open>services/iacp/src/anchor.ts\<close>, class \<open>AnchorWorkerPool\<close>).

  The pool's own fields are \<open>queue\<close>, \<open>inFlight\<close> and \<open>running\<close>. What the JavaScript runtime keeps
  for it is explicit: \<open>processing\<close> lists the items whose \<open>process\<close> call awaits the submitter,
  \<open>timers\<close> those whose retry timeout is pending, with its delay. \<open>submitted\<close>, \<open>failed\<close> and
  \<open>discarded\<close> log how items left the pool. An event is a call of a public method, the settlement
  of a submission, or a timeout; every order of events is a possible run. SHA-256 is a parameter.
\<close>

record QueueItem =
  envelope :: Envelope
  attempts :: nat
  enqueuedAt :: int

record AnchorWorkerPool =
  queue :: "QueueItem list"
  inFlight :: nat
  running :: bool
  workers :: nat
  queueCap :: nat
  maxRetries :: nat
  baseRetryMs :: nat
  topicPrefix :: string
  payloadVersion :: string
  processing :: "QueueItem list"
  timers :: "(QueueItem \<times> nat) list"
  submitted :: "QueueItem list"
  failed :: "QueueItem list"
  discarded :: "QueueItem list"

datatype EnqueueOutcome = Queued | Skipped | DroppedFull | NotRunning

record AnchorOptions =
  opt_workers :: "nat option"
  opt_queueCap :: "nat option"
  opt_maxRetries :: "nat option"
  opt_baseRetryMs :: "nat option"
  opt_topicPrefix :: "string option"
  opt_payloadVersion :: "string option"

definition or_default :: "'a \<Rightarrow> 'a option \<Rightarrow> 'a" where
  "or_default d x = (case x of None \<Rightarrow> d | Some v \<Rightarrow> v)"

definition new_pool :: "AnchorOptions \<Rightarrow> AnchorWorkerPool" where
  "new_pool opts = \<lparr>queue = [], inFlight = 0, running = False,
     workers = max 1 (or_default 2 (opt_workers opts)),
     queueCap = max 1 (or_default 1024 (opt_queueCap opts)),
     maxRetries = max 1 (or_default 3 (opt_maxRetries opts)),
     baseRetryMs = max 1 (or_default 500 (opt_baseRetryMs opts)),
     topicPrefix = or_default ''task.'' (opt_topicPrefix opts),
     payloadVersion = or_default ''saep/iacp/v1'' (opt_payloadVersion opts),
     processing = [], timers = [], submitted = [], failed = [], discarded = []\<rparr>"

definition pool_shouldAnchor :: "AnchorWorkerPool \<Rightarrow> string \<Rightarrow> bool" where
  "pool_shouldAnchor p t = startsWith t (topicPrefix p)"

definition memo_input :: "Envelope \<Rightarrow> string" where
  "memo_input e = env_id e @ ''|'' @ payload_digest e @ ''|'' @ show_int (ts e)"

definition buildMemo :: "(string \<Rightarrow> string) \<Rightarrow> AnchorWorkerPool \<Rightarrow> Envelope \<Rightarrow> string" where
  "buildMemo sha256hex p e = payloadVersion p @ ''/'' @ sha256hex (memo_input e)"

text \<open>The loop of \<open>maybeStart\<close>: move items from the queue to the workers.\<close>

function start_workers :: "AnchorWorkerPool \<Rightarrow> AnchorWorkerPool" where
  "start_workers p =
     (if inFlight p < workers p \<and> queue p \<noteq> []
      then start_workers (p\<lparr>queue := tl (queue p), inFlight := inFlight p + 1, processing := processing p @ [hd (queue p)]\<rparr>)
      else p)"
  by auto
termination
  by (relation "measure (\<lambda>p. length (queue p))") auto

declare start_workers.simps [simp del]

definition maybeStart :: "AnchorWorkerPool \<Rightarrow> AnchorWorkerPool" where
  "maybeStart p = (if \<not> running p then p else start_workers p)"

definition enqueue :: "Envelope \<Rightarrow> int \<Rightarrow> AnchorWorkerPool \<Rightarrow> AnchorWorkerPool \<times> EnqueueOutcome" where
  "enqueue e now p =
     (if \<not> pool_shouldAnchor p (topic e) then (p, Skipped)
      else if \<not> running p then (p, NotRunning)
      else if length (queue p) \<ge> queueCap p then (p, DroppedFull)
      else (maybeStart (p\<lparr>queue := queue p @ [\<lparr>envelope = e, attempts = 0, enqueuedAt = now\<rparr>]\<rparr>), Queued))"

definition start :: "AnchorWorkerPool \<Rightarrow> AnchorWorkerPool" where
  "start p = maybeStart (p\<lparr>running := True\<rparr>)"

definition stop :: "AnchorWorkerPool \<Rightarrow> AnchorWorkerPool" where
  "stop p = p\<lparr>running := False\<rparr>"

text \<open>\<open>process\<close> after its submission settled: success, permanent failure or a retry timer; then
  the \<open>finally\<close> block.\<close>

definition settle :: "QueueItem \<Rightarrow> string js \<Rightarrow> AnchorWorkerPool \<Rightarrow> AnchorWorkerPool" where
  "settle item res p = (case res of
     Inr sig \<Rightarrow> p\<lparr>submitted := submitted p @ [item]\<rparr>
   | Inl err \<Rightarrow>
      (let item1 = item\<lparr>attempts := attempts item + 1\<rparr> in
       if attempts item1 \<ge> maxRetries p then p\<lparr>failed := failed p @ [item1]\<rparr>
       else p\<lparr>timers := timers p @ [(item1, baseRetryMs p * 2 ^ (attempts item1 - 1))]\<rparr>))"

definition remove_nth :: "nat \<Rightarrow> 'a list \<Rightarrow> 'a list" where
  "remove_nth i xs = take i xs @ drop (Suc i) xs"

definition process_done :: "nat \<Rightarrow> string js \<Rightarrow> AnchorWorkerPool \<Rightarrow> AnchorWorkerPool" where
  "process_done i res p =
     (let p1 = settle (processing p ! i) res (p\<lparr>processing := remove_nth i (processing p)\<rparr>) in
      maybeStart (p1\<lparr>inFlight := inFlight p1 - 1\<rparr>))"

definition retry_timeout :: "nat \<Rightarrow> AnchorWorkerPool \<Rightarrow> AnchorWorkerPool" where
  "retry_timeout i p =
     (let item = fst (timers p ! i); p1 = p\<lparr>timers := remove_nth i (timers p)\<rparr> in
      if \<not> running p1 then p1\<lparr>discarded := discarded p1 @ [item]\<rparr>
      else maybeStart (p1\<lparr>queue := item # queue p1\<rparr>))"

subsection \<open>Runs\<close>

text \<open>A step accepts a list of envelopes (one for a successful \<open>enqueue\<close>) and settles a number of
  submissions (one for \<open>process_done\<close>); a run adds them up.\<close>

inductive pool_step :: "AnchorWorkerPool \<Rightarrow> Envelope list \<Rightarrow> nat \<Rightarrow> AnchorWorkerPool \<Rightarrow> bool" where
  step_enqueue: "enqueue e now p = (p', out) \<Longrightarrow> pool_step p (if out = Queued then [e] else []) 0 p'"
| step_start: "pool_step p [] 0 (start p)"
| step_stop: "pool_step p [] 0 (stop p)"
| step_done: "i < length (processing p) \<Longrightarrow> pool_step p [] 1 (process_done i res p)"
| step_timeout: "i < length (timers p) \<Longrightarrow> pool_step p [] 0 (retry_timeout i p)"

inductive pool_run :: "AnchorWorkerPool \<Rightarrow> Envelope list \<Rightarrow> nat \<Rightarrow> AnchorWorkerPool \<Rightarrow> bool" for p where
  run_start: "pool_run p [] 0 p"
| run_step: "pool_run p es k p1 \<Longrightarrow> pool_step p1 es' k' p2 \<Longrightarrow> pool_run p (es @ es') (k + k') p2"

definition pool_ok :: "AnchorWorkerPool \<Rightarrow> bool" where
  "pool_ok p = (inFlight p = length (processing p) \<and> inFlight p \<le> workers p
     \<and> (running p \<longrightarrow> queue p \<noteq> [] \<longrightarrow> inFlight p = workers p)
     \<and> (\<forall>x \<in> set (queue p) \<union> set (processing p) \<union> fst ` set (timers p) \<union> set (submitted p) \<union> set (discarded p). attempts x < maxRetries p)
     \<and> (\<forall>x \<in> set (failed p). attempts x = maxRetries p))"

text \<open>All envelopes the pool accepted and where they are now.\<close>

definition held :: "AnchorWorkerPool \<Rightarrow> Envelope multiset" where
  "held p = mset (map envelope (queue p)) + mset (map envelope (processing p)) + mset (map (\<lambda>t. envelope (fst t)) (timers p))
     + mset (map envelope (submitted p)) + mset (map envelope (failed p)) + mset (map envelope (discarded p))"

subsection \<open>Lemmas\<close>

lemma nth_split_remove: "i < length xs \<Longrightarrow> mset xs = add_mset (xs ! i) (mset (remove_nth i xs))"
  by (metis (no_types, lifting) id_take_nth_drop mset.simps(2) mset_append remove_nth_def union_mset_add_mset_right)

lemma set_remove_nth: "i < length xs \<Longrightarrow> set (remove_nth i xs) \<subseteq> set xs"
  by (auto simp: remove_nth_def dest: in_set_takeD in_set_dropD)

lemma length_remove_nth: "i < length xs \<Longrightarrow> length (remove_nth i xs) = length xs - 1"
  by (simp add: remove_nth_def)

lemma map_remove_nth: "map f (remove_nth i xs) = remove_nth i (map f xs)"
  by (simp add: remove_nth_def take_map drop_map)

lemma start_workers_unfold:
  "inFlight p < workers p \<Longrightarrow> queue p \<noteq> [] \<Longrightarrow> start_workers p
     = start_workers (p\<lparr>queue := tl (queue p), inFlight := inFlight p + 1, processing := processing p @ [hd (queue p)]\<rparr>)"
  "\<not> (inFlight p < workers p \<and> queue p \<noteq> []) \<Longrightarrow> start_workers p = p"
  by (auto simp: start_workers.simps [of p])

text \<open>Starting workers changes only the queue, the items in process and their count, and keeps
  their order.\<close>

lemma start_workers_effect:
  "\<exists>n. start_workers p = p\<lparr>queue := drop n (queue p), inFlight := inFlight p + n, processing := processing p @ take n (queue p)\<rparr>
     \<and> n \<le> length (queue p) \<and> (inFlight p \<le> workers p \<longrightarrow> inFlight p + n \<le> workers p)
     \<and> (n < length (queue p) \<longrightarrow> inFlight p + n \<ge> workers p)"
proof (induction p rule: start_workers.induct)
  case (1 p)
  show ?case
  proof (cases "inFlight p < workers p \<and> queue p \<noteq> []")
    case True
    then obtain x q where q: "queue p = x # q" by (cases "queue p") auto
    let ?p = "p\<lparr>queue := tl (queue p), inFlight := inFlight p + 1, processing := processing p @ [hd (queue p)]\<rparr>"
    from 1 True obtain n where
      "start_workers ?p = ?p\<lparr>queue := drop n (queue ?p), inFlight := inFlight ?p + n, processing := processing ?p @ take n (queue ?p)\<rparr>"
      "n \<le> length (queue ?p)" "inFlight ?p \<le> workers ?p \<longrightarrow> inFlight ?p + n \<le> workers ?p"
      "n < length (queue ?p) \<longrightarrow> inFlight ?p + n \<ge> workers ?p" by blast
    with True start_workers_unfold(1) [of p] show ?thesis by (intro exI [of _ "Suc n"]) (simp add: q)
  next
    case False
    then show ?thesis using start_workers_unfold(2) [of p] by (intro exI [of _ 0]) auto
  qed
qed

lemma maybeStart_effect:
  obtains n where "maybeStart p = p\<lparr>queue := drop n (queue p), inFlight := inFlight p + n, processing := processing p @ take n (queue p)\<rparr>"
    and "inFlight p \<le> workers p \<Longrightarrow> inFlight p + n \<le> workers p"
    and "n \<le> length (queue p)" and "running p \<Longrightarrow> n < length (queue p) \<Longrightarrow> workers p \<le> inFlight p + n"
proof (cases "running p")
  case True
  with start_workers_effect [of p] that show ?thesis by (auto simp: maybeStart_def)
next
  case False
  with that [of 0] show ?thesis by (simp add: maybeStart_def)
qed

text \<open>The part of the invariant that starting workers restores.\<close>

definition pool_pre :: "AnchorWorkerPool \<Rightarrow> bool" where
  "pool_pre p = (inFlight p = length (processing p) \<and> inFlight p \<le> workers p
     \<and> (\<forall>x \<in> set (queue p) \<union> set (processing p) \<union> fst ` set (timers p) \<union> set (submitted p) \<union> set (discarded p). attempts x < maxRetries p)
     \<and> (\<forall>x \<in> set (failed p). attempts x = maxRetries p))"

lemma maybeStart_ok: "pool_pre p \<Longrightarrow> pool_ok (maybeStart p)"
proof (rule maybeStart_effect [of p])
  fix n
  assume "pool_pre p"
    and "maybeStart p = p\<lparr>queue := drop n (queue p), inFlight := inFlight p + n, processing := processing p @ take n (queue p)\<rparr>"
    and "inFlight p \<le> workers p \<Longrightarrow> inFlight p + n \<le> workers p" and "n \<le> length (queue p)"
    and "running p \<Longrightarrow> n < length (queue p) \<Longrightarrow> workers p \<le> inFlight p + n"
  then show "pool_ok (maybeStart p)"
    by (auto simp: pool_ok_def pool_pre_def dest: in_set_takeD in_set_dropD)
qed

lemma maybeStart_held: "held (maybeStart p) = held p"
proof (rule maybeStart_effect [of p])
  fix n
  assume m: "maybeStart p = p\<lparr>queue := drop n (queue p), inFlight := inFlight p + n, processing := processing p @ take n (queue p)\<rparr>"
  have "mset (map envelope (queue p)) = mset (map envelope (take n (queue p))) + mset (map envelope (drop n (queue p)))"
    by (metis append_take_drop_id map_append mset_append)
  then show "held (maybeStart p) = held p" by (simp add: m held_def ac_simps)
qed

lemma maybeStart_same: "workers (maybeStart p) = workers p" "maxRetries (maybeStart p) = maxRetries p" "running (maybeStart p) = running p"
  by (rule maybeStart_effect [of p]; simp)+

lemma pool_ok_pre: "pool_ok p \<Longrightarrow> pool_pre p"
  by (simp add: pool_ok_def pool_pre_def)

lemma settle_pre:
  assumes "pool_ok p" and "i < length (processing p)"
  shows "pool_pre ((settle (processing p ! i) res (p\<lparr>processing := remove_nth i (processing p)\<rparr>))
    \<lparr>inFlight := inFlight (settle (processing p ! i) res (p\<lparr>processing := remove_nth i (processing p)\<rparr>)) - 1\<rparr>)"
proof -
  have "attempts (processing p ! i) < maxRetries p"
    using assms nth_mem by (fastforce simp: pool_ok_def)
  then have "maxRetries p \<le> Suc (attempts (processing p ! i)) \<Longrightarrow> Suc (attempts (processing p ! i)) = maxRetries p"
    by simp
  moreover have "x \<in> set (remove_nth i (processing p)) \<Longrightarrow> x \<in> set (processing p)" for x
    using set_remove_nth [OF assms(2)] by blast
  ultimately show ?thesis
    using assms length_remove_nth [OF assms(2)]
    by (auto simp: settle_def pool_pre_def pool_ok_def Let_def split: sum.splits)
qed

lemma retry_pre:
  assumes "pool_ok p" and "i < length (timers p)"
  shows "pool_pre (p\<lparr>timers := remove_nth i (timers p), queue := fst (timers p ! i) # queue p\<rparr>)"
    and "pool_ok (p\<lparr>timers := remove_nth i (timers p), discarded := discarded p @ [fst (timers p ! i)]\<rparr>)"
proof -
  have t: "\<forall>x \<in> set (timers p). attempts (fst x) < maxRetries p" using assms(1) by (simp add: pool_ok_def)
  then have "\<forall>x \<in> set (remove_nth i (timers p)). attempts (fst x) < maxRetries p" "attempts (fst (timers p ! i)) < maxRetries p"
    using set_remove_nth [OF assms(2)] assms(2) by auto
  then show "pool_pre (p\<lparr>timers := remove_nth i (timers p), queue := fst (timers p ! i) # queue p\<rparr>)"
    and "pool_ok (p\<lparr>timers := remove_nth i (timers p), discarded := discarded p @ [fst (timers p ! i)]\<rparr>)"
    using assms(1) by (auto simp: pool_pre_def pool_ok_def ball_Un)
qed

lemma enqueue_cases:
  assumes "enqueue e now p = (p', out)"
  obtains "out \<noteq> Queued" and "p' = p"
  | "out = Queued" and "p' = maybeStart (p\<lparr>queue := queue p @ [\<lparr>envelope = e, attempts = 0, enqueuedAt = now\<rparr>]\<rparr>)"
      and "running p" and "length (queue p) < queueCap p" and "pool_shouldAnchor p (topic e)"
  using assms by (auto simp: enqueue_def split: if_splits)

lemma pool_step_ok:
  assumes "pool_step p es k p'" and "pool_ok p" and "0 < maxRetries p"
  shows "pool_ok p'"
  using assms
proof cases
  case (step_enqueue e now out)
  have "pool_pre (p\<lparr>queue := queue p @ [\<lparr>envelope = e, attempts = 0, enqueuedAt = now\<rparr>]\<rparr>)"
    using assms(2,3) by (auto simp: pool_pre_def pool_ok_def)
  with step_enqueue assms(2) show ?thesis by (auto elim!: enqueue_cases intro: maybeStart_ok)
next
  case step_start
  have "pool_pre (p\<lparr>running := True\<rparr>)" using pool_ok_pre [OF assms(2)] by (simp add: pool_pre_def)
  with step_start show ?thesis by (simp add: start_def maybeStart_ok)
next
  case step_stop
  with assms(2) show ?thesis by (simp add: stop_def pool_ok_def)
next
  case (step_done i res)
  with maybeStart_ok [OF settle_pre [OF assms(2)]] show ?thesis by (simp add: process_done_def Let_def)
next
  case (step_timeout i)
  with retry_pre [OF assms(2)] show ?thesis by (simp add: retry_timeout_def Let_def maybeStart_ok)
qed

text \<open>Submissions an item has used up, over everything the pool holds.\<close>

definition effort :: "AnchorWorkerPool \<Rightarrow> nat" where
  "effort p = sum_list (map attempts (queue p)) + sum_list (map attempts (processing p)) + sum_list (map (\<lambda>t. attempts (fst t)) (timers p))
     + sum_list (map (\<lambda>x. attempts x + 1) (submitted p)) + sum_list (map attempts (failed p)) + sum_list (map attempts (discarded p))"

lemma sum_list_remove_nth: "i < length xs \<Longrightarrow> sum_list (map f xs) = f (xs ! i) + sum_list (map f (remove_nth i xs) :: nat list)"
  by (metis (no_types, lifting) nth_split_remove image_mset_add_mset mset_map sum_mset.add_mset sum_mset_sum_list)

lemma mset_remove_nth_map: "i < length xs \<Longrightarrow> mset (map f xs) = add_mset (f (xs ! i)) (mset (map f (remove_nth i xs)))"
  by (metis (no_types, lifting) nth_split_remove image_mset_add_mset mset_map)

lemma maybeStart_effort: "effort (maybeStart p) = effort p"
proof (rule maybeStart_effect [of p])
  fix n
  assume m: "maybeStart p = p\<lparr>queue := drop n (queue p), inFlight := inFlight p + n, processing := processing p @ take n (queue p)\<rparr>"
  have "sum_list (map attempts (queue p)) = sum_list (map attempts (take n (queue p))) + sum_list (map attempts (drop n (queue p)))"
    by (metis append_take_drop_id map_append sum_list_append)
  then show "effort (maybeStart p) = effort p" by (simp add: m effort_def)
qed

lemma held_upd: "held (p\<lparr>inFlight := n\<rparr>) = held p" "held (p\<lparr>running := b\<rparr>) = held p"
  and effort_upd: "effort (p\<lparr>inFlight := n\<rparr>) = effort p" "effort (p\<lparr>running := b\<rparr>) = effort p"
  by (simp_all add: held_def effort_def)

lemma settle_accounts:
  assumes "i < length (processing p)"
  shows "held (settle (processing p ! i) res (p\<lparr>processing := remove_nth i (processing p)\<rparr>)) = held p"
    and "effort (settle (processing p ! i) res (p\<lparr>processing := remove_nth i (processing p)\<rparr>)) = effort p + 1"
  using mset_remove_nth_map [OF assms, of envelope] sum_list_remove_nth [OF assms, of attempts]
  by (auto simp: settle_def held_def effort_def Let_def split: sum.splits)

lemma retry_accounts:
  assumes "i < length (timers p)"
  shows "held (retry_timeout i p) = held p" and "effort (retry_timeout i p) = effort p"
  using mset_remove_nth_map [OF assms, of "\<lambda>t. envelope (fst t)"] sum_list_remove_nth [OF assms, of "\<lambda>t. attempts (fst t)"]
  by (auto simp: retry_timeout_def Let_def maybeStart_held maybeStart_effort) (simp_all add: held_def effort_def)

lemma pool_step_accounts:
  assumes "pool_step p es k p'"
  shows "held p' = held p + mset es \<and> effort p' = effort p + k"
  using assms
proof cases
  case (step_enqueue e now out)
  from step_enqueue(3) show ?thesis
  proof (cases rule: enqueue_cases)
    case 1
    with step_enqueue show ?thesis by simp
  next
    case 2
    with step_enqueue show ?thesis by (simp add: maybeStart_held maybeStart_effort) (simp add: held_def effort_def)
  qed
next
  case (step_done i res)
  with settle_accounts [of i p res] show ?thesis
    by (simp add: process_done_def Let_def maybeStart_held maybeStart_effort held_upd effort_upd)
next
  case (step_timeout i)
  with retry_accounts show ?thesis by simp
qed (simp_all add: start_def stop_def maybeStart_held maybeStart_effort held_upd effort_upd)

lemma pool_step_same:
  assumes "pool_step p es k p'"
  shows "maxRetries p' = maxRetries p" and "workers p' = workers p"
  using assms
  by (cases, auto elim!: enqueue_cases simp: maybeStart_same start_def stop_def process_done_def retry_timeout_def settle_def Let_def
      split: sum.splits)+

lemma pool_run_inv:
  assumes "pool_run p es k p'" and "pool_ok p" and "0 < maxRetries p"
  shows "pool_ok p' \<and> maxRetries p' = maxRetries p \<and> workers p' = workers p
    \<and> held p' = held p + mset es \<and> effort p' = effort p + k"
  using assms
proof (induction rule: pool_run.induct)
  case run_start
  then show ?case by simp
next
  case (run_step es k p1 es' k' p2)
  then show ?case
    using pool_step_ok [OF run_step(2)] pool_step_same [OF run_step(2)] pool_step_accounts [OF run_step(2)] by simp
qed

lemma new_pool_ok: "pool_ok (new_pool opts)" "0 < maxRetries (new_pool opts)" "held (new_pool opts) = {#}" "effort (new_pool opts) = 0"
  by (simp_all add: new_pool_def pool_ok_def held_def effort_def)

lemma sum_list_bound: "\<forall>x \<in> set xs. f x \<le> n \<Longrightarrow> sum_list (map f xs) \<le> (n::nat) * length xs"
  by (induction xs) auto

lemma held_size: "size (held p) = length (queue p) + length (processing p) + length (timers p) + length (submitted p)
    + length (failed p) + length (discarded p)"
  by (simp add: held_def)

subsection \<open>Properties\<close>

definition sample_env :: "string \<Rightarrow> Envelope" where
  "sample_env i = \<lparr>env_id = i, topic = ''task.7.events'', from_agent = ''a'', to_agent = None, msg_type = None,
     payload_cid = ''c'', payload_digest = ''d'', signature = ''s'', ts = 1\<rparr>"

definition small_opts :: AnchorOptions where
  "small_opts = \<lparr>opt_workers = Some 1, opt_queueCap = Some 1, opt_maxRetries = None, opt_baseRetryMs = None,
     opt_topicPrefix = None, opt_payloadVersion = None\<rparr>"

lemma run_then: "pool_run p es k p1 \<Longrightarrow> pool_step p1 [] 0 p2 \<Longrightarrow> pool_run p es k p2"
  using run_step [of p es k p1 "[]" 0 p2] by simp

lemma run_then_done: "pool_run p es k p1 \<Longrightarrow> pool_step p1 [] 1 p2 \<Longrightarrow> pool_run p es (Suc k) p2"
  using run_step [of p es k p1 "[]" 1 p2] by simp

lemma run_then_queued: "pool_run p es k p1 \<Longrightarrow> enqueue e now p1 = (p2, Queued) \<Longrightarrow> pool_run p (es @ [e]) k p2"
  using run_step [of p es k p1 "[e]" 0 p2] step_enqueue [of e now p1 p2 Queued] by simp

lemma first_submission: "pool_run (new_pool small_opts) [sample_env ''1''] 1
    (process_done 0 (Inl ''rpc'') (fst (enqueue (sample_env ''1'') 0 (start (new_pool small_opts)))))"
proof -
  have "enqueue (sample_env ''1'') 0 (start (new_pool small_opts))
      = (fst (enqueue (sample_env ''1'') 0 (start (new_pool small_opts))), Queued)"
    by code_simp
  from run_then_queued [OF run_then [OF run_start step_start] this]
  have "pool_run (new_pool small_opts) [sample_env ''1''] 0 (fst (enqueue (sample_env ''1'') 0 (start (new_pool small_opts))))"
    by simp
  moreover have "0 < length (processing (fst (enqueue (sample_env ''1'') 0 (start (new_pool small_opts)))))"
    by code_simp
  ultimately have "pool_run (new_pool small_opts) [sample_env ''1''] (Suc 0)
      (process_done 0 (Inl ''rpc'') (fst (enqueue (sample_env ''1'') 0 (start (new_pool small_opts)))))"
    by (intro run_then_done [OF _ step_done])
  then show ?thesis by simp
qed

text \<open>
  The worker pool respects its limits along every run, whatever the order of submissions,
  failures, timeouts, starts and stops: \<open>inFlight\<close> counts exactly the pending submissions and never
  exceeds \<open>workers\<close>; while the pool runs no worker idles with work queued; no waiting item has used
  up its retries, and an item fails for good after exactly \<open>maxRetries\<close> attempts.
\<close>

theorem anchor_pool_limits:
  assumes "pool_run (new_pool opts) es k p"
  shows "inFlight p = length (processing p) \<and> inFlight p \<le> workers (new_pool opts)
    \<and> (running p \<and> inFlight p < workers (new_pool opts) \<longrightarrow> queue p = [])
    \<and> (\<forall>x \<in> set (queue p) \<union> set (processing p) \<union> fst ` set (timers p). attempts x < maxRetries (new_pool opts))
    \<and> (\<forall>x \<in> set (failed p). attempts x = maxRetries (new_pool opts))"
proof -
  have "pool_ok p" "maxRetries p = maxRetries (new_pool opts)" "workers p = workers (new_pool opts)"
    using pool_run_inv [OF assms new_pool_ok(1,2)] by auto
  then show ?thesis unfolding pool_ok_def by auto
qed

theorem anchor_pool_limits_witness:
  "inFlight (process_done 0 (Inl ''rpc'') (fst (enqueue (sample_env ''1'') 0 (start (new_pool small_opts))))) \<le> 1"
proof -
  have "workers (new_pool small_opts) = 1" by (simp add: new_pool_def small_opts_def or_default_def)
  with anchor_pool_limits [OF first_submission] show ?thesis by simp
qed



text \<open>
  Retries bypass the queue cap: \<open>enqueue\<close> refuses work at \<open>queueCap\<close>, but a retry timeout puts its
  item back unconditionally, so a pool with \<open>queueCap = 1\<close> can reach a depth of two.
\<close>

theorem retry_exceeds_queue_cap:
  "\<exists>es k p. pool_run (new_pool small_opts) es k p \<and> queueCap p = 1 \<and> length (queue p) = 2"
proof -
  let ?p1 = "process_done 0 (Inl ''rpc'') (fst (enqueue (sample_env ''1'') 0 (start (new_pool small_opts))))"
  let ?p2 = "fst (enqueue (sample_env ''2'') 0 ?p1)"
  let ?p3 = "fst (enqueue (sample_env ''3'') 0 ?p2)"
  have "enqueue (sample_env ''2'') 0 ?p1 = (?p2, Queued)" by code_simp
  from run_then_queued [OF first_submission this]
  have r2: "pool_run (new_pool small_opts) ([sample_env ''1''] @ [sample_env ''2'']) 1 ?p2" .
  have "enqueue (sample_env ''3'') 0 ?p2 = (?p3, Queued)" by code_simp
  from run_then_queued [OF r2 this]
  have r3: "pool_run (new_pool small_opts) (([sample_env ''1''] @ [sample_env ''2'']) @ [sample_env ''3'']) 1 ?p3" .
  have "0 < length (timers ?p3)" by code_simp
  from run_then [OF r3 step_timeout [OF this]] show ?thesis
    by (intro exI conjI) (assumption, code_simp, code_simp)
qed

text \<open>
  The memo pins the identity of an envelope: if SHA-256 has no collision on the two inputs, two
  well-formed envelopes with the same memo agree on id, payload digest and timestamp.
\<close>

theorem memo_pins_envelope:
  assumes "EnvelopeSchema e" and "EnvelopeSchema f"
    and "sha256hex (memo_input e) = sha256hex (memo_input f) \<Longrightarrow> memo_input e = memo_input f"
    and "buildMemo sha256hex p e = buildMemo sha256hex p f"
  shows "env_id e = env_id f \<and> payload_digest e = payload_digest f \<and> ts e = ts f"
proof -
  have "memo_input e = memo_input f" using assms(3,4) by (simp add: buildMemo_def)
  moreover have "length (env_id e) = length (env_id f)" "length (payload_digest e) = length (payload_digest f)"
    using assms(1,2) by (simp_all add: EnvelopeSchema_def taskIdHex_def)
  ultimately show ?thesis by (simp add: memo_input_def)
qed

definition full_env :: "string \<Rightarrow> Envelope" where
  "full_env cid = \<lparr>env_id = replicate 26 (CHR ''0''), topic = ''system.health'', from_agent = replicate 32 (CHR ''a''), to_agent = None,
     msg_type = None, payload_cid = cid, payload_digest = replicate 64 (CHR ''0''), signature = ''s'', ts = 1\<rparr>"

theorem memo_pins_envelope_witness:
  "buildMemo (\<lambda>s. s) (new_pool small_opts) (full_env ''x'') = buildMemo (\<lambda>s. s) (new_pool small_opts) (full_env ''y'')
    \<and> ts (full_env ''x'') = ts (full_env ''y'')"
proof -
  have "EnvelopeSchema (full_env ''x'')" "EnvelopeSchema (full_env ''y'')" by code_simp+
  moreover have same: "buildMemo (\<lambda>s. s) (new_pool small_opts) (full_env ''x'') = buildMemo (\<lambda>s. s) (new_pool small_opts) (full_env ''y'')"
    by (simp add: buildMemo_def memo_input_def full_env_def)
  ultimately show ?thesis
    using memo_pins_envelope [of "full_env ''x''" "full_env ''y''" "\<lambda>s. s" "new_pool small_opts"] by simp
qed

end
