(* ===== verification/Iacp_Gateway.thy ===== *)
theory Iacp_Gateway
  imports Iacp_Limiter Iacp_Messages Iacp_Stores Iacp_Anchor
begin

text \<open>
  The gateway of the message bus: WebSocket sessions, subscriptions, publishing and dispatch
  (\<open>services/iacp/src/ws.ts\<close>), the stream bus over Redis (\<open>streams.ts\<close>) and the HTTP handlers of
  \<open>server.ts\<close>.

  A WebSocket object is a number. A handler takes the answers of the outside world (\<open>world\<close>: clock,
  Redis replies, RPC, cryptography) and returns the new state, what it sent, and whether its promise
  was rejected. Handlers run one after the other; frames are taken as parsed, \<open>None\<close> when
  \<open>JSON.parse\<close> or the schema fails.
\<close>

subsection \<open>Stream bus\<close>

record redis =
  xgroup :: "string \<Rightarrow> unit js"
  xadd :: "string \<Rightarrow> Envelope \<Rightarrow> string js"

definition ensureGroup :: "redis \<Rightarrow> string \<Rightarrow> unit js" where
  "ensureGroup r t = (case xgroup r t of
     Inr u \<Rightarrow> Inr u
   | Inl msg \<Rightarrow> if \<not> js_includes msg ''BUSYGROUP'' then Inl msg else Inr ())"

definition bus_publish :: "redis \<Rightarrow> Envelope \<Rightarrow> string js" where
  "bus_publish r e = xadd r (topic e) e"

record StreamMessage =
  msg_streamId :: string
  msg_topic :: string
  msg_envelope :: Envelope

text \<open>One entry of an \<open>XREADGROUP\<close> reply: the value that follows the field name \<open>env\<close> is parsed;
  an entry without it or with a value that does not parse is left out.\<close>

fun index_of :: "string \<Rightarrow> string list \<Rightarrow> nat option" where
  "index_of f [] = None"
| "index_of f (x # xs) = (if x = f then Some 0 else map_option Suc (index_of f xs))"

definition read_entry :: "(string \<Rightarrow> Envelope option) \<Rightarrow> string \<Rightarrow> string \<times> string list \<Rightarrow> StreamMessage list" where
  "read_entry parse t x = (case index_of ''env'' (snd x) of
     None \<Rightarrow> []
   | Some i \<Rightarrow> if i + 1 \<ge> length (snd x) then []
       else (case parse (snd x ! (i + 1)) of
           None \<Rightarrow> []
         | Some e \<Rightarrow> [\<lparr>msg_streamId = fst x, msg_topic = t, msg_envelope = e\<rparr>]))"

definition bus_read :: "(string \<Rightarrow> Envelope option) \<Rightarrow> string list \<Rightarrow> (string \<times> (string \<times> string list) list) list option \<Rightarrow> StreamMessage list" where
  "bus_read parse tps raw =
     (if tps = [] then [] else (case raw of
        None \<Rightarrow> []
      | Some reply \<Rightarrow> concat (map (\<lambda>(t, es). concat (map (read_entry parse t) es)) reply)))"

subsection \<open>State\<close>

record Session =
  agentPubkey :: string
  socketId :: string
  sess_topics :: "string list"
  sendQueue :: nat

record gateway =
  sessions :: "(nat, Session) jsmap"
  topicSubscribers :: "(string, nat list) jsmap"
  msgLimiter :: KeyedRateLimiter
  bwLimiter :: KeyedRateLimiter
  freshness :: FreshnessOptions
  anchor :: "AnchorWorkerPool option"
  agents :: "RpcAgentLookup option"
  ringbuf :: TopicRing
  socketCounter :: nat

record world =
  clock :: int
  redis_client :: redis
  decode58 :: "string \<Rightarrow> bytes option"
  ed_verify :: "bytes \<Rightarrow> string \<Rightarrow> bytes \<Rightarrow> bool js"
  public_key_ok :: "string \<Rightarrow> bool"
  accounts_rpc :: "string \<Rightarrow> bytes list js"

datatype out = Frame nat ServerFrame | CloseSlow nat | SelfRoute nat | Appended Envelope

type_synonym outcome = "gateway \<times> out list \<times> unit js"

definition MAX_QUEUE :: nat where "MAX_QUEUE = 256"

definition new_gateway :: "KeyedRateLimiter \<Rightarrow> KeyedRateLimiter \<Rightarrow> FreshnessOptions \<Rightarrow> AnchorWorkerPool option \<Rightarrow> RpcAgentLookup option \<Rightarrow> TopicRing \<Rightarrow> gateway" where
  "new_gateway ml bl fr an ag rg = \<lparr>sessions = [], topicSubscribers = [], msgLimiter = ml, bwLimiter = bl, freshness = fr,
     anchor = an, agents = ag, ringbuf = rg, socketCounter = 0\<rparr>"

subsection \<open>Sessions\<close>

definition set_add :: "'a \<Rightarrow> 'a list \<Rightarrow> 'a list" where
  "set_add x xs = (if x \<in> set xs then xs else xs @ [x])"

definition set_del :: "'a \<Rightarrow> 'a list \<Rightarrow> 'a list" where
  "set_del x xs = filter (\<lambda>y. y \<noteq> x) xs"

definition onConnection :: "nat \<Rightarrow> string \<Rightarrow> gateway \<Rightarrow> gateway" where
  "onConnection ws agent g =
     (let n = socketCounter g + 1 in
      g\<lparr>socketCounter := n,
        sessions := map_set ws \<lparr>agentPubkey = agent, socketId = ''s'' @ show_nat n, sess_topics = [], sendQueue = 0\<rparr> (sessions g)\<rparr>)"

text \<open>\<open>handleUpgrade\<close>: no token or a token that does not verify gets a 401 and no session.\<close>

definition handleUpgrade :: "world \<Rightarrow> (string \<Rightarrow> SessionPayload option) \<Rightarrow> string option \<Rightarrow> nat \<Rightarrow> gateway \<Rightarrow> gateway option" where
  "handleUpgrade w jwt token ws g =
     (if \<not> truthy token then None
      else (case verifySessionToken (decode58 w) jwt (the token) (clock w) of
          None \<Rightarrow> None
        | Some r \<Rightarrow> Some (onConnection ws (fst r) g)))"

definition unsubscribe :: "nat \<Rightarrow> string \<Rightarrow> (string, nat list) jsmap \<Rightarrow> (string, nat list) jsmap" where
  "unsubscribe ws t m = (case map_get m t of None \<Rightarrow> m | Some subs \<Rightarrow> map_set t (set_del ws subs) m)"

definition onClose :: "nat \<Rightarrow> gateway \<Rightarrow> gateway" where
  "onClose ws g = (case map_get (sessions g) ws of
     None \<Rightarrow> g
   | Some s \<Rightarrow> g\<lparr>topicSubscribers := foldl (\<lambda>m t. unsubscribe ws t m) (topicSubscribers g) (sess_topics s),
        sessions := map_delete ws (sessions g),
        bwLimiter := delete_key (bwLimiter g) (socketId s)\<rparr>)"

definition send :: "nat \<Rightarrow> ServerFrame \<Rightarrow> gateway \<Rightarrow> gateway \<times> out list" where
  "send ws f g = (case map_get (sessions g) ws of
     None \<Rightarrow> (g, [])
   | Some s \<Rightarrow> if sendQueue s \<ge> MAX_QUEUE then (g, [CloseSlow ws])
       else (g\<lparr>sessions := map_set ws (s\<lparr>sendQueue := sendQueue s + 1\<rparr>) (sessions g)\<rparr>, [Frame ws f]))"

text \<open>The callback of \<open>ws.send\<close>.\<close>

definition onSent :: "nat \<Rightarrow> gateway \<Rightarrow> gateway" where
  "onSent ws g = (case map_get (sessions g) ws of
     None \<Rightarrow> g
   | Some s \<Rightarrow> g\<lparr>sessions := map_set ws (s\<lparr>sendQueue := sendQueue s - 1\<rparr>) (sessions g)\<rparr>)"

definition sweepLimiters :: "int \<Rightarrow> gateway \<Rightarrow> gateway" where
  "sweepLimiters now g = g\<lparr>msgLimiter := fst (sweep (msgLimiter g) (of_int now)), bwLimiter := fst (sweep (bwLimiter g) (of_int now))\<rparr>"

subsection \<open>Frames\<close>

definition inbox_of :: "string \<Rightarrow> string" where
  "inbox_of k = ''agent.'' @ k @ ''.inbox''"

definition canSubscribe :: "world \<Rightarrow> string \<Rightarrow> string \<Rightarrow> bool" where
  "canSubscribe w agent t =
     (if startsWith t ''agent.'' then
        (if t \<noteq> inbox_of agent then False
         else (case decode58 w agent of None \<Rightarrow> False | Some bs \<Rightarrow> length bs = 32))
      else True)"

definition resolvePublishTopic :: "Envelope \<Rightarrow> string option" where
  "resolvePublishTopic e = (case msg_type e of
     None \<Rightarrow> Some (topic e)
   | Some t \<Rightarrow>
      if routingMode t = Direct \<and> truthy (to_agent e) then
        (if Some (from_agent e) = to_agent e then None else Some (inbox_of (the (to_agent e))))
      else Some (topic e))"

datatype verdict = VOk | VBadSig | VStaleTs | VNotActive

fun verdict_str :: "verdict \<Rightarrow> string" where
  "verdict_str VOk = ''ok''"
| "verdict_str VBadSig = ''bad_sig''"
| "verdict_str VStaleTs = ''stale_ts''"
| "verdict_str VNotActive = ''not_active''"

text \<open>The lookup when one is configured.\<close>

definition check_active :: "world \<Rightarrow> string \<Rightarrow> RpcAgentLookup option \<Rightarrow> RpcAgentLookup option \<times> bool" where
  "check_active w k ag = (case ag of
     None \<Rightarrow> (None, True)
   | Some c \<Rightarrow> (case isActiveOperator (public_key_ok w) (accounts_rpc w) k (of_int (clock w)) c of (c1, ok) \<Rightarrow> (Some c1, ok)))"

definition verifyEnvelope :: "world \<Rightarrow> Envelope \<Rightarrow> gateway \<Rightarrow> gateway \<times> verdict" where
  "verifyEnvelope w e g =
     (if \<not> isEnvelopeTsFresh (ts e) (clock w) (freshness g) then (g, VStaleTs)
      else if \<not> verifyEnvelopeSignature (decode58 w) (ed_verify w) (canonicalizeForSigning e) (signature e) (from_agent e) then (g, VBadSig)
      else (case check_active w (from_agent e) (agents g) of (ag, ok) \<Rightarrow>
        (g\<lparr>agents := ag\<rparr>, if ok then VOk else VNotActive)))"

definition anchor_enqueue :: "world \<Rightarrow> Envelope \<Rightarrow> gateway \<Rightarrow> gateway" where
  "anchor_enqueue w e g = (case anchor g of None \<Rightarrow> g | Some p \<Rightarrow> g\<lparr>anchor := Some (fst (enqueue e (clock w) p))\<rparr>)"

definition onSub :: "world \<Rightarrow> nat \<Rightarrow> Session \<Rightarrow> string \<Rightarrow> gateway \<Rightarrow> outcome" where
  "onSub w ws s t g =
     (if \<not> canSubscribe w (agentPubkey s) t then
        (case send ws (Reject None ''forbidden_topic'') g of (g1, o1) \<Rightarrow> (g1, o1, Inr ()))
      else
        (let g1 = g\<lparr>sessions := map_set ws (s\<lparr>sess_topics := set_add t (sess_topics s)\<rparr>) (sessions g)\<rparr> in
         case map_get (topicSubscribers g1) t of
           Some subs \<Rightarrow> (g1\<lparr>topicSubscribers := map_set t (set_add ws subs) (topicSubscribers g1)\<rparr>, [], Inr ())
         | None \<Rightarrow>
            (let g2 = g1\<lparr>topicSubscribers := map_set t [] (topicSubscribers g1)\<rparr> in
             case ensureGroup (redis_client w) t of
               Inl err \<Rightarrow> (g2, [], Inl err)
             | Inr _ \<Rightarrow> (g2\<lparr>topicSubscribers := map_set t [ws] (topicSubscribers g2)\<rparr>, [], Inr ()))))"

definition onUnsub :: "nat \<Rightarrow> Session \<Rightarrow> string \<Rightarrow> gateway \<Rightarrow> outcome" where
  "onUnsub ws s t g =
     (g\<lparr>sessions := map_set ws (s\<lparr>sess_topics := set_del t (sess_topics s)\<rparr>) (sessions g),
        topicSubscribers := unsubscribe ws t (topicSubscribers g)\<rparr>, [], Inr ())"

definition reply :: "nat \<Rightarrow> ServerFrame \<Rightarrow> gateway \<Rightarrow> outcome" where
  "reply ws f g = (case send ws f g of (g1, o1) \<Rightarrow> (g1, o1, Inr ()))"

text \<open>The tail of a publish, once the envelope is accepted.\<close>

definition deliver :: "world \<Rightarrow> nat \<Rightarrow> Envelope \<Rightarrow> gateway \<Rightarrow> outcome" where
  "deliver w ws e g = (case resolvePublishTopic e of
     None \<Rightarrow> (g, [SelfRoute ws], Inr ())
   | Some t \<Rightarrow> (case ensureGroup (redis_client w) t of
       Inl err \<Rightarrow> (g, [], Inl err)
     | Inr _ \<Rightarrow>
        (let e1 = (if t \<noteq> topic e then e\<lparr>topic := t\<rparr> else e) in
         case bus_publish (redis_client w) e1 of
           Inl err \<Rightarrow> (g, [], Inl err)
         | Inr sid \<Rightarrow>
            (let g1 = (case msg_type e of
                 Some mt \<Rightarrow> if shouldAnchor mt then anchor_enqueue w e1 g else g
               | None \<Rightarrow> anchor_enqueue w e1 g) in
             case send ws (Ack (env_id e)) g1 of (g2, o2) \<Rightarrow> (g2, Appended e1 # o2, Inr ())))))"

definition onPublish :: "world \<Rightarrow> nat \<Rightarrow> Session \<Rightarrow> nat \<Rightarrow> Envelope \<Rightarrow> gateway \<Rightarrow> outcome" where
  "onPublish w ws s byteLen e g =
     (if from_agent e \<noteq> agentPubkey s then reply ws (Reject (Some (env_id e)) ''from_mismatch'') g
      else (case consume (bwLimiter g) (socketId s) (of_nat byteLen) (of_int (clock w)) of (bl, bw) \<Rightarrow>
        (let g1 = g\<lparr>bwLimiter := bl\<rparr> in
         if \<not> allowed bw then reply ws (RateLimit (Some (env_id e)) BwAxis (retry_after bw)) g1
         else (case consume (msgLimiter g1) (agentPubkey s) 1 (of_int (clock w)) of (ml, mc) \<Rightarrow>
           (let g2 = g1\<lparr>msgLimiter := ml\<rparr> in
            if \<not> allowed mc then reply ws (RateLimit (Some (env_id e)) MsgAxis (retry_after mc)) g2
            else (case verifyEnvelope w e g2 of (g3, v) \<Rightarrow>
              if v \<noteq> VOk then reply ws (Reject (Some (env_id e)) (verdict_str v)) g3
              else (case msg_type e of
                  None \<Rightarrow> deliver w ws e g3
                | Some mt \<Rightarrow>
                    if isExpired mt (ts e) (clock w) None then reply ws (Reject (Some (env_id e)) ''ttl_expired'') g3
                    else if routingMode mt = Direct \<and> \<not> truthy (to_agent e)
                      then reply ws (Reject (Some (env_id e)) ''direct_requires_recipient'') g3
                    else deliver w ws e g3)))))))"

definition onMessage :: "world \<Rightarrow> nat \<Rightarrow> nat \<Rightarrow> ClientFrame option \<Rightarrow> gateway \<Rightarrow> outcome" where
  "onMessage w ws byteLen parsed g = (case map_get (sessions g) ws of
     None \<Rightarrow> (g, [], Inr ())
   | Some s \<Rightarrow> (case parsed of
       None \<Rightarrow> reply ws (Reject None ''bad_frame'') g
     | Some frame \<Rightarrow>
         if \<not> ClientFrameSchema frame then reply ws (Reject None ''bad_frame'') g
         else (case frame of
           Ping \<Rightarrow> reply ws Pong g
         | Sub t \<Rightarrow> onSub w ws s t g
         | Unsub t \<Rightarrow> onUnsub ws s t g
         | Publish e \<Rightarrow> onPublish w ws s byteLen e g)))"

subsection \<open>Dispatch\<close>

fun dispatch_to :: "ServerFrame \<Rightarrow> nat list \<Rightarrow> gateway \<Rightarrow> gateway \<times> out list" where
  "dispatch_to f [] g = (g, [])"
| "dispatch_to f (ws # subs) g = (case send ws f g of (g1, o1) \<Rightarrow> (case dispatch_to f subs g1 of (g2, o2) \<Rightarrow> (g2, o1 @ o2)))"

definition dispatch :: "int \<Rightarrow> string \<Rightarrow> Envelope \<Rightarrow> string \<Rightarrow> gateway \<Rightarrow> gateway \<times> out list" where
  "dispatch now t e sid g =
     (let g1 = g\<lparr>ringbuf := ring_push t e sid now (ringbuf g)\<rparr> in
      case map_get (topicSubscribers g1) t of
        None \<Rightarrow> (g1, [])
      | Some subs \<Rightarrow> if subs = [] then (g1, []) else dispatch_to (Msg t e sid) subs g1)"

fun pump_batch :: "int \<Rightarrow> StreamMessage list \<Rightarrow> gateway \<Rightarrow> gateway \<times> out list" where
  "pump_batch now [] g = (g, [])"
| "pump_batch now (m # ms) g = (case dispatch now (msg_topic m) (msg_envelope m) (msg_streamId m) g of (g1, o1) \<Rightarrow>
     (case pump_batch now ms g1 of (g2, o2) \<Rightarrow> (g2, o1 @ o2)))"

subsection \<open>HTTP handlers\<close>

datatype http_reply = HttpErr nat string | HttpPublished string string | HttpRecent "RingEntry list"
  | HttpLimited int int

definition service_token_ok :: "string option \<Rightarrow> string option \<Rightarrow> bool" where
  "service_token_ok expected token = (truthy expected \<and> token = expected)"

definition rest_publish :: "world \<Rightarrow> string option \<Rightarrow> string option \<Rightarrow> Envelope option \<Rightarrow> gateway \<Rightarrow> gateway \<times> out list \<times> http_reply js" where
  "rest_publish w expected token body g = (case body of
     None \<Rightarrow> (g, [], Inr (HttpErr 400 ''bad_envelope''))
   | Some e \<Rightarrow>
      if \<not> EnvelopeSchema e then (g, [], Inr (HttpErr 400 ''bad_envelope''))
      else if \<not> service_token_ok expected token then (g, [], Inr (HttpErr 401 ''unauthorized''))
      else if \<not> isEnvelopeTsFresh (ts e) (clock w) (freshness g) then (g, [], Inr (HttpErr 422 ''stale_ts''))
      else (case consume (msgLimiter g) (from_agent e) 1 (of_int (clock w)) of (ml, mc) \<Rightarrow>
        (let g1 = g\<lparr>msgLimiter := ml\<rparr> in
         if \<not> allowed mc then (g1, [], Inr (HttpLimited (max 1 \<lceil>of_int (retry_after mc) / (1000 :: rat)\<rceil>) (retry_after mc)))
         else (case check_active w (from_agent e) (agents g1) of (ag, ok) \<Rightarrow>
           (let g2 = g1\<lparr>agents := ag\<rparr> in
            if \<not> ok then (g2, [], Inr (HttpErr 403 ''not_active''))
            else (case ensureGroup (redis_client w) (topic e) of
                Inl err \<Rightarrow> (g2, [], Inl err)
              | Inr _ \<Rightarrow> (case bus_publish (redis_client w) e of
                  Inl err \<Rightarrow> (g2, [], Inl err)
                | Inr sid \<Rightarrow> (anchor_enqueue w e g2, [Appended e], Inr (HttpPublished (env_id e) sid)))))))))"

text \<open>The limit of the query is taken as a number when present.\<close>

definition topics_recent :: "string option \<Rightarrow> string option \<Rightarrow> string \<Rightarrow> int option \<Rightarrow> gateway \<Rightarrow> http_reply" where
  "topics_recent expected token t limit g =
     (if \<not> service_token_ok expected token then HttpErr 401 ''unauthorized''
      else HttpRecent (recent (ringbuf g) t (case limit of None \<Rightarrow> 64 | Some l \<Rightarrow> max 1 (min 256 l))))"

subsection \<open>Runs and invariant\<close>

inductive gw_step :: "gateway \<Rightarrow> gateway \<Rightarrow> bool" where
  gw_connect: "map_get (sessions g) ws = None \<Longrightarrow> handleUpgrade w jwt token ws g = Some g' \<Longrightarrow> gw_step g g'"
| gw_close: "gw_step g (onClose ws g)"
| gw_message: "onMessage w ws n frame g = (g', outs, res) \<Longrightarrow> gw_step g g'"
| gw_sent: "gw_step g (onSent ws g)"
| gw_sweep: "gw_step g (sweepLimiters now g)"
| gw_pump: "pump_batch now ms g = (g', outs) \<Longrightarrow> gw_step g g'"
| gw_rest: "rest_publish w expected token body g = (g', outs, res) \<Longrightarrow> gw_step g g'"

definition ident :: "Session \<Rightarrow> string \<times> string list" where
  "ident s = (agentPubkey s, sess_topics s)"

definition queues_ok :: "gateway \<Rightarrow> bool" where
  "queues_ok g = (\<forall>ws s. map_get (sessions g) ws = Some s \<longrightarrow> sendQueue s \<le> MAX_QUEUE)"

definition gw_ok :: "gateway \<Rightarrow> bool" where
  "gw_ok g = (queues_ok g
     \<and> (\<forall>t subs ws. map_get (topicSubscribers g) t = Some subs \<longrightarrow> ws \<in> set subs
          \<longrightarrow> (\<exists>s. map_get (sessions g) ws = Some s \<and> t \<in> set (sess_topics s)))
     \<and> (\<forall>ws s t. map_get (sessions g) ws = Some s \<longrightarrow> t \<in> set (sess_topics s) \<longrightarrow> startsWith t ''agent.''
          \<longrightarrow> t = inbox_of (agentPubkey s)))"

text \<open>A quiet change leaves subscriptions and session identities alone and keeps the send queues
  within bounds; sending, publishing and dispatching are quiet.\<close>

definition quiet :: "gateway \<Rightarrow> gateway \<Rightarrow> bool" where
  "quiet g g' = (topicSubscribers g' = topicSubscribers g
     \<and> (\<forall>ws. map_option ident (map_get (sessions g') ws) = map_option ident (map_get (sessions g) ws))
     \<and> (queues_ok g \<longrightarrow> queues_ok g'))"

lemma quiet_refl: "quiet g g"
  by (simp add: quiet_def)

lemma quiet_trans: "quiet g g1 \<Longrightarrow> quiet g1 g2 \<Longrightarrow> quiet g g2"
  by (simp add: quiet_def)

lemma quiet_fields:
  "quiet g (g\<lparr>msgLimiter := a\<rparr>)" "quiet g (g\<lparr>bwLimiter := b\<rparr>)" "quiet g (g\<lparr>agents := c\<rparr>)"
  "quiet g (g\<lparr>anchor := d\<rparr>)" "quiet g (g\<lparr>ringbuf := r\<rparr>)" "quiet g (g\<lparr>msgLimiter := a, bwLimiter := b\<rparr>)"
  by (simp_all add: quiet_def queues_ok_def)

lemma quiet_queue:
  assumes "map_get (sessions g) ws = Some s" and "n \<le> MAX_QUEUE"
  shows "quiet g (g\<lparr>sessions := map_set ws (s\<lparr>sendQueue := n\<rparr>) (sessions g)\<rparr>)"
  using assms by (auto simp: quiet_def queues_ok_def map_specs ident_def)

lemma send_quiet: "quiet g (fst (send ws f g))"
  by (auto simp: send_def quiet_refl intro!: quiet_queue split: option.split)

lemma reply_quiet: "quiet g (fst (reply ws f g))"
  using send_quiet [of g ws f] by (simp add: reply_def case_prod_beta)

lemma quiet_session:
  assumes "quiet g g'" and "map_get (sessions g') ws = Some s'"
  obtains s where "map_get (sessions g) ws = Some s" and "agentPubkey s = agentPubkey s'" and "sess_topics s = sess_topics s'"
proof -
  have "map_option ident (map_get (sessions g) ws) = Some (ident s')"
    using assms unfolding quiet_def by (metis option.simps(9))
  with that show ?thesis by (auto simp: ident_def)
qed

lemma quiet_sym_session:
  assumes "quiet g g'" and "map_get (sessions g) ws = Some s"
  obtains s' where "map_get (sessions g') ws = Some s'" and "agentPubkey s' = agentPubkey s" and "sess_topics s' = sess_topics s"
proof -
  have "map_option ident (map_get (sessions g') ws) = Some (ident s)"
    using assms unfolding quiet_def by (metis option.simps(9))
  with that show ?thesis by (auto simp: ident_def)
qed

lemma quiet_ok:
  assumes "quiet g g'" and "gw_ok g"
  shows "gw_ok g'"
  unfolding gw_ok_def
proof (intro conjI allI impI)
  show "queues_ok g'" using assms by (simp add: quiet_def gw_ok_def)
next
  fix t subs ws
  assume "map_get (topicSubscribers g') t = Some subs" and "ws \<in> set subs"
  then obtain s where "map_get (sessions g) ws = Some s" "t \<in> set (sess_topics s)"
    using assms unfolding quiet_def gw_ok_def by metis
  with quiet_sym_session [OF assms(1)] show "\<exists>s. map_get (sessions g') ws = Some s \<and> t \<in> set (sess_topics s)" by metis
next
  fix ws s t
  assume "map_get (sessions g') ws = Some s" and t: "t \<in> set (sess_topics s)" "startsWith t ''agent.''"
  from quiet_session [OF assms(1) this(1)] obtain s0 where "map_get (sessions g) ws = Some s0"
    "agentPubkey s0 = agentPubkey s" "sess_topics s0 = sess_topics s" .
  with t assms(2) show "t = inbox_of (agentPubkey s)" unfolding gw_ok_def by metis
qed

lemma dispatch_to_quiet: "quiet g (fst (dispatch_to f subs g))"
proof (induction subs arbitrary: g)
  case Nil
  then show ?case by (simp add: quiet_refl)
next
  case (Cons ws subs)
  with quiet_trans [OF send_quiet [of g ws f]] show ?case by (simp add: case_prod_beta)
qed

lemma dispatch_quiet: "quiet g (fst (dispatch now t e sid g))"
  using quiet_trans [OF quiet_fields(5) dispatch_to_quiet]
  by (auto simp: dispatch_def Let_def quiet_fields split: option.split)

lemma pump_quiet: "quiet g (fst (pump_batch now ms g))"
proof (induction ms arbitrary: g)
  case Nil
  then show ?case by (simp add: quiet_refl)
next
  case (Cons m ms)
  with quiet_trans [OF dispatch_quiet [of g now "msg_topic m" "msg_envelope m" "msg_streamId m"]]
  show ?case by (simp add: case_prod_beta)
qed

lemma anchor_quiet: "quiet g (anchor_enqueue w e g)"
  by (simp add: anchor_enqueue_def quiet_fields quiet_refl split: option.split)

lemma verify_quiet: "quiet g (fst (verifyEnvelope w e g))"
  by (simp add: verifyEnvelope_def case_prod_beta quiet_fields quiet_refl)

lemma deliver_quiet: "quiet g (fst (deliver w ws e g))"
  using quiet_trans [OF anchor_quiet send_quiet]
  by (auto simp: deliver_def Let_def case_prod_beta send_quiet quiet_refl split: option.split sum.split)

lemma publish_quiet: "quiet g (fst (onPublish w ws s n e g))"
proof -
  have step: "quiet g g1 \<Longrightarrow> quiet g (fst (reply ws f g1))" "quiet g g1 \<Longrightarrow> quiet g (fst (deliver w ws e g1))" for g1 f
    using quiet_trans reply_quiet deliver_quiet by metis+
  have "quiet g (g\<lparr>bwLimiter := b, msgLimiter := m\<rparr>)" for b m
    by (simp add: quiet_def queues_ok_def)
  then have v: "quiet g (fst (verifyEnvelope w e (g\<lparr>bwLimiter := b, msgLimiter := m\<rparr>)))" for b m
    using quiet_trans verify_quiet by metis
  show ?thesis
    unfolding onPublish_def Let_def case_prod_beta
    by (auto intro!: step v quiet_refl simp: quiet_fields \<open>\<And>m b. quiet g (g\<lparr>bwLimiter := b, msgLimiter := m\<rparr>)\<close> split: option.split)
qed

lemma rest_quiet: "quiet g (fst (rest_publish w expected token body g))"
proof -
  have "quiet g (g\<lparr>msgLimiter := m, agents := a\<rparr>)" for m a
    by (simp add: quiet_def queues_ok_def)
  then show ?thesis
    using quiet_trans [OF _ anchor_quiet]
    by (auto simp: rest_publish_def Let_def case_prod_beta quiet_fields quiet_refl split: option.split sum.split)
qed

lemma gw_okI:
  assumes "queues_ok g"
    and "\<And>t subs ws. map_get (topicSubscribers g) t = Some subs \<Longrightarrow> ws \<in> set subs
        \<Longrightarrow> \<exists>s. map_get (sessions g) ws = Some s \<and> t \<in> set (sess_topics s)"
    and "\<And>ws s t. map_get (sessions g) ws = Some s \<Longrightarrow> t \<in> set (sess_topics s) \<Longrightarrow> startsWith t ''agent.''
        \<Longrightarrow> t = inbox_of (agentPubkey s)"
  shows "gw_ok g"
  using assms unfolding gw_ok_def by blast

lemma gw_okD:
  assumes "gw_ok g"
  shows "map_get (sessions g) ws = Some s \<Longrightarrow> sendQueue s \<le> MAX_QUEUE"
    and "map_get (topicSubscribers g) t = Some subs \<Longrightarrow> ws \<in> set subs
        \<Longrightarrow> \<exists>s. map_get (sessions g) ws = Some s \<and> t \<in> set (sess_topics s)"
    and "map_get (sessions g) ws = Some s \<Longrightarrow> t \<in> set (sess_topics s) \<Longrightarrow> startsWith t ''agent.''
        \<Longrightarrow> t = inbox_of (agentPubkey s)"
  using assms unfolding gw_ok_def queues_ok_def by blast+

lemma set_set_add [simp]: "set (set_add x xs) = insert x (set xs)"
  by (auto simp: set_add_def)

lemma set_set_del [simp]: "set (set_del x xs) = set xs - {x}"
  by (auto simp: set_del_def)

lemma connect_ok:
  assumes "gw_ok g" and "map_get (sessions g) ws = None"
  shows "gw_ok (onConnection ws k g)"
proof (rule gw_okI)
  show "queues_ok (onConnection ws k g)"
    using gw_okD(1) [OF assms(1)] by (auto simp: queues_ok_def onConnection_def Let_def map_specs)
  show "\<exists>s. map_get (sessions (onConnection ws k g)) x = Some s \<and> t \<in> set (sess_topics s)"
    if "map_get (topicSubscribers (onConnection ws k g)) t = Some subs" and "x \<in> set subs" for t subs x
    using gw_okD(2) [OF assms(1), of t subs x] that assms(2) by (auto simp: onConnection_def Let_def map_specs)
  show "t = inbox_of (agentPubkey s)"
    if "map_get (sessions (onConnection ws k g)) x = Some s" and "t \<in> set (sess_topics s)" and "startsWith t ''agent.''" for x s t
    using that gw_okD(3) [OF assms(1)] by (auto simp: onConnection_def Let_def map_specs split: if_splits)
qed

text \<open>Changing the topics of one session and the subscriber set of one topic together.\<close>

lemma retopic_ok:
  assumes g: "gw_ok g" and s: "map_get (sessions g) ws = Some s"
    and subs: "\<And>t' S x. map_get m t' = Some S \<Longrightarrow> x \<in> set S \<Longrightarrow>
       (if x = ws then t' \<in> set ts' else \<exists>S0. map_get (topicSubscribers g) t' = Some S0 \<and> x \<in> set S0)"
    and inbox: "\<And>t'. t' \<in> set ts' \<Longrightarrow> startsWith t' ''agent.'' \<Longrightarrow> t' = inbox_of (agentPubkey s)"
  shows "gw_ok (g\<lparr>sessions := map_set ws (s\<lparr>sess_topics := ts'\<rparr>) (sessions g), topicSubscribers := m\<rparr>)"
proof (rule gw_okI)
  show "queues_ok (g\<lparr>sessions := map_set ws (s\<lparr>sess_topics := ts'\<rparr>) (sessions g), topicSubscribers := m\<rparr>)"
    using gw_okD(1) [OF g] s by (auto simp: queues_ok_def map_specs)
next
  fix t S x
  assume "map_get (topicSubscribers (g\<lparr>sessions := map_set ws (s\<lparr>sess_topics := ts'\<rparr>) (sessions g), topicSubscribers := m\<rparr>)) t = Some S"
    and "x \<in> set S"
  then have "if x = ws then t \<in> set ts' else \<exists>S0. map_get (topicSubscribers g) t = Some S0 \<and> x \<in> set S0"
    using subs by simp
  then show "\<exists>sx. map_get (sessions (g\<lparr>sessions := map_set ws (s\<lparr>sess_topics := ts'\<rparr>) (sessions g), topicSubscribers := m\<rparr>)) x
      = Some sx \<and> t \<in> set (sess_topics sx)"
    using gw_okD(2) [OF g] by (auto simp: map_specs split: if_splits)
qed (use gw_okD(3) [OF g] inbox in \<open>auto simp: map_specs split: if_splits\<close>)

lemma sub_ok:
  assumes g: "gw_ok g" and s: "map_get (sessions g) ws = Some s"
  shows "gw_ok (fst (onSub w ws s t g))"
proof (cases "canSubscribe w (agentPubkey s) t")
  case False
  with g quiet_ok [OF send_quiet] show ?thesis by (simp add: onSub_def case_prod_beta)
next
  case True
  have inbox: "t' \<in> set (set_add t (sess_topics s)) \<Longrightarrow> startsWith t' ''agent.'' \<Longrightarrow> t' = inbox_of (agentPubkey s)" for t'
    using True gw_okD(3) [OF g s] by (auto simp: canSubscribe_def split: if_splits)
  have own: "x = ws \<Longrightarrow> map_get (topicSubscribers g) t' = Some S \<Longrightarrow> x \<in> set S \<Longrightarrow> t' \<in> set (sess_topics s)" for x t' S
    using gw_okD(2) [OF g] s by fastforce
  show ?thesis
  proof (cases "map_get (topicSubscribers g) t")
    case (Some S)
    then have "fst (onSub w ws s t g) = g\<lparr>sessions := map_set ws (s\<lparr>sess_topics := set_add t (sess_topics s)\<rparr>) (sessions g),
        topicSubscribers := map_set t (set_add ws S) (topicSubscribers g)\<rparr>"
      using True by (simp add: onSub_def Let_def)
    with Some show ?thesis using own inbox
      by (auto intro!: retopic_ok [OF g s] simp: map_specs split: if_splits)
  next
    case None
    let ?S = "case ensureGroup (redis_client w) t of Inl err \<Rightarrow> [] | Inr u \<Rightarrow> [ws]"
    let ?m = "case ensureGroup (redis_client w) t of Inl err \<Rightarrow> map_set t [] (topicSubscribers g)
        | Inr u \<Rightarrow> map_set t [ws] (map_set t [] (topicSubscribers g))"
    have "fst (onSub w ws s t g) = g\<lparr>sessions := map_set ws (s\<lparr>sess_topics := set_add t (sess_topics s)\<rparr>) (sessions g),
        topicSubscribers := ?m\<rparr>"
      using True None by (simp add: onSub_def Let_def split: sum.split)
    moreover have "map_get ?m t' = (if t' = t then Some ?S else map_get (topicSubscribers g) t')" for t'
      by (simp add: map_specs split: sum.split)
    ultimately show ?thesis using own inbox
      by (auto intro!: retopic_ok [OF g s] split: if_splits sum.splits)
  qed
qed

lemma map_get_unsubscribe:
  "map_get (unsubscribe ws t m) t' = (if t' = t then map_option (set_del ws) (map_get m t) else map_get m t')"
  by (simp add: unsubscribe_def map_specs split: option.split)

lemma unsub_ok:
  assumes g: "gw_ok g" and s: "map_get (sessions g) ws = Some s"
  shows "gw_ok (fst (onUnsub ws s t g))"
proof -
  have "x = ws \<Longrightarrow> map_get (topicSubscribers g) t' = Some S \<Longrightarrow> x \<in> set S \<Longrightarrow> t' \<in> set (sess_topics s)" for x t' S
    using gw_okD(2) [OF g] s by fastforce
  with gw_okD(3) [OF g s] show ?thesis
    unfolding onUnsub_def fst_conv
    by (intro retopic_ok [OF g s]) (auto simp: map_get_unsubscribe split: if_splits)
qed

lemma map_get_unsubscribe_all:
  "map_get (foldl (\<lambda>m t. unsubscribe ws t m) m tps) t
    = (if t \<in> set tps then map_option (set_del ws) (map_get m t) else map_get m t)"
proof (induction tps arbitrary: m)
  case Nil
  then show ?case by simp
next
  case (Cons a tps)
  have "map_option (set_del ws) (map_option (set_del ws) x) = map_option (set_del ws) x" for x
    by (cases x) (simp_all add: set_del_def)
  with Cons show ?case by (auto simp: map_get_unsubscribe)
qed

lemma close_ok:
  assumes g: "gw_ok g"
  shows "gw_ok (onClose ws g)"
proof (cases "map_get (sessions g) ws")
  case None
  with g show ?thesis by (simp add: onClose_def)
next
  case (Some s)
  show ?thesis
  proof (rule gw_okI)
    show "queues_ok (onClose ws g)"
      using gw_okD(1) [OF g] Some by (auto simp: queues_ok_def onClose_def map_specs)
    show "\<exists>sx. map_get (sessions (onClose ws g)) x = Some sx \<and> t \<in> set (sess_topics sx)"
      if a: "map_get (topicSubscribers (onClose ws g)) t = Some subs" "x \<in> set subs" for t subs x
    proof -
      obtain S where S: "map_get (topicSubscribers g) t = Some S" "x \<in> set S" and ne: "x = ws \<Longrightarrow> t \<notin> set (sess_topics s)"
        using a Some by (auto simp: onClose_def map_get_unsubscribe_all split: if_splits)
      with gw_okD(2) [OF g S] Some show ?thesis by (auto simp: onClose_def map_specs)
    qed
  qed (use gw_okD(3) [OF g] Some in \<open>auto simp: onClose_def map_specs split: if_splits\<close>)
qed

lemma message_ok:
  assumes "gw_ok g"
  shows "gw_ok (fst (onMessage w ws n frame g))"
proof -
  have q: "gw_ok (fst (reply ws f g))" "gw_ok (fst (onPublish w ws s n e g))" for f s e
    using quiet_ok [OF reply_quiet assms] quiet_ok [OF publish_quiet assms] by simp_all
  show ?thesis
    using assms by (auto simp: onMessage_def q sub_ok unsub_ok split: option.split ClientFrame.split)
qed

lemma gw_step_ok:
  assumes "gw_step g g'" and "gw_ok g"
  shows "gw_ok g'"
  using assms
proof cases
  case (gw_connect ws w jwt token)
  with assms(2) show ?thesis by (auto simp: handleUpgrade_def connect_ok split: if_splits option.splits)
next
  case (gw_sent ws)
  have "quiet g (onSent ws g)"
  proof (cases "map_get (sessions g) ws")
    case (Some s)
    with gw_okD(1) [OF assms(2) Some] show ?thesis by (simp add: onSent_def quiet_queue)
  qed (simp add: onSent_def quiet_refl)
  with gw_sent assms(2) quiet_ok show ?thesis by simp
next
  case (gw_sweep now)
  with assms(2) show ?thesis by (simp add: sweepLimiters_def quiet_ok [OF quiet_fields(6)])
qed (use assms(2) message_ok close_ok quiet_ok [OF pump_quiet] quiet_ok [OF rest_quiet] in \<open>metis fst_conv\<close>)+

lemma new_gateway_ok: "gw_ok (new_gateway ml bl fr an ag rg)"
  by (simp add: gw_ok_def queues_ok_def new_gateway_def map_get_def)

lemma gw_run_ok: "gw_step\<^sup>*\<^sup>* g g' \<Longrightarrow> gw_ok g \<Longrightarrow> gw_ok g'"
  by (induction rule: rtranclp_induct) (simp_all add: gw_step_ok)

lemma send_out: "x \<in> set (snd (send ws f g)) \<Longrightarrow> (x = Frame ws f \<or> x = CloseSlow ws) \<and> map_get (sessions g) ws \<noteq> None"
  by (auto simp: send_def split: option.splits if_splits)

lemma send_sessions: "map_get (sessions (fst (send ws f g))) x = None \<longleftrightarrow> map_get (sessions g) x = None"
  by (auto simp: send_def map_specs split: option.splits)

lemma dispatch_to_out:
  "x \<in> set (snd (dispatch_to f subs g)) \<Longrightarrow> \<exists>ws \<in> set subs. (x = Frame ws f \<or> x = CloseSlow ws) \<and> map_get (sessions g) ws \<noteq> None"
proof (induction subs arbitrary: g)
  case Nil
  then show ?case by simp
next
  case (Cons ws subs)
  then have "x \<in> set (snd (send ws f g)) \<or> x \<in> set (snd (dispatch_to f subs (fst (send ws f g))))"
    by (simp add: case_prod_beta)
  then show ?case
  proof
    assume "x \<in> set (snd (dispatch_to f subs (fst (send ws f g))))"
    with Cons.IH [of "fst (send ws f g)"] send_sessions [of ws f g] show ?thesis by auto
  qed (auto dest: send_out)
qed

lemma dispatch_out:
  assumes "dispatch now t e sid g = (g', outs)" and "x \<in> set outs"
  obtains S ws where "map_get (topicSubscribers g) t = Some S" and "ws \<in> set S" and "x = Frame ws (Msg t e sid) \<or> x = CloseSlow ws"
proof (cases "map_get (topicSubscribers g) t")
  case None
  with assms show ?thesis by (auto simp: dispatch_def Let_def)
next
  case (Some S)
  with assms have "x \<in> set (snd (dispatch_to (Msg t e sid) S (g\<lparr>ringbuf := ring_push t e sid now (ringbuf g)\<rparr>)))"
    by (auto simp: dispatch_def Let_def split: if_splits)
  from dispatch_to_out [OF this] Some that show ?thesis by blast
qed

lemma reply_no_append: "Appended e \<notin> set (fst (snd (reply ws f g)))"
  using send_out [of "Appended e" ws f g] by (auto simp: reply_def case_prod_beta)

lemma deliver_append:
  assumes "Appended e' \<in> set (fst (snd (deliver w ws e g)))"
  shows "\<exists>t. resolvePublishTopic e = Some t \<and> e' = e\<lparr>topic := t\<rparr>"
proof -
  have "Appended e' \<notin> set (snd (send ws (Ack (env_id e)) g1))" for g1
    using send_out [of "Appended e'" ws "Ack (env_id e)" g1] by auto
  with assms show ?thesis
    by (auto simp: deliver_def Let_def case_prod_beta split: option.splits sum.splits if_splits)
qed

lemma verify_ok:
  "snd (verifyEnvelope w e g) = VOk \<longleftrightarrow> isEnvelopeTsFresh (ts e) (clock w) (freshness g)
    \<and> verifyEnvelopeSignature (decode58 w) (ed_verify w) (canonicalizeForSigning e) (signature e) (from_agent e)
    \<and> snd (check_active w (from_agent e) (agents g))"
  by (auto simp: verifyEnvelope_def case_prod_beta)

text \<open>What a publish needs to be accepted, in the order the gateway checks it.\<close>

definition admissible :: "world \<Rightarrow> Session \<Rightarrow> nat \<Rightarrow> Envelope \<Rightarrow> gateway \<Rightarrow> bool" where
  "admissible w s n e g = (from_agent e = agentPubkey s
     \<and> allowed (snd (consume (bwLimiter g) (socketId s) (of_nat n) (of_int (clock w))))
     \<and> allowed (snd (consume (msgLimiter g) (agentPubkey s) 1 (of_int (clock w))))
     \<and> isEnvelopeTsFresh (ts e) (clock w) (freshness g)
     \<and> verifyEnvelopeSignature (decode58 w) (ed_verify w) (canonicalizeForSigning e) (signature e) (from_agent e)
     \<and> snd (check_active w (from_agent e) (agents g))
     \<and> (\<forall>mt. msg_type e = Some mt \<longrightarrow> \<not> isExpired mt (ts e) (clock w) None \<and> (routingMode mt = Direct \<longrightarrow> truthy (to_agent e))))"

definition checked :: "world \<Rightarrow> Session \<Rightarrow> nat \<Rightarrow> Envelope \<Rightarrow> gateway \<Rightarrow> gateway" where
  "checked w s n e g = fst (verifyEnvelope w e (g\<lparr>bwLimiter := fst (consume (bwLimiter g) (socketId s) (of_nat n) (of_int (clock w))),
     msgLimiter := fst (consume (msgLimiter g) (agentPubkey s) 1 (of_int (clock w)))\<rparr>))"

lemma publish_admissible: "admissible w s n e g \<Longrightarrow> onPublish w ws s n e g = deliver w ws e (checked w s n e g)"
  using verify_ok [of w e "g\<lparr>bwLimiter := fst (consume (bwLimiter g) (socketId s) (of_nat n) (of_int (clock w))),
     msgLimiter := fst (consume (msgLimiter g) (agentPubkey s) 1 (of_int (clock w)))\<rparr>"]
  by (auto simp: onPublish_def Let_def case_prod_beta admissible_def checked_def split: option.split)

text \<open>A refusal is a reply that leaves the anchor pool alone.\<close>

definition refusal :: "nat \<Rightarrow> gateway \<Rightarrow> outcome \<Rightarrow> bool" where
  "refusal ws g r = (\<exists>f g1. r = reply ws f g1 \<and> anchor g1 = anchor g)"

lemma refusal_reply: "anchor g1 = anchor g \<Longrightarrow> refusal ws g (reply ws f g1)"
  by (auto simp: refusal_def)

lemma verify_anchor: "anchor (fst (verifyEnvelope w e g)) = anchor g"
  by (simp add: verifyEnvelope_def case_prod_beta)

lemma publish_refused:
  assumes "\<not> admissible w s n e g"
  shows "refusal ws g (onPublish w ws s n e g)"
proof -
  let ?g = "g\<lparr>bwLimiter := fst (consume (bwLimiter g) (socketId s) (of_nat n) (of_int (clock w))),
     msgLimiter := fst (consume (msgLimiter g) (agentPubkey s) 1 (of_int (clock w)))\<rparr>"
  have a: "anchor (fst (verifyEnvelope w e ?g)) = anchor g" by (simp add: verify_anchor)
  have "\<not> (snd (verifyEnvelope w e ?g) = VOk) \<or> from_agent e \<noteq> agentPubkey s
      \<or> \<not> allowed (snd (consume (bwLimiter g) (socketId s) (of_nat n) (of_int (clock w))))
      \<or> \<not> allowed (snd (consume (msgLimiter g) (agentPubkey s) 1 (of_int (clock w))))
      \<or> (\<exists>mt. msg_type e = Some mt \<and> (isExpired mt (ts e) (clock w) None \<or> routingMode mt = Direct \<and> \<not> truthy (to_agent e)))"
    using assms verify_ok [of w e ?g] by (auto simp: admissible_def)
  then show ?thesis
    by (elim disjE exE conjE) (simp_all add: onPublish_def Let_def case_prod_beta refusal_reply a split: option.split)
qed

lemma refusal_no_append: "refusal ws g (g', outs, res) \<Longrightarrow> Appended e \<notin> set outs"
  by (metis fst_conv refusal_def reply_no_append snd_conv)

lemma send_anchor: "anchor (fst (send ws f g)) = anchor g"
  by (simp add: send_def split: option.split)

lemma refusal_anchor: "refusal ws g (g', outs, res) \<Longrightarrow> anchor g' = anchor g"
  by (auto simp: refusal_def reply_def case_prod_beta send_anchor)

lemma message_publish:
  assumes "map_get (sessions g) ws = Some s" and "onMessage w ws n (Some (Publish e)) g = (g', outs, res)" and "EnvelopeSchema e"
  shows "(admissible w s n e g \<and> deliver w ws e (checked w s n e g) = (g', outs, res)) \<or> refusal ws g (g', outs, res)"
  using assms publish_admissible [of w s n e g ws] publish_refused [of w s n e g ws]
  by (cases "admissible w s n e g") (simp_all add: onMessage_def)

lemma message_append:
  assumes "map_get (sessions g) ws = Some s" and "onMessage w ws n (Some (Publish e)) g = (g', outs, res)" and "Appended e' \<in> set outs"
  shows "EnvelopeSchema e \<and> admissible w s n e g \<and> deliver w ws e (checked w s n e g) = (g', outs, res)"
proof -
  have "EnvelopeSchema e"
    using assms reply_no_append [of e' ws "Reject None ''bad_frame''" g] by (auto simp: onMessage_def split: if_splits)
  with message_publish [OF assms(1,2)] refusal_no_append assms(3) show ?thesis by blast
qed

lemma publish_completes:
  assumes "map_get (sessions g) ws = Some s" and "EnvelopeSchema e" and "admissible w s n e g"
    and "resolvePublishTopic e = Some t" and "ensureGroup (redis_client w) t = Inr ()"
    and "bus_publish (redis_client w) (e\<lparr>topic := t\<rparr>) = Inr sid"
  shows "Appended (e\<lparr>topic := t\<rparr>) \<in> set (fst (snd (onMessage w ws n (Some (Publish e)) g)))"
  using assms publish_admissible [OF assms(3), of ws] by (auto simp: onMessage_def deliver_def Let_def case_prod_beta)

text \<open>A concrete gateway with one session, and a world in which every outside call succeeds.\<close>

definition agent_a :: string where "agent_a = replicate 32 (CHR ''a'')"
definition agent_b :: string where "agent_b = replicate 32 (CHR ''b'')"

definition sample_world :: world where
  "sample_world = \<lparr>clock = 1000, redis_client = \<lparr>xgroup = \<lambda>_. Inr (), xadd = \<lambda>_ _. Inr ''1-0''\<rparr>,
     decode58 = (\<lambda>s. if length s = 32 then Some (replicate 32 0) else Some (replicate 64 0)),
     ed_verify = (\<lambda>_ _ _. Inr True), public_key_ok = (\<lambda>_. True), accounts_rpc = (\<lambda>_. Inr [[0]])\<rparr>"

definition sample_gateway :: gateway where
  "sample_gateway = new_gateway
     \<lparr>bucket = \<lparr>capacity = 20, refillPerMs = 5 / 1000\<rparr>, states = [], idleMs = 60000, maxKeys = 10000\<rparr>
     \<lparr>bucket = \<lparr>capacity = 262144, refillPerMs = 65536 / 1000\<rparr>, states = [], idleMs = 60000, maxKeys = 10000\<rparr>
     \<lparr>maxAgeMs = None, maxSkewMs = None\<rparr> (Some (start (new_pool small_opts))) None (new_ring 4)"

definition sample_online :: gateway where
  "sample_online = onConnection 7 agent_a sample_gateway"

definition sample_session :: Session where
  "sample_session = \<lparr>agentPubkey = agent_a, socketId = ''s1'', sess_topics = [], sendQueue = 0\<rparr>"

definition note_env :: "string \<Rightarrow> MessageType option \<Rightarrow> Envelope" where
  "note_env t mt = \<lparr>env_id = replicate 26 (CHR ''0''), topic = t, from_agent = agent_a, to_agent = Some agent_b, msg_type = mt,
     payload_cid = ''cid'', payload_digest = replicate 64 (CHR ''0''), signature = ''sig'', ts = 1000\<rparr>"

lemma sample_online_session: "map_get (sessions sample_online) 7 = Some sample_session"
proof -
  have "''s'' @ show_nat 1 = ''s1''" by code_simp
  then show ?thesis
    by (simp add: sample_online_def onConnection_def Let_def map_get_def sample_session_def sample_gateway_def new_gateway_def)
qed

lemma note_env_ok: "EnvelopeSchema (note_env ''system.health'' mt)"
proof -
  have "TopicSchema ''system.health''" by code_simp
  moreover have "taskIdHex (replicate 64 (CHR ''0''))" by code_simp
  ultimately show ?thesis by (simp add: EnvelopeSchema_def note_env_def agent_a_def agent_b_def opt_ok_def cid_ok_def)
qed

lemma note_env_admissible: "mt = None \<or> mt = Some TaskAccept \<Longrightarrow> admissible sample_world sample_session 300 (note_env t mt) sample_online"
  by (auto simp: admissible_def sample_session_def note_env_def consume_allowed level_def sample_online_def onConnection_def Let_def
      sample_gateway_def new_gateway_def map_get_def isEnvelopeTsFresh_def sample_world_def verifyEnvelopeSignature_def agent_a_def
      agent_b_def check_active_def isExpired_def)

lemma sample_redis: "ensureGroup (redis_client sample_world) t = Inr ()" "bus_publish (redis_client sample_world) e = Inr ''1-0''"
  by (simp_all add: ensureGroup_def bus_publish_def sample_world_def)

lemma sample_publish:
  assumes "mt = None \<or> mt = Some TaskAccept" and "resolvePublishTopic (note_env ''system.health'' mt) = Some t"
  obtains g' outs res where "onMessage sample_world 7 300 (Some (Publish (note_env ''system.health'' mt))) sample_online = (g', outs, res)"
    and "Appended ((note_env ''system.health'' mt)\<lparr>topic := t\<rparr>) \<in> set outs"
  using publish_completes [OF sample_online_session note_env_ok note_env_admissible [OF assms(1)] assms(2) sample_redis] that
  by (metis prod.collapse)

subsection \<open>Properties\<close>





text \<open>
  Routing a direct message breaks its signature. When a direct message is published under any
  topic but the recipient's inbox, the envelope that enters the stream has another canonical text
  than the one the sender signed, so a recipient cannot verify it.
\<close>

theorem direct_routing_changes_signed_text:
  assumes "map_get (sessions g) ws = Some s" and "onMessage w ws n (Some (Publish e)) g = (g', outs, res)"
    and "Appended e' \<in> set outs" and "msg_type e = Some mt" and "mt \<noteq> BroadcastRFP"
    and "to_agent e = Some k" and "topic e \<noteq> inbox_of k"
  shows "canonicalizeForSigning e' \<noteq> canonicalizeForSigning e \<and> signature e' = signature e"
proof -
  note m = message_append [OF assms(1-3)]
  then obtain t where t: "resolvePublishTopic e = Some t" "e' = e\<lparr>topic := t\<rparr>"
    using deliver_append [of e' w ws e "checked w s n e g"] assms(3) by auto
  have "truthy (to_agent e)" "routingMode mt = Direct"
    using m assms(4,5) by (auto simp: admissible_def direct_unless_rfp)
  with t(1) assms(4,6) have "t = inbox_of k" by (simp add: resolvePublishTopic_def split: if_splits)
  with t(2) assms(7) show ?thesis
    by (cases e) (auto simp: canonicalizeForSigning_def json_obj_inj)
qed

theorem direct_routing_changes_signed_text_witness:
  "canonicalizeForSigning ((note_env ''system.health'' (Some TaskAccept))\<lparr>topic := inbox_of agent_b\<rparr>)
    \<noteq> canonicalizeForSigning (note_env ''system.health'' (Some TaskAccept))"
proof -
  have t: "resolvePublishTopic (note_env ''system.health'' (Some TaskAccept)) = Some (inbox_of agent_b)" by code_simp
  from sample_publish [OF _ t] obtain g' outs res where
    m: "onMessage sample_world 7 300 (Some (Publish (note_env ''system.health'' (Some TaskAccept)))) sample_online = (g', outs, res)"
      "Appended ((note_env ''system.health'' (Some TaskAccept))\<lparr>topic := inbox_of agent_b\<rparr>) \<in> set outs" by blast
  from direct_routing_changes_signed_text [OF sample_online_session m, of TaskAccept agent_b] show ?thesis
    by (simp add: note_env_def inbox_of_def)
qed

text \<open>
  The messages marked for anchoring are never anchored. Every type with \<open>requiresAnchoring\<close> is
  direct, so it is published on an inbox topic, which the pool skips: publishing it leaves the
  anchor pool, with its default prefix, unchanged.
\<close>

theorem anchoring_types_never_anchored:
  assumes "map_get (sessions g) ws = Some s" and "onMessage w ws n (Some (Publish e)) g = (g', outs, res)"
    and "EnvelopeSchema e" and "msg_type e = Some mt" and "shouldAnchor mt"
    and "anchor g = Some p" and "topicPrefix p = ''task.''"
  shows "anchor g' = Some p"
proof -
  have "anchor g' = anchor g" if a: "admissible w s n e g" and d: "deliver w ws e (checked w s n e g) = (g', outs, res)"
  proof -
    have "routingMode mt = Direct" "truthy (to_agent e)"
      using a assms(4) anchored_is_direct [OF assms(5)] by (auto simp: admissible_def)
    define k where "k = the (to_agent e)"
    have k: "resolvePublishTopic e = None \<or> resolvePublishTopic e = Some (inbox_of k)"
      using assms(4) by (simp add: resolvePublishTopic_def k_def \<open>routingMode mt = Direct\<close> \<open>truthy (to_agent e)\<close>)
    have c: "anchor (checked w s n e g) = Some p" using assms(6) by (simp add: checked_def verify_anchor)
    have "anchor (anchor_enqueue w (e\<lparr>topic := inbox_of k\<rparr>) (checked w s n e g)) = Some p"
      "topic e = inbox_of k \<Longrightarrow> anchor (anchor_enqueue w e (checked w s n e g)) = Some p"
      using c assms(7) by (simp_all add: anchor_enqueue_def enqueue_def pool_shouldAnchor_def startsWith_def inbox_of_def)
    with k d c assms(4,5,6) show ?thesis
      by (auto simp: deliver_def Let_def case_prod_beta send_anchor split: sum.splits if_splits)
  qed
  with message_publish [OF assms(1,2,3)] refusal_anchor assms(6) show ?thesis by metis
qed

theorem anchoring_types_never_anchored_witness:
  "anchor (fst (onMessage sample_world 7 300 (Some (Publish (note_env ''system.health'' (Some TaskAccept)))) sample_online))
    = anchor sample_online \<and> shouldAnchor TaskAccept"
proof -
  obtain g' outs res where m: "onMessage sample_world 7 300 (Some (Publish (note_env ''system.health'' (Some TaskAccept)))) sample_online
      = (g', outs, res)" by (metis prod.collapse)
  have a: "anchor sample_online = Some (start (new_pool small_opts))"
    by (simp add: sample_online_def onConnection_def Let_def sample_gateway_def new_gateway_def)
  have "topicPrefix (start (new_pool small_opts)) = ''task.''" "shouldAnchor TaskAccept" by code_simp+
  with anchoring_types_never_anchored [OF sample_online_session m note_env_ok _ _ a, of TaskAccept] a m show ?thesis
    by (simp add: note_env_def)
qed

text \<open>
  Publishing is not authorised per topic. An admissible untyped envelope is appended to the stream
  of its topic whatever that topic is, so any authenticated agent can publish on \<open>system.\<close> topics.
\<close>

theorem any_agent_publishes_system_topic:
  assumes "map_get (sessions g) ws = Some s" and "EnvelopeSchema e" and "admissible w s n e g"
    and "msg_type e = None" and "topicCategory (topic e) = SystemTopic"
    and "ensureGroup (redis_client w) (topic e) = Inr ()" and "bus_publish (redis_client w) e = Inr sid"
  shows "Appended e \<in> set (fst (snd (onMessage w ws n (Some (Publish e)) g)))"
proof -
  have "resolvePublishTopic e = Some (topic e)" using assms(4) by (simp add: resolvePublishTopic_def)
  from publish_completes [OF assms(1-3) this] assms(6,7) show ?thesis by simp
qed

theorem any_agent_publishes_system_topic_witness:
  "Appended (note_env ''system.health'' None)
    \<in> set (fst (snd (onMessage sample_world 7 300 (Some (Publish (note_env ''system.health'' None))) sample_online)))"
proof -
  have "topicCategory (topic (note_env ''system.health'' None)) = SystemTopic" by code_simp
  with any_agent_publishes_system_topic [OF sample_online_session note_env_ok note_env_admissible _ _ sample_redis]
  show ?thesis by (simp add: note_env_def)
qed

text \<open>
  The HTTP publish path does not verify envelope signatures: a publish that succeeds still
  succeeds, with the same answer, when the signature is replaced by any other string of allowed
  length.
\<close>

theorem rest_publish_ignores_signature:
  assumes "rest_publish w expected token (Some e) g = (g', outs, Inr (HttpPublished i sid))"
    and "1 \<le> length forged" and "length forged \<le> 128"
    and "bus_publish (redis_client w) (e\<lparr>signature := forged\<rparr>) = bus_publish (redis_client w) e"
  shows "\<exists>g''. rest_publish w expected token (Some (e\<lparr>signature := forged\<rparr>)) g
    = (g'', [Appended (e\<lparr>signature := forged\<rparr>)], Inr (HttpPublished i sid))"
proof -
  have "EnvelopeSchema e \<Longrightarrow> EnvelopeSchema (e\<lparr>signature := forged\<rparr>)" using assms(2,3) by (simp add: EnvelopeSchema_def)
  with assms show ?thesis
    by (auto simp: rest_publish_def Let_def case_prod_beta split: if_splits sum.splits)
qed

theorem rest_publish_ignores_signature_witness:
  "\<exists>g''. rest_publish sample_world (Some ''t'') (Some ''t'') (Some ((note_env ''system.health'' None)\<lparr>signature := ''forged''\<rparr>)) sample_gateway
    = (g'', [Appended ((note_env ''system.health'' None)\<lparr>signature := ''forged''\<rparr>)], Inr (HttpPublished (replicate 26 (CHR ''0'')) ''1-0''))"
proof -
  have a: "allowed (snd (consume (msgLimiter sample_gateway) agent_a 1 1000))"
    by (simp add: consume_allowed level_def sample_gateway_def new_gateway_def map_get_def)
  have f: "isEnvelopeTsFresh 1000 1000 (freshness sample_gateway)" "agents sample_gateway = None" "clock sample_world = 1000"
    by (simp_all add: isEnvelopeTsFresh_def sample_gateway_def new_gateway_def sample_world_def)
  have "\<exists>g' outs. rest_publish sample_world (Some ''t'') (Some ''t'') (Some (note_env ''system.health'' None)) sample_gateway
      = (g', outs, Inr (HttpPublished (replicate 26 (CHR ''0'')) ''1-0''))"
    using note_env_ok [of None] a f
    by (simp add: rest_publish_def Let_def case_prod_beta service_token_ok_def check_active_def sample_redis) (simp add: note_env_def)
  then obtain g' outs where p: "rest_publish sample_world (Some ''t'') (Some ''t'') (Some (note_env ''system.health'' None)) sample_gateway
      = (g', outs, Inr (HttpPublished (replicate 26 (CHR ''0'')) ''1-0''))" by blast
  from rest_publish_ignores_signature [OF p, of "''forged''"] show ?thesis by (simp add: sample_redis)
qed

end
