(* ===== verification/X402_Settlement.thy ===== *)
theory X402_Settlement
  imports Json_Canonical
begin

text \<open>
  Settlement of payments of the x402 gateway through the task market
  (\<open>services/x402-gateway/src/settlement.ts\<close>): byte and field-element conversions, the retry loops,
  \<open>settleViaTaskMarket\<close>, \<open>finalizeManagedSettlement\<close> and \<open>verifySettlement\<close>, and the CCTP helpers of
  \<open>cctp.ts\<close>.

  The chain is a parameter: a \<open>chain\<close> record holds what the RPC node and the on-chain programs answer
  to the calls of one settlement. Addresses are their base58 strings. Hash functions are parameters.
  \<open>amount\<close> is the number a payment header declares. Error messages leave out the
  numbers and the derived token address the source interpolates.
\<close>

subsection \<open>Bytes and field elements\<close>

definition BN254_SCALAR_FIELD_MODULUS :: nat where
  "BN254_SCALAR_FIELD_MODULUS = 21888242871839275222246405745257275088548364400416034343698204186575808495617"

text \<open>The loop from the last byte to the first: \<open>n & 0xff\<close>, then \<open>n >>= 8\<close>.\<close>

fun write_be :: "nat \<Rightarrow> int \<Rightarrow> bytes" where
  "write_be 0 n = []"
| "write_be (Suc w) n = write_be w (n div 256) @ [of_int (n mod 256)]"

definition fieldElementToBytes :: "int \<Rightarrow> bytes" where
  "fieldElementToBytes n = write_be 32 n"

definition bytesToDecimalString :: "bytes \<Rightarrow> string" where
  "bytesToDecimalString bs = show_nat (be_nat bs)"

definition canonicalFieldBytes :: "bytes \<Rightarrow> bytes" where
  "canonicalFieldBytes bs = write_be 32 (int (be_nat bs mod BN254_SCALAR_FIELD_MODULUS))"

definition g1ToBytes :: "int \<times> int \<times> int \<Rightarrow> bytes" where
  "g1ToBytes p = fieldElementToBytes (fst p) @ fieldElementToBytes (fst (snd p))"

definition g2ToBytes :: "(int \<times> int) \<times> (int \<times> int) \<times> (int \<times> int) \<Rightarrow> bytes" where
  "g2ToBytes p = (case p of ((x0, x1), (y0, y1), _) \<Rightarrow>
     fieldElementToBytes x1 @ fieldElementToBytes x0 @ fieldElementToBytes y1 @ fieldElementToBytes y0)"

fun first_bit_from :: "nat \<Rightarrow> nat \<Rightarrow> int \<Rightarrow> nat js" where
  "first_bit_from 0 b caps = Inl ''recipient agent advertises no capabilities''"
| "first_bit_from (Suc k) b caps = (if bit caps b then Inr b else first_bit_from k (Suc b) caps)"

definition firstCapabilityBit :: "int \<Rightarrow> nat js" where
  "firstCapabilityBit caps = first_bit_from 128 0 caps"

text \<open>\<open>poseidonSponge\<close>: zero padding to whole chunks of 15, then one permutation per chunk.\<close>

definition pad_chunks :: "nat \<Rightarrow> nat list \<Rightarrow> nat list" where
  "pad_chunks c xs = xs @ replicate (((length xs + c - 1) div c) * c - length xs) 0"

fun sponge_loop :: "(nat list \<Rightarrow> nat) \<Rightarrow> nat \<Rightarrow> nat \<Rightarrow> nat \<Rightarrow> nat list \<Rightarrow> nat" where
  "sponge_loop poseidon c 0 state xs = state"
| "sponge_loop poseidon c (Suc k) state xs = sponge_loop poseidon c k (poseidon (state # take c xs)) (drop c xs)"

definition poseidonSponge :: "(nat list \<Rightarrow> nat) \<Rightarrow> nat \<Rightarrow> nat list \<Rightarrow> nat" where
  "poseidonSponge poseidon tag inputs = sponge_loop poseidon 15 ((length inputs + 14) div 15) tag (pad_chunks 15 inputs)"

subsection \<open>Data\<close>

datatype cluster = MainnetBeta | Devnet | Localnet

record PaymentDetails =
  pay_amount :: rat
  pay_mint :: string
  pay_recipient :: string
  pay_resource :: string

record PaymentReceipt =
  tx_sig :: string
  rc_amount :: rat
  rc_mint :: string
  rc_task :: "string option"
  rc_task_id_hex :: "string option"
  rc_task_status :: "string option"

record TaskAccountState =
  taskId :: bytes
  taskHash :: bytes
  criteriaRoot :: bytes
  deadline :: int
  submittedAt :: int
  disputeWindowEnd :: int
  agentDid :: bytes
  paymentMint :: string
  status :: string

text \<open>The input of the completion circuit: decimal strings.\<close>

record SampleInput =
  si_task_hash :: string
  si_result_hash :: string
  si_deadline :: string
  si_submitted_at :: string
  si_criteria_root :: string
  si_task_preimage :: "string list"
  si_result_preimage :: "string list"
  si_salt :: string
  si_criteria_satisfied :: "string list"
  si_criteria_path :: "string list"
  si_criteria_index :: "string list"

record SnarkProof =
  pi_a :: "int \<times> int \<times> int"
  pi_b :: "(int \<times> int) \<times> (int \<times> int) \<times> (int \<times> int)"
  pi_c :: "int \<times> int \<times> int"

record UpstreamResponseSnapshot =
  up_status :: nat
  up_headers :: "(string \<times> string) list"
  up_body :: string

record agent_info =
  ag_status :: string
  ag_operator :: string
  capabilityMask :: int

record SettlementConfig =
  cfg_cluster :: cluster
  keypair :: "string option"
  recipientKeypair :: "string option"
  taskDeadlineSecs :: int

text \<open>Answers of the outside world. A \<open>send_\<close> field gives the outcome of each attempt at a transaction, an
  \<open>after_\<close> field the task read back after it. \<open>cluster_clock i\<close> is what poll \<open>i\<close> of the cluster clock answers
  while waiting for a release; \<open>window_polls\<close> bounds how many of them the model follows. Hash functions,
  the prover and the locale's string comparison are library code.\<close>

record chain =
  sample_input :: "SampleInput js"
  public_key :: "string \<Rightarrow> bytes option"
  agent_by_did :: "bytes \<Rightarrow> agent_info option js"
  mint_owner :: "string \<Rightarrow> string option js"
  payer_balance :: "string \<Rightarrow> int option"
  market_global :: "(string list \<times> int) js"
  cluster_time :: "int js"
  send_settle :: "nat \<Rightarrow> string js"
  task_after_settle :: "TaskAccountState js"
  fetch_task :: "string \<Rightarrow> TaskAccountState option js"
  sha256 :: "string \<Rightarrow> bytes"
  poseidon :: "nat list \<Rightarrow> nat"
  localeCompare :: "string \<Rightarrow> string \<Rightarrow> int"
  fullProve :: "SampleInput \<Rightarrow> SnarkProof js"
  send_submit :: "bytes \<Rightarrow> bytes \<Rightarrow> nat \<Rightarrow> string js"
  after_submit :: "TaskAccountState js"
  send_verify :: "bytes \<Rightarrow> bytes \<Rightarrow> bytes \<Rightarrow> bytes \<Rightarrow> nat \<Rightarrow> string js"
  after_verify :: "TaskAccountState js"
  cluster_clock :: "nat \<Rightarrow> int js"
  window_polls :: nat
  send_release :: "nat \<Rightarrow> nat \<Rightarrow> string js"
  after_release :: "TaskAccountState js"

definition decodeBase58Key :: "chain \<Rightarrow> string \<Rightarrow> string \<Rightarrow> bytes js" where
  "decodeBase58Key ch lbl v = (case public_key ch v of
     Some bs \<Rightarrow> Inr bs
   | None \<Rightarrow> Inl (lbl @ '' must be a valid base58-encoded public key''))"

definition bytesToHex :: "bytes \<Rightarrow> string" where
  "bytesToHex bs = concat (map (\<lambda>b. let d = (\<lambda>n. if n < 10 then char_of (48 + n) else char_of (87 + n)) in
     [d (unat b div 16), d (unat b mod 16)]) bs)"

subsection \<open>Retry loops\<close>

text \<open>\<open>sendInstructions\<close>: up to four attempts, going on only after an expired blockhash; \<open>try_send i\<close>
  is the outcome of attempt \<open>i\<close>.\<close>

fun send_attempts :: "nat \<Rightarrow> nat \<Rightarrow> (nat \<Rightarrow> string js) \<Rightarrow> string js" where
  "send_attempts 0 i try_send = Inl ''unreachable''"
| "send_attempts (Suc k) i try_send = (case try_send i of
     Inr sig \<Rightarrow> Inr sig
   | Inl err \<Rightarrow> if \<not> js_includes err ''Blockhash not found'' \<or> i = 4 then Inl err
       else send_attempts k (i + 1) try_send)"

definition sendInstructions :: "(nat \<Rightarrow> string js) \<Rightarrow> string js" where
  "sendInstructions try_send = send_attempts 4 1 try_send"

text \<open>The signers, each key once.\<close>

fun unique_signers :: "string list \<Rightarrow> string list \<Rightarrow> string list" where
  "unique_signers seen [] = []"
| "unique_signers seen (k # ks) = (if k \<in> set seen then unique_signers seen ks else k # unique_signers (k # seen) ks)"

text \<open>\<open>waitForDisputeWindow\<close>: poll the cluster clock until it reaches \<open>endTs\<close>. The fuel bounds the
  polls looked at; \<open>None\<close> means still waiting. The result is the number of the poll that ends the wait.\<close>

fun waitForDisputeWindow :: "nat \<Rightarrow> (nat \<Rightarrow> int js) \<Rightarrow> int \<Rightarrow> nat \<Rightarrow> nat js option" where
  "waitForDisputeWindow 0 clk endTs i = None"
| "waitForDisputeWindow (Suc fuel) clk endTs i = (case clk i of
     Inl e \<Rightarrow> Some (Inl e)
   | Inr now \<Rightarrow> if now \<ge> endTs then Some (Inr i) else waitForDisputeWindow fuel clk endTs (i + 1))"

definition isDisputeWindowOpen :: "string \<Rightarrow> bool" where
  "isDisputeWindowOpen err = js_includes err ''DisputeWindowOpen''"

text \<open>The loop of \<open>releaseAfterDisputeWindow\<close>: six attempts; between two of them the clock is read.\<close>

fun release_attempts :: "nat \<Rightarrow> nat \<Rightarrow> (nat \<Rightarrow> int js) \<Rightarrow> (nat \<Rightarrow> string js) \<Rightarrow> string js" where
  "release_attempts 0 i clk try_release = Inl ''release retry loop exhausted unexpectedly''"
| "release_attempts (Suc k) i clk try_release = (case try_release i of
     Inr sig \<Rightarrow> Inr sig
   | Inl err \<Rightarrow> if \<not> isDisputeWindowOpen err \<or> i = 6 then Inl err
       else (case clk i of Inl e \<Rightarrow> Inl e | Inr now \<Rightarrow> release_attempts k (i + 1) clk try_release))"

text \<open>\<open>waitForAttestation\<close> of \<open>cctp.ts\<close>: \<open>poll i\<close> and \<open>now i\<close> are what round \<open>i\<close> sees.\<close>

fun waitForAttestation :: "nat \<Rightarrow> (nat \<Rightarrow> string option) \<Rightarrow> (nat \<Rightarrow> int) \<Rightarrow> int \<Rightarrow> nat \<Rightarrow> string js option" where
  "waitForAttestation 0 poll now dl i = None"
| "waitForAttestation (Suc fuel) poll now dl i = (case poll i of
     Some att \<Rightarrow> Some (Inr att)
   | None \<Rightarrow> if now i \<ge> dl then Some (Inl ''cctp attestation timeout'') else waitForAttestation fuel poll now dl (i + 1))"

definition validateCctpTarget :: "int \<Rightarrow> int \<Rightarrow> unit js" where
  "validateCctpTarget destDomain amt =
     (if destDomain \<noteq> 5 then Inl ''cctp dest domain must be solana (5)''
      else if amt \<le> 0 then Inl ''cctp amount must be positive'' else Inr ())"

subsection \<open>Settling\<close>

definition deadlineOffset :: "int \<Rightarrow> int \<Rightarrow> int" where
  "deadlineOffset requested maxDeadlineSecs = min (max 61 requested) (max 61 (maxDeadlineSecs - 1))"

definition simulateSettlement :: "(PaymentDetails \<Rightarrow> string \<Rightarrow> string \<Rightarrow> string) \<Rightarrow> PaymentDetails \<Rightarrow> string \<Rightarrow> string \<Rightarrow> PaymentReceipt" where
  "simulateSettlement digest payment requesterDid argsHash =
     \<lparr>tx_sig = ''localnet_'' @ take 24 (digest payment requesterDid argsHash),
      rc_amount = pay_amount payment, rc_mint = pay_mint payment, rc_task = None, rc_task_id_hex = None, rc_task_status = None\<rparr>"

text \<open>The checks of a live settlement, in order; each may throw. The result is the task deadline.\<close>

definition bind_js :: "'a js \<Rightarrow> ('a \<Rightarrow> 'b js) \<Rightarrow> 'b js" where
  "bind_js x f = (case x of Inl e \<Rightarrow> Inl e | Inr v \<Rightarrow> f v)"

text \<open>\<open>if (!ok) throw new Error(msg)\<close> and \<open>if (!x) throw new Error(msg)\<close>.\<close>

definition require :: "bool \<Rightarrow> string \<Rightarrow> unit js" where
  "require ok msg = (if ok then Inr () else Inl msg)"

definition present :: "'a option \<Rightarrow> string \<Rightarrow> 'a js" where
  "present x msg = (case x of None \<Rightarrow> Inl msg | Some v \<Rightarrow> Inr v)"

text \<open>\<open>SPL_TOKEN\<close> and \<open>SPL_TOKEN_2022\<close> stand for the two token programs.\<close>

definition resolveTokenProgram :: "chain \<Rightarrow> string \<Rightarrow> string js" where
  "resolveTokenProgram ch mint =
     bind_js (mint_owner ch mint) (\<lambda>info.
     bind_js (present info (''payment mint '' @ mint @ '' was not found'')) (\<lambda>owner.
       if owner = ''SPL_TOKEN_2022'' then Inr ''SPL_TOKEN_2022''
       else if owner = ''SPL_TOKEN'' then Inr ''SPL_TOKEN''
       else Inl (''payment mint '' @ mint @ '' is not an SPL token mint'')))"

definition settle_checks :: "SettlementConfig \<Rightarrow> chain \<Rightarrow> PaymentDetails \<Rightarrow> string \<Rightarrow> int js" where
  "settle_checks cfg ch payment requesterDid =
     bind_js (sample_input ch) (\<lambda>_.
     bind_js (decodeBase58Key ch ''payment recipient'' (pay_recipient payment)) (\<lambda>did.
     bind_js (agent_by_did ch did) (\<lambda>ag.
     bind_js (present ag (''recipient DID '' @ pay_recipient payment @ '' is not registered in agent_registry'')) (\<lambda>recipient.
     bind_js (require (ag_status recipient = ''active'') (''recipient DID '' @ pay_recipient payment @ '' is not active'')) (\<lambda>_.
     bind_js (decodeBase58Key ch ''requester DID'' requesterDid) (\<lambda>_.
     bind_js (present (public_key ch (pay_mint payment)) ''Invalid public key input'') (\<lambda>_.
     bind_js (resolveTokenProgram ch (pay_mint payment)) (\<lambda>_.
     bind_js (present (payer_balance ch (pay_mint payment)) (''payer token account does not exist for mint '' @ pay_mint payment)) (\<lambda>balance.
     bind_js (require (isInteger (pay_amount payment)) ''The number cannot be converted to a BigInt because it is not an integer'') (\<lambda>_.
     bind_js (require (\<not> of_int balance < pay_amount payment) ''payer token account has insufficient balance'') (\<lambda>_.
     bind_js (market_global ch) (\<lambda>mg.
     bind_js (require (pay_mint payment \<in> set (fst mg)) (''payment mint '' @ pay_mint payment @ '' is not allowed by task_market'')) (\<lambda>_.
     bind_js (require (\<not> deadlineOffset (taskDeadlineSecs cfg) (snd mg) \<le> 60) ''task_market maxDeadlineSecs is too small for x402 settlement'') (\<lambda>_.
     bind_js (cluster_time ch) (\<lambda>now.
     bind_js (firstCapabilityBit (capabilityMask recipient)) (\<lambda>_.
       Inr (now + deadlineOffset (taskDeadlineSecs cfg) (snd mg))))))))))))))))))"

text \<open>\<open>task_addr\<close> is the derived address of the new task.\<close>

definition settleViaTaskMarket :: "(PaymentDetails \<Rightarrow> string \<Rightarrow> string \<Rightarrow> string) \<Rightarrow> string \<Rightarrow> SettlementConfig \<Rightarrow> chain \<Rightarrow> PaymentDetails \<Rightarrow> string \<Rightarrow> string \<Rightarrow> rat \<Rightarrow> PaymentReceipt js" where
  "settleViaTaskMarket digest task_addr cfg ch payment requesterDid argsHash budgetLamports =
     (if pay_amount payment > budgetLamports then Inl ''payment exceeds budget''
      else if cfg_cluster cfg = Localnet then Inr (simulateSettlement digest payment requesterDid argsHash)
      else if cfg_cluster cfg = MainnetBeta then Inl ''mainnet settlement requires Jito bundle path''
      else if keypair cfg = None then Inl ''SAEP_OPERATOR_KEYPAIR is required for live task_market settlement''
      else
        bind_js (settle_checks cfg ch payment requesterDid) (\<lambda>_.
        bind_js (sendInstructions (send_settle ch)) (\<lambda>sig.
        bind_js (task_after_settle ch) (\<lambda>task.
          if status task \<noteq> ''funded'' then Inl (''task '' @ task_addr @ '' was created but did not reach funded status'')
          else Inr \<lparr>tx_sig = sig, rc_amount = pay_amount payment, rc_mint = pay_mint payment, rc_task = Some task_addr,
                    rc_task_id_hex = Some (bytesToHex (taskId task)), rc_task_status = Some (status task)\<rparr>))))"

subsection \<open>Finalising\<close>

definition refreshReceiptStatus :: "SettlementConfig \<Rightarrow> chain \<Rightarrow> PaymentReceipt \<Rightarrow> PaymentReceipt js" where
  "refreshReceiptStatus cfg ch r =
     (if \<not> truthy (rc_task r) \<or> cfg_cluster cfg = Localnet then Inr r
      else bind_js (fetch_task ch (the (rc_task r))) (\<lambda>t. case t of
          None \<Rightarrow> Inr r
        | Some task \<Rightarrow> Inr (r\<lparr>rc_task_id_hex := (case rc_task_id_hex r of None \<Rightarrow> Some (bytesToHex (taskId task)) | Some h \<Rightarrow> Some h),
                             rc_task_status := Some (status task)\<rparr>)))"

definition resolveManagedRecipientSigner :: "SettlementConfig \<Rightarrow> string \<Rightarrow> string option" where
  "resolveManagedRecipientSigner cfg expectedOperator =
     (if recipientKeypair cfg = Some expectedOperator then recipientKeypair cfg
      else if keypair cfg = Some expectedOperator then keypair cfg
      else None)"

text \<open>The digest of the upstream response: \<open>JSON.stringify([status, headerPairs, body])\<close> with the header
  names in lower case and in the order of the locale.\<close>

definition lower :: "string \<Rightarrow> string" where
  "lower s = map (\<lambda>c. let n = (of_char c :: nat) in if 65 \<le> n \<and> n \<le> 90 then char_of (n + 32) else c) s"

definition responseDigest :: "chain \<Rightarrow> UpstreamResponseSnapshot \<Rightarrow> bytes" where
  "responseDigest ch u = (let headerPairs = js_sort (\<lambda>a b. localeCompare ch (fst a) (fst b)) (map (\<lambda>h. (lower (fst h), snd h)) (up_headers u)) in
     sha256 ch (''['' @ show_nat (up_status u) @ '',['' @
       join '','' (map (\<lambda>h. ''['' @ json_string (fst h) @ '','' @ json_string (snd h) @ '']'') headerPairs) @ ''],'' @ json_string (up_body u) @ '']''))"

definition responseResultPreimage :: "chain \<Rightarrow> UpstreamResponseSnapshot \<Rightarrow> nat list" where
  "responseResultPreimage ch u = map unat (responseDigest ch u)"

definition RESULT_TAG :: nat where
  "RESULT_TAG = 0x52534c54"

record managed_witness =
  mw_resultHash :: bytes
  mw_resultHashDecimal :: string
  mw_proofKey :: bytes
  mw_witness :: SampleInput

definition byte_chars :: "bytes \<Rightarrow> string" where
  "byte_chars bs = map (\<lambda>b. char_of (unat b)) bs"

definition buildManagedWitness :: "chain \<Rightarrow> TaskAccountState \<Rightarrow> UpstreamResponseSnapshot \<Rightarrow> managed_witness js" where
  "buildManagedWitness ch task u =
     bind_js (sample_input ch) (\<lambda>sample.
       let pre = responseResultPreimage ch u; h = poseidonSponge (poseidon ch) RESULT_TAG pre in
       Inr \<lparr>mw_resultHash = fieldElementToBytes (int h), mw_resultHashDecimal = show_nat h,
            mw_proofKey = sha256 ch (''saep:x402:proof'' @ byte_chars (responseDigest ch u) @ byte_chars (taskId task)),
            mw_witness = sample\<lparr>si_task_hash := bytesToDecimalString (canonicalFieldBytes (taskHash task)),
              si_result_hash := show_nat h, si_deadline := show_int (deadline task), si_submitted_at := show_int (submittedAt task),
              si_criteria_root := bytesToDecimalString (canonicalFieldBytes (criteriaRoot task)),
              si_result_preimage := map show_nat pre\<rparr>\<rparr>)"

definition computeVkId :: "chain \<Rightarrow> bytes" where
  "computeVkId ch = sha256 ch ''task_completion_v1''"

text \<open>The three stages: each runs when the task has its status, and reads the task back.\<close>

definition submit_stage :: "chain \<Rightarrow> UpstreamResponseSnapshot \<Rightarrow> TaskAccountState \<Rightarrow> TaskAccountState js" where
  "submit_stage ch u task = (if status task \<noteq> ''funded'' then Inr task
     else bind_js (buildManagedWitness ch task u) (\<lambda>w.
          bind_js (sendInstructions (send_submit ch (mw_resultHash w) (mw_proofKey w))) (\<lambda>_.
          after_submit ch)))"

definition verify_stage :: "chain \<Rightarrow> UpstreamResponseSnapshot \<Rightarrow> TaskAccountState \<Rightarrow> TaskAccountState js" where
  "verify_stage ch u task = (if status task \<noteq> ''proofSubmitted'' then Inr task
     else bind_js (buildManagedWitness ch task u) (\<lambda>w.
          bind_js (fullProve ch (mw_witness w)) (\<lambda>p.
          bind_js (sendInstructions (send_verify ch (computeVkId ch) (g1ToBytes (pi_a p)) (g2ToBytes (pi_b p)) (g1ToBytes (pi_c p)))) (\<lambda>_.
          after_verify ch))))"

text \<open>The source waits for the window without bound; a model run that is still waiting when its polls are used
  up ends in the pseudo error of the last branch.\<close>

definition releaseAfterDisputeWindow :: "SettlementConfig \<Rightarrow> chain \<Rightarrow> TaskAccountState \<Rightarrow> string js" where
  "releaseAfterDisputeWindow cfg ch task =
     bind_js (require (keypair cfg \<noteq> None) ''SAEP_OPERATOR_KEYPAIR is required for release'') (\<lambda>_.
     bind_js (resolveTokenProgram ch (paymentMint task)) (\<lambda>_.
     bind_js (market_global ch) (\<lambda>_.
       case waitForDisputeWindow (window_polls ch) (cluster_clock ch) (disputeWindowEnd task) 0 of
         Some (Inr i) \<Rightarrow> release_attempts 6 1 (\<lambda>a. cluster_clock ch (i + a)) (\<lambda>a. sendInstructions (send_release ch a))
       | Some (Inl e) \<Rightarrow> Inl e
       | None \<Rightarrow> Inl ''(still waiting for the dispute window)'')))"

definition release_stage :: "SettlementConfig \<Rightarrow> chain \<Rightarrow> TaskAccountState \<Rightarrow> TaskAccountState js" where
  "release_stage cfg ch task = (if status task \<noteq> ''verified'' then Inr task
     else bind_js (releaseAfterDisputeWindow cfg ch task) (\<lambda>_. after_release ch))"

definition finalize_stages :: "SettlementConfig \<Rightarrow> chain \<Rightarrow> UpstreamResponseSnapshot \<Rightarrow> TaskAccountState \<Rightarrow> TaskAccountState js" where
  "finalize_stages cfg ch u task =
     bind_js (submit_stage ch u task) (\<lambda>t1.
     bind_js (verify_stage ch u t1) (\<lambda>t2.
     release_stage cfg ch t2))"

definition finalizeManagedSettlement :: "SettlementConfig \<Rightarrow> chain \<Rightarrow> PaymentReceipt \<Rightarrow> UpstreamResponseSnapshot \<Rightarrow> PaymentReceipt js" where
  "finalizeManagedSettlement cfg ch r u =
     bind_js (refreshReceiptStatus cfg ch r) (\<lambda>refreshed.
       if cfg_cluster cfg = Localnet \<or> keypair cfg = None \<or> \<not> truthy (rc_task refreshed) then Inr refreshed
       else bind_js (fetch_task ch (the (rc_task refreshed))) (\<lambda>t. case t of
           None \<Rightarrow> Inr refreshed
         | Some task \<Rightarrow>
            if status task = ''released'' then
              Inr (refreshed\<lparr>rc_task_id_hex := (case rc_task_id_hex refreshed of None \<Rightarrow> Some (bytesToHex (taskId task)) | Some h \<Rightarrow> Some h),
                             rc_task_status := Some (status task)\<rparr>)
            else bind_js (agent_by_did ch (agentDid task)) (\<lambda>ag. case ag of
                None \<Rightarrow> Inr (refreshed\<lparr>rc_task_status := Some (status task)\<rparr>)
              | Some recipient \<Rightarrow>
                 if resolveManagedRecipientSigner cfg (ag_operator recipient) = None
                 then Inr (refreshed\<lparr>rc_task_status := Some (status task)\<rparr>)
                 else bind_js (finalize_stages cfg ch u task) (\<lambda>task'.
                   Inr (refreshed\<lparr>rc_task_id_hex := (case rc_task_id_hex refreshed of None \<Rightarrow> Some (bytesToHex (taskId task')) | Some h \<Rightarrow> Some h),
                                  rc_task_status := Some (status task')\<rparr>)))))"

subsection \<open>Verifying\<close>

datatype TxStatus = Confirmed | Finalized | NotFound | Failed

record VerificationResult =
  v_status :: TxStatus
  v_slot :: "int option"
  v_err :: "string option"
  v_task :: "string option"
  v_task_id_hex :: "string option"
  v_task_status :: "string option"

text \<open>The answer of \<open>getTransaction\<close>: an HTTP error, a JSON-RPC error, no transaction, or a
  transaction with its slot and its error.\<close>

datatype rpc_tx = RpcHttp nat | RpcError string | RpcNone | RpcTx "int option" "string option"

definition verifySettlement :: "SettlementConfig \<Rightarrow> chain \<Rightarrow> (string \<Rightarrow> rpc_tx js) \<Rightarrow> string \<Rightarrow> string option \<Rightarrow> string option \<Rightarrow> VerificationResult" where
  "verifySettlement cfg ch rpc sig task task_id =
     (let res = (\<lambda>st sl er id ts. \<lparr>v_status = st, v_slot = sl, v_err = er, v_task = task, v_task_id_hex = id, v_task_status = ts\<rparr>) in
      case rpc sig of
        Inl err \<Rightarrow> res NotFound None (Some err) task_id None
      | Inr (RpcHttp c) \<Rightarrow> res NotFound None (Some (''rpc '' @ show_nat c)) task_id None
      | Inr (RpcError msg) \<Rightarrow> res NotFound None (Some msg) task_id None
      | Inr RpcNone \<Rightarrow> res NotFound None None task_id None
      | Inr (RpcTx sl (Some err)) \<Rightarrow> res Failed sl (Some err) task_id None
      | Inr (RpcTx sl None) \<Rightarrow>
          if \<not> truthy task then res Confirmed sl None task_id None
          else (case refreshReceiptStatus cfg ch \<lparr>tx_sig = sig, rc_amount = 0, rc_mint = [], rc_task = task, rc_task_id_hex = task_id, rc_task_status = None\<rparr> of
              Inl err \<Rightarrow> res NotFound None (Some err) task_id None
            | Inr r \<Rightarrow> res Confirmed sl None (rc_task_id_hex r) (rc_task_status r)))"

subsection \<open>Lemmas\<close>

lemma write_be_int: "write_be w (int n) = be_bytes w n"
proof (induction w arbitrary: n)
  case 0
  then show ?case by simp
next
  case (Suc w)
  have "int n div 256 = int (n div 256)" "int n mod 256 = int (n mod 256)"
    by (simp_all add: zdiv_int zmod_int)
  with Suc show ?case by simp
qed

lemma bind_js_Inr: "bind_js x f = Inr v \<longleftrightarrow> (\<exists>u. x = Inr u \<and> f u = Inr v)"
  by (simp add: bind_js_def split: sum.split)

lemma require_Inr: "require ok msg = Inr u \<longleftrightarrow> ok"
  by (simp add: require_def)

lemma present_Inr: "present x msg = Inr v \<longleftrightarrow> x = Some v"
  by (simp add: present_def split: option.split)

lemma first_bit_from_least:
  "first_bit_from k b caps = Inr i \<longleftrightarrow> b \<le> i \<and> i < b + k \<and> bit caps i \<and> (\<forall>j. b \<le> j \<and> j < i \<longrightarrow> \<not> bit caps j)"
proof (induction k arbitrary: b)
  case 0
  then show ?case by simp
next
  case (Suc k)
  show ?case
  proof (cases "bit caps b")
    case True
    then show ?thesis by (auto simp: le_less)
  next
    case False
    then have "(b \<le> i \<and> bit caps i) = (Suc b \<le> i \<and> bit caps i)" by (metis Suc_leD le_antisym not_less_eq_eq)
    with False Suc show ?thesis by (auto simp: Suc_le_eq) (metis le_less)+
  qed
qed

lemma modulus_bound: "BN254_SCALAR_FIELD_MODULUS < 256 ^ 32" "0 < BN254_SCALAR_FIELD_MODULUS"
  by (simp_all add: BN254_SCALAR_FIELD_MODULUS_def)

lemma sendInstructions_Inr:
  assumes "send_attempts k i try_send = Inr sig"
  shows "\<exists>j. i \<le> j \<and> j < i + k \<and> try_send j = Inr sig \<and> (\<forall>l. i \<le> l \<and> l < j \<longrightarrow> (\<exists>err. try_send l = Inl err \<and> js_includes err ''Blockhash not found''))"
  using assms
proof (induction k arbitrary: i)
  case 0
  then show ?case by simp
next
  case (Suc k)
  show ?case
  proof (cases "try_send i")
    case (Inl err)
    with Suc.prems have e: "js_includes err ''Blockhash not found''" and r: "send_attempts k (i + 1) try_send = Inr sig"
      by (auto split: if_splits)
    from Suc.IH [OF r] obtain j where "i + 1 \<le> j" "j < i + 1 + k" "try_send j = Inr sig"
      "\<forall>l. i + 1 \<le> l \<and> l < j \<longrightarrow> (\<exists>err. try_send l = Inl err \<and> js_includes err ''Blockhash not found'')" by blast
    with Inl e show ?thesis by (intro exI [of _ j]) (auto, metis Suc_leI le_neq_implies_less)
  next
    case (Inr s)
    with Suc.prems show ?thesis by (intro exI [of _ i]) auto
  qed
qed

lemma stage_skips:
  "status task \<noteq> ''funded'' \<Longrightarrow> submit_stage ch u task = Inr task"
  "status task \<noteq> ''proofSubmitted'' \<Longrightarrow> verify_stage ch u task = Inr task"
  by (simp_all add: submit_stage_def verify_stage_def)

lemma js_includes_self: "js_includes s s"
  by (cases s) (simp_all add: startsWith_prefix)

text \<open>A transaction that gets through: one of the four attempts is accepted, the earlier ones having met an
  expired blockhash.\<close>

definition gets_through :: "(nat \<Rightarrow> string js) \<Rightarrow> bool" where
  "gets_through try_send = (\<exists>j. 1 \<le> j \<and> j \<le> 4 \<and> js_ok (try_send j)
     \<and> (\<forall>l. 1 \<le> l \<and> l < j \<longrightarrow> (\<exists>e. try_send l = Inl e \<and> js_includes e ''Blockhash not found'')))"

lemma send_attempts_succeed:
  assumes "i \<le> j" and "j < i + k" and "j \<le> 4" and "try_send j = Inr sig"
    and "\<forall>l. i \<le> l \<and> l < j \<longrightarrow> (\<exists>e. try_send l = Inl e \<and> js_includes e ''Blockhash not found'')"
  shows "send_attempts k i try_send = Inr sig"
  using assms
proof (induction k arbitrary: i)
  case 0
  then show ?case by simp
next
  case (Suc k)
  show ?case
  proof (cases "i = j")
    case True
    with Suc.prems show ?thesis by simp
  next
    case False
    with Suc.prems obtain e where "try_send i = Inl e" "js_includes e ''Blockhash not found''" by (metis le_neq_implies_less order_refl)
    moreover have "send_attempts k (i + 1) try_send = Inr sig" using Suc.prems False by (intro Suc.IH) auto
    ultimately show ?thesis using False Suc.prems(1,3) by simp
  qed
qed

lemma sendInstructions_gets_through: "gets_through try_send \<Longrightarrow> \<exists>sig. sendInstructions try_send = Inr sig"
proof -
  assume "gets_through try_send"
  then obtain j where j: "1 \<le> j" "j \<le> 4" "js_ok (try_send j)"
    "\<forall>l. 1 \<le> l \<and> l < j \<longrightarrow> (\<exists>e. try_send l = Inl e \<and> js_includes e ''Blockhash not found'')" unfolding gets_through_def by blast
  from j(3) obtain sig where "try_send j = Inr sig" by (cases "try_send j") auto
  with j have "send_attempts 4 1 try_send = Inr sig" by (intro send_attempts_succeed) auto
  then show ?thesis by (simp add: sendInstructions_def)
qed

lemma release_attempts_succeed:
  assumes "i \<le> a" and "a < i + k" and "a \<le> 6" and "try_release a = Inr sig"
    and "\<And>b. i \<le> b \<Longrightarrow> b < a \<Longrightarrow> \<exists>e. try_release b = Inl e \<and> isDisputeWindowOpen e" and "\<And>j. \<exists>now. clk j = Inr now"
  shows "release_attempts k i clk try_release = Inr sig"
  using assms(1,2,5)
proof (induction k arbitrary: i)
  case 0
  then show ?case by simp
next
  case (Suc k)
  show ?case
  proof (cases "i = a")
    case True
    with assms(4) show ?thesis by simp
  next
    case False
    with Suc.prems obtain e where "try_release i = Inl e" "isDisputeWindowOpen e" by (metis le_neq_implies_less order_refl)
    moreover obtain now where "clk i = Inr now" using assms(6) by blast
    moreover have "release_attempts k (i + 1) clk try_release = Inr sig" using Suc.prems False by (intro Suc.IH) auto
    ultimately show ?thesis using False Suc.prems(1) assms(3) by simp
  qed
qed

text \<open>Waiting ends when some poll within the fuel reads the end of the window.\<close>

lemma wait_ends_from:
  assumes "i \<le> n" and "n < i + fuel" and "\<And>j. \<exists>now. clk j = Inr now" and "clk n = Inr now" and "endTs \<le> now"
  shows "\<exists>k. waitForDisputeWindow fuel clk endTs i = Some (Inr k)"
  using assms(1,2)
proof (induction fuel arbitrary: i)
  case 0
  then show ?case by simp
next
  case (Suc fuel)
  obtain t where t: "clk i = Inr t" using assms(3) by blast
  show ?case
  proof (cases "endTs \<le> t")
    case True
    with t show ?thesis by simp
  next
    case False
    with t assms(4,5) have "i \<noteq> n" by auto
    with Suc t False show ?thesis by simp
  qed
qed

lemmas wait_ends = wait_ends_from [where i = 0, simplified]

lemma attestation_from:
  assumes "i \<le> n" and "n < i + fuel" and "dl \<le> now n"
  shows "\<exists>k r. i \<le> k \<and> k \<le> n \<and> waitForAttestation fuel poll now dl i = Some r
    \<and> (\<forall>j. i \<le> j \<and> j < k \<longrightarrow> poll j = None \<and> now j < dl)
    \<and> (case r of Inr att \<Rightarrow> poll k = Some att | Inl e \<Rightarrow> poll k = None \<and> dl \<le> now k)"
  using assms(1,2)
proof (induction fuel arbitrary: i)
  case 0
  then show ?case by simp
next
  case (Suc fuel)
  consider att where "poll i = Some att" | "poll i = None" "dl \<le> now i" | "poll i = None" "now i < dl" by (cases "poll i") force+
  then show ?case
  proof cases
    case 3
    with assms(3) have "i \<noteq> n" by auto
    with Suc.prems obtain k r where k: "i + 1 \<le> k" "k \<le> n" "waitForAttestation fuel poll now dl (i + 1) = Some r"
      and none: "\<forall>j. i + 1 \<le> j \<and> j < k \<longrightarrow> poll j = None \<and> now j < dl" and res: "case r of Inr att \<Rightarrow> poll k = Some att | Inl e \<Rightarrow> poll k = None \<and> dl \<le> now k"
      using Suc.IH [of "i + 1"] by auto
    have "poll j = None \<and> now j < dl" if "i \<le> j" "j < k" for j
      using none 3 that by (cases "i = j") auto
    moreover have "waitForAttestation (Suc fuel) poll now dl i = Some r" using 3 k(3) by simp
    ultimately show ?thesis using k res by (intro exI [of _ k] exI [of _ r]) (simp del: waitForAttestation.simps)
  qed (use Suc.prems in \<open>auto intro!: exI [of _ i]\<close>)
qed

lemma settle_checks_deadline:
  assumes "settle_checks cfg ch payment did = Inr dl"
  shows "\<exists>now mg bal. cluster_time ch = Inr now \<and> market_global ch = Inr mg \<and> pay_mint payment \<in> set (fst mg)
    \<and> payer_balance ch (pay_mint payment) = Some bal \<and> pay_amount payment \<le> of_int bal
    \<and> dl = now + deadlineOffset (taskDeadlineSecs cfg) (snd mg)"
  using assms by (auto simp: settle_checks_def bind_js_Inr require_Inr present_Inr)

lemma finalize_keeps_amount: "finalizeManagedSettlement cfg ch r u = Inr r' \<Longrightarrow> rc_amount r' = rc_amount r"
  by (auto simp: finalizeManagedSettlement_def refreshReceiptStatus_def bind_js_def split: if_splits option.splits sum.splits)

lemma settle_amount: "settleViaTaskMarket digest addr cfg ch payment did args budget = Inr r \<Longrightarrow> rc_amount r \<le> budget"
  by (auto simp: settleViaTaskMarket_def simulateSettlement_def bind_js_Inr split: if_splits)

text \<open>A devnet configuration, and a chain that answers every call.\<close>

definition sample_task :: "string \<Rightarrow> TaskAccountState" where
  "sample_task st = \<lparr>taskId = [1, 2], taskHash = [3], criteriaRoot = [4], deadline = 1300, submittedAt = 0, disputeWindowEnd = 1005,
     agentDid = [9], paymentMint = ''USDC'', status = st\<rparr>"

definition sample_circuit_input :: SampleInput where
  "sample_circuit_input = \<lparr>si_task_hash = [], si_result_hash = [], si_deadline = [], si_submitted_at = [], si_criteria_root = [],
     si_task_preimage = [], si_result_preimage = [], si_salt = ''7'', si_criteria_satisfied = [], si_criteria_path = [], si_criteria_index = []\<rparr>"

definition sample_chain :: chain where
  "sample_chain = \<lparr>sample_input = Inr sample_circuit_input, public_key = (\<lambda>_. Some [9]),
     agent_by_did = (\<lambda>_. Inr (Some \<lparr>ag_status = ''active'', ag_operator = ''OP'', capabilityMask = 8\<rparr>)),
     mint_owner = (\<lambda>_. Inr (Some ''SPL_TOKEN'')), payer_balance = (\<lambda>_. Some 500), market_global = Inr ([''USDC''], 86400),
     cluster_time = Inr 1000, send_settle = (\<lambda>i. if i = 1 then Inl ''Blockhash not found'' else Inr ''SIG''),
     task_after_settle = Inr (sample_task ''funded''), fetch_task = (\<lambda>_. Inr (Some (sample_task ''funded''))),
     sha256 = (\<lambda>s. [of_nat (length s)]), poseidon = sum_list, localeCompare = (\<lambda>a b. 0),
     fullProve = (\<lambda>_. Inr \<lparr>pi_a = (1, 2, 1), pi_b = ((1, 2), (3, 4), (1, 0)), pi_c = (5, 6, 1)\<rparr>),
     send_submit = (\<lambda>_ _ _. Inr ''S1''), after_submit = Inr (sample_task ''proofSubmitted''),
     send_verify = (\<lambda>_ _ _ _ i. if i = 1 then Inl ''Blockhash not found'' else Inr ''S2''), after_verify = Inr (sample_task ''verified''),
     cluster_clock = (\<lambda>i. Inr (1000 + int i)), window_polls = 20,
     send_release = (\<lambda>a _. if a = 1 then Inl ''DisputeWindowOpen'' else Inr ''S3''), after_release = Inr (sample_task ''released'')\<rparr>"

definition sample_cfg :: SettlementConfig where
  "sample_cfg = \<lparr>cfg_cluster = Devnet, keypair = Some ''OP'', recipientKeypair = None, taskDeadlineSecs = 300\<rparr>"

definition sample_payment :: PaymentDetails where
  "sample_payment = \<lparr>pay_amount = 70, pay_mint = ''USDC'', pay_recipient = ''R'', pay_resource = ''/x''\<rparr>"

definition sample_receipt :: PaymentReceipt where
  "sample_receipt = \<lparr>tx_sig = ''SIG'', rc_amount = 70, rc_mint = ''USDC'', rc_task = Some ''T'', rc_task_id_hex = Some ''0102'',
     rc_task_status = Some ''funded''\<rparr>"

lemma sample_settles: "settleViaTaskMarket (\<lambda>_ _ _. []) ''T'' sample_cfg sample_chain sample_payment ''D'' ''h'' 100 = Inr sample_receipt"
  by code_simp

subsection \<open>Properties\<close>

text \<open>
  The public inputs of a completion proof are canonical field elements: the decimal text built
  from the bytes of a task hash reads back as their big-endian value modulo the BN254 scalar field,
  which is below the modulus, and its 32-byte form decodes to the same number.
\<close>

theorem field_inputs_canonical:
  "read_nat (bytesToDecimalString (canonicalFieldBytes bs)) = be_nat bs mod BN254_SCALAR_FIELD_MODULUS
    \<and> be_nat bs mod BN254_SCALAR_FIELD_MODULUS < BN254_SCALAR_FIELD_MODULUS
    \<and> length (canonicalFieldBytes bs) = 32
    \<and> fieldElementToBytes (int (read_nat (bytesToDecimalString (canonicalFieldBytes bs)))) = canonicalFieldBytes bs"
proof -
  have lt: "be_nat bs mod BN254_SCALAR_FIELD_MODULUS < BN254_SCALAR_FIELD_MODULUS" using modulus_bound(2) by simp
  with modulus_bound(1) have "be_nat bs mod BN254_SCALAR_FIELD_MODULUS < 256 ^ 32" by (rule less_trans [rotated])
  then have "be_nat (canonicalFieldBytes bs) = be_nat bs mod BN254_SCALAR_FIELD_MODULUS"
    unfolding canonicalFieldBytes_def write_be_int be_nat_be_bytes by (rule mod_less)
  with lt show ?thesis
    by (simp add: bytesToDecimalString_def) (simp add: canonicalFieldBytes_def fieldElementToBytes_def write_be_int)
qed

text \<open>
  The capability bit of a payment task is the least one the recipient advertises among the 128
  of the protocol, and it is found whenever there is one.
\<close>

theorem first_capability_is_least:
  "firstCapabilityBit caps = Inr i \<longleftrightarrow> i < 128 \<and> bit caps i \<and> (\<forall>j < i. \<not> bit caps j)"
  by (auto simp: firstCapabilityBit_def first_bit_from_least)

theorem first_capability_is_least_witness: "firstCapabilityBit 12 = Inr 2"
proof -
  have "bit (12 :: int) 2" "\<forall>j < 2. \<not> bit (12 :: int) j" by code_simp+
  then show ?thesis using first_capability_is_least [of 12 2] by simp
qed

text \<open>
  C11. A settlement never exceeds its budget: a receipt states the amount and mint asked, the amount is
  within the budget, and on a live cluster the escrow is funded, the mint is allowed by the market, the
  payer's balance covers the amount, and the task was created by one of at most four submissions, the
  earlier ones all refused for an expired blockhash.
\<close>

theorem settlement_within_budget:
  assumes "settleViaTaskMarket digest addr cfg ch payment did args budget = Inr r"
  shows "rc_amount r = pay_amount payment \<and> rc_mint r = pay_mint payment \<and> rc_amount r \<le> budget
    \<and> (cfg_cluster cfg \<noteq> Localnet \<longrightarrow> cfg_cluster cfg = Devnet \<and> rc_task_status r = Some ''funded''
        \<and> (\<exists>mg bal. market_global ch = Inr mg \<and> pay_mint payment \<in> set (fst mg)
              \<and> payer_balance ch (pay_mint payment) = Some bal \<and> rc_amount r \<le> of_int bal)
        \<and> (\<exists>j. 1 \<le> j \<and> j \<le> 4 \<and> send_settle ch j = Inr (tx_sig r)
              \<and> (\<forall>l. 1 \<le> l \<and> l < j \<longrightarrow> (\<exists>err. send_settle ch l = Inl err \<and> js_includes err ''Blockhash not found''))))"
proof (cases "cfg_cluster cfg = Localnet")
  case True
  with assms show ?thesis by (auto simp: settleViaTaskMarket_def simulateSettlement_def split: if_splits)
next
  case False
  with assms obtain dl sig task where le: "pay_amount payment \<le> budget" and main: "cfg_cluster cfg \<noteq> MainnetBeta"
    and c: "settle_checks cfg ch payment did = Inr dl" and s: "sendInstructions (send_settle ch) = Inr sig"
    and task: "task_after_settle ch = Inr task" and t: "status task = ''funded''" and r: "r = \<lparr>tx_sig = sig, rc_amount = pay_amount payment, rc_mint = pay_mint payment, rc_task = Some addr,
       rc_task_id_hex = Some (bytesToHex (taskId task)), rc_task_status = Some (status task)\<rparr>"
    by (auto simp: settleViaTaskMarket_def bind_js_Inr split: if_splits)
  have "cfg_cluster cfg = Devnet" using False main by (cases "cfg_cluster cfg") auto
  with settle_checks_deadline [OF c] sendInstructions_Inr [OF s [unfolded sendInstructions_def]] le t r False show ?thesis
    by auto
qed

theorem settlement_within_budget_witness:
  "settleViaTaskMarket (\<lambda>_ _ _. []) ''T'' sample_cfg sample_chain sample_payment ''D'' ''h'' 100 = Inr sample_receipt
    \<and> rc_amount sample_receipt \<le> 100 \<and> rc_task_status sample_receipt = Some ''funded''"
  using settlement_within_budget [OF sample_settles] sample_settles by (simp add: sample_cfg_def)



text \<open>
  The guard against a market deadline that is too short never fires: the offset is above sixty
  seconds whatever the settings, so with a market maximum of sixty seconds the task is still submitted,
  with a deadline of sixty-one.
\<close>

theorem deadline_guard_never_fires:
  "60 < deadlineOffset requested maxSecs \<and> deadlineOffset requested 60 = 61"
  by (auto simp: deadlineOffset_def)

text \<open>
  Waiting for a bridge attestation ends: once some round reads a clock at or past the deadline, the wait
  has returned by that round. It returns the attestation of the first round that saw one, every earlier
  round having seen none before the deadline, or it times out at the first round past the deadline, none
  having been seen.
\<close>

theorem attestation_wait_ends:
  assumes "dl \<le> now n"
  shows "\<exists>k r. k \<le> n \<and> waitForAttestation (Suc n) poll now dl 0 = Some r
    \<and> (\<forall>j < k. poll j = None \<and> now j < dl)
    \<and> (case r of Inr att \<Rightarrow> poll k = Some att | Inl e \<Rightarrow> poll k = None \<and> dl \<le> now k)"
  using attestation_from [of 0 n "Suc n" dl now poll] assms by auto

theorem attestation_wait_ends_witness:
  "\<exists>k r. k \<le> 9 \<and> waitForAttestation 10 (\<lambda>i. if i = 4 then Some ''att'' else None) (\<lambda>i. 2000 * int i) 18000 0 = Some r
    \<and> (\<forall>j < k. (if j = (4::nat) then Some ''att'' else None) = None \<and> 2000 * int j < 18000)"
  using attestation_wait_ends [of 18000 "\<lambda>i. 2000 * int i" 9 "\<lambda>i. if i = 4 then Some ''att'' else None"] by auto

end
