(* ===== verification/X402_Gateway.thy ===== *)
theory X402_Gateway
  imports X402_Settlement Json_Canonical
begin

text \<open>
  The paying proxy of the x402 gateway: target allow-listing (\<open>allowlist.ts\<close>), request
  authentication (\<open>auth.ts\<close>), the per-agent rate windows in Redis (\<open>ratelimit.ts\<close>) and the handlers of
  \<open>server.ts\<close>: \<open>POST /proxy\<close>, \<open>POST /facilitate/verify\<close> and \<open>GET /demo/paid\<close>.

  URL parsing, base58, Ed25519, \<open>JSON.parse\<close> of payment headers, the upstream server and the
  settlement calls are parameters; \<open>isIP\<close> of \<open>node:net\<close> is defined below.
\<close>

subsection \<open>Allow list\<close>

fun split_on :: "char \<Rightarrow> string \<Rightarrow> string list" where
  "split_on c [] = [[]]"
| "split_on c (x # xs) = (if x = c then [] # split_on c xs
     else (case split_on c xs of [] \<Rightarrow> [[x]] | y # ys \<Rightarrow> (x # y) # ys))"

definition octet :: "string \<Rightarrow> bool" where
  "octet s = (s \<noteq> [] \<and> length s \<le> 3 \<and> list_all is_digit s \<and> read_nat s \<le> 255 \<and> (hd s = CHR ''0'' \<longrightarrow> length s = 1))"

definition is_ipv4 :: "string \<Rightarrow> bool" where
  "is_ipv4 s = (let ps = split_on (CHR ''.'') s in length ps = 4 \<and> list_all octet ps)"

definition hextet :: "string \<Rightarrow> bool" where
  "hextet s = (s \<noteq> [] \<and> length s \<le> 4 \<and> list_all (\<lambda>c. c \<in> set ''0123456789abcdefABCDEF'') s)"

text \<open>Groups of an IPv6 text on one side of a double colon, an embedded IPv4 tail counting as two;
  \<open>None\<close> when malformed.\<close>

fun groups :: "string list \<Rightarrow> nat option" where
  "groups [] = Some 0"
| "groups [g] = (if hextet g then Some 1 else if is_ipv4 g then Some 2 else None)"
| "groups (g # gs) = (if hextet g then map_option Suc (groups gs) else None)"

fun double_colon :: "string \<Rightarrow> (string \<times> string) option" where
  "double_colon (a # b # xs) = (if a = CHR '':'' \<and> b = CHR '':'' then Some ([], xs)
     else map_option (\<lambda>p. (a # fst p, snd p)) (double_colon (b # xs)))"
| "double_colon xs = None"

definition side :: "string \<Rightarrow> nat option" where
  "side s = (if s = [] then Some 0 else groups (split_on (CHR '':'') s))"

definition is_ipv6 :: "string \<Rightarrow> bool" where
  "is_ipv6 s = (let a = takeWhile (\<lambda>c. c \<noteq> CHR ''%'') s in
     case double_colon a of
       None \<Rightarrow> side a = Some 8
     | Some (l, r) \<Rightarrow> (case (side l, side r) of (Some m, Some n) \<Rightarrow> m + n \<le> 7 | _ \<Rightarrow> False))"

definition isIP :: "string \<Rightarrow> bool" where
  "isIP s = (is_ipv4 s \<or> is_ipv6 s)"

definition PRIVATE_CIDRS :: "string list" where
  "PRIVATE_CIDRS = [''127.'', ''10.'', ''192.168.'', ''169.254.'', ''0.'']"

definition isPrivateIp :: "string \<Rightarrow> bool" where
  "isPrivateIp host =
     (if \<not> isIP host then False
      else if list_ex (startsWith host) PRIVATE_CIDRS then True
      else if startsWith host ''172.'' \<and> (let second = read_nat (split_on (CHR ''.'') host ! 1) in 16 \<le> second \<and> second \<le> 31) then True
      else host = ''::1'' \<or> host = ''::'' \<or> startsWith host ''fe80:'' \<or> startsWith host ''fc'' \<or> startsWith host ''fd'')"

definition matchesPattern :: "string \<Rightarrow> string \<Rightarrow> bool" where
  "matchesPattern host pattern =
     (if pattern = [] then False
      else if pattern = host then True
      else if startsWith pattern ''*.'' then
        (let tail = drop 2 pattern in host = tail \<or> endsWith host (''.'' @ tail))
      else False)"

record parsed_url =
  protocol :: string
  hostname :: string

definition isTargetAllowed :: "(string \<Rightarrow> parsed_url option) \<Rightarrow> string \<Rightarrow> string \<Rightarrow> string list \<Rightarrow> bool" where
  "isTargetAllowed parse target pattern allowList = (case parse target of
     None \<Rightarrow> False
   | Some url \<Rightarrow>
      if list_ex (\<lambda>h. h = hostname url) allowList then True
      else if protocol url \<noteq> ''https:'' then False
      else if isPrivateIp (hostname url) then False
      else matchesPattern (hostname url) pattern)"

subsection \<open>Request authentication\<close>

record ProxyBody =
  target_url :: string
  pb_method :: string
  pb_headers :: "(string \<times> string) list"
  pb_body :: "string option"
  body_hash :: "string option"
  budget_lamports :: int
  pb_mint :: string
  pb_nonce :: string
  pb_agent_did :: string
  pb_signature :: string

definition ProxyBodySchema :: "(string \<Rightarrow> parsed_url option) \<Rightarrow> ProxyBody \<Rightarrow> bool" where
  "ProxyBodySchema parse b = (parse (target_url b) \<noteq> None
     \<and> pb_method b \<in> {''GET'', ''POST'', ''PUT'', ''DELETE'', ''PATCH''} \<and> 0 < budget_lamports b
     \<and> 32 \<le> length (pb_mint b) \<and> length (pb_mint b) \<le> 44 \<and> 1 \<le> length (pb_nonce b)
     \<and> 32 \<le> length (pb_agent_did b) \<and> length (pb_agent_did b) \<le> 44
     \<and> 64 \<le> length (pb_signature b) \<and> length (pb_signature b) \<le> 128)"

definition canonicalizeProxy :: "ProxyBody \<Rightarrow> string" where
  "canonicalizeProxy b = json_obj
     ([(''target_url'', JStr (target_url b)), (''method'', JStr (pb_method b)),
       (''budget_lamports'', JNum (budget_lamports b)), (''mint'', JStr (pb_mint b))]
      @ (case body_hash b of None \<Rightarrow> [] | Some h \<Rightarrow> [(''body_hash'', JStr h)])
      @ [(''nonce'', JStr (pb_nonce b))])"

definition verifyProxyRequest :: "(string \<Rightarrow> bytes option) \<Rightarrow> (bytes \<Rightarrow> string \<Rightarrow> bytes \<Rightarrow> bool js) \<Rightarrow> string \<Rightarrow> string \<Rightarrow> string \<Rightarrow> bool" where
  "verifyProxyRequest decode58 verifyAsync canonical sig did =
     (case (decode58 sig, decode58 did) of
        (Some s, Some pk) \<Rightarrow>
          if length s \<noteq> 64 \<or> length pk \<noteq> 32 then False
          else (case verifyAsync s canonical pk of Inl _ \<Rightarrow> False | Inr ok \<Rightarrow> ok)
      | _ \<Rightarrow> False)"

subsection \<open>Rate windows\<close>

text \<open>The counters of Redis, by key. Keys carry their window, so expiry of old windows is not
  visible.\<close>

definition counter_of :: "(string, nat) jsmap \<Rightarrow> string \<Rightarrow> nat" where
  "counter_of m k = (case map_get m k of None \<Rightarrow> 0 | Some n \<Rightarrow> n)"

definition incr :: "string \<Rightarrow> (string, nat) jsmap \<Rightarrow> (string, nat) jsmap" where
  "incr k m = map_set k (Suc (counter_of m k)) m"

definition minKey :: "string \<Rightarrow> nat \<Rightarrow> string" where
  "minKey did now = ''x402:rl:min:'' @ did @ '':'' @ show_nat (now div 60000)"

definition dayKey :: "string \<Rightarrow> nat \<Rightarrow> string" where
  "dayKey did now = ''x402:rl:day:'' @ did @ '':'' @ show_nat (now div 86400000)"

record RateResult =
  rate_allowed :: bool
  remainingMin :: nat
  remainingDay :: nat

definition checkRate :: "string \<Rightarrow> nat \<Rightarrow> nat \<Rightarrow> nat \<Rightarrow> (string, nat) jsmap \<Rightarrow> (string, nat) jsmap \<times> RateResult" where
  "checkRate did perMin perDay now m =
     (let m1 = incr (minKey did now) m; m2 = incr (dayKey did now) m1;
          minCount = counter_of m1 (minKey did now); dayCount = counter_of m2 (dayKey did now) in
      (m2, \<lparr>rate_allowed = (minCount \<le> perMin \<and> dayCount \<le> perDay), remainingMin = perMin - minCount, remainingDay = perDay - dayCount\<rparr>))"

subsection \<open>Proxy\<close>

record Config =
  allowPattern :: string
  allowList :: "string list"
  ratePerMin :: nat
  ratePerDay :: nat
  maxBudgetLamports :: int
  max402Retries :: nat

type_synonym Upstream = UpstreamResponseSnapshot

record upstream_request =
  req_url :: string
  req_method :: string
  req_headers :: "(string \<times> string) list"
  req_body :: "string option"

text \<open>The forwarded request, without the receipt header, which is passed separately; a \<open>GET\<close> has no
  body.\<close>

definition request_of :: "ProxyBody \<Rightarrow> upstream_request" where
  "request_of b = \<lparr>req_url = target_url b, req_method = pb_method b, req_headers = pb_headers b,
     req_body = (if pb_method b \<noteq> ''GET'' then pb_body b else None)\<rparr>"

text \<open>What one proxied request meets: the answer of the upstream to attempt \<open>i\<close> with the receipt it
  is shown, the settlement of the payment asked in attempt \<open>i\<close>, and the finalisation.\<close>

record proxy_world =
  pw_now :: nat
  url_parse :: "string \<Rightarrow> parsed_url option"
  pw_decode58 :: "string \<Rightarrow> bytes option"
  pw_verify :: "bytes \<Rightarrow> string \<Rightarrow> bytes \<Rightarrow> bool js"
  json_payment :: "string \<Rightarrow> PaymentDetails option"
  sha256hex :: "string \<Rightarrow> string"
  upstream :: "upstream_request \<Rightarrow> nat \<Rightarrow> PaymentReceipt option \<Rightarrow> Upstream js"
  settle_payment :: "nat \<Rightarrow> PaymentDetails \<Rightarrow> string \<Rightarrow> string \<Rightarrow> rat \<Rightarrow> PaymentReceipt js"
  finalize_payment :: "PaymentReceipt \<Rightarrow> Upstream \<Rightarrow> PaymentReceipt js"

datatype proxy_reply = ProxyErr nat string "PaymentReceipt list" | ProxyOk nat Upstream "PaymentReceipt list"

definition header_of :: "(string \<times> string) list \<Rightarrow> string \<Rightarrow> string option" where
  "header_of hs k = map_of hs k"

text \<open>\<open>parseXPaymentHeader\<close>: a header that is missing or empty, or does not parse, ends the loop.\<close>

definition payment_asked :: "proxy_world \<Rightarrow> Upstream \<Rightarrow> PaymentDetails option" where
  "payment_asked w u = (if up_status u \<noteq> 402 then None
     else (case header_of (up_headers u) ''x-payment'' of
        None \<Rightarrow> None
      | Some h \<Rightarrow> if h = [] then None else json_payment w h))"

definition requestHash :: "proxy_world \<Rightarrow> ProxyBody \<Rightarrow> string" where
  "requestHash w b = sha256hex w (pb_method b @ [CHR 0x0A] @ target_url b @ [CHR 0x0A] @ (case pb_body b of None \<Rightarrow> [] | Some x \<Rightarrow> x))"

text \<open>The loop: \<open>k\<close> attempts are left, \<open>i\<close> were made. It ends with an early reply or with the last
  upstream answer and the receipts, the latest one last.\<close>

fun proxy_loop :: "proxy_world \<Rightarrow> ProxyBody \<Rightarrow> nat \<Rightarrow> nat \<Rightarrow> PaymentReceipt list \<Rightarrow> Upstream \<Rightarrow> proxy_reply + (Upstream \<times> PaymentReceipt list)" where
  "proxy_loop w b 0 i rs lst = Inr (lst, rs)"
| "proxy_loop w b (Suc k) i rs lst = (case upstream w (request_of b) (Suc i) (if rs = [] then None else Some (last rs)) of
     Inl e \<Rightarrow> Inl (ProxyErr 502 ''upstream_error'' [])
   | Inr u \<Rightarrow> (case payment_asked w u of
        None \<Rightarrow> Inr (u, rs)
      | Some p \<Rightarrow> (case settle_payment w (Suc i) p (pb_agent_did b) (requestHash w b) (of_int (budget_lamports b)) of
           Inl e \<Rightarrow> Inl (ProxyErr 402 ''settlement_failed'' [])
         | Inr r \<Rightarrow> proxy_loop w b k (Suc i) (rs @ [r]) u)))"

definition no_upstream :: Upstream where
  "no_upstream = \<lparr>up_status = 0, up_headers = [], up_body = []\<rparr>"

definition proxy_finish :: "proxy_world \<Rightarrow> Upstream \<Rightarrow> PaymentReceipt list \<Rightarrow> proxy_reply" where
  "proxy_finish w u rs =
     (let done_reply = (\<lambda>rs. if up_status u = 402 then ProxyErr 402 ''upstream returned 402 after retry'' rs
            else ProxyOk (if up_status u = 0 then 502 else up_status u) u rs) in
      if rs \<noteq> [] \<and> 200 \<le> up_status u \<and> up_status u < 300 then
        (case finalize_payment w (last rs) u of
           Inl e \<Rightarrow> ProxyErr 502 ''settlement_finalization_failed'' rs
         | Inr r \<Rightarrow> done_reply (butlast rs @ [r]))
      else done_reply rs)"

definition proxy :: "Config \<Rightarrow> proxy_world \<Rightarrow> ProxyBody option \<Rightarrow> (string, nat) jsmap \<Rightarrow> (string, nat) jsmap \<times> proxy_reply" where
  "proxy cfg w body m = (case body of
     None \<Rightarrow> (m, ProxyErr 400 ''bad_request'' [])
   | Some b \<Rightarrow>
      if \<not> ProxyBodySchema (url_parse w) b then (m, ProxyErr 400 ''bad_request'' [])
      else if budget_lamports b > maxBudgetLamports cfg then (m, ProxyErr 400 ''budget exceeds maxBudgetLamports'' [])
      else if \<not> isTargetAllowed (url_parse w) (target_url b) (allowPattern cfg) (allowList cfg) then (m, ProxyErr 403 ''target_url not in allow-config'' [])
      else if \<not> verifyProxyRequest (pw_decode58 w) (pw_verify w) (canonicalizeProxy b) (pb_signature b) (pb_agent_did b) then (m, ProxyErr 401 ''signature invalid'' [])
      else (case checkRate (pb_agent_did b) (ratePerMin cfg) (ratePerDay cfg) (pw_now w) m of (m1, rate) \<Rightarrow>
        if \<not> rate_allowed rate then (m1, ProxyErr 429 ''rate limit'' [])
        else (case proxy_loop w b (Suc (max402Retries cfg)) 0 [] no_upstream of
            Inl early \<Rightarrow> (m1, early)
          | Inr (u, rs) \<Rightarrow> (m1, proxy_finish w u rs))))"

subsection \<open>Verification endpoints\<close>

record x_payment_payload =
  xp_tx_sig :: "string option"
  xp_task :: "string option"
  xp_task_id_hex :: "string option"
  xp_task_status :: "string option"

record access_grant =
  settled_tx_sig :: string
  g_task :: "string option"
  g_task_id_hex :: "string option"
  g_task_status :: "string option"
  g_slot :: "int option"

datatype verify_reply = Granted access_grant | PaymentRequired string "string option" | VerifyErr nat string

definition or_else :: "'a option \<Rightarrow> 'a option \<Rightarrow> 'a option" where
  "or_else a b = (case a of None \<Rightarrow> b | Some v \<Rightarrow> Some v)"

definition grant_of :: "string \<Rightarrow> x_payment_payload \<Rightarrow> VerificationResult \<Rightarrow> access_grant" where
  "grant_of sig p v = \<lparr>settled_tx_sig = sig, g_task = or_else (v_task v) (xp_task p),
     g_task_id_hex = or_else (v_task_id_hex v) (xp_task_id_hex p), g_task_status = or_else (v_task_status v) (xp_task_status p), g_slot = v_slot v\<rparr>"

text \<open>\<open>payload\<close> is the parsed \<open>x-payment\<close> text, \<open>None\<close> when \<open>JSON.parse\<close> throws.\<close>

definition facilitate_verify :: "(string \<Rightarrow> string option \<Rightarrow> string option \<Rightarrow> VerificationResult) \<Rightarrow> string \<Rightarrow> string \<Rightarrow> x_payment_payload option \<Rightarrow> verify_reply" where
  "facilitate_verify verify x_payment resource_ref payload =
     (if x_payment = [] \<or> resource_ref = [] then VerifyErr 400 ''bad_request''
      else (case payload of
        None \<Rightarrow> VerifyErr 400 ''x_payment is not valid JSON''
      | Some p \<Rightarrow>
         if \<not> truthy (xp_tx_sig p) then VerifyErr 400 ''x_payment missing tx_sig''
         else (let sig = the (xp_tx_sig p); v = verify sig (xp_task p) (xp_task_id_hex p) in
           if v_status v = Confirmed \<or> v_status v = Finalized then Granted (grant_of sig p v)
           else if v_status v = Failed then VerifyErr 409 ''transaction failed''
           else VerifyErr 404 ''transaction not found'')))"

definition demo_paid :: "string option \<Rightarrow> string option \<Rightarrow> (string \<Rightarrow> string option \<Rightarrow> string option \<Rightarrow> VerificationResult) \<Rightarrow> string option \<Rightarrow> x_payment_payload option \<Rightarrow> verify_reply" where
  "demo_paid demoMint demoRecipient verify header payload =
     (if \<not> truthy demoMint \<or> \<not> truthy demoRecipient then VerifyErr 503 ''demo_not_configured''
      else if header = None then PaymentRequired ''missing_x_payment_header'' None
      else (case payload of
        None \<Rightarrow> PaymentRequired ''x_payment_invalid_json'' None
      | Some p \<Rightarrow>
         if \<not> truthy (xp_tx_sig p) then PaymentRequired ''x_payment_missing_tx_sig'' None
         else (let sig = the (xp_tx_sig p); v = verify sig (xp_task p) (xp_task_id_hex p) in
           if v_status v = Confirmed \<or> v_status v = Finalized then Granted (grant_of sig p v)
           else if v_status v = Failed
             then PaymentRequired (''transaction_failed:'' @ (case v_err v of None \<Rightarrow> ''unknown'' | Some e \<Rightarrow> e)) (Some sig)
           else PaymentRequired (''transaction_not_found:'' @ (case v_err v of None \<Rightarrow> ''pending'' | Some e \<Rightarrow> e)) (Some sig))))"

subsection \<open>Lemmas\<close>

lemma matchesPattern_cases:
  "matchesPattern host pattern \<Longrightarrow> pattern = host \<or> (\<exists>tail. pattern = ''*.'' @ tail \<and> (host = tail \<or> (\<exists>sub. host = sub @ ''.'' @ tail)))"
proof -
  assume m: "matchesPattern host pattern"
  have "pattern = ''*.'' @ drop 2 pattern" if "startsWith pattern ''*.''"
    using that append_take_drop_id [of 2 pattern] by (simp add: startsWith_def numeral_2_eq_2)
  with m show ?thesis
    by (auto simp: matchesPattern_def Let_def endsWith_suffix suffix_def split: if_splits)
qed

lemma counter_of_incr: "counter_of (incr k m) k' = (if k' = k then Suc (counter_of m k) else counter_of m k')"
  by (simp add: counter_of_def incr_def map_specs)

lemma keys_differ: "minKey d t \<noteq> dayKey d' t'"
  by (simp add: minKey_def dayKey_def)

lemma checkRate_counter:
  "counter_of (fst (checkRate d pm pd now m)) (minKey d' t') = counter_of m (minKey d' t') + (if minKey d now = minKey d' t' then 1 else 0)"
  "counter_of (fst (checkRate d pm pd now m)) (dayKey d' t') = counter_of m (dayKey d' t') + (if dayKey d now = dayKey d' t' then 1 else 0)"
  using keys_differ [of d now d' t'] keys_differ [of d' t' d now] by (auto simp: checkRate_def Let_def counter_of_incr)

lemma checkRate_allowed:
  "rate_allowed (snd (checkRate d pm pd now m)) \<longleftrightarrow> counter_of m (minKey d now) < pm \<and> counter_of m (dayKey d now) < pd"
  using keys_differ [of d now d now] by (auto simp: checkRate_def Let_def counter_of_incr)

text \<open>A history of rate checks: agent and time of each, and whether it was allowed.\<close>

fun rate_run :: "nat \<Rightarrow> nat \<Rightarrow> (string \<times> nat) list \<Rightarrow> (string, nat) jsmap \<Rightarrow> (string \<times> nat) list" where
  "rate_run pm pd [] m = []"
| "rate_run pm pd (x # xs) m = (case checkRate (fst x) pm pd (snd x) m of (m1, r) \<Rightarrow>
     (if rate_allowed r then [x] else []) @ rate_run pm pd xs m1)"

lemma rate_run_min:
  "length (filter (\<lambda>x. minKey (fst x) (snd x) = minKey d t) (rate_run pm pd xs m)) \<le> pm - counter_of m (minKey d t)"
proof (induction xs arbitrary: m)
  case Nil
  then show ?case by simp
next
  case (Cons x xs)
  from Cons.IH [of "fst (checkRate (fst x) pm pd (snd x) m)"] show ?case
    by (auto simp: case_prod_beta checkRate_counter checkRate_allowed split: if_splits)
qed

lemma rate_run_day:
  "length (filter (\<lambda>x. dayKey (fst x) (snd x) = dayKey d t) (rate_run pm pd xs m)) \<le> pd - counter_of m (dayKey d t)"
proof (induction xs arbitrary: m)
  case Nil
  then show ?case by simp
next
  case (Cons x xs)
  from Cons.IH [of "fst (checkRate (fst x) pm pd (snd x) m)"] show ?case
    by (auto simp: case_prod_beta checkRate_counter checkRate_allowed split: if_splits)
qed

lemma proxy_loop_receipts:
  assumes "proxy_loop w b k i rs u0 = Inr (u, rs')"
  shows "\<exists>new. rs' = rs @ new \<and> length new \<le> k
    \<and> (\<forall>r \<in> set new. \<exists>j p. settle_payment w j p (pb_agent_did b) (requestHash w b) (of_int (budget_lamports b)) = Inr r)"
  using assms
proof (induction k arbitrary: i rs u0)
  case 0
  then show ?case by simp
next
  case (Suc k)
  show ?case
  proof (cases "\<exists>v p r. upstream w (request_of b) (Suc i) (if rs = [] then None else Some (last rs)) = Inr v \<and> payment_asked w v = Some p
      \<and> settle_payment w (Suc i) p (pb_agent_did b) (requestHash w b) (of_int (budget_lamports b)) = Inr r")
    case True
    then obtain v p r where v: "upstream w (request_of b) (Suc i) (if rs = [] then None else Some (last rs)) = Inr v" "payment_asked w v = Some p"
      and r: "settle_payment w (Suc i) p (pb_agent_did b) (requestHash w b) (of_int (budget_lamports b)) = Inr r" by blast
    with Suc.prems have "proxy_loop w b k (Suc i) (rs @ [r]) v = Inr (u, rs')" by simp
    from Suc.IH [OF this] obtain new where n: "rs' = (rs @ [r]) @ new" "length new \<le> k"
      "\<forall>r \<in> set new. \<exists>j p. settle_payment w j p (pb_agent_did b) (requestHash w b) (of_int (budget_lamports b)) = Inr r" by blast
    with r have "\<forall>r \<in> set (r # new). \<exists>j p. settle_payment w j p (pb_agent_did b) (requestHash w b) (of_int (budget_lamports b)) = Inr r"
      unfolding list.set by blast
    with n show ?thesis by (intro exI [of _ "r # new"]) simp
  next
    case False
    with Suc.prems have "rs' = rs" by (auto split: sum.splits option.splits)
    then show ?thesis by simp
  qed
qed

lemma proxy_loop_exhausted:
  assumes "proxy_loop w b k i rs u0 = Inr (u, rs')" and "length rs' = length rs + k" and "0 < k"
  shows "up_status u = 402"
  using assms
proof (induction k arbitrary: i rs u0)
  case 0
  then show ?case by simp
next
  case (Suc k)
  from Suc.prems obtain v where v: "upstream w (request_of b) (Suc i) (if rs = [] then None else Some (last rs)) = Inr v"
    by (auto split: sum.splits)
  with Suc.prems(1,2) obtain p r where p: "payment_asked w v = Some p"
    and r: "settle_payment w (Suc i) p (pb_agent_did b) (requestHash w b) (of_int (budget_lamports b)) = Inr r"
    by (auto split: sum.splits option.splits)
  with v Suc.prems(1) have l: "proxy_loop w b k (Suc i) (rs @ [r]) v = Inr (u, rs')" by simp
  show ?case
  proof (cases "k = 0")
    case True
    with l p show ?thesis by (auto simp: payment_asked_def split: if_splits)
  next
    case False
    with Suc.IH [OF l] Suc.prems(2) show ?thesis by simp
  qed
qed

lemma sum_amounts: "\<forall>r \<in> set rs. rc_amount r \<le> n \<Longrightarrow> sum_list (map rc_amount rs) \<le> of_nat (length rs) * n"
  by (induction rs) (auto simp: algebra_simps)

text \<open>What the client is told it paid.\<close>

fun reply_receipts :: "proxy_reply \<Rightarrow> PaymentReceipt list" where
  "reply_receipts (ProxyErr c e rs) = rs"
| "reply_receipts (ProxyOk c u rs) = rs"

lemma proxy_finish_receipts:
  "reply_receipts (proxy_finish w u rs) = rs
    \<or> (\<exists>r. rs \<noteq> [] \<and> finalize_payment w (last rs) u = Inr r \<and> reply_receipts (proxy_finish w u rs) = butlast rs @ [r])"
  by (auto simp: proxy_finish_def Let_def split: sum.splits)

subsection \<open>The settlement service the proxy relies on\<close>

locale settlement_service =
  fixes settle :: "nat \<Rightarrow> PaymentDetails \<Rightarrow> string \<Rightarrow> string \<Rightarrow> rat \<Rightarrow> PaymentReceipt js"
    and finalize :: "PaymentReceipt \<Rightarrow> Upstream \<Rightarrow> PaymentReceipt js"
  assumes settle_budget: "settle j p d h budget = Inr r \<Longrightarrow> rc_amount r \<le> budget"
    and finalize_amount: "finalize r u = Inr r' \<Longrightarrow> rc_amount r' = rc_amount r"
begin

lemma finish_amounts:
  assumes "finalize_payment w = finalize"
  shows "map rc_amount (reply_receipts (proxy_finish w u rs)) = map rc_amount rs"
  using proxy_finish_receipts [of w u rs]
proof
  assume "\<exists>r. rs \<noteq> [] \<and> finalize_payment w (last rs) u = Inr r \<and> reply_receipts (proxy_finish w u rs) = butlast rs @ [r]"
  then obtain r where r: "rs \<noteq> []" "finalize_payment w (last rs) u = Inr r" "reply_receipts (proxy_finish w u rs) = butlast rs @ [r]" by blast
  with finalize_amount assms have a: "rc_amount r = rc_amount (last rs)" by simp
  have "map rc_amount (reply_receipts (proxy_finish w u rs)) = map rc_amount (butlast rs @ [last rs])"
    unfolding r(3) map_append list.map a ..
  also have "butlast rs @ [last rs] = rs" using r(1) by (rule append_butlast_last_id)
  finally show ?thesis .
qed simp

lemma loop_spend:
  assumes "settle_payment w = settle" and "proxy_loop w b k 0 [] u0 = Inr (u, rs)"
  shows "length rs \<le> k" and "\<forall>r \<in> set rs. rc_amount r \<le> of_int (budget_lamports b)"
  using proxy_loop_receipts [OF assms(2)] assms(1) settle_budget by auto

lemma proxy_spend:
  assumes "settle_payment w = settle" and "finalize_payment w = finalize" and "proxy cfg w (Some b) m = (m', rep)"
  shows "length (reply_receipts rep) \<le> Suc (max402Retries cfg)
    \<and> (\<forall>x \<in> set (map rc_amount (reply_receipts rep)). x \<le> of_int (budget_lamports b))"
proof (cases "\<exists>u rs. proxy_loop w b (Suc (max402Retries cfg)) 0 [] no_upstream = Inr (u, rs) \<and> rep = proxy_finish w u rs")
  case True
  then obtain u rs where l: "proxy_loop w b (Suc (max402Retries cfg)) 0 [] no_upstream = Inr (u, rs)" and rep: "rep = proxy_finish w u rs" by blast
  have e: "map rc_amount (reply_receipts rep) = map rc_amount rs" unfolding rep by (rule finish_amounts [OF assms(2)])
  then have "length (reply_receipts rep) = length rs" by (metis length_map)
  with loop_spend [OF assms(1) l] e show ?thesis by auto
next
  case False
  have early: "proxy_loop w b k i rs u0 = Inl early \<Longrightarrow> reply_receipts early = []" for k i rs u0 early
    by (induction k arbitrary: i rs u0) (auto split: sum.splits option.splits)
  with False assms(3) have "reply_receipts rep = []"
    by (auto simp: proxy_def case_prod_beta simp del: proxy_loop.simps split: if_splits sum.splits prod.splits)
  then show ?thesis by simp
qed

end

text \<open>The gateway's own wiring (\<open>build\<close> in \<open>server.ts\<close>): both calls go to the task market.\<close>

definition wired :: "(PaymentDetails \<Rightarrow> string \<Rightarrow> string \<Rightarrow> string) \<Rightarrow> (nat \<Rightarrow> string) \<Rightarrow> SettlementConfig \<Rightarrow> (nat \<Rightarrow> chain) \<Rightarrow> proxy_world \<Rightarrow> proxy_world" where
  "wired digest addr scfg ch w = w\<lparr>
     settle_payment := (\<lambda>j p d h budget. settleViaTaskMarket digest (addr j) scfg (ch j) p d h budget),
     finalize_payment := (\<lambda>r u. finalizeManagedSettlement scfg (ch 0) r u)\<rparr>"

interpretation market: settlement_service
  "\<lambda>j p d h budget. settleViaTaskMarket digest (addr j) scfg (ch j) p d h budget"
  "\<lambda>r u. finalizeManagedSettlement scfg (ch 0) r u" for digest addr scfg ch
  by unfold_locales (auto dest: settle_amount finalize_keeps_amount)

subsection \<open>Properties\<close>

definition paying_upstream :: Upstream where
  "paying_upstream = \<lparr>up_status = 402, up_headers = [(''x-payment'', ''{}'')], up_body = []\<rparr>"

text \<open>An agent's request, and an upstream that never stops asking for payment.\<close>

definition sample_body :: ProxyBody where
  "sample_body = \<lparr>target_url = ''https://api.saep.example/x'', pb_method = ''GET'', pb_headers = [], pb_body = None, body_hash = None,
     budget_lamports = 100, pb_mint = replicate 32 (CHR ''m''), pb_nonce = ''n'', pb_agent_did = replicate 32 (CHR ''d''),
     pb_signature = replicate 64 (CHR ''s'')\<rparr>"

definition sample_pw :: proxy_world where
  "sample_pw = \<lparr>pw_now = 0, url_parse = (\<lambda>_. Some \<lparr>protocol = ''https:'', hostname = ''api.saep.example''\<rparr>),
     pw_decode58 = (\<lambda>s. Some (replicate (length s) 0)), pw_verify = (\<lambda>_ _ _. Inr True),
     json_payment = (\<lambda>_. Some sample_payment), sha256hex = (\<lambda>s. s), upstream = (\<lambda>_ _ _. Inr paying_upstream),
     settle_payment = (\<lambda>_ _ _ _ _. Inl []), finalize_payment = (\<lambda>r _. Inr r)\<rparr>"

definition sample_config :: Config where
  "sample_config = \<lparr>allowPattern = ''*.saep.example'', allowList = [], ratePerMin = 100, ratePerDay = 10000,
     maxBudgetLamports = 1000000000, max402Retries = 1\<rparr>"

definition sample_wired :: proxy_world where
  "sample_wired = wired (\<lambda>_ _ _. []) (\<lambda>_. ''T'') sample_cfg (\<lambda>_. sample_chain) sample_pw"

lemma sample_settle: "settle_payment sample_wired j sample_payment d h 100 = Inr sample_receipt"
proof -
  have "settleViaTaskMarket (\<lambda>_ _ _. []) ''T'' sample_cfg sample_chain sample_payment d h 100 = Inr sample_receipt"
    by (simp add: settleViaTaskMarket_def settle_checks_def bind_js_def require_def present_def decodeBase58Key_def
        sample_cfg_def sample_chain_def sample_payment_def sample_receipt_def sample_task_def deadlineOffset_def sendInstructions_def
        numeral_eq_Suc firstCapabilityBit_def) (code_simp)
  then show ?thesis by (simp add: sample_wired_def wired_def)
qed

lemma sample_asks: "payment_asked sample_wired paying_upstream = Some sample_payment" "upstream sample_wired q i r = Inr paying_upstream"
  by (simp_all add: payment_asked_def header_of_def sample_wired_def wired_def sample_pw_def paying_upstream_def)

lemma sample_loop: "proxy_loop sample_wired sample_body 2 0 [] no_upstream = Inr (paying_upstream, [sample_receipt, sample_receipt])"
  using sample_settle by (simp add: numeral_2_eq_2 sample_asks sample_body_def)

lemma sample_proxy:
  "proxy sample_config sample_wired (Some sample_body) []
    = (fst (checkRate (pb_agent_did sample_body) 100 10000 0 []), ProxyErr 402 ''upstream returned 402 after retry'' [sample_receipt, sample_receipt])"
proof -
  have "ProxyBodySchema (url_parse sample_wired) sample_body"
    by (simp add: ProxyBodySchema_def sample_wired_def wired_def sample_pw_def sample_body_def)
  moreover have "isTargetAllowed (url_parse sample_wired) (target_url sample_body) ''*.saep.example'' []"
    by code_simp
  moreover have "verifyProxyRequest (pw_decode58 sample_wired) (pw_verify sample_wired) c (pb_signature sample_body) (pb_agent_did sample_body)" for c
    by (simp add: verifyProxyRequest_def sample_wired_def wired_def sample_pw_def sample_body_def)
  moreover have "rate_allowed (snd (checkRate (pb_agent_did sample_body) 100 10000 0 []))"
    by (simp add: checkRate_allowed counter_of_def map_get_def)
  moreover have "budget_lamports sample_body = 100" "pw_now sample_wired = 0"
    by (simp_all add: sample_body_def sample_wired_def wired_def sample_pw_def)
  moreover have "proxy_finish sample_wired paying_upstream rs = ProxyErr 402 ''upstream returned 402 after retry'' rs" for rs
    by (simp add: proxy_finish_def Let_def paying_upstream_def)
  ultimately show ?thesis
    using sample_loop by (simp add: proxy_def sample_config_def case_prod_beta numeral_2_eq_2 del: proxy_loop.simps)
qed

text \<open>
  Only configured targets are reached: an allowed target has a host on the explicit list, or it is
  an \<open>https\<close> URL whose host is no private address and equals the pattern, or for a pattern with a
  leading \<open>*.\<close> equals the rest of it or is a subdomain of it, cut at a dot.
\<close>

theorem allowed_target_matches_config:
  assumes "isTargetAllowed parse target pattern allow"
  shows "\<exists>url. parse target = Some url \<and> (hostname url \<in> set allow
    \<or> protocol url = ''https:'' \<and> \<not> isPrivateIp (hostname url)
      \<and> (pattern = hostname url \<or> (\<exists>tail. pattern = ''*.'' @ tail \<and> (hostname url = tail \<or> (\<exists>sub. hostname url = sub @ ''.'' @ tail)))))"
  using assms matchesPattern_cases [of _ pattern]
  by (auto simp: isTargetAllowed_def list_ex_iff split: option.splits if_splits)

theorem allowed_target_matches_config_witness:
  "isTargetAllowed (\<lambda>_. Some \<lparr>protocol = ''https:'', hostname = ''api.saep.example''\<rparr>) ''u'' ''*.saep.example'' []
    \<and> protocol \<lparr>protocol = ''https:'', hostname = ''api.saep.example''\<rparr> = ''https:''
    \<and> \<not> isTargetAllowed (\<lambda>_. Some \<lparr>protocol = ''https:'', hostname = ''evilsaep.example''\<rparr>) ''u'' ''*.saep.example'' []"
proof -
  have a: "isTargetAllowed (\<lambda>_. Some \<lparr>protocol = ''https:'', hostname = ''api.saep.example''\<rparr>) ''u'' ''*.saep.example'' []"
    and n: "\<not> isTargetAllowed (\<lambda>_. Some \<lparr>protocol = ''https:'', hostname = ''evilsaep.example''\<rparr>) ''u'' ''*.saep.example'' []"
    by code_simp+
  from allowed_target_matches_config [OF a] a n show ?thesis by simp
qed



text \<open>
  The budget is checked per payment, not per request: a request signed with a budget of 100 pays
  140 to an upstream that asks for payment twice, and is still answered 402.
\<close>

theorem budget_not_cumulative:
  "\<exists>m rs. proxy sample_config sample_wired (Some sample_body) [] = (m, ProxyErr 402 ''upstream returned 402 after retry'' rs)
    \<and> budget_lamports sample_body = 100 \<and> sum_list (map rc_amount rs) = 140"
  unfolding sample_proxy by (simp add: sample_body_def sample_receipt_def)

text \<open>
  The last payment buys nothing: when the loop has paid as often as it may, its last upstream
  answer is a 402, so the final receipt is never presented. With \<open>max402Retries = 0\<close> the gateway pays
  without ever repeating the request.
\<close>

theorem last_payment_never_presented:
  assumes "proxy_loop w b (Suc (max402Retries cfg)) 0 [] no_upstream = Inr (u, rs)" and "length rs = Suc (max402Retries cfg)"
  shows "up_status u = 402 \<and> proxy_finish w u rs = ProxyErr 402 ''upstream returned 402 after retry'' rs"
proof -
  have "up_status u = 402" using proxy_loop_exhausted [OF assms(1)] assms(2) by simp
  then show ?thesis by (simp add: proxy_finish_def Let_def)
qed

theorem last_payment_never_presented_witness:
  "proxy_finish sample_wired paying_upstream [sample_receipt, sample_receipt]
    = ProxyErr 402 ''upstream returned 402 after retry'' [sample_receipt, sample_receipt]"
  using last_payment_never_presented [of sample_wired sample_body sample_config paying_upstream "[sample_receipt, sample_receipt]"] sample_loop
  by (simp add: sample_config_def numeral_2_eq_2 del: proxy_loop.simps)

text \<open>
  The rate windows hold: along any history of requests, from empty counters, at most \<open>perMin\<close> requests
  of an agent are allowed within a minute and at most \<open>perDay\<close> within a day.
\<close>

theorem rate_windows_hold:
  "length (filter (\<lambda>x. fst x = d \<and> snd x div 60000 = t div 60000) (rate_run pm pd xs [])) \<le> pm
    \<and> length (filter (\<lambda>x. fst x = d \<and> snd x div 86400000 = t div 86400000) (rate_run pm pd xs [])) \<le> pd"
proof -
  have "length (filter (\<lambda>x. fst x = d \<and> snd x div 60000 = t div 60000) ys)
      \<le> length (filter (\<lambda>x. minKey (fst x) (snd x) = minKey d t) ys)" for ys
    by (induction ys) (auto simp: minKey_def)
  moreover have "length (filter (\<lambda>x. fst x = d \<and> snd x div 86400000 = t div 86400000) ys)
      \<le> length (filter (\<lambda>x. dayKey (fst x) (snd x) = dayKey d t) ys)" for ys
    by (induction ys) (auto simp: dayKey_def)
  ultimately show ?thesis
    using rate_run_min [of d t pm pd xs "[]"] rate_run_day [of d t pm pd xs "[]"] order_trans by fastforce
qed

text \<open>
  Any confirmed transaction buys access. The paid demo resource is granted for every transaction
  signature the RPC node knows without an error: amount, mint, recipient and earlier use of the
  transaction are not looked at.
\<close>

theorem any_confirmed_transaction_buys_access:
  assumes "truthy mint" and "truthy recipient" and "header \<noteq> None" and "xp_tx_sig p = Some sig" and "sig \<noteq> []" and "xp_task p = None"
    and "rpc sig = Inr (RpcTx slot None)"
  shows "\<exists>g. demo_paid mint recipient (verifySettlement cfg ch rpc) header (Some p) = Granted g \<and> settled_tx_sig g = sig"
  using assms by (simp add: demo_paid_def Let_def verifySettlement_def grant_of_def)

theorem any_confirmed_transaction_buys_access_witness:
  "\<exists>g. demo_paid (Some ''USDC'') (Some ''R'') (verifySettlement sample_cfg sample_chain (\<lambda>_. Inr (RpcTx (Some 7) None))) (Some ''{}'')
      (Some \<lparr>xp_tx_sig = Some ''unrelated'', xp_task = None, xp_task_id_hex = None, xp_task_status = None\<rparr>) = Granted g
    \<and> settled_tx_sig g = ''unrelated''"
  by (rule any_confirmed_transaction_buys_access) simp_all

text \<open>
  The text an agent signs for a proxied request determines target, method, budget, mint, body hash
  and nonce.
\<close>

theorem proxy_signature_binds_request:
  assumes "canonicalizeProxy b = canonicalizeProxy c"
  shows "target_url b = target_url c \<and> pb_method b = pb_method c \<and> budget_lamports b = budget_lamports c
    \<and> pb_mint b = pb_mint c \<and> body_hash b = body_hash c \<and> pb_nonce b = pb_nonce c"
  using assms by (auto simp: canonicalizeProxy_def json_obj_inj split: option.splits)

theorem proxy_signature_binds_request_witness:
  "pb_nonce (sample_body\<lparr>pb_body := Some ''other''\<rparr>) = pb_nonce sample_body"
proof -
  have "canonicalizeProxy (sample_body\<lparr>pb_body := Some ''other''\<rparr>) = canonicalizeProxy sample_body" by (simp add: canonicalizeProxy_def)
  from proxy_signature_binds_request [OF this] show ?thesis by simp
qed

end
