(* ===== verification/Merkle_Tree.thy ===== *)
theory Merkle_Tree
  imports Saep_Prelude
begin

text \<open>
  The Merkle tree of the SDK (\<open>packages/sdk/src/merkle/index.ts\<close>), from which governance weights
  and fee claims are proved on chain. Pairs are hashed in byte order; an odd node moves up unchanged.
  SHA-256 is the parameter \<open>sha\<close>.
\<close>

subsection \<open>Code\<close>

text \<open>\<open>compare\<close> walks over its first argument; reading past the end of the second gives \<open>undefined\<close>,
  which compares neither less nor greater.\<close>

fun compare_bytes :: "bytes \<Rightarrow> bytes \<Rightarrow> int" where
  "compare_bytes [] b = 0"
| "compare_bytes (x # a) [] = compare_bytes a []"
| "compare_bytes (x # a) (y # b) = (if x < y then -1 else if x > y then 1 else compare_bytes a b)"

definition hash :: "(bytes \<Rightarrow> bytes) \<Rightarrow> bytes \<Rightarrow> bytes \<Rightarrow> bytes" where
  "hash sha a b = (if compare_bytes a b \<le> 0 then sha (a @ b) else sha (b @ a))"

text \<open>Little-endian integers; \<open>setBigUint64\<close> takes its argument modulo \<open>2^64\<close>.\<close>

fun le_bytes :: "nat \<Rightarrow> nat \<Rightarrow> bytes" where
  "le_bytes 0 v = []"
| "le_bytes (Suc w) v = of_nat (v mod 256) # le_bytes w (v div 256)"

definition u64Le :: "nat \<Rightarrow> bytes" where
  "u64Le v = le_bytes 8 (v mod 2 ^ 64)"

definition u128Le :: "nat \<Rightarrow> bytes" where
  "u128Le v = le_bytes 8 (v mod 2 ^ 64) @ le_bytes 8 (v div 2 ^ 64 mod 2 ^ 64)"

fun next_layer :: "(bytes \<Rightarrow> bytes) \<Rightarrow> bytes list \<Rightarrow> bytes list" where
  "next_layer sha [] = []"
| "next_layer sha [x] = [x]"
| "next_layer sha (x # y # zs) = hash sha x y # next_layer sha zs"

lemma length_next_layer: "length (next_layer sha xs) = (length xs + 1) div 2"
  by (induction sha xs rule: next_layer.induct) auto

function build_layers :: "(bytes \<Rightarrow> bytes) \<Rightarrow> bytes list \<Rightarrow> bytes list list" where
  "build_layers sha layer = (if length layer \<le> 1 then [layer] else layer # build_layers sha (next_layer sha layer))"
  by auto
termination
  by (relation "measure (\<lambda>p. length (snd p))") (auto simp: length_next_layer)

declare build_layers.simps [simp del]

definition MerkleTree :: "(bytes \<Rightarrow> bytes) \<Rightarrow> bytes list \<Rightarrow> bytes list list" where
  "MerkleTree sha leaves = (if leaves = [] then [[replicate 32 0]] else build_layers sha leaves)"

definition root :: "bytes list list \<Rightarrow> bytes" where
  "root layers = (last layers) ! 0"

fun getProof :: "bytes list list \<Rightarrow> nat \<Rightarrow> bytes list" where
  "getProof [] idx = []"
| "getProof [t] idx = []"
| "getProof (layer # l # ls) idx =
     (let sibling = (if idx mod 2 = 0 then idx + 1 else idx - 1) in
      (if sibling < length layer then [layer ! sibling] else []) @ getProof (l # ls) (idx div 2))"

definition verify_proof :: "(bytes \<Rightarrow> bytes) \<Rightarrow> bytes \<Rightarrow> bytes \<Rightarrow> bytes list \<Rightarrow> bool" where
  "verify_proof sha rt leaf proof = (compare_bytes (foldl (hash sha) leaf proof) rt = 0)"

definition governanceLeaf :: "(bytes \<Rightarrow> bytes) \<Rightarrow> bytes \<Rightarrow> nat \<Rightarrow> bytes" where
  "governanceLeaf sha voter weight = sha (voter @ u128Le weight)"

definition feeClaimLeaf :: "(bytes \<Rightarrow> bytes) \<Rightarrow> bytes \<Rightarrow> nat \<Rightarrow> nat \<Rightarrow> bytes" where
  "feeClaimLeaf sha staker amount epochId = sha (staker @ u64Le amount @ u64Le epochId)"

definition hexDigit :: "nat \<Rightarrow> char" where
  "hexDigit n = (if n < 10 then char_of (48 + n) else char_of (87 + n))"

definition toHex :: "bytes \<Rightarrow> string" where
  "toHex bs = concat (map (\<lambda>b. [hexDigit (unat b div 16), hexDigit (unat b mod 16)]) bs)"

text \<open>\<open>hex.match(/.{2}/g)\<close> cuts the string into pairs that hold no line terminator and is \<open>null\<close>, so that the
  call throws, when there is none; \<open>parseInt(h, 16)\<close> skips white space and a sign and stops at the first
  character that is no digit; \<open>Uint8Array.from\<close> turns \<open>NaN\<close> into 0 and wraps. The prefix \<open>0x\<close> leaves
  nothing to parse, which gives 0 as well.\<close>

definition hexVal :: "char \<Rightarrow> nat option" where
  "hexVal c = (let n = (of_char c :: nat) in
     if 48 \<le> n \<and> n < 58 then Some (n - 48) else if 65 \<le> n \<and> n < 71 then Some (n - 55)
     else if 97 \<le> n \<and> n < 103 then Some (n - 87) else None)"

definition parseHexPair :: "char \<Rightarrow> char \<Rightarrow> 8 word" where
  "parseHexPair a b = (case (hexVal a, hexVal b) of
     (Some x, Some y) \<Rightarrow> of_nat (16 * x + y)
   | (Some x, None) \<Rightarrow> of_nat x
   | (None, None) \<Rightarrow> 0
   | (None, Some y) \<Rightarrow> (if (of_char a :: nat) \<in> {9, 11, 12, 32, 43, 160} then of_nat y
                       else if (of_char a :: nat) = 45 then - of_nat y else 0))"

definition lineEnd :: "char \<Rightarrow> bool" where
  "lineEnd c = ((of_char c :: nat) \<in> {10, 13})"

fun hexPairs :: "string \<Rightarrow> bytes" where
  "hexPairs (a # b # s) = (if lineEnd a \<or> lineEnd b then hexPairs (b # s) else parseHexPair a b # hexPairs s)"
| "hexPairs s = []"

definition fromHex :: "string \<Rightarrow> bytes js" where
  "fromHex s = (let ps = hexPairs s in if ps = [] then Inl ''Cannot read properties of null'' else Inr ps)"

subsection \<open>Comparing and hashing\<close>

lemma compare_refl [simp]: "compare_bytes a a = 0"
  by (induction a) auto

lemma compare_zero: "length a = length b \<Longrightarrow> compare_bytes a b = 0 \<Longrightarrow> a = b"
  by (induction a b rule: list_induct2) (auto split: if_splits)

lemma compare_swap: "length a = length b \<Longrightarrow> compare_bytes b a = - compare_bytes a b"
  by (induction a b rule: list_induct2) (auto split: if_splits)

lemma hash_commute:
  assumes "length a = length b"
  shows "hash sha a b = hash sha b a"
proof (cases "compare_bytes a b = 0")
  case True
  with assms have "a = b" by (rule compare_zero)
  then show ?thesis by simp
next
  case False
  with compare_swap [OF assms] show ?thesis by (auto simp: hash_def)
qed

lemma hash_cases: "hash sha a b = sha (a @ b) \<or> hash sha a b = sha (b @ a)"
  by (simp add: hash_def)

subsection \<open>Layers\<close>

definition nodes_ok :: "bytes list \<Rightarrow> bool" where
  "nodes_ok xs = (\<forall>x \<in> set xs. length x = 32)"

lemma nodes_ok_next: "(\<And>x. length (sha x) = 32) \<Longrightarrow> nodes_ok xs \<Longrightarrow> nodes_ok (next_layer sha xs)"
  by (induction sha xs rule: next_layer.induct) (auto simp: nodes_ok_def hash_def)

lemma next_layer_nth:
  assumes "nodes_ok xs" and "i < length xs"
  shows "next_layer sha xs ! (i div 2) =
    (let j = (if i mod 2 = 0 then i + 1 else i - 1) in if j < length xs then hash sha (xs ! i) (xs ! j) else xs ! i)"
  using assms
proof (induction sha xs arbitrary: i rule: next_layer.induct)
  case (3 sha x y zs)
  consider "i = 0" | "i = 1" | k where "i = Suc (Suc k)" by (metis One_nat_def not0_implies_Suc)
  then show ?case
  proof cases
    case 3
    have "nodes_ok zs" "k < length zs" using "3.prems" 3 by (auto simp: nodes_ok_def)
    from "3.IH" [OF this] show ?thesis by (cases "k mod 2 = 0") (auto simp: 3 Let_def nth_Cons')
  next
    case 2
    have "hash sha x y = hash sha y x" using "3.prems" by (intro hash_commute) (simp add: nodes_ok_def)
    then show ?thesis using 2 by simp
  qed simp
qed (auto simp: Let_def)

lemma build_layers_hd: "build_layers sha xs = xs # tl (build_layers sha xs)"
  by (subst (1 2) build_layers.simps) simp

lemma getProof_step:
  assumes "1 < length xs"
  shows "getProof (build_layers sha xs) i =
    (let j = (if i mod 2 = 0 then i + 1 else i - 1) in if j < length xs then [xs ! j] else [])
      @ getProof (build_layers sha (next_layer sha xs)) (i div 2)"
proof -
  obtain l ls where l: "build_layers sha (next_layer sha xs) = l # ls" using build_layers_hd by blast
  have "build_layers sha xs = xs # l # ls" using assms l by (simp add: build_layers.simps [of sha xs])
  then show ?thesis by (simp add: Let_def l)
qed

lemma root_step: "1 < length xs \<Longrightarrow> root (build_layers sha xs) = root (build_layers sha (next_layer sha xs))"
  using build_layers_hd [of sha "next_layer sha xs"]
  by (simp add: root_def build_layers.simps [of sha xs]) (metis list.distinct(1))

lemma path_reaches_root:
  assumes sha: "\<And>x. length (sha x) = 32"
  shows "nodes_ok xs \<Longrightarrow> i < length xs \<Longrightarrow> foldl (hash sha) (xs ! i) (getProof (build_layers sha xs) i) = root (build_layers sha xs)"
proof (induction "length xs" arbitrary: xs i rule: less_induct)
  case less
  show ?case
  proof (cases "1 < length xs")
    case False
    with less.prems have "i = 0" "length xs = 1" by auto
    then show ?thesis by (simp add: build_layers.simps root_def)
  next
    case True
    let ?ys = "next_layer sha xs" and ?j = "if i mod 2 = 0 then i + 1 else i - 1"
    have "foldl (hash sha) (xs ! i) (if ?j < length xs then [xs ! ?j] else []) = ?ys ! (i div 2)"
      using next_layer_nth [OF less.prems, of sha] by (simp add: Let_def split: if_splits)
    then have "foldl (hash sha) (xs ! i) (getProof (build_layers sha xs) i)
        = foldl (hash sha) (?ys ! (i div 2)) (getProof (build_layers sha ?ys) (i div 2))"
      by (simp only: getProof_step [OF True] Let_def foldl_append)
    also have "\<dots> = root (build_layers sha ?ys)"
      using True less.prems by (intro less.hyps nodes_ok_next sha) (auto simp: length_next_layer)
    finally show ?thesis by (simp add: root_step [OF True])
  qed
qed

subsection \<open>What is hashed\<close>

definition ordered :: "bytes \<Rightarrow> bytes \<Rightarrow> bytes" where
  "ordered a b = (if compare_bytes a b \<le> 0 then a @ b else b @ a)"

fun pair_inputs :: "bytes list \<Rightarrow> bytes list" where
  "pair_inputs (x # y # zs) = ordered x y # pair_inputs zs"
| "pair_inputs xs = []"

definition tree_inputs :: "(bytes \<Rightarrow> bytes) \<Rightarrow> bytes list \<Rightarrow> bytes list" where
  "tree_inputs sha xs = concat (map pair_inputs (build_layers sha xs))"

fun path_inputs :: "(bytes \<Rightarrow> bytes) \<Rightarrow> bytes \<Rightarrow> bytes list \<Rightarrow> bytes list" where
  "path_inputs sha c [] = []"
| "path_inputs sha c (p # ps) = ordered c p # path_inputs sha (hash sha c p) ps"

definition nodes :: "(bytes \<Rightarrow> bytes) \<Rightarrow> bytes list \<Rightarrow> bytes set" where
  "nodes sha xs = \<Union> (set ` set (build_layers sha xs))"

lemma hash_ordered: "hash sha a b = sha (ordered a b)"
  by (simp add: hash_def ordered_def)

lemma ordered_split:
  assumes "ordered a b = ordered c p" and "length a = 32" "length b = 32" "length c = 32" "length p = 32"
  shows "c = a \<or> c = b"
  using assms by (auto simp: ordered_def split: if_splits)

lemma length_ordered: "length a = 32 \<Longrightarrow> length b = 32 \<Longrightarrow> length (ordered a b) = 64"
  by (simp add: ordered_def)

lemma next_layer_node:
  "n \<in> set (next_layer sha xs) \<Longrightarrow> n \<in> set xs \<or> (\<exists>a \<in> set xs. \<exists>b \<in> set xs. n = sha (ordered a b) \<and> ordered a b \<in> set (pair_inputs xs))"
  by (induction sha xs rule: next_layer.induct) (auto simp: hash_ordered)

lemma nodes_unfold: "nodes sha xs = set xs \<union> (if length xs \<le> 1 then {} else nodes sha (next_layer sha xs))"
  by (simp add: nodes_def build_layers.simps [of sha xs])

lemma tree_inputs_unfold: "set (tree_inputs sha xs) = set (pair_inputs xs) \<union> (if length xs \<le> 1 then {} else set (tree_inputs sha (next_layer sha xs)))"
  by (cases "length xs \<le> 1") (simp_all add: tree_inputs_def build_layers.simps [of sha xs])

lemma node_cases:
  "n \<in> nodes sha xs \<Longrightarrow> n \<in> set xs \<or> (\<exists>a \<in> nodes sha xs. \<exists>b \<in> nodes sha xs. n = sha (ordered a b) \<and> ordered a b \<in> set (tree_inputs sha xs))"
proof (induction "length xs" arbitrary: xs rule: less_induct)
  case less
  show ?case
  proof (cases "length xs \<le> 1")
    case True
    with less.prems show ?thesis by (simp add: nodes_unfold [of sha xs])
  next
    case False
    let ?ys = "next_layer sha xs"
    have sub: "nodes sha ?ys \<subseteq> nodes sha xs" "set (tree_inputs sha ?ys) \<subseteq> set (tree_inputs sha xs)"
        "set xs \<subseteq> nodes sha xs" "set (pair_inputs xs) \<subseteq> set (tree_inputs sha xs)"
      using False nodes_unfold [of sha xs] tree_inputs_unfold [of sha xs] by auto
    from less.prems False consider "n \<in> set xs" | "n \<in> nodes sha ?ys" by (auto simp: nodes_unfold [of sha xs])
    then show ?thesis
    proof cases
      case 2
      have "length ?ys < length xs" using False by (auto simp: length_next_layer)
      from less.hyps [OF this 2] next_layer_node [of n sha xs] sub show ?thesis by blast
    qed blast
  qed
qed

lemma nodes_length: "(\<And>x. length (sha x) = 32) \<Longrightarrow> nodes_ok xs \<Longrightarrow> n \<in> nodes sha xs \<Longrightarrow> length n = 32"
  using node_cases [of n sha xs] by (auto simp: nodes_ok_def)

lemma root_node: "xs \<noteq> [] \<Longrightarrow> root (build_layers sha xs) \<in> nodes sha xs"
proof (induction "length xs" arbitrary: xs rule: less_induct)
  case less
  show ?case
  proof (cases "length xs \<le> 1")
    case True
    with less.prems show ?thesis by (simp add: root_def nodes_def build_layers.simps)
  next
    case False
    then have l: "1 < length xs" by simp
    have "length (next_layer sha xs) < length xs" using False by (auto simp: length_next_layer)
    moreover have "next_layer sha xs \<noteq> []" using l by (cases xs rule: pair_inputs.cases) auto
    ultimately have "root (build_layers sha (next_layer sha xs)) \<in> nodes sha (next_layer sha xs)" by (rule less.hyps)
    with False show ?thesis by (simp add: root_step [OF l] nodes_unfold [of sha xs])
  qed
qed

lemma getProof_nodes: "p \<in> set (getProof layers i) \<Longrightarrow> \<exists>l \<in> set layers. p \<in> set l"
  by (induction layers i rule: getProof.induct) (fastforce simp: Let_def split: if_splits)+

lemma tree_lengths:
  assumes "\<And>x. length (sha x) = 32" and "nodes_ok xs" and "xs \<noteq> []"
  shows "length (root (MerkleTree sha xs)) = 32" and "\<forall>p \<in> set (getProof (MerkleTree sha xs) i). length p = 32"
proof -
  show "length (root (MerkleTree sha xs)) = 32"
    using nodes_length [OF assms(1,2) root_node [OF assms(3)]] assms(3) by (simp add: MerkleTree_def)
  show "\<forall>p \<in> set (getProof (MerkleTree sha xs) i). length p = 32"
    using getProof_nodes [of _ "build_layers sha xs" i] nodes_length [where sha = sha, OF assms(1,2)] assms(3)
    by (auto simp: MerkleTree_def nodes_def)
qed

text \<open>Going down a verified path from the root stays inside the tree, unless hashing collides.\<close>

lemma path_stays_in_tree:
  assumes sha: "\<And>x. length (sha x) = 32" and xs: "nodes_ok xs"
    and leaves: "\<And>x. x \<in> set xs \<Longrightarrow> \<exists>d \<in> D. x = sha d" and D: "\<And>d. d \<in> D \<Longrightarrow> length d \<noteq> 64"
    and inj: "inj_on sha (set (tree_inputs sha xs) \<union> set (path_inputs sha c ps) \<union> D)"
    and len: "length c = 32" "\<forall>p \<in> set ps. length p = 32"
    and final: "foldl (hash sha) c ps \<in> nodes sha xs"
  shows "c \<in> nodes sha xs"
  using inj len final
proof (induction ps arbitrary: c)
  case Nil
  then show ?case by simp
next
  case (Cons p ps)
  have up: "sha (ordered c p) \<in> nodes sha xs"
  proof -
    have "hash sha c p \<in> nodes sha xs"
    proof (rule Cons.IH)
      show "inj_on sha (set (tree_inputs sha xs) \<union> set (path_inputs sha (hash sha c p) ps) \<union> D)"
        using Cons.prems(1) by (rule inj_on_subset) auto
    qed (use Cons.prems sha in \<open>simp_all add: hash_ordered\<close>)
    then show ?thesis by (simp add: hash_ordered)
  qed
  have inj: "x = ordered c p" if "x \<in> set (tree_inputs sha xs) \<union> D" and "sha x = sha (ordered c p)" for x
    using inj_onD [OF Cons.prems(1) that(2)] that(1) by auto
  have l: "length (ordered c p) = 64" using Cons.prems by (intro length_ordered) auto
  from node_cases [OF up] show ?case
  proof
    assume "sha (ordered c p) \<in> set xs"
    then obtain d where "d \<in> D" "sha d = sha (ordered c p)" using leaves by metis
    then have "d = ordered c p" using inj by blast
    with D [OF \<open>d \<in> D\<close>] l show ?thesis by simp
  next
    assume "\<exists>a \<in> nodes sha xs. \<exists>b \<in> nodes sha xs. sha (ordered c p) = sha (ordered a b) \<and> ordered a b \<in> set (tree_inputs sha xs)"
    then obtain a b where ab: "a \<in> nodes sha xs" "b \<in> nodes sha xs" "sha (ordered c p) = sha (ordered a b)"
      "ordered a b \<in> set (tree_inputs sha xs)" by blast
    then have "ordered a b = ordered c p" using inj by simp
    with ordered_split [OF this] nodes_length [OF sha xs] ab(1,2) Cons.prems show ?thesis by auto
  qed
qed

lemma verified_leaf_listed:
  assumes sha: "\<And>x. length (sha x) = 32"
    and ds: "ds \<noteq> []" "\<forall>d \<in> set (d # ds). length d \<noteq> 64"
    and ps: "\<forall>p \<in> set ps. length p = 32"
    and inj: "inj_on sha (set (tree_inputs sha (map sha ds)) \<union> set (path_inputs sha (sha d) ps) \<union> set (d # ds))"
    and ver: "verify_proof sha (root (MerkleTree sha (map sha ds))) (sha d) ps"
  shows "d \<in> set ds"
proof -
  let ?xs = "map sha ds"
  have xs: "nodes_ok ?xs" by (simp add: nodes_ok_def sha)
  have rt: "root (build_layers sha ?xs) \<in> nodes sha ?xs" using ds(1) by (simp add: root_node)
  have "length (foldl (hash sha) (sha d) ps) = 32"
    using sha by (cases ps rule: rev_cases) (simp_all add: hash_ordered)
  moreover have "length (root (build_layers sha ?xs)) = 32" using nodes_length [OF sha xs rt] .
  ultimately have "foldl (hash sha) (sha d) ps = root (build_layers sha ?xs)"
    using ver ds(1) by (intro compare_zero) (simp_all add: verify_proof_def MerkleTree_def)
  with rt have up: "foldl (hash sha) (sha d) ps \<in> nodes sha ?xs" by simp
  have lv: "\<exists>e \<in> set (d # ds). x = sha e" if "x \<in> set ?xs" for x using that by auto
  have l: "length e \<noteq> 64" if "e \<in> set (d # ds)" for e using ds(2) that by blast
  from path_stays_in_tree [OF sha xs lv l inj sha ps up] have c: "sha d \<in> nodes sha ?xs" .
  have same: "x = d" if "x \<in> set (tree_inputs sha ?xs) \<union> set ds" and "sha x = sha d" for x
    using inj_onD [OF inj that(2)] that(1) by auto
  from node_cases [OF c] show ?thesis
  proof
    assume "sha d \<in> set ?xs"
    then obtain x where "x \<in> set ds" "sha x = sha d" by auto
    with same [of x] show ?thesis by simp
  next
    assume "\<exists>a \<in> nodes sha ?xs. \<exists>b \<in> nodes sha ?xs. sha d = sha (ordered a b) \<and> ordered a b \<in> set (tree_inputs sha ?xs)"
    then obtain a b where ab: "a \<in> nodes sha ?xs" "b \<in> nodes sha ?xs" and "sha (ordered a b) = sha d" "ordered a b \<in> set (tree_inputs sha ?xs)" by auto
    then have o: "ordered a b = d" using same [of "ordered a b"] by simp
    have "length d = 64" unfolding o [symmetric] using nodes_length [OF sha xs] ab by (intro length_ordered) auto
    with ds(2) show ?thesis by simp
  qed
qed

subsection \<open>Leaf encodings and hexadecimal\<close>

lemma length_le_bytes [simp]: "length (le_bytes w v) = w"
  by (induction w arbitrary: v) auto

lemma le_bytes_inj: "le_bytes w u = le_bytes w v \<Longrightarrow> u < 256 ^ w \<Longrightarrow> v < 256 ^ w \<Longrightarrow> u = v"
proof (induction w arbitrary: u v)
  case 0
  then show ?case by simp
next
  case (Suc w)
  have "(of_nat (u mod 256) :: 8 word) = of_nat (v mod 256)" and r: "le_bytes w (u div 256) = le_bytes w (v div 256)"
    using Suc.prems(1) by simp_all
  then have "u mod 256 = v mod 256" by (metis unat_of_nat_byte)
  moreover have "u div 256 = v div 256"
    using Suc.prems(2,3) by (intro Suc.IH [OF r]) (simp_all add: less_mult_imp_div_less mult.commute)
  ultimately show ?case by (metis div_mult_mod_eq)
qed

lemma u64Le_inj: "u64Le u = u64Le v \<Longrightarrow> u < 2 ^ 64 \<Longrightarrow> v < 2 ^ 64 \<Longrightarrow> u = v"
  using le_bytes_inj [of 8 u v] by (simp add: u64Le_def)

lemma hexVal_hexDigit: "n < 16 \<Longrightarrow> hexVal (hexDigit n) = Some n \<and> \<not> lineEnd (hexDigit n)"
  by (auto simp: hexVal_def hexDigit_def lineEnd_def Let_def of_char_of)

lemma hexPairs_toHex: "hexPairs (toHex bs) = bs"
proof (induction bs)
  case Nil
  then show ?case by (simp add: toHex_def)
next
  case (Cons b bs)
  have b: "unat b < 256" by (rule unat_byte)
  then have "hexVal (hexDigit (unat b div 16)) = Some (unat b div 16) \<and> \<not> lineEnd (hexDigit (unat b div 16))"
    "hexVal (hexDigit (unat b mod 16)) = Some (unat b mod 16) \<and> \<not> lineEnd (hexDigit (unat b mod 16))"
    by (simp_all add: hexVal_hexDigit)
  with Cons show ?case by (simp add: toHex_def parseHexPair_def)
qed

subsection \<open>Inclusion proofs as an interface\<close>

text \<open>What a server of proofs relies on: every committed entry has a proof that checks.\<close>

locale inclusion_proofs =
  fixes ok :: "'leaf list \<Rightarrow> bool"
    and commit :: "'leaf list \<Rightarrow> 'root"
    and prove :: "'leaf list \<Rightarrow> nat \<Rightarrow> 'proof"
    and check :: "'root \<Rightarrow> 'leaf \<Rightarrow> 'proof \<Rightarrow> bool"
  assumes complete: "ok xs \<Longrightarrow> i < length xs \<Longrightarrow> check (commit xs) (xs ! i) (prove xs i)"
begin

text \<open>A server that looks an entry up by key and proves its position.\<close>

lemma served:
  assumes "ok (map leaf es)" and "find (\<lambda>i. key (es ! i) = k) [0..<length es] = Some i"
  shows "key (es ! i) = k \<and> check (commit (map leaf es)) (leaf (es ! i)) (prove (map leaf es) i)"
proof -
  have "i < length es" "key (es ! i) = k" using assms(2) by (auto simp: find_Some_iff)
  with complete [OF assms(1), of i] show ?thesis by simp
qed

end

lemma merkle_complete:
  assumes "\<And>x. length (sha x) = 32" and "nodes_ok xs" and "i < length xs"
  shows "verify_proof sha (root (MerkleTree sha xs)) (xs ! i) (getProof (MerkleTree sha xs) i)"
proof -
  have "xs \<noteq> []" using assms(3) by auto
  with path_reaches_root [OF assms] show ?thesis by (simp add: verify_proof_def MerkleTree_def)
qed

interpretation merkle: inclusion_proofs "\<lambda>xs. (\<forall>x. length (sha x) = 32) \<and> nodes_ok xs" "\<lambda>xs. root (MerkleTree sha xs)"
  "\<lambda>xs i. getProof (MerkleTree sha xs) i" "verify_proof sha" for sha
  by unfold_locales (auto intro: merkle_complete)

subsection \<open>Properties\<close>

text \<open>A stand-in for the hash function on small examples: the first byte and the length.\<close>

definition toy_sha :: "bytes \<Rightarrow> bytes" where
  "toy_sha x = replicate 30 0 @ [if x = [] then 0 else hd x, of_nat (length x)]"

lemma length_toy_sha [simp]: "length (toy_sha x) = 32"
  by (simp add: toy_sha_def)

lemma toy_sha_eq: "a \<noteq> [] \<Longrightarrow> b \<noteq> [] \<Longrightarrow> toy_sha a = toy_sha b \<longleftrightarrow> hd a = hd b \<and> (of_nat (length a) :: 8 word) = of_nat (length b)"
  by (simp add: toy_sha_def)

text \<open>
  C16. Merkle proofs are complete: for every leaf of a tree of 32-byte leaves, whatever their number, the
  proof that \<open>getProof\<close> builds for its index verifies against the root.
\<close>

theorem merkle_proof_verifies:
  assumes "\<And>x. length (sha x) = 32" and "\<forall>x \<in> set leaves. length x = 32" and "i < length leaves"
  shows "verify_proof sha (root (MerkleTree sha leaves)) (leaves ! i) (getProof (MerkleTree sha leaves) i)"
  using assms by (intro merkle_complete) (simp_all add: nodes_ok_def)

theorem merkle_proof_verifies_witness:
  "verify_proof toy_sha (root (MerkleTree toy_sha [toy_sha [1], toy_sha [2], toy_sha [3]])) (toy_sha [3])
     (getProof (MerkleTree toy_sha [toy_sha [1], toy_sha [2], toy_sha [3]]) 2)"
  using merkle_proof_verifies [of toy_sha "[toy_sha [1], toy_sha [2], toy_sha [3]]" 2] by simp

text \<open>
  C15. Merkle proofs are sound for fee claims: if SHA-256 has no collision among the inputs hashed in the
  tree, along the presented path and in the claims, then a claim that verifies against the root of a
  distribution is one of its entries: no staker can claim another amount, and an inner node cannot pass
  for a claim.
\<close>

theorem fee_claim_sound:
  assumes "\<And>x. length (sha x) = 32" and "claims \<noteq> []"
    and "\<forall>c \<in> set ((staker, amount) # claims). length (fst c) = 32 \<and> snd c < 2 ^ 64"
    and "\<forall>p \<in> set proof. length p = 32"
    and "verify_proof sha (root (MerkleTree sha (map (\<lambda>c. feeClaimLeaf sha (fst c) (snd c) epoch) claims)))
           (feeClaimLeaf sha staker amount epoch) proof"
    and "inj_on sha (set (tree_inputs sha (map (\<lambda>c. feeClaimLeaf sha (fst c) (snd c) epoch) claims))
           \<union> set (path_inputs sha (feeClaimLeaf sha staker amount epoch) proof)
           \<union> (\<lambda>c. fst c @ u64Le (snd c) @ u64Le epoch) ` set ((staker, amount) # claims))"
  shows "(staker, amount) \<in> set claims"
proof -
  let ?d = "\<lambda>c. fst c @ u64Le (snd c) @ u64Le epoch"
  have m: "map (\<lambda>c. feeClaimLeaf sha (fst c) (snd c) epoch) claims = map sha (map ?d claims)"
    and l: "feeClaimLeaf sha staker amount epoch = sha (?d (staker, amount))"
    by (simp_all add: feeClaimLeaf_def)
  have "?d (staker, amount) \<in> set (map ?d claims)"
  proof (rule verified_leaf_listed [OF assms(1)])
    show "map ?d claims \<noteq> []" using assms(2) by simp
    show "\<forall>d \<in> set (?d (staker, amount) # map ?d claims). length d \<noteq> 64" using assms(3) by (auto simp: u64Le_def)
    show "\<forall>p \<in> set proof. length p = 32" by (rule assms(4))
    show "verify_proof sha (root (MerkleTree sha (map sha (map ?d claims)))) (sha (?d (staker, amount))) proof"
      using assms(5) unfolding m l .
    show "inj_on sha (set (tree_inputs sha (map sha (map ?d claims))) \<union> set (path_inputs sha (sha (?d (staker, amount))) proof)
        \<union> set (?d (staker, amount) # map ?d claims))"
      using assms(6) unfolding m l by simp
  qed
  then obtain c where c: "c \<in> set claims" "?d (staker, amount) = ?d c" by auto
  then have "staker = fst c" "amount = snd c"
    using assms(3) by (auto simp: u64Le_def intro: u64Le_inj [unfolded u64Le_def])
  with c(1) show ?thesis by simp
qed

theorem fee_claim_sound_witness:
  "(replicate 32 1, 5) \<in> set [(replicate 32 1 :: bytes, 5 :: nat), (replicate 32 2, 6)]"
proof (rule fee_claim_sound [of toy_sha _ _ _ "[feeClaimLeaf toy_sha (replicate 32 2) 6 0]" 0])
  let ?cs = "[(replicate 32 1 :: bytes, 5 :: nat), (replicate 32 2, 6)]"
  let ?leaf = "\<lambda>c. feeClaimLeaf toy_sha (fst c) (snd c) 0"
  let ?d = "\<lambda>c. fst c @ u64Le (snd c) @ u64Le 0"
  let ?o = "ordered (?leaf (replicate 32 1, 5)) (?leaf (replicate 32 2, 6))"
  have t: "tree_inputs toy_sha (map ?leaf ?cs) = [?o]"
    by (simp add: tree_inputs_def build_layers.simps)
  have o: "length ?o = 64" by (simp add: length_ordered feeClaimLeaf_def)
  then have "?o \<noteq> []" by auto
  with o have d: "toy_sha ?o \<noteq> toy_sha (?d (replicate 32 1, 5))" "toy_sha ?o \<noteq> toy_sha (?d (replicate 32 2, 6))"
    "toy_sha (?d (replicate 32 1, 5)) \<noteq> toy_sha (?d (replicate 32 2, 6))"
    by (simp_all add: toy_sha_eq u64Le_def)
  show "inj_on toy_sha (set (tree_inputs toy_sha (map ?leaf ?cs))
      \<union> set (path_inputs toy_sha (feeClaimLeaf toy_sha (replicate 32 1) 5 0) [feeClaimLeaf toy_sha (replicate 32 2) 6 0])
      \<union> (\<lambda>c. fst c @ u64Le (snd c) @ u64Le 0) ` set ((replicate 32 1, 5) # ?cs))"
    unfolding t using d d [THEN not_sym] by (simp add: inj_on_def)
  show "verify_proof toy_sha (root (MerkleTree toy_sha (map ?leaf ?cs))) (feeClaimLeaf toy_sha (replicate 32 1) 5 0)
      [feeClaimLeaf toy_sha (replicate 32 2) 6 0]"
    by (simp add: verify_proof_def MerkleTree_def build_layers.simps root_def)
qed (simp_all add: feeClaimLeaf_def)

text \<open>
  Hexadecimal printing of bytes is reversible.
\<close>

theorem fromHex_toHex:
  assumes "bs \<noteq> []"
  shows "fromHex (toHex bs) = Inr bs"
  using assms by (simp add: fromHex_def hexPairs_toHex)

theorem fromHex_toHex_witness: "fromHex (toHex [0, 255, 16]) = Inr [0, 255, 16]"
  by (rule fromHex_toHex) simp

end
