(* ===== verification/Fee_Snapshot.thy ===== *)
theory Fee_Snapshot
  imports Merkle_Tree
begin

text \<open>
  The snapshot oracle of the fee crank (\<open>services/fee-crank/src/snapshot.ts\<close>, \<open>db.ts\<close>, \<open>proof-api.ts\<close>):
  active stakers, their shares of an epoch's fee pool, the Merkle roots that are committed on chain, the
  table of stored snapshots and the routes that serve inclusion proofs from it.

  Public keys are their 32 bytes. The base58 codec, SHA-256 and the answers of the RPC node and of the
  database are parameters. Amounts are the unsigned integers of the on-chain accounts.
\<close>

subsection \<open>Stakers and shares\<close>

record stake_account =
  acc_owner :: bytes
  acc_votingPower :: nat
  acc_amount :: nat
  acc_status :: string

record StakerEntry =
  owner :: bytes
  votingPower :: nat
  amount :: nat

definition fetchActiveStakers :: "stake_account list \<Rightarrow> StakerEntry list" where
  "fetchActiveStakers accounts =
     map (\<lambda>a. \<lparr>owner = acc_owner a, votingPower = acc_votingPower a, amount = acc_amount a\<rparr>)
       (filter (\<lambda>a. acc_status a = ''active'' \<and> acc_amount a > 0) accounts)"

text \<open>The loop that looks for the largest share; the first of equal ones is kept.\<close>

function max_idx :: "nat list \<Rightarrow> nat \<Rightarrow> nat \<Rightarrow> nat" where
  "max_idx xs i maxIdx = (if i < length xs then max_idx xs (i + 1) (if xs ! i > xs ! maxIdx then i else maxIdx) else maxIdx)"
  by auto
termination
  by (relation "measure (\<lambda>(xs, i, _). length xs - i)") auto

declare max_idx.simps [simp del]

definition computeFeeShares :: "StakerEntry list \<Rightarrow> nat \<Rightarrow> nat \<Rightarrow> (bytes \<times> nat) list" where
  "computeFeeShares stakers totalVotingPower stakerPoolAmount =
     (if totalVotingPower = 0 \<or> stakers = [] then []
      else let shares = map (\<lambda>s. votingPower s * stakerPoolAmount div totalVotingPower) stakers;
               dust = int stakerPoolAmount - int (sum_list shares);
               shares = (if dust > 0 \<and> shares \<noteq> [] then let m = max_idx shares 1 0 in shares[m := shares ! m + nat dust] else shares)
           in zip (map owner stakers) shares)"

subsection \<open>Stored snapshots\<close>

record gov_leaf =
  gl_wallet :: string
  gl_weight :: string

record fee_leaf =
  fl_wallet :: string
  fl_amount :: string
  fl_epochId :: string

record StoredSnapshot =
  sn_epochId :: nat
  governanceRoot :: bytes
  feeRoot :: bytes
  totalVotingPower :: nat
  stakerCount :: nat
  snapshotSlot :: nat
  governanceLeaves :: "gov_leaf list"
  feeLeaves :: "fee_leaf list"

type_synonym epoch_snapshots = "(nat, StoredSnapshot) jsmap"

text \<open>\<open>INSERT ... ON CONFLICT (epoch_id) DO UPDATE\<close>.\<close>

definition saveSnapshot :: "StoredSnapshot \<Rightarrow> epoch_snapshots \<Rightarrow> epoch_snapshots" where
  "saveSnapshot snap db = map_set (sn_epochId snap) snap db"

definition loadSnapshot :: "epoch_snapshots \<Rightarrow> nat \<Rightarrow> StoredSnapshot option" where
  "loadSnapshot db epochId = map_get db epochId"

text \<open>\<open>ORDER BY k DESC LIMIT 1\<close>; among equal keys the database may give any row, the model the first.\<close>

fun max_row :: "('r \<Rightarrow> nat) \<Rightarrow> 'r list \<Rightarrow> 'r option" where
  "max_row k [] = None"
| "max_row k (r # rs) = (case max_row k rs of None \<Rightarrow> Some r | Some b \<Rightarrow> if k b > k r then Some b else Some r)"

definition loadSnapshotBySlot :: "epoch_snapshots \<Rightarrow> nat \<Rightarrow> StoredSnapshot option" where
  "loadSnapshotBySlot db slot = max_row snapshotSlot (filter (\<lambda>r. snapshotSlot r \<le> slot) (map_values db))"

definition loadLatestSnapshot :: "epoch_snapshots \<Rightarrow> StoredSnapshot option" where
  "loadLatestSnapshot db = max_row sn_epochId (map_values db)"

subsection \<open>Taking a snapshot\<close>

datatype chain_call =
    SnapshotEpoch nat nat nat
  | CommitDistributionRoot nat bytes nat nat

record snapshot_world =
  stake_accounts :: "stake_account list js"
  sw_slot :: "nat js"
  pool_epoch :: "nat js"
  save_result :: "unit js"
  sw_sha :: "bytes \<Rightarrow> bytes"
  toBase58 :: "bytes \<Rightarrow> string"

definition snapshot_of :: "(bytes \<Rightarrow> bytes) \<Rightarrow> (bytes \<Rightarrow> string) \<Rightarrow> StakerEntry list \<Rightarrow> nat \<Rightarrow> nat \<Rightarrow> nat \<Rightarrow> StoredSnapshot" where
  "snapshot_of sha b58 stakers epochId pool slot =
     (let tvp = sum_list (map votingPower stakers); feeShares = computeFeeShares stakers tvp pool in
      \<lparr>sn_epochId = epochId,
       governanceRoot = root (MerkleTree sha (map (\<lambda>s. governanceLeaf sha (owner s) (votingPower s)) stakers)),
       feeRoot = root (MerkleTree sha (map (\<lambda>s. feeClaimLeaf sha (fst s) (snd s) epochId) feeShares)),
       totalVotingPower = tvp, stakerCount = length stakers, snapshotSlot = slot,
       governanceLeaves = map (\<lambda>s. \<lparr>gl_wallet = b58 (owner s), gl_weight = show_nat (votingPower s)\<rparr>) stakers,
       feeLeaves = map (\<lambda>s. \<lparr>fl_wallet = b58 (fst s), fl_amount = show_nat (snd s), fl_epochId = show_nat epochId\<rparr>) feeShares\<rparr>)"

text \<open>The outcome, the transactions that were tried and the table afterwards. A refused transaction is only
  logged, so its fate does not matter to what follows.\<close>

definition processEpochSnapshot :: "snapshot_world \<Rightarrow> epoch_snapshots \<Rightarrow> nat \<Rightarrow> nat \<Rightarrow> string js \<times> chain_call list \<times> epoch_snapshots" where
  "processEpochSnapshot w db epochId stakerPoolAmount = (case stake_accounts w of
     Inl e \<Rightarrow> (Inl e, [], db)
   | Inr accounts \<Rightarrow> let stakers = fetchActiveStakers accounts in
      if stakers = [] then (Inr ''skipped'', [], db)
      else (case sw_slot w of
         Inl e \<Rightarrow> (Inl e, [], db)
       | Inr slot \<Rightarrow>
          let snap = snapshot_of (sw_sha w) (toBase58 w) stakers epochId stakerPoolAmount slot;
              calls = (case pool_epoch w of Inl e \<Rightarrow> [] | Inr cur \<Rightarrow> [SnapshotEpoch (totalVotingPower snap) (length stakers) cur])
                @ [CommitDistributionRoot epochId (feeRoot snap) (length (feeLeaves snap)) (totalVotingPower snap)]
          in case save_result w of
               Inl e \<Rightarrow> (Inl e, calls, db)
             | Inr _ \<Rightarrow> (Inr ''success'', calls, saveSnapshot snap db)))"

subsection \<open>Proof routes\<close>

datatype proof_reply =
    NotFound string
  | Failure string
  | GovernanceProof string "bytes list" nat "nat option"
  | DistributionProof string "bytes list" nat
  | Latest nat bytes nat nat nat

text \<open>\<open>findIndex\<close>, with \<open>None\<close> for \<open>-1\<close>.\<close>

definition findIndex :: "('a \<Rightarrow> bool) \<Rightarrow> 'a list \<Rightarrow> nat option" where
  "findIndex P xs = find (\<lambda>i. P (xs ! i)) [0..<length xs]"

text \<open>\<open>xs.map(f)\<close> for an \<open>f\<close> that may throw.\<close>

fun map_js :: "('a \<Rightarrow> 'b js) \<Rightarrow> 'a list \<Rightarrow> 'b list js" where
  "map_js f [] = Inr []"
| "map_js f (x # xs) = (case f x of Inl e \<Rightarrow> Inl e | Inr y \<Rightarrow> (case map_js f xs of Inl e \<Rightarrow> Inl e | Inr ys \<Rightarrow> Inr (y # ys)))"

definition gov_leaf_hash :: "(bytes \<Rightarrow> bytes) \<Rightarrow> (string \<Rightarrow> bytes js) \<Rightarrow> gov_leaf \<Rightarrow> bytes js" where
  "gov_leaf_hash sha pk l = (case pk (gl_wallet l) of Inl e \<Rightarrow> Inl e | Inr k \<Rightarrow> Inr (governanceLeaf sha k (read_nat (gl_weight l))))"

definition fee_leaf_hash :: "(bytes \<Rightarrow> bytes) \<Rightarrow> (string \<Rightarrow> bytes js) \<Rightarrow> fee_leaf \<Rightarrow> bytes js" where
  "fee_leaf_hash sha pk l = (case pk (fl_wallet l) of Inl e \<Rightarrow> Inl e
     | Inr k \<Rightarrow> Inr (feeClaimLeaf sha k (read_nat (fl_amount l)) (read_nat (fl_epochId l))))"

definition snapshot_latest :: "epoch_snapshots \<Rightarrow> proof_reply" where
  "snapshot_latest db = (case loadLatestSnapshot db of
     None \<Rightarrow> Failure ''no snapshots''
   | Some s \<Rightarrow> Latest (sn_epochId s) (governanceRoot s) (totalVotingPower s) (stakerCount s) (snapshotSlot s))"

definition governance_proof :: "(bytes \<Rightarrow> bytes) \<Rightarrow> (string \<Rightarrow> bytes js) \<Rightarrow> StoredSnapshot \<Rightarrow> string \<Rightarrow> nat option \<Rightarrow> proof_reply" where
  "governance_proof sha pk snap wallet ep = (case findIndex (\<lambda>l. gl_wallet l = wallet) (governanceLeaves snap) of
     None \<Rightarrow> NotFound ''wallet not in snapshot''
   | Some idx \<Rightarrow> (case map_js (gov_leaf_hash sha pk) (governanceLeaves snap) of
        Inl e \<Rightarrow> Failure e
      | Inr leaves \<Rightarrow> GovernanceProof (gl_weight (governanceLeaves snap ! idx)) (getProof (MerkleTree sha leaves) idx) idx ep))"

definition snapshot_by_slot_proof :: "(bytes \<Rightarrow> bytes) \<Rightarrow> (string \<Rightarrow> bytes js) \<Rightarrow> epoch_snapshots \<Rightarrow> nat \<Rightarrow> string \<Rightarrow> proof_reply" where
  "snapshot_by_slot_proof sha pk db slot wallet = (case loadSnapshotBySlot db slot of
     None \<Rightarrow> NotFound ''snapshot not found for slot''
   | Some snap \<Rightarrow> governance_proof sha pk snap wallet (Some (sn_epochId snap)))"

definition snapshot_proof :: "(bytes \<Rightarrow> bytes) \<Rightarrow> (string \<Rightarrow> bytes js) \<Rightarrow> epoch_snapshots \<Rightarrow> nat \<Rightarrow> string \<Rightarrow> proof_reply" where
  "snapshot_proof sha pk db epochId wallet = (case loadSnapshot db epochId of
     None \<Rightarrow> NotFound ''epoch not found''
   | Some snap \<Rightarrow> governance_proof sha pk snap wallet None)"

definition distribution_proof :: "(bytes \<Rightarrow> bytes) \<Rightarrow> (string \<Rightarrow> bytes js) \<Rightarrow> epoch_snapshots \<Rightarrow> nat \<Rightarrow> string \<Rightarrow> proof_reply" where
  "distribution_proof sha pk db epochId wallet = (case loadSnapshot db epochId of
     None \<Rightarrow> NotFound ''epoch not found''
   | Some snap \<Rightarrow> (case findIndex (\<lambda>l. fl_wallet l = wallet) (feeLeaves snap) of
        None \<Rightarrow> NotFound ''wallet not in distribution''
      | Some idx \<Rightarrow> (case map_js (fee_leaf_hash sha pk) (feeLeaves snap) of
           Inl e \<Rightarrow> Failure e
         | Inr leaves \<Rightarrow> DistributionProof (fl_amount (feeLeaves snap ! idx)) (getProof (MerkleTree sha leaves) idx) idx)))"

text \<open>The verifier of the fee program (\<open>verify_merkle_proof\<close>), on byte arrays in their lexicographic order.\<close>

fun array_le :: "bytes \<Rightarrow> bytes \<Rightarrow> bool" where
  "array_le [] ys = True"
| "array_le (x # xs) [] = False"
| "array_le (x # xs) (y # ys) = (x < y \<or> x = y \<and> array_le xs ys)"

definition verify_merkle_proof :: "(bytes \<Rightarrow> bytes) \<Rightarrow> bytes list \<Rightarrow> bytes \<Rightarrow> bytes \<Rightarrow> bool" where
  "verify_merkle_proof sha proof rt leaf =
     (foldl (\<lambda>computed node. if array_le computed node then sha (computed @ node) else sha (node @ computed)) leaf proof = rt)"

subsection \<open>Lemmas on shares\<close>

lemma max_idx_bound: "m < length xs \<Longrightarrow> max_idx xs i m < length xs"
  by (induction xs i m rule: max_idx.induct) (simp add: max_idx.simps)

lemma sum_list_update_add: "m < length xs \<Longrightarrow> sum_list (xs[m := xs ! m + d]) = sum_list xs + (d :: nat)"
  by (induction xs arbitrary: m) (auto simp: nth_Cons' split: nat.split)

lemma sum_floor_le: "0 < t \<Longrightarrow> sum_list (map (\<lambda>v. v * p div t) vs) * t \<le> sum_list vs * (p :: nat)"
proof (induction vs)
  case (Cons v vs)
  have "v * p div t * t \<le> v * p" by simp
  with Cons show ?case by (simp add: add_mult_distrib add_mono)
qed simp

lemma sum_floor_pool: "0 < sum_list vs \<Longrightarrow> sum_list (map (\<lambda>v. v * p div sum_list vs) vs) \<le> (p :: nat)"
  using sum_floor_le [of "sum_list vs" p vs] by (simp add: mult.commute)

lemma computeFeeShares_wallets: "t \<noteq> 0 \<Longrightarrow> map fst (computeFeeShares stakers t pool) = map owner stakers"
  by (auto simp: computeFeeShares_def Let_def)

subsection \<open>Lemmas on leaves and proofs\<close>

lemma array_le_compare: "length a = length b \<Longrightarrow> array_le a b \<longleftrightarrow> compare_bytes a b \<le> 0"
  by (induction a b rule: list_induct2) auto

lemma verifiers_fold:
  assumes "\<And>x. length (sha x) = 32" and "\<forall>p \<in> set ps. length p = 32" and "length c = 32"
  shows "foldl (\<lambda>computed node. if array_le computed node then sha (computed @ node) else sha (node @ computed)) c ps
    = foldl (hash sha) c ps"
  using assms(2,3)
proof (induction ps arbitrary: c)
  case (Cons p ps)
  then have "(if array_le c p then sha (c @ p) else sha (p @ c)) = hash sha c p" by (simp add: hash_def array_le_compare)
  with Cons show ?case by (simp add: assms(1) hash_ordered)
qed simp

lemma foldl_hash_length: "(\<And>x. length (sha x) = 32) \<Longrightarrow> length c = 32 \<Longrightarrow> length (foldl (hash sha) c ps) = 32"
  by (induction ps arbitrary: c) (auto simp: hash_ordered)

lemma findIndex_map: "findIndex P (map f xs) = findIndex (\<lambda>x. P (f x)) xs"
  unfolding findIndex_def length_map by (rule find_cong) auto

lemma findIndex_total: "x \<in> set xs \<Longrightarrow> P x \<Longrightarrow> \<exists>i. findIndex P xs = Some i"
  unfolding findIndex_def by (cases "find (\<lambda>i. P (xs ! i)) [0..<length xs]") (auto simp: find_None_iff in_set_conv_nth)

lemma max_row_max: "max_row k rs = Some r \<Longrightarrow> r \<in> set rs \<and> (\<forall>x \<in> set rs. k x \<le> k r)"
proof (induction rs arbitrary: r)
  case (Cons a rs)
  show ?case
  proof (cases "max_row k rs")
    case None
    then have "rs = []" by (cases rs) (auto split: option.splits if_splits)
    with Cons.prems show ?thesis by simp
  next
    case (Some b)
    with Cons.IH [OF Some] Cons.prems show ?thesis by (auto split: if_splits)
  qed
qed simp

lemma map_js_map: "(\<And>x. x \<in> set xs \<Longrightarrow> f (g x) = Inr (h x)) \<Longrightarrow> map_js f (map g xs) = Inr (map h xs)"
  by (induction xs) auto

text \<open>What a completed snapshot leaves behind.\<close>

lemma processEpochSnapshot_success:
  assumes "processEpochSnapshot w db epochId pool = (Inr ''success'', calls, db')"
  obtains accounts slot where "stake_accounts w = Inr accounts" and "fetchActiveStakers accounts \<noteq> []"
    and "loadSnapshot db' epochId = Some (snapshot_of (sw_sha w) (toBase58 w) (fetchActiveStakers accounts) epochId pool slot)"
    and "CommitDistributionRoot epochId (feeRoot (snapshot_of (sw_sha w) (toBase58 w) (fetchActiveStakers accounts) epochId pool slot))
      (length (feeLeaves (snapshot_of (sw_sha w) (toBase58 w) (fetchActiveStakers accounts) epochId pool slot)))
      (sum_list (map votingPower (fetchActiveStakers accounts))) \<in> set calls"
proof -
  obtain accounts where a: "stake_accounts w = Inr accounts" using assms by (cases "stake_accounts w") (auto simp: processEpochSnapshot_def)
  have ne: "fetchActiveStakers accounts \<noteq> []" using assms a by (auto simp: processEpochSnapshot_def Let_def)
  obtain slot where sl: "sw_slot w = Inr slot" using assms a ne by (cases "sw_slot w") (auto simp: processEpochSnapshot_def Let_def)
  let ?snap = "snapshot_of (sw_sha w) (toBase58 w) (fetchActiveStakers accounts) epochId pool slot"
  have ep: "sn_epochId ?snap = epochId" "totalVotingPower ?snap = sum_list (map votingPower (fetchActiveStakers accounts))"
    by (simp_all add: snapshot_of_def Let_def)
  have db: "db' = saveSnapshot ?snap db" and c: "CommitDistributionRoot epochId (feeRoot ?snap) (length (feeLeaves ?snap)) (totalVotingPower ?snap) \<in> set calls"
    using assms a ne sl by (auto simp: processEpochSnapshot_def Let_def split: sum.splits)
  from db ep(1) have "loadSnapshot db' epochId = Some ?snap" by (simp add: loadSnapshot_def saveSnapshot_def map_get_set)
  from that [OF a ne this] c show thesis by (simp add: ep(2))
qed

lemma verifiers_agree:
  assumes "\<And>x. length (sha x) = 32" and "\<forall>p \<in> set proof. length p = 32" and "length leaf = 32" and "length rt = 32"
  shows "verify_merkle_proof sha proof rt leaf = verify_proof sha rt leaf proof"
proof -
  have "length (foldl (hash sha) leaf proof) = length rt" using foldl_hash_length [where sha = sha, OF assms(1,3)] assms(4) by simp
  then have "foldl (hash sha) leaf proof = rt \<longleftrightarrow> compare_bytes (foldl (hash sha) leaf proof) rt = 0"
    using compare_zero by auto
  then show ?thesis unfolding verify_merkle_proof_def verify_proof_def verifiers_fold [where sha = sha, OF assms(1-3)] .
qed

text \<open>The distribution route on a stored snapshot whose wallets parse back to their keys.\<close>

lemma distribution_served:
  fixes sha enc pk stakers epochId pool slot
  defines "sh \<equiv> computeFeeShares stakers (sum_list (map votingPower stakers)) pool"
  defines "ls \<equiv> map (\<lambda>c. feeClaimLeaf sha (fst c) (snd c) epochId) sh"
  assumes sha: "\<And>x. length (sha x) = 32" and pk: "\<And>k. length k = 32 \<Longrightarrow> pk (enc k) = Inr k"
    and len: "\<And>c. c \<in> set sh \<Longrightarrow> length (fst c) = 32" and k: "k \<in> fst ` set sh"
    and db: "loadSnapshot db epochId = Some (snapshot_of sha enc stakers epochId pool slot)"
  shows "\<exists>amt proof idx. distribution_proof sha pk db epochId (enc k) = DistributionProof (show_nat amt) proof idx
    \<and> (k, amt) \<in> set sh \<and> verify_merkle_proof sha proof (root (MerkleTree sha ls)) (feeClaimLeaf sha k amt epochId)"
proof -
  let ?snap = "snapshot_of sha enc stakers epochId pool slot"
  have fl: "feeLeaves ?snap = map (\<lambda>s. \<lparr>fl_wallet = enc (fst s), fl_amount = show_nat (snd s), fl_epochId = show_nat epochId\<rparr>) sh"
    by (simp add: snapshot_of_def Let_def sh_def)
  from k obtain c where c: "c \<in> set sh" "fst c = k" by auto
  then obtain idx where idx: "findIndex (\<lambda>c. enc (fst c) = enc k) sh = Some idx" using findIndex_total [of c sh "\<lambda>c. enc (fst c) = enc k"] by auto
  then have lt: "idx < length sh" by (auto simp: findIndex_def find_Some_iff)
  then have mem: "sh ! idx \<in> set sh" by simp
  have ok: "nodes_ok ls" using sha by (simp add: nodes_ok_def feeClaimLeaf_def ls_def)
  have "enc (fst (sh ! idx)) = enc k
      \<and> verify_proof sha (root (MerkleTree sha ls)) (feeClaimLeaf sha (fst (sh ! idx)) (snd (sh ! idx)) epochId) (getProof (MerkleTree sha ls) idx)"
    unfolding ls_def
  proof (rule merkle.served [where es = sh])
    show "(\<forall>x. length (sha x) = 32) \<and> nodes_ok (map (\<lambda>c. feeClaimLeaf sha (fst c) (snd c) epochId) sh)" using sha ok ls_def by blast
    show "find (\<lambda>i. enc (fst (sh ! i)) = enc k) [0..<length sh] = Some idx" using idx by (simp add: findIndex_def)
  qed
  then have key: "enc (fst (sh ! idx)) = enc k"
    and ver: "verify_proof sha (root (MerkleTree sha ls)) (feeClaimLeaf sha (fst (sh ! idx)) (snd (sh ! idx)) epochId) (getProof (MerkleTree sha ls) idx)"
    by blast+
  from key len [OF mem] len [OF c(1)] c(2) have own: "fst (sh ! idx) = k" by (metis pk sum.inject(2))
  have "map_js (fee_leaf_hash sha pk) (feeLeaves ?snap) = Inr ls"
    unfolding fl ls_def using len pk by (intro map_js_map) (simp add: fee_leaf_hash_def)
  then have "distribution_proof sha pk db epochId (enc k) = DistributionProof (show_nat (snd (sh ! idx))) (getProof (MerkleTree sha ls) idx) idx"
    using idx lt by (simp add: distribution_proof_def db fl findIndex_map)
  moreover have "(k, snd (sh ! idx)) \<in> set sh" using mem own by (metis prod.collapse)
  moreover have "ls \<noteq> []" using c(1) by (auto simp: ls_def)
  then have "verify_merkle_proof sha (getProof (MerkleTree sha ls) idx) (root (MerkleTree sha ls)) (feeClaimLeaf sha k (snd (sh ! idx)) epochId)"
    using ver own tree_lengths [where sha = sha, OF sha ok] sha by (subst verifiers_agree) (auto simp: feeClaimLeaf_def)
  ultimately show ?thesis by blast
qed

subsection \<open>Properties\<close>

text \<open>
  The shares of an epoch exhaust the fee pool: when the voting powers of the stakers add up to a
  positive total, every staker has one share, in the order of the stakers, the shares add up to the pool
  exactly, and each is the rounded-down proportional part except for a single staker, who also gets what
  rounding left over.
\<close>

theorem fee_shares_exhaust_pool:
  assumes "tvp = sum_list (map votingPower stakers)" and "0 < tvp"
  shows "map fst (computeFeeShares stakers tvp pool) = map owner stakers
    \<and> sum_list (map snd (computeFeeShares stakers tvp pool)) = pool
    \<and> (\<exists>m < length stakers. \<forall>i < length stakers. votingPower (stakers ! i) * pool div tvp \<le> snd (computeFeeShares stakers tvp pool ! i)
          \<and> (i \<noteq> m \<longrightarrow> snd (computeFeeShares stakers tvp pool ! i) = votingPower (stakers ! i) * pool div tvp))"
proof -
  have ne: "stakers \<noteq> []" using assms by auto
  let ?sh = "map (\<lambda>s. votingPower s * pool div tvp) stakers"
  let ?m = "max_idx ?sh 1 0" and ?d = "int pool - int (sum_list ?sh)"
  let ?r = "if 0 < ?d then ?sh[?m := ?sh ! ?m + nat ?d] else ?sh"
  have m: "?m < length ?sh" using max_idx_bound [of 0 ?sh 1] ne by simp
  have le: "sum_list ?sh \<le> pool"
    using sum_floor_pool [of "map votingPower stakers" pool] assms by (simp add: comp_def)
  have r: "computeFeeShares stakers tvp pool = zip (map owner stakers) ?r"
    using assms(2) ne by (simp add: computeFeeShares_def Let_def)
  have l: "length ?r = length stakers" by simp
  have "sum_list ?r = pool" using le sum_list_update_add [OF m, of "nat ?d"] by auto
  moreover have "?sh ! i \<le> ?r ! i \<and> (i \<noteq> ?m \<longrightarrow> ?r ! i = ?sh ! i)" if "i < length stakers" for i
    using that by (cases "i = ?m") auto
  ultimately show ?thesis using m l unfolding r by (intro conjI exI [of _ ?m]) auto
qed

theorem fee_shares_exhaust_pool_witness:
  "map snd (computeFeeShares [\<lparr>owner = [1], votingPower = 1, amount = 1\<rparr>, \<lparr>owner = [2], votingPower = 2, amount = 1\<rparr>] 3 100) = [33, 67]
    \<and> sum_list (map snd (computeFeeShares [\<lparr>owner = [1], votingPower = 1, amount = 1\<rparr>, \<lparr>owner = [2], votingPower = 2, amount = 1\<rparr>] 3 100)) = 100"
proof -
  have "map snd (computeFeeShares [\<lparr>owner = [1], votingPower = 1, amount = 1\<rparr>, \<lparr>owner = [2], votingPower = 2, amount = 1\<rparr>] 3 100) = [33, 67]"
    by code_simp
  moreover have "sum_list (map snd (computeFeeShares [\<lparr>owner = [1], votingPower = 1, amount = 1\<rparr>, \<lparr>owner = [2], votingPower = 2, amount = 1\<rparr>] 3 100)) = 100"
    using fee_shares_exhaust_pool [of 3 "[\<lparr>owner = [1], votingPower = 1, amount = 1\<rparr>, \<lparr>owner = [2], votingPower = 2, amount = 1\<rparr>]" 100] by simp
  ultimately show ?thesis ..
qed

text \<open>
  C17. The two verifiers agree: on 32-byte leaves, roots and siblings the verifier of the SDK accepts
  exactly the proofs that the fee program accepts on chain, although one compares byte by byte with a
  sign and the other compares whole arrays.
\<close>

theorem onchain_verifier_agrees:
  assumes "\<And>x. length (sha x) = 32" and "\<forall>p \<in> set proof. length p = 32" and "length leaf = 32" and "length rt = 32"
  shows "verify_merkle_proof sha proof rt leaf = verify_proof sha rt leaf proof"
  using assms by (rule verifiers_agree)

theorem onchain_verifier_agrees_witness:
  "verify_merkle_proof toy_sha [replicate 32 2] (toy_sha (replicate 32 1 @ replicate 32 2)) (replicate 32 1)
    = verify_proof toy_sha (toy_sha (replicate 32 1 @ replicate 32 2)) (replicate 32 1) [replicate 32 2]"
  by (rule onchain_verifier_agrees) simp_all


text \<open>Two stakers, a hash and a codec that stand in for the libraries.\<close>

definition sample_accounts :: "stake_account list" where
  "sample_accounts = [\<lparr>acc_owner = replicate 32 1, acc_votingPower = 1, acc_amount = 10, acc_status = ''active''\<rparr>,
     \<lparr>acc_owner = replicate 32 2, acc_votingPower = 2, acc_amount = 10, acc_status = ''active''\<rparr>]"

definition sample_sw :: snapshot_world where
  "sample_sw = \<lparr>stake_accounts = Inr sample_accounts, sw_slot = Inr 900, pool_epoch = Inr 3, save_result = Inr (),
     sw_sha = toy_sha, toBase58 = map (\<lambda>b. char_of (unat b))\<rparr>"

definition sample_pk :: "string \<Rightarrow> bytes js" where
  "sample_pk s = Inr (map (\<lambda>c. of_nat (of_char c)) s)"

lemma sample_pk_base58: "sample_pk (toBase58 sample_sw k) = Inr k"
  by (simp add: sample_pk_def sample_sw_def comp_def of_char_of unat_byte mod_less)


end
