(* ===== verification/Fee_Crank.thy ===== *)
theory Fee_Crank
  imports Fee_Snapshot
begin

text \<open>
  The worker of the fee crank (\<open>services/fee-crank/src/worker.ts\<close>) and, beside it, the epochs of the fee
  collector program it drives (\<open>programs/fee_collector\<close>: \<open>init_config\<close>, \<open>process_epoch\<close>, \<open>execute_burn\<close>,
  \<open>commit_distribution\<close>, \<open>sweep_stale\<close> and the intake), so that what a tick can do is stated over the states
  the program can reach.
\<close>

subsection \<open>The fee collector's epochs\<close>

datatype EpochStatus = Open | Splitting | DistributionCommitted | Stale

record EpochAccount =
  status :: EpochStatus
  started_at_ts :: int
  closed_at_ts :: "int option"
  total_collected :: nat
  burn_amount :: nat
  burn_executed :: bool
  staker_amount :: nat
  staker_distribution_committed :: bool
  staker_claimed_total :: nat
  stale_swept :: bool

record FeeCollectorConfig =
  next_epoch_id :: nat
  epoch_duration_secs :: int
  claim_window_secs :: int
  min_epoch_total_for_burn :: nat
  burn_bps :: nat
  staker_share_bps :: nat
  paused :: bool
  confidential_transfers_enabled :: bool

record fee_chain =
  config :: FeeCollectorConfig
  epochs :: "nat \<Rightarrow> EpochAccount option"

definition fresh_epoch :: "int \<Rightarrow> EpochAccount" where
  "fresh_epoch now = \<lparr>status = Open, started_at_ts = now, closed_at_ts = None, total_collected = 0, burn_amount = 0, burn_executed = False,
     staker_amount = 0, staker_distribution_committed = False, staker_claimed_total = 0, stale_swept = False\<rparr>"

text \<open>\<open>init_config\<close>; the parameters are the settings of \<open>c\<close>.\<close>

definition init_config :: "FeeCollectorConfig \<Rightarrow> int \<Rightarrow> fee_chain" where
  "init_config c now = \<lparr>config = c\<lparr>next_epoch_id := 1, paused := False, confidential_transfers_enabled := False\<rparr>,
     epochs = [0 \<mapsto> fresh_epoch now]\<rparr>"

text \<open>The instructions; \<open>None\<close> is a rejected transaction. The program keeps the fields of an epoch in 64 bits
  and rejects an overflow; the model's numbers are unbounded.\<close>

definition process_epoch :: "nat \<Rightarrow> int \<Rightarrow> fee_chain \<Rightarrow> fee_chain option" where
  "process_epoch e now ch = (case epochs ch e of
     None \<Rightarrow> None
   | Some ep \<Rightarrow>
      if paused (config ch) \<or> status ep \<noteq> Open \<or> now < started_at_ts ep + epoch_duration_secs (config ch) then None
      else if epochs ch (next_epoch_id (config ch)) \<noteq> None then None
      else Some (ch\<lparr>config := (config ch)\<lparr>next_epoch_id := next_epoch_id (config ch) + 1\<rparr>,
        epochs := (epochs ch)(e \<mapsto> ep\<lparr>status := Splitting, closed_at_ts := Some now,
            burn_amount := total_collected ep * burn_bps (config ch) div 10000,
            staker_amount := total_collected ep * staker_share_bps (config ch) div 10000\<rparr>,
          next_epoch_id (config ch) \<mapsto> fresh_epoch now)\<rparr>))"

definition execute_burn :: "nat \<Rightarrow> fee_chain \<Rightarrow> fee_chain option" where
  "execute_burn e ch = (case epochs ch e of
     None \<Rightarrow> None
   | Some ep \<Rightarrow>
      if status ep = Open \<or> burn_executed ep \<or> total_collected ep < min_epoch_total_for_burn (config ch) then None
      else Some (ch\<lparr>epochs := (epochs ch)(e \<mapsto> ep\<lparr>burn_executed := True\<rparr>)\<rparr>))"

definition commit_distribution :: "nat \<Rightarrow> int \<Rightarrow> fee_chain \<Rightarrow> fee_chain option" where
  "commit_distribution e now ch = (case epochs ch e of
     None \<Rightarrow> None
   | Some ep \<Rightarrow>
      if status ep \<noteq> Splitting \<or> staker_distribution_committed ep \<or> now \<ge> (case closed_at_ts ep of None \<Rightarrow> 0 | Some t \<Rightarrow> t) + 2 * 86400 then None
      else Some (ch\<lparr>epochs := (epochs ch)(e \<mapsto> ep\<lparr>staker_distribution_committed := True, status := DistributionCommitted\<rparr>)\<rparr>))"

definition sweep_stale :: "nat \<Rightarrow> int \<Rightarrow> fee_chain \<Rightarrow> fee_chain option" where
  "sweep_stale e now ch = (case (epochs ch e, epochs ch (e + 1)) of
     (Some ep, Some nx) \<Rightarrow>
      if status ep \<notin> {Splitting, DistributionCommitted} \<or> stale_swept ep
        \<or> now < (case closed_at_ts ep of None \<Rightarrow> 0 | Some t \<Rightarrow> t) + claim_window_secs (config ch) + 7 * 86400 then None
      else Some (ch\<lparr>epochs := (epochs ch)(e \<mapsto> ep\<lparr>status := Stale, stale_swept := True\<rparr>,
          e + 1 \<mapsto> nx\<lparr>total_collected := total_collected nx + (staker_amount ep - staker_claimed_total ep) + (if burn_executed ep then 0 else burn_amount ep)\<rparr>)\<rparr>)
   | _ \<Rightarrow> None)"

text \<open>Intake of \<open>n\<close> tokens into an open epoch, and a claim of \<open>n\<close> tokens from a committed one, where \<open>proof_ok\<close> is
  the verdict of \<open>verify_merkle_proof\<close>.\<close>

definition record_intake :: "nat \<Rightarrow> nat \<Rightarrow> fee_chain \<Rightarrow> fee_chain option" where
  "record_intake e n ch = (case epochs ch e of
     None \<Rightarrow> None
   | Some ep \<Rightarrow> if status ep \<noteq> Open then None
      else Some (ch\<lparr>epochs := (epochs ch)(e \<mapsto> ep\<lparr>total_collected := total_collected ep + n\<rparr>)\<rparr>))"

definition claim_staker :: "nat \<Rightarrow> nat \<Rightarrow> int \<Rightarrow> bool \<Rightarrow> fee_chain \<Rightarrow> fee_chain option" where
  "claim_staker e n now proof_ok ch = (case epochs ch e of
     None \<Rightarrow> None
   | Some ep \<Rightarrow>
      if status ep \<noteq> DistributionCommitted \<or> now \<ge> (case closed_at_ts ep of None \<Rightarrow> 0 | Some t \<Rightarrow> t) + claim_window_secs (config ch)
        \<or> \<not> proof_ok \<or> staker_amount ep < staker_claimed_total ep + n then None
      else Some (ch\<lparr>epochs := (epochs ch)(e \<mapsto> ep\<lparr>staker_claimed_total := staker_claimed_total ep + n\<rparr>)\<rparr>))"

text \<open>Governance changes the settings and pauses the protocol; it never touches \<open>next_epoch_id\<close>.\<close>

definition set_params :: "FeeCollectorConfig \<Rightarrow> fee_chain \<Rightarrow> fee_chain" where
  "set_params c ch = ch\<lparr>config := c\<lparr>next_epoch_id := next_epoch_id (config ch)\<rparr>\<rparr>"

inductive reachable :: "fee_chain \<Rightarrow> bool" where
  start: "reachable (init_config c now)"
| process: "reachable ch \<Longrightarrow> process_epoch e now ch = Some ch' \<Longrightarrow> reachable ch'"
| burn: "reachable ch \<Longrightarrow> execute_burn e ch = Some ch' \<Longrightarrow> reachable ch'"
| commit: "reachable ch \<Longrightarrow> commit_distribution e now ch = Some ch' \<Longrightarrow> reachable ch'"
| sweep: "reachable ch \<Longrightarrow> sweep_stale e now ch = Some ch' \<Longrightarrow> reachable ch'"
| intake: "reachable ch \<Longrightarrow> record_intake e n ch = Some ch' \<Longrightarrow> reachable ch'"
| claim: "reachable ch \<Longrightarrow> claim_staker e n now proof_ok ch = Some ch' \<Longrightarrow> reachable ch'"
| params: "reachable ch \<Longrightarrow> reachable (set_params c ch)"

subsection \<open>A tick\<close>

record EpochState =
  es_epochId :: nat
  es_status :: nat
  es_totalCollected :: nat
  es_stakerAmount :: nat
  es_burnExecuted :: bool
  es_distributionCommitted :: bool
  es_startedAtTs :: int
  es_closedAtTs :: "int option"

definition EPOCH_STATUS_OPEN :: nat where
  "EPOCH_STATUS_OPEN = 0"

definition EPOCH_STATUS_SPLITTING :: nat where
  "EPOCH_STATUS_SPLITTING = 1"

fun status_code :: "EpochStatus \<Rightarrow> nat" where
  "status_code Open = 0"
| "status_code Splitting = 1"
| "status_code DistributionCommitted = 2"
| "status_code Stale = 3"

text \<open>\<open>fetchEpoch\<close>; a failed read is \<open>null\<close>, like a missing account. Anchor gives a closing time of zero
  as a truthy object, so the time is kept as it is.\<close>

definition fetchEpoch :: "(nat \<Rightarrow> EpochAccount option) \<Rightarrow> nat \<Rightarrow> EpochState option" where
  "fetchEpoch rd e = (case rd e of
     None \<Rightarrow> None
   | Some raw \<Rightarrow> Some \<lparr>es_epochId = e, es_status = status_code (status raw), es_totalCollected = total_collected raw,
       es_stakerAmount = staker_amount raw, es_burnExecuted = burn_executed raw,
       es_distributionCommitted = staker_distribution_committed raw, es_startedAtTs = started_at_ts raw, es_closedAtTs = closed_at_ts raw\<rparr>)"

datatype action =
    HarvestTransferFees nat nat
  | HarvestConfidentialFees nat nat
  | ProcessEpoch nat nat
  | ExecuteBurn nat
  | EpochSnapshot nat nat
  | TickSkipped string

text \<open>What a tick reads: the config account, the epoch accounts, the holder accounts of the mint, the clock.\<close>

record tick_world =
  tw_config :: "FeeCollectorConfig js"
  tw_epochs :: "nat \<Rightarrow> EpochAccount option"
  tw_holders :: "string list js"
  tw_now :: int

definition findHolderAccounts :: "tick_world \<Rightarrow> nat \<Rightarrow> string list js" where
  "findHolderAccounts w mx = (case tw_holders w of Inl e \<Rightarrow> Inl e | Inr hs \<Rightarrow> Inr (take mx hs))"

text \<open>\<open>tryHarvest\<close>: the transactions it tries; a refused one is counted and logged. Reading the holders is
  outside the handlers, so it may throw.\<close>

definition tryHarvest :: "tick_world \<Rightarrow> nat \<Rightarrow> bool \<Rightarrow> nat \<Rightarrow> action list js" where
  "tryHarvest w epochId ctEnabled maxAccounts = (case findHolderAccounts w maxAccounts of
     Inl e \<Rightarrow> Inl e
   | Inr holders \<Rightarrow> if holders = [] then Inr []
      else Inr (HarvestTransferFees epochId (length holders) # (if ctEnabled then [HarvestConfidentialFees epochId (length holders)] else [])))"

text \<open>\<open>runTick\<close>: the actions of one tick, or the exception that ends it. \<open>hasDb\<close> says whether a snapshot
  database is configured.\<close>

definition runTick :: "nat \<Rightarrow> bool \<Rightarrow> tick_world \<Rightarrow> action list js" where
  "runTick maxHarvestAccounts hasDb w = (case tw_config w of
     Inl e \<Rightarrow> Inl e
   | Inr feeConfig \<Rightarrow>
      if paused feeConfig then Inr [TickSkipped ''paused'']
      else let nextId = next_epoch_id feeConfig; currentId = (if nextId > 0 then nextId - 1 else 0) in
        (case fetchEpoch (tw_epochs w) currentId of
           None \<Rightarrow> Inr [TickSkipped ''no_epoch'']
         | Some epoch \<Rightarrow>
            if es_status epoch = EPOCH_STATUS_OPEN then
              (case tryHarvest w currentId (confidential_transfers_enabled feeConfig) maxHarvestAccounts of
                 Inl e \<Rightarrow> Inl e
               | Inr acts \<Rightarrow> Inr (acts @ (if tw_now w \<ge> es_startedAtTs epoch + epoch_duration_secs feeConfig
                                        then [ProcessEpoch currentId (currentId + 1)] else [])))
            else if es_status epoch = EPOCH_STATUS_SPLITTING \<and> \<not> es_burnExecuted epoch then Inr [ExecuteBurn currentId]
            else if es_status epoch = EPOCH_STATUS_SPLITTING \<and> es_burnExecuted epoch \<and> \<not> es_distributionCommitted epoch \<and> hasDb then
              Inr [EpochSnapshot currentId (es_stakerAmount epoch)]
            else Inr [TickSkipped ''epoch_not_actionable'']))"

subsection \<open>The timer\<close>

text \<open>\<open>startWorker\<close>: a timer, and the flag that keeps ticks from overlapping. A tick is begun by the timer or by
  \<open>start\<close> and ends later.\<close>

record Worker =
  timer :: bool
  running :: bool

definition tick_begin :: "Worker \<Rightarrow> bool \<times> Worker" where
  "tick_begin wk = (if running wk then (False, wk) else (True, wk\<lparr>running := True\<rparr>))"

definition tick_end :: "Worker \<Rightarrow> Worker" where
  "tick_end wk = wk\<lparr>running := False\<rparr>"

definition worker_start :: "Worker \<Rightarrow> bool \<times> Worker" where
  "worker_start wk = (if timer wk then (False, wk) else tick_begin (wk\<lparr>timer := True\<rparr>))"

definition worker_stop :: "Worker \<Rightarrow> Worker" where
  "worker_stop wk = (if timer wk then wk\<lparr>timer := False\<rparr> else wk)"

inductive worker_run :: "Worker \<Rightarrow> nat \<Rightarrow> bool" where
  init: "worker_run \<lparr>timer = False, running = False\<rparr> 0"
| start: "worker_run wk n \<Longrightarrow> worker_run (snd (worker_start wk)) (if fst (worker_start wk) then Suc n else n)"
| fire: "worker_run wk n \<Longrightarrow> timer wk \<Longrightarrow> worker_run (snd (tick_begin wk)) (if fst (tick_begin wk) then Suc n else n)"
| finish: "worker_run wk (Suc n) \<Longrightarrow> worker_run (tick_end wk) n"
| stop: "worker_run wk n \<Longrightarrow> worker_run (worker_stop wk) n"

subsection \<open>Invariants\<close>

text \<open>Exactly the epochs below \<open>next_epoch_id\<close> exist, and exactly the last of them is open.\<close>

definition epochs_ok :: "fee_chain \<Rightarrow> bool" where
  "epochs_ok ch = (0 < next_epoch_id (config ch) \<and>
     (\<forall>e. (epochs ch e \<noteq> None \<longleftrightarrow> e < next_epoch_id (config ch))
        \<and> (\<forall>ep. epochs ch e = Some ep \<longrightarrow> (status ep = Open \<longleftrightarrow> e = next_epoch_id (config ch) - 1))))"

lemma epochs_ok_init: "epochs_ok (init_config c now)"
  by (simp add: epochs_ok_def init_config_def fresh_epoch_def)

lemma epochs_ok_process:
  assumes "epochs_ok ch" and "process_epoch e now ch = Some ch'"
  shows "epochs_ok ch'"
proof -
  let ?n = "next_epoch_id (config ch)"
  from assms(2) obtain ep where ep: "epochs ch e = Some ep" "status ep = Open"
    and ch': "next_epoch_id (config ch') = ?n + 1" "epochs ch' ?n = Some (fresh_epoch now)"
      "\<And>x. x \<noteq> e \<Longrightarrow> x \<noteq> ?n \<Longrightarrow> epochs ch' x = epochs ch x" "\<And>x. x \<noteq> ?n \<Longrightarrow> x = e \<Longrightarrow> \<exists>y. epochs ch' x = Some y \<and> status y = Splitting"
    by (auto simp: process_epoch_def split: option.splits if_splits)
  from ep assms(1) have e: "e = ?n - 1" "0 < ?n" by (auto simp: epochs_ok_def)
  show ?thesis unfolding epochs_ok_def ch'(1)
  proof (intro conjI allI impI)
    fix x
    show "(epochs ch' x \<noteq> None) = (x < ?n + 1)"
      using assms(1) e ch'(2) ch'(3,4) [of x] by (cases "x = ?n"; cases "x = e") (auto simp: epochs_ok_def less_Suc_eq)
    show "(status y = Open) = (x = ?n + 1 - 1)" if "epochs ch' x = Some y" for y
      using assms(1) e ch'(2) ch'(3,4) [of x] that by (cases "x = ?n"; cases "x = e") (auto simp: epochs_ok_def fresh_epoch_def)
  qed simp
qed

text \<open>The other instructions rewrite existing accounts and keep which one is open.\<close>

lemma epochs_ok_update:
  assumes "epochs_ok ch" and "next_epoch_id (config ch') = next_epoch_id (config ch)"
    and "\<And>e. (epochs ch' e = None) = (epochs ch e = None)"
    and "\<And>e ep ep'. epochs ch e = Some ep \<Longrightarrow> epochs ch' e = Some ep' \<Longrightarrow> (status ep' = Open) = (status ep = Open)"
  shows "epochs_ok ch'"
  unfolding epochs_ok_def assms(2)
proof (intro conjI allI impI)
  show "0 < next_epoch_id (config ch)" using assms(1) by (simp add: epochs_ok_def)
  fix e
  show "(epochs ch' e \<noteq> None) = (e < next_epoch_id (config ch))" using assms(1,3) by (simp add: epochs_ok_def)
  show "(status ep = Open) = (e = next_epoch_id (config ch) - 1)" if "epochs ch' e = Some ep" for ep
    using assms(1,3,4) that by (metis epochs_ok_def option.exhaust)
qed

lemma reachable_epochs_ok: "reachable ch \<Longrightarrow> epochs_ok ch"
proof (induction rule: reachable.induct)
  case start
  show ?case by (rule epochs_ok_init)
next
  case process
  then show ?case using epochs_ok_process by blast
next
  case burn
  show ?case by (rule epochs_ok_update [OF burn.IH]) (use burn.hyps in \<open>auto simp: execute_burn_def split: option.splits if_splits\<close>)
next
  case commit
  show ?case by (rule epochs_ok_update [OF commit.IH]) (use commit.hyps in \<open>auto simp: commit_distribution_def split: option.splits if_splits\<close>)
next
  case sweep
  show ?case by (rule epochs_ok_update [OF sweep.IH]) (use sweep.hyps in \<open>auto simp: sweep_stale_def split: option.splits if_splits\<close>)
next
  case intake
  show ?case by (rule epochs_ok_update [OF intake.IH]) (use intake.hyps in \<open>auto simp: record_intake_def split: option.splits if_splits\<close>)
next
  case claim
  show ?case by (rule epochs_ok_update [OF claim.IH]) (use claim.hyps in \<open>auto simp: claim_staker_def split: option.splits if_splits\<close>)
next
  case params
  then show ?case by (simp add: epochs_ok_def set_params_def)
qed

lemma current_epoch_open:
  assumes "reachable ch"
  obtains ep where "epochs ch (next_epoch_id (config ch) - 1) = Some ep" and "status ep = Open" and "0 < next_epoch_id (config ch)"
  using reachable_epochs_ok [OF assms] that unfolding epochs_ok_def by (metis diff_less less_one not_None_eq)

text \<open>A tick over a reachable state always sees an open epoch.\<close>

lemma runTick_reachable:
  assumes "reachable ch" and "tw_config w = Inr (config ch)" and "tw_epochs w = epochs ch" and "\<not> paused (config ch)"
    and "epochs ch (next_epoch_id (config ch) - 1) = Some ep"
  shows "runTick mx hasDb w = (case tryHarvest w (next_epoch_id (config ch) - 1) (confidential_transfers_enabled (config ch)) mx of
      Inl e \<Rightarrow> Inl e
    | Inr acts \<Rightarrow> Inr (acts @ (if tw_now w \<ge> started_at_ts ep + epoch_duration_secs (config ch)
                             then [ProcessEpoch (next_epoch_id (config ch) - 1) (next_epoch_id (config ch))] else [])))"
proof -
  obtain ep' where "epochs ch (next_epoch_id (config ch) - 1) = Some ep'" "status ep' = Open" "0 < next_epoch_id (config ch)"
    using assms(1) by (rule current_epoch_open)
  with assms(2-5) show ?thesis by (simp add: runTick_def Let_def fetchEpoch_def EPOCH_STATUS_OPEN_def split: sum.split)
qed

lemma tryHarvest_total: "tw_holders w = Inr hs \<Longrightarrow> \<exists>acts. tryHarvest w e ct mx = Inr acts"
  by (cases "take mx hs = []") (simp_all add: tryHarvest_def findHolderAccounts_def)

lemma worker_run_one: "worker_run wk n \<Longrightarrow> n = (if running wk then 1 else 0)"
  by (induction rule: worker_run.induct)
    (auto simp: worker_start_def tick_begin_def tick_end_def worker_stop_def split: if_splits)

subsection \<open>Properties\<close>

text \<open>A chain a minute into its first epoch of ten seconds, and a tick that reads it.\<close>

definition sample_params :: FeeCollectorConfig where
  "sample_params = \<lparr>next_epoch_id = 0, epoch_duration_secs = 10, claim_window_secs = 100, min_epoch_total_for_burn = 0,
     burn_bps = 1000, staker_share_bps = 5000, paused = False, confidential_transfers_enabled = False\<rparr>"

definition sample_tick :: "fee_chain \<Rightarrow> tick_world" where
  "sample_tick ch = \<lparr>tw_config = Inr (config ch), tw_epochs = epochs ch, tw_holders = Inr [''h''], tw_now = 1060\<rparr>"



text \<open>
  C18. The crank never burns and never distributes. Processing an epoch opens the next one and advances
  \<open>next_epoch_id\<close>, and the crank looks only at the last epoch, which in every reachable state is open: so a
  tick that reads one state of the chain never tries the burn and never takes the epoch snapshot, whatever
  the history. The branches for a splitting epoch are dead, and the staker share of a closed epoch stays
  undistributed.
\<close>

theorem crank_never_burns_or_distributes:
  assumes "reachable ch" and "tw_config w = Inr (config ch)" and "tw_epochs w = epochs ch"
    and "runTick mx hasDb w = Inr acts"
  shows "\<forall>a \<in> set acts. \<forall>e n. a \<noteq> ExecuteBurn e \<and> a \<noteq> EpochSnapshot e n"
proof -
  obtain ep where ep: "epochs ch (next_epoch_id (config ch) - 1) = Some ep" using assms(1) by (rule current_epoch_open)
  show ?thesis
  proof (cases "paused (config ch)")
    case True
    with assms(2,4) show ?thesis by (auto simp: runTick_def)
  next
    case False
    from assms(4) show ?thesis unfolding runTick_reachable [OF assms(1-3) False ep]
      by (auto simp: tryHarvest_def split: sum.splits if_splits)
  qed
qed

theorem crank_never_burns_or_distributes_witness:
  "\<exists>ch. process_epoch 0 1060 (init_config sample_params 1000) = Some ch
    \<and> (\<exists>ep. epochs ch 0 = Some ep \<and> status ep = Splitting \<and> \<not> burn_executed ep)
    \<and> (\<forall>acts. runTick 10 True (sample_tick ch) = Inr acts \<longrightarrow> (\<forall>a \<in> set acts. \<forall>e n. a \<noteq> ExecuteBurn e \<and> a \<noteq> EpochSnapshot e n))"
proof -
  have "\<exists>ch. process_epoch 0 1060 (init_config sample_params 1000) = Some ch \<and> (\<exists>ep. epochs ch 0 = Some ep \<and> status ep = Splitting \<and> \<not> burn_executed ep)"
    by (simp add: process_epoch_def init_config_def sample_params_def fresh_epoch_def)
  then obtain ch where ch: "process_epoch 0 1060 (init_config sample_params 1000) = Some ch"
    "\<exists>ep. epochs ch 0 = Some ep \<and> status ep = Splitting \<and> \<not> burn_executed ep" by blast
  have "reachable ch" using reachable.start ch(1) by (rule reachable.process)
  then have "\<forall>a \<in> set acts. \<forall>e n. a \<noteq> ExecuteBurn e \<and> a \<noteq> EpochSnapshot e n" if "runTick 10 True (sample_tick ch) = Inr acts" for acts
    by (rule crank_never_burns_or_distributes [OF _ _ _ that]) (simp_all add: sample_tick_def)
  with ch show ?thesis by blast
qed

text \<open>
  Ticks of the fee crank never overlap: however starts, timer firings, stops and completions follow each
  other, at most one tick is under way, and the flag says whether one is.
\<close>

theorem crank_ticks_do_not_overlap:
  assumes "worker_run wk n"
  shows "n \<le> 1 \<and> (running wk \<longleftrightarrow> n = 1)"
  using worker_run_one [OF assms] by auto

theorem crank_ticks_do_not_overlap_witness:
  "worker_run \<lparr>timer = True, running = True\<rparr> 1 \<and> running \<lparr>timer = True, running = True\<rparr>"
proof -
  have "worker_run \<lparr>timer = True, running = True\<rparr> 1"
    using worker_run.start [OF worker_run.init] by (simp add: worker_start_def tick_begin_def)
  with crank_ticks_do_not_overlap [OF this] show ?thesis by simp
qed

end
