(* ===== verification/Wormhole_Vaa.thy ===== *)
theory Wormhole_Vaa
  imports Saep_Prelude
begin

text \<open>
  Wormhole messages of the cross-chain bridge (\<open>services/xrpl-bridge/src/wormhole-vaa.ts\<close>): the binary
  parser, the transfer payload, the acceptance check, the digest and the table of known tokens. Reads
  outside a \<open>DataView\<close> throw a \<open>RangeError\<close>; \<open>slice\<close> cuts silently. SHA-256 is a parameter.
\<close>

subsection \<open>Reading bytes\<close>

text \<open>\<open>getUint8\<close>, \<open>getUint16\<close>, \<open>getUint32\<close> and \<open>getBigUint64\<close> (big-endian) for \<open>w = 1, 2, 4, 8\<close>.\<close>

definition getUint :: "nat \<Rightarrow> bytes \<Rightarrow> nat \<Rightarrow> nat js" where
  "getUint w bs offset = (if offset + w \<le> length bs then Inr (be_nat (take w (drop offset bs))) else Inl ''Offset is outside the bounds of the DataView'')"

definition slice :: "bytes \<Rightarrow> nat \<Rightarrow> nat \<Rightarrow> bytes" where
  "slice bs a b = take (b - a) (drop a bs)"

definition bind :: "'a js \<Rightarrow> ('a \<Rightarrow> 'b js) \<Rightarrow> 'b js" where
  "bind x f = (case x of Inl e \<Rightarrow> Inl e | Inr v \<Rightarrow> f v)"

subsection \<open>Messages\<close>

record VaaSignature =
  guardianIndex :: nat
  sig_r :: bytes
  sig_s :: bytes
  sig_v :: nat

record VaaPayload =
  version :: nat
  guardianSetIndex :: nat
  signatures :: "VaaSignature list"
  timestamp :: nat
  vaa_nonce :: nat
  emitterChain :: nat
  emitterAddress :: bytes
  vaa_sequence :: nat
  consistencyLevel :: nat
  payload :: bytes

record BridgeTransfer =
  sourceChain :: nat
  tokenAddress :: bytes
  transfer_amount :: nat
  recipientChain :: nat
  recipient :: bytes
  fee :: nat

text \<open>The loop over \<open>sigCount\<close> signatures; the result is the signatures and the offset after them.\<close>

fun parse_signatures :: "nat \<Rightarrow> bytes \<Rightarrow> nat \<Rightarrow> (VaaSignature list \<times> nat) js" where
  "parse_signatures 0 bs offset = Inr ([], offset)"
| "parse_signatures (Suc n) bs offset =
     bind (getUint 1 bs offset) (\<lambda>gi.
     bind (getUint 1 bs (offset + 65)) (\<lambda>v.
     bind (parse_signatures n bs (offset + 66)) (\<lambda>rest.
       Inr (\<lparr>guardianIndex = gi, sig_r = slice bs (offset + 1) (offset + 33), sig_s = slice bs (offset + 33) (offset + 65), sig_v = v\<rparr>
             # fst rest, snd rest))))"

definition parse_body :: "nat \<Rightarrow> VaaSignature list \<Rightarrow> bytes \<Rightarrow> nat \<Rightarrow> VaaPayload js" where
  "parse_body gsi sigs bs o0 =
     bind (getUint 4 bs o0) (\<lambda>tstamp.
     bind (getUint 4 bs (o0 + 4)) (\<lambda>nonce.
     bind (getUint 2 bs (o0 + 8)) (\<lambda>chain.
     bind (getUint 8 bs (o0 + 42)) (\<lambda>sq.
     bind (getUint 1 bs (o0 + 50)) (\<lambda>cl.
       Inr \<lparr>version = 1, guardianSetIndex = gsi, signatures = sigs, timestamp = tstamp, vaa_nonce = nonce, emitterChain = chain,
            emitterAddress = slice bs (o0 + 10) (o0 + 42), vaa_sequence = sq, consistencyLevel = cl, payload = drop (o0 + 51) bs\<rparr>)))))"

definition parseVaa :: "bytes \<Rightarrow> VaaPayload js" where
  "parseVaa bs = (if length bs < 6 then Inl ''VAA too short''
     else bind (getUint 1 bs 0) (\<lambda>ver.
       if ver \<noteq> 1 then Inl ''unsupported VAA version''
       else bind (getUint 4 bs 1) (\<lambda>gsi.
            bind (getUint 1 bs 5) (\<lambda>sigCount.
            bind (parse_signatures sigCount bs 6) (\<lambda>r.
            parse_body gsi (fst r) bs (snd r))))))"

definition parseTransferPayload :: "bytes \<Rightarrow> BridgeTransfer js" where
  "parseTransferPayload p = (if length p < 133 then Inl ''transfer payload too short''
     else bind (getUint 1 p 0) (\<lambda>payloadType.
       if payloadType \<noteq> 1 \<and> payloadType \<noteq> 3 then Inl ''unexpected payload type''
       else bind (getUint 8 p 25) (\<lambda>amt.
            bind (getUint 2 p 65) (\<lambda>tokenChain.
            bind (getUint 2 p 99) (\<lambda>rchain.
            bind (getUint 8 p 125) (\<lambda>fe.
              Inr \<lparr>sourceChain = tokenChain, tokenAddress = slice p 33 65, transfer_amount = amt, recipientChain = rchain,
                   recipient = slice p 67 99, fee = fe\<rparr>))))))"

definition MIN_GUARDIAN_SIGNATURES :: nat where
  "MIN_GUARDIAN_SIGNATURES = 13"

definition GUARDIAN_SET_EXPIRY_MS :: int where
  "GUARDIAN_SET_EXPIRY_MS = 86400 * 1000"

text \<open>\<open>Inl\<close> is an invalid message with its reason.\<close>

definition verifyVaa :: "int \<Rightarrow> VaaPayload \<Rightarrow> unit js" where
  "verifyVaa now vaa =
     (if length (signatures vaa) < MIN_GUARDIAN_SIGNATURES then Inl ''insufficient_sigs''
      else if \<not> distinct (map guardianIndex (signatures vaa)) then Inl ''duplicate_guardian''
      else let ageMs = now - int (timestamp vaa) * 1000 in
        if ageMs > GUARDIAN_SET_EXPIRY_MS then Inl ''expired''
        else if ageMs < - 300000 then Inl ''future''
        else Inr ())"

text \<open>The buffer the digest is taken of, and the digest: SHA-256 twice.\<close>

definition digest_body :: "VaaPayload \<Rightarrow> bytes" where
  "digest_body vaa = be_bytes 4 (timestamp vaa) @ be_bytes 4 (vaa_nonce vaa) @ be_bytes 2 (emitterChain vaa) @ emitterAddress vaa
     @ be_bytes 8 (vaa_sequence vaa) @ be_bytes 1 (consistencyLevel vaa) @ payload vaa"

definition vaaDigest :: "(bytes \<Rightarrow> bytes) \<Rightarrow> VaaPayload \<Rightarrow> bytes" where
  "vaaDigest sha vaa = sha (sha (digest_body vaa))"

definition hex_of :: "bytes \<Rightarrow> string" where
  "hex_of bs = concat (map (\<lambda>b. let d = (\<lambda>n. if n < 10 then char_of (48 + n) else char_of (87 + n)) in
     [d (unat b div 16), d (unat b mod 16)]) bs)"

definition KNOWN_TOKENS :: "(string \<times> string) list" where
  "KNOWN_TOKENS = [(''000000000000000000000000c02aaa39b223fe8d0a0e5c4f27ead9083c756cc2'', ''WETH''),
     (''000000000000000000000000a0b86991c6218b36c1d19d4a2e9eb0ce3606eb48'', ''USDC'')]"

definition identifyToken :: "bytes \<Rightarrow> string option" where
  "identifyToken t = map_of KNOWN_TOKENS (hex_of t)"

subsection \<open>Lemmas\<close>

lemma bind_Inr: "bind x f = Inr v \<longleftrightarrow> (\<exists>u. x = Inr u \<and> f u = Inr v)"
  by (simp add: bind_def split: sum.split)

lemma getUint_Inr: "getUint w bs o1 = Inr n \<longleftrightarrow> o1 + w \<le> length bs \<and> n = be_nat (take w (drop o1 bs))"
  by (auto simp: getUint_def)

text \<open>A number read is written back as the bytes it was read from.\<close>

lemma write_read: "o1 + w \<le> length bs \<Longrightarrow> be_bytes w (be_nat (take w (drop o1 bs))) = take w (drop o1 bs)"
  using be_bytes_be_nat [of "take w (drop o1 bs)"] by simp

lemma drop_split: "k = o1 + w \<Longrightarrow> drop o1 bs = take w (drop o1 bs) @ drop k bs"
  by (metis add.commute append_take_drop_id drop_drop)

lemma getUint_bound: "getUint w bs o1 = Inr n \<Longrightarrow> n < 256 ^ w"
  using be_nat_bound [of "take w (drop o1 bs)"] by (auto simp: getUint_Inr)

lemma parse_signatures_offset:
  "parse_signatures n bs o1 = Inr (sigs, o2) \<Longrightarrow> length sigs = n \<and> o2 = o1 + 66 * n \<and> (0 < n \<longrightarrow> o2 \<le> length bs)
    \<and> (\<forall>s \<in> set sigs. length (sig_r s) = 32 \<and> length (sig_s s) = 32 \<and> guardianIndex s < 256)"
proof (induction n arbitrary: o1 sigs)
  case 0
  then show ?case by simp
next
  case (Suc n)
  from Suc.prems obtain gi v rest where g: "getUint 1 bs o1 = Inr gi" and v: "getUint 1 bs (o1 + 65) = Inr v"
    and r: "parse_signatures n bs (o1 + 66) = Inr (rest, o2)"
    and s: "sigs = \<lparr>guardianIndex = gi, sig_r = slice bs (o1 + 1) (o1 + 33), sig_s = slice bs (o1 + 33) (o1 + 65), sig_v = v\<rparr> # rest"
    by (auto simp: bind_Inr)
  have "gi < 256" using getUint_bound [OF g] by simp
  with Suc.IH [OF r] s v show ?case by (cases n) (auto simp: getUint_Inr slice_def)
qed

text \<open>A parsed body is written back byte for byte.\<close>

lemma parse_body_digest:
  assumes "parse_body gsi sigs bs o0 = Inr vaa"
  shows "digest_body vaa = drop o0 bs \<and> o0 + 51 \<le> length bs \<and> signatures vaa = sigs \<and> length (emitterAddress vaa) = 32"
proof -
  from assms have len: "o0 + 51 \<le> length bs" and vaa: "vaa = \<lparr>version = 1, guardianSetIndex = gsi, signatures = sigs,
      timestamp = be_nat (take 4 (drop o0 bs)), vaa_nonce = be_nat (take 4 (drop (o0 + 4) bs)), emitterChain = be_nat (take 2 (drop (o0 + 8) bs)),
      emitterAddress = slice bs (o0 + 10) (o0 + 42), vaa_sequence = be_nat (take 8 (drop (o0 + 42) bs)),
      consistencyLevel = be_nat (take 1 (drop (o0 + 50) bs)), payload = drop (o0 + 51) bs\<rparr>"
    by (auto simp: parse_body_def bind_Inr getUint_Inr)
  have sl: "slice bs (o0 + 10) (o0 + 42) = take 32 (drop (o0 + 10) bs)" by (simp add: slice_def)
  have steps: "drop o0 bs = take 4 (drop o0 bs) @ drop (o0 + 4) bs" "drop (o0 + 4) bs = take 4 (drop (o0 + 4) bs) @ drop (o0 + 8) bs"
    "drop (o0 + 8) bs = take 2 (drop (o0 + 8) bs) @ drop (o0 + 10) bs" "drop (o0 + 10) bs = take 32 (drop (o0 + 10) bs) @ drop (o0 + 42) bs"
    "drop (o0 + 42) bs = take 8 (drop (o0 + 42) bs) @ drop (o0 + 50) bs" "drop (o0 + 50) bs = take 1 (drop (o0 + 50) bs) @ drop (o0 + 51) bs"
    by (rule drop_split, simp)+
  have "digest_body vaa = take 4 (drop o0 bs) @ take 4 (drop (o0 + 4) bs) @ take 2 (drop (o0 + 8) bs) @ take 32 (drop (o0 + 10) bs)
      @ take 8 (drop (o0 + 42) bs) @ take 1 (drop (o0 + 50) bs) @ drop (o0 + 51) bs"
    using len by (simp add: digest_body_def vaa write_read sl del: be_bytes.simps One_nat_def)
  also have "\<dots> = drop o0 bs" using steps by metis
  finally show ?thesis using len by (simp add: vaa sl)
qed

lemma parseVaa_Inr:
  assumes "parseVaa bs = Inr vaa"
  shows "digest_body vaa = drop (6 + 66 * length (signatures vaa)) bs \<and> 57 + 66 * length (signatures vaa) \<le> length bs
    \<and> (\<forall>s \<in> set (signatures vaa). length (sig_r s) = 32 \<and> length (sig_s s) = 32 \<and> guardianIndex s < 256) \<and> length (emitterAddress vaa) = 32"
proof -
  from assms obtain gsi n sigs o2 where s: "parse_signatures n bs 6 = Inr (sigs, o2)" and b: "parse_body gsi sigs bs o2 = Inr vaa"
    by (auto simp: parseVaa_def bind_Inr split: if_splits)
  from parse_signatures_offset [OF s] parse_body_digest [OF b] show ?thesis by auto
qed

lemma be_nat_Nil [simp]: "be_nat [] = 0"
  by (simp add: be_nat_def)

lemma be_nat_append: "be_nat (xs @ ys) = be_nat xs * 256 ^ length ys + be_nat ys"
  by (induction ys rule: rev_induct) (simp_all add: be_nat_snoc algebra_simps flip: append_assoc)

subsection \<open>Forged messages\<close>

definition forged_sig :: "nat \<Rightarrow> bytes" where
  "forged_sig i = of_nat i # replicate 65 0"

definition forged_bytes :: "nat \<Rightarrow> bytes \<Rightarrow> bytes" where
  "forged_bytes n body = [1, 0, 0, 0, 0, of_nat n] @ concat (map forged_sig [0..<n]) @ body"

lemma getUint_prefix: "w = length xs \<Longrightarrow> o1 = length pre \<Longrightarrow> getUint w (pre @ xs @ rest) o1 = Inr (be_nat xs)"
  by (simp add: getUint_def)

lemma parse_forged:
  "\<exists>sigs. parse_signatures (length is) (pre @ concat (map forged_sig is) @ rest) (length pre) = Inr (sigs, length pre + 66 * length is)
    \<and> map guardianIndex sigs = map (\<lambda>i. i mod 256) is"
proof (induction "is" arbitrary: pre)
  case Nil
  then show ?case by simp
next
  case (Cons i "is")
  let ?bs = "pre @ concat (map forged_sig (i # is)) @ rest"
  have zeros: "replicate 65 (0 :: 8 word) = replicate 64 0 @ [0]" by code_simp
  have e: "?bs = (pre @ forged_sig i) @ concat (map forged_sig is) @ rest" and l: "length (pre @ forged_sig i) = length pre + 66"
    by (simp_all add: forged_sig_def)
  from Cons.IH [of "pre @ forged_sig i"] obtain sigs where
    "parse_signatures (length is) ?bs (length pre + 66) = Inr (sigs, length pre + 66 + 66 * length is)"
    "map guardianIndex sigs = map (\<lambda>i. i mod 256) is" unfolding e l by blast
  moreover have "getUint 1 ?bs (length pre) = Inr (i mod 256)"
    using getUint_prefix [of 1 "[of_nat i]" "length pre" pre "replicate 65 0 @ concat (map forged_sig is) @ rest"]
    by (simp add: forged_sig_def be_nat_def unat_of_nat)
  moreover have "getUint 1 ?bs (length pre + 65) = Inr 0"
    using getUint_prefix [of 1 "[0]" "length pre + 65" "pre @ of_nat i # replicate 64 0" "concat (map forged_sig is) @ rest"]
    by (simp add: forged_sig_def be_nat_def zeros)
  ultimately show ?case by (simp add: bind_def algebra_simps)
qed

lemma forged_vaa:
  assumes "51 \<le> length body" and "now - int (be_nat (take 4 body)) * 1000 \<in> {-300000..86400000}"
  shows "\<exists>vaa. parseVaa (forged_bytes 13 body) = Inr vaa \<and> digest_body vaa = body \<and> verifyVaa now vaa = Inr ()"
proof -
  let ?h = "[1, 0, 0, 0, 0, 13 :: 8 word]" and ?bs = "forged_bytes 13 body"
  have bs: "?bs = ?h @ concat (map forged_sig [0..<13]) @ body" by (simp add: forged_bytes_def)
  from parse_forged [of "[0..<13]" ?h body] obtain sigs where
    s: "parse_signatures (length [0..<13]) ?bs (length ?h) = Inr (sigs, length ?h + 66 * length [0..<13])"
    and gi: "map guardianIndex sigs = map (\<lambda>i. i mod 256) [0..<13]" unfolding bs by blast
  have h: "length ?h = 6" "length [0..<13] = 13" by simp_all
  have sigs: "parse_signatures 13 ?bs 6 = Inr (sigs, 864)" using s unfolding h by simp
  have d: "drop 864 ?bs = body" by (simp add: bs forged_sig_def length_concat comp_def sum_list_triv)
  have "length ?bs = 864 + length body" by (simp add: bs forged_sig_def length_concat comp_def sum_list_triv)
  then have "\<exists>vaa. parse_body 0 sigs ?bs 864 = Inr vaa \<and> timestamp vaa = be_nat (take 4 (drop 864 ?bs))"
    using assms(1) by (simp add: parse_body_def bind_def getUint_def)
  then obtain vaa where b: "parse_body 0 sigs ?bs 864 = Inr vaa" "timestamp vaa = be_nat (take 4 body)" unfolding d by blast
  have "getUint 1 ?bs 0 = Inr 1" "getUint 4 ?bs 1 = Inr 0" "getUint 1 ?bs 5 = Inr 13"
    by (simp_all add: bs getUint_def be_nat_def)
  then have p: "parseVaa ?bs = Inr vaa" using sigs b(1) by (simp add: parseVaa_def bind_def bs)
  have sg: "signatures vaa = sigs" "digest_body vaa = body" using parse_body_digest [OF b(1)] d by auto
  have "length sigs = 13" using gi by (metis length_map length_upt diff_zero)
  moreover have "distinct (map guardianIndex sigs)" unfolding gi by code_simp
  ultimately have "verifyVaa now vaa = Inr ()"
    using assms(2) by (simp add: verifyVaa_def sg b(2) MIN_GUARDIAN_SIGNATURES_def GUARDIAN_SET_EXPIRY_MS_def Let_def)
  with p sg(2) show ?thesis by blast
qed

subsection \<open>Properties\<close>

text \<open>
  C24. The digest covers the whole signed body: for every message that parses, the buffer whose hash
  identifies it is, byte for byte, the input after its header and signatures; the fields read and the
  fields written back have the same layout, and no byte of the body is lost.
\<close>

theorem vaa_digest_covers_body:
  assumes "parseVaa bs = Inr vaa"
  shows "digest_body vaa = drop (6 + 66 * length (signatures vaa)) bs \<and> 57 + 66 * length (signatures vaa) \<le> length bs"
  using parseVaa_Inr [OF assms] by blast

theorem vaa_digest_covers_body_witness:
  "\<exists>vaa. parseVaa ([1, 0, 0, 0, 0, 0] @ replicate 51 7) = Inr vaa \<and> digest_body vaa = replicate 51 7"
proof -
  have "\<exists>vaa. parseVaa ([1, 0, 0, 0, 0, 0] @ replicate 51 7) = Inr vaa \<and> signatures vaa = []"
    by (simp add: parseVaa_def parse_body_def bind_def getUint_def be_nat_def)
  then obtain vaa where v: "parseVaa ([1, 0, 0, 0, 0, 0] @ replicate 51 7) = Inr vaa" "signatures vaa = []" by blast
  from vaa_digest_covers_body [OF v(1)] v show ?thesis by auto
qed

text \<open>
  Guardian signatures are never checked: any body of at least 51 bytes with a recent timestamp can be
  wrapped, with thirteen made-up signatures, into bytes that the bridge parses and accepts as a valid
  message with exactly that body.
\<close>

theorem forged_vaa_accepted:
  assumes "51 \<le> length body" and "now - int (be_nat (take 4 body)) * 1000 \<in> {-300000..86400000}"
  shows "\<exists>vaa. parseVaa (forged_bytes 13 body) = Inr vaa \<and> digest_body vaa = body \<and> verifyVaa now vaa = Inr ()"
  using assms by (rule forged_vaa)

theorem forged_vaa_accepted_witness:
  "\<exists>vaa. parseVaa (forged_bytes 13 (replicate 60 0)) = Inr vaa \<and> digest_body vaa = replicate 60 0 \<and> verifyVaa 5000 vaa = Inr ()"
proof (rule forged_vaa_accepted)
  have "be_nat (take 4 (replicate 60 0)) = 0" by code_simp
  then show "5000 - int (be_nat (take 4 (replicate 60 0))) * 1000 \<in> {-300000..86400000}" by (simp del: take_replicate)
qed simp

text \<open>
  Transfer amounts are cut to 64 bits: the amount taken from a transfer payload is the declared 256-bit
  amount modulo \<open>2^64\<close>, so a declared amount of \<open>2^64\<close> counts as zero.
\<close>

theorem transfer_amount_low_bits:
  assumes "parseTransferPayload p = Inr t"
  shows "transfer_amount t = be_nat (slice p 1 33) mod 2 ^ 64"
proof -
  from assms have l: "133 \<le> length p" and t: "transfer_amount t = be_nat (take 8 (drop 25 p))"
    by (auto simp: parseTransferPayload_def bind_Inr getUint_Inr split: if_splits)
  have "slice p 1 33 = take 24 (drop 1 p) @ take 8 (drop 25 p)"
    using take_add [of 24 8 "drop 1 p"] by (simp add: slice_def)
  then have "be_nat (slice p 1 33) = be_nat (take 24 (drop 1 p)) * 256 ^ 8 + be_nat (take 8 (drop 25 p))"
    using l by (simp add: be_nat_append)
  moreover have "be_nat (take 8 (drop 25 p)) < 256 ^ 8" using be_nat_bound [of "take 8 (drop 25 p)"] l by simp
  ultimately show ?thesis using t by simp
qed

theorem transfer_amount_low_bits_witness:
  "\<exists>t. parseTransferPayload (1 # replicate 23 0 @ [1] @ replicate 108 0) = Inr t
    \<and> transfer_amount t = be_nat (slice (1 # replicate 23 0 @ [1] @ replicate 108 0) 1 33) mod 2 ^ 64"
proof -
  have "\<exists>t. parseTransferPayload (1 # replicate 23 0 @ [1] @ replicate 108 0) = Inr t"
    by (simp add: parseTransferPayload_def bind_def getUint_def be_nat_def)
  then show ?thesis using transfer_amount_low_bits by blast
qed

end
