(* ===== verification/Xrpl_Bridge.thy ===== *)
theory Xrpl_Bridge
  imports Wormhole_Vaa
begin

text \<open>
  The cross-chain bridge (\<open>services/xrpl-bridge/src\<close>) with the intent helpers of the SDK
  (\<open>packages/sdk/src/research/cross-chain.ts\<close>): the price oracle and its cache, the XRPL listener with its
  reconnects, settlement with its Redis record, and the HTTP routes.

  Redis, the price service and the Solana connection are parameters. A settlement is cut at its one long
  wait, the transaction: \<open>settle_begin\<close> is everything before it, \<open>settle_end\<close> everything after. Prices and
  amounts are exact rationals where the source uses doubles.
\<close>

subsection \<open>Intents\<close>

datatype CrossChainProtocol = LayerzeroIntent | Cctp | XrplBridgeP | WormholeP

datatype CrossChainState = AwaitingFunds | Attesting | ReadyToFundTask | TaskFunded | Settled | Refunded | Expired | Failed

datatype SupportedIntentChain = Solana | Ethereum | Arbitrum | Base | Xrpl | Bsc

record CrossChainIntentEnvelope =
  intentId :: string
  protocol :: CrossChainProtocol
  in_sourceChain :: SupportedIntentChain
  destinationChain :: SupportedIntentChain
  assetSymbol :: string
  amountAtomic :: string
  beneficiaryDid :: string
  requester :: string
  createdAtMs :: int
  timeoutAtMs :: int
  metadataHash :: "string option"

definition chainIdToSupportedIntentChain :: "nat \<Rightarrow> SupportedIntentChain option" where
  "chainIdToSupportedIntentChain c = (if c = 1 then Some Solana else if c = 2 then Some Ethereum else if c = 4 then Some Bsc else None)"

definition validateCrossChainIntent :: "CrossChainIntentEnvelope \<Rightarrow> SupportedIntentChain list \<Rightarrow> string list" where
  "validateCrossChainIntent i supported =
     (if destinationChain i \<noteq> Solana then [''destinationChain must be solana''] else []) @
     (if in_sourceChain i \<notin> set supported then [''unsupported source chain''] else []) @
     (if timeoutAtMs i \<le> createdAtMs i then [''timeoutAtMs must be after createdAtMs''] else []) @
     (if \<not> (amountAtomic i \<noteq> [] \<and> list_all is_digit (amountAtomic i)) then [''amountAtomic must be an integer string''] else []) @
     (if length (beneficiaryDid i) < 16 then [''beneficiaryDid is too short''] else [])"

definition deriveCrossChainState :: "int \<Rightarrow> int \<Rightarrow> bool \<Rightarrow> bool \<Rightarrow> bool \<Rightarrow> bool \<Rightarrow> bool \<Rightarrow> CrossChainState" where
  "deriveCrossChainState nowMs timeoutMs attested taskFunded settled refunded failed =
     (if failed then Failed else if settled then Settled else if refunded then Refunded
      else if nowMs \<ge> timeoutMs then Expired else if taskFunded then TaskFunded
      else if attested then ReadyToFundTask else if nowMs > 0 then Attesting else AwaitingFunds)"

record SettlementContext =
  cx_protocol :: CrossChainProtocol
  cx_sourceChain :: SupportedIntentChain
  cx_assetSymbol :: string
  cx_amountAtomic :: string
  cx_requester :: string
  cx_beneficiaryDid :: string
  cx_createdAtMs :: int
  cx_timeoutAtMs :: int
  cx_metadataHash :: "string option"

definition buildIntentEnvelope :: "string \<Rightarrow> SettlementContext \<Rightarrow> CrossChainIntentEnvelope" where
  "buildIntentEnvelope i c = \<lparr>intentId = i, protocol = cx_protocol c, in_sourceChain = cx_sourceChain c, destinationChain = Solana,
     assetSymbol = cx_assetSymbol c, amountAtomic = cx_amountAtomic c, beneficiaryDid = cx_beneficiaryDid c, requester = cx_requester c,
     createdAtMs = cx_createdAtMs c, timeoutAtMs = cx_timeoutAtMs c, metadataHash = cx_metadataHash c\<rparr>"

datatype SettlementStatus = SPending | SSettled | SFailed

definition workflowStateFor :: "SettlementStatus \<Rightarrow> CrossChainIntentEnvelope \<Rightarrow> int \<Rightarrow> CrossChainState" where
  "workflowStateFor st i nowMs = deriveCrossChainState nowMs (timeoutAtMs i) False False (st = SSettled) False (st = SFailed)"

record ValidatedPayment =
  txHash :: string
  sender :: string
  drops :: nat
  solanaPubkey :: string
  agentDid :: string
  ledgerIndex :: nat

definition xrplSettlementContext :: "ValidatedPayment \<Rightarrow> int \<Rightarrow> SettlementContext" where
  "xrplSettlementContext p nowMs = \<lparr>cx_protocol = XrplBridgeP, cx_sourceChain = Xrpl, cx_assetSymbol = ''XRP'', cx_amountAtomic = show_nat (drops p),
     cx_requester = sender p, cx_beneficiaryDid = agentDid p, cx_createdAtMs = nowMs, cx_timeoutAtMs = nowMs + 15 * 60000, cx_metadataHash = None\<rparr>"

definition wormholeSettlementContext :: "nat \<Rightarrow> nat \<Rightarrow> string \<Rightarrow> string option \<Rightarrow> string \<Rightarrow> int \<Rightarrow> SettlementContext option" where
  "wormholeSettlementContext sourceChainId amt did tokenSymbol digest nowMs = (case chainIdToSupportedIntentChain sourceChainId of
     None \<Rightarrow> None
   | Some c \<Rightarrow> Some \<lparr>cx_protocol = WormholeP, cx_sourceChain = c, cx_assetSymbol = (case tokenSymbol of None \<Rightarrow> ''UNKNOWN'' | Some t \<Rightarrow> t),
       cx_amountAtomic = show_nat amt, cx_requester = ''wormhole:chain'' @ show_nat sourceChainId, cx_beneficiaryDid = did,
       cx_createdAtMs = nowMs, cx_timeoutAtMs = nowMs + 15 * 60000, cx_metadataHash = Some digest\<rparr>)"

subsection \<open>Price oracle\<close>

record CachedPrice =
  price :: rat
  confidence :: rat
  fetchedAt :: int
  publishTime :: int

text \<open>What the price service answers for a feed: mantissa, confidence, exponent and publish time in seconds of
  a price that is recent enough, if there is one.\<close>

record feed_price =
  fp_price :: int
  fp_conf :: int
  fp_expo :: int
  fp_publish :: int

record price_cache =
  xrpUsd :: "CachedPrice option"
  solUsd :: "CachedPrice option"

record oracle_world =
  ow_now :: int
  xrp_feed :: "feed_price option js"
  sol_feed :: "feed_price option js"

definition pow10 :: "int \<Rightarrow> rat" where
  "pow10 e = (if e \<ge> 0 then 10 ^ nat e else 1 / 10 ^ nat (- e))"

definition fetchPrice :: "int \<Rightarrow> feed_price option js \<Rightarrow> CachedPrice js" where
  "fetchPrice now feed = (case feed of
     Inl e \<Rightarrow> Inl e
   | Inr None \<Rightarrow> Inl ''price too stale for feed''
   | Inr (Some f) \<Rightarrow> Inr \<lparr>price = of_int (fp_price f) * pow10 (fp_expo f), confidence = of_int (fp_conf f) * pow10 (fp_expo f),
       fetchedAt = now, publishTime = fp_publish f * 1000\<rparr>)"

definition isFresh :: "int \<Rightarrow> CachedPrice option \<Rightarrow> bool" where
  "isFresh now c = (case c of None \<Rightarrow> False | Some p \<Rightarrow> now - fetchedAt p < 30000)"

definition assertNotStale :: "int \<Rightarrow> CachedPrice \<Rightarrow> unit js" where
  "assertNotStale now p = (if now - publishTime p > 60000 then Inl ''price stale'' else Inr ())"

text \<open>\<open>getXrpUsd\<close> and \<open>getSolUsd\<close>: the cache entry afterwards, and the price.\<close>

definition getUsd :: "int \<Rightarrow> feed_price option js \<Rightarrow> CachedPrice option \<Rightarrow> CachedPrice option \<times> CachedPrice js" where
  "getUsd now feed cached =
     (let fetched = (if isFresh now cached then Inr (the cached) else fetchPrice now feed) in
      case fetched of
        Inl e \<Rightarrow> (cached, Inl e)
      | Inr p \<Rightarrow> (Some p, bind (assertNotStale now p) (\<lambda>_. Inr p)))"

definition getXrpToSolRate :: "oracle_world \<Rightarrow> price_cache \<Rightarrow> price_cache \<times> rat js" where
  "getXrpToSolRate w s =
     (let (x, xr) = getUsd (ow_now w) (xrp_feed w) (xrpUsd s); (y, yr) = getUsd (ow_now w) (sol_feed w) (solUsd s) in
      (\<lparr>xrpUsd = x, solUsd = y\<rparr>,
       bind xr (\<lambda>xrp. bind yr (\<lambda>sol. if price sol = 0 then Inl ''RangeError'' else Inr (price xrp / price sol)))))"

definition lamports_of :: "nat \<Rightarrow> rat \<Rightarrow> int" where
  "lamports_of xrpDrops rate = \<lfloor>of_nat xrpDrops / 1000000 * rate * 1000000000\<rfloor>"

text \<open>A zero price makes the rate infinite and the conversion to \<open>BigInt\<close> throw; the model throws at once.\<close>

definition convertXrpToLamports :: "oracle_world \<Rightarrow> price_cache \<Rightarrow> nat \<Rightarrow> price_cache \<times> int js" where
  "convertXrpToLamports w s xrpDrops =
     (case getXrpToSolRate w s of (s1, r) \<Rightarrow> (s1, bind r (\<lambda>rate. Inr (lamports_of xrpDrops rate))))"

subsection \<open>Listener\<close>

datatype ledger_amount = Drops nat | Issued

record ledger_tx =
  TransactionType :: string
  Destination :: "string option"
  Amount :: ledger_amount
  Memos :: "(string option \<times> string option) list option"
  Account :: string
  tx_hash :: "string option"

record stream_event =
  ev_tx :: "ledger_tx option"
  ev_validated :: bool
  ev_hash :: "string option"
  ev_ledger_index :: "nat option"

definition str_or :: "string option \<Rightarrow> string" where
  "str_or x = (case x of None \<Rightarrow> [] | Some s \<Rightarrow> s)"

text \<open>\<open>utf8\<close> is \<open>Buffer.from(hex, 'hex').toString('utf8')\<close>.\<close>

definition hexToUtf8 :: "(string \<Rightarrow> string) \<Rightarrow> string \<Rightarrow> string" where
  "hexToUtf8 utf8 h = (if h = [] then [] else utf8 h)"

fun memo_loop :: "(string \<Rightarrow> string) \<Rightarrow> (string option \<times> string option) list \<Rightarrow> string option \<Rightarrow> string option \<Rightarrow> string option \<times> string option" where
  "memo_loop utf8 [] pk did = (pk, did)"
| "memo_loop utf8 (m # ms) pk did =
     (let ty = hexToUtf8 utf8 (str_or (fst m)); dt = hexToUtf8 utf8 (str_or (snd m)) in
      if ty = ''solana/pubkey'' then memo_loop utf8 ms (Some dt) did
      else if ty = ''saep/agent-did'' then memo_loop utf8 ms pk (Some dt)
      else memo_loop utf8 ms pk did)"

definition parseMemos :: "(string \<Rightarrow> string) \<Rightarrow> (string option \<times> string option) list option \<Rightarrow> (string \<times> string) option" where
  "parseMemos utf8 memos = (case memos of
     None \<Rightarrow> None
   | Some ms \<Rightarrow>
      if length ms < 2 then None
      else (case memo_loop utf8 ms None None of (pk, did) \<Rightarrow>
        if \<not> truthy pk \<or> \<not> truthy did then None
        else if length (the pk) < 32 \<or> length (the pk) > 44 then None
        else if length (the did) < 32 \<or> length (the did) > 64 then None
        else Some (the pk, the did)))"

definition handleTransaction :: "(string \<Rightarrow> string) \<Rightarrow> string \<Rightarrow> nat \<Rightarrow> stream_event \<Rightarrow> ValidatedPayment option" where
  "handleTransaction utf8 bridgeWallet minDrops evt = (case ev_tx evt of
     None \<Rightarrow> None
   | Some tx \<Rightarrow>
      if TransactionType tx \<noteq> ''Payment'' \<or> Destination tx \<noteq> Some bridgeWallet then None
      else (case Amount tx of
         Issued \<Rightarrow> None
       | Drops d \<Rightarrow>
          if d < minDrops then None
          else (case parseMemos utf8 (Memos tx) of
             None \<Rightarrow> None
           | Some (pk, did) \<Rightarrow>
              if \<not> ev_validated evt then None
              else Some \<lparr>txHash = (case ev_hash evt of Some h \<Rightarrow> h | None \<Rightarrow> str_or (tx_hash tx)), sender = Account tx, drops = d,
                        solanaPubkey = pk, agentDid = did, ledgerIndex = (case ev_ledger_index evt of None \<Rightarrow> 0 | Some i \<Rightarrow> i)\<rparr>)))"

text \<open>The connection: how often the event handlers have been registered on the client, the reconnect counter,
  the pending reconnect timers with their delays, and whether the listener is stopped. The handlers are
  registered again by every successful \<open>connect\<close>, on the same client.\<close>

record XrplListener =
  handlers :: nat
  reconnectAttempt :: nat
  pending :: "nat list"
  stopped :: bool

definition new_listener :: XrplListener where
  "new_listener = \<lparr>handlers = 0, reconnectAttempt = 0, pending = [], stopped = False\<rparr>"

definition reconnect_delay :: "nat \<Rightarrow> nat" where
  "reconnect_delay attempt = min (1000 * 2 ^ attempt) 60000"

definition scheduleReconnect :: "XrplListener \<Rightarrow> XrplListener" where
  "scheduleReconnect l = l\<lparr>pending := pending l @ [reconnect_delay (reconnectAttempt l)], reconnectAttempt := reconnectAttempt l + 1\<rparr>"

definition connect :: "bool \<Rightarrow> XrplListener \<Rightarrow> XrplListener" where
  "connect ok l = (if ok then l\<lparr>handlers := handlers l + 1, reconnectAttempt := 0\<rparr>
     else if \<not> stopped l then scheduleReconnect l else l)"

definition on_disconnected :: "XrplListener \<Rightarrow> XrplListener" where
  "on_disconnected l = (if stopped l then l else (scheduleReconnect ^^ handlers l) l)"

definition reconnect_fires :: "bool \<Rightarrow> XrplListener \<Rightarrow> XrplListener" where
  "reconnect_fires ok l = (let l1 = l\<lparr>pending := tl (pending l)\<rparr> in if \<not> stopped l1 then connect ok l1 else l1)"

text \<open>Every registered handler emits the payment.\<close>

definition on_transaction :: "(string \<Rightarrow> string) \<Rightarrow> string \<Rightarrow> nat \<Rightarrow> stream_event \<Rightarrow> XrplListener \<Rightarrow> ValidatedPayment list" where
  "on_transaction utf8 bw md evt l = (case handleTransaction utf8 bw md evt of None \<Rightarrow> [] | Some p \<Rightarrow> replicate (handlers l) p)"

subsection \<open>Settlement\<close>

record SettlementResult =
  rs_txHash :: string
  solTxSig :: string
  lamports :: int
  rs_status :: SettlementStatus
  rs_intent :: CrossChainIntentEnvelope
  workflowState :: CrossChainState

datatype bridge_cluster = BMainnet | BDevnet | BLocalnet

definition REDIS_TTL :: int where
  "REDIS_TTL = 86400 * 7"

text \<open>Redis entries with the time in milliseconds at which they expire.\<close>

record bridge =
  redis :: "(string, int \<times> SettlementResult) jsmap"
  prices :: price_cache

definition checkIdempotency :: "int \<Rightarrow> bridge \<Rightarrow> string \<Rightarrow> SettlementResult option" where
  "checkIdempotency now s h = (case map_get (redis s) h of
     None \<Rightarrow> None
   | Some (expiry, r) \<Rightarrow> if now < expiry then Some (r\<lparr>rs_txHash := h\<rparr>) else None)"

definition recordSettlement :: "int \<Rightarrow> string \<Rightarrow> SettlementResult \<Rightarrow> bridge \<Rightarrow> bridge" where
  "recordSettlement now h r s = s\<lparr>redis := map_set h (now + REDIS_TTL * 1000, r) (redis s)\<rparr>"

text \<open>\<open>sha256\<close> stands for the base64url text of a SHA-256 hash.\<close>

record bridge_world =
  bw_oracle :: oracle_world
  sha256_b64 :: "string \<Rightarrow> string"
  bw_cluster :: bridge_cluster
  keypair_ok :: "unit js"

definition simulateSettlement :: "bridge_world \<Rightarrow> ValidatedPayment \<Rightarrow> int \<Rightarrow> CrossChainIntentEnvelope \<Rightarrow> SettlementResult" where
  "simulateSettlement w p lam i = \<lparr>rs_txHash = txHash p, solTxSig = sha256_b64 w (''xrpl-bridge:'' @ txHash p), lamports = lam, rs_status = SSettled,
     rs_intent = i, workflowState = workflowStateFor SSettled i (ow_now (bw_oracle w))\<rparr>"

text \<open>What the part before the transaction leads to: an answer, an exception, or a transaction that pays \<open>lam\<close> for
  the payment.\<close>

datatype begin_result = Answered SettlementResult | Threw string | Sending ValidatedPayment int CrossChainIntentEnvelope

definition settle_begin :: "bridge_world \<Rightarrow> ValidatedPayment \<Rightarrow> SettlementContext \<Rightarrow> bridge \<Rightarrow> bridge \<times> begin_result" where
  "settle_begin w p ctx s =
     (let now = ow_now (bw_oracle w); intent = buildIntentEnvelope (txHash p) ctx in
      case checkIdempotency now s (txHash p) of
        Some r \<Rightarrow> (s, Answered r)
      | None \<Rightarrow> (case convertXrpToLamports (bw_oracle w) (prices s) (drops p) of (o1, conv) \<Rightarrow>
          let s1 = s\<lparr>prices := o1\<rparr> in
          case conv of
            Inl e \<Rightarrow> (s1, Threw e)
          | Inr lam \<Rightarrow> (case bw_cluster w of
              BLocalnet \<Rightarrow> (let r = simulateSettlement w p lam intent in (recordSettlement now (txHash p) r s1, Answered r))
            | BMainnet \<Rightarrow> (s1, Threw ''mainnet settlement requires Jito bundle path'')
            | BDevnet \<Rightarrow> (case keypair_ok w of Inl e \<Rightarrow> (s1, Threw e) | Inr _ \<Rightarrow> (s1, Sending p lam intent)))))"

text \<open>The outcome of building, sending and confirming: a signature, or an exception. A transaction that was sent
  but whose confirmation failed is an exception too.\<close>

definition settle_end :: "int \<Rightarrow> ValidatedPayment \<Rightarrow> int \<Rightarrow> CrossChainIntentEnvelope \<Rightarrow> string js \<Rightarrow> bridge \<Rightarrow> bridge \<times> SettlementResult js" where
  "settle_end now p lam intent outcome s = (case outcome of
     Inr sig \<Rightarrow> (let r = \<lparr>rs_txHash = txHash p, solTxSig = sig, lamports = lam, rs_status = SSettled, rs_intent = intent,
                         workflowState = workflowStateFor SSettled intent now\<rparr> in (recordSettlement now (txHash p) r s, Inr r))
   | Inl e \<Rightarrow> (let r = \<lparr>rs_txHash = txHash p, solTxSig = [], lamports = lam, rs_status = SFailed, rs_intent = intent,
                       workflowState = workflowStateFor SFailed intent now\<rparr> in (recordSettlement now (txHash p) r s, Inl e)))"

text \<open>One settlement run to its end, with the payments it sends.\<close>

definition settle :: "bridge_world \<Rightarrow> string js \<Rightarrow> ValidatedPayment \<Rightarrow> SettlementContext \<Rightarrow> bridge \<Rightarrow> bridge \<times> SettlementResult js \<times> (string \<times> int) list" where
  "settle w outcome p ctx s = (case settle_begin w p ctx s of
     (s1, Answered r) \<Rightarrow> (s1, Inr r, [])
   | (s1, Threw e) \<Rightarrow> (s1, Inl e, [])
   | (s1, Sending q lam intent) \<Rightarrow>
      (case settle_end (ow_now (bw_oracle w)) q lam intent outcome s1 of (s2, r) \<Rightarrow> (s2, r, [(txHash q, lam)])))"

definition getStatus :: "int \<Rightarrow> bridge \<Rightarrow> string \<Rightarrow> SettlementResult option" where
  "getStatus now s h = checkIdempotency now s h"

subsection \<open>Routes\<close>

record xrpl_body =
  xb_tx_hash :: string
  xb_sender :: string
  xb_drops :: string
  xb_solana_pubkey :: string
  xb_agent_did :: string
  xb_ledger_index :: nat

definition XrplSubmitBody :: "xrpl_body \<Rightarrow> bool" where
  "XrplSubmitBody b = (length (xb_tx_hash b) = 64 \<and> 25 \<le> length (xb_sender b) \<and> length (xb_sender b) \<le> 35
     \<and> xb_drops b \<noteq> [] \<and> list_all is_digit (xb_drops b)
     \<and> 32 \<le> length (xb_solana_pubkey b) \<and> length (xb_solana_pubkey b) \<le> 44
     \<and> 32 \<le> length (xb_agent_did b) \<and> length (xb_agent_did b) \<le> 64 \<and> 0 < xb_ledger_index b)"

definition payment_of_body :: "xrpl_body \<Rightarrow> ValidatedPayment" where
  "payment_of_body b = \<lparr>txHash = xb_tx_hash b, sender = xb_sender b, drops = read_nat (xb_drops b), solanaPubkey = xb_solana_pubkey b,
     agentDid = xb_agent_did b, ledgerIndex = xb_ledger_index b\<rparr>"

datatype bridge_reply =
    BErr nat string
  | BOk SettlementResult
  | BOkWormhole string nat "string option" nat SettlementResult

definition bridge_xrpl :: "bridge_world \<Rightarrow> string js \<Rightarrow> xrpl_body option \<Rightarrow> bridge \<Rightarrow> bridge \<times> bridge_reply \<times> (string \<times> int) list" where
  "bridge_xrpl w outcome body s = (case body of
     None \<Rightarrow> (s, BErr 400 ''bad_request'', [])
   | Some b \<Rightarrow>
      if \<not> XrplSubmitBody b then (s, BErr 400 ''bad_request'', [])
      else (case settle w outcome (payment_of_body b) (xrplSettlementContext (payment_of_body b) (ow_now (bw_oracle w))) s of
          (s1, Inl e, sent) \<Rightarrow> (s1, BErr 500 ''settlement_failed'', sent)
        | (s1, Inr r, sent) \<Rightarrow> (s1, BOk r, sent)))"

record wormhole_body =
  wb_vaa :: bytes
  wb_solana_pubkey :: string
  wb_agent_did :: string

definition WormholeBody :: "wormhole_body \<Rightarrow> bool" where
  "WormholeBody b = (32 \<le> length (wb_solana_pubkey b) \<and> length (wb_solana_pubkey b) \<le> 44
     \<and> 32 \<le> length (wb_agent_did b) \<and> length (wb_agent_did b) \<le> 64)"

text \<open>The body holds the decoded message; \<open>Buffer.from(s, 'base64')\<close> never throws. \<open>sha\<close> is SHA-256.\<close>

definition bridge_wormhole :: "(bytes \<Rightarrow> bytes) \<Rightarrow> bridge_world \<Rightarrow> string js \<Rightarrow> wormhole_body option \<Rightarrow> bridge \<Rightarrow> bridge \<times> bridge_reply \<times> (string \<times> int) list" where
  "bridge_wormhole sha w outcome body s = (case body of
     None \<Rightarrow> (s, BErr 400 ''bad_request'', [])
   | Some b \<Rightarrow>
      if \<not> WormholeBody b then (s, BErr 400 ''bad_request'', [])
      else (case parseVaa (wb_vaa b) of
         Inl e \<Rightarrow> (s, BErr 400 ''invalid VAA'', [])
       | Inr vaa \<Rightarrow> (case verifyVaa (ow_now (bw_oracle w)) vaa of
            Inl e \<Rightarrow> (s, BErr 422 ''VAA verification failed'', [])
          | Inr _ \<Rightarrow> (case parseTransferPayload (payload vaa) of
               Inl e \<Rightarrow> (s, BErr 400 ''invalid transfer payload'', [])
             | Inr tr \<Rightarrow>
                let token = identifyToken (tokenAddress tr); digest = hex_of (vaaDigest sha vaa) in
                (case wormholeSettlementContext (sourceChain tr) (transfer_amount tr) (wb_agent_did b) token digest (ow_now (bw_oracle w)) of
                   None \<Rightarrow> (s, BErr 422 ''unsupported wormhole source chain'', [])
                 | Some ctx \<Rightarrow> (case convertXrpToLamports (bw_oracle w) (prices s) (transfer_amount tr) of
                      (o1, Inl e) \<Rightarrow> (s\<lparr>prices := o1\<rparr>, BErr 500 e, [])
                    | (o1, Inr _) \<Rightarrow>
                       (case settle w outcome \<lparr>txHash = digest, sender = ''wormhole:chain'' @ show_nat (sourceChain tr), drops = transfer_amount tr,
                            solanaPubkey = wb_solana_pubkey b, agentDid = wb_agent_did b, ledgerIndex = 0\<rparr> ctx (s\<lparr>prices := o1\<rparr>) of
                          (s1, Inl e, sent) \<Rightarrow> (s1, BErr 500 ''wormhole_settlement_failed'', sent)
                        | (s1, Inr r, sent) \<Rightarrow> (s1, BOkWormhole digest (sourceChain tr) token (transfer_amount tr) r, sent))))))))"

definition bridge_status :: "int \<Rightarrow> bridge \<Rightarrow> string \<Rightarrow> bridge_reply" where
  "bridge_status now s h = (case getStatus now s h of None \<Rightarrow> BErr 404 ''not_found'' | Some r \<Rightarrow> BOk r)"

subsection \<open>Lemmas on prices\<close>

lemma getUsd_recent:
  "getUsd now feed c = (c', Inr p) \<Longrightarrow> c' = Some p \<and> now - publishTime p \<le> 60000 \<and> now - fetchedAt p < 30000"
  by (auto simp: getUsd_def Let_def bind_Inr assertNotStale_def isFresh_def fetchPrice_def split: if_splits sum.splits option.splits)

text \<open>Asking again at the same time gives the cached price.\<close>

lemma getUsd_again:
  assumes "getUsd now feed c = (c', Inr p)"
  shows "getUsd now feed c' = (c', Inr p)"
  using getUsd_recent [OF assms] by (simp add: getUsd_def isFresh_def Let_def bind_def assertNotStale_def)

lemma convert_parts:
  assumes "convertXrpToLamports w o0 d = (o1, Inr lam)"
  obtains xrp sol where "getUsd (ow_now w) (xrp_feed w) (xrpUsd o0) = (xrpUsd o1, Inr xrp)"
    and "getUsd (ow_now w) (sol_feed w) (solUsd o0) = (solUsd o1, Inr sol)"
    and "price sol \<noteq> 0" and "lam = lamports_of d (price xrp / price sol)"
proof -
  obtain x xr where x: "getUsd (ow_now w) (xrp_feed w) (xrpUsd o0) = (x, xr)" by fastforce
  obtain y yr where y: "getUsd (ow_now w) (sol_feed w) (solUsd o0) = (y, yr)" by fastforce
  from assms x y that show thesis
    by (cases xr; cases yr) (auto simp: convertXrpToLamports_def getXrpToSolRate_def bind_def split: if_splits)
qed

lemma convert_again:
  assumes "convertXrpToLamports w o0 d = (o1, Inr lam)"
  shows "convertXrpToLamports w o1 d = (o1, Inr lam)"
proof -
  obtain xrp sol where "getUsd (ow_now w) (xrp_feed w) (xrpUsd o0) = (xrpUsd o1, Inr xrp)"
    "getUsd (ow_now w) (sol_feed w) (solUsd o0) = (solUsd o1, Inr sol)"
    and z: "price sol \<noteq> 0" "lam = lamports_of d (price xrp / price sol)"
    using assms by (rule convert_parts)
  then have "getUsd (ow_now w) (xrp_feed w) (xrpUsd o1) = (xrpUsd o1, Inr xrp)" "getUsd (ow_now w) (sol_feed w) (solUsd o1) = (solUsd o1, Inr sol)"
    by (auto intro: getUsd_again)
  with z show ?thesis by (simp add: convertXrpToLamports_def getXrpToSolRate_def bind_def)
qed

subsection \<open>Lemmas on settlement\<close>

lemma settle_begin_known: "checkIdempotency (ow_now (bw_oracle w)) s (txHash p) = Some r \<Longrightarrow> settle_begin w p ctx s = (s, Answered r)"
  by (simp add: settle_begin_def Let_def)

lemma settle_begin_sending:
  "settle_begin w p ctx s = (s1, Sending q lam i) \<longleftrightarrow> q = p \<and> i = buildIntentEnvelope (txHash p) ctx
    \<and> checkIdempotency (ow_now (bw_oracle w)) s (txHash p) = None \<and> bw_cluster w = BDevnet \<and> keypair_ok w = Inr ()
    \<and> (\<exists>o1. convertXrpToLamports (bw_oracle w) (prices s) (drops p) = (o1, Inr lam) \<and> s1 = s\<lparr>prices := o1\<rparr>)"
  by (auto simp: settle_begin_def Let_def split: option.splits prod.splits sum.splits bridge_cluster.splits)

lemma settle_begin_redis:
  "settle_begin w p ctx s = (s1, res) \<Longrightarrow> h \<noteq> txHash p \<Longrightarrow> map_get (redis s1) h = map_get (redis s) h"
  by (auto simp: settle_begin_def Let_def recordSettlement_def map_get_set split: option.splits prod.splits sum.splits bridge_cluster.splits)

lemma settle_end_redis:
  "settle_end now p lam i outcome s = (s2, r) \<Longrightarrow> h \<noteq> txHash p \<Longrightarrow> map_get (redis s2) h = map_get (redis s) h"
  by (auto simp: settle_end_def Let_def recordSettlement_def map_get_set split: sum.splits)

lemma settle_end_records:
  "settle_end now p lam i outcome s = (s2, r) \<Longrightarrow> \<exists>x. map_get (redis s2) (txHash p) = Some (now + REDIS_TTL * 1000, x)"
  by (auto simp: settle_end_def Let_def recordSettlement_def map_get_set split: sum.splits)

text \<open>A call to \<open>settle\<close>, and the payments sent by calls that follow each other.\<close>

record settle_call =
  c_world :: bridge_world
  c_outcome :: "string js"
  c_payment :: ValidatedPayment
  c_context :: SettlementContext

definition c_now :: "settle_call \<Rightarrow> int" where
  "c_now c = ow_now (bw_oracle (c_world c))"

fun settle_run :: "settle_call list \<Rightarrow> bridge \<Rightarrow> (string \<times> int) list" where
  "settle_run [] s = []"
| "settle_run (c # cs) s = (case settle (c_world c) (c_outcome c) (c_payment c) (c_context c) s of (s1, _, sent) \<Rightarrow> sent @ settle_run cs s1)"

text \<open>An entry that outlives a call keeps its hash from being paid and stays.\<close>

lemma settle_keeps_entry:
  assumes "map_get (redis s) h = Some (e, x)" and "c_now c < e"
    and "settle (c_world c) (c_outcome c) (c_payment c) (c_context c) s = (s1, r, sent)"
  shows "map_get (redis s1) h = Some (e, x) \<and> h \<notin> fst ` set sent"
proof (cases "txHash (c_payment c) = h")
  case True
  then have "checkIdempotency (ow_now (bw_oracle (c_world c))) s (txHash (c_payment c)) = Some (x\<lparr>rs_txHash := h\<rparr>)"
    using assms(1,2) by (simp add: checkIdempotency_def c_now_def)
  then show ?thesis using assms(1,3) by (auto simp: settle_def settle_begin_known)
next
  case False
  obtain s0 b where b: "settle_begin (c_world c) (c_payment c) (c_context c) s = (s0, b)" by fastforce
  have s0: "map_get (redis s0) h = Some (e, x)" using settle_begin_redis [OF b, of h] False assms(1) by auto
  show ?thesis
  proof (cases b)
    case (Sending q lam i)
    obtain s2 r2 where e: "settle_end (c_now c) q lam i (c_outcome c) s0 = (s2, r2)" by fastforce
    have "q = c_payment c" using b Sending by (simp add: settle_begin_sending)
    with settle_end_redis [OF e, of h] s0 False assms(3) b Sending e show ?thesis by (auto simp: settle_def c_now_def)
  qed (use assms(3) b s0 in \<open>auto simp: settle_def\<close>)
qed

lemma settle_run_known:
  "map_get (redis s) h = Some (e, x) \<Longrightarrow> \<forall>c \<in> set cs. c_now c < e \<Longrightarrow> h \<notin> fst ` set (settle_run cs s)"
proof (induction cs arbitrary: s)
  case (Cons c cs)
  obtain s1 r sent where r: "settle (c_world c) (c_outcome c) (c_payment c) (c_context c) s = (s1, r, sent)" by (metis prod_cases3)
  from settle_keeps_entry [OF Cons.prems(1) _ r] Cons.prems(2) have "map_get (redis s1) h = Some (e, x)" "h \<notin> fst ` set sent" by auto
  with Cons r show ?case by (auto simp: image_Un)
qed simp

lemma settle_sent:
  assumes "settle w outcome p ctx s = (s1, r, sent)"
  shows "sent = [] \<or> (\<exists>lam x. sent = [(txHash p, lam)] \<and> map_get (redis s1) (txHash p) = Some (ow_now (bw_oracle w) + REDIS_TTL * 1000, x))"
proof (cases "settle_begin w p ctx s")
  case (Pair s0 b)
  show ?thesis
  proof (cases b)
    case (Sending q lam i)
    obtain s2 r2 where e: "settle_end (ow_now (bw_oracle w)) q lam i outcome s0 = (s2, r2)" by fastforce
    have "q = p" using Pair Sending by (simp add: settle_begin_sending)
    with settle_end_records [OF e] assms Pair Sending e show ?thesis by (auto simp: settle_def)
  qed (use assms Pair in \<open>auto simp: settle_def\<close>)
qed

lemma settle_run_distinct:
  "\<forall>c \<in> set cs. \<forall>d \<in> set cs. c_now d < c_now c + REDIS_TTL * 1000 \<Longrightarrow> distinct (map fst (settle_run cs s))"
proof (induction cs arbitrary: s)
  case (Cons c cs)
  obtain s1 r sent where r: "settle (c_world c) (c_outcome c) (c_payment c) (c_context c) s = (s1, r, sent)" by (metis prod_cases3)
  have d: "distinct (map fst (settle_run cs s1))" using Cons by simp
  from settle_sent [OF r] show ?case
  proof
    assume "sent = []"
    with r d show ?thesis by simp
  next
    assume "\<exists>lam x. sent = [(txHash (c_payment c), lam)] \<and> map_get (redis s1) (txHash (c_payment c)) = Some (ow_now (bw_oracle (c_world c)) + REDIS_TTL * 1000, x)"
    then obtain lam x where sent: "sent = [(txHash (c_payment c), lam)]"
      and e: "map_get (redis s1) (txHash (c_payment c)) = Some (c_now c + REDIS_TTL * 1000, x)" by (auto simp: c_now_def)
    have "txHash (c_payment c) \<notin> fst ` set (settle_run cs s1)" using settle_run_known [OF e] Cons.prems by auto
    with r sent d show ?thesis by simp
  qed
qed simp

lemma payload_of_digest_body:
  assumes "parseVaa bs = Inr vaa"
  shows "payload vaa = drop 51 (digest_body vaa)"
proof -
  have "length (emitterAddress vaa) = 32" using parseVaa_Inr [OF assms] by blast
  then show ?thesis by (simp add: digest_body_def del: be_bytes.simps)
qed

lemma fold_zeros: "foldl (\<lambda>acc b. acc * 256 + unat b) 0 (replicate n (0 :: 8 word)) = 0"
  by (induction n) simp_all

text \<open>A body with the current time in front of a payload.\<close>

definition forged_body :: "int \<Rightarrow> bytes \<Rightarrow> bytes" where
  "forged_body now pl = be_bytes 4 (nat (now div 1000)) @ replicate 47 0 @ pl"

lemma forged_body_time:
  assumes "0 \<le> now" and "now div 1000 < 2 ^ 32"
  shows "now - int (be_nat (take 4 (forged_body now pl))) * 1000 \<in> {-300000..86400000}"
proof -
  have "take 4 (forged_body now pl) = be_bytes 4 (nat (now div 1000))" by (simp add: forged_body_def del: be_bytes.simps)
  moreover have "nat (now div 1000) < 256 ^ 4" using assms by simp
  ultimately have "int (be_nat (take 4 (forged_body now pl))) = now div 1000" using assms(1) by (simp add: be_nat_be_bytes del: be_bytes.simps)
  moreover have "now - now div 1000 * 1000 = now mod 1000" by (simp add: minus_div_mult_eq_mod)
  moreover have "0 \<le> now mod 1000 \<and> now mod 1000 < 1000" by (intro conjI pos_mod_sign pos_mod_bound) simp_all
  ultimately show ?thesis unfolding atLeastAtMost_iff by linarith
qed

subsection \<open>Properties\<close>

text \<open>A devnet bridge with XRP at half a dollar and SOL at a hundred dollars, and a payment of two XRP.\<close>

definition sample_bw :: "int \<Rightarrow> bridge_world" where
  "sample_bw now = \<lparr>bw_oracle = \<lparr>ow_now = now, xrp_feed = Inr (Some \<lparr>fp_price = 50, fp_conf = 1, fp_expo = -2, fp_publish = now div 1000\<rparr>),
     sol_feed = Inr (Some \<lparr>fp_price = 100, fp_conf = 1, fp_expo = 0, fp_publish = now div 1000\<rparr>)\<rparr>,
     sha256_b64 = (\<lambda>s. s), bw_cluster = BDevnet, keypair_ok = Inr ()\<rparr>"

definition sample_xp :: ValidatedPayment where
  "sample_xp = \<lparr>txHash = replicate 64 (CHR ''A''), sender = replicate 30 (CHR ''r''), drops = 2000000, solanaPubkey = replicate 40 (CHR ''S''),
     agentDid = replicate 40 (CHR ''d''), ledgerIndex = 7\<rparr>"

definition empty_bridge :: bridge where
  "empty_bridge = \<lparr>redis = [], prices = \<lparr>xrpUsd = None, solUsd = None\<rparr>\<rparr>"

lemma sample_convert: "\<exists>o1. convertXrpToLamports (bw_oracle (sample_bw 1000000)) (prices empty_bridge) 2000000 = (o1, Inr 10000000)"
  by (simp add: convertXrpToLamports_def getXrpToSolRate_def getUsd_def isFresh_def fetchPrice_def assertNotStale_def bind_def pow10_def
      sample_bw_def empty_bridge_def Let_def lamports_of_def)

text \<open>
  C23. A payment is settled at most once: whatever settlements are run one after the other, with whatever
  outcomes, within the seven days a record is kept, no source transaction is paid twice.
\<close>

theorem settlements_pay_once:
  assumes "\<forall>c \<in> set calls. \<forall>d \<in> set calls. c_now d < c_now c + REDIS_TTL * 1000"
  shows "distinct (map fst (settle_run calls s))"
  using assms by (rule settle_run_distinct)

theorem settlements_pay_once_witness:
  "distinct (map fst (settle_run [\<lparr>c_world = sample_bw 1000000, c_outcome = Inr ''SIG'', c_payment = sample_xp, c_context = xrplSettlementContext sample_xp 1000000\<rparr>,
     \<lparr>c_world = sample_bw 2000000, c_outcome = Inr ''SIG2'', c_payment = sample_xp, c_context = xrplSettlementContext sample_xp 2000000\<rparr>] empty_bridge))"
  by (rule settlements_pay_once) (simp add: c_now_def sample_bw_def REDIS_TTL_def)

text \<open>
  A reconnect makes the bridge pay twice: after one lost and restored connection every ledger payment is
  announced twice, and a settlement that finds no record and goes on to pay does not keep the second one,
  started before the first has written its record, from paying the same amount for the same transaction.
\<close>

theorem reconnect_pays_twice:
  assumes "handleTransaction utf8 wallet minDrops evt = Some p" and "settle_begin w p ctx s = (s1, Sending p lam i)"
  shows "on_transaction utf8 wallet minDrops evt (reconnect_fires True (on_disconnected (connect True new_listener))) = [p, p]
    \<and> settle_begin w p ctx s1 = (s1, Sending p lam i)"
proof -
  have "handlers (reconnect_fires True (on_disconnected (connect True new_listener))) = 2"
    by (simp add: reconnect_fires_def on_disconnected_def connect_def new_listener_def scheduleReconnect_def)
  moreover from assms(2) obtain o1 where o1: "convertXrpToLamports (bw_oracle w) (prices s) (drops p) = (o1, Inr lam)" "s1 = s\<lparr>prices := o1\<rparr>"
    by (auto simp: settle_begin_sending)
  ultimately show ?thesis using assms convert_again [OF o1(1)]
    by (simp add: on_transaction_def numeral_2_eq_2 settle_begin_sending checkIdempotency_def)
qed

theorem reconnect_pays_twice_witness:
  "\<exists>s1 i. settle_begin (sample_bw 1000000) sample_xp (xrplSettlementContext sample_xp 1000000) empty_bridge = (s1, Sending sample_xp 10000000 i)
    \<and> settle_begin (sample_bw 1000000) sample_xp (xrplSettlementContext sample_xp 1000000) s1 = (s1, Sending sample_xp 10000000 i)"
proof -
  let ?evt = "\<lparr>ev_tx = Some \<lparr>TransactionType = ''Payment'', Destination = Some ''W'', Amount = Drops 2000000,
     Memos = Some [(Some ''solana/pubkey'', Some (replicate 40 (CHR ''S''))), (Some ''saep/agent-did'', Some (replicate 40 (CHR ''d'')))],
     Account = replicate 30 (CHR ''r''), tx_hash = None\<rparr>, ev_validated = True, ev_hash = Some (replicate 64 (CHR ''A'')), ev_ledger_index = Some 7\<rparr>"
  have h: "handleTransaction (\<lambda>s. s) ''W'' 1 ?evt = Some sample_xp"
    by (simp add: handleTransaction_def parseMemos_def hexToUtf8_def str_or_def sample_xp_def)
  have "\<exists>s1 i. settle_begin (sample_bw 1000000) sample_xp (xrplSettlementContext sample_xp 1000000) empty_bridge = (s1, Sending sample_xp 10000000 i)"
    using sample_convert by (auto simp: settle_begin_sending checkIdempotency_def empty_bridge_def map_get_def sample_bw_def sample_xp_def)
  then obtain s1 i where b: "settle_begin (sample_bw 1000000) sample_xp (xrplSettlementContext sample_xp 1000000) empty_bridge = (s1, Sending sample_xp 10000000 i)"
    by blast
  from reconnect_pays_twice [OF h b] b show ?thesis by blast
qed

text \<open>
  Conversion uses recent prices only: an amount is converted with a price of each asset that was published
  at most sixty seconds ago and fetched less than thirty seconds ago, and is the proportional number of
  lamports rounded down.
\<close>

theorem conversion_uses_recent_prices:
  assumes "convertXrpToLamports w o0 d = (o1, Inr lam)"
  shows "\<exists>xrp sol. xrpUsd o1 = Some xrp \<and> solUsd o1 = Some sol \<and> price sol \<noteq> 0
    \<and> (\<forall>p \<in> {xrp, sol}. ow_now w - publishTime p \<le> 60000 \<and> ow_now w - fetchedAt p < 30000)
    \<and> lam = lamports_of d (price xrp / price sol)"
proof -
  obtain xrp sol where g: "getUsd (ow_now w) (xrp_feed w) (xrpUsd o0) = (xrpUsd o1, Inr xrp)"
    "getUsd (ow_now w) (sol_feed w) (solUsd o0) = (solUsd o1, Inr sol)"
    and z: "price sol \<noteq> 0" "lam = lamports_of d (price xrp / price sol)"
    using assms by (rule convert_parts)
  from getUsd_recent [OF g(1)] getUsd_recent [OF g(2)] z show ?thesis by auto
qed

theorem conversion_uses_recent_prices_witness:
  "\<exists>o1 xrp sol. convertXrpToLamports (bw_oracle (sample_bw 1000000)) (prices empty_bridge) 2000000 = (o1, Inr 10000000)
    \<and> xrpUsd o1 = Some xrp \<and> solUsd o1 = Some sol \<and> 1000000 - publishTime xrp \<le> 60000"
proof -
  obtain o1 where o1: "convertXrpToLamports (bw_oracle (sample_bw 1000000)) (prices empty_bridge) 2000000 = (o1, Inr 10000000)"
    using sample_convert by blast
  have "ow_now (bw_oracle (sample_bw 1000000)) = 1000000" by (simp add: sample_bw_def)
  with conversion_uses_recent_prices [OF o1] o1 show ?thesis by auto
qed



end
