(* ===== verification/Buyback_Bot.thy ===== *)
theory Buyback_Bot
  imports Saep_Prelude
begin

text \<open>
  The buyback bot (\<open>services/buyback-bot/src/worker.ts\<close>, \<open>jupiter.ts\<close>): one tick reads the fee balance, asks
  Jupiter for a quote, swaps and burns what it received. The RPC node, Jupiter and the key file are
  parameters; the timer is the one of the fee crank.
\<close>

subsection \<open>Quotes\<close>

text \<open>\<open>priceImpactPct\<close> is kept as the number \<open>Number(pct)\<close> gives, with \<open>None\<close> for one that is not finite.\<close>

record QuoteResponse =
  outAmount :: nat
  priceImpactPct :: "rat option"

text \<open>\<open>Math.round\<close> of a number that is not negative.\<close>

definition priceImpactPctToBps :: "rat option \<Rightarrow> int" where
  "priceImpactPctToBps pct = (case pct of None \<Rightarrow> 0 | Some x \<Rightarrow> \<lfloor>\<bar>x\<bar> * 10000 + 1 / 2\<rfloor>)"

definition isWithinSlippageCap :: "QuoteResponse \<Rightarrow> int \<Rightarrow> bool" where
  "isWithinSlippageCap q capBps = (priceImpactPctToBps (priceImpactPct q) \<le> capBps)"

subsection \<open>A tick\<close>

record Config =
  feeAccumulatorAccount :: "string option"
  swapThresholdUsdc :: nat
  slippageBps :: int
  activeMode :: bool
  operatorKeypairJson :: "string option"
  operatorKeypairPath :: "string option"

record TickResult =
  feeBalanceUsdcBase :: nat
  swapped :: bool
  reason :: "string option"
  quotedSaepOutBase :: "nat option"
  quotedPriceImpactBps :: "int option"

text \<open>What a tick meets. A balance read before the swap that fails counts as zero.\<close>

record tick_env =
  parse_account :: "string \<Rightarrow> bool"
  usdc_balance :: "nat js"
  jupiter_quote :: "nat \<Rightarrow> int \<Rightarrow> QuoteResponse js"
  load_key :: "string \<Rightarrow> unit js"
  saep_mint_ok :: bool
  jupiter_swap :: "QuoteResponse \<Rightarrow> unit js"
  pre_balance :: "nat js"
  send_swap :: "unit js"
  post_balance :: "nat js"
  send_burn :: "nat \<Rightarrow> unit js"

datatype effect = Swap nat | Burn nat

definition resolveKeypair :: "tick_env \<Rightarrow> Config \<Rightarrow> unit js" where
  "resolveKeypair w cfg =
     (if truthy (operatorKeypairJson cfg) then load_key w (the (operatorKeypairJson cfg))
      else if truthy (operatorKeypairPath cfg) then load_key w (the (operatorKeypairPath cfg))
      else Inl ''active mode requires OPERATOR_KEYPAIR_PATH or OPERATOR_KEYPAIR_JSON'')"

text \<open>The swap: the tokens received, and whether a transaction was sent. A failed confirmation or balance read
  after sending is an exception too.\<close>

definition do_swap :: "tick_env \<Rightarrow> QuoteResponse \<Rightarrow> nat \<Rightarrow> effect list \<times> int js" where
  "do_swap w quote balance = (case jupiter_swap w quote of
     Inl e \<Rightarrow> ([], Inl e)
   | Inr _ \<Rightarrow> let pre = (case pre_balance w of Inl _ \<Rightarrow> 0 | Inr b \<Rightarrow> b) in
      (case send_swap w of
         Inl e \<Rightarrow> ([], Inl e)
       | Inr _ \<Rightarrow> (case post_balance w of Inl e \<Rightarrow> ([Swap balance], Inl e) | Inr post \<Rightarrow> ([Swap balance], Inr (int post - int pre)))))"

definition runTick :: "Config \<Rightarrow> tick_env \<Rightarrow> effect list \<times> TickResult js" where
  "runTick cfg w =
     (let skip = (\<lambda>bal rsn out imp. Inr \<lparr>feeBalanceUsdcBase = bal, swapped = False, reason = Some rsn, quotedSaepOutBase = out, quotedPriceImpactBps = imp\<rparr>) in
      if \<not> truthy (feeAccumulatorAccount cfg) then ([], skip 0 ''fee_account_unset'' None None)
      else if \<not> parse_account w (the (feeAccumulatorAccount cfg)) then ([], Inl ''invalid BUYBACK_FEE_ACCUMULATOR_ACCOUNT'')
      else (case usdc_balance w of
         Inl e \<Rightarrow> ([], Inl e)
       | Inr balance \<Rightarrow>
          if balance < swapThresholdUsdc cfg then ([], skip balance ''below_threshold'' None None)
          else (case jupiter_quote w balance (slippageBps cfg) of
             Inl e \<Rightarrow> ([], Inl e)
           | Inr quote \<Rightarrow>
              let impactBps = priceImpactPctToBps (priceImpactPct quote) in
              if \<not> isWithinSlippageCap quote (slippageBps cfg) then ([], skip balance ''slippage_above_cap'' (Some (outAmount quote)) (Some impactBps))
              else if \<not> activeMode cfg then ([], skip balance ''observe_mode'' (Some (outAmount quote)) (Some impactBps))
              else (case resolveKeypair w cfg of
                 Inl _ \<Rightarrow> ([], Inl ''active mode requires OPERATOR_KEYPAIR_PATH or OPERATOR_KEYPAIR_JSON'')
               | Inr _ \<Rightarrow>
                  if \<not> saep_mint_ok w then ([], Inl ''Invalid public key input'')
                  else (case do_swap w quote balance of
                     (eff, Inl e) \<Rightarrow> (eff, Inl e)
                   | (eff, Inr received) \<Rightarrow>
                      (let res = (\<lambda>rsn. Inr \<lparr>feeBalanceUsdcBase = balance, swapped = True, reason = rsn,
                             quotedSaepOutBase = Some (outAmount quote), quotedPriceImpactBps = Some impactBps\<rparr>) in
                       if received \<le> 0 then (eff, res (Some ''zero_saep_received''))
                       else (case send_burn w (nat received) of
                          Inl e \<Rightarrow> (eff, Inl e)
                        | Inr _ \<Rightarrow> (eff @ [Burn (nat received)], res None))))))))"

subsection \<open>Properties\<close>

lemma do_swap_effects: "do_swap w quote balance = (eff, r) \<Longrightarrow> eff = [] \<or> eff = [Swap balance]"
  by (auto simp: do_swap_def Let_def split: sum.splits)

lemma do_swap_received:
  "do_swap w quote balance = (eff, Inr n) \<Longrightarrow> eff = [Swap balance] \<and> (\<exists>post. post_balance w = Inr post \<and> n = int post - int (case pre_balance w of Inl _ \<Rightarrow> 0 | Inr b \<Rightarrow> b))"
  by (auto simp: do_swap_def Let_def split: sum.splits)

definition sample_env :: tick_env where
  "sample_env = \<lparr>parse_account = (\<lambda>_. True), usdc_balance = Inr 60000000, jupiter_quote = (\<lambda>_ _. Inr \<lparr>outAmount = 900, priceImpactPct = Some (1 / 100)\<rparr>),
     load_key = (\<lambda>_. Inr ()), saep_mint_ok = True, jupiter_swap = (\<lambda>_. Inr ()), pre_balance = Inr 100, send_swap = Inr (), post_balance = Inr 990,
     send_burn = (\<lambda>_. Inr ())\<rparr>"

definition sample_bot :: Config where
  "sample_bot = \<lparr>feeAccumulatorAccount = Some ''F'', swapThresholdUsdc = 50000000, slippageBps = 200, activeMode = True,
     operatorKeypairJson = None, operatorKeypairPath = Some ''K''\<rparr>"

lemma sample_buyback: "fst (runTick sample_bot sample_env) = [Swap 60000000, Burn 890]"
proof -
  have "priceImpactPctToBps (Some (1 / 100)) = 100" by (simp add: priceImpactPctToBps_def floor_eq_iff)
  then show ?thesis
    by (simp add: runTick_def sample_bot_def sample_env_def Let_def isWithinSlippageCap_def resolveKeypair_def do_swap_def)
qed



text \<open>
  A quote whose price impact is not a number passes the slippage gate with an impact of zero.
\<close>

theorem unreadable_impact_passes_gate:
  assumes "priceImpactPct q = None" and "0 \<le> capBps"
  shows "isWithinSlippageCap q capBps"
  using assms by (simp add: isWithinSlippageCap_def priceImpactPctToBps_def)

theorem unreadable_impact_passes_gate_witness: "isWithinSlippageCap \<lparr>outAmount = 5, priceImpactPct = None\<rparr> 200"
  by (rule unreadable_impact_passes_gate) simp_all

end
