(* ===== verification/Webhook_Hub.thy ===== *)
theory Webhook_Hub
  imports Saep_Prelude
begin

text \<open>
  Webhooks of the discovery service: the hub that keeps subscriptions, events and deliveries, signs and
  sends them and retries (\<open>services/discovery/src/webhooks.ts\<close>, class \<open>WebhookHub\<close>), and its file
  store (\<open>webhook-store.ts\<close>). A delivery attempt is two steps, up to the \<open>fetch\<close> and after it, so
  that attempts overlap as they do in the code. ISO timestamps are kept as the milliseconds they print,
  except where the code compares them with a text from outside.
\<close>

subsection \<open>Data\<close>

datatype WebhookEventType = TaskCreated | TaskVerified | TaskReleased | TaskDisputed | BidRevealed
  | StreamWithdrawn | AgentStatusChanged

datatype WebhookResourceType = ResTask | ResBid | ResStream | ResAgent

datatype DeliveryState = Pending | Delivered | Retrying | DeadLetter

record WebhookSubscriptionInput =
  in_url :: string
  in_events :: "WebhookEventType list"
  in_secret :: string
  in_description :: "string option"

text \<open>The payload is carried as its JSON text.\<close>

record WebhookEventInput =
  ei_type :: WebhookEventType
  ei_chain :: string
  ei_cluster :: string
  ei_resource :: "WebhookResourceType \<times> string"
  ei_payload :: string
  ei_id :: "string option"

record WebhookEvent =
  ev_id :: string
  ev_type :: WebhookEventType
  ev_chain :: string
  ev_cluster :: string
  ev_resource :: "WebhookResourceType \<times> string"
  ev_payload :: string
  emitted_at :: int

record StoredPreviousSecret =
  ps_version :: nat
  ps_preview :: string
  ps_rotated_at :: int

record WebhookSubscriptionRecord =
  sub_id :: string
  sub_url :: string
  sub_events :: "WebhookEventType list"
  description :: "string option"
  sub_created_at :: int
  sub_updated_at :: int
  secret_preview :: string
  secret_version :: nat
  rotated_at :: "int option"
  previous_secret_versions :: "nat list"

record StoredSubscription = WebhookSubscriptionRecord +
  secret :: string
  previous_secrets :: "StoredPreviousSecret list"

record WebhookDeliveryRecord =
  del_id :: string
  subscription_id :: string
  event_id :: string
  event_type :: WebhookEventType
  event_resource :: "WebhookResourceType \<times> string"
  del_state :: DeliveryState
  attempt_count :: nat
  target_url :: string
  del_created_at :: int
  last_attempt_at :: "int option"
  next_attempt_at :: "int option"
  completed_at :: "int option"
  last_status_code :: "int option"
  last_error :: "string option"
  signature_version :: "nat option"
  signature_window_seconds :: "nat option"

record WebhookStateSnapshot =
  sn_subscriptions :: "StoredSubscription list"
  sn_deliveries :: "WebhookDeliveryRecord list"
  sn_events :: "WebhookEvent list"

text \<open>The options of the hub as the constructor leaves them; \<open>has_store\<close> says whether a file is
  configured.\<close>

record hub_opts =
  retryBaseMs :: int
  maxAttempts :: nat
  signatureWindowSeconds :: nat
  has_store :: bool

definition new_opts :: "int option \<Rightarrow> nat option \<Rightarrow> nat option \<Rightarrow> bool \<Rightarrow> hub_opts" where
  "new_opts base tries window st = \<lparr>retryBaseMs = max 1 (case base of None \<Rightarrow> 1000 | Some n \<Rightarrow> n),
     maxAttempts = max 1 (case tries of None \<Rightarrow> 4 | Some n \<Rightarrow> n),
     signatureWindowSeconds = max 1 (case window of None \<Rightarrow> 300 | Some n \<Rightarrow> n), has_store = st\<rparr>"

text \<open>\<open>timers\<close> are the scheduled dispatches with their delays, \<open>in_flight\<close> the deliveries whose
  \<open>fetch\<close> has not returned, \<open>id_calls\<close> counts the calls of \<open>idFactory\<close>, and \<open>store_file\<close> is the content
  of the store file.\<close>

record hub =
  subscriptions :: "(string, StoredSubscription) jsmap"
  deliveries :: "(string, WebhookDeliveryRecord) jsmap"
  hub_events :: "(string, WebhookEvent) jsmap"
  timers :: "(string \<times> int) list"
  in_flight :: "string list"
  id_calls :: nat
  store_file :: "WebhookStateSnapshot option"

text \<open>What the hub gets from outside: \<open>idFactory\<close> by the number of the call, the keyed hash and the JSON
  text of an event.\<close>

record hub_env =
  idFactory :: "nat \<Rightarrow> string"
  hmac :: "string \<Rightarrow> string \<Rightarrow> string"
  event_json :: "WebhookEvent \<Rightarrow> string"

record webhook_request =
  rq_url :: string
  rq_delivery :: string
  rq_event :: string
  rq_type :: WebhookEventType
  rq_timestamp :: string
  rq_signature_version :: nat
  rq_window :: nat
  rq_signature :: string
  rq_body :: string

subsection \<open>Helpers\<close>

definition previewSecret :: "string \<Rightarrow> string" where
  "previewSecret s = (if length s \<le> 8 then s @ ''***'' else take 4 s @ ''...'' @ drop (length s - 4) s)"

definition sanitizeSubscription :: "StoredSubscription \<Rightarrow> WebhookSubscriptionRecord" where
  "sanitizeSubscription s = (WebhookSubscriptionRecord.truncate s)\<lparr>previous_secret_versions := map ps_version (previous_secrets s)\<rparr>"

definition normalizeSubscription :: "StoredSubscription \<Rightarrow> StoredSubscription" where
  "normalizeSubscription s = s\<lparr>previous_secret_versions := map ps_version (previous_secrets s)\<rparr>"

text \<open>\<open>timingSafeEqual\<close> compares byte by byte.\<close>

definition authorizeToken :: "string option \<Rightarrow> string option \<Rightarrow> bool" where
  "authorizeToken provided expected =
     (if \<not> truthy provided \<or> \<not> truthy expected then False
      else if length (the provided) \<noteq> length (the expected) then False
      else list_all2 (=) (the provided) (the expected))"

definition snapshot_of_hub :: "hub \<Rightarrow> WebhookStateSnapshot" where
  "snapshot_of_hub h = \<lparr>sn_subscriptions = map_values (subscriptions h), sn_deliveries = map_values (deliveries h),
     sn_events = map_values (hub_events h)\<rparr>"

definition persistState :: "hub_opts \<Rightarrow> hub \<Rightarrow> hub" where
  "persistState opts h = (if has_store opts then h\<lparr>store_file := Some (snapshot_of_hub h)\<rparr> else h)"

definition put_delivery :: "WebhookDeliveryRecord \<Rightarrow> hub \<Rightarrow> hub" where
  "put_delivery d h = h\<lparr>deliveries := map_set (del_id d) d (deliveries h)\<rparr>"

definition schedule :: "string \<Rightarrow> int \<Rightarrow> hub \<Rightarrow> hub" where
  "schedule i delayMs h = h\<lparr>timers := timers h @ [(i, delayMs)]\<rparr>"

subsection \<open>Start\<close>

definition unfinished :: "WebhookDeliveryRecord \<Rightarrow> bool" where
  "unfinished d = (del_state d = Pending \<or> del_state d = Retrying)"

definition resume_delay :: "int \<Rightarrow> WebhookDeliveryRecord \<Rightarrow> int" where
  "resume_delay now d = (case next_attempt_at d of None \<Rightarrow> 0 | Some t \<Rightarrow> max 0 (t - now))"

definition resumePendingDeliveries :: "int \<Rightarrow> hub \<Rightarrow> hub" where
  "resumePendingDeliveries now h = h\<lparr>timers := timers h @
     map (\<lambda>d. (del_id d, resume_delay now d)) (filter unfinished (map_values (deliveries h)))\<rparr>"

definition webhook_store_load :: "WebhookStateSnapshot option \<Rightarrow> WebhookStateSnapshot" where
  "webhook_store_load f = (case f of None \<Rightarrow> \<lparr>sn_subscriptions = [], sn_deliveries = [], sn_events = []\<rparr> | Some sn \<Rightarrow> sn)"

text \<open>The constructor, after \<open>n\<close> ids have been drawn and with the file \<open>f\<close> on disk.\<close>

definition new_hub :: "hub_opts \<Rightarrow> int \<Rightarrow> nat \<Rightarrow> WebhookStateSnapshot option \<Rightarrow> hub" where
  "new_hub opts now n f =
     (let h0 = \<lparr>subscriptions = [], deliveries = [], hub_events = [], timers = [], in_flight = [], id_calls = n, store_file = f\<rparr> in
      if \<not> has_store opts then h0
      else
        (let sn = webhook_store_load f;
             h1 = h0\<lparr>subscriptions := map_load sub_id (map normalizeSubscription (sn_subscriptions sn)),
                     hub_events := map_load ev_id (sn_events sn),
                     deliveries := map_load del_id (sn_deliveries sn)\<rparr> in
         persistState opts (resumePendingDeliveries now h1)))"

subsection \<open>Subscriptions\<close>

definition createSubscription :: "hub_opts \<Rightarrow> hub_env \<Rightarrow> int \<Rightarrow> WebhookSubscriptionInput \<Rightarrow> hub \<Rightarrow> hub \<times> WebhookSubscriptionRecord" where
  "createSubscription opts env now inp h =
     (let i = idFactory env (id_calls h);
          r = \<lparr>sub_id = i, sub_url = in_url inp, sub_events = remdups (in_events inp), description = in_description inp,
               sub_created_at = now, sub_updated_at = now, secret_preview = previewSecret (in_secret inp), secret_version = 1,
               rotated_at = None, previous_secret_versions = [], secret = in_secret inp, previous_secrets = []\<rparr> in
      (persistState opts (h\<lparr>id_calls := id_calls h + 1, subscriptions := map_set i r (subscriptions h)\<rparr>), sanitizeSubscription r))"

definition rotated :: "int \<Rightarrow> string \<Rightarrow> StoredSubscription \<Rightarrow> StoredSubscription" where
  "rotated now sec s =
     (let previous = previous_secrets s @ [\<lparr>ps_version = secret_version s, ps_preview = secret_preview s, ps_rotated_at = now\<rparr>] in
      s\<lparr>secret := sec, secret_version := secret_version s + 1, secret_preview := previewSecret sec, previous_secrets := previous,
        previous_secret_versions := map ps_version previous, rotated_at := Some now, sub_updated_at := now\<rparr>)"

definition rotateSubscriptionSecret :: "hub_opts \<Rightarrow> int \<Rightarrow> string \<Rightarrow> string \<Rightarrow> hub \<Rightarrow> hub \<times> WebhookSubscriptionRecord option" where
  "rotateSubscriptionSecret opts now i sec h = (case map_get (subscriptions h) i of
     None \<Rightarrow> (h, None)
   | Some s \<Rightarrow> (let r = rotated now sec s in
       (persistState opts (h\<lparr>subscriptions := map_set i r (subscriptions h)\<rparr>), Some (sanitizeSubscription r))))"

subsection \<open>Delivery\<close>

definition createDelivery :: "hub_opts \<Rightarrow> hub_env \<Rightarrow> int \<Rightarrow> StoredSubscription \<Rightarrow> WebhookEvent \<Rightarrow> hub \<Rightarrow> hub \<times> string" where
  "createDelivery opts env now s e h =
     (let i = idFactory env (id_calls h);
          d = \<lparr>del_id = i, subscription_id = sub_id s, event_id = ev_id e, event_type = ev_type e, event_resource = ev_resource e,
               del_state = Pending, attempt_count = 0, target_url = sub_url s, del_created_at = now, last_attempt_at = None,
               next_attempt_at = None, completed_at = None, last_status_code = None, last_error = None,
               signature_version = None, signature_window_seconds = None\<rparr> in
      (persistState opts (put_delivery d (h\<lparr>id_calls := id_calls h + 1\<rparr>)), i))"

text \<open>\<open>dispatch\<close> up to the request it sends.\<close>

definition request_for :: "hub_opts \<Rightarrow> hub_env \<Rightarrow> int \<Rightarrow> StoredSubscription \<Rightarrow> WebhookEvent \<Rightarrow> string \<Rightarrow> webhook_request" where
  "request_for opts env now s e i =
     (let body = event_json env e; t = show_int (now div 1000) in
      \<lparr>rq_url = sub_url s, rq_delivery = i, rq_event = ev_id e, rq_type = ev_type e, rq_timestamp = t,
       rq_signature_version = secret_version s, rq_window = signatureWindowSeconds opts,
       rq_signature = ''sha256='' @ hmac env (secret s) (t @ ''.'' @ body), rq_body = body\<rparr>)"

definition dispatch_begin :: "hub_opts \<Rightarrow> hub_env \<Rightarrow> int \<Rightarrow> string \<Rightarrow> hub \<Rightarrow> hub \<times> webhook_request option" where
  "dispatch_begin opts env now i h = (case map_get (deliveries h) i of
     None \<Rightarrow> (h, None)
   | Some d \<Rightarrow> (case (map_get (subscriptions h) (subscription_id d), map_get (hub_events h) (event_id d)) of
       (Some s, Some e) \<Rightarrow>
         (let d1 = d\<lparr>next_attempt_at := None, attempt_count := attempt_count d + 1, last_attempt_at := Some now, last_error := None\<rparr>;
              h1 = persistState opts (put_delivery d1 h);
              d2 = d1\<lparr>signature_version := Some (secret_version s), signature_window_seconds := Some (signatureWindowSeconds opts)\<rparr> in
          ((put_delivery d2 h1)\<lparr>in_flight := in_flight h1 @ [i]\<rparr>, Some (request_for opts env now s e i)))
     | _ \<Rightarrow> (h, None)))"

text \<open>\<open>dispatch\<close> after the \<open>fetch\<close>: \<open>Inr (status, ok)\<close> is a response, \<open>Inl msg\<close> a thrown error.\<close>

definition response_error :: "(int \<times> bool) js \<Rightarrow> string option" where
  "response_error res = (case res of Inl msg \<Rightarrow> Some msg | Inr (code, ok) \<Rightarrow> if ok then None else Some (''http_'' @ show_int code))"

definition retry_delay :: "hub_opts \<Rightarrow> nat \<Rightarrow> int" where
  "retry_delay opts attempts = retryBaseMs opts * max 1 (2 ^ (attempts - 1))"

definition with_status :: "(int \<times> bool) js \<Rightarrow> WebhookDeliveryRecord \<Rightarrow> WebhookDeliveryRecord" where
  "with_status res d = (case res of Inl _ \<Rightarrow> d | Inr (code, _) \<Rightarrow> d\<lparr>last_status_code := Some code\<rparr>)"

definition dispatch_end :: "hub_opts \<Rightarrow> int \<Rightarrow> string \<Rightarrow> (int \<times> bool) js \<Rightarrow> hub \<Rightarrow> hub" where
  "dispatch_end opts now i res h = (case map_get (deliveries h) i of
     None \<Rightarrow> h
   | Some d0 \<Rightarrow>
      (let h0 = h\<lparr>in_flight := remove1 i (in_flight h)\<rparr>; d = with_status res d0 in
       case response_error res of
         None \<Rightarrow> persistState opts (put_delivery (d\<lparr>del_state := Delivered, completed_at := last_attempt_at d\<rparr>) h0)
       | Some err \<Rightarrow>
          (let d1 = d\<lparr>last_error := Some err\<rparr> in
           if attempt_count d1 \<ge> maxAttempts opts
           then persistState opts (put_delivery (d1\<lparr>del_state := DeadLetter, completed_at := last_attempt_at d1\<rparr>) h0)
           else (let delayMs = retry_delay opts (attempt_count d1) in
             persistState opts (schedule i delayMs (put_delivery (d1\<lparr>del_state := Retrying, next_attempt_at := Some (now + delayMs)\<rparr>) h0))))))"

definition timer_fires :: "hub_opts \<Rightarrow> hub_env \<Rightarrow> int \<Rightarrow> string \<Rightarrow> hub \<Rightarrow> hub \<times> webhook_request option" where
  "timer_fires opts env now i h = dispatch_begin opts env now i (h\<lparr>timers := map_delete i (timers h)\<rparr>)"

fun dispatch_all :: "hub_opts \<Rightarrow> hub_env \<Rightarrow> int \<Rightarrow> string list \<Rightarrow> hub \<Rightarrow> hub" where
  "dispatch_all opts env now [] h = h"
| "dispatch_all opts env now (i # is) h = dispatch_all opts env now is (fst (dispatch_begin opts env now i h))"

fun create_all :: "hub_opts \<Rightarrow> hub_env \<Rightarrow> int \<Rightarrow> (StoredSubscription \<times> WebhookEvent) list \<Rightarrow> hub \<Rightarrow> hub \<times> string list" where
  "create_all opts env now [] h = (h, [])"
| "create_all opts env now ((s, e) # ps) h =
     (case createDelivery opts env now s e h of (h1, i) \<Rightarrow>
      case create_all opts env now ps h1 of (h2, is) \<Rightarrow> (h2, i # is))"

definition subscribers :: "hub \<Rightarrow> WebhookEvent \<Rightarrow> StoredSubscription list" where
  "subscribers h e = filter (\<lambda>s. ev_type e \<in> set (sub_events s)) (map_values (subscriptions h))"

text \<open>\<open>emit\<close> up to its requests; it returns the event, the ids of the deliveries and whether the event was
  known.\<close>

definition emit :: "hub_opts \<Rightarrow> hub_env \<Rightarrow> int \<Rightarrow> WebhookEventInput \<Rightarrow> hub \<Rightarrow> hub \<times> WebhookEvent \<times> string list \<times> bool" where
  "emit opts env now inp h =
     (let (i, h0) = (case ei_id inp of Some x \<Rightarrow> (x, h) | None \<Rightarrow> (idFactory env (id_calls h), h\<lparr>id_calls := id_calls h + 1\<rparr>)) in
      case map_get (hub_events h0) i of
        Some existing \<Rightarrow> (h0, existing, [], True)
      | None \<Rightarrow>
         (let e = \<lparr>ev_id = i, ev_type = ei_type inp, ev_chain = ei_chain inp, ev_cluster = ei_cluster inp,
                   ev_resource = ei_resource inp, ev_payload = ei_payload inp, emitted_at = now\<rparr>;
              h1 = h0\<lparr>hub_events := map_set i e (hub_events h0)\<rparr> in
          case create_all opts env now (map (\<lambda>s. (s, e)) (subscribers h1 e)) h1 of (h2, is) \<Rightarrow>
            (dispatch_all opts env now is h2, e, is, False)))"


subsection \<open>Replay and lists\<close>

text \<open>\<open>toISOString\<close> for the years 0 to 9999, and the comparison of texts by code unit.\<close>

definition pad :: "nat \<Rightarrow> int \<Rightarrow> string" where
  "pad w n = (let t = show_nat (nat n) in replicate (w - length t) (CHR ''0'') @ t)"

definition civil :: "int \<Rightarrow> int \<times> int \<times> int" where
  "civil days =
     (let z = days + 719468; era = z div 146097; doe = z mod 146097;
          yoe = (doe - doe div 1460 + doe div 36524 - doe div 146096) div 365;
          doy = doe - (365 * yoe + yoe div 4 - yoe div 100);
          mp = (5 * doy + 2) div 153;
          d = doy - (153 * mp + 2) div 5 + 1;
          mo = (if mp < 10 then mp + 3 else mp - 9) in
      (yoe + era * 400 + (if mo \<le> 2 then 1 else 0), mo, d))"

definition toISOString :: "int \<Rightarrow> string" where
  "toISOString ms = (case civil (ms div 86400000) of (y, mo, d) \<Rightarrow>
     pad 4 y @ ''-'' @ pad 2 mo @ ''-'' @ pad 2 d @ ''T'' @ pad 2 (ms div 3600000 mod 24) @ '':''
       @ pad 2 (ms div 60000 mod 60) @ '':'' @ pad 2 (ms div 1000 mod 60) @ ''.'' @ pad 3 (ms mod 1000) @ ''Z'')"

fun str_less :: "string \<Rightarrow> string \<Rightarrow> bool" where
  "str_less _ [] = False"
| "str_less [] (_ # _) = True"
| "str_less (a # as) (b # bs) = ((of_char a :: nat) < of_char b \<or> a = b \<and> str_less as bs)"

record WebhookReplayInput =
  rp_event_id :: "string option"
  rp_since :: "string option"
  rp_until :: "string option"
  rp_event_types :: "WebhookEventType list option"
  rp_subscription_ids :: "string list option"
  rp_limit :: "int option"

definition matchesReplay :: "WebhookEvent \<Rightarrow> WebhookReplayInput \<Rightarrow> bool" where
  "matchesReplay e inp =
     (if truthy (rp_event_id inp) \<and> rp_event_id inp \<noteq> Some (ev_id e) then False
      else if truthy (rp_since inp) \<and> str_less (toISOString (emitted_at e)) (the (rp_since inp)) then False
      else if truthy (rp_until inp) \<and> str_less (the (rp_until inp)) (toISOString (emitted_at e)) then False
      else (case rp_event_types inp of None \<Rightarrow> True | Some tys \<Rightarrow> tys = [] \<or> ev_type e \<in> set tys))"

definition matchingSubscriptions :: "hub \<Rightarrow> WebhookEvent \<Rightarrow> string list option \<Rightarrow> StoredSubscription list" where
  "matchingSubscriptions h e subscriptionIds =
     filter (\<lambda>s. case subscriptionIds of None \<Rightarrow> True | Some is \<Rightarrow> sub_id s \<in> set is) (subscribers h e)"

definition selected_events :: "WebhookReplayInput \<Rightarrow> hub \<Rightarrow> WebhookEvent list" where
  "selected_events inp h = slice0 (max 1 (case rp_limit inp of None \<Rightarrow> 50 | Some n \<Rightarrow> n))
     (js_sort (\<lambda>a b. emitted_at a - emitted_at b) (filter (\<lambda>e. matchesReplay e inp) (map_values (hub_events h))))"

definition replay :: "hub_opts \<Rightarrow> hub_env \<Rightarrow> int \<Rightarrow> WebhookReplayInput \<Rightarrow> hub \<Rightarrow> hub \<times> WebhookEvent list \<times> string list" where
  "replay opts env now inp h =
     (let sel = selected_events inp h in
      case create_all opts env now (concat (map (\<lambda>e. map (\<lambda>s. (s, e)) (matchingSubscriptions h e (rp_subscription_ids inp))) sel)) h of (h1, is) \<Rightarrow>
        (dispatch_all opts env now is h1, sel, is))"

definition listSubscriptions :: "hub \<Rightarrow> WebhookSubscriptionRecord list" where
  "listSubscriptions h = js_sort (\<lambda>a b. sub_created_at a - sub_created_at b) (map sanitizeSubscription (map_values (subscriptions h)))"

record WebhookDeliveryListInput =
  ls_state :: "DeliveryState option"
  ls_subscription_id :: "string option"
  ls_event_id :: "string option"
  ls_event_type :: "WebhookEventType option"
  ls_limit :: "int option"

definition delivery_matches :: "WebhookDeliveryListInput \<Rightarrow> WebhookDeliveryRecord \<Rightarrow> bool" where
  "delivery_matches f d = ((ls_state f = None \<or> ls_state f = Some (del_state d))
     \<and> (\<not> truthy (ls_subscription_id f) \<or> ls_subscription_id f = Some (subscription_id d))
     \<and> (\<not> truthy (ls_event_id f) \<or> ls_event_id f = Some (event_id d))
     \<and> (ls_event_type f = None \<or> ls_event_type f = Some (event_type d)))"

definition activity :: "WebhookDeliveryRecord \<Rightarrow> int" where
  "activity d = (case last_attempt_at d of None \<Rightarrow> del_created_at d | Some t \<Rightarrow> t)"

definition listDeliveries :: "(string \<Rightarrow> string \<Rightarrow> int) \<Rightarrow> WebhookDeliveryListInput \<Rightarrow> hub \<Rightarrow> WebhookDeliveryRecord list" where
  "listDeliveries localeCompare f h =
     slice0 (max 1 (min 500 (case ls_limit f of None \<Rightarrow> 100 | Some n \<Rightarrow> n)))
       (js_sort (\<lambda>a b. if activity b - activity a \<noteq> 0 then activity b - activity a else localeCompare (del_id a) (del_id b))
         (filter (delivery_matches f) (map_values (deliveries h))))"

subsection \<open>Routes\<close>

text \<open>The webhook routes of \<open>services/discovery/src/server.ts\<close>; \<open>is_url\<close> and \<open>is_date\<close> are the checks of
  \<open>zod\<close> and \<open>Date.parse\<close>. Replies are the status and, where there is one, a value.\<close>

record hub_server =
  adminToken :: "string option"
  serviceToken :: "string option"
  is_url :: "string \<Rightarrow> bool"
  is_date :: "string \<Rightarrow> bool"

definition WebhookSubscriptionCreateSchema :: "hub_server \<Rightarrow> WebhookSubscriptionInput \<Rightarrow> bool" where
  "WebhookSubscriptionCreateSchema sv b = (is_url sv (in_url b) \<and> in_events b \<noteq> [] \<and> 16 \<le> length (in_secret b) \<and> length (in_secret b) \<le> 256
     \<and> (case in_description b of None \<Rightarrow> True | Some t \<Rightarrow> 1 \<le> length t \<and> length t \<le> 120))"

definition post_subscription :: "hub_server \<Rightarrow> hub_opts \<Rightarrow> hub_env \<Rightarrow> int \<Rightarrow> string option \<Rightarrow> WebhookSubscriptionInput \<Rightarrow> hub \<Rightarrow> hub \<times> nat" where
  "post_subscription sv opts env now header b h =
     (if \<not> authorizeToken header (adminToken sv) then (h, 401)
      else if \<not> WebhookSubscriptionCreateSchema sv b then (h, 400)
      else (fst (createSubscription opts env now b h), 201))"

definition post_rotate :: "hub_server \<Rightarrow> hub_opts \<Rightarrow> int \<Rightarrow> string option \<Rightarrow> string \<Rightarrow> string \<Rightarrow> hub \<Rightarrow> hub \<times> nat" where
  "post_rotate sv opts now header i sec h =
     (if \<not> authorizeToken header (adminToken sv) then (h, 401)
      else if i = [] then (h, 400)
      else if length sec < 16 \<or> 256 < length sec then (h, 400)
      else (case rotateSubscriptionSecret opts now i sec h of (h1, None) \<Rightarrow> (h1, 404) | (h1, Some _) \<Rightarrow> (h1, 200)))"

definition WebhookEventEmitSchema :: "WebhookEventInput \<Rightarrow> bool" where
  "WebhookEventEmitSchema b = (ei_chain b \<noteq> [] \<and> ei_cluster b \<noteq> [] \<and> snd (ei_resource b) \<noteq> []
     \<and> (case ei_id b of None \<Rightarrow> True | Some i \<Rightarrow> 1 \<le> length i \<and> length i \<le> 128))"

definition post_event :: "hub_server \<Rightarrow> hub_opts \<Rightarrow> hub_env \<Rightarrow> int \<Rightarrow> string option \<Rightarrow> WebhookEventInput \<Rightarrow> hub \<Rightarrow> hub \<times> nat" where
  "post_event sv opts env now header b h =
     (if \<not> authorizeToken header (serviceToken sv) then (h, 401)
      else if \<not> WebhookEventEmitSchema b then (h, 400)
      else (fst (emit opts env now b h), 202))"

definition WebhookReplayRequestSchema :: "hub_server \<Rightarrow> WebhookReplayInput \<Rightarrow> bool" where
  "WebhookReplayRequestSchema sv b = ((case rp_since b of None \<Rightarrow> True | Some t \<Rightarrow> is_date sv t) \<and> (case rp_until b of None \<Rightarrow> True | Some t \<Rightarrow> is_date sv t)
     \<and> rp_event_id b \<noteq> Some [] \<and> rp_event_types b \<noteq> Some [] \<and> rp_subscription_ids b \<noteq> Some []
     \<and> (case rp_limit b of None \<Rightarrow> True | Some n \<Rightarrow> 1 \<le> n \<and> n \<le> 200)
     \<and> (truthy (rp_event_id b) \<or> truthy (rp_since b)))"

definition post_replay :: "hub_server \<Rightarrow> hub_opts \<Rightarrow> hub_env \<Rightarrow> int \<Rightarrow> string option \<Rightarrow> WebhookReplayInput \<Rightarrow> hub \<Rightarrow> hub \<times> nat" where
  "post_replay sv opts env now header b h =
     (if \<not> authorizeToken header (adminToken sv) then (h, 401)
      else if \<not> WebhookReplayRequestSchema sv b then (h, 400)
      else (fst (replay opts env now b h), 202))"

subsection \<open>Runs\<close>

text \<open>\<open>hub_run opts env r h\<close>: the hub, started with no file and restarted \<open>r\<close> times, can be in state \<open>h\<close>.
  Its steps are its operations, the end of a request under way, a timer that fires, and a
  restart at any moment, which loses timers and requests under way and keeps the file.\<close>

inductive hub_run :: "hub_opts \<Rightarrow> hub_env \<Rightarrow> nat \<Rightarrow> hub \<Rightarrow> bool" for opts env where
  start: "hub_run opts env 0 (new_hub opts now 0 None)"
| subscribe: "hub_run opts env r h \<Longrightarrow> hub_run opts env r (fst (createSubscription opts env now inp h))"
| rotate: "hub_run opts env r h \<Longrightarrow> hub_run opts env r (fst (rotateSubscriptionSecret opts now i sec h))"
| emit: "hub_run opts env r h \<Longrightarrow> hub_run opts env r (fst (emit opts env now inp h))"
| replay: "hub_run opts env r h \<Longrightarrow> hub_run opts env r (fst (replay opts env now inp h))"
| answer: "hub_run opts env r h \<Longrightarrow> i \<in> set (in_flight h) \<Longrightarrow> hub_run opts env r (dispatch_end opts now i res h)"
| timer: "hub_run opts env r h \<Longrightarrow> i \<in> fst ` set (timers h) \<Longrightarrow> hub_run opts env r (fst (timer_fires opts env now i h))"
| restart: "hub_run opts env r h \<Longrightarrow> hub_run opts env (Suc r) (new_hub opts now (id_calls h) (store_file h))"


subsection \<open>Invariant\<close>

definition sub_ok :: "StoredSubscription \<Rightarrow> bool" where
  "sub_ok s = (1 \<le> secret_version s \<and> map ps_version (previous_secrets s) = [1..<secret_version s]
     \<and> previous_secret_versions s = map ps_version (previous_secrets s))"

text \<open>\<open>hub_inv env n W h\<close>: maps are keyed by the ids of their values, deliveries refer to what exists, ids were
  drawn from the factory, and every unfinished delivery is in exactly one place: waiting for
  its first dispatch (\<open>W\<close>), under way, or on a timer. Attempts are at most \<open>n\<close>, fewer for a delivery
  that is to be sent again.\<close>

definition hub_maps :: "hub_env \<Rightarrow> hub \<Rightarrow> bool" where
  "hub_maps env h = (keyed sub_id (subscriptions h) \<and> keyed del_id (deliveries h) \<and> keyed ev_id (hub_events h)
     \<and> (\<forall>i s. map_get (subscriptions h) i = Some s \<longrightarrow> sub_ok s)
     \<and> (\<forall>i. map_get (subscriptions h) i \<noteq> None \<or> map_get (deliveries h) i \<noteq> None \<longrightarrow> i \<in> idFactory env ` {..<id_calls h}))"

definition refs_ok :: "hub \<Rightarrow> bool" where
  "refs_ok h = (\<forall>i d. map_get (deliveries h) i = Some d \<longrightarrow>
     map_get (subscriptions h) (subscription_id d) \<noteq> None \<and> map_get (hub_events h) (event_id d) \<noteq> None)"

definition places :: "string list \<Rightarrow> hub \<Rightarrow> string list" where
  "places W h = W @ in_flight h @ map fst (timers h)"

definition places_ok :: "string list \<Rightarrow> hub \<Rightarrow> bool" where
  "places_ok W h = (distinct (places W h) \<and> (\<forall>i. i \<in> set (places W h) \<longleftrightarrow> (\<exists>d. map_get (deliveries h) i = Some d \<and> unfinished d)))"

definition attempts_ok :: "nat \<Rightarrow> string list \<Rightarrow> hub \<Rightarrow> bool" where
  "attempts_ok n W h = (\<forall>i d. map_get (deliveries h) i = Some d \<longrightarrow>
     attempt_count d \<le> n \<and> (i \<in> set W \<union> fst ` set (timers h) \<longrightarrow> attempt_count d < n))"

definition hub_inv :: "hub_env \<Rightarrow> nat \<Rightarrow> string list \<Rightarrow> hub \<Rightarrow> bool" where
  "hub_inv env n W h = (hub_maps env h \<and> refs_ok h \<and> places_ok W h \<and> attempts_ok n W h)"

text \<open>What the file holds: the subscriptions, the deliveries up to the signature data of the last attempt,
  and at least the events of those deliveries.\<close>

definition unsigned_delivery :: "WebhookDeliveryRecord \<Rightarrow> WebhookDeliveryRecord" where
  "unsigned_delivery d = d\<lparr>signature_version := None, signature_window_seconds := None\<rparr>"

definition file_matches :: "hub \<Rightarrow> (string, WebhookDeliveryRecord) jsmap \<Rightarrow> (string, WebhookEvent) jsmap \<Rightarrow> bool" where
  "file_matches h ds es = (keyed del_id ds \<and> keyed ev_id es
     \<and> (\<forall>i. map_option unsigned_delivery (map_get ds i) = map_option unsigned_delivery (map_get (deliveries h) i))
     \<and> (\<forall>k e. map_get es k = Some e \<longrightarrow> map_get (hub_events h) k = Some e)
     \<and> (\<forall>i d. map_get (deliveries h) i = Some d \<longrightarrow> map_get es (event_id d) \<noteq> None))"

definition saved_ok :: "hub_opts \<Rightarrow> hub \<Rightarrow> bool" where
  "saved_ok opts h = (has_store opts \<longrightarrow> (\<exists>ds es. file_matches h ds es
     \<and> webhook_store_load (store_file h) = \<lparr>sn_subscriptions = map_values (subscriptions h), sn_deliveries = map_values ds, sn_events = map_values es\<rparr>))"

subsection \<open>Every operation keeps the invariant\<close>

lemma persist_fields [simp]:
  "subscriptions (persistState opts h) = subscriptions h" "deliveries (persistState opts h) = deliveries h"
  "hub_events (persistState opts h) = hub_events h" "timers (persistState opts h) = timers h"
  "in_flight (persistState opts h) = in_flight h" "id_calls (persistState opts h) = id_calls h"
  by (simp_all add: persistState_def)

lemma put_delivery_fields [simp]:
  "subscriptions (put_delivery d h) = subscriptions h" "deliveries (put_delivery d h) = map_set (del_id d) d (deliveries h)"
  "hub_events (put_delivery d h) = hub_events h" "timers (put_delivery d h) = timers h"
  "in_flight (put_delivery d h) = in_flight h" "id_calls (put_delivery d h) = id_calls h"
  by (simp_all add: put_delivery_def)

lemma inv_persist [simp]: "hub_inv env n W (persistState opts h) = hub_inv env n W h"
  by (simp add: hub_inv_def hub_maps_def refs_ok_def places_ok_def places_def attempts_ok_def)

lemma file_matches_self: "hub_maps env h \<Longrightarrow> refs_ok h \<Longrightarrow> file_matches h (deliveries h) (hub_events h)"
  by (auto simp: file_matches_def hub_maps_def refs_ok_def)

lemma saved_persist:
  assumes "hub_maps env h" and "refs_ok h"
  shows "saved_ok opts (persistState opts h)"
  unfolding saved_ok_def
proof
  assume "has_store opts"
  then have "webhook_store_load (store_file (persistState opts h)) = snapshot_of_hub h"
    by (simp add: persistState_def webhook_store_load_def)
  moreover have "file_matches (persistState opts h) (deliveries h) (hub_events h)"
    using file_matches_self [OF assms] by (simp add: file_matches_def)
  ultimately show "\<exists>ds es. file_matches (persistState opts h) ds es \<and> webhook_store_load (store_file (persistState opts h)) =
      \<lparr>sn_subscriptions = map_values (subscriptions (persistState opts h)), sn_deliveries = map_values ds, sn_events = map_values es\<rparr>"
    by (auto simp: snapshot_of_hub_def)
qed

lemma inv_saved_persist: "hub_inv env n W h \<Longrightarrow> saved_ok opts (persistState opts h)"
  unfolding hub_inv_def using saved_persist by blast

lemma saved_cong:
  assumes "saved_ok opts h" and "subscriptions g = subscriptions h" and "store_file g = store_file h"
    and "\<And>i. map_option unsigned_delivery (map_get (deliveries g) i) = map_option unsigned_delivery (map_get (deliveries h) i)"
    and "\<And>k e. map_get (hub_events h) k = Some e \<Longrightarrow> map_get (hub_events g) k = Some e"
  shows "saved_ok opts g"
proof -
  have ev: "\<exists>d'. map_get (deliveries h) i = Some d' \<and> event_id d' = event_id d" if "map_get (deliveries g) i = Some d" for i d
    using that assms(4) [of i] by (cases "map_get (deliveries h) i") (auto simp: unsigned_delivery_def dest!: arg_cong [where f = event_id])
  show ?thesis unfolding saved_ok_def
  proof
    assume "has_store opts"
    with assms(1) obtain ds es where m: "file_matches h ds es"
      "webhook_store_load (store_file h) = \<lparr>sn_subscriptions = map_values (subscriptions h), sn_deliveries = map_values ds, sn_events = map_values es\<rparr>"
      by (auto simp: saved_ok_def)
    from m(1) have "file_matches g ds es"
      using assms(4,5) ev by (auto simp: file_matches_def) metis
    with m(2) assms(2,3) show "\<exists>ds es. file_matches g ds es
      \<and> webhook_store_load (store_file g) = \<lparr>sn_subscriptions = map_values (subscriptions g), sn_deliveries = map_values ds, sn_events = map_values es\<rparr>"
      by auto
  qed
qed

lemma fresh_id:
  assumes "hub_maps env h" and "inj (idFactory env)"
  shows "map_get (subscriptions h) (idFactory env (id_calls h)) = None" "map_get (deliveries h) (idFactory env (id_calls h)) = None"
proof -
  have "idFactory env (id_calls h) \<notin> idFactory env ` {..<id_calls h}" using assms(2) by (auto dest: injD)
  with assms(1) show "map_get (subscriptions h) (idFactory env (id_calls h)) = None" "map_get (deliveries h) (idFactory env (id_calls h)) = None"
    by (auto simp: hub_maps_def)
qed

lemma subscription_put_inv:
  assumes "hub_inv env n W h" and "sub_ok s" and "sub_id s \<in> idFactory env ` {..<k}" and "id_calls h \<le> k"
  shows "hub_inv env n W (h\<lparr>id_calls := k, subscriptions := map_set (sub_id s) s (subscriptions h)\<rparr>)"
proof -
  have "idFactory env ` {..<id_calls h} \<subseteq> idFactory env ` {..<k}" using assms(4) by auto
  with assms show ?thesis
    by (auto simp: hub_inv_def hub_maps_def refs_ok_def places_ok_def places_def attempts_ok_def keyed_set map_specs split: if_splits)
qed


lemma createSubscription_inv:
  assumes "hub_inv env n W h" and "inj (idFactory env)"
  shows "hub_inv env n W (fst (createSubscription opts env now inp h))" "saved_ok opts (fst (createSubscription opts env now inp h))"
proof -
  let ?s = "\<lparr>sub_id = idFactory env (id_calls h), sub_url = in_url inp, sub_events = remdups (in_events inp), description = in_description inp,
     sub_created_at = now, sub_updated_at = now, secret_preview = previewSecret (in_secret inp), secret_version = 1,
     rotated_at = None, previous_secret_versions = [], secret = in_secret inp, previous_secrets = []\<rparr>"
  have "hub_inv env n W (h\<lparr>id_calls := id_calls h + 1, subscriptions := map_set (sub_id ?s) ?s (subscriptions h)\<rparr>)"
    using assms(1) by (rule subscription_put_inv) (auto simp: sub_ok_def)
  then show "hub_inv env n W (fst (createSubscription opts env now inp h))" "saved_ok opts (fst (createSubscription opts env now inp h))"
    by (simp_all add: createSubscription_def Let_def inv_saved_persist)
qed

lemma rotated_ok: "sub_ok s \<Longrightarrow> sub_ok (rotated now sec s)"
  by (auto simp: sub_ok_def rotated_def Let_def)

lemma rotate_inv:
  assumes "hub_inv env n W h" and "saved_ok opts h"
  shows "hub_inv env n W (fst (rotateSubscriptionSecret opts now i sec h))" "saved_ok opts (fst (rotateSubscriptionSecret opts now i sec h))"
proof -
  have "hub_inv env n W (fst (rotateSubscriptionSecret opts now i sec h)) \<and> saved_ok opts (fst (rotateSubscriptionSecret opts now i sec h))"
  proof (cases "map_get (subscriptions h) i")
    case None
    with assms show ?thesis by (simp add: rotateSubscriptionSecret_def)
  next
    case (Some s)
    with assms(1) have s: "sub_ok s" "sub_id s = i" "i \<in> idFactory env ` {..<id_calls h}"
      by (auto simp: hub_inv_def hub_maps_def keyed_def)
    then have "hub_inv env n W (h\<lparr>id_calls := id_calls h, subscriptions := map_set (sub_id (rotated now sec s)) (rotated now sec s) (subscriptions h)\<rparr>)"
      using assms(1) by (intro subscription_put_inv) (auto simp: rotated_ok, simp add: rotated_def Let_def)
    moreover have "sub_id (rotated now sec s) = i" using s by (simp add: rotated_def Let_def)
    ultimately have "hub_inv env n W (h\<lparr>subscriptions := map_set i (rotated now sec s) (subscriptions h)\<rparr>)" by simp
    with Some show ?thesis by (simp add: rotateSubscriptionSecret_def Let_def inv_saved_persist)
  qed
  then show "hub_inv env n W (fst (rotateSubscriptionSecret opts now i sec h))" "saved_ok opts (fst (rotateSubscriptionSecret opts now i sec h))"
    by blast+
qed

text \<open>Storing a delivery again, with the places adjusted.\<close>

lemma places_put:
  assumes "places_ok W h" and "map_get (deliveries h) i = Some d" and "del_id d' = i" and "deliveries g = map_set i d' (deliveries h)"
    and "distinct (places W' g)"
    and "set (places W' g) = (if unfinished d' then insert i (set (places W h)) else set (places W h) - {i})"
  shows "places_ok W' g"
  using assms by (auto simp: places_ok_def map_specs)

lemma place_delivery: "places_ok W h \<Longrightarrow> i \<in> set (places W h) \<Longrightarrow> \<exists>d. map_get (deliveries h) i = Some d \<and> unfinished d"
  by (simp add: places_ok_def)

lemma createDelivery_inv:
  assumes "hub_inv env n W h" and "inj (idFactory env)" and "0 < n"
    and "map_get (subscriptions h) (sub_id s) \<noteq> None" and "map_get (hub_events h) (ev_id e) \<noteq> None"
    and "createDelivery opts env now s e h = (h', i)"
  shows "hub_inv env n (W @ [i]) h'" "saved_ok opts h'"
    "subscriptions h' = subscriptions h" "hub_events h' = hub_events h"
proof -
  let ?i = "idFactory env (id_calls h)"
  let ?d = "\<lparr>del_id = ?i, subscription_id = sub_id s, event_id = ev_id e, event_type = ev_type e, event_resource = ev_resource e,
     del_state = Pending, attempt_count = 0, target_url = sub_url s, del_created_at = now, last_attempt_at = None,
     next_attempt_at = None, completed_at = None, last_status_code = None, last_error = None,
     signature_version = None, signature_window_seconds = None\<rparr>"
  let ?g = "put_delivery ?d (h\<lparr>id_calls := id_calls h + 1\<rparr>)"
  have h': "h' = persistState opts ?g" "i = ?i" using assms(6) by (auto simp: createDelivery_def Let_def)
  note inv = assms(1) [unfolded hub_inv_def]
  have new: "map_get (deliveries h) ?i = None" using inv assms(2) fresh_id by blast
  then have out: "?i \<notin> set (places W h)" using inv by (force simp: places_ok_def)
  have "hub_maps env ?g" using inv keyed_set [of del_id "deliveries h" ?d]
    by (auto simp: hub_maps_def map_specs lessThan_Suc split: if_splits)
  moreover have "refs_ok ?g" using inv assms(4,5) by (auto simp: refs_ok_def map_specs split: if_splits)
  moreover have "places_ok (W @ [?i]) ?g"
  proof -
    have "set (places (W @ [?i]) ?g) = insert ?i (set (places W h))" by (auto simp: places_def)
    moreover have "distinct (places (W @ [?i]) ?g)" using inv out by (auto simp: places_ok_def places_def)
    ultimately show ?thesis using inv new by (auto simp: places_ok_def map_specs unfinished_def)
  qed
  moreover have "attempts_ok n (W @ [?i]) ?g" using inv assms(3) new by (auto simp: attempts_ok_def map_specs split: if_splits)
  ultimately have g: "hub_inv env n (W @ [?i]) ?g" by (simp add: hub_inv_def)
  then show "hub_inv env n (W @ [i]) h'" "saved_ok opts h'" using h' by (simp_all add: inv_saved_persist)
  show "subscriptions h' = subscriptions h" "hub_events h' = hub_events h" using h' by simp_all
qed


lemma put_inv_parts:
  assumes "hub_inv env n W h" and "map_get (deliveries h) i = Some d" and "del_id d' = i"
    and "subscription_id d' = subscription_id d" and "event_id d' = event_id d"
    and "deliveries g = map_set i d' (deliveries h)" and "subscriptions g = subscriptions h"
    and "hub_events g = hub_events h" and "id_calls g = id_calls h"
  shows "hub_maps env g" "refs_ok g"
proof -
  note inv = assms(1) [unfolded hub_inv_def]
  show "hub_maps env g" using inv assms(2,3,6-9) keyed_set [of del_id "deliveries h" d']
    by (auto simp: hub_maps_def map_specs split: if_splits)
  show "refs_ok g" using inv assms by (auto simp: refs_ok_def map_specs split: if_splits)
qed

lemma dispatch_begin_inv:
  assumes "hub_inv env n (i # W) h"
  shows "hub_inv env n W (fst (dispatch_begin opts env now i h))" "saved_ok opts (fst (dispatch_begin opts env now i h))"
proof -
  note inv = assms [unfolded hub_inv_def]
  obtain d where d: "map_get (deliveries h) i = Some d" "unfinished d"
    using inv place_delivery [of "i # W" h i] by (auto simp: places_def)
  then have "map_get (subscriptions h) (subscription_id d) \<noteq> None \<and> map_get (hub_events h) (event_id d) \<noteq> None"
    using inv unfolding refs_ok_def by blast
  then obtain s e where se: "map_get (subscriptions h) (subscription_id d) = Some s" "map_get (hub_events h) (event_id d) = Some e"
    by blast
  have i: "del_id d = i" using inv d by (auto simp: hub_maps_def keyed_def)
  have lt: "attempt_count d < n" using inv d by (auto simp: attempts_ok_def)
  let ?d1 = "d\<lparr>next_attempt_at := None, attempt_count := attempt_count d + 1, last_attempt_at := Some now, last_error := None\<rparr>"
  let ?d2 = "?d1\<lparr>signature_version := Some (secret_version s), signature_window_seconds := Some (signatureWindowSeconds opts)\<rparr>"
  let ?h1 = "persistState opts (put_delivery ?d1 h)"
  let ?g = "(put_delivery ?d2 ?h1)\<lparr>in_flight := in_flight ?h1 @ [i]\<rparr>"
  have eq: "fst (dispatch_begin opts env now i h) = ?g" using d se by (simp add: dispatch_begin_def Let_def)
  have dd: "map_set i ?d2 (map_set i ?d1 m) = map_set i ?d2 m" for m by (induction m) auto
  have dg: "deliveries ?g = map_set i ?d2 (deliveries h)" using i dd by simp
  have "hub_maps env ?g" "refs_ok ?g" using put_inv_parts [OF assms d(1), of ?d2 ?g] i dg by simp_all
  moreover have "places_ok W ?g"
  proof (rule places_put [OF _ d(1), of "i # W" ?d2])
    show "places_ok (i # W) h" using inv by blast
    show "distinct (places W ?g)" using inv by (auto simp: places_ok_def places_def)
    show "set (places W ?g) = (if unfinished ?d2 then insert i (set (places (i # W) h)) else set (places (i # W) h) - {i})"
      using d(2) by (auto simp: unfinished_def places_def)
  qed (use i dg in simp_all)
  moreover have "i \<notin> set W" "i \<notin> fst ` set (timers h)" using inv by (auto simp: places_ok_def places_def)
  then have "attempts_ok n W ?g" using inv lt dg by (auto simp: attempts_ok_def map_specs split: if_splits)
  ultimately show "hub_inv env n W (fst (dispatch_begin opts env now i h))" unfolding eq hub_inv_def by blast
  have "hub_maps env (put_delivery ?d1 h)" "refs_ok (put_delivery ?d1 h)" using put_inv_parts [OF assms d(1), of ?d1 "put_delivery ?d1 h"] i by simp_all
  then have "saved_ok opts ?h1" by (rule saved_persist)
  then have "saved_ok opts ?g"
    by (rule saved_cong) (use i in \<open>auto simp: map_specs unsigned_delivery_def put_delivery_def\<close>)
  then show "saved_ok opts (fst (dispatch_begin opts env now i h))" unfolding eq .
qed

lemma dispatch_begin_fields [simp]:
  "subscriptions (fst (dispatch_begin opts env now i h)) = subscriptions h"
  "hub_events (fst (dispatch_begin opts env now i h)) = hub_events h"
  "id_calls (fst (dispatch_begin opts env now i h)) = id_calls h"
  by (auto simp: dispatch_begin_def Let_def split: option.splits)

lemma dispatch_all_inv:
  "hub_inv env n (is @ W) h \<Longrightarrow> saved_ok opts h \<Longrightarrow>
   hub_inv env n W (dispatch_all opts env now is h) \<and> saved_ok opts (dispatch_all opts env now is h)"
proof (induction "is" arbitrary: h)
  case (Cons i "is")
  from dispatch_begin_inv [of env n i "is @ W" h opts now] Cons show ?case by simp
qed simp

lemma create_all_inv:
  assumes "inj (idFactory env)" and "0 < n"
  shows "hub_inv env n W h \<Longrightarrow> saved_ok opts h \<Longrightarrow>
    (\<And>s e. (s, e) \<in> set ps \<Longrightarrow> map_get (subscriptions h) (sub_id s) \<noteq> None \<and> map_get (hub_events h) (ev_id e) \<noteq> None) \<Longrightarrow>
    create_all opts env now ps h = (h', is) \<Longrightarrow>
    hub_inv env n (W @ is) h' \<and> saved_ok opts h'"
proof (induction ps arbitrary: h W "is")
  case (Cons p ps)
  obtain s e where p: "p = (s, e)" by fastforce
  obtain h1 i where c: "createDelivery opts env now s e h = (h1, i)" by fastforce
  obtain is' where r: "create_all opts env now ps h1 = (h', is')" "is = i # is'"
    using Cons.prems(4) c p by (auto split: prod.splits)
  have "map_get (subscriptions h) (sub_id s) \<noteq> None" "map_get (hub_events h) (ev_id e) \<noteq> None" using Cons.prems(3) [of s e] p by auto
  note c1 = createDelivery_inv [OF Cons.prems(1) assms this c]
  from Cons.IH [OF c1(1,2) _ r(1)] Cons.prems(3) c1(3,4) p r(2) show ?case by auto
qed simp

lemma subscriber_exists: "hub_maps env h \<Longrightarrow> s \<in> set (subscribers h e) \<Longrightarrow> map_get (subscriptions h) (sub_id s) \<noteq> None"
  by (auto simp: subscribers_def hub_maps_def keyed_def map_values_get)

lemma event_put_inv:
  assumes "hub_inv env n W h" and "ev_id e = i" and "map_get (hub_events h) i = None"
  shows "hub_inv env n W (h\<lparr>hub_events := map_set i e (hub_events h)\<rparr>)"
  using assms keyed_set [of ev_id "hub_events h" e]
  by (auto simp: hub_inv_def hub_maps_def refs_ok_def places_ok_def places_def attempts_ok_def map_specs)

lemma id_calls_inv: "hub_inv env n W h \<Longrightarrow> id_calls h \<le> k \<Longrightarrow> hub_inv env n W (h\<lparr>id_calls := k\<rparr>)"
  by (auto simp: hub_inv_def hub_maps_def refs_ok_def places_ok_def places_def attempts_ok_def)

lemma id_calls_saved: "saved_ok opts (h\<lparr>id_calls := k\<rparr>) = saved_ok opts h"
  by (simp add: saved_ok_def file_matches_def)


lemma dispatch_end_put:
  assumes "hub_inv env n [] h" and "i \<in> set (in_flight h)" and "map_get (deliveries h) i = Some d"
    and "del_id d' = i" and "subscription_id d' = subscription_id d" and "event_id d' = event_id d" and "attempt_count d' = attempt_count d"
    and "ex = (if unfinished d' then [(i, k)] else [])" and "unfinished d' \<Longrightarrow> attempt_count d' < n"
  shows "hub_inv env n [] ((put_delivery d' h)\<lparr>in_flight := remove1 i (in_flight h), timers := timers h @ ex\<rparr>)" (is "hub_inv env n [] ?g")
proof -
  note inv = assms(1) [unfolded hub_inv_def]
  have dist: "distinct (in_flight h)" "i \<notin> fst ` set (timers h)" using inv assms(2) by (auto simp: places_ok_def places_def)
  have "hub_maps env ?g" "refs_ok ?g" using put_inv_parts [OF assms(1,3-6), of ?g] assms(4) by simp_all
  moreover have "places_ok [] ?g"
  proof (rule places_put [OF _ assms(3), of "[]" d'])
    show "places_ok [] h" using inv by blast
    show "distinct (places [] ?g)" using inv dist assms(8) by (auto simp: places_ok_def places_def)
    show "set (places [] ?g) = (if unfinished d' then insert i (set (places [] h)) else set (places [] h) - {i})"
      using dist assms(2,8) by (auto simp: places_def)
  qed (use assms(4) in simp_all)
  moreover have "attempts_ok n [] ?g" using inv assms(3,4,7,8,9) by (auto simp: attempts_ok_def map_specs split: if_splits)
  ultimately show ?thesis unfolding hub_inv_def by blast
qed

lemma dispatch_end_shape:
  assumes "map_get (deliveries h) i = Some d" and "del_id d = i"
  shows "\<exists>d' ex. dispatch_end opts now i res h = persistState opts ((put_delivery d' h)\<lparr>in_flight := remove1 i (in_flight h), timers := timers h @ ex\<rparr>)
    \<and> del_id d' = i \<and> subscription_id d' = subscription_id d \<and> event_id d' = event_id d \<and> attempt_count d' = attempt_count d
    \<and> ex = (if unfinished d' then [(i, retry_delay opts (attempt_count d))] else []) \<and> (unfinished d' \<longrightarrow> attempt_count d < maxAttempts opts)
    \<and> (del_state d' = Delivered \<longleftrightarrow> response_error res = None)"
proof -
  have st: "attempt_count (with_status res d) = attempt_count d" "del_id (with_status res d) = i" "subscription_id (with_status res d) = subscription_id d"
    "event_id (with_status res d) = event_id d" using assms(2) by (auto simp: with_status_def split: sum.splits)
  show ?thesis
  proof (cases "response_error res")
    case None
    then show ?thesis using assms(1) st
      by (intro exI [of _ "(with_status res d)\<lparr>del_state := Delivered, completed_at := last_attempt_at (with_status res d)\<rparr>"] exI [of _ "[]"])
        (cases h, simp add: dispatch_end_def unfinished_def put_delivery_def Let_def)
  next
    case (Some err)
    let ?d1 = "(with_status res d)\<lparr>last_error := Some err\<rparr>"
    show ?thesis
    proof (cases "maxAttempts opts \<le> attempt_count d")
      case True
      then show ?thesis using assms(1) st Some
        by (intro exI [of _ "?d1\<lparr>del_state := DeadLetter, completed_at := last_attempt_at ?d1\<rparr>"] exI [of _ "[]"])
          (cases h, simp add: dispatch_end_def unfinished_def put_delivery_def Let_def)
    next
      case False
      then show ?thesis using assms(1) st Some
        by (intro exI [of _ "?d1\<lparr>del_state := Retrying, next_attempt_at := Some (now + retry_delay opts (attempt_count d))\<rparr>"]
            exI [of _ "[(i, retry_delay opts (attempt_count d))]"])
          (cases h, simp add: dispatch_end_def unfinished_def put_delivery_def schedule_def Let_def)
    qed
  qed
qed

lemma dispatch_end_inv:
  assumes "hub_inv env n [] h" and "i \<in> set (in_flight h)" and "maxAttempts opts \<le> n"
  shows "hub_inv env n [] (dispatch_end opts now i res h)" "saved_ok opts (dispatch_end opts now i res h)"
proof -
  note inv = assms(1) [unfolded hub_inv_def]
  obtain d where d: "map_get (deliveries h) i = Some d" "unfinished d"
    using inv assms(2) place_delivery [of "[]" h i] by (auto simp: places_def)
  have "del_id d = i" using inv d by (auto simp: hub_maps_def keyed_def)
  from dispatch_end_shape [OF d(1) this, of opts now res] obtain d' ex where
    s: "dispatch_end opts now i res h = persistState opts ((put_delivery d' h)\<lparr>in_flight := remove1 i (in_flight h), timers := timers h @ ex\<rparr>)"
    and p: "del_id d' = i" "subscription_id d' = subscription_id d" "event_id d' = event_id d" "attempt_count d' = attempt_count d"
    "ex = (if unfinished d' then [(i, retry_delay opts (attempt_count d))] else [])"
    and "unfinished d' \<longrightarrow> attempt_count d < maxAttempts opts" by blast
  then have "unfinished d' \<Longrightarrow> attempt_count d' < n" using assms(3) by simp
  from dispatch_end_put [OF assms(1,2) d(1) p this] s show "hub_inv env n [] (dispatch_end opts now i res h)"
    "saved_ok opts (dispatch_end opts now i res h)" by (simp_all add: inv_saved_persist)
qed

lemma timer_inv:
  assumes "hub_inv env n [] h" and "saved_ok opts h" and "i \<in> fst ` set (timers h)"
  shows "hub_inv env n [] (fst (timer_fires opts env now i h))" "saved_ok opts (fst (timer_fires opts env now i h))"
proof -
  let ?g = "h\<lparr>timers := map_delete i (timers h)\<rparr>"
  note inv = assms(1) [unfolded hub_inv_def]
  have keys: "map fst (map_delete i (timers h)) = filter (\<lambda>j. j \<noteq> i) (map fst (timers h))"
    using jsm.keys_del [of i "timers h"] by (simp add: map_keys_def)
  then have ks: "fst ` set (map_delete i (timers h)) = fst ` set (timers h) - {i}"
    by (metis list.set_map set_minus_filter_out)
  have "distinct (places [i] ?g)" using inv assms(3) keys ks by (auto simp: places_ok_def places_def)
  moreover have "set (places [i] ?g) = set (places [] h)" using assms(3) ks by (auto simp: places_def)
  ultimately have "places_ok [i] ?g" using inv by (simp add: places_ok_def)
  moreover have "attempts_ok n [i] ?g" using inv assms(3) ks by (auto simp: attempts_ok_def)
  ultimately have g: "hub_inv env n [i] ?g" using inv by (simp add: hub_inv_def hub_maps_def refs_ok_def)
  from dispatch_begin_inv [OF this, of opts now] show "hub_inv env n [] (fst (timer_fires opts env now i h))"
    "saved_ok opts (fst (timer_fires opts env now i h))" by (simp_all add: timer_fires_def)
qed


lemma fan_out_inv:
  assumes "inj (idFactory env)" and "0 < n" and "hub_inv env n [] h" and "saved_ok opts h"
    and "\<And>s e. (s, e) \<in> set ps \<Longrightarrow> map_get (subscriptions h) (sub_id s) \<noteq> None \<and> map_get (hub_events h) (ev_id e) \<noteq> None"
    and "create_all opts env now ps h = (h1, is)"
  shows "hub_inv env n [] (dispatch_all opts env now is h1) \<and> saved_ok opts (dispatch_all opts env now is h1)"
  using create_all_inv [OF assms] dispatch_all_inv [of env n "is" "[]" h1 opts now] by simp

definition event_of :: "int \<Rightarrow> WebhookEventInput \<Rightarrow> string \<Rightarrow> WebhookEvent" where
  "event_of now inp i = \<lparr>ev_id = i, ev_type = ei_type inp, ev_chain = ei_chain inp, ev_cluster = ei_cluster inp,
     ev_resource = ei_resource inp, ev_payload = ei_payload inp, emitted_at = now\<rparr>"

definition id_drawn :: "hub_env \<Rightarrow> WebhookEventInput \<Rightarrow> hub \<Rightarrow> string \<times> hub" where
  "id_drawn env inp h = (case ei_id inp of Some x \<Rightarrow> (x, h) | None \<Rightarrow> (idFactory env (id_calls h), h\<lparr>id_calls := id_calls h + 1\<rparr>))"

lemma emit_cases:
  assumes "id_drawn env inp h = (i, h0)"
  shows "emit opts env now inp h = (case map_get (hub_events h0) i of Some e \<Rightarrow> (h0, e, [], True)
    | None \<Rightarrow> (let e = event_of now inp i; h1 = h0\<lparr>hub_events := map_set i e (hub_events h0)\<rparr> in
        case create_all opts env now (map (\<lambda>s. (s, e)) (subscribers h1 e)) h1 of (h2, is) \<Rightarrow> (dispatch_all opts env now is h2, e, is, False)))"
  using assms by (simp add: emit_def id_drawn_def event_of_def Let_def split: option.splits)

lemma emit_inv:
  assumes "inj (idFactory env)" and "0 < n" and "hub_inv env n [] h" and "saved_ok opts h"
  shows "hub_inv env n [] (fst (emit opts env now inp h)) \<and> saved_ok opts (fst (emit opts env now inp h))"
proof -
  obtain i h0 where dr: "id_drawn env inp h = (i, h0)" by fastforce
  then have h0: "hub_inv env n [] h0" "saved_ok opts h0" using assms(3,4) id_calls_inv [of env n "[]" h "id_calls h + 1"]
    by (auto simp: id_drawn_def id_calls_saved split: option.splits)
  show ?thesis
  proof (cases "map_get (hub_events h0) i")
    case (Some e)
    then show ?thesis using h0 by (simp add: emit_cases [OF dr])
  next
    case None
    let ?e = "event_of now inp i"
    let ?h1 = "h0\<lparr>hub_events := map_set i ?e (hub_events h0)\<rparr>"
    obtain h2 "is" where c: "create_all opts env now (map (\<lambda>s. (s, ?e)) (subscribers ?h1 ?e)) ?h1 = (h2, is)" by fastforce
    have h1: "hub_inv env n [] ?h1" using event_put_inv [OF h0(1) _ None, of ?e] by (simp add: event_of_def)
    have s1: "saved_ok opts ?h1" using h0(2) by (rule saved_cong) (use None in \<open>auto simp: map_specs\<close>)
    have "map_get (subscriptions ?h1) (sub_id s) \<noteq> None \<and> map_get (hub_events ?h1) (ev_id e) \<noteq> None"
      if "(s, e) \<in> set (map (\<lambda>s. (s, ?e)) (subscribers ?h1 ?e))" for s e
      using that subscriber_exists [of env ?h1] h1 by (auto simp: hub_inv_def event_of_def map_specs)
    from fan_out_inv [OF assms(1,2) h1 s1 this c] None show ?thesis by (simp add: emit_cases [OF dr] c Let_def)
  qed
qed

lemma replay_inv:
  assumes "inj (idFactory env)" and "0 < n" and "hub_inv env n [] h" and "saved_ok opts h"
  shows "hub_inv env n [] (fst (replay opts env now inp h)) \<and> saved_ok opts (fst (replay opts env now inp h))"
proof -
  let ?ps = "concat (map (\<lambda>e. map (\<lambda>s. (s, e)) (matchingSubscriptions h e (rp_subscription_ids inp))) (selected_events inp h))"
  obtain h1 "is" where c: "create_all opts env now ?ps h = (h1, is)" by fastforce
  have maps: "hub_maps env h" using assms(3) by (simp add: hub_inv_def)
  have "map_get (subscriptions h) (sub_id s) \<noteq> None \<and> map_get (hub_events h) (ev_id e) \<noteq> None" if "(s, e) \<in> set ?ps" for s e
  proof
    from that have s: "s \<in> set (subscribers h e)" and e: "e \<in> set (selected_events inp h)" by (auto simp: matchingSubscriptions_def)
    show "map_get (subscriptions h) (sub_id s) \<noteq> None" using subscriber_exists [OF maps s] .
    have "e \<in> set (map_values (hub_events h))" using e set_slice0 unfolding selected_events_def by fastforce
    then show "map_get (hub_events h) (ev_id e) \<noteq> None" using maps by (auto simp: hub_maps_def keyed_def map_values_get)
  qed
  from fan_out_inv [OF assms this c] show ?thesis by (simp add: replay_def c Let_def)
qed

lemma normalize_values: "hub_maps env h \<Longrightarrow> map normalizeSubscription (map_values (subscriptions h)) = map_values (subscriptions h)"
  by (auto simp: hub_maps_def keyed_def map_values_get sub_ok_def normalizeSubscription_def intro!: map_idI)

lemma new_hub_fields:
  assumes "hub_maps env h" and "has_store opts" and "file_matches h ds es"
    and "webhook_store_load (store_file h) = \<lparr>sn_subscriptions = map_values (subscriptions h), sn_deliveries = map_values ds, sn_events = map_values es\<rparr>"
  shows "subscriptions (new_hub opts now k (store_file h)) = subscriptions h" "deliveries (new_hub opts now k (store_file h)) = ds"
    "hub_events (new_hub opts now k (store_file h)) = es" "in_flight (new_hub opts now k (store_file h)) = []"
    "id_calls (new_hub opts now k (store_file h)) = k"
    "timers (new_hub opts now k (store_file h)) = map (\<lambda>d. (del_id d, resume_delay now d)) (filter unfinished (map_values ds))"
proof -
  have "keyed del_id ds" "keyed ev_id es" "keyed sub_id (subscriptions h)" using assms(1,3) by (auto simp: file_matches_def hub_maps_def)
  then show "subscriptions (new_hub opts now k (store_file h)) = subscriptions h" "deliveries (new_hub opts now k (store_file h)) = ds"
    "hub_events (new_hub opts now k (store_file h)) = es" "in_flight (new_hub opts now k (store_file h)) = []"
    "id_calls (new_hub opts now k (store_file h)) = k"
    "timers (new_hub opts now k (store_file h)) = map (\<lambda>d. (del_id d, resume_delay now d)) (filter unfinished (map_values ds))"
    using assms(2,4) normalize_values [OF assms(1)] by (simp_all add: new_hub_def Let_def resumePendingDeliveries_def map_load_values)
qed

lemma unsigned_same:
  assumes "map_option unsigned_delivery (map_get ds i) = map_option unsigned_delivery (map_get m i)" and "map_get ds i = Some d"
  shows "\<exists>d'. map_get m i = Some d' \<and> unsigned_delivery d' = unsigned_delivery d"
  using assms by (cases "map_get m i") auto

lemma unsigned_fields:
  "unsigned_delivery d' = unsigned_delivery d \<Longrightarrow> subscription_id d' = subscription_id d \<and> event_id d' = event_id d \<and> attempt_count d' = attempt_count d
    \<and> del_state d' = del_state d \<and> next_attempt_at d' = next_attempt_at d"
  by (cases d; cases d') (simp add: unsigned_delivery_def)


lemma restart_inv:
  assumes "hub_inv env n [] h" and "saved_ok opts h"
  shows "hub_inv env (Suc n) [] (new_hub opts now (id_calls h) (store_file h))" (is "hub_inv env _ [] ?g")
proof (cases "has_store opts")
  case False
  then show ?thesis
    by (simp add: new_hub_def hub_inv_def hub_maps_def refs_ok_def places_ok_def places_def attempts_ok_def map_specs)
next
  case True
  then obtain ds es where m: "file_matches h ds es"
    "webhook_store_load (store_file h) = \<lparr>sn_subscriptions = map_values (subscriptions h), sn_deliveries = map_values ds, sn_events = map_values es\<rparr>"
    using assms(2) by (auto simp: saved_ok_def)
  note inv = assms(1) [unfolded hub_inv_def]
  then have maps: "hub_maps env h" by blast
  note g = new_hub_fields [OF maps True m, of now "id_calls h"]
  have old: "\<exists>d'. map_get (deliveries h) i = Some d' \<and> subscription_id d' = subscription_id d \<and> event_id d' = event_id d \<and> attempt_count d' = attempt_count d"
    if "map_get ds i = Some d" for i d
    using m(1) that unsigned_same [of ds i "deliveries h" d] unsigned_fields unfolding file_matches_def by metis
  have kd: "keyed del_id ds" "keyed ev_id es" using m(1) by (auto simp: file_matches_def)
  have "hub_maps env ?g" using maps kd old unfolding hub_maps_def g by (metis option.distinct(1) option.exhaust)
  moreover have "refs_ok ?g"
    unfolding refs_ok_def g
  proof (intro allI impI)
    fix i d assume "map_get ds i = Some d"
    from old [OF this] obtain d' where d': "map_get (deliveries h) i = Some d'" "subscription_id d' = subscription_id d" "event_id d' = event_id d" by blast
    then have "map_get (subscriptions h) (subscription_id d') \<noteq> None" "map_get es (event_id d') \<noteq> None"
      using inv m(1) unfolding refs_ok_def file_matches_def by blast+
    with d' show "map_get (subscriptions h) (subscription_id d) \<noteq> None \<and> map_get es (event_id d) \<noteq> None" by simp
  qed
  moreover have "places_ok [] ?g"
  proof -
    have p: "places [] ?g = map del_id (filter unfinished (map_values ds))" by (simp add: places_def g o_def)
    have "distinct (map del_id (map_values ds))" using keyed_values [OF kd(1)] kd(1) by (simp add: keyed_def map_ok_def)
    then have "distinct (places [] ?g)" unfolding p by (rule distinct_map_filter)
    moreover have "i \<in> set (places [] ?g) \<longleftrightarrow> (\<exists>d. map_get ds i = Some d \<and> unfinished d)" for i
    proof -
      have ok: "map_ok ds" and key: "\<And>k v. map_get ds k = Some v \<Longrightarrow> del_id v = k" using kd(1) by (auto simp: keyed_def)
      show ?thesis unfolding p set_map set_filter using map_values_get [OF ok] key by (auto simp: image_iff)
    qed
    ultimately show ?thesis by (simp add: places_ok_def g)
  qed
  moreover have "attempts_ok (Suc n) [] ?g" unfolding attempts_ok_def g
  proof (intro allI impI)
    fix i d assume "map_get ds i = Some d"
    from old [OF this] obtain d' where "map_get (deliveries h) i = Some d'" "attempt_count d' = attempt_count d" by blast
    then have "attempt_count d \<le> n" using inv unfolding attempts_ok_def by metis
    then show "attempt_count d \<le> Suc n \<and> (i \<in> set [] \<union> fst ` set (map (\<lambda>d. (del_id d, resume_delay now d)) (filter unfinished (map_values ds)))
      \<longrightarrow> attempt_count d < Suc n)" by simp
  qed
  ultimately show ?thesis by (simp add: hub_inv_def)
qed

lemma new_hub_saved:
  assumes "hub_inv env n [] (new_hub opts now k f)"
  shows "saved_ok opts (new_hub opts now k f)"
proof (cases "has_store opts")
  case True
  then obtain h where "new_hub opts now k f = persistState opts h" by (simp add: new_hub_def Let_def)
  with assms show ?thesis by (simp add: inv_saved_persist)
qed (simp add: saved_ok_def)

lemma hub_run_inv:
  assumes "hub_run opts env r h" and "inj (idFactory env)" and "0 < maxAttempts opts"
  shows "hub_inv env (maxAttempts opts + r) [] h \<and> saved_ok opts h"
  using assms(1)
proof (induction rule: hub_run.induct)
  case (start now)
  have "hub_inv env (maxAttempts opts) [] (new_hub opts now 0 None)"
    by (simp add: new_hub_def hub_inv_def hub_maps_def refs_ok_def places_ok_def places_def attempts_ok_def map_specs
        webhook_store_load_def map_load_def resumePendingDeliveries_def map_values_def Let_def)
  then show ?case using new_hub_saved by auto
next
  case (restart r h now)
  then have "hub_inv env (maxAttempts opts + Suc r) [] (new_hub opts now (id_calls h) (store_file h))" using restart_inv by simp
  then show ?case using new_hub_saved by blast
next
  case (subscribe r h now inp)
  then show ?case using createSubscription_inv [OF _ assms(2)] by blast
next
  case (rotate r h now i sec)
  then show ?case using rotate_inv by blast
next
  case (emit r h now inp)
  then show ?case using emit_inv [OF assms(2), of "maxAttempts opts + r" h opts now inp] assms(3) by simp
next
  case (replay r h now inp)
  then show ?case using replay_inv [OF assms(2), of "maxAttempts opts + r" h opts now inp] assms(3) by simp
next
  case (answer r h i now res)
  then show ?case using dispatch_end_inv [of env "maxAttempts opts + r" h i opts now res] by simp
next
  case (timer r h i now)
  then show ?case using timer_inv by blast
qed


subsection \<open>What an emission creates\<close>

text \<open>Where a delivery goes: its subscription and its event.\<close>

definition addressee :: "hub \<Rightarrow> string \<Rightarrow> (string \<times> string) option" where
  "addressee h i = map_option (\<lambda>d. (subscription_id d, event_id d)) (map_get (deliveries h) i)"

lemma addressee_dispatch:
  assumes "hub_inv env n (i # W) h"
  shows "addressee (fst (dispatch_begin opts env now i h)) j = addressee h j"
proof -
  have "del_id d = i" if "map_get (deliveries h) i = Some d" for d using that assms by (auto simp: hub_inv_def hub_maps_def keyed_def)
  then show ?thesis by (auto simp: addressee_def dispatch_begin_def Let_def map_specs split: option.splits)
qed

lemma addressee_dispatch_all:
  "hub_inv env n (is @ W) h \<Longrightarrow> addressee (dispatch_all opts env now is h) j = addressee h j"
proof (induction "is" arbitrary: h)
  case (Cons i "is")
  from Cons.prems have i: "hub_inv env n (i # is @ W) h" by simp
  show ?case using Cons.IH [OF dispatch_begin_inv(1) [OF i]] addressee_dispatch [OF i] by simp
qed simp

lemma addressee_create:
  assumes "hub_maps env h" and "inj (idFactory env)" and "createDelivery opts env now s e h = (h', i)"
  shows "addressee h i = None" "addressee h' j = (if j = i then Some (sub_id s, ev_id e) else addressee h j)"
  using assms fresh_id [OF assms(1,2)] by (auto simp: createDelivery_def Let_def addressee_def map_specs)

lemma addressee_create_all:
  assumes "inj (idFactory env)" and "0 < n"
  shows "hub_inv env n W h \<Longrightarrow>
    (\<And>s e. (s, e) \<in> set ps \<Longrightarrow> map_get (subscriptions h) (sub_id s) \<noteq> None \<and> map_get (hub_events h) (ev_id e) \<noteq> None) \<Longrightarrow>
    create_all opts env now ps h = (h', is) \<Longrightarrow>
    map (addressee h') is = map (\<lambda>(s, e). Some (sub_id s, ev_id e)) ps \<and> (\<forall>j. j \<notin> set is \<longrightarrow> addressee h' j = addressee h j)
      \<and> (\<forall>j \<in> set is. addressee h j = None)"
proof (induction ps arbitrary: h W "is")
  case (Cons p ps)
  obtain s e where p: "p = (s, e)" by fastforce
  obtain h1 i where c: "createDelivery opts env now s e h = (h1, i)" by fastforce
  obtain is' where r: "create_all opts env now ps h1 = (h', is')" "is = i # is'"
    using Cons.prems(3) c p by (auto split: prod.splits)
  have "map_get (subscriptions h) (sub_id s) \<noteq> None" "map_get (hub_events h) (ev_id e) \<noteq> None" using Cons.prems(2) [of s e] p by auto
  note c1 = createDelivery_inv [OF Cons.prems(1) assms this c]
  have maps: "hub_maps env h" using Cons.prems(1) by (simp add: hub_inv_def)
  note a = addressee_create [OF maps assms(1) c]
  have ih: "map (addressee h') is' = map (\<lambda>(s, e). Some (sub_id s, ev_id e)) ps \<and> (\<forall>j. j \<notin> set is' \<longrightarrow> addressee h' j = addressee h1 j)
      \<and> (\<forall>j \<in> set is'. addressee h1 j = None)"
    using Cons.IH [OF c1(1) _ r(1)] Cons.prems(2) c1(3,4) p by auto
  then have ni: "i \<notin> set is'" using a(2) [of i] by auto
  have "addressee h j = None" if "j \<in> set is'" for j using that ih a(2) [of j] ni by (metis (no_types))
  with ih a p r(2) ni show ?case by auto
qed simp

lemma create_all_fields: "create_all opts env now ps h = (h', is) \<Longrightarrow> subscriptions h' = subscriptions h \<and> hub_events h' = hub_events h"
  by (induction ps arbitrary: h "is") (auto simp: createDelivery_def Let_def split: prod.splits)

lemma dispatch_all_fields:
  "subscriptions (dispatch_all opts env now is h) = subscriptions h \<and> hub_events (dispatch_all opts env now is h) = hub_events h"
  by (induction "is" arbitrary: h) auto

lemma emit_creates:
  assumes "hub_inv env n [] h" and "saved_ok opts h" and "inj (idFactory env)" and "0 < n"
    and "ei_id inp = Some x" and "map_get (hub_events h) x = None" and "emit opts env now inp h = (h', e, is, dup)"
  shows "\<not> dup \<and> map (addressee h') is = map (\<lambda>s. Some (sub_id s, x)) (subscribers h e) \<and> distinct is
    \<and> (\<forall>j. j \<notin> set is \<longrightarrow> addressee h' j = addressee h j) \<and> map_get (hub_events h') x = Some e \<and> e = event_of now inp x"
proof -
  let ?e = "event_of now inp x" and ?h1 = "h\<lparr>hub_events := map_set x (event_of now inp x) (hub_events h)\<rparr>"
  obtain h2 "is'" where c: "create_all opts env now (map (\<lambda>s. (s, ?e)) (subscribers ?h1 ?e)) ?h1 = (h2, is')" by fastforce
  have dr: "id_drawn env inp h = (x, h)" using assms(5) by (simp add: id_drawn_def)
  have r: "h' = dispatch_all opts env now is h2" "e = ?e" "is = is'" "dup = False"
    using assms(6,7) c by (auto simp: emit_cases [OF dr] Let_def)
  have h1: "hub_inv env n [] ?h1" using event_put_inv [OF assms(1) _ assms(6), of ?e] by (simp add: event_of_def)
  have s1: "saved_ok opts ?h1" using assms(2) by (rule saved_cong) (use assms(6) in \<open>auto simp: map_specs\<close>)
  have ex: "map_get (subscriptions ?h1) (sub_id s) \<noteq> None \<and> map_get (hub_events ?h1) (ev_id f) \<noteq> None"
    if "(s, f) \<in> set (map (\<lambda>s. (s, ?e)) (subscribers ?h1 ?e))" for s f
    using that subscriber_exists [of env ?h1] h1 by (auto simp: hub_inv_def event_of_def map_specs)
  have i2: "hub_inv env n is' h2" using create_all_inv [OF assms(3,4) h1 s1 ex c] by simp
  then have "distinct is'" by (auto simp: hub_inv_def places_ok_def places_def)
  moreover have "addressee h' = addressee h2" using addressee_dispatch_all [of env n is' "[]" h2] i2 r by (simp add: fun_eq_iff)
  moreover have "subscribers ?h1 ?e = subscribers h ?e" by (simp add: subscribers_def)
  moreover have "addressee ?h1 j = addressee h j" for j by (simp add: addressee_def)
  moreover note addressee_create_all [OF assms(3,4) h1 ex c]
  ultimately have "map (addressee h') is = map (\<lambda>s. Some (sub_id s, ev_id ?e)) (subscribers h ?e)"
    "\<forall>j. j \<notin> set is \<longrightarrow> addressee h' j = addressee h j" "distinct is" using r(3) by (simp_all add: o_def)
  moreover have "map_get (hub_events h') x = Some ?e" "ev_id ?e = x"
    using r(1) create_all_fields [OF c] dispatch_all_fields [of opts env now "is" h2] by (simp_all add: map_specs event_of_def)
  ultimately show ?thesis using r by simp
qed


subsection \<open>Retries\<close>

text \<open>The timer of a delivery fires and its request is answered, for each answer as long as it has a timer.\<close>

fun cycles :: "hub_opts \<Rightarrow> hub_env \<Rightarrow> int \<Rightarrow> string \<Rightarrow> (int \<times> bool) js list \<Rightarrow> hub \<Rightarrow> hub" where
  "cycles opts env now i [] h = h"
| "cycles opts env now i (r # rs) h =
     (if i \<in> fst ` set (timers h) then cycles opts env now i rs (dispatch_end opts now i r (fst (timer_fires opts env now i h))) else h)"

lemma timer_fires_delivery:
  assumes "hub_inv env n [] h" and "i \<in> fst ` set (timers h)" and "map_get (deliveries h) i = Some d"
  shows "\<exists>d1. map_get (deliveries (fst (timer_fires opts env now i h))) i = Some d1 \<and> attempt_count d1 = Suc (attempt_count d)
    \<and> i \<in> set (in_flight (fst (timer_fires opts env now i h)))"
proof -
  note inv = assms(1) [unfolded hub_inv_def]
  have "map_get (subscriptions h) (subscription_id d) \<noteq> None \<and> map_get (hub_events h) (event_id d) \<noteq> None"
    using inv assms(3) unfolding refs_ok_def by blast
  moreover have "del_id d = i" using inv assms(3) by (auto simp: hub_maps_def keyed_def)
  ultimately show ?thesis using assms(3) by (auto simp: timer_fires_def dispatch_begin_def Let_def map_specs)
qed

lemma dispatch_end_delivery:
  assumes "hub_inv env n [] h" and "map_get (deliveries h) i = Some d"
  shows "\<exists>d'. map_get (deliveries (dispatch_end opts now i res h)) i = Some d' \<and> attempt_count d' = attempt_count d
    \<and> del_state d' = (if response_error res = None then Delivered else if maxAttempts opts \<le> attempt_count d then DeadLetter else Retrying)
    \<and> (i \<in> fst ` set (timers (dispatch_end opts now i res h)) \<longleftrightarrow> i \<in> fst ` set (timers h) \<or> del_state d' = Retrying)"
proof -
  have "del_id d = i" using assms by (auto simp: hub_inv_def hub_maps_def keyed_def)
  then have "del_id (with_status res d) = i" "attempt_count (with_status res d) = attempt_count d"
    by (auto simp: with_status_def split: sum.splits)
  then show ?thesis using assms(2)
    by (auto simp: dispatch_end_def Let_def schedule_def map_specs split: option.splits)
qed

lemma cycles_idle: "i \<notin> fst ` set (timers h) \<Longrightarrow> cycles opts env now i rs h = h"
  by (cases rs) simp_all

lemma cycles_finish:
  assumes "inj (idFactory env)" and "maxAttempts opts \<le> n"
  shows "hub_inv env n [] h \<Longrightarrow> saved_ok opts h \<Longrightarrow> map_get (deliveries h) i = Some d \<Longrightarrow> i \<in> fst ` set (timers h) \<Longrightarrow>
    attempt_count d < maxAttempts opts \<Longrightarrow> length rs = maxAttempts opts - attempt_count d \<Longrightarrow>
    \<exists>d'. map_get (deliveries (cycles opts env now i rs h)) i = Some d' \<and> attempt_count d' \<le> maxAttempts opts
      \<and> del_state d' = (if \<exists>r \<in> set rs. response_error r = None then Delivered else DeadLetter)"
proof (induction rs arbitrary: h d)
  case (Cons r rs)
  let ?h1 = "fst (timer_fires opts env now i h)" and ?h2 = "dispatch_end opts now i r (fst (timer_fires opts env now i h))"
  note t = timer_inv [OF Cons.prems(1,2,4), of now]
  obtain d1 where d1: "map_get (deliveries ?h1) i = Some d1" "attempt_count d1 = Suc (attempt_count d)" "i \<in> set (in_flight ?h1)"
    using timer_fires_delivery [OF Cons.prems(1,4,3)] by blast
  note e = dispatch_end_inv [OF t(1) d1(3) assms(2), of now r]
  have "i \<notin> fst ` set (timers ?h1)" using t(1) d1(3) by (auto simp: hub_inv_def places_ok_def places_def)
  then obtain d2 where d2: "map_get (deliveries ?h2) i = Some d2" "attempt_count d2 = Suc (attempt_count d)"
    "del_state d2 = (if response_error r = None then Delivered else if maxAttempts opts \<le> Suc (attempt_count d) then DeadLetter else Retrying)"
    "i \<in> fst ` set (timers ?h2) \<longleftrightarrow> del_state d2 = Retrying"
    using dispatch_end_delivery [OF t(1) d1(1), of opts now r, unfolded d1(2)] by blast
  have step: "cycles opts env now i (r # rs) h = cycles opts env now i rs ?h2" using Cons.prems(4) by simp
  show ?case
  proof (cases "del_state d2 = Retrying")
    case True
    then have bad: "response_error r \<noteq> None" "Suc (attempt_count d) < maxAttempts opts" using d2(3) by (auto split: if_splits)
    have "i \<in> fst ` set (timers ?h2)" "attempt_count d2 < maxAttempts opts" "length rs = maxAttempts opts - attempt_count d2"
      using True bad d2(2,4) Cons.prems(6) by auto
    note ih = Cons.IH [OF e d2(1) this]
    have ex: "(\<exists>q \<in> set (r # rs). response_error q = None) \<longleftrightarrow> (\<exists>q \<in> set rs. response_error q = None)" using bad(1) by auto
    from ih show ?thesis unfolding step ex .
  next
    case False
    then have "cycles opts env now i rs ?h2 = ?h2" using d2(4) by (simp add: cycles_idle)
    moreover have "rs = []" if "response_error r \<noteq> None"
    proof -
      from that False d2(3) have "maxAttempts opts \<le> Suc (attempt_count d)" by (auto split: if_splits)
      moreover have "Suc (length rs) = maxAttempts opts - attempt_count d" using Cons.prems(6) by simp
      ultimately have "length rs = 0" by linarith
      then show ?thesis by simp
    qed
    ultimately show ?thesis unfolding step using d2(1,2,3) False Cons.prems(5) by (auto split: if_splits)
  qed
qed simp


subsection \<open>Properties\<close>

lemma count_distinct: "distinct xs \<Longrightarrow> count_list xs x = (if x \<in> set xs then 1 else 0)"
  by (induction xs) auto

lemma new_opts_attempts [simp]: "0 < maxAttempts (new_opts a b c st)"
  by (simp add: new_opts_def)

text \<open>A small run: one subscription, one event, a failed attempt.\<close>

definition sample_henv :: hub_env where
  "sample_henv = \<lparr>idFactory = show_nat, hmac = (\<lambda>k m. k @ m), event_json = ev_payload\<rparr>"

definition sample_sub :: WebhookSubscriptionInput where
  "sample_sub = \<lparr>in_url = ''https://x'', in_events = [TaskCreated], in_secret = ''0123456789abcdef'', in_description = None\<rparr>"

definition sample_event :: WebhookEventInput where
  "sample_event = \<lparr>ei_type = TaskCreated, ei_chain = ''solana'', ei_cluster = ''devnet'', ei_resource = (ResTask, ''ab''),
     ei_payload = ''{}'', ei_id = Some ''e1''\<rparr>"

definition sample_hopts :: hub_opts where
  "sample_hopts = new_opts None (Some 2) None True"

definition sample_subscribed :: hub where
  "sample_subscribed = fst (createSubscription sample_hopts sample_henv 5 sample_sub (new_hub sample_hopts 5 0 None))"

definition sample_sent :: hub where
  "sample_sent = fst (emit sample_hopts sample_henv 6 sample_event sample_subscribed)"

definition sample_retrying :: hub where
  "sample_retrying = dispatch_end sample_hopts 7 ''1'' (Inl ''timeout'') sample_sent"

lemma sample_subscribed_run: "hub_run sample_hopts sample_henv 0 sample_subscribed"
  unfolding sample_subscribed_def by (intro hub_run.intros)

lemma sample_flight: "in_flight sample_sent = [''1'']"
  by code_simp

lemma sample_retrying_state: "map_option (\<lambda>d. (del_state d, attempt_count d)) (map_get (deliveries sample_retrying) ''1'') = Some (Retrying, 1)"
  by code_simp

lemma sample_retrying_run: "hub_run sample_hopts sample_henv 0 sample_retrying"
  unfolding sample_retrying_def
proof (rule hub_run.answer)
  show "hub_run sample_hopts sample_henv 0 sample_sent"
    unfolding sample_sent_def by (rule hub_run.emit [OF sample_subscribed_run])
qed (simp add: sample_flight)

lemma sample_inj: "inj (idFactory sample_henv)"
  by (simp add: sample_henv_def inj_def)

lemma sample_hopts_new: "sample_hopts = new_opts None (Some 2) None True"
  by (simp add: sample_hopts_def)

text \<open>
  C8. No delivery is lost or sent twice at once: in every state of a run, with any interleaving of
  requests, answers, timers, secret rotations, replays and restarts, a delivery that is not
  finished is in exactly one place, under way or on a timer, a finished one is in none, and the attempts of a
  delivery are at most the configured number plus the number of restarts.
\<close>

theorem deliveries_never_lost:
  assumes "hub_run (new_opts a b c st) env r h" and "inj (idFactory env)" and "map_get (deliveries h) i = Some d"
  shows "count_list (in_flight h @ map fst (timers h)) i = (if del_state d = Pending \<or> del_state d = Retrying then 1 else 0)
    \<and> attempt_count d \<le> maxAttempts (new_opts a b c st) + r"
proof -
  have inv: "places_ok [] h" "attempts_ok (maxAttempts (new_opts a b c st) + r) [] h"
    using hub_run_inv [OF assms(1,2)] by (simp_all add: hub_inv_def)
  have "attempt_count d \<le> maxAttempts (new_opts a b c st) + r" using inv(2) assms(3) unfolding attempts_ok_def by blast
  moreover have "distinct (in_flight h @ map fst (timers h))"
    and mem: "i \<in> set (in_flight h @ map fst (timers h)) \<longleftrightarrow> del_state d = Pending \<or> del_state d = Retrying"
    using inv(1) assms(3) by (auto simp: places_ok_def places_def unfinished_def)
  ultimately show ?thesis unfolding count_distinct [OF \<open>distinct (in_flight h @ map fst (timers h))\<close>] mem by blast
qed

theorem deliveries_never_lost_witness:
  "\<exists>d. map_get (deliveries sample_retrying) ''1'' = Some d \<and> attempt_count d \<le> 2
    \<and> count_list (in_flight sample_retrying @ map fst (timers sample_retrying)) ''1'' = 1"
proof -
  obtain d where d: "map_get (deliveries sample_retrying) ''1'' = Some d" "del_state d = Retrying"
    using sample_retrying_state by auto
  have "maxAttempts (new_opts None (Some 2) None True) = 2" by (simp add: new_opts_def)
  with deliveries_never_lost [OF sample_retrying_run [unfolded sample_hopts_new] sample_inj d(1)] d show ?thesis by simp
qed







text \<open>
  C21. Retries end: a delivery on a timer, attempted less often than allowed, is finished after as many
  answers as attempts are left, whatever they are: delivered when one of them is a success, and
  otherwise dead-lettered.
\<close>

theorem retries_end:
  assumes "hub_run (new_opts a b c st) env r h" and "inj (idFactory env)" and "map_get (deliveries h) i = Some d"
    and "i \<in> fst ` set (timers h)" and "attempt_count d < maxAttempts (new_opts a b c st)"
    and "length rs = maxAttempts (new_opts a b c st) - attempt_count d"
  shows "\<exists>d'. map_get (deliveries (cycles (new_opts a b c st) env now i rs h)) i = Some d'
    \<and> attempt_count d' \<le> maxAttempts (new_opts a b c st)
    \<and> del_state d' = (if \<exists>q \<in> set rs. response_error q = None then Delivered else DeadLetter)"
proof -
  have "hub_inv env (maxAttempts (new_opts a b c st) + r) [] h" "saved_ok (new_opts a b c st) h"
    using hub_run_inv [OF assms(1,2)] by simp_all
  from cycles_finish [OF assms(2) _ this assms(3-6)] show ?thesis by simp
qed

theorem retries_end_witness:
  "\<exists>d. map_get (deliveries (cycles sample_hopts sample_henv 20 ''1'' [Inr (500, False)] sample_retrying)) ''1'' = Some d \<and> del_state d = DeadLetter"
proof -
  obtain d where d: "map_get (deliveries sample_retrying) ''1'' = Some d" "attempt_count d = 1"
    using sample_retrying_state by auto
  have t: "''1'' \<in> fst ` set (timers sample_retrying)" by code_simp
  have mx: "maxAttempts (new_opts None (Some 2) None True) = 2" by (simp add: new_opts_def)
  have "length [Inr (500, False) :: (int \<times> bool) js] = maxAttempts (new_opts None (Some 2) None True) - attempt_count d" using d mx by simp
  from retries_end [OF sample_retrying_run [unfolded sample_hopts_new] sample_inj d(1) t _ this, of 20] d(2) mx
  show ?thesis by (auto simp: sample_hopts_new response_error_def simp del: cycles.simps)
qed

text \<open>
  An event without a subscriber is not written to the file: after a restart the hub does not know it, so it
  can no longer be replayed to a subscription made later.
\<close>

theorem unsubscribed_event_forgotten:
  assumes "hub_run (new_opts a b c True) env r h" and "inj (idFactory env)" and "ei_id inp = Some x"
    and "map_get (hub_events h) x = None" and "\<forall>s \<in> set (map_values (subscriptions h)). ei_type inp \<notin> set (sub_events s)"
    and "h' = fst (emit (new_opts a b c True) env now inp h)"
  shows "map_get (hub_events h') x \<noteq> None \<and> map_get (hub_events (new_hub (new_opts a b c True) later (id_calls h') (store_file h'))) x = None"
proof -
  let ?o = "new_opts a b c True"
  have run: "hub_inv env (maxAttempts ?o + r) [] h" "saved_ok ?o h" using hub_run_inv [OF assms(1,2)] by simp_all
  have st: "has_store ?o" by (simp add: new_opts_def)
  obtain ds es where m: "file_matches h ds es"
    "webhook_store_load (store_file h) = \<lparr>sn_subscriptions = map_values (subscriptions h), sn_deliveries = map_values ds, sn_events = map_values es\<rparr>"
    using run(2) st by (auto simp: saved_ok_def)
  have dr: "id_drawn env inp h = (x, h)" using assms(3) by (simp add: id_drawn_def)
  have "subscribers (h\<lparr>hub_events := ev\<rparr>) (event_of now inp x) = []" for ev
    using assms(5) by (simp add: subscribers_def event_of_def filter_empty_conv)
  then have h': "h' = h\<lparr>hub_events := map_set x (event_of now inp x) (hub_events h)\<rparr>"
    using assms(4,6) by (simp add: emit_cases [OF dr] Let_def)
  have "hub_maps env h" using run(1) by (simp add: hub_inv_def)
  then have "hub_events (new_hub ?o later (id_calls h') (store_file h')) = es" using new_hub_fields(3) [OF _ st m] h' by simp
  moreover have "map_get es x = None" using m(1) assms(4) unfolding file_matches_def by (metis option.exhaust option.distinct(1))
  ultimately show ?thesis using h' by (simp add: map_specs)
qed

theorem unsubscribed_event_forgotten_witness:
  "map_get (hub_events (fst (emit sample_hopts sample_henv 6 (sample_event\<lparr>ei_type := BidRevealed\<rparr>) sample_subscribed))) ''e1'' \<noteq> None"
proof -
  have x: "ei_id (sample_event\<lparr>ei_type := BidRevealed\<rparr>) = Some ''e1''" by (simp add: sample_event_def)
  have f: "map_get (hub_events sample_subscribed) ''e1'' = None" by code_simp
  have "\<forall>s \<in> set (map_values (subscriptions sample_subscribed)). ei_type (sample_event\<lparr>ei_type := BidRevealed\<rparr>) \<notin> set (sub_events s)" by code_simp
  from unsubscribed_event_forgotten [OF sample_subscribed_run [unfolded sample_hopts_new] sample_inj x f this refl]
  show ?thesis by (simp add: sample_hopts_new)
qed

text \<open>
  Replay compares times as text: an event of half past midnight (UTC) is left out of a replay since
  midnight when the caller writes that midnight with a time zone, a text the request check admits.
\<close>

theorem replay_window_compares_text:
  "toISOString 1704069000000 = ''2024-01-01T00:30:00.000Z''
    \<and> \<not> matchesReplay \<lparr>ev_id = ''e'', ev_type = TaskCreated, ev_chain = ''solana'', ev_cluster = ''devnet'', ev_resource = (ResTask, ''ab''),
        ev_payload = ''{}'', emitted_at = 1704069000000\<rparr>
      \<lparr>rp_event_id = None, rp_since = Some ''2024-01-01T02:00:00+02:00'', rp_until = None, rp_event_types = None,
        rp_subscription_ids = None, rp_limit = None\<rparr>"
  by code_simp

lemma authorizeToken_iff: "authorizeToken p e \<longleftrightarrow> p = e \<and> truthy e"
  by (cases p; cases e) (auto simp: authorizeToken_def list.rel_eq)

text \<open>
  Only the holder of a token changes the hub: when a webhook route changes its state, the header is the
  configured admin token, for emitted events the service token, which is set and not empty.
\<close>

theorem webhook_routes_need_token:
  "(fst (post_subscription sv opts env now header b h) \<noteq> h \<longrightarrow> header = adminToken sv \<and> truthy (adminToken sv))
    \<and> (fst (post_rotate sv opts now header i sec h) \<noteq> h \<longrightarrow> header = adminToken sv \<and> truthy (adminToken sv))
    \<and> (fst (post_event sv opts env now header ev h) \<noteq> h \<longrightarrow> header = serviceToken sv \<and> truthy (serviceToken sv))
    \<and> (fst (post_replay sv opts env now header rp h) \<noteq> h \<longrightarrow> header = adminToken sv \<and> truthy (adminToken sv))"
  by (auto simp: post_subscription_def post_rotate_def post_event_def post_replay_def authorizeToken_iff split: if_splits)

theorem webhook_routes_need_token_witness:
  "fst (post_event \<lparr>adminToken = Some ''a'', serviceToken = Some ''s'', is_url = (\<lambda>_. True), is_date = (\<lambda>_. True)\<rparr> sample_hopts sample_henv 6
     (Some ''x'') sample_event sample_subscribed) = sample_subscribed"
  using webhook_routes_need_token [of "\<lparr>adminToken = Some ''a'', serviceToken = Some ''s'', is_url = (\<lambda>_. True), is_date = (\<lambda>_. True)\<rparr>"
    sample_hopts sample_henv 6 "Some ''x''" sample_sub sample_subscribed "[]" "[]" sample_event
    "\<lparr>rp_event_id = None, rp_since = None, rp_until = None, rp_event_types = None, rp_subscription_ids = None, rp_limit = None\<rparr>"] by auto

end
