(* ===== verification/Webhook_Producer.thy ===== *)
theory Webhook_Producer
  imports Webhook_Hub Json_Canonical
begin

text \<open>
  The producer that feeds the webhook hub from the indexer's table of program events
  (\<open>services/discovery/src/event-producer.ts\<close>): the translation of a decoded event, and one poll with its
  cursor. The database is the list of its visible rows and the cursor row.
\<close>

subsection \<open>Rows\<close>

text \<open>A field of the decoded data: a text, a number, a boolean, an array (an element that is not a number is
  \<open>None\<close>), or something else.\<close>

datatype field = FStr string | FNum rat | FBool bool | FArr "rat option list" | FOther

record ProgramEventRow =
  row_id :: nat
  row_signature :: string
  row_slot :: string
  event_name :: string
  row_data :: "string \<Rightarrow> field option"

definition MAPPED_EVENTS :: "string list" where
  "MAPPED_EVENTS = [''TaskCreated'', ''TaskVerified'', ''TaskReleased'', ''DisputeRaised'', ''BidRevealed'', ''StreamWithdrawn'',
     ''AgentRegistered'', ''ManifestUpdated'']"

definition hex_byte :: "rat \<Rightarrow> string" where
  "hex_byte b = (let n = nat \<lfloor>b\<rfloor> in [hex_digit (n div 16), hex_digit (n mod 16)])"

fun hex_items :: "rat option list \<Rightarrow> string \<Rightarrow> string option" where
  "hex_items [] out = Some out"
| "hex_items (None # _) out = None"
| "hex_items (Some b # bs) out = (if b < 0 \<or> 255 < b \<or> \<not> isInteger b then None else hex_items bs (out @ hex_byte b))"

definition bytesArrayToHex :: "field option \<Rightarrow> string option" where
  "bytesArrayToHex v = (case v of Some (FArr bs) \<Rightarrow> if bs = [] then None else hex_items bs [] | _ \<Rightarrow> None)"

definition readString :: "(string \<Rightarrow> field option) \<Rightarrow> string \<Rightarrow> string option" where
  "readString d k = (case d k of Some (FStr s) \<Rightarrow> if s \<noteq> [] then Some s else None | _ \<Rightarrow> None)"

text \<open>\<open>num_str\<close> is the language's printing of a number.\<close>

definition readNumeric :: "(rat \<Rightarrow> string) \<Rightarrow> (string \<Rightarrow> field option) \<Rightarrow> string \<Rightarrow> string option" where
  "readNumeric num_str d k = (case d k of Some (FStr s) \<Rightarrow> Some s | Some (FNum n) \<Rightarrow> Some (num_str n) | _ \<Rightarrow> None)"

datatype pval = PText "string option" | PBool bool

definition pval_json :: "pval \<Rightarrow> string" where
  "pval_json v = (case v of PText None \<Rightarrow> ''null'' | PText (Some s) \<Rightarrow> json_string s | PBool b \<Rightarrow> if b then ''true'' else ''false'')"

definition payload_json :: "(string \<times> pval) list \<Rightarrow> string" where
  "payload_json fs = ''{'' @ join '','' (map (\<lambda>(k, v). json_string k @ '':'' @ pval_json v) fs) @ ''}''"

definition program_event_id :: "ProgramEventRow \<Rightarrow> string" where
  "program_event_id row = ''program_event:'' @ show_nat (row_id row)"

definition mapped :: "ProgramEventRow \<Rightarrow> string \<Rightarrow> WebhookEventType \<Rightarrow> WebhookResourceType \<Rightarrow> string \<Rightarrow> (string \<times> pval) list \<Rightarrow> WebhookEventInput" where
  "mapped row cluster ty rt res fs = \<lparr>ei_type = ty, ei_chain = ''solana'', ei_cluster = cluster, ei_resource = (rt, res),
     ei_payload = payload_json (fs @ [(''signature'', PText (Some (row_signature row))), (''slot'', PText (Some (row_slot row)))]),
     ei_id = Some (program_event_id row)\<rparr>"

definition mapEventRow :: "(rat \<Rightarrow> string) \<Rightarrow> ProgramEventRow \<Rightarrow> string \<Rightarrow> WebhookEventInput option" where
  "mapEventRow num_str row cluster =
     (let d = row_data row; name = event_name row;
          str = (\<lambda>k. (k, PText (readString d k))); num = (\<lambda>k. (k, PText (readNumeric num_str d k)));
          hex = (\<lambda>k. (k, PText (bytesArrayToHex (d k)))) in
      if name = ''TaskCreated'' then
        map_option (\<lambda>task. mapped row cluster TaskCreated ResTask task
          [(''task_id'', PText (Some task)), str ''client'', hex ''agent_did'', num ''payment_amount'', num ''deadline'', num ''timestamp''])
          (bytesArrayToHex (d ''task_id''))
      else if name = ''TaskVerified'' then
        map_option (\<lambda>task. mapped row cluster TaskVerified ResTask task
          [(''task_id'', PText (Some task)), num ''dispute_window_end'', num ''timestamp''])
          (bytesArrayToHex (d ''task_id''))
      else if name = ''TaskReleased'' then
        map_option (\<lambda>task. mapped row cluster TaskReleased ResTask task
          [(''task_id'', PText (Some task)), hex ''agent_did'', str ''operator'', str ''client'', str ''mint'', num ''agent_payout'',
           num ''protocol_fee'', num ''solrep_fee'', num ''timestamp''])
          (bytesArrayToHex (d ''task_id''))
      else if name = ''DisputeRaised'' then
        map_option (\<lambda>task. mapped row cluster TaskDisputed ResTask task
          [(''task_id'', PText (Some task)), str ''client'', num ''timestamp''])
          (bytesArrayToHex (d ''task_id''))
      else if name = ''BidRevealed'' then
        (case (bytesArrayToHex (d ''task_id''), readString d ''bidder'') of
           (Some task, Some bidder) \<Rightarrow> Some (mapped row cluster BidRevealed ResBid (task @ '':'' @ bidder)
             [(''task_id'', PText (Some task)), (''bidder'', PText (Some bidder)), num ''amount''])
         | _ \<Rightarrow> None)
      else if name = ''StreamWithdrawn'' then
        map_option (\<lambda>agent. mapped row cluster StreamWithdrawn ResStream agent
          [(''agent_did'', PText (Some agent)), num ''claimable'', (''swapped'', PBool (d ''swapped'' = Some (FBool True))), num ''timestamp''])
          (bytesArrayToHex (d ''agent_did''))
      else if name = ''AgentRegistered'' \<or> name = ''ManifestUpdated'' then
        map_option (\<lambda>agent. mapped row cluster AgentStatusChanged ResAgent agent
          [(''agent_did'', PText (Some agent)),
           (''change'', PText (Some (if name = ''AgentRegistered'' then ''registered'' else ''manifest_updated''))),
           str ''operator'', num ''version'', num ''capability_mask'', num ''stake_amount'', num ''timestamp''])
          (bytesArrayToHex (d ''agent_did''))
      else None)"

subsection \<open>One poll\<close>

text \<open>The table \<open>program_events\<close> as seen by a query, and the cursor, \<open>None\<close> when its row is missing.\<close>

record producer_db =
  program_events :: "ProgramEventRow list"
  cursor_row :: "nat option"

definition select_events :: "producer_db \<Rightarrow> nat \<Rightarrow> nat \<Rightarrow> ProgramEventRow list" where
  "select_events db cursor batch =
     take batch (sort_key row_id (filter (\<lambda>r. cursor < row_id r \<and> event_name r \<in> set MAPPED_EVENTS) (program_events db)))"

record producer =
  prod_opts :: hub_opts
  prod_env :: hub_env
  num_text :: "rat \<Rightarrow> string"
  prod_cluster :: string
  batchSize :: nat

fun emit_rows :: "producer \<Rightarrow> int \<Rightarrow> ProgramEventRow list \<Rightarrow> nat \<Rightarrow> nat \<Rightarrow> hub \<Rightarrow> hub \<times> nat \<times> nat" where
  "emit_rows p now [] emitted latest h = (h, emitted, latest)"
| "emit_rows p now (row # rows) emitted latest h =
     (case mapEventRow (num_text p) row (prod_cluster p) of
        None \<Rightarrow> emit_rows p now rows emitted (row_id row) h
      | Some inp \<Rightarrow> (case emit (prod_opts p) (prod_env p) now inp h of (h1, _, _, duplicate) \<Rightarrow>
          emit_rows p now rows (if duplicate then emitted else emitted + 1) (row_id row) h1))"

text \<open>\<open>runOnce\<close>; \<open>running\<close> is the flag a poll under way has set. It returns the number of events emitted
  and the cursor.\<close>

definition runOnce :: "producer \<Rightarrow> bool \<Rightarrow> int \<Rightarrow> producer_db \<Rightarrow> hub \<Rightarrow> producer_db \<times> hub \<times> nat \<times> nat" where
  "runOnce p running now db h =
     (if running then (db, h, 0, 0)
      else (let cursor = (case cursor_row db of None \<Rightarrow> 0 | Some c \<Rightarrow> c); rows = select_events db cursor (batchSize p) in
        if rows = [] then (db, h, 0, cursor)
        else (case emit_rows p now rows 0 cursor h of (h1, emitted, latest) \<Rightarrow>
          (db\<lparr>cursor_row := map_option (\<lambda>_. latest) (cursor_row db)\<rparr>, h1, emitted, latest))))"

fun polls :: "nat \<Rightarrow> producer \<Rightarrow> int \<Rightarrow> producer_db \<Rightarrow> hub \<Rightarrow> producer_db \<times> hub" where
  "polls 0 p now db h = (db, h)"
| "polls (Suc k) p now db h = (case runOnce p False now db h of (db1, h1, _, _) \<Rightarrow> polls k p now db1 h1)"

subsection \<open>Lemmas\<close>

lemma mapped_id: "mapEventRow num_str row cluster = Some inp \<Longrightarrow> ei_id inp = Some (program_event_id row)"
  by (auto simp: mapEventRow_def mapped_def Let_def split: if_splits option.splits)

lemma emit_events:
  assumes "ei_id inp = Some x" and "emit opts env now inp h = (h', e, is, dup)"
  shows "map_get (hub_events h') k = (if k = x \<and> map_get (hub_events h) x = None then Some (event_of now inp x) else map_get (hub_events h) k)"
    and "dup \<longleftrightarrow> map_get (hub_events h) x \<noteq> None"
proof -
  have dr: "id_drawn env inp h = (x, h)" using assms(1) by (simp add: id_drawn_def)
  let ?h1 = "h\<lparr>hub_events := map_set x (event_of now inp x) (hub_events h)\<rparr>"
  obtain h2 is' where c: "create_all opts env now (map (\<lambda>s. (s, event_of now inp x)) (subscribers ?h1 (event_of now inp x))) ?h1 = (h2, is')" by fastforce
  show "map_get (hub_events h') k = (if k = x \<and> map_get (hub_events h) x = None then Some (event_of now inp x) else map_get (hub_events h) k)"
    and "dup \<longleftrightarrow> map_get (hub_events h) x \<noteq> None"
    using assms(2) create_all_fields [OF c] dispatch_all_fields [of opts env now is' h2] c
    by (auto simp: emit_cases [OF dr] Let_def map_specs split: option.splits)
qed

lemma program_event_id_inj [simp]: "program_event_id r = program_event_id s \<longleftrightarrow> row_id r = row_id s"
  by (simp add: program_event_id_def)

text \<open>The rows the producer translates, and what emitting a list of rows does to the events.\<close>

definition translates :: "producer \<Rightarrow> ProgramEventRow \<Rightarrow> bool" where
  "translates p r = (mapEventRow (num_text p) r (prod_cluster p) \<noteq> None)"

lemma emit_rows_events:
  assumes "emit_rows p now rows n c h = (h', m, l)"
  shows "(map_get (hub_events h') k \<noteq> None \<longleftrightarrow> map_get (hub_events h) k \<noteq> None \<or> (\<exists>r \<in> set rows. translates p r \<and> k = program_event_id r))
    \<and> l = (if rows = [] then c else row_id (last rows))"
  using assms
proof (induction rows arbitrary: n c h)
  case (Cons r rows)
  show ?case
  proof (cases "mapEventRow (num_text p) r (prod_cluster p)")
    case None
    with Cons show ?thesis by (auto simp: translates_def split: if_splits)
  next
    case (Some inp)
    obtain h1 e "is" dup where em: "emit (prod_opts p) (prod_env p) now inp h = (h1, e, is, dup)" by (metis surj_pair)
    have rest: "emit_rows p now rows (if dup then n else n + 1) (row_id r) h1 = (h', m, l)" using Cons.prems Some em by simp
    have "map_get (hub_events h1) k \<noteq> None \<longleftrightarrow> map_get (hub_events h) k \<noteq> None \<or> k = program_event_id r"
      using emit_events(1) [OF mapped_id [OF Some] em, of k] by auto
    with Cons.IH [OF rest] Some show ?thesis by (auto simp: translates_def split: if_splits)
  qed
qed simp


lemma translates_mapped: "translates p r \<Longrightarrow> event_name r \<in> set MAPPED_EVENTS"
  by (auto simp: translates_def mapEventRow_def MAPPED_EVENTS_def Let_def split: if_splits)

definition pending :: "producer_db \<Rightarrow> nat \<Rightarrow> ProgramEventRow list" where
  "pending db c = sort_key row_id (filter (\<lambda>r. c < row_id r \<and> event_name r \<in> set MAPPED_EVENTS) (program_events db))"

lemma pending_sorted: "distinct (map row_id (program_events db)) \<Longrightarrow> sorted_wrt (<) (map row_id (pending db c))"
  by (simp add: pending_def strict_sorted_iff distinct_map_filter distinct_map)
    (simp add: inj_on_def)

lemma sorted_last: "sorted (map f xs) \<Longrightarrow> r \<in> set xs \<Longrightarrow> f r \<le> f (last xs)"
  by (induction xs) auto

lemma filter_after_batch:
  assumes "sorted_wrt (<) (map row_id rs)" and "0 < b" and "rs \<noteq> []"
  shows "filter (\<lambda>r. row_id (last (take b rs)) < row_id r) rs = drop b rs"
proof -
  let ?l = "last (take b rs)"
  have ne: "take b rs \<noteq> []" using assms(2,3) by simp
  have srt: "sorted_wrt (<) (map row_id (take b rs @ drop b rs))" using assms(1) by simp
  have "\<not> row_id ?l < row_id r" if "r \<in> set (take b rs)" for r
  proof -
    have "sorted (map row_id (take b rs))" using srt by (simp only: map_append sorted_wrt_append strict_sorted_iff)
    from sorted_last [OF this that] show ?thesis by simp
  qed
  moreover have "row_id ?l < row_id r" if "r \<in> set (drop b rs)" for r
    using srt that last_in_set [OF ne] by (simp only: map_append sorted_wrt_append) simp
  ultimately have "filter (\<lambda>r. row_id ?l < row_id r) (take b rs @ drop b rs) = drop b rs"
    unfolding filter_append by (simp add: filter_empty_conv)
  then show ?thesis by simp
qed


lemma pending_later: "c \<le> c' \<Longrightarrow> pending db c' = filter (\<lambda>r. c' < row_id r) (pending db c)"
  unfolding pending_def filter_sort by (simp add: conj_commute) (metis (mono_tags, opaque_lifting) le_less_trans)

lemma select_pending: "select_events db c b = take b (pending db c)"
  by (simp add: select_events_def pending_def)

lemma runOnce_step:
  assumes "distinct (map row_id (program_events db))" and "cursor_row db = Some c" and "0 < batchSize p"
    and "runOnce p False now db h = (db1, h1, n, l)"
  shows "program_events db1 = program_events db \<and> (\<exists>c1. cursor_row db1 = Some c1 \<and> pending db1 c1 = drop (batchSize p) (pending db c))
    \<and> (map_get (hub_events h1) k \<noteq> None \<longleftrightarrow> map_get (hub_events h) k \<noteq> None
        \<or> (\<exists>r \<in> set (take (batchSize p) (pending db c)). translates p r \<and> k = program_event_id r))"
proof (cases "pending db c = []")
  case True
  then show ?thesis using assms(2,4) by (auto simp: runOnce_def select_pending)
next
  case False
  let ?rows = "take (batchSize p) (pending db c)"
  have ne: "?rows \<noteq> []" using False assms(3) by simp
  obtain h2 m l2 where e: "emit_rows p now ?rows 0 c h = (h2, m, l2)" by (metis surj_pair)
  note ev = emit_rows_events [OF e, of k]
  have r: "db1 = db\<lparr>cursor_row := Some l2\<rparr>" "h1 = h2" using assms(2,4) ne e by (auto simp: runOnce_def select_pending)
  have l2: "l2 = row_id (last ?rows)" using ev ne by simp
  have "last ?rows \<in> set (pending db c)" using last_in_set [OF ne] set_take_subset by fastforce
  then have "c \<le> l2" by (simp add: l2 pending_def)
  then have "pending db l2 = drop (batchSize p) (pending db c)"
    using pending_later filter_after_batch [OF pending_sorted [OF assms(1)] assms(3) False] l2 by simp
  moreover have "pending db1 l2 = pending db l2" by (simp add: r pending_def)
  ultimately show ?thesis using ev r by simp
qed

lemma polls_events:
  assumes "0 < batchSize p"
  shows "distinct (map row_id (program_events db)) \<Longrightarrow> cursor_row db = Some c \<Longrightarrow> polls k p now db h = (db', h') \<Longrightarrow>
    (\<exists>c'. cursor_row db' = Some c' \<and> pending db' c' = drop (k * batchSize p) (pending db c))
    \<and> (map_get (hub_events h') x \<noteq> None \<longleftrightarrow> map_get (hub_events h) x \<noteq> None
        \<or> (\<exists>r \<in> set (take (k * batchSize p) (pending db c)). translates p r \<and> x = program_event_id r))"
proof (induction k arbitrary: db h c)
  case (Suc k)
  obtain db1 h1 n l where r: "runOnce p False now db h = (db1, h1, n, l)" by (metis surj_pair)
  then have rest: "polls k p now db1 h1 = (db', h')" using Suc.prems(3) by simp
  from runOnce_step [OF Suc.prems(1,2) assms r, of x] obtain c1 where s: "program_events db1 = program_events db" "cursor_row db1 = Some c1"
    "pending db1 c1 = drop (batchSize p) (pending db c)"
    "map_get (hub_events h1) x \<noteq> None \<longleftrightarrow> map_get (hub_events h) x \<noteq> None
        \<or> (\<exists>r \<in> set (take (batchSize p) (pending db c)). translates p r \<and> x = program_event_id r)" by blast
  have d1: "distinct (map row_id (program_events db1))" using Suc.prems(1) s(1) by simp
  from Suc.IH [OF d1 s(2) rest] s(3,4) show ?case by (auto simp: take_add add.commute [of "k * _"])
qed simp

subsection \<open>Properties\<close>

definition sample_row :: "nat \<Rightarrow> ProgramEventRow" where
  "sample_row n = \<lparr>row_id = n, row_signature = ''sig'', row_slot = ''7'', event_name = ''TaskCreated'',
     row_data = (\<lambda>k. if k = ''task_id'' then Some (FArr [Some 171]) else None)\<rparr>"

definition sample_producer :: producer where
  "sample_producer = \<lparr>prod_opts = sample_hopts, prod_env = sample_henv, num_text = (\<lambda>_. []), prod_cluster = ''devnet'', batchSize = 1\<rparr>"

lemma sample_translates: "translates sample_producer (sample_row n)"
  by (simp add: translates_def sample_producer_def sample_row_def mapEventRow_def Let_def bytesArrayToHex_def isInteger_numeral)

text \<open>
  C22. The producer emits every event after its cursor: after enough polls the hub knows, beside the events it knew,
  exactly those of the visible rows beyond the cursor that translate, and the cursor has passed
  every row it would select.
\<close>

theorem producer_emits_every_row:
  assumes "distinct (map row_id (program_events db))" and "cursor_row db = Some c" and "0 < batchSize p"
    and "length (filter (\<lambda>r. c < row_id r \<and> event_name r \<in> set MAPPED_EVENTS) (program_events db)) \<le> k * batchSize p"
    and "polls k p now db h = (db', h')"
  shows "(map_get (hub_events h') x \<noteq> None \<longleftrightarrow> map_get (hub_events h) x \<noteq> None
      \<or> (\<exists>r \<in> set (program_events db). c < row_id r \<and> translates p r \<and> x = program_event_id r))
    \<and> (\<exists>c'. cursor_row db' = Some c' \<and> select_events db' c' (batchSize p) = [])"
proof -
  have "length (pending db c) \<le> k * batchSize p" using assms(4) by (simp add: pending_def)
  then have all: "take (k * batchSize p) (pending db c) = pending db c" "drop (k * batchSize p) (pending db c) = []" by simp_all
  have "set (pending db c) = {r \<in> set (program_events db). c < row_id r \<and> event_name r \<in> set MAPPED_EVENTS}" by (auto simp: pending_def)
  then show ?thesis using polls_events [OF assms(3,1,2,5), of x] translates_mapped all by (auto simp: select_pending)
qed

theorem producer_emits_every_row_witness:
  "\<exists>h'. h' = snd (polls 2 sample_producer 9 \<lparr>program_events = [sample_row 4, sample_row 2], cursor_row = Some 1\<rparr> sample_subscribed)
    \<and> map_get (hub_events h') (program_event_id (sample_row 2)) \<noteq> None \<and> map_get (hub_events h') (program_event_id (sample_row 4)) \<noteq> None"
proof -
  let ?db = "\<lparr>program_events = [sample_row 4, sample_row 2], cursor_row = Some 1\<rparr>"
  obtain db' h' where r: "polls 2 sample_producer 9 ?db sample_subscribed = (db', h')" by fastforce
  have "distinct (map row_id (program_events ?db))" "cursor_row ?db = Some 1" "0 < batchSize sample_producer"
    "length (filter (\<lambda>r. 1 < row_id r \<and> event_name r \<in> set MAPPED_EVENTS) (program_events ?db)) \<le> 2 * batchSize sample_producer"
    by (simp_all add: sample_row_def sample_producer_def)
  note e = producer_emits_every_row [OF this r]
  have "row_id (sample_row n) = n" for n by (simp add: sample_row_def)
  then have "map_get (hub_events h') (program_event_id (sample_row 2)) \<noteq> None" "map_get (hub_events h') (program_event_id (sample_row 4)) \<noteq> None"
    using e sample_translates by auto
  with r show ?thesis by auto
qed

text \<open>
  A row that becomes visible late is never emitted: row numbers are drawn when a row is inserted and not
  when it is committed, and a row whose number the cursor has passed by then is skipped by
  every later poll.
\<close>

theorem late_row_never_emitted:
  assumes "distinct (map row_id (program_events db))" and "cursor_row db = Some c" and "0 < batchSize p"
    and "late \<in> set (program_events db)" and "row_id late \<le> c" and "polls k p now db h = (db', h')"
  shows "map_get (hub_events h') (program_event_id late) \<noteq> None \<longleftrightarrow> map_get (hub_events h) (program_event_id late) \<noteq> None"
proof -
  have "c < row_id r" if "r \<in> set (take (k * batchSize p) (pending db c))" for r
    using that set_take_subset [of "k * batchSize p" "pending db c"] by (auto simp: pending_def)
  then show ?thesis using polls_events [OF assms(3,1,2,6), of "program_event_id late"] assms(5) by fastforce
qed

theorem late_row_never_emitted_witness:
  "map_get (hub_events (snd (polls 5 sample_producer 9 \<lparr>program_events = [sample_row 4, sample_row 2], cursor_row = Some 3\<rparr> sample_subscribed)))
    (program_event_id (sample_row 2)) = None"
proof -
  let ?db = "\<lparr>program_events = [sample_row 4, sample_row 2], cursor_row = Some 3\<rparr>"
  obtain db' h' where r: "polls 5 sample_producer 9 ?db sample_subscribed = (db', h')" by fastforce
  have "distinct (map row_id (program_events ?db))" "cursor_row ?db = Some 3" "0 < batchSize sample_producer"
    "sample_row 2 \<in> set (program_events ?db)" "row_id (sample_row 2) \<le> 3"
    by (simp_all add: sample_row_def sample_producer_def)
  moreover have "hub_events sample_subscribed = []" by code_simp
  ultimately show ?thesis using late_row_never_emitted [OF _ _ _ _ _ r] r by (simp add: map_specs)
qed

end
