(* ===== verification/Proof_Gen.thy ===== *)
theory Proof_Gen
  imports Json_Canonical
begin

text \<open>
  The proof generation service (\<open>services/proof-gen/src\<close>) with the circuit catalogue of the SDK
  (\<open>packages/sdk/src/research/zk.ts\<close>): request validation, the per-agent rate windows, the proof cache, witness
  encryption with a key that is used once, and the worker's processor. BullMQ, the cipher,
  the session check and the Groth16 prover are parameters; Redis is a map with expiry times.
\<close>

subsection \<open>Circuit catalogue\<close>

datatype CircuitLifecycle = Live | Planned | Research

datatype VerificationKeyType = Groth16Bn254 | Ezkl

record CircuitCatalogEntry =
  slug :: string
  displayName :: string
  lifecycle :: CircuitLifecycle
  version :: nat
  verifier :: VerificationKeyType
  verificationKeyVersion :: nat
  publicInputs :: "string list"
  summary :: string

definition DEFAULT_CIRCUIT_CATALOG :: "CircuitCatalogEntry list" where
  "DEFAULT_CIRCUIT_CATALOG =
     [\<lparr>slug = ''task-completion'', displayName = ''Task Completion'', lifecycle = Live, version = 1, verifier = Groth16Bn254,
       verificationKeyVersion = 1, publicInputs = [''task_hash'', ''result_hash'', ''deadline'', ''submitted_at'', ''criteria_root''],
       summary = ''Current task-completion proof used to bind escrow release to a committed task/result pair.''\<rparr>,
      \<lparr>slug = ''unique-execution'', displayName = ''Unique Execution'', lifecycle = Live, version = 1, verifier = Groth16Bn254,
       verificationKeyVersion = 1, publicInputs = [''execution_root'', ''task_id'', ''nonce''],
       summary = ''Reusable anti-replay and unique-execution primitive for proof-gated work classes.''\<rparr>,
      \<lparr>slug = ''task-output-hash'', displayName = ''Deterministic Task Output Hashing'', lifecycle = Planned, version = 1, verifier = Groth16Bn254,
       verificationKeyVersion = 1, publicInputs = [''task_id'', ''input_hash'', ''output_hash''],
       summary = ''First reusable helper circuit for binding task inputs and outputs without re-specifying hash order per task family.''\<rparr>,
      \<lparr>slug = ''zkml-ezkl'', displayName = ''ZK-ML via EZKL'', lifecycle = Research, version = 1, verifier = Ezkl,
       verificationKeyVersion = 1, publicInputs = [''task_id'', ''model_hash'', ''input_hash'', ''output_hash''],
       summary = ''Research track for verifiable inference proofs once Solana-side verification feasibility is proven.''\<rparr>]"

definition underscored :: "string \<Rightarrow> string" where
  "underscored s = map (\<lambda>c. if c = CHR ''-'' then CHR ''_'' else c) s"

definition circuitArtifactStem :: "'a CircuitCatalogEntry_scheme \<Rightarrow> string" where
  "circuitArtifactStem e = slug e @ ''-v'' @ show_nat (version e)"

definition circuitManifestPath :: "'a CircuitCatalogEntry_scheme \<Rightarrow> string" where
  "circuitManifestPath e = ''circuits/catalog/'' @ circuitArtifactStem e @ ''.json''"

definition circuitRuntimeId :: "'a CircuitCatalogEntry_scheme \<Rightarrow> string" where
  "circuitRuntimeId e = underscored (slug e) @ ''.v'' @ show_nat (version e)"

definition circuitRuntimeStem :: "'a CircuitCatalogEntry_scheme \<Rightarrow> string" where
  "circuitRuntimeStem e = underscored (slug e)"

definition is_lower :: "char \<Rightarrow> bool" where
  "is_lower c = (97 \<le> (of_char c :: nat) \<and> (of_char c :: nat) \<le> 122)"

definition validateCircuitCatalogEntry :: "CircuitCatalogEntry \<Rightarrow> string list" where
  "validateCircuitCatalogEntry e =
     (if version e < 1 then [''version must be >= 1''] else []) @
     (if verificationKeyVersion e < 1 then [''verificationKeyVersion must be >= 1''] else []) @
     (if publicInputs e = [] then [''publicInputs must not be empty''] else []) @
     (if length (remdups (publicInputs e)) \<noteq> length (publicInputs e) then [''publicInputs must be unique''] else []) @
     (if slug e = [] \<or> \<not> list_all (\<lambda>c. is_lower c \<or> is_digit c \<or> c = CHR ''-'') (slug e)
      then [''slug must contain only lowercase letters, numbers, and dashes''] else [])"

record RuntimeCircuitCatalogEntry = CircuitCatalogEntry +
  runtimeId :: string
  wasmPath :: string
  zkeyPath :: string
  verificationKeyPath :: string
  artifactsReady :: bool
  verificationKeyPresent :: bool

text \<open>The manifests of the catalogue directory in the order of their names, \<open>None\<close> without the directory.\<close>

fun check_manifests :: "(string \<times> CircuitCatalogEntry) list \<Rightarrow> CircuitCatalogEntry list js" where
  "check_manifests [] = Inr []"
| "check_manifests ((name, e) # es) =
     (let errors = validateCircuitCatalogEntry e in
      if errors \<noteq> [] then Inl (''invalid circuit manifest '' @ name @ '': '' @ join '', '' errors)
      else (case check_manifests es of Inl x \<Rightarrow> Inl x | Inr rest \<Rightarrow> Inr (e # rest)))"

definition readCatalogEntries :: "(string \<times> CircuitCatalogEntry) list option \<Rightarrow> CircuitCatalogEntry list js" where
  "readCatalogEntries d = (case d of None \<Rightarrow> Inr DEFAULT_CIRCUIT_CATALOG | Some es \<Rightarrow> check_manifests es)"

definition runtime_entry :: "(string \<Rightarrow> bool) \<Rightarrow> string \<Rightarrow> CircuitCatalogEntry \<Rightarrow> RuntimeCircuitCatalogEntry" where
  "runtime_entry existsSync buildRoot e =
     (let stem = circuitRuntimeStem e; dir = buildRoot @ ''/'' @ stem @ ''/build'';
          wasm = dir @ ''/'' @ stem @ ''_js/'' @ stem @ ''.wasm''; zkey = dir @ ''/'' @ stem @ ''.zkey'';
          vk = dir @ ''/verification_key.json'' in
      CircuitCatalogEntry.extend e \<lparr>runtimeId = circuitRuntimeId e, wasmPath = wasm, zkeyPath = zkey, verificationKeyPath = vk,
        artifactsReady = (existsSync wasm \<and> existsSync zkey), verificationKeyPresent = existsSync vk\<rparr>)"

definition loadRuntimeCircuitCatalog :: "(string \<Rightarrow> bool) \<Rightarrow> string \<Rightarrow> (string \<times> CircuitCatalogEntry) list option \<Rightarrow> RuntimeCircuitCatalogEntry list js" where
  "loadRuntimeCircuitCatalog existsSync buildRoot d =
     (case readCatalogEntries d of Inl x \<Rightarrow> Inl x | Inr es \<Rightarrow> Inr (map (runtime_entry existsSync buildRoot) es))"

definition findRuntimeCircuit :: "RuntimeCircuitCatalogEntry list \<Rightarrow> string \<Rightarrow> RuntimeCircuitCatalogEntry option" where
  "findRuntimeCircuit catalog i = List.find (\<lambda>e. runtimeId e = i) catalog"

subsection \<open>Requests\<close>

record PublicInputs =
  task_hash :: string
  result_hash :: string
  deadline :: string
  submitted_at :: string
  criteria_root :: string

record PrivateInputs =
  task_preimage :: "string list"
  result_preimage :: "string list"
  salt :: string
  criteria_satisfied :: "string list"
  criteria_path :: "string list"
  criteria_index :: "string list"

record ProveRequest =
  circuit_id :: string
  public_inputs :: PublicInputs
  private_inputs :: PrivateInputs

definition is_hex :: "char \<Rightarrow> bool" where
  "is_hex c = (is_digit c \<or> 97 \<le> (of_char c :: nat) \<and> (of_char c :: nat) \<le> 102 \<or> 65 \<le> (of_char c :: nat) \<and> (of_char c :: nat) \<le> 70)"

definition Decimal :: "string \<Rightarrow> bool" where
  "Decimal s = (s \<noteq> [] \<and> list_all is_digit s)"

definition Field :: "string \<Rightarrow> bool" where
  "Field s = (startsWith s ''0x'' \<and> 2 < length s \<and> list_all is_hex (drop 2 s) \<or> Decimal s)"

definition Hash32 :: "string \<Rightarrow> bool" where
  "Hash32 s = (startsWith s ''0x'' \<and> length s = 66 \<and> list_all is_hex (drop 2 s))"

definition PublicInputsSchema :: "PublicInputs \<Rightarrow> bool" where
  "PublicInputsSchema p = (Hash32 (task_hash p) \<and> Hash32 (result_hash p) \<and> Decimal (deadline p) \<and> Decimal (submitted_at p) \<and> Hash32 (criteria_root p))"

definition PrivateInputsSchema :: "PrivateInputs \<Rightarrow> bool" where
  "PrivateInputsSchema p = (list_all Field (task_preimage p) \<and> length (task_preimage p) = 16
     \<and> list_all Field (result_preimage p) \<and> length (result_preimage p) = 32 \<and> Field (salt p)
     \<and> list_all Field (criteria_satisfied p) \<and> length (criteria_satisfied p) = 8
     \<and> list_all Field (criteria_path p) \<and> length (criteria_path p) = 3 \<and> list_all Field (criteria_index p) \<and> length (criteria_index p) = 3)"

text \<open>The pattern \<open>[a-z0-9_]+\.v[0-9]+\<close>: the name before the last dot has no dot.\<close>

definition circuit_id_ok :: "string \<Rightarrow> bool" where
  "circuit_id_ok s = (let name = takeWhile (\<lambda>c. c \<noteq> CHR ''.'') s; rest = dropWhile (\<lambda>c. c \<noteq> CHR ''.'') s in
     name \<noteq> [] \<and> list_all (\<lambda>c. is_lower c \<or> is_digit c \<or> c = CHR ''_'') name \<and> startsWith rest ''.v'' \<and> Decimal (drop 2 rest))"

definition ProveRequestSchema :: "ProveRequest \<Rightarrow> bool" where
  "ProveRequestSchema r = (circuit_id_ok (circuit_id r) \<and> PublicInputsSchema (public_inputs r) \<and> PrivateInputsSchema (private_inputs r))"

text \<open>\<open>publicInputs[field]\<close> of a parsed request; the schema keeps only its own keys.\<close>

definition public_field :: "PublicInputs \<Rightarrow> string \<Rightarrow> string option" where
  "public_field p k = map_of [(''task_hash'', task_hash p), (''result_hash'', result_hash p), (''deadline'', deadline p),
     (''submitted_at'', submitted_at p), (''criteria_root'', criteria_root p)] k"

definition jval_of :: "string option \<Rightarrow> jval" where
  "jval_of x = (case x of None \<Rightarrow> JNull | Some s \<Rightarrow> JStr s)"

definition hashCircuitPublicInputs :: "(string \<Rightarrow> string) \<Rightarrow> RuntimeCircuitCatalogEntry \<Rightarrow> PublicInputs \<Rightarrow> string" where
  "hashCircuitPublicInputs sha c p = sha (json_arr (JStr (runtimeId c) # map (\<lambda>k. jval_of (public_field p k)) (publicInputs c)))"


subsection \<open>Rate windows\<close>

definition BURST_LIMIT :: nat where
  "BURST_LIMIT = 10"

definition WINDOW_MS :: int where
  "WINDOW_MS = 60000"

record rate_bucket =
  bk_count :: nat
  resetAt :: int

type_synonym rateBuckets = "(string, rate_bucket) jsmap"

definition current_bucket :: "int \<Rightarrow> string \<Rightarrow> rateBuckets \<Rightarrow> rate_bucket" where
  "current_bucket now did m = (case map_get m did of
     Some b \<Rightarrow> if now \<ge> resetAt b then \<lparr>bk_count = 0, resetAt = now + WINDOW_MS\<rparr> else b
   | None \<Rightarrow> \<lparr>bk_count = 0, resetAt = now + WINDOW_MS\<rparr>)"

text \<open>The result is \<open>None\<close> for an admitted request and otherwise the seconds to wait.\<close>

definition checkRateLimit :: "int \<Rightarrow> string \<Rightarrow> rateBuckets \<Rightarrow> rateBuckets \<times> int option" where
  "checkRateLimit now did m =
     (let b = current_bucket now did m; b1 = b\<lparr>bk_count := bk_count b + 1\<rparr> in
      (map_set did b1 m, if bk_count b1 > BURST_LIMIT then Some (- ((- (resetAt b1 - now)) div 1000)) else None))"

definition sweep_buckets :: "int \<Rightarrow> rateBuckets \<Rightarrow> rateBuckets" where
  "sweep_buckets now m = filter (\<lambda>(k, b). \<not> now \<ge> resetAt b) m"

subsection \<open>The service\<close>

record ProveJobData =
  jd_circuit_id :: string
  jd_public_inputs :: PublicInputs
  witness_ciphertext :: string
  witness_iv :: string
  witness_tag :: string
  jd_agent_did :: string
  public_inputs_hash :: string

record ProveJobResult =
  proof_text :: string
  public_signals :: "string list"

text \<open>Redis entries carry the time at which they expire. \<open>queued\<close> are the jobs handed to the queue, \<open>dlq\<close> the dead
  ones, \<open>artifacts\<close> the worker's cache of circuit files.\<close>

record proof_service =
  rate_buckets :: rateBuckets
  redis_keys :: "(string, int \<times> string) jsmap"
  redis_results :: "(string, int \<times> ProveJobResult) jsmap"
  redis_cache :: "(string, int \<times> ProveJobResult) jsmap"
  queued :: "(string \<times> ProveJobData) list"
  dlq :: "(string \<times> ProveJobData \<times> string) list"
  artifacts :: "(string, string \<times> string) jsmap"

text \<open>The environment: session check, hash, cipher (key, iv, plaintext to ciphertext and tag, and back), the
  prover on the witness \<open>{...public_inputs, ...priv}\<close> with the circuit files, file existence, and the
  lifetimes in seconds.\<close>

record proof_env =
  session_agent :: "string \<Rightarrow> string option"
  sha256 :: "string \<Rightarrow> string"
  encrypt :: "string \<Rightarrow> string \<Rightarrow> PrivateInputs \<Rightarrow> string \<times> string"
  decrypt :: "string \<Rightarrow> string \<Rightarrow> string \<Rightarrow> string \<Rightarrow> PrivateInputs js"
  fullProve :: "PublicInputs \<Rightarrow> PrivateInputs \<Rightarrow> string \<Rightarrow> string \<Rightarrow> ProveJobResult js"
  file_exists :: "string \<Rightarrow> bool"
  KEY_TTL :: int
  RESULT_TTL :: int
  circuits :: "RuntimeCircuitCatalogEntry list"

definition redis_get :: "int \<Rightarrow> (string, int \<times> 'v) jsmap \<Rightarrow> string \<Rightarrow> 'v option" where
  "redis_get now m k = (case map_get m k of Some (expiry, v) \<Rightarrow> if now < expiry then Some v else None | None \<Rightarrow> None)"

definition trim :: "string \<Rightarrow> string" where
  "trim s = (let blank = (\<lambda>c. c \<in> set [CHR '' '', CHR 0x09, CHR 0x0A, CHR 0x0D]) in rev (dropWhile blank (rev (dropWhile blank s))))"

definition resolveAgent :: "proof_env \<Rightarrow> string option \<Rightarrow> string option" where
  "resolveAgent env header = (case header of
     None \<Rightarrow> None
   | Some t \<Rightarrow> if \<not> startsWith t ''Bearer '' then None else if trim (drop 7 t) = [] then None else session_agent env (trim (drop 7 t)))"

datatype prove_reply = Unauthorized | RateLimited int | InvalidBody | UnsupportedCircuit | CircuitNotLive | NoArtifacts
  | CachedProof ProveJobResult | Queued string

text \<open>\<open>POST /prove\<close>; the fresh key, iv and job id are arguments.\<close>

definition prove :: "proof_env \<Rightarrow> int \<Rightarrow> string \<Rightarrow> string \<Rightarrow> string \<Rightarrow> string option \<Rightarrow> ProveRequest option \<Rightarrow> proof_service \<Rightarrow> proof_service \<times> prove_reply" where
  "prove env now key iv jobId header body s =
     (case resolveAgent env header of
        None \<Rightarrow> (s, Unauthorized)
      | Some agent \<Rightarrow> (case checkRateLimit now agent (rate_buckets s) of (m, rl) \<Rightarrow>
         (let s1 = s\<lparr>rate_buckets := m\<rparr> in
          case rl of Some w \<Rightarrow> (s1, RateLimited w) | None \<Rightarrow>
           (case body of
              None \<Rightarrow> (s1, InvalidBody)
            | Some r \<Rightarrow>
               if \<not> ProveRequestSchema r then (s1, InvalidBody)
               else (case findRuntimeCircuit (circuits env) (circuit_id r) of
                  None \<Rightarrow> (s1, UnsupportedCircuit)
                | Some c \<Rightarrow>
                   if lifecycle c \<noteq> Live then (s1, CircuitNotLive)
                   else if \<not> artifactsReady c then (s1, NoArtifacts)
                   else (let pubHash = hashCircuitPublicInputs (sha256 env) c (public_inputs r) in
                     case redis_get now (redis_cache s1) pubHash of
                       Some v \<Rightarrow> (s1, CachedProof v)
                     | None \<Rightarrow> (case encrypt env key iv (private_inputs r) of (ct, tag) \<Rightarrow>
                         (s1\<lparr>redis_keys := map_set jobId (now + 1000 * KEY_TTL env, key) (redis_keys s1),
                             queued := queued s1 @ [(jobId, \<lparr>jd_circuit_id = circuit_id r, jd_public_inputs = public_inputs r,
                               witness_ciphertext = ct, witness_iv = iv, witness_tag = tag, jd_agent_did = agent,
                               public_inputs_hash = pubHash\<rparr>)]\<rparr>, Queued jobId))))))))"

definition loadArtifacts :: "proof_env \<Rightarrow> string \<Rightarrow> proof_service \<Rightarrow> proof_service \<times> (string \<times> string) js" where
  "loadArtifacts env cid s = (case map_get (artifacts s) cid of
     Some paths \<Rightarrow> (s, Inr paths)
   | None \<Rightarrow> (case findRuntimeCircuit (circuits env) cid of
       None \<Rightarrow> (s, Inl (''unknown circuit: '' @ cid))
     | Some c \<Rightarrow>
        if lifecycle c \<noteq> Live then (s, Inl (''circuit not live: '' @ cid))
        else if \<not> file_exists env (wasmPath c) then (s, Inl (''wasm missing: '' @ wasmPath c))
        else if \<not> file_exists env (zkeyPath c) then (s, Inl (''zkey missing: '' @ zkeyPath c))
        else (s\<lparr>artifacts := map_set cid (wasmPath c, zkeyPath c) (artifacts s)\<rparr>, Inr (wasmPath c, zkeyPath c))))"

text \<open>The worker's processor: one attempt at a job. An error is thrown to the queue.\<close>

definition process_job :: "proof_env \<Rightarrow> int \<Rightarrow> string \<Rightarrow> ProveJobData \<Rightarrow> proof_service \<Rightarrow> proof_service \<times> ProveJobResult js" where
  "process_job env now jobId data s =
     (case loadArtifacts env (jd_circuit_id data) s of
        (s1, Inl e) \<Rightarrow> (s1, Inl e)
      | (s1, Inr (wasm, zkey)) \<Rightarrow>
         (case redis_get now (redis_keys s1) jobId of
            None \<Rightarrow> (s1, Inl ''witness_key_expired'')
          | Some key \<Rightarrow>
             (let s2 = s1\<lparr>redis_keys := map_delete jobId (redis_keys s1)\<rparr> in
              case decrypt env key (witness_iv data) (witness_tag data) (witness_ciphertext data) of
                Inl e \<Rightarrow> (s2, Inl e)
              | Inr priv \<Rightarrow> (case fullProve env (jd_public_inputs data) priv wasm zkey of
                  Inl e \<Rightarrow> (s2, Inl e)
                | Inr result \<Rightarrow>
                    (s2\<lparr>redis_results := map_set jobId (now + 1000 * RESULT_TTL env, result) (redis_results s2),
                        redis_cache := map_set (public_inputs_hash data) (now + 1000 * RESULT_TTL env, result) (redis_cache s2)\<rparr>, Inr result)))))"

definition on_failed :: "string \<Rightarrow> ProveJobData \<Rightarrow> nat \<Rightarrow> nat option \<Rightarrow> string \<Rightarrow> proof_service \<Rightarrow> proof_service" where
  "on_failed jobId data attemptsMade attempts err s =
     (if attemptsMade \<ge> (case attempts of None \<Rightarrow> 1 | Some n \<Rightarrow> n) then s\<lparr>dlq := dlq s @ [(jobId, data, err)]\<rparr> else s)"

datatype job_reply = InvalidId | NotFound | Completed "ProveJobResult option" | JobFailed string | JobState string

text \<open>\<open>GET /jobs/:id\<close>; \<open>job\<close> is what the queue knows: its state, return value and failure reason.\<close>

definition get_job :: "int \<Rightarrow> bool \<Rightarrow> string \<Rightarrow> (string \<times> ProveJobResult option \<times> string option) option \<Rightarrow> proof_service \<Rightarrow> job_reply" where
  "get_job now is_uuid i job s =
     (if \<not> is_uuid then InvalidId
      else case redis_get now (redis_results s) i of
        Some v \<Rightarrow> Completed (Some v)
      | None \<Rightarrow> (case job of
          None \<Rightarrow> NotFound
        | Some (st, ret, reason) \<Rightarrow>
            if st = ''completed'' then Completed ret
            else if st = ''failed'' then JobFailed (case reason of None \<Rightarrow> ''unknown'' | Some e \<Rightarrow> e)
            else JobState st))"

text \<open>Runs of the service: requests, attempts at queued jobs in any order and as often as the queue makes
  them, and the failure handler.\<close>

inductive proof_run :: "proof_env \<Rightarrow> proof_service \<Rightarrow> bool" for env where
  start: "proof_run env \<lparr>rate_buckets = [], redis_keys = [], redis_results = [], redis_cache = [], queued = [], dlq = [], artifacts = []\<rparr>"
| request: "proof_run env s \<Longrightarrow> proof_run env (fst (prove env now key iv jobId header body s))"
| sweep: "proof_run env s \<Longrightarrow> proof_run env (s\<lparr>rate_buckets := sweep_buckets now (rate_buckets s)\<rparr>)"
| attempt: "proof_run env s \<Longrightarrow> (jobId, data) \<in> set (queued s) \<Longrightarrow> proof_run env (fst (process_job env now jobId data s))"
| failed: "proof_run env s \<Longrightarrow> proof_run env (on_failed jobId data made attempts err s)"

subsection \<open>The cache\<close>

text \<open>A stored proof comes from the prover, for public inputs and a circuit whose hash is its key.\<close>

definition proof_made :: "proof_env \<Rightarrow> string \<Rightarrow> ProveJobResult \<Rightarrow> bool" where
  "proof_made env h v = (\<exists>c p priv wasm zkey. c \<in> set (circuits env) \<and> PublicInputsSchema p
     \<and> h = hashCircuitPublicInputs (sha256 env) c p \<and> findRuntimeCircuit (circuits env) (runtimeId c) = Some c
     \<and> wasm = wasmPath c \<and> zkey = zkeyPath c \<and> fullProve env p priv wasm zkey = Inr v)"

definition job_ok :: "proof_env \<Rightarrow> ProveJobData \<Rightarrow> bool" where
  "job_ok env data = (\<exists>c. findRuntimeCircuit (circuits env) (jd_circuit_id data) = Some c \<and> PublicInputsSchema (jd_public_inputs data)
     \<and> public_inputs_hash data = hashCircuitPublicInputs (sha256 env) c (jd_public_inputs data))"

definition service_ok :: "proof_env \<Rightarrow> proof_service \<Rightarrow> bool" where
  "service_ok env s = ((\<forall>jobId data. (jobId, data) \<in> set (queued s) \<longrightarrow> job_ok env data)
     \<and> (\<forall>h e v. map_get (redis_cache s) h = Some (e, v) \<longrightarrow> proof_made env h v)
     \<and> (\<forall>cid paths. map_get (artifacts s) cid = Some paths \<longrightarrow>
          (\<exists>c. findRuntimeCircuit (circuits env) cid = Some c \<and> paths = (wasmPath c, zkeyPath c))))"

lemma find_circuit: "findRuntimeCircuit cs i = Some c \<Longrightarrow> c \<in> set cs \<and> runtimeId c = i"
  by (auto simp: findRuntimeCircuit_def find_Some_iff)

lemma loadArtifacts_ok:
  assumes "service_ok env s" and "loadArtifacts env cid s = (s1, r)"
  shows "service_ok env s1 \<and> redis_cache s1 = redis_cache s \<and> redis_keys s1 = redis_keys s \<and> queued s1 = queued s
    \<and> (\<forall>wasm zkey. r = Inr (wasm, zkey) \<longrightarrow> (\<exists>c. findRuntimeCircuit (circuits env) cid = Some c \<and> wasm = wasmPath c \<and> zkey = zkeyPath c))"
  using assms by (auto simp: loadArtifacts_def service_ok_def map_specs split: option.splits if_splits)

lemma process_job_ok:
  assumes "service_ok env s" and "(jobId, data) \<in> set (queued s)"
  shows "service_ok env (fst (process_job env now jobId data s))"
proof -
  obtain s1 r where l: "loadArtifacts env (jd_circuit_id data) s = (s1, r)" by fastforce
  note a = loadArtifacts_ok [OF assms(1) l]
  have j: "job_ok env data" using assms by (auto simp: service_ok_def)
  show ?thesis
  proof (cases r)
    case (Inl e)
    with l a show ?thesis by (simp add: process_job_def)
  next
    case (Inr paths)
    obtain wasm zkey where p: "paths = (wasm, zkey)" by fastforce
    have made: "proof_made env (public_inputs_hash data) v" if "fullProve env (jd_public_inputs data) priv wasm zkey = Inr v" for priv v
      using j a Inr p that find_circuit by (fastforce simp: job_ok_def proof_made_def)
    show ?thesis using l a Inr p made
      by (auto simp: process_job_def Let_def service_ok_def map_specs split: option.splits sum.splits)
  qed
qed

lemma prove_ok: "service_ok env s \<Longrightarrow> service_ok env (fst (prove env now key iv jobId header body s))"
  by (auto simp: prove_def Let_def service_ok_def job_ok_def ProveRequestSchema_def split: option.splits prod.splits)

lemma proof_run_ok: "proof_run env s \<Longrightarrow> service_ok env s"
proof (induction rule: proof_run.induct)
  case start
  then show ?case by (simp add: service_ok_def map_specs)
next
  case (request s now key iv jobId header body)
  then show ?case by (simp add: prove_ok)
next
  case (attempt s jobId data now)
  then show ?case by (simp add: process_job_ok)
qed (simp_all add: service_ok_def on_failed_def)


lemma jval_of_inj [simp]: "jval_of x = jval_of y \<longleftrightarrow> x = y"
  by (auto simp: jval_of_def split: option.splits)

lemma hash_inputs_inj:
  assumes "hashCircuitPublicInputs sha c p = hashCircuitPublicInputs sha d q" and "\<not> (\<exists>x y. x \<noteq> y \<and> sha x = sha y)"
  shows "runtimeId c = runtimeId d \<and> (c = d \<longrightarrow> (\<forall>k \<in> set (publicInputs c). public_field p k = public_field q k))"
proof -
  from assms have "json_arr (JStr (runtimeId c) # map (\<lambda>k. jval_of (public_field p k)) (publicInputs c))
    = json_arr (JStr (runtimeId d) # map (\<lambda>k. jval_of (public_field q k)) (publicInputs d))"
    unfolding hashCircuitPublicInputs_def by metis
  then show ?thesis by (auto simp: json_arr_inj)
qed

lemma public_field_all:
  assumes "\<forall>k \<in> {''task_hash'', ''result_hash'', ''deadline'', ''submitted_at'', ''criteria_root''}. public_field p k = public_field q k"
  shows "p = q"
  using assms by (cases p; cases q) (simp add: public_field_def)

lemma prove_cached:
  assumes "prove env now key iv jobId header (Some r) s = (s', CachedProof v)"
  shows "\<exists>c. findRuntimeCircuit (circuits env) (circuit_id r) = Some c \<and> lifecycle c = Live
    \<and> redis_get now (redis_cache s) (hashCircuitPublicInputs (sha256 env) c (public_inputs r)) = Some v"
  using assms by (auto simp: prove_def Let_def split: option.splits prod.splits if_splits)

subsection \<open>How many requests are admitted\<close>

datatype rate_op = Ask string | Clean

text \<open>The admissions of one agent in a history of requests and clean-ups, each with the end of its window.\<close>

fun window_admissions :: "string \<Rightarrow> (int \<times> rate_op) list \<Rightarrow> rateBuckets \<Rightarrow> (int \<times> int) list" where
  "window_admissions did [] m = []"
| "window_admissions did ((t, Clean) # ops) m = window_admissions did ops (sweep_buckets t m)"
| "window_admissions did ((t, Ask d) # ops) m = (case checkRateLimit t d m of (m1, r) \<Rightarrow>
     (if d = did \<and> r = None then [(t, resetAt (current_bucket t d m))] else []) @ window_admissions did ops m1)"

definition admission_times :: "string \<Rightarrow> (int \<times> rate_op) list \<Rightarrow> rateBuckets \<Rightarrow> int list" where
  "admission_times did ops m = map fst (window_admissions did ops m)"

definition used :: "rate_bucket option \<Rightarrow> int \<Rightarrow> nat" where
  "used b w = (case b of Some x \<Rightarrow> if resetAt x = w then bk_count x else 0 | None \<Rightarrow> 0)"

definition after_bucket :: "int \<Rightarrow> rate_bucket option \<Rightarrow> int \<Rightarrow> bool" where
  "after_bucket t b w = (case b of None \<Rightarrow> t + WINDOW_MS \<le> w | Some x \<Rightarrow> w = resetAt x \<or> resetAt x + WINDOW_MS \<le> w)"

definition window_facts :: "int \<Rightarrow> rate_bucket option \<Rightarrow> (int \<times> int) list \<Rightarrow> bool" where
  "window_facts t b adm = ((\<forall>x \<in> set adm. snd x - WINDOW_MS \<le> fst x \<and> fst x < snd x \<and> after_bucket t b (snd x))
     \<and> (\<forall>w. length (filter (\<lambda>x. snd x = w) adm) \<le> BURST_LIMIT - used b w)
     \<and> (\<forall>x \<in> set adm. \<forall>y \<in> set adm. snd x = snd y \<or> snd x + WINDOW_MS \<le> snd y \<or> snd y + WINDOW_MS \<le> snd x))"

lemma window_pos [simp]: "0 < WINDOW_MS"
  by (simp add: WINDOW_MS_def)

text \<open>An older bucket or an earlier time says less.\<close>

lemma window_facts_weaken:
  assumes "window_facts t' b' adm" and "\<And>w. after_bucket t' b' w \<Longrightarrow> after_bucket t b w"
    and "\<And>w. after_bucket t' b' w \<Longrightarrow> used b w \<le> used b' w"
  shows "window_facts t b adm"
proof -
  have "length (filter (\<lambda>x. snd x = w) adm) \<le> BURST_LIMIT - used b w" for w
  proof (cases "\<exists>x \<in> set adm. snd x = w")
    case True
    then have "used b w \<le> used b' w" using assms(1,3) by (auto simp: window_facts_def)
    moreover have "length (filter (\<lambda>x. snd x = w) adm) \<le> BURST_LIMIT - used b' w" using assms(1) by (simp add: window_facts_def)
    ultimately show ?thesis by linarith
  next
    case False
    then have "filter (\<lambda>x. snd x = w) adm = []" by (auto simp: filter_empty_conv)
    then show ?thesis by (metis le0 list.size(3))
  qed
  with assms(1,2) show ?thesis by (simp add: window_facts_def)
qed

lemma window_facts_Cons:
  assumes "window_facts t (Some x) adm" and "resetAt x - WINDOW_MS \<le> t" and "t < resetAt x" and "bk_count x \<le> BURST_LIMIT" and "0 < bk_count x"
  shows "window_facts t (Some (x\<lparr>bk_count := bk_count x - 1\<rparr>)) ((t, resetAt x) # adm)"
proof -
  have "length (filter (\<lambda>y. snd y = w) ((t, resetAt x) # adm)) \<le> BURST_LIMIT - used (Some (x\<lparr>bk_count := bk_count x - 1\<rparr>)) w" for w
  proof -
    have "length (filter (\<lambda>y. snd y = w) adm) \<le> BURST_LIMIT - used (Some x) w" using assms(1) by (simp add: window_facts_def)
    with assms(4,5) show ?thesis by (auto simp: used_def split: if_splits)
  qed
  with assms show ?thesis by (auto simp: window_facts_def after_bucket_def)
qed


lemma sweep_buckets_get:
  assumes "map_ok m"
  shows "map_ok (sweep_buckets t m)"
    "map_get (sweep_buckets t m) k = (case map_get m k of None \<Rightarrow> None | Some b \<Rightarrow> if resetAt b \<le> t then None else Some b)"
proof -
  show ok: "map_ok (sweep_buckets t m)"
    using assms unfolding map_ok_def map_keys_def sweep_buckets_def by (rule distinct_map_filter)
  have iff: "map_get (sweep_buckets t m) k = Some b \<longleftrightarrow> map_get m k = Some b \<and> \<not> resetAt b \<le> t" for b
    by (simp add: map_get_map_of [OF ok] map_get_map_of [OF assms], simp add: sweep_buckets_def)
  have none: "map_get (sweep_buckets t m) k = None" if "\<And>b. map_get m k = Some b \<Longrightarrow> resetAt b \<le> t"
    using iff that by (cases "map_get (sweep_buckets t m) k") blast+
  show "map_get (sweep_buckets t m) k = (case map_get m k of None \<Rightarrow> None | Some b \<Rightarrow> if resetAt b \<le> t then None else Some b)"
  proof (cases "map_get m k")
    case None
    with none show ?thesis by simp
  next
    case (Some b)
    with none iff [of b] show ?thesis by simp
  qed
qed

lemma current_bucket_facts:
  assumes "\<forall>b. map_get m did = Some b \<longrightarrow> resetAt b - WINDOW_MS \<le> t0" and "t0 \<le> t"
  shows "resetAt (current_bucket t did m) - WINDOW_MS \<le> t" "t < resetAt (current_bucket t did m)"
    "after_bucket t (Some (current_bucket t did m)) w \<Longrightarrow> after_bucket t0 (map_get m did) w"
    "after_bucket t (Some (current_bucket t did m)) w \<Longrightarrow> used (map_get m did) w \<le> used (Some (current_bucket t did m)) w"
  using assms by (auto simp: current_bucket_def after_bucket_def used_def WINDOW_MS_def split: option.splits if_splits)

lemma admissions_facts:
  "map_ok m \<Longrightarrow> sorted (map fst ops) \<Longrightarrow> \<forall>x \<in> set ops. t0 \<le> fst x \<Longrightarrow>
   \<forall>b. map_get m did = Some b \<longrightarrow> resetAt b - WINDOW_MS \<le> t0 \<Longrightarrow>
   window_facts t0 (map_get m did) (window_admissions did ops m)"
proof (induction did ops m arbitrary: t0 rule: window_admissions.induct)
  case (1 did m)
  then show ?case by (simp add: window_facts_def)
next
  case (2 did t ops m)
  let ?m = "sweep_buckets t m"
  have t: "t0 \<le> t" "sorted (map fst ops)" "\<forall>x \<in> set ops. t \<le> fst x" using "2.prems"(2,3) by auto
  note g = sweep_buckets_get [OF "2.prems"(1)]
  have "\<forall>b. map_get ?m did = Some b \<longrightarrow> resetAt b - WINDOW_MS \<le> t"
    using "2.prems"(4) t(1) by (auto simp: g(2) split: option.splits if_splits)
  from "2.IH" [OF g(1) t(2,3) this] have "window_facts t (map_get ?m did) (window_admissions did ops ?m)" .
  then have "window_facts t0 (map_get m did) (window_admissions did ops ?m)"
    by (rule window_facts_weaken) (use t(1) in \<open>auto simp: g(2) after_bucket_def used_def WINDOW_MS_def split: option.splits if_splits\<close>)
  then show ?case by simp
next
  case (3 did t d ops m)
  obtain m1 r where c: "checkRateLimit t d m = (m1, r)" by fastforce
  let ?x = "current_bucket t d m"
  have m1: "m1 = map_set d (?x\<lparr>bk_count := bk_count ?x + 1\<rparr>) m" "r = None \<longleftrightarrow> bk_count ?x + 1 \<le> BURST_LIMIT"
    using c by (auto simp: checkRateLimit_def Let_def split: if_splits)
  have t: "t0 \<le> t" "sorted (map fst ops)" "\<forall>x \<in> set ops. t \<le> fst x" using "3.prems"(2,3) by auto
  have ok: "map_ok m1" using "3.prems"(1) m1(1) by (simp add: map_specs)
  show ?case
  proof (cases "d = did")
    case False
    then have same: "map_get m1 did = map_get m did" using m1(1) by (simp add: map_specs)
    then have "\<forall>b. map_get m1 did = Some b \<longrightarrow> resetAt b - WINDOW_MS \<le> t" using "3.prems"(4) t(1) by auto
    from "3.IH" [OF c [symmetric] ok t(2,3) this] have "window_facts t (map_get m did) (window_admissions did ops m1)" by (simp add: same)
    then have "window_facts t0 (map_get m did) (window_admissions did ops m1)"
      by (rule window_facts_weaken) (use t(1) in \<open>auto simp: after_bucket_def split: option.splits\<close>)
    with c False show ?thesis by simp
  next
    case True
    note cb = current_bucket_facts [OF "3.prems"(4) t(1)]
    let ?b1 = "?x\<lparr>bk_count := bk_count ?x + 1\<rparr>"
    have g: "map_get m1 did = Some ?b1" using m1(1) True by (simp add: map_specs)
    then have "\<forall>b. map_get m1 did = Some b \<longrightarrow> resetAt b - WINDOW_MS \<le> t" using cb(1) True by auto
    from "3.IH" [OF c [symmetric] ok t(2,3) this] have ih: "window_facts t (Some ?b1) (window_admissions did ops m1)" by (simp add: g)
    have "window_facts t (Some ?x) (window_admissions did ((t, Ask d) # ops) m)"
    proof (cases "r = None")
      case True
      then have "window_facts t (Some (?b1\<lparr>bk_count := bk_count ?b1 - 1\<rparr>)) ((t, resetAt ?b1) # window_admissions did ops m1)"
        using cb(1,2) m1(2) \<open>d = did\<close> by (intro window_facts_Cons [OF ih]) auto
      with c True \<open>d = did\<close> show ?thesis by simp
    next
      case False
      from ih have "window_facts t (Some ?x) (window_admissions did ops m1)"
        by (rule window_facts_weaken) (auto simp: after_bucket_def used_def)
      moreover have "\<not> (d = did \<and> r = None)" using False by blast
      ultimately show ?thesis using c by (simp only: window_admissions.simps prod.case if_False append_Nil)
    qed
    then show ?thesis by (rule window_facts_weaken) (use cb(3,4) True in simp_all)
  qed
qed

text \<open>Windows that differ are a window length apart, so an interval of that length meets at most two.\<close>

lemma two_windows:
  assumes "window_facts t b adm" and "W = filter (\<lambda>x. a \<le> fst x \<and> fst x < a + WINDOW_MS) adm"
  shows "\<exists>w1 w2. snd ` set W \<subseteq> {w1, w2}"
proof (cases "W = []")
  case False
  let ?w = "Min (snd ` set W)"
  have w: "?w \<in> snd ` set W" "\<And>v. v \<in> snd ` set W \<Longrightarrow> ?w \<le> v" using False by simp_all
  have rng: "a < v \<and> v < a + 2 * WINDOW_MS" if "v \<in> snd ` set W" for v
    using that assms by (auto simp: window_facts_def)
  have sep: "u = v \<or> u + WINDOW_MS \<le> v \<or> v + WINDOW_MS \<le> u" if "u \<in> snd ` set W" "v \<in> snd ` set W" for u v
    using that assms by (auto simp: window_facts_def)
  have "u = v" if "u \<in> snd ` set W" "v \<in> snd ` set W" "u \<noteq> ?w" "v \<noteq> ?w" for u v
    using that sep [of u v] sep [of ?w u] sep [of ?w v] w rng [of u] rng [of v] rng [of ?w] window_pos by (smt (verit))
  then have "\<exists>w2. snd ` set W \<subseteq> {?w, w2}" by blast
  then show ?thesis by blast
qed simp

lemma length_two:
  assumes "snd ` set W \<subseteq> {w1, w2}"
  shows "length W \<le> length (filter (\<lambda>x. snd x = w1) W) + length (filter (\<lambda>x. snd x = w2) W)"
  using assms by (induction W) auto

lemma admissions_bounded:
  assumes "sorted (map fst ops)"
  shows "length (filter (\<lambda>t. a \<le> t \<and> t < a + WINDOW_MS) (admission_times did ops [])) \<le> 2 * BURST_LIMIT"
proof -
  let ?adm = "window_admissions did ops []"
  define W where "W = filter (\<lambda>x. a \<le> fst x \<and> fst x < a + WINDOW_MS) ?adm"
  have "\<forall>x \<in> set ops. (case ops of [] \<Rightarrow> 0 | x # _ \<Rightarrow> fst x) \<le> fst x" using assms by (cases ops) auto
  from admissions_facts [OF _ assms this, of "[]" did] have f: "window_facts (case ops of [] \<Rightarrow> 0 | x # _ \<Rightarrow> fst x) None ?adm"
    by (simp add: map_specs)
  obtain w1 w2 where s: "snd ` set W \<subseteq> {w1, w2}" using two_windows [OF f W_def] by blast
  have sub: "length (filter (\<lambda>x. snd x = w) W) \<le> BURST_LIMIT" for w
  proof -
    have "length (filter (\<lambda>x. snd x = w) W) \<le> length (filter (\<lambda>x. snd x = w) ?adm)"
    proof -
      have "filter (\<lambda>x. snd x = w) W = filter (\<lambda>x. a \<le> fst x \<and> fst x < a + WINDOW_MS) (filter (\<lambda>x. snd x = w) ?adm)"
        unfolding W_def filter_filter by (rule filter_cong) auto
      then show ?thesis by (simp only: length_filter_le)
    qed
    also have "\<dots> \<le> BURST_LIMIT" using f by (auto simp: window_facts_def used_def)
    finally show ?thesis .
  qed
  have "length (filter (\<lambda>t. a \<le> t \<and> t < a + WINDOW_MS) (admission_times did ops [])) = length W"
    by (simp add: admission_times_def W_def filter_map o_def)
  with length_two [OF s] sub [of w1] sub [of w2] show ?thesis by linarith
qed


subsection \<open>Properties\<close>

definition sample_public :: PublicInputs where
  "sample_public = \<lparr>task_hash = ''0x'' @ replicate 64 (CHR ''a''), result_hash = ''0x'' @ replicate 64 (CHR ''b''), deadline = ''9'',
     submitted_at = ''8'', criteria_root = ''0x'' @ replicate 64 (CHR ''c'')\<rparr>"

definition sample_private :: PrivateInputs where
  "sample_private = \<lparr>task_preimage = replicate 16 ''1'', result_preimage = replicate 32 ''2'', salt = ''3'',
     criteria_satisfied = replicate 8 ''1'', criteria_path = replicate 3 ''4'', criteria_index = replicate 3 ''0''\<rparr>"

definition sample_request :: ProveRequest where
  "sample_request = \<lparr>circuit_id = ''task_completion.v1'', public_inputs = sample_public, private_inputs = sample_private\<rparr>"

definition sample_circuits :: "RuntimeCircuitCatalogEntry list" where
  "sample_circuits = map (runtime_entry (\<lambda>_. True) ''/c'') DEFAULT_CIRCUIT_CATALOG"

text \<open>A prover that fails for one submission time.\<close>

definition sample_penv :: proof_env where
  "sample_penv = \<lparr>session_agent = (\<lambda>t. Some ''agent''), sha256 = (\<lambda>x. x), encrypt = (\<lambda>k iv p. (salt p, k)),
     decrypt = (\<lambda>k iv tag ct. Inr sample_private),
     fullProve = (\<lambda>p priv w z. if submitted_at p = ''0'' then Inl ''assert failed'' else Inr \<lparr>proof_text = task_hash p, public_signals = [result_hash p]\<rparr>),
     file_exists = (\<lambda>_. True), KEY_TTL = 600, RESULT_TTL = 3600, circuits = sample_circuits\<rparr>"

definition empty_service :: proof_service where
  "empty_service = \<lparr>rate_buckets = [], redis_keys = [], redis_results = [], redis_cache = [], queued = [], dlq = [], artifacts = []\<rparr>"

definition service_queued :: proof_service where
  "service_queued = fst (prove sample_penv 0 ''K'' ''I'' ''J'' (Some ''Bearer t'') (Some sample_request) empty_service)"

definition service_proved :: proof_service where
  "service_proved = fst (process_job sample_penv 1 ''J'' (snd (hd (queued service_queued))) service_queued)"

lemma sample_proved_run: "proof_run sample_penv service_proved"
proof -
  have q: "proof_run sample_penv service_queued"
    unfolding service_queued_def empty_service_def by (intro proof_run.intros)
  have "map fst (queued service_queued) = [''J'']" by code_simp
  then have "(''J'', snd (hd (queued service_queued))) \<in> set (queued service_queued)" by (cases "queued service_queued") auto
  from proof_run.attempt [OF q this] show ?thesis unfolding service_proved_def .
qed



text \<open>
  C36. An agent gets at most twenty proof requests a minute: in any history of requests and clean-ups in the order
  of their times, no interval of a minute holds more than twice the burst limit of admitted requests of one agent.
\<close>

theorem proof_requests_bounded:
  assumes "sorted (map fst ops)"
  shows "length (filter (\<lambda>t. a \<le> t \<and> t < a + 60000) (admission_times did ops [])) \<le> 20"
  using admissions_bounded [OF assms, of a did] by (simp add: WINDOW_MS_def BURST_LIMIT_def)

theorem proof_requests_bounded_witness:
  "length (filter (\<lambda>t. 0 \<le> t \<and> t < 0 + 60000) (admission_times ''a'' (replicate 30 (7, Ask ''a'')) [])) \<le> 20"
  by (rule proof_requests_bounded) simp


definition sample_bad_job :: ProveJobData where
  "sample_bad_job = \<lparr>jd_circuit_id = ''task_completion.v1'', jd_public_inputs = sample_public\<lparr>submitted_at := ''0''\<rparr>, witness_ciphertext = ''3'',
     witness_iv = ''I'', witness_tag = ''K'', jd_agent_did = ''agent'', public_inputs_hash = ''h''\<rparr>"


text \<open>
  All requests for the second live circuit share one cache entry: its public inputs are not among those a
  request can carry, so the key under which a proof is cached does not depend on the request at all.
\<close>

theorem unique_execution_shares_cache:
  "lifecycle (runtime_entry ex buildRoot (DEFAULT_CIRCUIT_CATALOG ! 1)) = Live
    \<and> hashCircuitPublicInputs sha (runtime_entry ex buildRoot (DEFAULT_CIRCUIT_CATALOG ! 1)) p
      = hashCircuitPublicInputs sha (runtime_entry ex buildRoot (DEFAULT_CIRCUIT_CATALOG ! 1)) q"
  by (simp add: hashCircuitPublicInputs_def runtime_entry_def DEFAULT_CIRCUIT_CATALOG_def CircuitCatalogEntry.defs public_field_def Let_def)

end
