(* ===== verification/Discovery_Search.thy ===== *)
theory Discovery_Search
  imports Proof_Gen "HOL-Library.Product_Lexorder" "HOL-Library.List_Lexorder"
begin

text \<open>
  The read side of the discovery service (\<open>services/discovery/src/server.ts\<close>, \<open>schema.ts\<close>, \<open>compute-bonds.ts\<close>): the paged
  searches, the compute bond queries and the websocket stream. A query is kept as the list of its conditions with their
  placeholder numbers, beside the list of values, as the routes build them; the tables are lists of rows, and a statement
  is run on them with the meaning of its SQL text. Columns and operators the database does not have make the
  statement fail: the views are those of \<open>services/indexer/migrations\<close>, and \<open>numeric_and\<close> is the database's
  operator \<open>&\<close> on \<open>numeric\<close>, absent in PostgreSQL.
\<close>

subsection \<open>Statements\<close>

datatype sql_value = VText string | VTexts "string list" | VNum nat | VBytes bytes

text \<open>\<open>conditions.push(\<dots>$idx\<dots>); values.push(v); idx++\<close>\<close>

definition push :: "(nat \<Rightarrow> 'c) \<Rightarrow> sql_value \<Rightarrow> 'c list \<times> sql_value list \<times> nat \<Rightarrow> 'c list \<times> sql_value list \<times> nat" where
  "push c v st = (case st of (conditions, vals, idx) \<Rightarrow> (conditions @ [c idx], vals @ [v], idx + 1))"

definition push_if :: "'a option \<Rightarrow> (nat \<Rightarrow> 'c) \<Rightarrow> ('a \<Rightarrow> sql_value) \<Rightarrow> 'c list \<times> sql_value list \<times> nat \<Rightarrow> 'c list \<times> sql_value list \<times> nat" where
  "push_if x c v st = (case x of None \<Rightarrow> st | Some a \<Rightarrow> push c (v a) st)"

text \<open>The value of placeholder \<open>$i\<close>.\<close>

definition arg :: "sql_value list \<Rightarrow> nat \<Rightarrow> sql_value" where
  "arg vals i = vals ! (i - 1)"

definition num_of :: "sql_value \<Rightarrow> nat" where
  "num_of v = (case v of VNum n \<Rightarrow> n | _ \<Rightarrow> 0)"

text \<open>\<open>LIMIT $l OFFSET $o\<close>\<close>

definition window :: "sql_value list \<Rightarrow> nat \<Rightarrow> nat \<Rightarrow> 'a list \<Rightarrow> 'a list" where
  "window vals l off rows = take (num_of (arg vals l)) (drop (num_of (arg vals off)) rows)"

subsection \<open>Agents\<close>

record agent_row =
  ag_did :: bytes
  ag_operator :: "string option"
  ag_mask :: "nat option"
  ag_stake :: "nat option"
  ag_reputation :: int
  ag_status :: string
  ag_last_active :: int

record AgentsQuery =
  aq_capability :: "nat option"
  aq_min_reputation :: "nat option"
  aq_min_stake :: "string option"
  aq_price_max :: "string option"
  aq_status :: "string option"
  aq_sort :: "string option"
  aq_page :: nat
  aq_limit :: nat

definition optional :: "('a \<Rightarrow> bool) \<Rightarrow> 'a option \<Rightarrow> bool" where
  "optional P x = (case x of None \<Rightarrow> True | Some a \<Rightarrow> P a)"

definition paging_ok :: "nat \<Rightarrow> nat \<Rightarrow> bool" where
  "paging_ok page limit \<longleftrightarrow> 1 \<le> page \<and> 1 \<le> limit \<and> limit \<le> 200"

definition AgentsQuerySchema :: "AgentsQuery \<Rightarrow> bool" where
  "AgentsQuerySchema q \<longleftrightarrow> optional (\<lambda>n. n \<le> 10000) (aq_min_reputation q) \<and> optional Decimal (aq_min_stake q) \<and>
     optional Decimal (aq_price_max q) \<and> optional (\<lambda>s. s \<in> {''active'', ''paused'', ''slashed'', ''suspended''}) (aq_status q) \<and>
     optional (\<lambda>s. s \<in> {''reputation'', ''price'', ''jobs_completed''}) (aq_sort q) \<and> paging_ok (aq_page q) (aq_limit q)"

definition SORT_MAP :: "(string \<times> string) list" where
  "SORT_MAP = [(''reputation'', ''reputation_composite''), (''price'', ''reward_lamports''), (''jobs_completed'', ''jobs_completed'')]"

definition sort_column :: "AgentsQuery \<Rightarrow> string" where
  "sort_column q = (let sortKey = (case aq_sort q of None \<Rightarrow> ''reputation'' | Some s \<Rightarrow> s) in
     case map_of SORT_MAP sortKey of Some c \<Rightarrow> c | None \<Rightarrow> ''reputation_composite'')"

text \<open>The conditions with their placeholder numbers.\<close>

datatype agent_cond = StatusIs nat | MaskHas nat | ReputationAtLeast nat | StakeAtLeast nat

definition agents_where :: "AgentsQuery \<Rightarrow> agent_cond list \<times> sql_value list \<times> nat" where
  "agents_where q =
     push_if (aq_min_stake q) StakeAtLeast VText
       (push_if (aq_min_reputation q) ReputationAtLeast VNum
         (push_if (aq_capability q) MaskHas (\<lambda>n. VText (show_nat n))
           (push_if (aq_status q) StatusIs VText ([], [], 1))))"

text \<open>The columns of the view \<open>agent_directory\<close>.\<close>

definition agent_columns :: "string list" where
  "agent_columns = [''agent_did'', ''operator'', ''capability_mask'', ''stake_amount'', ''reputation_composite'', ''status'',
     ''manifest_uri'', ''last_active_unix'', ''refreshed_at'']"

type_synonym numeric_op = "(nat \<Rightarrow> nat \<Rightarrow> nat) option"

text \<open>A comparison with \<open>NULL\<close> does not hold.\<close>

definition mask_has :: "numeric_op \<Rightarrow> nat option \<Rightarrow> nat \<Rightarrow> bool" where
  "mask_has numeric_and m v = (case (numeric_and, m) of (Some f, Some k) \<Rightarrow> f k v = v | _ \<Rightarrow> False)"

fun agent_holds :: "numeric_op \<Rightarrow> sql_value list \<Rightarrow> agent_row \<Rightarrow> agent_cond \<Rightarrow> bool" where
  "agent_holds op vals r (StatusIs i) = (arg vals i = VText (ag_status r))"
| "agent_holds op vals r (MaskHas i) = (case arg vals i of VText s \<Rightarrow> mask_has op (ag_mask r) (read_nat s) | _ \<Rightarrow> False)"
| "agent_holds op vals r (ReputationAtLeast i) = (int (num_of (arg vals i)) \<le> ag_reputation r)"
| "agent_holds op vals r (StakeAtLeast i) = (case (arg vals i, ag_stake r) of (VText s, Some k) \<Rightarrow> read_nat s \<le> k | _ \<Rightarrow> False)"

definition uses_mask :: "agent_cond list \<Rightarrow> bool" where
  "uses_mask cs \<longleftrightarrow> list_ex (\<lambda>c. case c of MaskHas _ \<Rightarrow> True | _ \<Rightarrow> False) cs"

definition no_operator :: string where
  "no_operator = ''operator does not exist: numeric & numeric''"

definition matching_agents :: "numeric_op \<Rightarrow> agent_row list \<Rightarrow> agent_cond list \<Rightarrow> sql_value list \<Rightarrow> agent_row list js" where
  "matching_agents op table conditions vals =
     (if uses_mask conditions \<and> op = None then Inl no_operator
      else Inr (filter (\<lambda>r. list_all (agent_holds op vals r) conditions) table))"

text \<open>\<open>ORDER BY reputation_composite DESC, agent_did ASC\<close>; \<open>bytea\<close> compares bytewise.\<close>

definition agent_order :: "agent_row \<Rightarrow> int \<times> nat list" where
  "agent_order r = (- ag_reputation r, map unat (ag_did r))"

definition ordered_agents :: "string \<Rightarrow> agent_row list \<Rightarrow> agent_row list js" where
  "ordered_agents column rows =
     (if column \<notin> set agent_columns then Inl (''column '' @ column @ '' does not exist'')
      else Inr (sort_key agent_order rows))"

record 'a page_reply =
  rp_items :: "'a list"
  rp_page :: nat
  rp_limit :: nat
  rp_total :: nat

definition page_offset :: "nat \<Rightarrow> nat \<Rightarrow> nat" where
  "page_offset page limit = (page - 1) * limit"

text \<open>\<open>GET /agents\<close>: a query outside the schema is a 400 with no statement run; a failing statement is a 500.\<close>

datatype 'a http = Ok200 'a | Bad400 string | Missing404 string | Fail500 string

definition get_agents :: "numeric_op \<Rightarrow> agent_row list \<Rightarrow> AgentsQuery \<Rightarrow> agent_row page_reply http" where
  "get_agents op table q =
     (if \<not> AgentsQuerySchema q then Bad400 ''invalid_query''
      else case agents_where q of (conditions, vals, idx) \<Rightarrow>
        (case matching_agents op table conditions vals of
           Inl e \<Rightarrow> Fail500 e
         | Inr counted \<Rightarrow>
            let dataValues = vals @ [VNum (aq_limit q), VNum (page_offset (aq_page q) (aq_limit q))] in
            (case matching_agents op table conditions dataValues of
               Inl e \<Rightarrow> Fail500 e
             | Inr rows \<Rightarrow> (case ordered_agents (sort_column q) rows of
                 Inl e \<Rightarrow> Fail500 e
               | Inr sorted_rows \<Rightarrow> Ok200 \<lparr>rp_items = window dataValues idx (idx + 1) sorted_rows, rp_page = aq_page q,
                   rp_limit = aq_limit q, rp_total = length counted\<rparr>))))"

subsection \<open>Tasks\<close>

record task_row =
  tk_id :: bytes
  tk_creator :: "string option"
  tk_agent :: "bytes option"
  tk_status :: "string option"
  tk_reward :: "nat option"
  tk_mask :: "nat option"
  tk_created :: int
  tk_deadline :: "int option"
  tk_updated :: "int option"

record TasksQuery =
  tq_capability :: "nat option"
  tq_status :: "string option"
  tq_min_reward :: "string option"
  tq_page :: nat
  tq_limit :: nat

definition TasksQuerySchema :: "TasksQuery \<Rightarrow> bool" where
  "TasksQuerySchema q \<longleftrightarrow> optional (\<lambda>n. n \<le> 127) (tq_capability q) \<and> optional Decimal (tq_min_reward q) \<and> paging_ok (tq_page q) (tq_limit q)"

text \<open>\<open>s.split(',')\<close>\<close>

fun split_commas :: "string \<Rightarrow> string list" where
  "split_commas [] = [[]]"
| "split_commas (c # cs) = (if c = CHR '','' then [] # split_commas cs
     else (case split_commas cs of w # ws \<Rightarrow> (c # w) # ws | [] \<Rightarrow> [[c]]))"

definition status_list :: "string \<Rightarrow> string list" where
  "status_list s = filter (\<lambda>w. w \<noteq> []) (map trim (split_commas s))"

text \<open>\<open>if (q.status)\<close> is false for the empty text too.\<close>

definition nonempty :: "string option \<Rightarrow> string option" where
  "nonempty s = (case s of Some (c # cs) \<Rightarrow> Some (c # cs) | _ \<Rightarrow> None)"

definition wanted_statuses :: "string option \<Rightarrow> string list option" where
  "wanted_statuses s = (case nonempty s of None \<Rightarrow> None | Some t \<Rightarrow> if status_list t = [] then None else Some (status_list t))"

datatype task_cond = TStatusAny nat | TMaskHas nat | TRewardAtLeast nat

definition tasks_where :: "TasksQuery \<Rightarrow> task_cond list \<times> sql_value list \<times> nat" where
  "tasks_where q =
     push_if (tq_min_reward q) TRewardAtLeast VText
       (push_if (tq_capability q) TMaskHas (\<lambda>n. VText (show_nat (2 ^ n)))
         (push_if (wanted_statuses (tq_status q)) TStatusAny VTexts ([], [], 1)))"

text \<open>The rows of \<open>task_directory t LEFT JOIN agent_directory a ON a.agent_did = t.agent_did\<close>, with the mask of the agent.\<close>

definition joined_mask :: "agent_row list \<Rightarrow> task_row \<Rightarrow> nat option" where
  "joined_mask agents t = (case tk_agent t of None \<Rightarrow> None
     | Some d \<Rightarrow> (case List.find (\<lambda>a. ag_did a = d) agents of None \<Rightarrow> None | Some a \<Rightarrow> ag_mask a))"

fun task_holds :: "numeric_op \<Rightarrow> agent_row list \<Rightarrow> sql_value list \<Rightarrow> task_row \<Rightarrow> task_cond \<Rightarrow> bool" where
  "task_holds op agents vals t (TStatusAny i) = (case (arg vals i, tk_status t) of (VTexts ss, Some s) \<Rightarrow> s \<in> set ss | _ \<Rightarrow> False)"
| "task_holds op agents vals t (TMaskHas i) = (case arg vals i of VText s \<Rightarrow> mask_has op (joined_mask agents t) (read_nat s) | _ \<Rightarrow> False)"
| "task_holds op agents vals t (TRewardAtLeast i) = (case (arg vals i, tk_reward t) of (VText s, Some k) \<Rightarrow> read_nat s \<le> k | _ \<Rightarrow> False)"

definition matching_tasks :: "numeric_op \<Rightarrow> agent_row list \<Rightarrow> task_row list \<Rightarrow> task_cond list \<Rightarrow> sql_value list \<Rightarrow> task_row list js" where
  "matching_tasks op agents tasks conditions vals =
     (if list_ex (\<lambda>c. case c of TMaskHas _ \<Rightarrow> True | _ \<Rightarrow> False) conditions \<and> op = None then Inl no_operator
      else Inr (filter (\<lambda>t. list_all (task_holds op agents vals t) conditions) tasks))"

definition task_order :: "task_row \<Rightarrow> int \<times> nat list" where
  "task_order t = (- tk_created t, map unat (tk_id t))"

definition coalesce :: "'a option \<Rightarrow> 'a option \<Rightarrow> 'a option" where
  "coalesce a b = (case a of None \<Rightarrow> b | Some x \<Rightarrow> Some x)"

subsection \<open>Compute bonds\<close>

record bond_row =
  bd_lease :: string
  bd_agent :: string
  bd_provider :: string
  bd_task :: "string option"
  bd_status :: string
  bd_updated :: int

fun group_bonds :: "bond_row list \<Rightarrow> (string, bond_row list) jsmap \<Rightarrow> (string, bond_row list) jsmap" where
  "group_bonds [] grouped = grouped"
| "group_bonds (row # rows) grouped = (case nonempty (bd_task row) of
     None \<Rightarrow> group_bonds rows grouped
   | Some t \<Rightarrow> (case map_get grouped t of
       Some existing \<Rightarrow> group_bonds rows (map_set t (existing @ [row]) grouped)
     | None \<Rightarrow> group_bonds rows (map_set t [row] grouped)))"

text \<open>\<open>ORDER BY updated_at_ms DESC, lease_id ASC\<close>, with texts compared by their bytes.\<close>

definition sort_bonds :: "bond_row list \<Rightarrow> bond_row list" where
  "sort_bonds rows = sort_key (\<lambda>b. (- bd_updated b, map (of_char :: char \<Rightarrow> nat) (bd_lease b))) rows"

definition loadComputeBondMapForTaskIds :: "bond_row list \<Rightarrow> string list \<Rightarrow> (string, bond_row list) jsmap" where
  "loadComputeBondMapForTaskIds table taskIds =
     (if taskIds = [] then []
      else group_bonds (sort_bonds (filter (\<lambda>b. case bd_task b of None \<Rightarrow> False | Some t \<Rightarrow> t \<in> set (remdups taskIds)) table)) [])"

record ListComputeBondsQuery =
  lq_taskId :: "string option"
  lq_taskIds :: "string list option"
  lq_status :: "string option"
  lq_provider :: "string option"
  lq_limit :: "int option"

datatype bond_cond = BTask nat | BTaskAny nat | BStatus nat | BProvider nat

fun bond_holds :: "sql_value list \<Rightarrow> bond_row \<Rightarrow> bond_cond \<Rightarrow> bool" where
  "bond_holds vals b (BTask i) = (case bd_task b of None \<Rightarrow> False | Some t \<Rightarrow> arg vals i = VText t)"
| "bond_holds vals b (BTaskAny i) = (case (arg vals i, bd_task b) of (VTexts ts, Some t) \<Rightarrow> t \<in> set ts | _ \<Rightarrow> False)"
| "bond_holds vals b (BStatus i) = (arg vals i = VText (bd_status b))"
| "bond_holds vals b (BProvider i) = (arg vals i = VText (bd_provider b))"

definition bond_target :: "ListComputeBondsQuery \<Rightarrow> (bond_cond list \<times> sql_value list \<times> nat) option" where
  "bond_target filters = (case nonempty (lq_taskId filters) of
     Some t \<Rightarrow> Some (push BTask (VText t) ([], [], 1))
   | None \<Rightarrow> (case lq_taskIds filters of
       Some (t # ts) \<Rightarrow> Some (push BTaskAny (VTexts (remdups (t # ts))) ([], [], 1))
     | _ \<Rightarrow> None))"

definition clamped_limit :: "int option \<Rightarrow> nat" where
  "clamped_limit l = nat (min 200 (max 1 (case l of None \<Rightarrow> 50 | Some n \<Rightarrow> n)))"

definition listPersistedComputeBonds :: "bond_row list \<Rightarrow> ListComputeBondsQuery \<Rightarrow> bond_row list" where
  "listPersistedComputeBonds table filters = (case bond_target filters of
     None \<Rightarrow> []
   | Some st \<Rightarrow> (case push_if (lq_provider filters) BProvider VText (push_if (lq_status filters) BStatus VText st) of
       (conditions, vals, idx) \<Rightarrow>
         let all_vals = vals @ [VNum (clamped_limit (lq_limit filters))] in
         take (num_of (arg all_vals idx)) (sort_bonds (filter (\<lambda>b. list_all (bond_holds all_vals b) conditions) table))))"

subsection \<open>Task routes\<close>

text \<open>An item of a task list: the row, with the mask of the task or else of its agent, and its bonds.\<close>

record task_item =
  it_row :: task_row
  it_mask :: "nat option"
  it_bonds :: "bond_row list"

definition did_hex :: "bytes \<Rightarrow> string" where
  "did_hex bs = concat (map (\<lambda>b. [hex_digit (unat b div 16), hex_digit (unat b mod 16)]) bs)"

definition with_bonds :: "bond_row list \<Rightarrow> (task_row \<Rightarrow> nat option) \<Rightarrow> task_row list \<Rightarrow> task_item list" where
  "with_bonds bonds mask_of rows =
     (let bondsByTaskId = loadComputeBondMapForTaskIds bonds (map (\<lambda>t. did_hex (tk_id t)) rows) in
      map (\<lambda>t. \<lparr>it_row = t, it_mask = mask_of t,
        it_bonds = (case map_get bondsByTaskId (did_hex (tk_id t)) of None \<Rightarrow> [] | Some bs \<Rightarrow> bs)\<rparr>) rows)"

definition get_tasks :: "numeric_op \<Rightarrow> agent_row list \<Rightarrow> task_row list \<Rightarrow> bond_row list \<Rightarrow> TasksQuery \<Rightarrow> task_item page_reply http" where
  "get_tasks op agents tasks bonds q =
     (if \<not> TasksQuerySchema q then Bad400 ''invalid_query''
      else case tasks_where q of (conditions, vals, idx) \<Rightarrow>
        (case matching_tasks op agents tasks conditions vals of
           Inl e \<Rightarrow> Fail500 e
         | Inr counted \<Rightarrow>
            let dataValues = vals @ [VNum (tq_limit q), VNum (page_offset (tq_page q) (tq_limit q))] in
            (case matching_tasks op agents tasks conditions dataValues of
               Inl e \<Rightarrow> Fail500 e
             | Inr rows \<Rightarrow> Ok200 \<lparr>rp_items = with_bonds bonds (\<lambda>t. coalesce (tk_mask t) (joined_mask agents t))
                   (window dataValues idx (idx + 1) (sort_key task_order rows)),
                 rp_page = tq_page q, rp_limit = tq_limit q, rp_total = length counted\<rparr>)))"

text \<open>\<open>AgentDidParamsSchema\<close> and \<open>TaskIdParamsSchema\<close>, and \<open>Buffer.from(hex, 'hex')\<close> of such a text.\<close>

definition hex_id_ok :: "string \<Rightarrow> bool" where
  "hex_id_ok s \<longleftrightarrow> list_all is_hex s \<and> length s = 64"

definition nibble :: "char \<Rightarrow> nat" where
  "nibble c = (let n = (of_char c :: nat) in if n < 58 then n - 48 else if n < 97 then n - 55 else n - 87)"

fun from_hex :: "string \<Rightarrow> bytes" where
  "from_hex (a # b # rest) = of_nat (16 * nibble a + nibble b) # from_hex rest"
| "from_hex _ = []"

record TaskHistoryQuery =
  hq_status :: "string option"
  hq_page :: nat
  hq_limit :: nat

datatype history_cond = HAgent nat | HStatusAny nat

definition history_where :: "bytes \<Rightarrow> TaskHistoryQuery \<Rightarrow> history_cond list \<times> sql_value list \<times> nat" where
  "history_where did q = push_if (nonempty (hq_status q)) HStatusAny (\<lambda>s. VTexts (map trim (split_commas s))) ([HAgent 1], [VBytes did], 2)"

fun history_holds :: "sql_value list \<Rightarrow> task_row \<Rightarrow> history_cond \<Rightarrow> bool" where
  "history_holds vals t (HAgent i) = (case tk_agent t of None \<Rightarrow> False | Some d \<Rightarrow> arg vals i = VBytes d)"
| "history_holds vals t (HStatusAny i) = (case (arg vals i, tk_status t) of (VTexts ss, Some s) \<Rightarrow> s \<in> set ss | _ \<Rightarrow> False)"

definition get_agent_tasks :: "task_row list \<Rightarrow> bond_row list \<Rightarrow> string \<Rightarrow> TaskHistoryQuery \<Rightarrow> task_item page_reply http" where
  "get_agent_tasks tasks bonds did q =
     (if \<not> hex_id_ok did then Bad400 ''invalid_did''
      else if \<not> paging_ok (hq_page q) (hq_limit q) then Bad400 ''invalid_query''
      else case history_where (from_hex did) q of (conditions, vals, idx) \<Rightarrow>
        (let matching = (\<lambda>vs. filter (\<lambda>t. list_all (history_holds vs t) conditions) tasks);
             dataValues = vals @ [VNum (hq_limit q), VNum (page_offset (hq_page q) (hq_limit q))] in
         Ok200 \<lparr>rp_items = with_bonds bonds (\<lambda>t. None) (window dataValues idx (idx + 1) (sort_key task_order (matching dataValues))),
           rp_page = hq_page q, rp_limit = hq_limit q, rp_total = length (matching vals)\<rparr>))"

definition get_agent :: "agent_row list \<Rightarrow> (bytes \<Rightarrow> 'rep list) \<Rightarrow> string \<Rightarrow> (agent_row \<times> 'rep list) http" where
  "get_agent agents reputation did =
     (if \<not> hex_id_ok did then Bad400 ''invalid_did''
      else (case List.find (\<lambda>a. ag_did a = from_hex did) agents of
          None \<Rightarrow> Missing404 ''agent_not_found''
        | Some a \<Rightarrow> Ok200 (a, reputation (from_hex did))))"

record ComputeBondQuery =
  cq_status :: "string option"
  cq_provider :: "string option"
  cq_limit :: nat

definition ComputeBondQuerySchema :: "ComputeBondQuery \<Rightarrow> bool" where
  "ComputeBondQuerySchema q \<longleftrightarrow>
     optional (\<lambda>s. s \<in> {''reserved'', ''locked'', ''released'', ''slashed'', ''cancelled'', ''expired''}) (cq_status q) \<and>
     optional (\<lambda>s. s \<in> {''ionet'', ''akash''}) (cq_provider q) \<and> 1 \<le> cq_limit q \<and> cq_limit q \<le> 200"

definition get_agent_bonds :: "task_row list \<Rightarrow> bond_row list \<Rightarrow> string \<Rightarrow> ComputeBondQuery \<Rightarrow> (string \<times> bond_row list) http" where
  "get_agent_bonds tasks bonds did q =
     (if \<not> hex_id_ok did then Bad400 ''invalid_did''
      else if \<not> ComputeBondQuerySchema q then Bad400 ''invalid_query''
      else let rows = take 200 (sort_key (\<lambda>t. (- (case tk_updated t of None \<Rightarrow> tk_created t | Some u \<Rightarrow> u), map unat (tk_id t)))
              (filter (\<lambda>t. tk_agent t = Some (from_hex did)) tasks));
            taskIds = map (\<lambda>t. did_hex (tk_id t)) rows in
        if taskIds = [] then Ok200 (did, [])
        else Ok200 (did, listPersistedComputeBonds bonds \<lparr>lq_taskId = None, lq_taskIds = Some taskIds, lq_status = cq_status q,
          lq_provider = cq_provider q, lq_limit = Some (int (cq_limit q))\<rparr>))"

definition get_task_bonds :: "bond_row list \<Rightarrow> string \<Rightarrow> ComputeBondQuery \<Rightarrow> (string \<times> bond_row list) http" where
  "get_task_bonds bonds task_id q =
     (if \<not> hex_id_ok task_id then Bad400 ''invalid_task_id''
      else if \<not> ComputeBondQuerySchema q then Bad400 ''invalid_query''
      else Ok200 (task_id, listPersistedComputeBonds bonds \<lparr>lq_taskId = Some task_id, lq_taskIds = None, lq_status = cq_status q,
        lq_provider = cq_provider q, lq_limit = Some (int (cq_limit q))\<rparr>))"

subsection \<open>The websocket stream\<close>

record ws_state =
  ws_capabilities :: "nat list option"
  ws_events :: "string list option"
  ws_lastPoll :: int

datatype ws_message = Subscribe "nat list option" "string list option" | Unsubscribe

datatype ws_error = InvalidMessage | InvalidJson

datatype frame = Subscribed "nat list option" "string list option" | Unsubscribed | ErrorFrame ws_error
  | StatusChange agent_row | NewTask task_row | TaskMoved string task_row

definition on_message :: "ws_error + ws_message \<Rightarrow> ws_state \<Rightarrow> ws_state \<times> frame" where
  "on_message m s = (case m of
     Inl e \<Rightarrow> (s, ErrorFrame e)
   | Inr (Subscribe caps evs) \<Rightarrow> (s\<lparr>ws_capabilities := caps, ws_events := evs\<rparr>, Subscribed caps evs)
   | Inr Unsubscribe \<Rightarrow> (s\<lparr>ws_capabilities := None, ws_events := None\<rparr>, Unsubscribed))"

definition wants :: "ws_state \<Rightarrow> string \<Rightarrow> bool" where
  "wants s e = (case ws_events s of None \<Rightarrow> True | Some es \<Rightarrow> e \<in> set es)"

text \<open>\<open>ORDER BY \<dots> DESC LIMIT 50\<close>\<close>

definition newest50 :: "('a \<Rightarrow> int) \<Rightarrow> 'a list \<Rightarrow> 'a list" where
  "newest50 time rows = take 50 (sort_key (\<lambda>r. - time r) rows)"

definition moved_since :: "int \<Rightarrow> string \<Rightarrow> task_row \<Rightarrow> bool" where
  "moved_since sinceUnix st t \<longleftrightarrow> tk_status t = Some st \<and> (case tk_updated t of None \<Rightarrow> False | Some u \<Rightarrow> u > sinceUnix)"

definition updated_at :: "task_row \<Rightarrow> int" where
  "updated_at t = (case tk_updated t of None \<Rightarrow> 0 | Some u \<Rightarrow> u)"

definition status_frames :: "agent_row list \<Rightarrow> int \<Rightarrow> ws_state \<Rightarrow> frame list" where
  "status_frames agents sinceUnix s = (if wants s ''status_change''
     then map StatusChange (newest50 ag_last_active (filter (\<lambda>a. ag_last_active a > sinceUnix) agents)) else [])"

definition task_frames :: "task_row list \<Rightarrow> int \<Rightarrow> ws_state \<Rightarrow> frame list" where
  "task_frames tasks sinceUnix s = (if wants s ''new_task''
     then map NewTask (newest50 tk_created (filter (\<lambda>t. tk_created t > sinceUnix) tasks)) else [])"

definition transitions :: "ws_state \<Rightarrow> (string \<times> string) list" where
  "transitions s = (if wants s ''task_released'' then [(''task_released'', ''released'')] else [])
     @ (if wants s ''task_disputed'' then [(''task_disputed'', ''disputed'')] else [])"

definition moved_frames :: "task_row list \<Rightarrow> int \<Rightarrow> string \<times> string \<Rightarrow> frame list" where
  "moved_frames tasks sinceUnix tr = (case tr of (ty, st) \<Rightarrow> map (TaskMoved ty) (newest50 updated_at (filter (moved_since sinceUnix st) tasks)))"

text \<open>One tick of the interval at time \<open>now\<close> (milliseconds). The four queries see the views as they are then; \<open>answered\<close> is how
  many of the queries were answered before the database failed, if it did: the error is only logged.\<close>

definition ws_poll :: "agent_row list \<Rightarrow> task_row list \<Rightarrow> nat \<Rightarrow> int \<Rightarrow> ws_state \<Rightarrow> ws_state \<times> frame list" where
  "ws_poll agents tasks answered now s =
     (if ws_capabilities s = None \<and> ws_events s = None then (s, [])
      else let sinceUnix = ws_lastPoll s div 1000 in
        (s\<lparr>ws_lastPoll := now\<rparr>,
         concat (take answered ([status_frames agents sinceUnix s, task_frames tasks sinceUnix s] @ map (moved_frames tasks sinceUnix) (transitions s)))))"

subsection \<open>The contract of a paged search\<close>

locale paged_search =
  fixes page_of :: "nat \<Rightarrow> 'a list" and everything :: "'a list" and limit :: nat
  assumes page_of_eq: "1 \<le> p \<Longrightarrow> page_of p = take limit (drop ((p - 1) * limit) everything)"
begin

lemma page_bounded: "1 \<le> p \<Longrightarrow> length (page_of p) \<le> limit"
  by (simp add: page_of_eq)

lemma pages_prefix: "concat (map page_of [1..<Suc n]) = take (n * limit) everything"
proof (induction n)
  case (Suc n)
  have "concat (map page_of [1..<Suc (Suc n)]) = concat (map page_of [1..<Suc n]) @ page_of (Suc n)" by simp
  also have "\<dots> = take (n * limit) everything @ take limit (drop (n * limit) everything)"
    using Suc page_of_eq [of "Suc n"] by simp
  also have "\<dots> = take (Suc n * limit) everything" by (simp add: take_add [symmetric] add.commute)
  finally show ?case .
qed simp

lemma pages_complete: "length everything \<le> n * limit \<Longrightarrow> concat (map page_of [1..<Suc n]) = everything"
  by (simp only: pages_prefix) simp

lemma pages_disjoint:
  assumes "distinct everything" and "1 \<le> p" and "p < q"
  shows "set (page_of p) \<inter> set (page_of q) = {}"
proof -
  have le: "(p - 1) * limit + limit \<le> (q - 1) * limit"
    using assms(2,3) by (metis Nat.le_diff_conv2 Suc_eq_plus1 Suc_leI add.commute add_leD2 diff_Suc_1 le_add_diff_inverse2 mult.commute mult_Suc_right mult_le_mono1 order_less_imp_le)
  have "set (page_of p) \<subseteq> set (take ((q - 1) * limit) everything)"
  proof -
    have "page_of p = take limit (drop ((p - 1) * limit) (take ((q - 1) * limit) everything))"
      using le assms(2) by (simp add: page_of_eq drop_take min_def)
    then show ?thesis by (metis set_drop_subset set_take_subset subset_trans)
  qed
  moreover have "set (page_of q) \<subseteq> set (drop ((q - 1) * limit) everything)"
    using assms(2,3) by (simp add: page_of_eq set_take_subset)
  moreover have "set (take ((q - 1) * limit) everything) \<inter> set (drop ((q - 1) * limit) everything) = {}"
    using assms(1) by (rule set_take_disj_set_drop_if_distinct) simp
  ultimately show ?thesis by blast
qed

end

subsection \<open>What the statements select\<close>

definition agent_wanted :: "numeric_op \<Rightarrow> AgentsQuery \<Rightarrow> agent_row \<Rightarrow> bool" where
  "agent_wanted op q r \<longleftrightarrow>
     optional (\<lambda>s. ag_status r = s) (aq_status q) \<and> optional (mask_has op (ag_mask r)) (aq_capability q) \<and>
     optional (\<lambda>n. int n \<le> ag_reputation r) (aq_min_reputation q) \<and>
     optional (\<lambda>s. \<exists>k. ag_stake r = Some k \<and> read_nat s \<le> k) (aq_min_stake q)"

lemmas where_defs = push_if_def push_def arg_def optional_def nth_append

lemma agents_where_holds:
  assumes "agents_where q = (cs, vs, idx)"
  shows "list_all (agent_holds op (vs @ extra) r) cs \<longleftrightarrow> agent_wanted op q r"
proof -
  obtain cap rep stake pm st so p l where q: "q = \<lparr>aq_capability = cap, aq_min_reputation = rep, aq_min_stake = stake, aq_price_max = pm,
      aq_status = st, aq_sort = so, aq_page = p, aq_limit = l\<rparr>" by (cases q) auto
  show ?thesis
    using assms unfolding q agents_where_def agent_wanted_def
    by (cases cap; cases rep; cases stake; cases st; cases "ag_stake r") (auto simp: where_defs num_of_def)
qed

lemma agents_where_idx: "agents_where q = (cs, vs, idx) \<Longrightarrow> idx = Suc (length vs)"
  by (auto simp: agents_where_def push_if_def push_def split: option.splits)

lemma agents_where_mask: "agents_where q = (cs, vs, idx) \<Longrightarrow> uses_mask cs \<longleftrightarrow> aq_capability q \<noteq> None"
  by (auto simp: agents_where_def push_if_def push_def uses_mask_def split: option.splits)

lemma window_last: "window (vs @ [VNum l, VNum off]) (Suc (length vs)) (Suc (Suc (length vs))) rows = take l (drop off rows)"
  by (simp add: window_def arg_def num_of_def nth_append)

definition runnable :: "numeric_op \<Rightarrow> AgentsQuery \<Rightarrow> bool" where
  "runnable op q \<longleftrightarrow> (aq_capability q = None \<or> op \<noteq> None) \<and> sort_column q = ''reputation_composite''"

definition agents_found :: "numeric_op \<Rightarrow> agent_row list \<Rightarrow> AgentsQuery \<Rightarrow> agent_row list" where
  "agents_found op table q = sort_key agent_order (filter (agent_wanted op q) table)"

lemma get_agents_result:
  assumes "AgentsQuerySchema q" and "runnable op q"
  shows "get_agents op table q = Ok200 \<lparr>rp_items = take (aq_limit q) (drop ((aq_page q - 1) * aq_limit q) (agents_found op table q)),
    rp_page = aq_page q, rp_limit = aq_limit q, rp_total = length (agents_found op table q)\<rparr>"
proof -
  obtain cs vs idx where w: "agents_where q = (cs, vs, idx)" by (cases "agents_where q") auto
  have m: "matching_agents op table cs (vs @ extra) = Inr (filter (agent_wanted op q) table)" for extra
    using assms(2) agents_where_mask [OF w] agents_where_holds [OF w, of op extra] by (auto simp: matching_agents_def runnable_def)
  have o: "ordered_agents (sort_column q) rows = Inr (sort_key agent_order rows)" for rows
    using assms(2) by (simp add: ordered_agents_def runnable_def agent_columns_def)
  show ?thesis using assms(1) m [of "[]"]
    by (simp add: get_agents_def w m o agents_where_idx [OF w] window_last agents_found_def page_offset_def Let_def)
qed

definition agents_page :: "numeric_op \<Rightarrow> agent_row list \<Rightarrow> AgentsQuery \<Rightarrow> nat \<Rightarrow> agent_row list" where
  "agents_page op table q p = (case get_agents op table (q\<lparr>aq_page := p\<rparr>) of Ok200 r \<Rightarrow> rp_items r | _ \<Rightarrow> [])"

definition agents_listed :: "numeric_op \<Rightarrow> agent_row list \<Rightarrow> AgentsQuery \<Rightarrow> agent_row list" where
  "agents_listed op table q = (if AgentsQuerySchema (q\<lparr>aq_page := 1\<rparr>) \<and> runnable op q then agents_found op table q else [])"

lemma schema_page: "1 \<le> p \<Longrightarrow> AgentsQuerySchema (q\<lparr>aq_page := p\<rparr>) \<longleftrightarrow> AgentsQuerySchema (q\<lparr>aq_page := 1\<rparr>)"
  by (simp add: AgentsQuerySchema_def paging_ok_def)

lemma runnable_page [simp]: "runnable op (q\<lparr>aq_page := p\<rparr>) = runnable op q"
  by (simp add: runnable_def sort_column_def)

lemma wanted_page [simp]: "agent_wanted op (q\<lparr>aq_page := p\<rparr>) = agent_wanted op q"
  by (simp add: agent_wanted_def fun_eq_iff)

lemma found_page [simp]: "agents_found op table (q\<lparr>aq_page := p\<rparr>) = agents_found op table q"
  by (simp add: agents_found_def)

lemma get_agents_fails:
  assumes "\<not> AgentsQuerySchema q \<or> \<not> runnable op q"
  shows "\<exists>e. get_agents op table q = Bad400 e \<or> get_agents op table q = Fail500 e"
proof (cases "AgentsQuerySchema q")
  case True
  obtain cs vs idx where w: "agents_where q = (cs, vs, idx)" by (cases "agents_where q") auto
  have col: "sort_column q \<noteq> ''reputation_composite'' \<Longrightarrow> sort_column q \<notin> set agent_columns"
    using True by (auto simp: sort_column_def SORT_MAP_def agent_columns_def AgentsQuerySchema_def optional_def Let_def split: option.splits if_splits)
  from assms True have "aq_capability q \<noteq> None \<and> op = None \<or> sort_column q \<noteq> ''reputation_composite''"
    by (auto simp: runnable_def)
  then show ?thesis
    using True agents_where_mask [OF w] col
    by (auto simp: get_agents_def w matching_agents_def ordered_agents_def Let_def)
qed (simp add: get_agents_def)

interpretation agent_pages: paged_search "agents_page op table q" "agents_listed op table q" "aq_limit q"
  for op table q
proof
  fix p :: nat assume p: "1 \<le> p"
  show "agents_page op table q p = take (aq_limit q) (drop ((p - 1) * aq_limit q) (agents_listed op table q))"
  proof (cases "AgentsQuerySchema (q\<lparr>aq_page := p\<rparr>) \<and> runnable op q")
    case True
    with p schema_page [OF p, of q] show ?thesis
      using get_agents_result [of "q\<lparr>aq_page := p\<rparr>" op table] by (simp add: agents_page_def agents_listed_def)
  next
    case False
    with get_agents_fails [of "q\<lparr>aq_page := p\<rparr>" op table] have "agents_page op table q p = []" by (auto simp: agents_page_def)
    with False schema_page [OF p, of q] show ?thesis by (auto simp: agents_listed_def)
  qed
qed

definition task_wanted :: "numeric_op \<Rightarrow> agent_row list \<Rightarrow> TasksQuery \<Rightarrow> task_row \<Rightarrow> bool" where
  "task_wanted op agents q t \<longleftrightarrow>
     optional (\<lambda>ss. \<exists>s. tk_status t = Some s \<and> s \<in> set ss) (wanted_statuses (tq_status q)) \<and>
     optional (\<lambda>n. mask_has op (joined_mask agents t) (2 ^ n)) (tq_capability q) \<and>
     optional (\<lambda>s. \<exists>k. tk_reward t = Some k \<and> read_nat s \<le> k) (tq_min_reward q)"

lemma tasks_where_holds:
  assumes "tasks_where q = (cs, vs, idx)"
  shows "list_all (task_holds op agents (vs @ extra) t) cs \<longleftrightarrow> task_wanted op agents q t"
  using assms unfolding tasks_where_def task_wanted_def
  by (cases "tq_capability q"; cases "wanted_statuses (tq_status q)"; cases "tq_min_reward q"; cases "tk_status t"; cases "tk_reward t")
    (auto simp: where_defs)

lemma tasks_where_idx: "tasks_where q = (cs, vs, idx) \<Longrightarrow> idx = Suc (length vs)"
  by (auto simp: tasks_where_def push_if_def push_def split: option.splits)

lemma tasks_where_mask:
  "tasks_where q = (cs, vs, idx) \<Longrightarrow> list_ex (\<lambda>c. case c of TMaskHas _ \<Rightarrow> True | _ \<Rightarrow> False) cs \<longleftrightarrow> tq_capability q \<noteq> None"
  by (auto simp: tasks_where_def push_if_def push_def split: option.splits)

definition tasks_found :: "numeric_op \<Rightarrow> agent_row list \<Rightarrow> task_row list \<Rightarrow> TasksQuery \<Rightarrow> task_row list" where
  "tasks_found op agents tasks q = sort_key task_order (filter (task_wanted op agents q) tasks)"

lemma get_tasks_result:
  assumes "TasksQuerySchema q" and "tq_capability q = None \<or> op \<noteq> None"
  shows "get_tasks op agents tasks bonds q = Ok200 \<lparr>rp_items = with_bonds bonds (\<lambda>t. coalesce (tk_mask t) (joined_mask agents t))
      (take (tq_limit q) (drop ((tq_page q - 1) * tq_limit q) (tasks_found op agents tasks q))),
    rp_page = tq_page q, rp_limit = tq_limit q, rp_total = length (tasks_found op agents tasks q)\<rparr>"
proof -
  obtain cs vs idx where w: "tasks_where q = (cs, vs, idx)" by (cases "tasks_where q") auto
  have m: "matching_tasks op agents tasks cs (vs @ extra) = Inr (filter (task_wanted op agents q) tasks)" for extra
    using assms(2) tasks_where_mask [OF w] tasks_where_holds [OF w, of op agents extra] by (auto simp: matching_tasks_def)
  show ?thesis using assms(1) m [of "[]"]
    by (simp add: get_tasks_def w m tasks_where_idx [OF w] window_last tasks_found_def page_offset_def Let_def)
qed

lemma rows_with_bonds [simp]: "map it_row (with_bonds bonds f rows) = rows"
  by (simp add: with_bonds_def Let_def comp_def)

definition tasks_page :: "numeric_op \<Rightarrow> agent_row list \<Rightarrow> task_row list \<Rightarrow> bond_row list \<Rightarrow> TasksQuery \<Rightarrow> nat \<Rightarrow> task_row list" where
  "tasks_page op agents tasks bonds q p = (case get_tasks op agents tasks bonds (q\<lparr>tq_page := p\<rparr>) of Ok200 r \<Rightarrow> map it_row (rp_items r) | _ \<Rightarrow> [])"

definition tasks_listed :: "numeric_op \<Rightarrow> agent_row list \<Rightarrow> task_row list \<Rightarrow> TasksQuery \<Rightarrow> task_row list" where
  "tasks_listed op agents tasks q =
     (if TasksQuerySchema (q\<lparr>tq_page := 1\<rparr>) \<and> (tq_capability q = None \<or> op \<noteq> None) then tasks_found op agents tasks q else [])"

lemma tasks_found_page [simp]: "tasks_found op agents tasks (q\<lparr>tq_page := p\<rparr>) = tasks_found op agents tasks q"
  by (simp add: tasks_found_def task_wanted_def [abs_def])

lemma get_tasks_fails:
  assumes "\<not> TasksQuerySchema q \<or> \<not> (tq_capability q = None \<or> op \<noteq> None)"
  shows "\<exists>e. get_tasks op agents tasks bonds q = Bad400 e \<or> get_tasks op agents tasks bonds q = Fail500 e"
proof -
  obtain cs vs idx where w: "tasks_where q = (cs, vs, idx)" by (cases "tasks_where q") auto
  with assms show ?thesis using tasks_where_mask [OF w] by (auto simp: get_tasks_def w matching_tasks_def)
qed

interpretation task_pages: paged_search "tasks_page op agents tasks bonds q" "tasks_listed op agents tasks q" "tq_limit q"
  for op agents tasks bonds q
proof
  fix p :: nat assume p: "1 \<le> p"
  then have sch: "TasksQuerySchema (q\<lparr>tq_page := p\<rparr>) \<longleftrightarrow> TasksQuerySchema (q\<lparr>tq_page := 1\<rparr>)"
    by (simp add: TasksQuerySchema_def paging_ok_def)
  show "tasks_page op agents tasks bonds q p = take (tq_limit q) (drop ((p - 1) * tq_limit q) (tasks_listed op agents tasks q))"
  proof (cases "TasksQuerySchema (q\<lparr>tq_page := p\<rparr>) \<and> (tq_capability q = None \<or> op \<noteq> None)")
    case True
    with sch show ?thesis
      using get_tasks_result [of "q\<lparr>tq_page := p\<rparr>" op agents tasks bonds] by (simp add: tasks_page_def tasks_listed_def)
  next
    case False
    with get_tasks_fails [of "q\<lparr>tq_page := p\<rparr>" op agents tasks bonds] have "tasks_page op agents tasks bonds q p = []"
      by (auto simp: tasks_page_def)
    with False sch show ?thesis by (auto simp: tasks_listed_def)
  qed
qed

lemma group_bonds_get:
  assumes "t \<noteq> []"
  shows "map_get (group_bonds rows g) t = (case (map_get g t, filter (\<lambda>b. bd_task b = Some t) rows) of
     (None, []) \<Rightarrow> None | (None, mine) \<Rightarrow> Some mine | (Some e, mine) \<Rightarrow> Some (e @ mine))"
proof (induction rows arbitrary: g)
  case Nil
  then show ?case by (simp split: option.split)
next
  case (Cons row rows)
  show ?case
  proof (cases "nonempty (bd_task row)")
    case None
    then have "bd_task row \<noteq> Some t" using assms by (cases t) (auto simp: nonempty_def)
    with None Cons.IH show ?thesis by simp
  next
    case (Some u)
    then have u: "bd_task row = Some u" by (auto simp: nonempty_def split: option.splits list.splits)
    show ?thesis
    proof (cases "u = t")
      case True
      with Some u Cons.IH show ?thesis by (cases "map_get g t") (auto simp: map_get_set split: list.split)
    next
      case False
      with Some u Cons.IH show ?thesis by (cases "map_get g u") (auto simp: map_get_set)
    qed
  qed
qed

definition bonds_of :: "bond_row list \<Rightarrow> string \<Rightarrow> bond_row list" where
  "bonds_of table t = sort_bonds (filter (\<lambda>b. bd_task b = Some t) table)"

lemma loaded_bonds:
  assumes "t \<in> set ids" and "t \<noteq> []"
  shows "(case map_get (loadComputeBondMapForTaskIds table ids) t of None \<Rightarrow> [] | Some bs \<Rightarrow> bs) = bonds_of table t"
proof -
  have ne: "ids \<noteq> []" using assms(1) by auto
  have "filter (\<lambda>b. bd_task b = Some t) (sort_bonds (filter (\<lambda>b. case bd_task b of None \<Rightarrow> False | Some t \<Rightarrow> t \<in> set (remdups ids)) table)) = bonds_of table t"
    unfolding bonds_of_def sort_bonds_def filter_sort filter_filter using assms(1)
    by (intro arg_cong [where f = "sort_key _"] filter_cong) auto
  moreover have "map_get [] t = (None :: bond_row list option)" by (simp add: map_get_def)
  ultimately show ?thesis using ne by (simp add: loadComputeBondMapForTaskIds_def group_bonds_get [OF assms(2)] split: list.split)
qed

lemma with_bonds_item:
  assumes "it \<in> set (with_bonds bonds f rows)" and "tk_id (it_row it) \<noteq> []"
  shows "it_bonds it = bonds_of bonds (did_hex (tk_id (it_row it)))"
proof -
  from assms(1) obtain t where t: "t \<in> set rows" "it_row it = t"
    "it_bonds it = (case map_get (loadComputeBondMapForTaskIds bonds (map (\<lambda>t. did_hex (tk_id t)) rows)) (did_hex (tk_id t)) of None \<Rightarrow> [] | Some bs \<Rightarrow> bs)"
    by (auto simp: with_bonds_def Let_def)
  have "did_hex (tk_id t) \<noteq> []" using assms(2) t(2) by (cases "tk_id t") (simp_all add: did_hex_def)
  then show ?thesis using t loaded_bonds [of "did_hex (tk_id t)" "map (\<lambda>t. did_hex (tk_id t)) rows" bonds] by simp
qed

subsection \<open>Properties\<close>


definition sample_agent :: "nat \<Rightarrow> agent_row" where
  "sample_agent n = \<lparr>ag_did = [of_nat n], ag_operator = None, ag_mask = None, ag_stake = Some n, ag_reputation = int (n mod 3),
     ag_status = ''active'', ag_last_active = 0\<rparr>"

definition sample_agents_query :: AgentsQuery where
  "sample_agents_query = \<lparr>aq_capability = None, aq_min_reputation = Some 1, aq_min_stake = None, aq_price_max = None,
     aq_status = Some ''active'', aq_sort = None, aq_page = 1, aq_limit = 2\<rparr>"


text \<open>
  Two of the options of the agent search never work: a query of the schema that sorts by price or by jobs asks for a column
  the view does not have, and one with a capability needs an operator \<open>&\<close> on \<open>numeric\<close>; where the database has none, both
  are answered with a server error. The upper price limit changes nothing.
\<close>

theorem agent_search_options_fail:
  assumes "AgentsQuerySchema q"
  shows "(aq_sort q \<in> {Some ''price'', Some ''jobs_completed''} \<longrightarrow> (\<exists>e. get_agents op table q = Fail500 e)) \<and>
    (aq_capability q \<noteq> None \<longrightarrow> get_agents None table q = Fail500 no_operator) \<and>
    (Decimal pm \<longrightarrow> get_agents op table (q\<lparr>aq_price_max := Some pm\<rparr>) = get_agents op table q)"
proof (intro conjI impI)
  assume "aq_sort q \<in> {Some ''price'', Some ''jobs_completed''}"
  then have "\<not> runnable op q" by (auto simp: runnable_def sort_column_def SORT_MAP_def)
  then obtain e where "get_agents op table q = Bad400 e \<or> get_agents op table q = Fail500 e" using get_agents_fails by blast
  moreover have "get_agents op table q \<noteq> Bad400 e" for e
    using assms by (auto simp: get_agents_def Let_def split: prod.splits sum.splits)
  ultimately show "\<exists>e. get_agents op table q = Fail500 e" by blast
next
  assume "aq_capability q \<noteq> None"
  moreover obtain cs vs idx where w: "agents_where q = (cs, vs, idx)" by (cases "agents_where q") auto
  ultimately show "get_agents None table q = Fail500 no_operator"
    using assms agents_where_mask [OF w] by (simp add: get_agents_def w matching_agents_def)
next
  assume "Decimal pm"
  then have "AgentsQuerySchema (q\<lparr>aq_price_max := Some pm\<rparr>)" using assms by (simp add: AgentsQuerySchema_def optional_def)
  moreover have "agents_where (q\<lparr>aq_price_max := Some pm\<rparr>) = agents_where q" by (simp add: agents_where_def)
  moreover have "sort_column (q\<lparr>aq_price_max := Some pm\<rparr>) = sort_column q" by (simp add: sort_column_def)
  ultimately show "get_agents op table (q\<lparr>aq_price_max := Some pm\<rparr>) = get_agents op table q"
    using assms by (cases "agents_where q") (simp add: get_agents_def Let_def split: sum.split)
qed

theorem agent_search_options_fail_witness:
  "\<exists>e. get_agents None [] (sample_agents_query\<lparr>aq_sort := Some ''price''\<rparr>) = Fail500 e"
proof -
  have "AgentsQuerySchema (sample_agents_query\<lparr>aq_sort := Some ''price''\<rparr>)"
    by (simp add: AgentsQuerySchema_def sample_agents_query_def optional_def paging_ok_def)
  from agent_search_options_fail [OF this, of None "[]"] show ?thesis by simp
qed

text \<open>
  The search for tasks is complete too, and every task it lists carries all its compute bonds, newest first: for a query of
  the schema without capability the pages put together are the tasks that match the filters, newest first, and the bonds of an item
  are all the stored bonds of its id.
\<close>

theorem task_search_complete:
  assumes "TasksQuerySchema q" and "tq_capability q = None"
    and "length (filter (task_wanted op agents q) tasks) \<le> n * tq_limit q"
  shows "concat (map (tasks_page op agents tasks bonds q) [1..<Suc n]) = sort_key task_order (filter (task_wanted op agents q) tasks) \<and>
    (\<forall>p r it. 1 \<le> p \<and> get_tasks op agents tasks bonds (q\<lparr>tq_page := p\<rparr>) = Ok200 r \<and> it \<in> set (rp_items r) \<and> tk_id (it_row it) \<noteq> [] \<longrightarrow>
       it_bonds it = bonds_of bonds (did_hex (tk_id (it_row it))))"
proof -
  have sch: "TasksQuerySchema (q\<lparr>tq_page := p\<rparr>)" if "1 \<le> p" for p
    using assms(1) that by (simp add: TasksQuerySchema_def paging_ok_def)
  have listed: "tasks_listed op agents tasks q = sort_key task_order (filter (task_wanted op agents q) tasks)"
    using assms(2) sch [of 1] by (simp add: tasks_listed_def tasks_found_def)
  have "concat (map (tasks_page op agents tasks bonds q) [1..<Suc n]) = tasks_listed op agents tasks q"
    using assms(3) by (intro task_pages.pages_complete) (simp add: listed)
  moreover have "it_bonds it = bonds_of bonds (did_hex (tk_id (it_row it)))"
    if "1 \<le> p" "get_tasks op agents tasks bonds (q\<lparr>tq_page := p\<rparr>) = Ok200 r" "it \<in> set (rp_items r)" "tk_id (it_row it) \<noteq> []" for p r it
    using get_tasks_result [OF sch [OF that(1)], of op agents tasks bonds] assms(2) that by (auto intro: with_bonds_item)
  ultimately show ?thesis unfolding listed by blast
qed

definition sample_task_row :: "nat \<Rightarrow> task_row" where
  "sample_task_row n = \<lparr>tk_id = [of_nat n], tk_creator = None, tk_agent = None, tk_status = Some ''funded'', tk_reward = Some n, tk_mask = None,
     tk_created = int n, tk_deadline = None, tk_updated = None\<rparr>"

definition sample_tasks_query :: TasksQuery where
  "sample_tasks_query = \<lparr>tq_capability = None, tq_status = Some ''funded, released'', tq_min_reward = Some ''2'', tq_page = 1, tq_limit = 2\<rparr>"

theorem task_search_complete_witness:
  "concat (map (tasks_page None [] (map sample_task_row [1, 2, 3]) [] sample_tasks_query) [1..<Suc 2])
     = sort_key task_order (filter (task_wanted None [] sample_tasks_query) (map sample_task_row [1, 2, 3]))"
proof -
  have "Decimal ''2''" by code_simp
  then have "TasksQuerySchema sample_tasks_query" by (simp add: TasksQuerySchema_def sample_tasks_query_def optional_def paging_ok_def)
  moreover have "length (filter (task_wanted None [] sample_tasks_query) (map sample_task_row [1, 2, 3])) \<le> 2 * tq_limit sample_tasks_query"
    by (rule order_trans [OF length_filter_le]) (simp add: sample_tasks_query_def)
  ultimately show ?thesis using task_search_complete [of sample_tasks_query None "[]" _ 2 "[]"] by (simp add: sample_tasks_query_def)
qed

subsection \<open>Late rows of the stream\<close>

datatype ws_step = Message "ws_error + ws_message" | Tick "agent_row list" "task_row list" nat int

definition ws_apply :: "ws_step \<Rightarrow> ws_state \<Rightarrow> ws_state \<times> frame list" where
  "ws_apply st s = (case st of
     Message m \<Rightarrow> (case on_message m s of (s', f) \<Rightarrow> (s', [f]))
   | Tick agents tasks answered now \<Rightarrow> ws_poll agents tasks answered now s)"

fun ws_run :: "ws_step list \<Rightarrow> ws_state \<Rightarrow> frame list" where
  "ws_run [] s = []"
| "ws_run (st # sts) s = (case ws_apply st s of (s', fs) \<Rightarrow> fs @ ws_run sts s')"

text \<open>The clock does not run backwards.\<close>

fun clock_ok :: "int \<Rightarrow> ws_step list \<Rightarrow> bool" where
  "clock_ok t [] = True"
| "clock_ok t (Message m # sts) = clock_ok t sts"
| "clock_ok t (Tick agents tasks answered now # sts) = (t \<le> now \<and> clock_ok now sts)"

lemma clock_ok_mono: "clock_ok t sts \<Longrightarrow> t' \<le> t \<Longrightarrow> clock_ok t' sts"
  by (induction sts arbitrary: t t' rule: clock_ok.induct) auto

lemma set_newest50: "x \<in> set (newest50 f xs) \<Longrightarrow> x \<in> set xs"
  by (auto simp: newest50_def dest: in_set_takeD)

lemma poll_new_task:
  assumes "NewTask t \<in> set (snd (ws_poll agents tasks answered now s))"
  shows "ws_lastPoll s div 1000 < tk_created t"
proof -
  let ?since = "ws_lastPoll s div 1000"
  from assms obtain fs where fs: "NewTask t \<in> set fs"
    "fs \<in> set (take answered ([status_frames agents ?since s, task_frames tasks ?since s] @ map (moved_frames tasks ?since) (transitions s)))"
    by (auto simp: ws_poll_def Let_def split: if_splits)
  from fs(2) have "fs \<in> {status_frames agents ?since s, task_frames tasks ?since s} \<union> moved_frames tasks ?since ` set (transitions s)"
    by (auto dest!: in_set_takeD)
  then have "fs = task_frames tasks ?since s" using fs(1) by (auto simp: status_frames_def moved_frames_def split: if_splits)
  with fs(1) show ?thesis by (auto simp: task_frames_def split: if_splits dest!: set_newest50)
qed

lemma apply_lastPoll:
  "ws_apply st s = (s', fs) \<Longrightarrow> clock_ok (ws_lastPoll s) (st # sts) \<Longrightarrow> ws_lastPoll s \<le> ws_lastPoll s' \<and> clock_ok (ws_lastPoll s') sts"
  by (cases st) (auto simp: ws_apply_def on_message_def ws_poll_def Let_def clock_ok_mono split: sum.splits ws_message.splits if_splits)

text \<open>
  A task whose creation time is not after the last poll is never announced on a connection: whatever the messages and the polls
  that follow, and whatever the views hold then. A row that reaches the view after the poll that covers its second, as every row
  does that is indexed with a delay, is therefore lost to the stream.
\<close>

theorem late_task_never_streamed:
  assumes "tk_created t \<le> ws_lastPoll s div 1000" and "clock_ok (ws_lastPoll s) steps"
  shows "NewTask t \<notin> set (ws_run steps s)"
  using assms
proof (induction steps arbitrary: s)
  case (Cons st steps)
  obtain s' fs where ap: "ws_apply st s = (s', fs)" by fastforce
  from apply_lastPoll [OF ap Cons.prems(2)] have mono: "ws_lastPoll s \<le> ws_lastPoll s'" and ok: "clock_ok (ws_lastPoll s') steps" by auto
  have "tk_created t \<le> ws_lastPoll s' div 1000" using Cons.prems(1) zdiv_mono1 [OF mono, of 1000] by simp
  then have "NewTask t \<notin> set (ws_run steps s')" using Cons.IH ok by blast
  moreover have "NewTask t \<notin> set fs"
  proof (cases st)
    case (Message m)
    with ap show ?thesis by (auto simp: ws_apply_def on_message_def split: sum.splits ws_message.splits)
  next
    case (Tick agents tasks answered now)
    with ap have "fs = snd (ws_poll agents tasks answered now s)" by (simp add: ws_apply_def)
    with poll_new_task [of t agents tasks answered now s] Cons.prems(1) show ?thesis by auto
  qed
  ultimately show ?case using ap by simp
qed simp

theorem late_task_never_streamed_witness:
  "NewTask (sample_task_row 3) \<notin> set (ws_run
     [Message (Inr (Subscribe None (Some [''new_task'']))), Tick [] [] 4 4000, Tick [] [sample_task_row 3] 4 9000]
     \<lparr>ws_capabilities = None, ws_events = None, ws_lastPoll = 3000\<rparr>)"
  by (rule late_task_never_streamed) (simp_all add: sample_task_row_def)

text \<open>A subscription to everything, with no filter, is confirmed and then served nothing.\<close>

lemma unfiltered_subscription_silent:
  "snd (ws_poll agents tasks answered now (fst (on_message (Inr (Subscribe None None)) s))) = []"
  by (simp add: on_message_def ws_poll_def)

text \<open>The bonds of a task are looked up by the text of the path: an id in capital letters passes the check but finds no bond
  stored under the lower-case text.\<close>

lemma listed_bond_task:
  assumes "lq_taskId f = Some (c # cs)" and "b \<in> set (listPersistedComputeBonds table f)"
  shows "bd_task b = Some (c # cs)"
  using assms
  by (auto simp: listPersistedComputeBonds_def bond_target_def nonempty_def push_def push_if_def arg_def sort_bonds_def Let_def
      dest!: in_set_takeD split: option.splits)

lemma capital_task_id_finds_nothing:
  assumes "hex_id_ok i" and "ComputeBondQuerySchema q" and "\<forall>b \<in> set bonds. bd_task b \<noteq> Some i"
  shows "get_task_bonds bonds i q = Ok200 (i, [])"
proof -
  obtain c cs where i: "i = c # cs" using assms(1) by (cases i) (auto simp: hex_id_ok_def)
  define f where "f = \<lparr>lq_taskId = Some i, lq_taskIds = None, lq_status = cq_status q, lq_provider = cq_provider q,
    lq_limit = Some (int (cq_limit q))\<rparr>"
  have "bd_task b = Some i" "b \<in> set bonds" if "b \<in> set (listPersistedComputeBonds bonds f)" for b
    using listed_bond_task [of f c cs b bonds] that i
    by (auto simp: f_def listPersistedComputeBonds_def sort_bonds_def Let_def dest!: in_set_takeD split: option.splits)
  then have "listPersistedComputeBonds bonds f = []" using assms(3) by (metis list.set_intros(1) neq_Nil_conv)
  then show ?thesis using assms(1,2) by (simp add: get_task_bonds_def f_def)
qed

end
