(* ===== verification/Portal_Settlement.thy ===== *)
theory Portal_Settlement
  imports X402_Settlement Proof_Gen
begin

text \<open>
  The settlement helpers of the portal (\<open>packages/sdk-ui/src/settlement.ts\<close>): hex and field-element
  conversions, the derivation of proof keys, validation of a task witness, the request to the proof generation service,
  and the readiness report. Strings are their UTF-8 bytes, so \<open>TextEncoder\<close> only changes the type; \<open>TextDecoder\<close>
  drops a byte order mark (bytes that are not UTF-8 are kept here, where it puts a replacement character). SHA-256 is a
  parameter.
\<close>

subsection \<open>Bytes\<close>

definition TASK_COMPLETION_CIRCUIT_ID :: string where
  "TASK_COMPLETION_CIRCUIT_ID = ''task_completion.v1''"

definition TASK_COMPLETION_CIRCUIT_LABEL :: string where
  "TASK_COMPLETION_CIRCUIT_LABEL = ''task_completion_v1''"

definition TASK_COMPLETION_PUBLIC_INPUTS :: "string list" where
  "TASK_COMPLETION_PUBLIC_INPUTS = [''task_hash'', ''result_hash'', ''deadline'', ''submitted_at'', ''criteria_root'']"

definition text_decode :: "bytes \<Rightarrow> string" where
  "text_decode bs = map (\<lambda>b. char_of (unat b)) (if startsWith bs [0xEF, 0xBB, 0xBF] then drop 3 bs else bs)"

datatype chunk = CBytes bytes | CText string

definition chunk_bytes :: "chunk \<Rightarrow> bytes" where
  "chunk_bytes c = (case c of CText s \<Rightarrow> text_encode s | CBytes b \<Rightarrow> b)"

text \<open>\<open>out.set(chunk, offset)\<close> for each chunk in turn, on a zeroed array of the sum of the lengths.\<close>

definition array_set :: "bytes \<Rightarrow> bytes \<Rightarrow> nat \<Rightarrow> bytes" where
  "array_set out src off = take off out @ src @ drop (off + length src) out"

fun set_chunks :: "bytes list \<Rightarrow> bytes \<Rightarrow> nat \<Rightarrow> bytes" where
  "set_chunks [] out off = out"
| "set_chunks (c # cs) out off = set_chunks cs (array_set out c off) (off + length c)"

definition concatBytes :: "chunk list \<Rightarrow> bytes" where
  "concatBytes chunks =
     (let encoded = map chunk_bytes chunks; len = foldl (\<lambda>n c. n + length c) 0 encoded in
      set_chunks encoded (replicate len 0) 0)"

definition bytesToHex_ui :: "bytes \<Rightarrow> string" where
  "bytesToHex_ui bs = concat (map (\<lambda>b. [hex_digit (unat b div 16), hex_digit (unat b mod 16)]) bs)"

text \<open>\<open>parseInt(h, 16)\<close> of a hexadecimal digit.\<close>

definition hex_digit_val :: "char \<Rightarrow> nat" where
  "hex_digit_val c = (let n = (of_char c :: nat) in if n < 58 then n - 48 else if n < 97 then n - 55 else n - 87)"

fun pair_bytes :: "string \<Rightarrow> bytes" where
  "pair_bytes (a # b # rest) = of_nat (16 * hex_digit_val a + hex_digit_val b) # pair_bytes rest"
| "pair_bytes _ = []"

definition strip_0x :: "string \<Rightarrow> string" where
  "strip_0x hex = (if startsWith hex ''0x'' then drop 2 hex else hex)"

definition hexToBytes_ui :: "string \<Rightarrow> nat option \<Rightarrow> bytes js" where
  "hexToBytes_ui hex expectedBytes =
     (let normalized = strip_0x hex in
      if \<not> list_all is_hex normalized \<or> length normalized mod 2 \<noteq> 0
      then Inl ''hex value must contain an even number of hexadecimal characters''
      else let out = pair_bytes normalized in
        case expectedBytes of
          Some n \<Rightarrow> if length out \<noteq> n then Inl (''hex value must be '' @ show_nat n @ '' bytes'') else Inr out
        | None \<Rightarrow> Inr out)"

definition to0xHash32 :: "bytes \<Rightarrow> string js" where
  "to0xHash32 bs = (if length bs \<noteq> 32 then Inl ''hash must be 32 bytes'' else Inr (''0x'' @ bytesToHex_ui bs))"

datatype circuit_label = LText string | LBytes bytes

definition circuitLabelToString :: "circuit_label \<Rightarrow> string" where
  "circuitLabelToString lbl = (case lbl of
     LText s \<Rightarrow> rev (dropWhile (\<lambda>c. c = CHR 0x00) (rev s))
   | LBytes bs \<Rightarrow> text_decode (takeWhile (\<lambda>b. b \<noteq> 0) bs))"

definition paddedCircuitLabel :: "string \<Rightarrow> bytes" where
  "paddedCircuitLabel lbl = array_set (replicate 32 0) (take 32 (text_encode lbl)) 0"

subsection \<open>Field elements\<close>

text \<open>\<open>BigInt\<close> of a string: blanks around are dropped, nothing is zero, decimal digits may carry a sign, and the prefixes
  \<open>0x\<close>, \<open>0o\<close>, \<open>0b\<close> choose a base. \<open>syntax\<close> is the message of the syntax error.\<close>

definition is_blank :: "char \<Rightarrow> bool" where
  "is_blank c \<longleftrightarrow> (of_char c :: nat) \<in> {9, 10, 11, 12, 13, 32}"

definition trim_blanks :: "string \<Rightarrow> string" where
  "trim_blanks s = rev (dropWhile is_blank (rev (dropWhile is_blank s)))"

definition read_base :: "nat \<Rightarrow> string \<Rightarrow> int option" where
  "read_base b s = (if s \<noteq> [] \<and> list_all (\<lambda>c. is_hex c \<and> hex_digit_val c < b) s
     then Some (int (foldl (\<lambda>n c. n * b + hex_digit_val c) 0 s)) else None)"

definition prefixed :: "string \<Rightarrow> (nat \<times> string) option" where
  "prefixed s = (case s of
     z # x # rest \<Rightarrow> if z \<noteq> CHR ''0'' then None
       else if x \<in> {CHR ''x'', CHR ''X''} then Some (16, rest)
       else if x \<in> {CHR ''o'', CHR ''O''} then Some (8, rest)
       else if x \<in> {CHR ''b'', CHR ''B''} then Some (2, rest) else None
   | _ \<Rightarrow> None)"

definition parse_bigint :: "string \<Rightarrow> int option" where
  "parse_bigint s = (case s of
     [] \<Rightarrow> Some 0
   | c # cs \<Rightarrow>
      if c = CHR ''-'' then map_option uminus (read_base 10 cs)
      else if c = CHR ''+'' then read_base 10 cs
      else (case prefixed s of Some (b, rest) \<Rightarrow> read_base b rest | None \<Rightarrow> read_base 10 s))"

definition BigInt :: "string \<Rightarrow> string \<Rightarrow> int js" where
  "BigInt syntax s = (case parse_bigint (trim_blanks s) of Some n \<Rightarrow> Inr n | None \<Rightarrow> Inl syntax)"

text \<open>The loop over \<open>out[31]\<close> down to \<open>out[0]\<close>: the bytes written and what is left of the number.\<close>

fun write_bytes :: "nat \<Rightarrow> int \<Rightarrow> bytes \<Rightarrow> bytes \<times> int" where
  "write_bytes 0 cursor acc = (acc, cursor)"
| "write_bytes (Suc w) cursor acc = write_bytes w (drop_bit 8 cursor) (of_int (take_bit 8 cursor) # acc)"

definition fieldElementToBytes_ui :: "int \<Rightarrow> bytes js" where
  "fieldElementToBytes_ui n =
     (if n < 0 then Inl ''field element must be non-negative''
      else (case write_bytes 32 n [] of (out, cursor) \<Rightarrow>
        if cursor \<noteq> 0 then Inl ''field element exceeds 32 bytes'' else Inr out))"

definition fieldStringToBytes :: "string \<Rightarrow> string \<Rightarrow> bytes js" where
  "fieldStringToBytes syntax s = (case BigInt syntax s of Inl e \<Rightarrow> Inl e | Inr n \<Rightarrow> fieldElementToBytes_ui n)"

fun field_chunks :: "string \<Rightarrow> string list \<Rightarrow> bytes list js" where
  "field_chunks syntax [] = Inr []"
| "field_chunks syntax (s # ss) = (case fieldStringToBytes syntax s of
     Inl e \<Rightarrow> Inl e
   | Inr b \<Rightarrow> (case field_chunks syntax ss of Inl e \<Rightarrow> Inl e | Inr bs \<Rightarrow> Inr (b # bs)))"

definition point_bytes :: "string \<Rightarrow> string list \<Rightarrow> bytes js" where
  "point_bytes syntax ss = (case field_chunks syntax ss of Inl e \<Rightarrow> Inl e | Inr bs \<Rightarrow> Inr (concatBytes (map CBytes bs)))"

type_synonym g1_point = "string \<times> string \<times> string"
type_synonym g2_point = "(string \<times> string) \<times> (string \<times> string) \<times> (string \<times> string)"

definition g1ToBytes_ui :: "string \<Rightarrow> g1_point \<Rightarrow> bytes js" where
  "g1ToBytes_ui syntax p = (case p of (x, y, _) \<Rightarrow> point_bytes syntax [x, y])"

definition g2ToBytes_ui :: "string \<Rightarrow> g2_point \<Rightarrow> bytes js" where
  "g2ToBytes_ui syntax p = (case p of ((x0, x1), (y0, y1), _) \<Rightarrow> point_bytes syntax [x1, x0, y1, y0])"

record Groth16ProofLike =
  pi_a :: g1_point
  pi_b :: g2_point
  pi_c :: g1_point

record TaskMarketProofBytes =
  proofA :: bytes
  proofB :: bytes
  proofC :: bytes

definition groth16ProofToTaskMarketProofBytes :: "string \<Rightarrow> Groth16ProofLike \<Rightarrow> TaskMarketProofBytes js" where
  "groth16ProofToTaskMarketProofBytes syntax proof =
     (case g1ToBytes_ui syntax (pi_a proof) of Inl e \<Rightarrow> Inl e | Inr a \<Rightarrow>
      (case g2ToBytes_ui syntax (pi_b proof) of Inl e \<Rightarrow> Inl e | Inr b \<Rightarrow>
      (case g1ToBytes_ui syntax (pi_c proof) of Inl e \<Rightarrow> Inl e | Inr c \<Rightarrow>
        Inr \<lparr>proofA = a, proofB = b, proofC = c\<rparr>)))"

subsection \<open>Proof keys and requests\<close>

definition sha256Bytes :: "(bytes \<Rightarrow> bytes) \<Rightarrow> chunk list \<Rightarrow> bytes" where
  "sha256Bytes digest chunks = digest (concatBytes chunks)"

definition proof_key_chunks :: "bytes \<Rightarrow> bytes \<Rightarrow> string option \<Rightarrow> chunk list" where
  "proof_key_chunks tid rhash circuitId =
     [CText ''saep:task-completion:proof-key:v1'',
      CText (case circuitId of None \<Rightarrow> TASK_COMPLETION_CIRCUIT_ID | Some c \<Rightarrow> c), CBytes tid, CBytes rhash]"

definition deriveTaskCompletionProofKey :: "(bytes \<Rightarrow> bytes) \<Rightarrow> bytes \<Rightarrow> bytes \<Rightarrow> string option \<Rightarrow> bytes js" where
  "deriveTaskCompletionProofKey digest tid rhash circuitId =
     (if length tid \<noteq> 32 then Inl ''taskId must be 32 bytes''
      else if length rhash \<noteq> 32 then Inl ''resultHash must be 32 bytes''
      else Inr (sha256Bytes digest (proof_key_chunks tid rhash circuitId)))"

definition computeTaskCompletionVkId :: "(bytes \<Rightarrow> bytes) \<Rightarrow> string \<Rightarrow> bytes" where
  "computeTaskCompletionVkId digest lbl = sha256Bytes digest [CText lbl]"

record task_fields =
  tf_taskHash :: bytes
  tf_resultHash :: bytes
  tf_deadline :: int
  tf_submittedAt :: int
  tf_criteriaRoot :: bytes

definition buildTaskCompletionPublicInputs :: "task_fields \<Rightarrow> PublicInputs js" where
  "buildTaskCompletionPublicInputs task =
     (case to0xHash32 (tf_taskHash task) of Inl e \<Rightarrow> Inl e | Inr th \<Rightarrow>
      (case to0xHash32 (tf_resultHash task) of Inl e \<Rightarrow> Inl e | Inr rh \<Rightarrow>
      (case to0xHash32 (tf_criteriaRoot task) of Inl e \<Rightarrow> Inl e | Inr cr \<Rightarrow>
        Inr \<lparr>task_hash = th, result_hash = rh, deadline = show_int (tf_deadline task),
          submitted_at = show_int (tf_submittedAt task), criteria_root = cr\<rparr>)))"

definition buildTaskCompletionProveRequest :: "task_fields \<Rightarrow> PrivateInputs \<Rightarrow> ProveRequest js" where
  "buildTaskCompletionProveRequest task privateInputs =
     (case buildTaskCompletionPublicInputs task of
        Inl e \<Rightarrow> Inl e
      | Inr pub \<Rightarrow> Inr \<lparr>circuit_id = TASK_COMPLETION_CIRCUIT_ID, public_inputs = pub, private_inputs = privateInputs\<rparr>)"

subsection \<open>Validation of a witness\<close>

text \<open>A value of \<open>JSON.parse\<close>; the keys of an object are distinct (of repeated keys the parser keeps the last).\<close>

datatype json = UNull | UBool bool | UNum rat | UStr string | UArr "json list" | UObj "(string \<times> json) list"

text \<open>One round of the \<open>forEach\<close>: the errors so far and the entries kept.\<close>

fun check_entries :: "string \<Rightarrow> nat \<Rightarrow> json list \<Rightarrow> string list \<times> string list \<Rightarrow> string list \<times> string list" where
  "check_entries field i [] acc = acc"
| "check_entries field i (entry # es) (errors, out) =
     (case entry of
        UStr s \<Rightarrow> if Field s then check_entries field (Suc i) es (errors, out @ [s])
          else check_entries field (Suc i) es (errors @ [field @ ''['' @ show_nat i @ ''] must be a decimal or 0x-prefixed field element''], out)
      | _ \<Rightarrow> check_entries field (Suc i) es (errors @ [field @ ''['' @ show_nat i @ ''] must be a decimal or 0x-prefixed field element''], out))"

definition checkFieldArray :: "(string \<times> json) list \<Rightarrow> string \<Rightarrow> nat \<Rightarrow> string list \<Rightarrow> string list \<times> string list" where
  "checkFieldArray obj field len errors = (case map_of obj field of
     Some (UArr value) \<Rightarrow>
       check_entries field 0 value
         (if length value \<noteq> len then errors @ [field @ '' must contain '' @ show_nat len @ '' field elements''] else errors, [])
   | _ \<Rightarrow> (errors @ [field @ '' must be an array''], []))"

definition checked_salt :: "(string \<times> json) list \<Rightarrow> string" where
  "checked_salt obj = (case map_of obj ''salt'' of Some (UStr s) \<Rightarrow> if Field s then s else [] | _ \<Rightarrow> [])"

definition validateTaskCompletionPrivateInputs :: "json \<Rightarrow> string list + PrivateInputs" where
  "validateTaskCompletionPrivateInputs value = (case value of
     UObj obj \<Rightarrow>
       (case checkFieldArray obj ''task_preimage'' 16 [] of (e1, tp) \<Rightarrow>
        case checkFieldArray obj ''result_preimage'' 32 e1 of (e2, rp) \<Rightarrow>
        let s = checked_salt obj in
        case checkFieldArray obj ''criteria_satisfied'' 8 e2 of (e3, cs) \<Rightarrow>
        case checkFieldArray obj ''criteria_path'' 3 e3 of (e4, cp) \<Rightarrow>
        case checkFieldArray obj ''criteria_index'' 3 e4 of (e5, ci) \<Rightarrow>
        let e6 = (if s = [] then e5 @ [''salt must be a decimal or 0x-prefixed field element''] else e5) in
        if e6 = [] then Inr \<lparr>task_preimage = tp, result_preimage = rp, salt = s, criteria_satisfied = cs, criteria_path = cp, criteria_index = ci\<rparr>
        else Inl e6)
   | _ \<Rightarrow> Inl [''witness must be a JSON object''])"

text \<open>The argument is what \<open>JSON.parse\<close> makes of the text, \<open>None\<close> when it throws.\<close>

definition parseTaskCompletionWitnessJson :: "json option \<Rightarrow> PrivateInputs js" where
  "parseTaskCompletionWitnessJson parsed = (case parsed of
     None \<Rightarrow> Inl ''Witness JSON is not valid JSON''
   | Some v \<Rightarrow> (case validateTaskCompletionPrivateInputs v of Inl errors \<Rightarrow> Inl (join ''; '' errors) | Inr p \<Rightarrow> Inr p))"

definition validateProofPublicInputs :: "PublicInputs \<Rightarrow> string list" where
  "validateProofPublicInputs p =
     (if Hash32 (task_hash p) then [] else [''task_hash must be a 0x-prefixed 32-byte hash''])
     @ (if Hash32 (result_hash p) then [] else [''result_hash must be a 0x-prefixed 32-byte hash''])
     @ (if Decimal (PublicInputs.deadline p) then [] else [''deadline must be a decimal timestamp''])
     @ (if Decimal (submitted_at p) then [] else [''submitted_at must be a decimal timestamp''])
     @ (if Hash32 (criteria_root p) then [] else [''criteria_root must be a 0x-prefixed 32-byte hash''])"

subsection \<open>Readiness\<close>

record ProofGenCircuitSummary =
  cs_circuit_id :: string
  cs_lifecycle :: "string option"
  cs_verifier :: "string option"
  cs_public_inputs :: "string list option"
  cs_artifacts :: "string option"
  cs_verification_key :: "string option"

record verifier_key =
  vk_address :: string
  vk_isProduction :: bool
  vk_circuitLabel :: circuit_label
  vk_numPublicInputs :: rat

record proofgen_health =
  ph_ok :: "bool option"
  ph_artifacts :: "string option"
  ph_verification_key :: "string option"

record SettlementReadinessInputs =
  taskMarketProgramId :: string
  expectedVerifierKeyAddress :: string
  market_paused :: "bool option"
  verifier_isMainnet :: "bool option"
  verifierConfig :: "(bool \<times> string option) option"
  activeVerifierKey :: "verifier_key option"
  allowedCallers :: "string list option"
  proofGenHealth :: "proofgen_health option"
  proofGenCircuits :: "ProofGenCircuitSummary list option option"

record SettlementReadinessCheck =
  check_key :: string
  check_label :: string
  check_ok :: bool
  check_detail :: string

definition readinessCheck :: "string \<Rightarrow> string \<Rightarrow> bool \<Rightarrow> string \<Rightarrow> string \<Rightarrow> SettlementReadinessCheck" where
  "readinessCheck k lbl ok good bad = \<lparr>check_key = k, check_label = lbl, check_ok = ok, check_detail = if ok then good else bad\<rparr>"

definition completion_circuit :: "SettlementReadinessInputs \<Rightarrow> ProofGenCircuitSummary option" where
  "completion_circuit i = (case proofGenCircuits i of
     Some (Some cs) \<Rightarrow> List.find (\<lambda>e. cs_circuit_id e = TASK_COMPLETION_CIRCUIT_ID) cs | _ \<Rightarrow> None)"

definition publicInputsOk :: "ProofGenCircuitSummary option \<Rightarrow> bool" where
  "publicInputsOk circuit = (case circuit of
     None \<Rightarrow> False
   | Some c \<Rightarrow> (case cs_public_inputs c of
       None \<Rightarrow> False
     | Some ps \<Rightarrow> length ps = length TASK_COMPLETION_PUBLIC_INPUTS \<and>
         list_all (\<lambda>(i, name). ps ! i = name) (List.enumerate 0 TASK_COMPLETION_PUBLIC_INPUTS)))"

definition activeVkMatches :: "SettlementReadinessInputs \<Rightarrow> bool" where
  "activeVkMatches i = (case (verifierConfig i, activeVerifierKey i) of
     (Some (_, Some vk), Some k) \<Rightarrow> vk \<noteq> [] \<and> vk_address k \<noteq> [] \<and> vk = vk_address k \<and> vk = expectedVerifierKeyAddress i
   | _ \<Rightarrow> False)"

definition circuit_live :: "ProofGenCircuitSummary option \<Rightarrow> bool" where
  "circuit_live circuit = (case circuit of
     None \<Rightarrow> False
   | Some c \<Rightarrow> cs_lifecycle c = Some ''live'' \<and> cs_verifier c = Some ''groth16-bn254'' \<and> cs_artifacts c = Some ''loaded''
       \<and> cs_verification_key c = Some ''present'' \<and> publicInputsOk circuit)"

definition health_ok :: "proofgen_health option \<Rightarrow> bool" where
  "health_ok h = (case h of None \<Rightarrow> False
     | Some x \<Rightarrow> ph_ok x = Some True \<and> ph_artifacts x = Some ''loaded'' \<and> ph_verification_key x = Some ''present'')"

definition readiness_checks :: "SettlementReadinessInputs \<Rightarrow> SettlementReadinessCheck list" where
  "readiness_checks i =
     (let circuit = completion_circuit i; vk = activeVerifierKey i in
      [readinessCheck ''market'' ''MarketGlobal'' (market_paused i = Some False)
         ''MarketGlobal is initialized and unpaused.''
         (if market_paused i \<noteq> None then ''MarketGlobal is paused.'' else ''MarketGlobal is missing.''),
       readinessCheck ''mode'' ''Mainnet mode'' (verifier_isMainnet i = Some True)
         ''Proof verifier is in mainnet mode.''
         (if verifier_isMainnet i \<noteq> None then ''Proof verifier is not in mainnet mode.'' else ''Proof verifier mode is missing.''),
       readinessCheck ''verifier-config'' ''Verifier config'' (map_option fst (verifierConfig i) = Some False)
         ''Verifier config is initialized and unpaused.''
         (if verifierConfig i \<noteq> None then ''Verifier config is paused.'' else ''Verifier config is missing.''),
       readinessCheck ''active-vk'' ''Active VK'' (activeVkMatches i)
         ''Active VK matches task_completion.v1.''
         (if vk \<noteq> None then ''Active VK does not match task_completion.v1.'' else ''Active task_completion.v1 VK is missing.''),
       readinessCheck ''production-vk'' ''Production VK'' (map_option vk_isProduction vk = Some True)
         ''Active VK is marked production.'' ''Active VK is not marked production.'',
       readinessCheck ''circuit-label'' ''Circuit label''
         (circuitLabelToString (case vk of None \<Rightarrow> LText [] | Some k \<Rightarrow> vk_circuitLabel k) = TASK_COMPLETION_CIRCUIT_LABEL)
         (''Circuit label is '' @ TASK_COMPLETION_CIRCUIT_LABEL @ ''.'') (''Circuit label must be '' @ TASK_COMPLETION_CIRCUIT_LABEL @ ''.''),
       readinessCheck ''allowed-caller'' ''Allowed caller''
         (case allowedCallers i of None \<Rightarrow> False | Some ps \<Rightarrow> taskMarketProgramId i \<in> set ps)
         ''task_market is allowed to call proof_verifier.'' ''task_market is not in proof_verifier allowed callers.'',
       readinessCheck ''proofgen-health'' ''Proof-gen health'' (health_ok (proofGenHealth i))
         ''Proof-gen is healthy with artifacts loaded.'' ''Proof-gen is unavailable or missing artifacts.'',
       readinessCheck ''proofgen-circuit'' ''Proof-gen circuit'' (circuit_live circuit)
         ''Hosted task_completion.v1 circuit is live and loaded.'' ''Hosted task_completion.v1 circuit is missing, stale, or incomplete.'',
       readinessCheck ''public-inputs'' ''Public inputs''
         (map_option vk_numPublicInputs vk = Some (of_nat (length TASK_COMPLETION_PUBLIC_INPUTS)) \<and> publicInputsOk circuit)
         ''Verifier key and proof-gen agree on public inputs.'' ''Verifier key and proof-gen public inputs differ.''])"

definition evaluateSettlementReadiness :: "SettlementReadinessInputs \<Rightarrow> bool \<times> SettlementReadinessCheck list" where
  "evaluateSettlementReadiness i = (list_all check_ok (readiness_checks i), readiness_checks i)"

subsection \<open>Lemmas\<close>

lemma length_array_set [simp]: "off + length src \<le> length out \<Longrightarrow> length (array_set out src off) = length out"
  by (simp add: array_set_def)

lemma set_chunks_concat:
  "off + length (concat cs) \<le> length out \<Longrightarrow>
    set_chunks cs out off = take off out @ concat cs @ drop (off + length (concat cs)) out"
proof (induction cs arbitrary: out off)
  case (Cons c cs)
  then have "set_chunks cs (array_set out c off) (off + length c) =
      take (off + length c) (array_set out c off) @ concat cs @ drop (off + length c + length (concat cs)) (array_set out c off)"
    by (intro Cons.IH) simp
  with Cons.prems show ?case by (simp add: array_set_def ac_simps)
qed simp

lemma foldl_lengths: "foldl (\<lambda>n c. n + length c) k cs = k + length (concat cs)"
  by (induction cs arbitrary: k) simp_all

lemma concatBytes_concat [simp]: "concatBytes chunks = concat (map chunk_bytes chunks)"
  by (simp add: concatBytes_def Let_def set_chunks_concat foldl_lengths)

lemma hex_val_digit [simp]: "n < 16 \<Longrightarrow> hex_digit_val (hex_digit n) = n"
  by (auto simp: hex_digit_val_def hex_digit_def Let_def of_char_of)

lemma is_hex_digit [simp]: "n < 16 \<Longrightarrow> is_hex (hex_digit n)"
  by (auto simp: is_hex_def hex_digit_def is_digit_def of_char_of)

lemma byte_nibbles: "unat (b :: 8 word) div 16 < 16" "unat b mod 16 < 16"
  using unat_byte [of b] by (auto simp: less_mult_imp_div_less)

lemma bytesToHex_Cons: "bytesToHex_ui (b # bs) = hex_digit (unat b div 16) # hex_digit (unat b mod 16) # bytesToHex_ui bs"
  by (simp add: bytesToHex_ui_def)

lemma bytesToHex_Nil [simp]: "bytesToHex_ui [] = []"
  by (simp add: bytesToHex_ui_def)

lemma length_bytesToHex [simp]: "length (bytesToHex_ui bs) = 2 * length bs"
  by (induction bs) (simp_all add: bytesToHex_Cons)

lemma bytesToHex_is_hex [simp]: "list_all is_hex (bytesToHex_ui bs)"
  by (induction bs) (simp_all add: bytesToHex_Cons byte_nibbles)

lemma pair_bytes_bytesToHex [simp]: "pair_bytes (bytesToHex_ui bs) = bs"
  by (induction bs) (simp_all add: bytesToHex_Cons byte_nibbles)

lemma strip_0x_hex: "list_all is_hex h \<Longrightarrow> strip_0x h = h"
  by (cases h; cases "tl h") (auto simp: strip_0x_def startsWith_def is_hex_def is_digit_def)

lemma strip_0x_prefix [simp]: "strip_0x (''0x'' @ h) = h"
  by (simp add: strip_0x_def startsWith_def)

lemma text_decode_encode: "\<not> startsWith (text_encode s) [0xEF, 0xBB, 0xBF] \<Longrightarrow> text_decode (text_encode s) = s"
  by (simp add: text_decode_def text_encode_def comp_def unat_of_nat take_bit_eq_mod)

text \<open>Lower case of a hexadecimal digit.\<close>

definition lower_hex :: "char \<Rightarrow> char" where
  "lower_hex c = hex_digit (hex_digit_val c)"

lemma hex_val_bound: "is_hex c \<Longrightarrow> hex_digit_val c < 16"
  by (auto simp: is_hex_def is_digit_def hex_digit_val_def Let_def)

lemma bytesToHex_pair_bytes:
  "list_all is_hex h \<Longrightarrow> even (length h) \<Longrightarrow> bytesToHex_ui (pair_bytes h) = map lower_hex h"
proof (induction h rule: pair_bytes.induct)
  case (1 a b rest)
  then have v: "hex_digit_val a < 16" "hex_digit_val b < 16" by (simp_all add: hex_val_bound)
  then have lt: "16 * hex_digit_val a + hex_digit_val b < 256" by simp
  then have "unat (of_nat (16 * hex_digit_val a + hex_digit_val b) :: 8 word) = 16 * hex_digit_val a + hex_digit_val b"
    using unat_of_nat_byte [of "16 * hex_digit_val a + hex_digit_val b"] by (simp only: mod_less)
  with 1 v show ?case by (simp add: bytesToHex_Cons lower_hex_def)
qed simp_all

lemma write_bytes_be: "write_bytes w n acc = (write_be w n @ acc, drop_bit (8 * w) n)"
proof (induction w arbitrary: n acc)
  case (Suc w)
  have "drop_bit (8 * w) (drop_bit 8 n) = drop_bit (8 * Suc w) n" by (simp add: add.commute)
  with Suc show ?case by (simp add: drop_bit_eq_div take_bit_eq_mod)
qed simp

lemma fieldElementToBytes_ui_iff:
  "fieldElementToBytes_ui n = Inr b \<longleftrightarrow> 0 \<le> n \<and> n < 2 ^ 256 \<and> b = fieldElementToBytes n"
proof -
  have "drop_bit 256 n = 0 \<longleftrightarrow> n < 2 ^ 256" if "0 \<le> n"
    using that by (auto simp: drop_bit_eq_div zdiv_eq_0_iff)
  then show ?thesis by (auto simp: fieldElementToBytes_ui_def write_bytes_be fieldElementToBytes_def)
qed

lemma write_be_length [simp]: "length (write_be w n) = w"
  by (induction w arbitrary: n) simp_all

lemma length_fieldElementToBytes [simp]: "length (fieldElementToBytes n) = 32"
  by (simp add: fieldElementToBytes_def)

lemma check_entries_acc:
  "check_entries field i es (errors, out) = (errors', out') \<Longrightarrow>
    (\<exists>new. errors' = errors @ new) \<and>
    (errors' = errors \<longleftrightarrow> (\<exists>ss. es = map UStr ss \<and> list_all Field ss)) \<and>
    (\<forall>ss. es = map UStr ss \<and> list_all Field ss \<longrightarrow> out' = out @ ss)"
proof (induction es arbitrary: i errors out)
  case (Cons entry es)
  show ?case
  proof (cases "\<exists>s. entry = UStr s \<and> Field s")
    case True
    then obtain s where s: "entry = UStr s" "Field s" by blast
    with Cons.prems have run: "check_entries field (Suc i) es (errors, out @ [s]) = (errors', out')" by simp
    have "(\<exists>ss. entry # es = map UStr ss \<and> list_all Field ss) \<longleftrightarrow> (\<exists>ss. es = map UStr ss \<and> list_all Field ss)"
      using s by (auto simp: Cons_eq_map_conv)
    moreover have "out' = out @ ss" if "entry # es = map UStr ss \<and> list_all Field ss" for ss
      using that s Cons.IH [OF run] by (auto simp: Cons_eq_map_conv)
    ultimately show ?thesis using Cons.IH [OF run] by auto
  next
    case False
    then obtain m where m: "check_entries field (Suc i) es (errors @ [m], out) = (errors', out')"
      using Cons.prems by (cases entry) (auto split: if_splits)
    from Cons.IH [OF m] obtain new where "errors' = (errors @ [m]) @ new" by blast
    moreover have "\<not> (\<exists>ss. entry # es = map UStr ss \<and> list_all Field ss)"
      using False by (auto simp: Cons_eq_map_conv)
    moreover from calculation have "errors' \<noteq> errors" "\<exists>new. errors' = errors @ new" by simp_all
    ultimately show ?thesis by metis
  qed
qed simp

definition field_array :: "(string \<times> json) list \<Rightarrow> string \<Rightarrow> nat \<Rightarrow> string list \<Rightarrow> bool" where
  "field_array obj field len ss \<longleftrightarrow> map_of obj field = Some (UArr (map UStr ss)) \<and> list_all Field ss \<and> length ss = len"

lemma checkFieldArray_errors:
  assumes "checkFieldArray obj field len errors = (errors', out)"
  shows "(\<exists>new. errors' = errors @ new) \<and> (errors' = errors \<longleftrightarrow> field_array obj field len out)"
proof (cases "\<exists>vals. map_of obj field = Some (UArr vals)")
  case False
  with assms show ?thesis
    by (auto simp: checkFieldArray_def field_array_def split: option.splits json.splits)
next
  case True
  then obtain vals where v: "map_of obj field = Some (UArr vals)" by blast
  define e1 where "e1 = (if length vals \<noteq> len then errors @ [field @ '' must contain '' @ show_nat len @ '' field elements''] else errors)"
  from assms v have run: "check_entries field 0 vals (e1, []) = (errors', out)" by (simp add: checkFieldArray_def e1_def)
  from check_entries_acc [OF run] obtain new where new: "errors' = e1 @ new" by blast
  show ?thesis
  proof (cases "length vals = len")
    case True
    then have e1: "e1 = errors" by (simp add: e1_def)
    have "errors' = errors \<longleftrightarrow> (\<exists>ss. vals = map UStr ss \<and> list_all Field ss)"
      using check_entries_acc [OF run] e1 by simp
    also have "\<dots> \<longleftrightarrow> field_array obj field len out"
      using check_entries_acc [OF run] v True by (auto simp: field_array_def)
    finally show ?thesis using new e1 by simp
  next
    case False
    with new v show ?thesis by (auto simp: e1_def field_array_def)
  qed
qed

lemma checked_salt_iff: "checked_salt obj = s \<and> s \<noteq> [] \<longleftrightarrow> map_of obj ''salt'' = Some (UStr s) \<and> Field s"
  by (auto simp: checked_salt_def Field_def Decimal_def startsWith_def split: option.splits json.splits if_splits)

text \<open>The JSON object of private inputs, as the portal and the service read it.\<close>

definition reads_as :: "(string \<times> json) list \<Rightarrow> PrivateInputs \<Rightarrow> bool" where
  "reads_as obj p \<longleftrightarrow>
     map_of obj ''task_preimage'' = Some (UArr (map UStr (task_preimage p))) \<and>
     map_of obj ''result_preimage'' = Some (UArr (map UStr (result_preimage p))) \<and>
     map_of obj ''salt'' = Some (UStr (salt p)) \<and>
     map_of obj ''criteria_satisfied'' = Some (UArr (map UStr (criteria_satisfied p))) \<and>
     map_of obj ''criteria_path'' = Some (UArr (map UStr (criteria_path p))) \<and>
     map_of obj ''criteria_index'' = Some (UArr (map UStr (criteria_index p)))"

lemma reads_as_schema:
  "reads_as obj p \<and> PrivateInputsSchema p \<longleftrightarrow>
     field_array obj ''task_preimage'' 16 (task_preimage p) \<and> field_array obj ''result_preimage'' 32 (result_preimage p) \<and>
     map_of obj ''salt'' = Some (UStr (salt p)) \<and> Field (salt p) \<and>
     field_array obj ''criteria_satisfied'' 8 (criteria_satisfied p) \<and> field_array obj ''criteria_path'' 3 (criteria_path p) \<and>
     field_array obj ''criteria_index'' 3 (criteria_index p)"
  by (auto simp: reads_as_def PrivateInputsSchema_def field_array_def)

lemma field_array_unique: "field_array obj f n a \<Longrightarrow> field_array obj f n b \<Longrightarrow> a = b"
  by (auto simp: field_array_def dest: map_injective intro: injI)

lemma checkFieldArray_accepts:
  assumes "field_array obj field len ss"
  shows "checkFieldArray obj field len errors = (errors, ss)"
proof -
  obtain e out where run: "checkFieldArray obj field len errors = (e, out)" by fastforce
  from assms have v: "map_of obj field = Some (UArr (map UStr ss))" "length (map UStr ss) = len" "list_all Field ss"
    by (simp_all add: field_array_def)
  then have "check_entries field 0 (map UStr ss) (errors, []) = (e, out)" using run by (simp add: checkFieldArray_def)
  from check_entries_acc [OF this] v(3) have "e = errors \<and> out = ss" by auto
  with run show ?thesis by simp
qed

lemma validate_inputs_iff:
  "validateTaskCompletionPrivateInputs (UObj obj) = Inr p \<longleftrightarrow> reads_as obj p \<and> PrivateInputsSchema p"
proof
  assume ok: "reads_as obj p \<and> PrivateInputsSchema p"
  then have arrays: "field_array obj ''task_preimage'' 16 (task_preimage p)" "field_array obj ''result_preimage'' 32 (result_preimage p)"
    "field_array obj ''criteria_satisfied'' 8 (criteria_satisfied p)" "field_array obj ''criteria_path'' 3 (criteria_path p)"
    "field_array obj ''criteria_index'' 3 (criteria_index p)" and "checked_salt obj = salt p \<and> salt p \<noteq> []"
    using reads_as_schema [of obj p] checked_salt_iff [of obj "salt p"] by blast+
  then show "validateTaskCompletionPrivateInputs (UObj obj) = Inr p"
    by (simp add: validateTaskCompletionPrivateInputs_def checkFieldArray_accepts)
next
  assume ok: "validateTaskCompletionPrivateInputs (UObj obj) = Inr p"
  obtain a1 b1 where c1: "checkFieldArray obj ''task_preimage'' 16 [] = (a1, b1)" by fastforce
  obtain a2 b2 where c2: "checkFieldArray obj ''result_preimage'' 32 a1 = (a2, b2)" by fastforce
  obtain a3 b3 where c3: "checkFieldArray obj ''criteria_satisfied'' 8 a2 = (a3, b3)" by fastforce
  obtain a4 b4 where c4: "checkFieldArray obj ''criteria_path'' 3 a3 = (a4, b4)" by fastforce
  obtain a5 b5 where c5: "checkFieldArray obj ''criteria_index'' 3 a4 = (a5, b5)" by fastforce
  note fa = checkFieldArray_errors
  have p: "checked_salt obj \<noteq> []" "a5 = []"
    "p = \<lparr>task_preimage = b1, result_preimage = b2, salt = checked_salt obj, criteria_satisfied = b3, criteria_path = b4, criteria_index = b5\<rparr>"
    using ok by (auto simp: validateTaskCompletionPrivateInputs_def c1 c2 c3 c4 c5 Let_def split: if_splits)
  then have "a1 = [] \<and> a2 = [] \<and> a3 = [] \<and> a4 = []"
    using fa [OF c2] fa [OF c3] fa [OF c4] fa [OF c5] by auto
  with p fa [OF c1] fa [OF c2] fa [OF c3] fa [OF c4] fa [OF c5] checked_salt_iff [of obj "checked_salt obj"]
  show "reads_as obj p \<and> PrivateInputsSchema p" unfolding reads_as_schema by simp
qed

lemma validate_object:
  "validateTaskCompletionPrivateInputs v = Inr p \<longleftrightarrow> (\<exists>obj. v = UObj obj \<and> reads_as obj p \<and> PrivateInputsSchema p)"
proof (cases v)
  case (UObj obj)
  then show ?thesis using validate_inputs_iff [of obj p] by auto
qed (simp_all add: validateTaskCompletionPrivateInputs_def)

lemma to0xHash32_Hash32: "to0xHash32 bs = Inr h \<Longrightarrow> Hash32 h"
  by (auto simp: to0xHash32_def Hash32_def startsWith_def split: if_splits)

lemma show_int_Decimal: "Decimal (show_int n) \<longleftrightarrow> 0 \<le> n"
proof (cases "n < 0")
  case True
  then show ?thesis by (simp add: Decimal_def show_int_def is_digit_def)
next
  case False
  then show ?thesis using show_nat_digits [of "nat n"] by (simp add: Decimal_def show_int_def)
qed

lemma public_inputs_built:
  assumes "buildTaskCompletionPublicInputs task = Inr pub"
  shows "PublicInputsSchema pub \<longleftrightarrow> 0 \<le> tf_deadline task \<and> 0 \<le> tf_submittedAt task"
proof -
  from assms obtain th rh cr where h: "to0xHash32 (tf_taskHash task) = Inr th" "to0xHash32 (tf_resultHash task) = Inr rh"
    "to0xHash32 (tf_criteriaRoot task) = Inr cr"
    and pub: "pub = \<lparr>task_hash = th, result_hash = rh, deadline = show_int (tf_deadline task),
          submitted_at = show_int (tf_submittedAt task), criteria_root = cr\<rparr>"
    by (auto simp: buildTaskCompletionPublicInputs_def split: sum.splits)
  then show ?thesis
    using to0xHash32_Hash32 [OF h(1)] to0xHash32_Hash32 [OF h(2)] to0xHash32_Hash32 [OF h(3)]
    by (simp add: PublicInputsSchema_def show_int_Decimal)
qed

lemma completion_circuit_id_ok: "circuit_id_ok TASK_COMPLETION_CIRCUIT_ID"
  by code_simp

subsection \<open>Properties\<close>

text \<open>
  C25. The portal's check of a witness and the schema of the proof service agree. A witness is accepted, as \<open>p\<close>, exactly when
  it is an object whose six fields are those of \<open>p\<close> and \<open>p\<close> passes the service's \<open>PrivateInputsSchema\<close>; and a request the
  portal builds from an accepted witness passes the service's \<open>ProveRequestSchema\<close> exactly when the task's two times are not
  negative.
\<close>

theorem portal_request_accepted:
  "(validateTaskCompletionPrivateInputs v = Inr p \<longleftrightarrow> (\<exists>obj. v = UObj obj \<and> reads_as obj p \<and> PrivateInputsSchema p)) \<and>
   (validateTaskCompletionPrivateInputs v = Inr p \<and> buildTaskCompletionProveRequest task p = Inr req \<longrightarrow>
     (ProveRequestSchema req \<longleftrightarrow> 0 \<le> tf_deadline task \<and> 0 \<le> tf_submittedAt task))"
proof (intro conjI impI)
  assume ok: "validateTaskCompletionPrivateInputs v = Inr p \<and> buildTaskCompletionProveRequest task p = Inr req"
  then have priv: "PrivateInputsSchema p" by (simp add: validate_object) blast
  from ok obtain pub where pub: "buildTaskCompletionPublicInputs task = Inr pub"
    "req = \<lparr>circuit_id = TASK_COMPLETION_CIRCUIT_ID, public_inputs = pub, private_inputs = p\<rparr>"
    by (auto simp: buildTaskCompletionProveRequest_def split: sum.splits)
  then show "ProveRequestSchema req \<longleftrightarrow> 0 \<le> tf_deadline task \<and> 0 \<le> tf_submittedAt task"
    using public_inputs_built [OF pub(1)] priv completion_circuit_id_ok by (simp add: ProveRequestSchema_def)
qed (rule validate_object)

definition sample_witness :: json where
  "sample_witness = UObj
     [(''salt'', UStr ''0xAb''), (''task_preimage'', UArr (replicate 16 (UStr ''1''))), (''result_preimage'', UArr (replicate 32 (UStr ''2''))),
      (''criteria_satisfied'', UArr (replicate 8 (UStr ''1''))), (''criteria_path'', UArr (replicate 3 (UStr ''4''))),
      (''criteria_index'', UArr (replicate 3 (UStr ''0'')))]"

definition sample_inputs :: PrivateInputs where
  "sample_inputs = sample_private \<lparr>salt := ''0xAb''\<rparr>"

definition sample_fields :: task_fields where
  "sample_fields = \<lparr>tf_taskHash = replicate 32 1, tf_resultHash = replicate 32 2, tf_deadline = 9, tf_submittedAt = 8,
     tf_criteriaRoot = replicate 32 255\<rparr>"

theorem portal_request_accepted_witness:
  "validateTaskCompletionPrivateInputs sample_witness = Inr sample_inputs \<and>
   (\<exists>req. buildTaskCompletionProveRequest sample_fields sample_inputs = Inr req \<and> ProveRequestSchema req)"
proof -
  have val: "validateTaskCompletionPrivateInputs sample_witness = Inr sample_inputs" by code_simp
  obtain req where req: "buildTaskCompletionProveRequest sample_fields sample_inputs = Inr req"
    by (auto simp: buildTaskCompletionProveRequest_def buildTaskCompletionPublicInputs_def to0xHash32_def sample_fields_def)
  with val portal_request_accepted [of sample_witness sample_inputs sample_fields req] show ?thesis
    by (auto simp: sample_fields_def)
qed

text \<open>
  Hex text and bytes are inverse: text made from bytes, with or without the prefix and with the right expected length, is
  read back as the bytes; and whatever text is read as \<open>bs\<close>, printing \<open>bs\<close> gives that text without prefix, in lower case.
\<close>

theorem hex_roundtrip:
  "hexToBytes_ui (bytesToHex_ui bs) None = Inr bs \<and>
   hexToBytes_ui (''0x'' @ bytesToHex_ui bs) (Some (length bs)) = Inr bs \<and>
   (\<forall>h n. hexToBytes_ui h n = Inr bs \<longrightarrow> bytesToHex_ui bs = map lower_hex (strip_0x h))"
proof (intro conjI allI impI)
  show "hexToBytes_ui (bytesToHex_ui bs) None = Inr bs"
    by (simp add: hexToBytes_ui_def strip_0x_hex)
  show "hexToBytes_ui (''0x'' @ bytesToHex_ui bs) (Some (length bs)) = Inr bs"
    unfolding hexToBytes_ui_def strip_0x_prefix by (simp add: Let_def)
  fix h n assume "hexToBytes_ui h n = Inr bs"
  then have "list_all is_hex (strip_0x h)" "even (length (strip_0x h))" "bs = pair_bytes (strip_0x h)"
    by (auto simp: hexToBytes_ui_def Let_def even_iff_mod_2_eq_zero split: if_splits option.splits)
  then show "bytesToHex_ui bs = map lower_hex (strip_0x h)" using bytesToHex_pair_bytes by simp
qed

theorem hex_roundtrip_witness:
  "hexToBytes_ui ''0xAB01'' (Some 2) = Inr [0xAB, 1] \<and> bytesToHex_ui [0xAB, 1] = ''ab01''"
proof -
  have run: "hexToBytes_ui ''0xAB01'' (Some 2) = Inr [0xAB, 1]" by code_simp
  have "map lower_hex (strip_0x ''0xAB01'') = ''ab01''" by code_simp
  with run hex_roundtrip [of "[0xAB, 1]"] show ?thesis by metis
qed

lemma fieldStringToBytes_iff:
  "fieldStringToBytes syn s = Inr b \<longleftrightarrow> (\<exists>n. BigInt syn s = Inr n \<and> 0 \<le> n \<and> n < 2 ^ 256 \<and> b = fieldElementToBytes n)"
  by (cases "BigInt syn s") (auto simp: fieldStringToBytes_def fieldElementToBytes_ui_iff simp del: power_numeral)

lemma ex_list_all2_Cons:
  "(\<exists>b bs'. (\<exists>n. R s n \<and> b = f n) \<and> (\<exists>ns. list_all2 R ss ns \<and> bs' = map f ns) \<and> bs = b # bs') \<longleftrightarrow>
   (\<exists>ns. list_all2 R (s # ss) ns \<and> bs = map f ns)"
  by (auto simp: list_all2_Cons1) (metis list.map(2))

lemma point_bytes_iff:
  "point_bytes syn ss = Inr b \<longleftrightarrow>
    (\<exists>ns. list_all2 (\<lambda>s n. BigInt syn s = Inr n \<and> 0 \<le> n \<and> n < 2 ^ 256) ss ns \<and> b = concat (map fieldElementToBytes ns))"
proof -
  have chunks: "field_chunks syn ss = Inr bs \<longleftrightarrow>
      (\<exists>ns. list_all2 (\<lambda>s n. BigInt syn s = Inr n \<and> 0 \<le> n \<and> n < 2 ^ 256) ss ns \<and> bs = map fieldElementToBytes ns)" for bs
  proof (induction ss arbitrary: bs)
    case (Cons s ss)
    have "field_chunks syn (s # ss) = Inr bs \<longleftrightarrow> (\<exists>b bs'. fieldStringToBytes syn s = Inr b \<and> field_chunks syn ss = Inr bs' \<and> bs = b # bs')"
      by (auto split: sum.splits)
    also have "\<dots> \<longleftrightarrow> (\<exists>ns. list_all2 (\<lambda>s n. BigInt syn s = Inr n \<and> 0 \<le> n \<and> n < 2 ^ 256) (s # ss) ns \<and> bs = map fieldElementToBytes ns)"
      unfolding fieldStringToBytes_iff Cons.IH ex_list_all2_Cons [symmetric] conj_assoc by blast
    finally show ?case .
  qed auto
  have "point_bytes syn ss = Inr b \<longleftrightarrow> (\<exists>bs. field_chunks syn ss = Inr bs \<and> b = concat bs)"
    by (cases "field_chunks syn ss") (auto simp: point_bytes_def chunk_bytes_def comp_def)
  then show ?thesis unfolding chunks by blast
qed

text \<open>
  The proof bytes the portal submits are those the settlement gateway submits. When the conversion succeeds every
  coordinate is a number below \<open>2 ^ 256\<close>, the three parts have 64, 128 and 64 bytes, and they are what the gateway's \<open>g1ToBytes\<close>
  and \<open>g2ToBytes\<close> make of the numbers.
\<close>

theorem portal_proof_bytes_match_gateway:
  assumes "groth16ProofToTaskMarketProofBytes syn \<lparr>pi_a = (ax, ay, az), pi_b = ((bx0, bx1), (by0, by1), bz), pi_c = (cx, cy, cz)\<rparr> = Inr r"
  shows "\<exists>a0 a1 b0 b1 b2 b3 c0 c1.
    list_all2 (\<lambda>s n. BigInt syn s = Inr n \<and> 0 \<le> n \<and> n < 2 ^ 256) [ax, ay, bx0, bx1, by0, by1, cx, cy] [a0, a1, b0, b1, b2, b3, c0, c1] \<and>
    proofA r = g1ToBytes (a0, a1, 1) \<and> proofB r = g2ToBytes ((b0, b1), (b2, b3), (1, 0)) \<and> proofC r = g1ToBytes (c0, c1, 1) \<and>
    length (proofA r) = 64 \<and> length (proofB r) = 128 \<and> length (proofC r) = 64"
proof -
  from assms obtain a b c where parts: "point_bytes syn [ax, ay] = Inr a" "point_bytes syn [bx1, bx0, by1, by0] = Inr b"
    "point_bytes syn [cx, cy] = Inr c" and r: "r = \<lparr>proofA = a, proofB = b, proofC = c\<rparr>"
    by (auto simp: groth16ProofToTaskMarketProofBytes_def g1ToBytes_ui_def g2ToBytes_ui_def split: sum.splits)
  let ?R = "\<lambda>s n. BigInt syn s = Inr n \<and> 0 \<le> n \<and> n < 2 ^ 256"
  from parts(1) obtain as where as: "list_all2 ?R [ax, ay] as" "a = concat (map fieldElementToBytes as)" unfolding point_bytes_iff by blast
  from parts(2) obtain bs where bs: "list_all2 ?R [bx1, bx0, by1, by0] bs" "b = concat (map fieldElementToBytes bs)" unfolding point_bytes_iff by blast
  from parts(3) obtain cs where cs: "list_all2 ?R [cx, cy] cs" "c = concat (map fieldElementToBytes cs)" unfolding point_bytes_iff by blast
  from as(1) obtain a0 a1 where a: "as = [a0, a1]" "?R ax a0" "?R ay a1" unfolding list_all2_Cons1 list_all2_Nil by blast
  from bs(1) obtain b0 b1 b2 b3 where b: "bs = [b1, b0, b3, b2]" "?R bx0 b0" "?R bx1 b1" "?R by0 b2" "?R by1 b3"
    unfolding list_all2_Cons1 list_all2_Nil by blast
  from cs(1) obtain c0 c1 where c: "cs = [c0, c1]" "?R cx c0" "?R cy c1" unfolding list_all2_Cons1 list_all2_Nil by blast
  have "list_all2 ?R [ax, ay, bx0, bx1, by0, by1, cx, cy] [a0, a1, b0, b1, b2, b3, c0, c1]"
    unfolding list_all2_Cons list_all2_Nil using a b c by blast
  moreover have "proofA r = g1ToBytes (a0, a1, 1) \<and> proofB r = g2ToBytes ((b0, b1), (b2, b3), (1, 0)) \<and> proofC r = g1ToBytes (c0, c1, 1)"
    using r as bs cs a(1) b(1) c(1) by (simp add: g1ToBytes_def g2ToBytes_def)
  moreover have "length (proofA r) = 64 \<and> length (proofB r) = 128 \<and> length (proofC r) = 64"
    using r as bs cs a(1) b(1) c(1) by simp
  ultimately show ?thesis by blast
qed

text \<open>
  Proof keys bind the circuit, the task and the result: with a digest without collisions, two calls that give the same key
  were made with the same circuit id, task id and result hash.
\<close>

theorem proof_key_binds:
  assumes "inj digest"
    and "deriveTaskCompletionProofKey digest tid1 rhash1 cid1 = Inr key" and "deriveTaskCompletionProofKey digest tid2 rhash2 cid2 = Inr key"
  shows "tid1 = tid2 \<and> rhash1 = rhash2 \<and>
    (case cid1 of None \<Rightarrow> TASK_COMPLETION_CIRCUIT_ID | Some c \<Rightarrow> c) = (case cid2 of None \<Rightarrow> TASK_COMPLETION_CIRCUIT_ID | Some c \<Rightarrow> c)"
proof -
  let ?c1 = "case cid1 of None \<Rightarrow> TASK_COMPLETION_CIRCUIT_ID | Some c \<Rightarrow> c"
  let ?c2 = "case cid2 of None \<Rightarrow> TASK_COMPLETION_CIRCUIT_ID | Some c \<Rightarrow> c"
  have len: "length tid1 = 32" "length rhash1 = 32" "length tid2 = 32" "length rhash2 = 32"
    using assms(2,3) by (simp_all add: deriveTaskCompletionProofKey_def split: if_splits)
  have "digest (concatBytes (proof_key_chunks tid1 rhash1 cid1)) = digest (concatBytes (proof_key_chunks tid2 rhash2 cid2))"
    using assms(2,3) len by (simp add: deriveTaskCompletionProofKey_def sha256Bytes_def)
  then have "concatBytes (proof_key_chunks tid1 rhash1 cid1) = concatBytes (proof_key_chunks tid2 rhash2 cid2)"
    using assms(1) by (rule injD [rotated])
  then have "text_encode ?c1 @ tid1 @ rhash1 = text_encode ?c2 @ tid2 @ rhash2"
    by (simp add: proof_key_chunks_def chunk_bytes_def)
  with len have "text_encode ?c1 = text_encode ?c2 \<and> tid1 = tid2 \<and> rhash1 = rhash2" by simp
  then show ?thesis by (simp add: text_encode_inj)
qed

theorem proof_key_binds_witness:
  "deriveTaskCompletionProofKey (\<lambda>x. x) (replicate 32 1) (replicate 32 2) None
     = deriveTaskCompletionProofKey (\<lambda>x. x) (replicate 32 1) (replicate 32 2) (Some ''task_completion.v1'') \<and>
   TASK_COMPLETION_CIRCUIT_ID = ''task_completion.v1''"
proof -
  have eq: "deriveTaskCompletionProofKey (\<lambda>x. x) (replicate 32 1) (replicate 32 2) None
     = deriveTaskCompletionProofKey (\<lambda>x. x) (replicate 32 1) (replicate 32 2) (Some ''task_completion.v1'')"
    by (simp add: deriveTaskCompletionProofKey_def proof_key_chunks_def TASK_COMPLETION_CIRCUIT_ID_def)
  have len: "length (replicate 32 b) = 32" for b :: "8 word" by simp
  obtain key where key: "deriveTaskCompletionProofKey (\<lambda>x. x) (replicate 32 1) (replicate 32 2) None = Inr key"
    unfolding deriveTaskCompletionProofKey_def len by simp
  have "(case None of None \<Rightarrow> TASK_COMPLETION_CIRCUIT_ID | Some c \<Rightarrow> c) = (case Some ''task_completion.v1'' of None \<Rightarrow> TASK_COMPLETION_CIRCUIT_ID | Some c \<Rightarrow> c)"
    using proof_key_binds [OF _ key key [unfolded eq]] by (simp only: inj_on_def) blast
  then show ?thesis using eq by (simp only: option.case)
qed

definition sample_proof :: Groth16ProofLike where
  "sample_proof = \<lparr>pi_a = (''1'', ''0x2'', ''1''), pi_b = ((''3'', ''4''), (''5'', ''6''), (''1'', ''0'')), pi_c = ('' 7'', ''256'', ''1'')\<rparr>"

theorem portal_proof_bytes_match_gateway_witness:
  "\<exists>r. groth16ProofToTaskMarketProofBytes ''syntax'' sample_proof = Inr r \<and> length (proofB r) = 128"
proof -
  have "js_ok (groth16ProofToTaskMarketProofBytes ''syntax'' sample_proof)" by code_simp
  then obtain r where r: "groth16ProofToTaskMarketProofBytes ''syntax'' sample_proof = Inr r"
    by (cases "groth16ProofToTaskMarketProofBytes ''syntax'' sample_proof") (auto simp: js_ok_def)
  then show ?thesis using portal_proof_bytes_match_gateway [of "''syntax''" "''1''" "''0x2''" "''1''" "''3''" "''4''" "''5''" "''6''" "(''1'', ''0'')" "'' 7''" "''256''" "''1''" r]
    unfolding sample_proof_def by blast
qed

lemma list_all_enumerate:
  "length ps = length names \<Longrightarrow> list_all (\<lambda>(i, name). ps ! i = name) (List.enumerate 0 names) \<longleftrightarrow> ps = names"
  by (auto simp: list_all_length nth_enumerate_eq list_eq_iff_nth_eq)

lemma publicInputsOk_iff: "publicInputsOk (Some c) \<longleftrightarrow> cs_public_inputs c = Some TASK_COMPLETION_PUBLIC_INPUTS"
  by (auto simp: publicInputsOk_def list_all_enumerate split: option.splits)

lemma circuit_live_iff:
  "circuit_live co \<longleftrightarrow> (\<exists>c. co = Some c \<and> cs_lifecycle c = Some ''live'' \<and> cs_verifier c = Some ''groth16-bn254'' \<and>
     cs_artifacts c = Some ''loaded'' \<and> cs_verification_key c = Some ''present'' \<and> cs_public_inputs c = Some TASK_COMPLETION_PUBLIC_INPUTS)"
  by (cases co) (auto simp: circuit_live_def publicInputsOk_iff)

text \<open>
  The report says ready exactly when: market and verifier are unpaused and the verifier is in mainnet mode; the active
  verification key is the expected one, not empty, marked for production, labelled for task completion and with five public
  inputs; the task market is an allowed caller; and the proof service is healthy and serves the circuit live, with the five
  public inputs in their order. A failed check is always in the list with its own key.
\<close>

theorem readiness_complete:
  "(fst (evaluateSettlementReadiness i) \<longleftrightarrow>
     market_paused i = Some False \<and> verifier_isMainnet i = Some True \<and>
     (\<exists>k. verifierConfig i = Some (False, Some (expectedVerifierKeyAddress i)) \<and> activeVerifierKey i = Some k \<and>
        vk_address k = expectedVerifierKeyAddress i \<and> expectedVerifierKeyAddress i \<noteq> [] \<and> vk_isProduction k \<and>
        circuitLabelToString (vk_circuitLabel k) = TASK_COMPLETION_CIRCUIT_LABEL \<and> vk_numPublicInputs k = 5) \<and>
     (\<exists>ps. allowedCallers i = Some ps \<and> taskMarketProgramId i \<in> set ps) \<and> health_ok (proofGenHealth i) \<and>
     circuit_live (completion_circuit i)) \<and>
   distinct (map check_key (snd (evaluateSettlementReadiness i))) \<and> length (snd (evaluateSettlementReadiness i)) = 10 \<and>
   (fst (evaluateSettlementReadiness i) \<longleftrightarrow> filter (\<lambda>c. \<not> check_ok c) (snd (evaluateSettlementReadiness i)) = [])"
proof (intro conjI)
  have vk: "activeVkMatches i \<longleftrightarrow> (\<exists>p k. verifierConfig i = Some (p, Some (expectedVerifierKeyAddress i)) \<and> activeVerifierKey i = Some k \<and>
      vk_address k = expectedVerifierKeyAddress i \<and> expectedVerifierKeyAddress i \<noteq> [])"
    by (auto simp: activeVkMatches_def split: option.splits prod.splits)
  have pub: "circuit_live (completion_circuit i) \<Longrightarrow> publicInputsOk (completion_circuit i)"
    by (auto simp: circuit_live_iff publicInputsOk_iff)
  have five: "length TASK_COMPLETION_PUBLIC_INPUTS = 5" by (simp add: TASK_COMPLETION_PUBLIC_INPUTS_def)
  have caller: "(case allowedCallers i of None \<Rightarrow> False | Some ps \<Rightarrow> taskMarketProgramId i \<in> set ps) \<longleftrightarrow> (\<exists>ps. allowedCallers i = Some ps \<and> taskMarketProgramId i \<in> set ps)"
    by (simp split: option.split)
  show "fst (evaluateSettlementReadiness i) \<longleftrightarrow>
     market_paused i = Some False \<and> verifier_isMainnet i = Some True \<and>
     (\<exists>k. verifierConfig i = Some (False, Some (expectedVerifierKeyAddress i)) \<and> activeVerifierKey i = Some k \<and>
        vk_address k = expectedVerifierKeyAddress i \<and> expectedVerifierKeyAddress i \<noteq> [] \<and> vk_isProduction k \<and>
        circuitLabelToString (vk_circuitLabel k) = TASK_COMPLETION_CIRCUIT_LABEL \<and> vk_numPublicInputs k = 5) \<and>
     (\<exists>ps. allowedCallers i = Some ps \<and> taskMarketProgramId i \<in> set ps) \<and> health_ok (proofGenHealth i) \<and>
     circuit_live (completion_circuit i)"
    using pub by (auto simp: evaluateSettlementReadiness_def readiness_checks_def readinessCheck_def Let_def vk five caller)
  show "distinct (map check_key (snd (evaluateSettlementReadiness i)))" "length (snd (evaluateSettlementReadiness i)) = 10"
    by (simp_all add: evaluateSettlementReadiness_def readiness_checks_def readinessCheck_def Let_def)
  show "fst (evaluateSettlementReadiness i) \<longleftrightarrow> filter (\<lambda>c. \<not> check_ok c) (snd (evaluateSettlementReadiness i)) = []"
    by (simp add: evaluateSettlementReadiness_def filter_empty_conv list_all_iff)
qed

lemma takeWhile_padded: "\<forall>b \<in> set bs. b \<noteq> 0 \<Longrightarrow> takeWhile (\<lambda>b. b \<noteq> 0) (bs @ replicate n 0) = (bs :: bytes)"
  by (induction n) (simp_all add: takeWhile_append2)

lemma circuit_label_roundtrip:
  assumes "length s \<le> 32" and "CHR 0x00 \<notin> set s" and "\<not> startsWith (text_encode s) [0xEF, 0xBB, 0xBF]"
  shows "circuitLabelToString (LBytes (paddedCircuitLabel s)) = s"
proof -
  have pad: "paddedCircuitLabel s = text_encode s @ replicate (32 - length s) 0"
    using assms(1) by (simp add: paddedCircuitLabel_def array_set_def)
  have "\<forall>b \<in> set (text_encode s). b \<noteq> 0"
  proof
    fix b assume "b \<in> set (text_encode s)"
    then obtain c where c: "c \<in> set s" "b = of_nat (of_char c)" by (auto simp: text_encode_def)
    show "b \<noteq> 0"
    proof
      assume "b = 0"
      with c(2) have "text_encode [c] = text_encode [CHR 0x00]" by (simp add: text_encode_def)
      with c(1) assms(2) show False by (simp add: text_encode_inj)
    qed
  qed
  then show ?thesis using assms(3) by (simp add: circuitLabelToString_def pad takeWhile_padded text_decode_encode)
qed

end
