(* ===== verification/Sdk_Pda.thy ===== *)
theory Sdk_Pda
  imports Saep_Prelude "HOL-Library.Sublist"
begin

text \<open>
  Program addresses (\<open>packages/sdk/src/pda/index.ts\<close>): every function of the module, with its checks and its seeds. The address
  search \<open>search\<close> is web3.js's \<open>findProgramAddressSync\<close>, a parameter; what the result needs of it is that equal
  addresses of one program come from equal concatenations of seeds. The theorem is that no two different calls share an
  address: the seeds have no separators, so this rests on the lengths and the prefixes.
\<close>

type_synonym pubkey = "256 word"
type_synonym ('p, 'r) find = "bytes list \<Rightarrow> 'p \<Rightarrow> 'r"

definition enc :: "string \<Rightarrow> bytes" where
  "enc s = text_encode s"

definition toBuffer :: "pubkey \<Rightarrow> bytes" where
  "toBuffer k = be_bytes 32 (unat k)"

text \<open>\<open>writeBigUInt64LE\<close> throws outside the range.\<close>

definition in_u64 :: "int \<Rightarrow> bool" where
  "in_u64 n \<longleftrightarrow> 0 \<le> n \<and> n < 2 ^ 64"

definition range_error :: string where
  "range_error = ''ERR_OUT_OF_RANGE''"

definition u64le :: "int \<Rightarrow> bytes" where
  "u64le n = rev (be_bytes 8 (nat n))"

definition bit_bytes :: "rat \<Rightarrow> bytes" where
  "bit_bytes b = (let n = \<lfloor>b\<rfloor> in [of_int (n mod 256), of_int (n div 256 mod 256)])"

subsection \<open>Agent registry\<close>

definition agentRegistryGlobalPda :: "('p, 'r) find \<Rightarrow> 'p \<Rightarrow> 'r js" where
  "agentRegistryGlobalPda search programId = Inr (search [enc ''global''] programId)"

definition agentAccountPda :: "('p, 'r) find \<Rightarrow> 'p \<Rightarrow> pubkey \<Rightarrow> bytes \<Rightarrow> 'r js" where
  "agentAccountPda search programId operator_key agentId = 
     (if length agentId \<noteq> 32 then Inl ''agentId must be 32 bytes''
      else Inr (search [enc ''agent'', toBuffer operator_key, agentId] programId))"

definition agentStakePda :: "('p, 'r) find \<Rightarrow> 'p \<Rightarrow> pubkey \<Rightarrow> 'r js" where
  "agentStakePda search programId agent_key = Inr (search [enc ''stake'', toBuffer agent_key] programId)"

definition reentrancyGuardPda :: "('p, 'r) find \<Rightarrow> 'p \<Rightarrow> 'r js" where
  "reentrancyGuardPda search programId = Inr (search [enc ''guard''] programId)"

definition categoryReputationPda :: "('p, 'r) find \<Rightarrow> 'p \<Rightarrow> bytes \<Rightarrow> rat \<Rightarrow> 'r js" where
  "categoryReputationPda search programId agentDid capabilityBit = 
     (if length agentDid \<noteq> 32 then Inl ''agentDid must be 32 bytes''
      else if \<not> isInteger capabilityBit \<or> capabilityBit < 0 \<or> capabilityBit > 127 then Inl ''capabilityBit must be an integer in 0..=127''
      else Inr (search [enc ''rep'', agentDid, bit_bytes capabilityBit] programId))"

definition proofVerifierRepAuthorityPda :: "('p, 'r) find \<Rightarrow> 'p \<Rightarrow> 'r js" where
  "proofVerifierRepAuthorityPda search programId = Inr (search [enc ''rep_authority''] programId)"

subsection \<open>Treasury\<close>

definition treasuryGlobalPda :: "('p, 'r) find \<Rightarrow> 'p \<Rightarrow> 'r js" where
  "treasuryGlobalPda search programId = Inr (search [enc ''treasury_global''] programId)"

definition treasuryAllowedMintsPda :: "('p, 'r) find \<Rightarrow> 'p \<Rightarrow> 'r js" where
  "treasuryAllowedMintsPda search programId = Inr (search [enc ''allowed_mints''] programId)"

definition treasuryPda :: "('p, 'r) find \<Rightarrow> 'p \<Rightarrow> bytes \<Rightarrow> 'r js" where
  "treasuryPda search programId agentDid = 
     (if length agentDid \<noteq> 32 then Inl ''agentDid must be 32 bytes''
      else Inr (search [enc ''treasury'', agentDid] programId))"

definition treasuryAllowedTargetsPda :: "('p, 'r) find \<Rightarrow> 'p \<Rightarrow> bytes \<Rightarrow> 'r js" where
  "treasuryAllowedTargetsPda search programId agentDid = 
     (if length agentDid \<noteq> 32 then Inl ''agentDid must be 32 bytes''
      else Inr (search [enc ''allowed_targets'', agentDid] programId))"

definition treasuryYieldStrategyPda :: "('p, 'r) find \<Rightarrow> 'p \<Rightarrow> bytes \<Rightarrow> 'r js" where
  "treasuryYieldStrategyPda search programId strategyId = 
     (if length strategyId \<noteq> 32 then Inl ''strategyId must be 32 bytes''
      else Inr (search [enc ''yield_strategy'', strategyId] programId))"

definition treasuryYieldConfigPda :: "('p, 'r) find \<Rightarrow> 'p \<Rightarrow> bytes \<Rightarrow> 'r js" where
  "treasuryYieldConfigPda search programId agentDid = 
     (if length agentDid \<noteq> 32 then Inl ''agentDid must be 32 bytes''
      else Inr (search [enc ''yield_config'', agentDid] programId))"

definition treasuryYieldPositionPda :: "('p, 'r) find \<Rightarrow> 'p \<Rightarrow> bytes \<Rightarrow> bytes \<Rightarrow> pubkey \<Rightarrow> 'r js" where
  "treasuryYieldPositionPda search programId agentDid strategyId mint = 
     (if length agentDid \<noteq> 32 then Inl ''agentDid must be 32 bytes''
      else if length strategyId \<noteq> 32 then Inl ''strategyId must be 32 bytes''
      else Inr (search [enc ''yield_position'', agentDid, strategyId, toBuffer mint] programId))"

definition treasuryYieldReceiptVaultPda :: "('p, 'r) find \<Rightarrow> 'p \<Rightarrow> pubkey \<Rightarrow> 'r js" where
  "treasuryYieldReceiptVaultPda search programId position = Inr (search [enc ''yield_receipt_vault'', toBuffer position] programId)"

definition vaultPda :: "('p, 'r) find \<Rightarrow> 'p \<Rightarrow> bytes \<Rightarrow> pubkey \<Rightarrow> 'r js" where
  "vaultPda search programId agentDid mint = 
     (if length agentDid \<noteq> 32 then Inl ''agentDid must be 32 bytes''
      else Inr (search [enc ''vault'', agentDid, toBuffer mint] programId))"

subsection \<open>Task market\<close>

definition marketGlobalPda :: "('p, 'r) find \<Rightarrow> 'p \<Rightarrow> 'r js" where
  "marketGlobalPda search programId = Inr (search [enc ''market_global''] programId)"

definition taskPda :: "('p, 'r) find \<Rightarrow> 'p \<Rightarrow> pubkey \<Rightarrow> bytes \<Rightarrow> 'r js" where
  "taskPda search programId client taskNonce = 
     (if length taskNonce \<noteq> 8 then Inl ''taskNonce must be 8 bytes''
      else Inr (search [enc ''task'', toBuffer client, taskNonce] programId))"

definition taskEscrowPda :: "('p, 'r) find \<Rightarrow> 'p \<Rightarrow> pubkey \<Rightarrow> 'r js" where
  "taskEscrowPda search programId task = Inr (search [enc ''task_escrow'', toBuffer task] programId)"

definition bidBookPda :: "('p, 'r) find \<Rightarrow> 'p \<Rightarrow> bytes \<Rightarrow> 'r js" where
  "bidBookPda search programId taskId = 
     (if length taskId \<noteq> 32 then Inl ''taskId must be 32 bytes''
      else Inr (search [enc ''bid_book'', taskId] programId))"

definition bondEscrowPda :: "('p, 'r) find \<Rightarrow> 'p \<Rightarrow> bytes \<Rightarrow> 'r js" where
  "bondEscrowPda search programId taskId = 
     (if length taskId \<noteq> 32 then Inl ''taskId must be 32 bytes''
      else Inr (search [enc ''bond_escrow'', taskId] programId))"

definition bidPda :: "('p, 'r) find \<Rightarrow> 'p \<Rightarrow> bytes \<Rightarrow> pubkey \<Rightarrow> 'r js" where
  "bidPda search programId taskId bidder = 
     (if length taskId \<noteq> 32 then Inl ''taskId must be 32 bytes''
      else Inr (search [enc ''bid'', taskId, toBuffer bidder] programId))"

subsection \<open>Proof verifier\<close>

definition verifierConfigPda :: "('p, 'r) find \<Rightarrow> 'p \<Rightarrow> 'r js" where
  "verifierConfigPda search programId = Inr (search [enc ''verifier_config''] programId)"

definition verifierKeyPda :: "('p, 'r) find \<Rightarrow> 'p \<Rightarrow> bytes \<Rightarrow> 'r js" where
  "verifierKeyPda search programId vkId = 
     (if length vkId \<noteq> 32 then Inl ''vkId must be 32 bytes''
      else Inr (search [enc ''vk'', vkId] programId))"

definition verifierModePda :: "('p, 'r) find \<Rightarrow> 'p \<Rightarrow> 'r js" where
  "verifierModePda search programId = Inr (search [enc ''mode''] programId)"

definition proofVerifierAllowedCallersPda :: "('p, 'r) find \<Rightarrow> 'p \<Rightarrow> 'r js" where
  "proofVerifierAllowedCallersPda search programId = Inr (search [enc ''allowed_callers''] programId)"

definition batchStatePda :: "('p, 'r) find \<Rightarrow> 'p \<Rightarrow> 'r js" where
  "batchStatePda search programId = Inr (search [enc ''batch''] programId)"

definition guardPda :: "('p, 'r) find \<Rightarrow> 'p \<Rightarrow> 'r js" where
  "guardPda search programId = Inr (search [enc ''guard''] programId)"

definition proofVerifierGuardPda :: "('p, 'r) find \<Rightarrow> 'p \<Rightarrow> 'r js" where
  "proofVerifierGuardPda search programId = guardPda search programId"

subsection \<open>Capability registry and streams\<close>

definition capabilityConfigPda :: "('p, 'r) find \<Rightarrow> 'p \<Rightarrow> 'r js" where
  "capabilityConfigPda search programId = Inr (search [enc ''config''] programId)"

definition streamPda :: "('p, 'r) find \<Rightarrow> 'p \<Rightarrow> bytes \<Rightarrow> pubkey \<Rightarrow> bytes \<Rightarrow> 'r js" where
  "streamPda search programId agentDid client streamNonce = 
     (if length agentDid \<noteq> 32 then Inl ''agentDid must be 32 bytes''
      else if length streamNonce \<noteq> 8 then Inl ''streamNonce must be 8 bytes''
      else Inr (search [enc ''stream'', agentDid, toBuffer client, streamNonce] programId))"

definition streamEscrowPda :: "('p, 'r) find \<Rightarrow> 'p \<Rightarrow> pubkey \<Rightarrow> 'r js" where
  "streamEscrowPda search programId stream = Inr (search [enc ''stream_escrow'', toBuffer stream] programId)"

subsection \<open>Dispute arbitration\<close>

definition disputeConfigPda :: "('p, 'r) find \<Rightarrow> 'p \<Rightarrow> 'r js" where
  "disputeConfigPda search programId = Inr (search [enc ''dispute_config''] programId)"

definition disputePoolPda :: "('p, 'r) find \<Rightarrow> 'p \<Rightarrow> 'r js" where
  "disputePoolPda search programId = Inr (search [enc ''dispute_pool''] programId)"

definition disputeCasePda :: "('p, 'r) find \<Rightarrow> 'p \<Rightarrow> int \<Rightarrow> 'r js" where
  "disputeCasePda search programId caseId = 
     (if \<not> in_u64 caseId then Inl range_error
      else Inr (search [enc ''dispute_case'', u64le caseId] programId))"

definition arbitratorPda :: "('p, 'r) find \<Rightarrow> 'p \<Rightarrow> pubkey \<Rightarrow> 'r js" where
  "arbitratorPda search programId operator_key = Inr (search [enc ''arbitrator'', toBuffer operator_key] programId)"

definition disputeVotePda :: "('p, 'r) find \<Rightarrow> 'p \<Rightarrow> int \<Rightarrow> pubkey \<Rightarrow> 'r js" where
  "disputeVotePda search programId caseId arbitrator = 
     (if \<not> in_u64 caseId then Inl range_error
      else Inr (search [enc ''dispute_vote'', u64le caseId, toBuffer arbitrator] programId))"

definition appealPda :: "('p, 'r) find \<Rightarrow> 'p \<Rightarrow> int \<Rightarrow> 'r js" where
  "appealPda search programId caseId = 
     (if \<not> in_u64 caseId then Inl range_error
      else Inr (search [enc ''appeal'', u64le caseId] programId))"

definition pendingSlashPda :: "('p, 'r) find \<Rightarrow> 'p \<Rightarrow> pubkey \<Rightarrow> 'r js" where
  "pendingSlashPda search programId operator_key = Inr (search [enc ''pending_slash'', toBuffer operator_key] programId)"

subsection \<open>Governance\<close>

definition govConfigPda :: "('p, 'r) find \<Rightarrow> 'p \<Rightarrow> 'r js" where
  "govConfigPda search programId = Inr (search [enc ''governance_config''] programId)"

definition programRegistryPda :: "('p, 'r) find \<Rightarrow> 'p \<Rightarrow> 'r js" where
  "programRegistryPda search programId = Inr (search [enc ''program_registry''] programId)"

definition proposalPda :: "('p, 'r) find \<Rightarrow> 'p \<Rightarrow> int \<Rightarrow> 'r js" where
  "proposalPda search programId proposalId = 
     (if \<not> in_u64 proposalId then Inl range_error
      else Inr (search [enc ''proposal'', u64le proposalId] programId))"

definition govVoteRecordPda :: "('p, 'r) find \<Rightarrow> 'p \<Rightarrow> pubkey \<Rightarrow> pubkey \<Rightarrow> 'r js" where
  "govVoteRecordPda search programId proposal voter = Inr (search [enc ''vote'', toBuffer proposal, toBuffer voter] programId)"

definition executionRecordPda :: "('p, 'r) find \<Rightarrow> 'p \<Rightarrow> pubkey \<Rightarrow> 'r js" where
  "executionRecordPda search programId proposal = Inr (search [enc ''execution'', toBuffer proposal] programId)"

subsection \<open>Fee collector\<close>

definition feeConfigPda :: "('p, 'r) find \<Rightarrow> 'p \<Rightarrow> 'r js" where
  "feeConfigPda search programId = Inr (search [enc ''fee_config''] programId)"

definition feeHookAllowlistPda :: "('p, 'r) find \<Rightarrow> 'p \<Rightarrow> 'r js" where
  "feeHookAllowlistPda search programId = Inr (search [enc ''hook_allowlist''] programId)"

definition feeAgentHooksPda :: "('p, 'r) find \<Rightarrow> 'p \<Rightarrow> bytes \<Rightarrow> 'r js" where
  "feeAgentHooksPda search programId agentDid = 
     (if length agentDid \<noteq> 32 then Inl ''agentDid must be 32 bytes''
      else Inr (search [enc ''agent_hooks'', agentDid] programId))"

definition epochPda :: "('p, 'r) find \<Rightarrow> 'p \<Rightarrow> int \<Rightarrow> 'r js" where
  "epochPda search programId epochId = 
     (if \<not> in_u64 epochId then Inl range_error
      else Inr (search [enc ''epoch'', u64le epochId] programId))"

definition claimPda :: "('p, 'r) find \<Rightarrow> 'p \<Rightarrow> int \<Rightarrow> pubkey \<Rightarrow> 'r js" where
  "claimPda search programId epochId staker = 
     (if \<not> in_u64 epochId then Inl range_error
      else Inr (search [enc ''claim'', u64le epochId, toBuffer staker] programId))"

definition intakeVaultPda :: "('p, 'r) find \<Rightarrow> 'p \<Rightarrow> 'r js" where
  "intakeVaultPda search programId = Inr (search [enc ''intake_vault''] programId)"

definition burnVaultPda :: "('p, 'r) find \<Rightarrow> 'p \<Rightarrow> 'r js" where
  "burnVaultPda search programId = Inr (search [enc ''burn_vault''] programId)"

definition stakerVaultPda :: "('p, 'r) find \<Rightarrow> 'p \<Rightarrow> 'r js" where
  "stakerVaultPda search programId = Inr (search [enc ''staker_vault''] programId)"

definition depositVaultPda :: "('p, 'r) find \<Rightarrow> 'p \<Rightarrow> 'r js" where
  "depositVaultPda search programId = Inr (search [enc ''deposit_vault''] programId)"

definition mintAuthorityPda :: "('p, 'r) find \<Rightarrow> 'p \<Rightarrow> 'r js" where
  "mintAuthorityPda search programId = Inr (search [enc ''mint_authority''] programId)"

definition transferFeeWithdrawAuthorityPda :: "('p, 'r) find \<Rightarrow> 'p \<Rightarrow> 'r js" where
  "transferFeeWithdrawAuthorityPda search programId = Inr (search [enc ''transfer_fee_withdraw_authority''] programId)"

subsection \<open>Staking\<close>

definition stakingPoolPda :: "('p, 'r) find \<Rightarrow> 'p \<Rightarrow> 'r js" where
  "stakingPoolPda search programId = Inr (search [enc ''staking_pool''] programId)"

definition stakeAccountPda :: "('p, 'r) find \<Rightarrow> 'p \<Rightarrow> pubkey \<Rightarrow> pubkey \<Rightarrow> 'r js" where
  "stakeAccountPda search programId pool owner = Inr (search [enc ''stake'', toBuffer pool, toBuffer owner] programId)"

definition stakeVaultPda :: "('p, 'r) find \<Rightarrow> 'p \<Rightarrow> pubkey \<Rightarrow> 'r js" where
  "stakeVaultPda search programId stakeAccount = Inr (search [enc ''stake_vault'', toBuffer stakeAccount] programId)"

definition apyAuthorityPda :: "('p, 'r) find \<Rightarrow> 'p \<Rightarrow> 'r js" where
  "apyAuthorityPda search programId = Inr (search [enc ''apy_authority''] programId)"

definition stakingConfigPda :: "('p, 'r) find \<Rightarrow> 'p \<Rightarrow> 'r js" where
  "stakingConfigPda search programId = Inr (search [enc ''staking_config''] programId)"

definition votingPowerSnapshotPda :: "('p, 'r) find \<Rightarrow> 'p \<Rightarrow> int \<Rightarrow> 'r js" where
  "votingPowerSnapshotPda search programId epoch = 
     (if \<not> in_u64 epoch then Inl range_error
      else Inr (search [enc ''epoch_snapshot'', u64le epoch] programId))"

subsection \<open>Template registry\<close>

definition templateGlobalPda :: "('p, 'r) find \<Rightarrow> 'p \<Rightarrow> 'r js" where
  "templateGlobalPda search programId = Inr (search [enc ''tpl_global''] programId)"

definition templatePda :: "('p, 'r) find \<Rightarrow> 'p \<Rightarrow> bytes \<Rightarrow> 'r js" where
  "templatePda search programId templateId = 
     (if length templateId \<noteq> 32 then Inl ''templateId must be 32 bytes''
      else Inr (search [enc ''template'', templateId] programId))"

definition rentalPda :: "('p, 'r) find \<Rightarrow> 'p \<Rightarrow> pubkey \<Rightarrow> pubkey \<Rightarrow> bytes \<Rightarrow> 'r js" where
  "rentalPda search programId template renter rentalNonce = 
     (if length rentalNonce \<noteq> 8 then Inl ''rentalNonce must be 8 bytes''
      else Inr (search [enc ''rental'', toBuffer template, toBuffer renter, rentalNonce] programId))"

definition rentalEscrowPda :: "('p, 'r) find \<Rightarrow> 'p \<Rightarrow> pubkey \<Rightarrow> 'r js" where
  "rentalEscrowPda search programId rental = Inr (search [enc ''rental_escrow'', toBuffer rental] programId)"

definition forkPda :: "('p, 'r) find \<Rightarrow> 'p \<Rightarrow> bytes \<Rightarrow> 'r js" where
  "forkPda search programId childAgentDid = 
     (if length childAgentDid \<noteq> 32 then Inl ''childAgentDid must be 32 bytes''
      else Inr (search [enc ''fork'', childAgentDid] programId))"

subsection \<open>Every derivation\<close>

text \<open>A call of one of the functions, by program. The three guard functions are one call.\<close>

datatype registry_pda =
    AgentRegistryGlobal
  | AgentAccount pubkey bytes
  | AgentStake pubkey
  | Guard
  | CategoryReputation bytes rat
  | RepAuthority

datatype treasury_pda =
    TreasuryGlobal
  | AllowedMints
  | TreasuryOf bytes
  | AllowedTargets bytes
  | YieldStrategy bytes
  | YieldConfig bytes
  | YieldPosition bytes bytes pubkey
  | YieldReceiptVault pubkey
  | Vault bytes pubkey

datatype market_pda =
    MarketGlobal
  | TaskAt pubkey bytes
  | TaskEscrow pubkey
  | BidBook bytes
  | BondEscrow bytes
  | BidAt bytes pubkey

datatype verifier_pda =
    VerifierConfig
  | VerifierKey bytes
  | VerifierMode
  | AllowedCallers
  | BatchState

datatype capability_pda =
    CapabilityConfig
  | StreamAt bytes pubkey bytes
  | StreamEscrow pubkey

datatype dispute_pda =
    DisputeConfig
  | DisputePool
  | DisputeCase int
  | Arbitrator pubkey
  | DisputeVote int pubkey
  | Appeal int
  | PendingSlash pubkey

datatype governance_pda =
    GovConfig
  | ProgramRegistry
  | ProposalAt int
  | VoteRecord pubkey pubkey
  | ExecutionRecord pubkey

datatype fee_pda =
    FeeConfig
  | HookAllowlist
  | AgentHooks bytes
  | EpochAt int
  | ClaimAt int pubkey
  | IntakeVault
  | BurnVault
  | StakerVault
  | DepositVault
  | MintAuthority
  | WithdrawAuthority

datatype staking_pda =
    StakingPool
  | StakeAccount pubkey pubkey
  | StakeVault pubkey
  | ApyAuthority
  | StakingConfig
  | EpochSnapshot int

datatype template_pda =
    TemplateGlobal
  | TemplateAt bytes
  | RentalAt pubkey pubkey bytes
  | RentalEscrow pubkey
  | ForkOf bytes

datatype pda_call =
    Registry registry_pda
  | Treasury treasury_pda
  | Market market_pda
  | Verifier verifier_pda
  | Capability capability_pda
  | Dispute dispute_pda
  | Governance governance_pda
  | Fee fee_pda
  | Staking staking_pda
  | Template template_pda

fun derive_registry_pda :: "('p, 'r) find \<Rightarrow> 'p \<Rightarrow> registry_pda \<Rightarrow> 'r js" where
  "derive_registry_pda search pid AgentRegistryGlobal = agentRegistryGlobalPda search pid"
| "derive_registry_pda search pid (AgentAccount x y) = agentAccountPda search pid x y"
| "derive_registry_pda search pid (AgentStake x) = agentStakePda search pid x"
| "derive_registry_pda search pid Guard = reentrancyGuardPda search pid"
| "derive_registry_pda search pid (CategoryReputation x y) = categoryReputationPda search pid x y"
| "derive_registry_pda search pid RepAuthority = proofVerifierRepAuthorityPda search pid"

fun derive_treasury_pda :: "('p, 'r) find \<Rightarrow> 'p \<Rightarrow> treasury_pda \<Rightarrow> 'r js" where
  "derive_treasury_pda search pid TreasuryGlobal = treasuryGlobalPda search pid"
| "derive_treasury_pda search pid AllowedMints = treasuryAllowedMintsPda search pid"
| "derive_treasury_pda search pid (TreasuryOf x) = treasuryPda search pid x"
| "derive_treasury_pda search pid (AllowedTargets x) = treasuryAllowedTargetsPda search pid x"
| "derive_treasury_pda search pid (YieldStrategy x) = treasuryYieldStrategyPda search pid x"
| "derive_treasury_pda search pid (YieldConfig x) = treasuryYieldConfigPda search pid x"
| "derive_treasury_pda search pid (YieldPosition x y z) = treasuryYieldPositionPda search pid x y z"
| "derive_treasury_pda search pid (YieldReceiptVault x) = treasuryYieldReceiptVaultPda search pid x"
| "derive_treasury_pda search pid (Vault x y) = vaultPda search pid x y"

fun derive_market_pda :: "('p, 'r) find \<Rightarrow> 'p \<Rightarrow> market_pda \<Rightarrow> 'r js" where
  "derive_market_pda search pid MarketGlobal = marketGlobalPda search pid"
| "derive_market_pda search pid (TaskAt x y) = taskPda search pid x y"
| "derive_market_pda search pid (TaskEscrow x) = taskEscrowPda search pid x"
| "derive_market_pda search pid (BidBook x) = bidBookPda search pid x"
| "derive_market_pda search pid (BondEscrow x) = bondEscrowPda search pid x"
| "derive_market_pda search pid (BidAt x y) = bidPda search pid x y"

fun derive_verifier_pda :: "('p, 'r) find \<Rightarrow> 'p \<Rightarrow> verifier_pda \<Rightarrow> 'r js" where
  "derive_verifier_pda search pid VerifierConfig = verifierConfigPda search pid"
| "derive_verifier_pda search pid (VerifierKey x) = verifierKeyPda search pid x"
| "derive_verifier_pda search pid VerifierMode = verifierModePda search pid"
| "derive_verifier_pda search pid AllowedCallers = proofVerifierAllowedCallersPda search pid"
| "derive_verifier_pda search pid BatchState = batchStatePda search pid"

fun derive_capability_pda :: "('p, 'r) find \<Rightarrow> 'p \<Rightarrow> capability_pda \<Rightarrow> 'r js" where
  "derive_capability_pda search pid CapabilityConfig = capabilityConfigPda search pid"
| "derive_capability_pda search pid (StreamAt x y z) = streamPda search pid x y z"
| "derive_capability_pda search pid (StreamEscrow x) = streamEscrowPda search pid x"

fun derive_dispute_pda :: "('p, 'r) find \<Rightarrow> 'p \<Rightarrow> dispute_pda \<Rightarrow> 'r js" where
  "derive_dispute_pda search pid DisputeConfig = disputeConfigPda search pid"
| "derive_dispute_pda search pid DisputePool = disputePoolPda search pid"
| "derive_dispute_pda search pid (DisputeCase x) = disputeCasePda search pid x"
| "derive_dispute_pda search pid (Arbitrator x) = arbitratorPda search pid x"
| "derive_dispute_pda search pid (DisputeVote x y) = disputeVotePda search pid x y"
| "derive_dispute_pda search pid (Appeal x) = appealPda search pid x"
| "derive_dispute_pda search pid (PendingSlash x) = pendingSlashPda search pid x"

fun derive_governance_pda :: "('p, 'r) find \<Rightarrow> 'p \<Rightarrow> governance_pda \<Rightarrow> 'r js" where
  "derive_governance_pda search pid GovConfig = govConfigPda search pid"
| "derive_governance_pda search pid ProgramRegistry = programRegistryPda search pid"
| "derive_governance_pda search pid (ProposalAt x) = proposalPda search pid x"
| "derive_governance_pda search pid (VoteRecord x y) = govVoteRecordPda search pid x y"
| "derive_governance_pda search pid (ExecutionRecord x) = executionRecordPda search pid x"

fun derive_fee_pda :: "('p, 'r) find \<Rightarrow> 'p \<Rightarrow> fee_pda \<Rightarrow> 'r js" where
  "derive_fee_pda search pid FeeConfig = feeConfigPda search pid"
| "derive_fee_pda search pid HookAllowlist = feeHookAllowlistPda search pid"
| "derive_fee_pda search pid (AgentHooks x) = feeAgentHooksPda search pid x"
| "derive_fee_pda search pid (EpochAt x) = epochPda search pid x"
| "derive_fee_pda search pid (ClaimAt x y) = claimPda search pid x y"
| "derive_fee_pda search pid IntakeVault = intakeVaultPda search pid"
| "derive_fee_pda search pid BurnVault = burnVaultPda search pid"
| "derive_fee_pda search pid StakerVault = stakerVaultPda search pid"
| "derive_fee_pda search pid DepositVault = depositVaultPda search pid"
| "derive_fee_pda search pid MintAuthority = mintAuthorityPda search pid"
| "derive_fee_pda search pid WithdrawAuthority = transferFeeWithdrawAuthorityPda search pid"

fun derive_staking_pda :: "('p, 'r) find \<Rightarrow> 'p \<Rightarrow> staking_pda \<Rightarrow> 'r js" where
  "derive_staking_pda search pid StakingPool = stakingPoolPda search pid"
| "derive_staking_pda search pid (StakeAccount x y) = stakeAccountPda search pid x y"
| "derive_staking_pda search pid (StakeVault x) = stakeVaultPda search pid x"
| "derive_staking_pda search pid ApyAuthority = apyAuthorityPda search pid"
| "derive_staking_pda search pid StakingConfig = stakingConfigPda search pid"
| "derive_staking_pda search pid (EpochSnapshot x) = votingPowerSnapshotPda search pid x"

fun derive_template_pda :: "('p, 'r) find \<Rightarrow> 'p \<Rightarrow> template_pda \<Rightarrow> 'r js" where
  "derive_template_pda search pid TemplateGlobal = templateGlobalPda search pid"
| "derive_template_pda search pid (TemplateAt x) = templatePda search pid x"
| "derive_template_pda search pid (RentalAt x y z) = rentalPda search pid x y z"
| "derive_template_pda search pid (RentalEscrow x) = rentalEscrowPda search pid x"
| "derive_template_pda search pid (ForkOf x) = forkPda search pid x"

fun derive :: "('p, 'r) find \<Rightarrow> 'p \<Rightarrow> pda_call \<Rightarrow> 'r js" where
  "derive search pid (Registry c) = derive_registry_pda search pid c"
| "derive search pid (Treasury c) = derive_treasury_pda search pid c"
| "derive search pid (Market c) = derive_market_pda search pid c"
| "derive search pid (Verifier c) = derive_verifier_pda search pid c"
| "derive search pid (Capability c) = derive_capability_pda search pid c"
| "derive search pid (Dispute c) = derive_dispute_pda search pid c"
| "derive search pid (Governance c) = derive_governance_pda search pid c"
| "derive search pid (Fee c) = derive_fee_pda search pid c"
| "derive search pid (Staking c) = derive_staking_pda search pid c"
| "derive search pid (Template c) = derive_template_pda search pid c"

subsection \<open>The shape of the seeds\<close>

text \<open>For each call the prefix and the other seeds; the table has the lengths; \<open>rebuild\<close> reads a call off its seeds.\<close>

definition key_of :: "bytes \<Rightarrow> pubkey" where
  "key_of bs = of_nat (be_nat bs)"

definition u64_of :: "bytes \<Rightarrow> int" where
  "u64_of bs = int (be_nat (rev bs))"

definition bit_of :: "bytes \<Rightarrow> rat" where
  "bit_of bs = of_nat (unat (bs ! 0))"

fun seeds_registry_pda :: "registry_pda \<Rightarrow> string \<times> bytes list" where
  "seeds_registry_pda AgentRegistryGlobal = (''global'', [])"
| "seeds_registry_pda (AgentAccount x y) = (''agent'', [toBuffer x, y])"
| "seeds_registry_pda (AgentStake x) = (''stake'', [toBuffer x])"
| "seeds_registry_pda Guard = (''guard'', [])"
| "seeds_registry_pda (CategoryReputation x y) = (''rep'', [x, bit_bytes y])"
| "seeds_registry_pda RepAuthority = (''rep_authority'', [])"

fun seeds_treasury_pda :: "treasury_pda \<Rightarrow> string \<times> bytes list" where
  "seeds_treasury_pda TreasuryGlobal = (''treasury_global'', [])"
| "seeds_treasury_pda AllowedMints = (''allowed_mints'', [])"
| "seeds_treasury_pda (TreasuryOf x) = (''treasury'', [x])"
| "seeds_treasury_pda (AllowedTargets x) = (''allowed_targets'', [x])"
| "seeds_treasury_pda (YieldStrategy x) = (''yield_strategy'', [x])"
| "seeds_treasury_pda (YieldConfig x) = (''yield_config'', [x])"
| "seeds_treasury_pda (YieldPosition x y z) = (''yield_position'', [x, y, toBuffer z])"
| "seeds_treasury_pda (YieldReceiptVault x) = (''yield_receipt_vault'', [toBuffer x])"
| "seeds_treasury_pda (Vault x y) = (''vault'', [x, toBuffer y])"

fun seeds_market_pda :: "market_pda \<Rightarrow> string \<times> bytes list" where
  "seeds_market_pda MarketGlobal = (''market_global'', [])"
| "seeds_market_pda (TaskAt x y) = (''task'', [toBuffer x, y])"
| "seeds_market_pda (TaskEscrow x) = (''task_escrow'', [toBuffer x])"
| "seeds_market_pda (BidBook x) = (''bid_book'', [x])"
| "seeds_market_pda (BondEscrow x) = (''bond_escrow'', [x])"
| "seeds_market_pda (BidAt x y) = (''bid'', [x, toBuffer y])"

fun seeds_verifier_pda :: "verifier_pda \<Rightarrow> string \<times> bytes list" where
  "seeds_verifier_pda VerifierConfig = (''verifier_config'', [])"
| "seeds_verifier_pda (VerifierKey x) = (''vk'', [x])"
| "seeds_verifier_pda VerifierMode = (''mode'', [])"
| "seeds_verifier_pda AllowedCallers = (''allowed_callers'', [])"
| "seeds_verifier_pda BatchState = (''batch'', [])"

fun seeds_capability_pda :: "capability_pda \<Rightarrow> string \<times> bytes list" where
  "seeds_capability_pda CapabilityConfig = (''config'', [])"
| "seeds_capability_pda (StreamAt x y z) = (''stream'', [x, toBuffer y, z])"
| "seeds_capability_pda (StreamEscrow x) = (''stream_escrow'', [toBuffer x])"

fun seeds_dispute_pda :: "dispute_pda \<Rightarrow> string \<times> bytes list" where
  "seeds_dispute_pda DisputeConfig = (''dispute_config'', [])"
| "seeds_dispute_pda DisputePool = (''dispute_pool'', [])"
| "seeds_dispute_pda (DisputeCase x) = (''dispute_case'', [u64le x])"
| "seeds_dispute_pda (Arbitrator x) = (''arbitrator'', [toBuffer x])"
| "seeds_dispute_pda (DisputeVote x y) = (''dispute_vote'', [u64le x, toBuffer y])"
| "seeds_dispute_pda (Appeal x) = (''appeal'', [u64le x])"
| "seeds_dispute_pda (PendingSlash x) = (''pending_slash'', [toBuffer x])"

fun seeds_governance_pda :: "governance_pda \<Rightarrow> string \<times> bytes list" where
  "seeds_governance_pda GovConfig = (''governance_config'', [])"
| "seeds_governance_pda ProgramRegistry = (''program_registry'', [])"
| "seeds_governance_pda (ProposalAt x) = (''proposal'', [u64le x])"
| "seeds_governance_pda (VoteRecord x y) = (''vote'', [toBuffer x, toBuffer y])"
| "seeds_governance_pda (ExecutionRecord x) = (''execution'', [toBuffer x])"

fun seeds_fee_pda :: "fee_pda \<Rightarrow> string \<times> bytes list" where
  "seeds_fee_pda FeeConfig = (''fee_config'', [])"
| "seeds_fee_pda HookAllowlist = (''hook_allowlist'', [])"
| "seeds_fee_pda (AgentHooks x) = (''agent_hooks'', [x])"
| "seeds_fee_pda (EpochAt x) = (''epoch'', [u64le x])"
| "seeds_fee_pda (ClaimAt x y) = (''claim'', [u64le x, toBuffer y])"
| "seeds_fee_pda IntakeVault = (''intake_vault'', [])"
| "seeds_fee_pda BurnVault = (''burn_vault'', [])"
| "seeds_fee_pda StakerVault = (''staker_vault'', [])"
| "seeds_fee_pda DepositVault = (''deposit_vault'', [])"
| "seeds_fee_pda MintAuthority = (''mint_authority'', [])"
| "seeds_fee_pda WithdrawAuthority = (''transfer_fee_withdraw_authority'', [])"

fun seeds_staking_pda :: "staking_pda \<Rightarrow> string \<times> bytes list" where
  "seeds_staking_pda StakingPool = (''staking_pool'', [])"
| "seeds_staking_pda (StakeAccount x y) = (''stake'', [toBuffer x, toBuffer y])"
| "seeds_staking_pda (StakeVault x) = (''stake_vault'', [toBuffer x])"
| "seeds_staking_pda ApyAuthority = (''apy_authority'', [])"
| "seeds_staking_pda StakingConfig = (''staking_config'', [])"
| "seeds_staking_pda (EpochSnapshot x) = (''epoch_snapshot'', [u64le x])"

fun seeds_template_pda :: "template_pda \<Rightarrow> string \<times> bytes list" where
  "seeds_template_pda TemplateGlobal = (''tpl_global'', [])"
| "seeds_template_pda (TemplateAt x) = (''template'', [x])"
| "seeds_template_pda (RentalAt x y z) = (''rental'', [toBuffer x, toBuffer y, z])"
| "seeds_template_pda (RentalEscrow x) = (''rental_escrow'', [toBuffer x])"
| "seeds_template_pda (ForkOf x) = (''fork'', [x])"

fun seeds :: "pda_call \<Rightarrow> string \<times> bytes list" where
  "seeds (Registry c) = seeds_registry_pda c"
| "seeds (Treasury c) = seeds_treasury_pda c"
| "seeds (Market c) = seeds_market_pda c"
| "seeds (Verifier c) = seeds_verifier_pda c"
| "seeds (Capability c) = seeds_capability_pda c"
| "seeds (Dispute c) = seeds_dispute_pda c"
| "seeds (Governance c) = seeds_governance_pda c"
| "seeds (Fee c) = seeds_fee_pda c"
| "seeds (Staking c) = seeds_staking_pda c"
| "seeds (Template c) = seeds_template_pda c"

definition pda_table :: "(string \<times> nat list) list" where
  "pda_table =
     [(''global'', []),
      (''agent'', [32, 32]),
      (''stake'', [32]),
      (''guard'', []),
      (''rep'', [32, 2]),
      (''rep_authority'', []),
      (''treasury_global'', []),
      (''allowed_mints'', []),
      (''treasury'', [32]),
      (''allowed_targets'', [32]),
      (''yield_strategy'', [32]),
      (''yield_config'', [32]),
      (''yield_position'', [32, 32, 32]),
      (''yield_receipt_vault'', [32]),
      (''vault'', [32, 32]),
      (''market_global'', []),
      (''task'', [32, 8]),
      (''task_escrow'', [32]),
      (''bid_book'', [32]),
      (''bond_escrow'', [32]),
      (''bid'', [32, 32]),
      (''verifier_config'', []),
      (''vk'', [32]),
      (''mode'', []),
      (''allowed_callers'', []),
      (''batch'', []),
      (''config'', []),
      (''stream'', [32, 32, 8]),
      (''stream_escrow'', [32]),
      (''dispute_config'', []),
      (''dispute_pool'', []),
      (''dispute_case'', [8]),
      (''arbitrator'', [32]),
      (''dispute_vote'', [8, 32]),
      (''appeal'', [8]),
      (''pending_slash'', [32]),
      (''governance_config'', []),
      (''program_registry'', []),
      (''proposal'', [8]),
      (''vote'', [32, 32]),
      (''execution'', [32]),
      (''fee_config'', []),
      (''hook_allowlist'', []),
      (''agent_hooks'', [32]),
      (''epoch'', [8]),
      (''claim'', [8, 32]),
      (''intake_vault'', []),
      (''burn_vault'', []),
      (''staker_vault'', []),
      (''deposit_vault'', []),
      (''mint_authority'', []),
      (''transfer_fee_withdraw_authority'', []),
      (''staking_pool'', []),
      (''stake'', [32, 32]),
      (''stake_vault'', [32]),
      (''apy_authority'', []),
      (''staking_config'', []),
      (''epoch_snapshot'', [8]),
      (''tpl_global'', []),
      (''template'', [32]),
      (''rental'', [32, 32, 8]),
      (''rental_escrow'', [32]),
      (''fork'', [32])]"

definition rebuild :: "string \<times> bytes list \<Rightarrow> pda_call" where
  "rebuild s = (case s of (p, as) \<Rightarrow>
      if p = ''global'' then Registry AgentRegistryGlobal
      else if p = ''agent'' then Registry (AgentAccount (key_of (as ! 0)) (as ! 1))
      else if p = ''stake'' \<and> length as = 1 then Registry (AgentStake (key_of (as ! 0)))
      else if p = ''guard'' then Registry Guard
      else if p = ''rep'' then Registry (CategoryReputation (as ! 0) (bit_of (as ! 1)))
      else if p = ''rep_authority'' then Registry RepAuthority
      else if p = ''treasury_global'' then Treasury TreasuryGlobal
      else if p = ''allowed_mints'' then Treasury AllowedMints
      else if p = ''treasury'' then Treasury (TreasuryOf (as ! 0))
      else if p = ''allowed_targets'' then Treasury (AllowedTargets (as ! 0))
      else if p = ''yield_strategy'' then Treasury (YieldStrategy (as ! 0))
      else if p = ''yield_config'' then Treasury (YieldConfig (as ! 0))
      else if p = ''yield_position'' then Treasury (YieldPosition (as ! 0) (as ! 1) (key_of (as ! 2)))
      else if p = ''yield_receipt_vault'' then Treasury (YieldReceiptVault (key_of (as ! 0)))
      else if p = ''vault'' then Treasury (Vault (as ! 0) (key_of (as ! 1)))
      else if p = ''market_global'' then Market MarketGlobal
      else if p = ''task'' then Market (TaskAt (key_of (as ! 0)) (as ! 1))
      else if p = ''task_escrow'' then Market (TaskEscrow (key_of (as ! 0)))
      else if p = ''bid_book'' then Market (BidBook (as ! 0))
      else if p = ''bond_escrow'' then Market (BondEscrow (as ! 0))
      else if p = ''bid'' then Market (BidAt (as ! 0) (key_of (as ! 1)))
      else if p = ''verifier_config'' then Verifier VerifierConfig
      else if p = ''vk'' then Verifier (VerifierKey (as ! 0))
      else if p = ''mode'' then Verifier VerifierMode
      else if p = ''allowed_callers'' then Verifier AllowedCallers
      else if p = ''batch'' then Verifier BatchState
      else if p = ''config'' then Capability CapabilityConfig
      else if p = ''stream'' then Capability (StreamAt (as ! 0) (key_of (as ! 1)) (as ! 2))
      else if p = ''stream_escrow'' then Capability (StreamEscrow (key_of (as ! 0)))
      else if p = ''dispute_config'' then Dispute DisputeConfig
      else if p = ''dispute_pool'' then Dispute DisputePool
      else if p = ''dispute_case'' then Dispute (DisputeCase (u64_of (as ! 0)))
      else if p = ''arbitrator'' then Dispute (Arbitrator (key_of (as ! 0)))
      else if p = ''dispute_vote'' then Dispute (DisputeVote (u64_of (as ! 0)) (key_of (as ! 1)))
      else if p = ''appeal'' then Dispute (Appeal (u64_of (as ! 0)))
      else if p = ''pending_slash'' then Dispute (PendingSlash (key_of (as ! 0)))
      else if p = ''governance_config'' then Governance GovConfig
      else if p = ''program_registry'' then Governance ProgramRegistry
      else if p = ''proposal'' then Governance (ProposalAt (u64_of (as ! 0)))
      else if p = ''vote'' then Governance (VoteRecord (key_of (as ! 0)) (key_of (as ! 1)))
      else if p = ''execution'' then Governance (ExecutionRecord (key_of (as ! 0)))
      else if p = ''fee_config'' then Fee FeeConfig
      else if p = ''hook_allowlist'' then Fee HookAllowlist
      else if p = ''agent_hooks'' then Fee (AgentHooks (as ! 0))
      else if p = ''epoch'' then Fee (EpochAt (u64_of (as ! 0)))
      else if p = ''claim'' then Fee (ClaimAt (u64_of (as ! 0)) (key_of (as ! 1)))
      else if p = ''intake_vault'' then Fee IntakeVault
      else if p = ''burn_vault'' then Fee BurnVault
      else if p = ''staker_vault'' then Fee StakerVault
      else if p = ''deposit_vault'' then Fee DepositVault
      else if p = ''mint_authority'' then Fee MintAuthority
      else if p = ''transfer_fee_withdraw_authority'' then Fee WithdrawAuthority
      else if p = ''staking_pool'' then Staking StakingPool
      else if p = ''stake'' then Staking (StakeAccount (key_of (as ! 0)) (key_of (as ! 1)))
      else if p = ''stake_vault'' then Staking (StakeVault (key_of (as ! 0)))
      else if p = ''apy_authority'' then Staking ApyAuthority
      else if p = ''staking_config'' then Staking StakingConfig
      else if p = ''epoch_snapshot'' then Staking (EpochSnapshot (u64_of (as ! 0)))
      else if p = ''tpl_global'' then Template TemplateGlobal
      else if p = ''template'' then Template (TemplateAt (as ! 0))
      else if p = ''rental'' then Template (RentalAt (key_of (as ! 0)) (key_of (as ! 1)) (as ! 2))
      else if p = ''rental_escrow'' then Template (RentalEscrow (key_of (as ! 0)))
      else Template (ForkOf (as ! 0)))"

subsection \<open>Lemmas\<close>

lemma length_toBuffer [simp]: "length (toBuffer k) = 32"
  by (simp add: toBuffer_def)

lemma key_of_toBuffer [simp]: "key_of (toBuffer k) = k"
proof -
  have "unat k < 2 ^ 256" using unsigned_less [of k, where 'a = nat] by simp
  then have "unat k mod 256 ^ 32 = unat k" by simp
  then have "be_nat (toBuffer k) = unat k" by (simp only: toBuffer_def be_nat_be_bytes)
  then show ?thesis by (simp add: key_of_def)
qed

lemma length_u64le [simp]: "length (u64le n) = 8"
  by (simp add: u64le_def)

lemma u64_of_u64le [simp]: "in_u64 n \<Longrightarrow> u64_of (u64le n) = n"
  by (simp add: u64_of_def u64le_def in_u64_def be_nat_be_bytes nat_less_iff)

lemma length_bit_bytes [simp]: "length (bit_bytes b) = 2"
  by (simp add: bit_bytes_def Let_def)

lemma bit_of_bit_bytes [simp]:
  assumes "isInteger b" and "0 \<le> b" and "b \<le> 127"
  shows "bit_of (bit_bytes b) = b"
proof -
  define n where "n = nat \<lfloor>b\<rfloor>"
  have n: "\<lfloor>b\<rfloor> = int n" "b = of_nat n" using assms by (simp_all add: n_def isInteger_def)
  with assms(3) have "n < 256" by simp
  then have "unat (of_nat n :: 8 word) = n" using unat_of_nat_byte [of n] by simp
  moreover have "of_int (int n mod 256) = (of_nat n :: 8 word)" using \<open>n < 256\<close> by simp
  ultimately show ?thesis using n by (simp add: bit_of_def bit_bytes_def Let_def)
qed

text \<open>Two rows of the table clash when a text of each shape may be the same.\<close>

definition row_size :: "string \<times> nat list \<Rightarrow> nat" where
  "row_size r = length (fst r) + sum_list (snd r)"

definition rows_clash :: "string \<times> nat list \<Rightarrow> string \<times> nat list \<Rightarrow> bool" where
  "rows_clash a b \<longleftrightarrow> (startsWith (fst a) (fst b) \<or> startsWith (fst b) (fst a)) \<and> row_size a = row_size b"

lemma table_unambiguous: "list_all (\<lambda>a. list_all (\<lambda>b. rows_clash a b \<longrightarrow> a = b) pda_table) pda_table"
  by code_simp

definition shaped :: "pda_call \<Rightarrow> bool" where
  "shaped q \<longleftrightarrow> (fst (seeds q), map length (snd (seeds q))) \<in> set pda_table \<and> rebuild (seeds q) = q"

definition made_of :: "(('p, 'r) find) \<Rightarrow> 'p \<Rightarrow> pda_call \<Rightarrow> 'r \<Rightarrow> bool" where
  "made_of search pid q r \<longleftrightarrow> r = search (enc (fst (seeds q)) # snd (seeds q)) pid"

lemma derive_registry_pda_made:
  "derive_registry_pda search pid c = Inr r \<Longrightarrow> made_of search pid (Registry c) r \<and> shaped (Registry c)"
  by (cases c) (auto simp: made_of_def shaped_def pda_table_def rebuild_def agentRegistryGlobalPda_def agentAccountPda_def agentStakePda_def reentrancyGuardPda_def categoryReputationPda_def proofVerifierRepAuthorityPda_def split: if_splits)

lemma derive_treasury_pda_made:
  "derive_treasury_pda search pid c = Inr r \<Longrightarrow> made_of search pid (Treasury c) r \<and> shaped (Treasury c)"
  by (cases c) (auto simp: made_of_def shaped_def pda_table_def rebuild_def treasuryGlobalPda_def treasuryAllowedMintsPda_def treasuryPda_def treasuryAllowedTargetsPda_def treasuryYieldStrategyPda_def treasuryYieldConfigPda_def treasuryYieldPositionPda_def treasuryYieldReceiptVaultPda_def vaultPda_def split: if_splits)

lemma derive_market_pda_made:
  "derive_market_pda search pid c = Inr r \<Longrightarrow> made_of search pid (Market c) r \<and> shaped (Market c)"
  by (cases c) (auto simp: made_of_def shaped_def pda_table_def rebuild_def marketGlobalPda_def taskPda_def taskEscrowPda_def bidBookPda_def bondEscrowPda_def bidPda_def split: if_splits)

lemma derive_verifier_pda_made:
  "derive_verifier_pda search pid c = Inr r \<Longrightarrow> made_of search pid (Verifier c) r \<and> shaped (Verifier c)"
  by (cases c) (auto simp: made_of_def shaped_def pda_table_def rebuild_def verifierConfigPda_def verifierKeyPda_def verifierModePda_def proofVerifierAllowedCallersPda_def batchStatePda_def split: if_splits)

lemma derive_capability_pda_made:
  "derive_capability_pda search pid c = Inr r \<Longrightarrow> made_of search pid (Capability c) r \<and> shaped (Capability c)"
  by (cases c) (auto simp: made_of_def shaped_def pda_table_def rebuild_def capabilityConfigPda_def streamPda_def streamEscrowPda_def split: if_splits)

lemma derive_dispute_pda_made:
  "derive_dispute_pda search pid c = Inr r \<Longrightarrow> made_of search pid (Dispute c) r \<and> shaped (Dispute c)"
  by (cases c) (auto simp: made_of_def shaped_def pda_table_def rebuild_def disputeConfigPda_def disputePoolPda_def disputeCasePda_def arbitratorPda_def disputeVotePda_def appealPda_def pendingSlashPda_def split: if_splits)

lemma derive_governance_pda_made:
  "derive_governance_pda search pid c = Inr r \<Longrightarrow> made_of search pid (Governance c) r \<and> shaped (Governance c)"
  by (cases c) (auto simp: made_of_def shaped_def pda_table_def rebuild_def govConfigPda_def programRegistryPda_def proposalPda_def govVoteRecordPda_def executionRecordPda_def split: if_splits)

lemma derive_fee_pda_made:
  "derive_fee_pda search pid c = Inr r \<Longrightarrow> made_of search pid (Fee c) r \<and> shaped (Fee c)"
  by (cases c) (auto simp: made_of_def shaped_def pda_table_def rebuild_def feeConfigPda_def feeHookAllowlistPda_def feeAgentHooksPda_def epochPda_def claimPda_def intakeVaultPda_def burnVaultPda_def stakerVaultPda_def depositVaultPda_def mintAuthorityPda_def transferFeeWithdrawAuthorityPda_def split: if_splits)

lemma derive_staking_pda_made:
  "derive_staking_pda search pid c = Inr r \<Longrightarrow> made_of search pid (Staking c) r \<and> shaped (Staking c)"
  by (cases c) (auto simp: made_of_def shaped_def pda_table_def rebuild_def stakingPoolPda_def stakeAccountPda_def stakeVaultPda_def apyAuthorityPda_def stakingConfigPda_def votingPowerSnapshotPda_def split: if_splits)

lemma derive_template_pda_made:
  "derive_template_pda search pid c = Inr r \<Longrightarrow> made_of search pid (Template c) r \<and> shaped (Template c)"
  by (cases c) (auto simp: made_of_def shaped_def pda_table_def rebuild_def templateGlobalPda_def templatePda_def rentalPda_def rentalEscrowPda_def forkPda_def split: if_splits)

lemmas derive_made = derive_registry_pda_made derive_treasury_pda_made derive_market_pda_made derive_verifier_pda_made derive_capability_pda_made derive_dispute_pda_made derive_governance_pda_made derive_fee_pda_made derive_staking_pda_made derive_template_pda_made

lemma derive_shape: "derive search pid q = Inr r \<Longrightarrow> made_of search pid q r \<and> shaped q"
  by (cases q) (simp_all add: derive_made)

lemma table_row_unique:
  assumes "a \<in> set pda_table" and "b \<in> set pda_table" and "rows_clash a b"
  shows "a = b"
  using table_unambiguous assms by (simp add: list_all_iff)

lemma encoded_prefix:
  assumes "prefix (text_encode p) (text_encode q)"
  shows "startsWith q p"
proof -
  from assms obtain zs where "text_encode q = text_encode p @ zs" by (auto simp: prefix_def)
  then have "text_encode (take (length p) q) = text_encode p"
    by (metis append_eq_conv_conj length_text_encode take_map text_encode_def)
  then show ?thesis by (simp add: text_encode_inj startsWith_def)
qed

lemma same_text_clash:
  assumes "enc p @ concat as = enc q @ concat bs"
  shows "rows_clash (p, map length as) (q, map length bs)"
proof -
  have len: "length p + sum_list (map length as) = length q + sum_list (map length bs)"
    using arg_cong [OF assms, of length] by (simp add: enc_def length_concat)
  have "prefix (enc p) (enc q @ concat bs)" "prefix (enc q) (enc q @ concat bs)" unfolding assms [symmetric] by simp_all
      (metis assms prefixI)
  then have "prefix (enc p) (enc q) \<or> prefix (enc q) (enc p)" by (rule prefix_same_cases)
  then have "startsWith q p \<or> startsWith p q" unfolding enc_def using encoded_prefix by blast
  then show ?thesis using len by (auto simp: rows_clash_def row_size_def)
qed

lemma concat_same_lengths:
  "concat as = concat bs \<Longrightarrow> map length as = map length bs \<Longrightarrow> as = bs"
proof (induction as arbitrary: bs)
  case (Cons a as)
  then show ?case by (cases bs) auto
qed simp

subsection \<open>Properties\<close>

text \<open>
  C26. No two different calls of the address functions share an address under one program, if the search maps seeds with
  different concatenations to different addresses: the kind of account and every argument can be read off the address. The
  calls that throw are those with an argument of the wrong length or out of range.
\<close>

theorem addresses_never_collide:
  assumes "\<And>s1 s2. search s1 pid = search s2 pid \<Longrightarrow> concat s1 = concat s2"
    and "derive search pid call1 = Inr r" and "derive search pid call2 = Inr r"
  shows "call1 = call2"
proof -
  obtain p as where s1: "seeds call1 = (p, as)" by fastforce
  obtain q bs where s2: "seeds call2 = (q, bs)" by fastforce
  note shape1 = derive_shape [OF assms(2)] and shape2 = derive_shape [OF assms(3)]
  have "search (enc p # as) pid = search (enc q # bs) pid"
    using shape1 shape2 s1 s2 by (simp add: made_of_def)
  from assms(1) [OF this] have same: "enc p @ concat as = enc q @ concat bs" by simp
  then have "(p, map length as) = (q, map length bs)"
    using shape1 shape2 s1 s2 by (intro table_row_unique same_text_clash) (simp_all add: shaped_def)
  then have "p = q" "as = bs" using same concat_same_lengths [of as bs] by auto
  then show ?thesis using shape1 shape2 s1 s2 by (simp add: shaped_def)
qed

theorem addresses_never_collide_witness:
  "derive (\<lambda>s p. (concat s, p)) () (Market (TaskAt 7 (replicate 8 1))) \<noteq> derive (\<lambda>s p. (concat s, p)) () (Market (TaskAt 7 (replicate 8 2)))"
proof
  let ?d = "derive (\<lambda>s p. (concat s, p)) ()"
  assume eq: "?d (Market (TaskAt 7 (replicate 8 1))) = ?d (Market (TaskAt 7 (replicate 8 2)))"
  obtain r where r: "?d (Market (TaskAt 7 (replicate 8 1))) = Inr r" by (simp add: taskPda_def)
  have "Market (TaskAt 7 (replicate 8 (1 :: 8 word))) = Market (TaskAt 7 (replicate 8 2))"
    using addresses_never_collide [OF _ r r [unfolded eq]] by simp
  then show False by simp
qed

text \<open>Every seed has at most 32 bytes, the limit of the runtime, so the search is never refused for its seeds.\<close>

lemma seeds_within_limit:
  assumes "derive search pid q = Inr r"
  shows "list_all (\<lambda>s. length s \<le> 32) (enc (fst (seeds q)) # snd (seeds q))"
proof -
  have rows: "list_all (\<lambda>r. length (fst r) \<le> 32 \<and> list_all (\<lambda>n. n \<le> 32) (snd r)) pda_table" by code_simp
  have "(fst (seeds q), map length (snd (seeds q))) \<in> set pda_table"
    using derive_shape [OF assms] by (simp add: shaped_def)
  with rows have "length (fst (seeds q)) \<le> 32 \<and> list_all (\<lambda>n. n \<le> 32) (map length (snd (seeds q)))"
    by (auto simp: list_all_iff)
  then show ?thesis by (simp add: enc_def list.pred_map comp_def)
qed

lemma guards_agree: "guardPda search pid = reentrancyGuardPda search pid" "proofVerifierGuardPda search pid = guardPda search pid"
  by (simp_all add: guardPda_def reentrancyGuardPda_def proofVerifierGuardPda_def)

end
