(* ===== verification/Tx_Submit.thy ===== *)
theory Tx_Submit
  imports Saep_Prelude
begin

text \<open>
  Transaction submission of the SDK: bundles for the Jito block engine (\<open>packages/sdk/src/submit/jito.ts\<close>,
  \<open>packages/sdk/src/jito/client.ts\<close>, \<open>tip.ts\<close>, \<open>bundle.ts\<close>) and the staked RPC node with priority fees
  (\<open>submit/staked.ts\<close>). The three retry loops have one contract, the locale \<open>retry_loop\<close>. The
  network is a function from the number of a request to its answer.
\<close>

subsection \<open>The contract of a retry loop\<close>

text \<open>\<open>run i n prev\<close>: requests \<open>i\<close>, \<open>i + 1\<close>, \<dots>, at most \<open>n\<close> of them, with \<open>prev\<close> the last error so far. The
  result is the number of the next request and a value, or the last error.\<close>

locale retry_loop =
  fixes attempt :: "nat \<Rightarrow> 'e + 'r"
    and fatal :: "'e \<Rightarrow> bool"
    and run :: "nat \<Rightarrow> nat \<Rightarrow> 'e option \<Rightarrow> nat \<times> ('e option + 'r)"
  assumes run_0: "run i 0 prev = (i, Inl prev)"
    and run_Suc: "run i (Suc n) prev = (case attempt i of
      Inr r \<Rightarrow> (Suc i, Inr r) | Inl e \<Rightarrow> if fatal e then (Suc i, Inl (Some e)) else run (Suc i) n (Some e))"
begin

lemma requests_bounded: "fst (run i n prev) \<le> i + n"
proof (induction n arbitrary: i prev)
  case (Suc n)
  from Suc.IH [of "Suc i"] show ?case by (simp add: run_Suc split: sum.split)
qed (simp add: run_0)

lemma first_success:
  assumes "run i n prev = (k, Inr r)"
  shows "\<exists>j < n. k = Suc (i + j) \<and> attempt (i + j) = Inr r \<and> (\<forall>m < j. \<exists>e. attempt (i + m) = Inl e \<and> \<not> fatal e)"
  using assms
proof (induction n arbitrary: i prev)
  case 0
  then show ?case by (simp add: run_0)
next
  case (Suc n)
  show ?case
  proof (cases "attempt i")
    case (Inr v)
    with Suc.prems show ?thesis by (intro exI [of _ 0]) (simp add: run_Suc)
  next
    case (Inl e)
    with Suc.prems have nf: "\<not> fatal e" and rest: "run (Suc i) n (Some e) = (k, Inr r)" by (auto simp: run_Suc split: if_splits)
    from Suc.IH [OF rest] obtain j where j: "j < n" "k = Suc (Suc i + j)" "attempt (Suc i + j) = Inr r"
      "\<forall>m < j. \<exists>e. attempt (Suc i + m) = Inl e \<and> \<not> fatal e" by blast
    have "\<exists>e. attempt (i + m) = Inl e \<and> \<not> fatal e" if "m < Suc j" for m
      using that Inl nf j(4) by (cases m) auto
    with j show ?thesis by (intro exI [of _ "Suc j"]) auto
  qed
qed

lemma before_failure:
  assumes "run i n prev = (k, Inl e)" and "i + j + 1 < k"
  shows "\<exists>err. attempt (i + j) = Inl err \<and> \<not> fatal err"
  using assms
proof (induction n arbitrary: i j prev)
  case 0
  then show ?case by (simp add: run_0)
next
  case (Suc n)
  from Suc.prems obtain err where err: "attempt i = Inl err" by (cases "attempt i") (auto simp: run_Suc)
  with Suc.prems have nf: "\<not> fatal err" by (auto simp: run_Suc)
  with Suc.prems err have rest: "run (Suc i) n (Some err) = (k, Inl e)" by (simp add: run_Suc)
  show ?case
  proof (cases j)
    case 0
    with err nf show ?thesis by simp
  next
    case (Suc j')
    with Suc.IH [OF rest, of j'] Suc.prems(2) show ?thesis by simp
  qed
qed

lemma succeeds:
  assumes "j < n" and "attempt (i + j) = Inr r" and "\<forall>m < j. \<exists>e. attempt (i + m) = Inl e \<and> \<not> fatal e"
  shows "run i n prev = (Suc (i + j), Inr r)"
  using assms
proof (induction n arbitrary: i j prev)
  case (Suc n)
  show ?case
  proof (cases j)
    case 0
    with Suc.prems show ?thesis by (simp add: run_Suc)
  next
    case (Suc j')
    from Suc.prems(3) obtain e where e: "attempt i = Inl e" "\<not> fatal e" using Suc by auto
    have "\<forall>m < j'. \<exists>e. attempt (Suc i + m) = Inl e \<and> \<not> fatal e"
    proof (intro allI impI)
      fix m assume "m < j'"
      then have "Suc m < j" using Suc by simp
      with Suc.prems(3) show "\<exists>e. attempt (Suc i + m) = Inl e \<and> \<not> fatal e" by (metis add_Suc_shift)
    qed
    then have "run (Suc i) n (Some e) = (Suc (Suc i + j'), Inr r)" using Suc.prems Suc by (intro Suc.IH) auto
    with e Suc show ?thesis by (simp add: run_Suc)
  qed
qed simp

lemma fails:
  assumes "run i n prev = (k, Inl e)" and "0 < n"
  shows "\<exists>err. e = Some err \<and> i < k \<and> attempt (k - 1) = Inl err \<and> (fatal err \<or> k = i + n)"
  using assms
proof (induction n arbitrary: i prev)
  case (Suc n)
  show ?case
  proof (cases "attempt i")
    case (Inr v)
    with Suc.prems show ?thesis by (simp add: run_Suc)
  next
    case (Inl err)
    show ?thesis
    proof (cases "fatal err")
      case True
      with Inl Suc.prems show ?thesis by (auto simp: run_Suc)
    next
      case False
      with Inl Suc.prems have rest: "run (Suc i) n (Some err) = (k, Inl e)" by (simp add: run_Suc)
      show ?thesis
      proof (cases n)
        case 0
        with rest Inl show ?thesis by (auto simp: run_0)
      next
        case (Suc n')
        with Suc.IH [OF rest] show ?thesis by auto
      qed
    qed
  qed
qed simp

end

subsection \<open>Doubles\<close>

text \<open>The products of the tip computation are IEEE doubles: the exact value rounded to 53 significant bits, ties to even
  (the range of the exponent is left out).\<close>

fun bit_count :: "nat \<Rightarrow> nat" where
  "bit_count n = (if n = 0 then 0 else Suc (bit_count (n div 2)))"

declare bit_count.simps [simp del]

definition ilog2 :: "rat \<Rightarrow> int" where
  "ilog2 x = (case quotient_of x of (p, q) \<Rightarrow>
     let e = int (bit_count (nat p)) - int (bit_count (nat q)) in if 2 powi e \<le> x then e else e - 1)"

definition round_even :: "rat \<Rightarrow> int" where
  "round_even x = (let n = \<lfloor>x\<rfloor>; r = x - of_int n in
     if r < 1 / 2 then n else if r > 1 / 2 then n + 1 else if even n then n else n + 1)"

definition double_pos :: "rat \<Rightarrow> rat" where
  "double_pos x = (let u = 2 powi (ilog2 x - 52) in of_int (round_even (x / u)) * u)"

definition double :: "rat \<Rightarrow> rat" where
  "double x = (if x = 0 then 0 else if x < 0 then - double_pos (- x) else double_pos x)"

lemma round_even_nonneg: "0 \<le> x \<Longrightarrow> 0 \<le> round_even x"
  by (auto simp: round_even_def Let_def)

lemma double_nonneg: "0 \<le> x \<Longrightarrow> 0 \<le> double x"
  by (auto simp: double_def double_pos_def Let_def intro!: mult_nonneg_nonneg round_even_nonneg)

subsection \<open>Tips (jito/tip.ts and submit/jito.ts)\<close>

definition TIP_FLOOR_LAMPORTS :: int where
  "TIP_FLOOR_LAMPORTS = 1000"

definition TIP_HEADROOM :: rat where
  "TIP_HEADROOM = double (12 / 10)"

definition TIP_CAP_BPS :: rat where
  "TIP_CAP_BPS = 100"

definition JITO_TIP_ACCOUNTS :: "string list" where
  "JITO_TIP_ACCOUNTS =
     [''96gYZGLnJYVFmbjzopPSU6QiEV5fGqZNyN9nmNhvrZU5'',
      ''HFqU5x63VTqvQss8hp11i4bPuAqfr4XCBQNGLDn7PkJE'',
      ''Cw8CFyM9FkoMi7K7Crf6HNQqf4uEMzpKw6QNghXLvLkY'',
      ''ADaUMid9yfUytqMBgopwjb2DTLSLGSMBSVGaDBS9kmMP'',
      ''DfXygSm4jCyNCybVYYK6DwvWqjKee8pbDmJGcLWNDXjh'',
      ''ADuUkR4vqLUMWXxW9gh6D6L8pMSawimctcNZ5pGwDcEt'',
      ''DttWaMuVvTiduZRnguLF7jNxTgiMBZ1hyAumKUiL6d33'',
      ''3AVi9Tg9Uo68tJfuvoKvqKNWKkC5wPdSSdeBnizKZ6jT'']"

text \<open>\<open>rnd\<close> is the value of \<open>Math.random\<close>, in \<open>[0, 1)\<close>.\<close>

definition pickTipAccount :: "rat \<Rightarrow> string" where
  "pickTipAccount rnd = JITO_TIP_ACCOUNTS ! nat \<lfloor>double (rnd * of_nat (length JITO_TIP_ACCOUNTS))\<rfloor>"

text \<open>A missing recent tip and a tip of zero are the same to the code.\<close>

definition computeTip :: "rat option \<Rightarrow> nat option \<Rightarrow> int" where
  "computeTip recentTipLamports taskPaymentLamports =
     (let base = (case recentTipLamports of None \<Rightarrow> TIP_FLOOR_LAMPORTS
            | Some t \<Rightarrow> if t = 0 then TIP_FLOOR_LAMPORTS else \<lceil>double (t * TIP_HEADROOM)\<rceil>);
          tip = max base TIP_FLOOR_LAMPORTS in
      case taskPaymentLamports of
        None \<Rightarrow> tip
      | Some p \<Rightarrow> let cap = double (double (double (of_nat p) * TIP_CAP_BPS) / 10000) in
          min tip (max \<lfloor>cap\<rfloor> TIP_FLOOR_LAMPORTS))"

record ClampTipOptions =
  tip_floor :: rat
  tip_cap :: rat
  paymentAmount :: "rat option"
  paymentPct :: "rat option"

definition pay_cap :: "ClampTipOptions \<Rightarrow> int \<Rightarrow> int" where
  "pay_cap opts capAbs = (case (paymentAmount opts, paymentPct opts) of
     (Some a, Some p) \<Rightarrow> if a > 0 \<and> p > 0 then \<lfloor>double (a * p)\<rfloor> else capAbs | _ \<Rightarrow> capAbs)"

text \<open>A tip that is not a finite number is \<open>None\<close>.\<close>

definition clampTipLamports :: "rat option \<Rightarrow> ClampTipOptions \<Rightarrow> int" where
  "clampTipLamports tip opts =
     (let t = (case tip of None \<Rightarrow> 0 | Some x \<Rightarrow> if x < 0 then 0 else x);
          fl = max 0 \<lfloor>tip_floor opts\<rfloor>; capAbs = max fl \<lfloor>tip_cap opts\<rfloor>;
          effectiveCap = min capAbs (pay_cap opts capAbs) in
      min (max \<lceil>t\<rceil> fl) (max effectiveCap fl))"

subsection \<open>Answers of an RPC node\<close>

text \<open>A reply to a request: a network failure, or a status with what \<open>text()\<close> and \<open>json()\<close> of the response give; a body
  that is not JSON is a thrown message. \<open>rb_error\<close> is the error object with its optional message.\<close>

record 'a rpc_body =
  rb_result :: "'a option"
  rb_error :: "string option option"

datatype 'a reply = NetFail string | Resp nat "string js" "'a rpc_body js"

definition or_else :: "'a option \<Rightarrow> 'a \<Rightarrow> 'a" where
  "or_else x d = (case x of None \<Rightarrow> d | Some v \<Rightarrow> v)"

definition ok_status :: "nat \<Rightarrow> bool" where
  "ok_status st \<longleftrightarrow> 200 \<le> st \<and> st < 300"

subsection \<open>Bundles (submit/jito.ts)\<close>

datatype JitoKind = KRateLimited | KServer | KClient | KNetwork | KRpc

record JitoError =
  je_kind :: JitoKind
  je_message :: string
  je_status :: "nat option"

text \<open>What the calls throw: an instance of \<open>JitoError\<close>, or any other error with its message.\<close>

datatype thrown = Plain string | Jito JitoError

definition safeText :: "string js \<Rightarrow> string" where
  "safeText t = (case t of Inl _ \<Rightarrow> [] | Inr s \<Rightarrow> s)"

definition jito_rpc :: "'a reply \<Rightarrow> thrown + 'a option" where
  "jito_rpc rep = (case rep of
     NetFail msg \<Rightarrow> Inl (Jito \<lparr>je_kind = KNetwork, je_message = msg, je_status = None\<rparr>)
   | Resp st txt body \<Rightarrow>
      if st = 429 then Inl (Jito \<lparr>je_kind = KRateLimited, je_message = ''jito 429'', je_status = Some 429\<rparr>)
      else if st \<ge> 500 then Inl (Jito \<lparr>je_kind = KServer, je_message = ''jito '' @ show_nat st @ '': '' @ safeText txt, je_status = Some st\<rparr>)
      else if \<not> ok_status st then Inl (Jito \<lparr>je_kind = KClient, je_message = ''jito '' @ show_nat st @ '': '' @ safeText txt, je_status = Some st\<rparr>)
      else (case body of
          Inl e \<Rightarrow> Inl (Plain e)
        | Inr b \<Rightarrow> (case rb_error b of
            Some m \<Rightarrow> Inl (Jito \<lparr>je_kind = KRpc, je_message = or_else m ''rpc error'', je_status = None\<rparr>)
          | None \<Rightarrow> Inr (rb_result b))))"

definition client_error :: "thrown \<Rightarrow> bool" where
  "client_error e = (case e of Jito j \<Rightarrow> je_kind j = KClient | Plain _ \<Rightarrow> False)"

fun submit_attempts :: "(nat \<Rightarrow> 'a reply) \<Rightarrow> nat \<Rightarrow> nat \<Rightarrow> thrown option \<Rightarrow> nat \<times> (thrown option + 'a option)" where
  "submit_attempts net i 0 lastError = (i, Inl lastError)"
| "submit_attempts net i (Suc n) lastError = (case jito_rpc (net i) of
     Inr r \<Rightarrow> (Suc i, Inr r)
   | Inl err \<Rightarrow> if client_error err then (Suc i, Inl (Some err)) else submit_attempts net (Suc i) n (Some err))"

interpretation submit: retry_loop "\<lambda>i. jito_rpc (net i)" client_error "submit_attempts net"
  for net
  by unfold_locales (simp_all split: sum.split)

text \<open>\<open>submitBundle\<close>: the number of requests made and the bundle id, or the error it throws.\<close>

definition submitBundle :: "int \<Rightarrow> (nat \<Rightarrow> string reply) \<Rightarrow> 'tx list \<Rightarrow> int option \<Rightarrow> nat \<times> (thrown + string option)" where
  "submitBundle retries net txs optRetries =
     (if txs = [] then (0, Inl (Plain ''submitBundle: empty tx list''))
      else if length txs > 5 then (0, Inl (Plain ''submitBundle: max 5 txs per bundle''))
      else (case submit_attempts net 0 (nat (or_else optRetries retries + 1)) None of
          (k, Inr r) \<Rightarrow> (k, Inr r)
        | (k, Inl (Some e)) \<Rightarrow> (k, Inl e)
        | (k, Inl None) \<Rightarrow> (k, Inl (Jito \<lparr>je_kind = KNetwork, je_message = ''sendBundle failed with no error'', je_status = None\<rparr>))))"

datatype InflightBundleStatus = IPending | ILanded nat | IFailed string | IUnknown

record status_entry =
  st_status :: string
  st_slot :: "nat option"
  st_err :: "string option option"

definition entry_reason :: "status_entry \<Rightarrow> string" where
  "entry_reason e = (case st_err e of Some (Some m) \<Rightarrow> m | _ \<Rightarrow> ''unknown'')"

text \<open>The result of \<open>getInflightBundleStatuses\<close> is its optional \<open>value\<close> list; reading it off a missing result is a type
  error with the engine's message \<open>undef\<close>.\<close>

definition getInflightBundleStatus :: "string \<Rightarrow> status_entry list option reply \<Rightarrow> JitoError + InflightBundleStatus" where
  "getInflightBundleStatus undef rep = (case jito_rpc rep of
     Inl (Jito e) \<Rightarrow> Inl e
   | Inl (Plain m) \<Rightarrow> Inl \<lparr>je_kind = KNetwork, je_message = m, je_status = None\<rparr>
   | Inr None \<Rightarrow> Inl \<lparr>je_kind = KNetwork, je_message = undef, je_status = None\<rparr>
   | Inr (Some value) \<Rightarrow> (case value of
       Some (e # _) \<Rightarrow> Inr (if st_status e = ''Landed'' then ILanded (or_else (st_slot e) 0)
          else if st_status e = ''Failed'' then IFailed (entry_reason e)
          else if st_status e = ''Pending'' \<or> st_status e = ''Invalid'' then IPending else IUnknown)
     | _ \<Rightarrow> Inr IUnknown))"

definition getTipAccounts :: "string list reply \<Rightarrow> thrown + string list" where
  "getTipAccounts rep = (case jito_rpc rep of Inl e \<Rightarrow> Inl e | Inr r \<Rightarrow> Inr (or_else r []))"

text \<open>The fallback sends the transactions one by one: the transactions handed to the node, and the signatures or the
  first failure.\<close>

fun send_each :: "('tx \<Rightarrow> string js) \<Rightarrow> 'tx list \<Rightarrow> string list \<Rightarrow> 'tx list \<times> string list js" where
  "send_each sendRaw [] sigs = ([], Inr sigs)"
| "send_each sendRaw (tx # txs) sigs = (case sendRaw tx of
     Inl e \<Rightarrow> ([tx], Inl e)
   | Inr sig \<Rightarrow> (case send_each sendRaw txs (sigs @ [sig]) of (sent, r) \<Rightarrow> (tx # sent, r)))"

datatype bundle_outcome = Bundle "string option" | Fallback "string list"

definition submitBundleOrFallback :: "int \<Rightarrow> (nat \<Rightarrow> string reply) \<Rightarrow> bool \<Rightarrow> ('tx \<Rightarrow> string js) option \<Rightarrow> 'tx list
    \<Rightarrow> 'tx list \<times> (thrown + bundle_outcome)" where
  "submitBundleOrFallback retries net allowFallback sendRaw txs =
     (case submitBundle retries net txs None of
        (_, Inr b) \<Rightarrow> ([], Inr (Bundle b))
      | (_, Inl err) \<Rightarrow> (case sendRaw of
          None \<Rightarrow> ([], Inl err)
        | Some f \<Rightarrow> if \<not> allowFallback then ([], Inl err)
            else (case send_each f txs [] of (sent, Inl e) \<Rightarrow> (sent, Inl (Plain e)) | (sent, Inr sigs) \<Rightarrow> (sent, Inr (Fallback sigs)))))"

subsection \<open>The bundle client (jito/client.ts)\<close>

definition rpcCall :: "'a reply \<Rightarrow> string + 'a option" where
  "rpcCall rep = (case rep of
     NetFail msg \<Rightarrow> Inl msg
   | Resp st txt body \<Rightarrow>
      if \<not> ok_status st then (case txt of Inl e \<Rightarrow> Inl e | Inr t \<Rightarrow> Inl (''jito rpc '' @ show_nat st @ '': '' @ t))
      else (case body of
          Inl e \<Rightarrow> Inl e
        | Inr b \<Rightarrow> (case rb_error b of
            Some m \<Rightarrow> Inl (''jito rpc error: '' @ or_else m ''undefined'')
          | None \<Rightarrow> Inr (rb_result b))))"

fun bundle_attempts :: "(nat \<Rightarrow> 'a reply) \<Rightarrow> nat \<Rightarrow> nat \<Rightarrow> string option \<Rightarrow> nat \<times> (string option + 'a option)" where
  "bundle_attempts net i 0 lastError = (i, Inl lastError)"
| "bundle_attempts net i (Suc n) lastError = (case rpcCall (net i) of
     Inr r \<Rightarrow> (Suc i, Inr r)
   | Inl err \<Rightarrow> bundle_attempts net (Suc i) n (Some err))"

interpretation bundles: retry_loop "\<lambda>i. rpcCall (net i)" "\<lambda>_. False" "bundle_attempts net"
  for net
  by unfold_locales (simp_all split: sum.split)

text \<open>A result is any JSON value; the client reads the field \<open>bundleId\<close> of it. \<open>sendBundle\<close> throws \<open>null\<close> (here \<open>Inl None\<close>)
  when the number of retries is negative.\<close>

datatype bundle_json = BText string | BObject "string option"

definition sendBundle :: "int \<Rightarrow> (nat \<Rightarrow> bundle_json reply) \<Rightarrow> nat \<times> (string option + bundle_json option)" where
  "sendBundle maxRetries net = bundle_attempts net 0 (nat (maxRetries + 1)) None"

definition bundleId_of :: "bundle_json \<Rightarrow> string option" where
  "bundleId_of r = (case r of BText _ \<Rightarrow> None | BObject i \<Rightarrow> i)"

datatype BundleStatus = SLanded nat | SPending | SFailed string

definition getBundleStatus :: "status_entry list option reply \<Rightarrow> BundleStatus" where
  "getBundleStatus rep = (case rpcCall rep of
     Inr (Some (Some (e # _))) \<Rightarrow>
       (if st_status e = ''Landed'' then SLanded (or_else (st_slot e) 0)
        else if st_status e = ''Failed'' then SFailed (entry_reason e) else SPending)
   | _ \<Rightarrow> SPending)"

text \<open>Reading \<open>bundleId\<close> of a missing result throws inside the \<open>try\<close>, so it takes the fallback too.\<close>

definition sendWithFallback :: "int \<Rightarrow> (nat \<Rightarrow> bundle_json reply) \<Rightarrow> bool \<Rightarrow> ('tx \<Rightarrow> string js) \<Rightarrow> 'tx list
    \<Rightarrow> 'tx list \<times> bundle_outcome js" where
  "sendWithFallback maxRetries net allowFallback sendRaw txs =
     (case sendBundle maxRetries net of
        (_, Inr (Some r)) \<Rightarrow> ([], Inr (Bundle (bundleId_of r)))
      | _ \<Rightarrow> if \<not> allowFallback then ([], Inl ''bundle failed and fallback disabled'')
          else (case send_each sendRaw txs [] of (sent, Inl e) \<Rightarrow> (sent, Inl e) | (sent, Inr sigs) \<Rightarrow> (sent, Inr (Fallback sigs))))"

subsection \<open>The staked node (submit/staked.ts)\<close>

definition estimate_unavailable :: "string \<Rightarrow> string" where
  "estimate_unavailable reason = ''getPriorityFeeEstimate unavailable: '' @ reason"

text \<open>The result is the optional \<open>priorityFeeEstimate\<close>, present only when it is a finite number.\<close>

definition getHeliusPriorityFeeEstimate :: "rat option reply \<Rightarrow> int js" where
  "getHeliusPriorityFeeEstimate rep = (case rep of
     NetFail msg \<Rightarrow> Inl msg
   | Resp st txt body \<Rightarrow>
      if \<not> ok_status st then Inl (estimate_unavailable (''http '' @ show_nat st))
      else (case body of
          Inl e \<Rightarrow> Inl e
        | Inr b \<Rightarrow> (case rb_error b of
            Some m \<Rightarrow> Inl (estimate_unavailable (or_else m ''rpc error''))
          | None \<Rightarrow> (case rb_result b of
              Some (Some v) \<Rightarrow> Inr (max 0 \<lceil>v\<rceil>)
            | _ \<Rightarrow> Inl (estimate_unavailable ''missing priorityFeeEstimate'')))))"

record PriorityFeeOptions =
  fee_cap :: "rat option"
  fee_floor :: "rat option"

definition clampPriorityFee :: "rat \<Rightarrow> PriorityFeeOptions \<Rightarrow> int" where
  "clampPriorityFee estimate opts =
     (let v0 = max 0 \<lceil>estimate\<rceil>;
          v1 = (case fee_floor opts of None \<Rightarrow> v0 | Some f \<Rightarrow> max v0 \<lceil>f\<rceil>) in
      case fee_cap opts of None \<Rightarrow> v1 | Some c \<Rightarrow> min v1 \<lfloor>c\<rfloor>)"

text \<open>An instruction is the base58 program id and its data. The compute budget program's id and its two instruction
  builders belong to web3.js: parameters \<open>cb\<close> of the definitions below.\<close>

type_synonym instruction = "string \<times> nat list"

record compute_budget =
  cb_program :: string
  setComputeUnitLimit :: "rat \<Rightarrow> instruction"
  setComputeUnitPrice :: "int \<Rightarrow> instruction"

definition ix_tag :: "instruction \<Rightarrow> nat option" where
  "ix_tag ix = (case snd ix of [] \<Rightarrow> None | b # _ \<Rightarrow> Some b)"

text \<open>The pair of \<open>price\<close> and \<open>limit\<close>.\<close>

fun hasComputeBudgetIx :: "compute_budget \<Rightarrow> instruction list \<Rightarrow> bool \<times> bool \<Rightarrow> bool \<times> bool" where
  "hasComputeBudgetIx cb [] acc = acc"
| "hasComputeBudgetIx cb (ix # ixs) (price, limit) =
     (if fst ix \<noteq> cb_program cb then hasComputeBudgetIx cb ixs (price, limit)
      else if ix_tag ix = Some 2 then hasComputeBudgetIx cb ixs (price, True)
      else if ix_tag ix = Some 3 then hasComputeBudgetIx cb ixs (True, limit)
      else hasComputeBudgetIx cb ixs (price, limit))"

text \<open>\<open>BigInt\<close> of a number that is not an integer is a range error (message \<open>not_int\<close>).\<close>

definition limit_prefix :: "compute_budget \<Rightarrow> rat option \<Rightarrow> bool \<Rightarrow> instruction list" where
  "limit_prefix cb cuLimit present = (case cuLimit of Some u \<Rightarrow> if present then [] else [setComputeUnitLimit cb u] | None \<Rightarrow> [])"

definition withPriorityFee :: "compute_budget \<Rightarrow> string \<Rightarrow> instruction list \<Rightarrow> rat \<Rightarrow> rat option \<Rightarrow> instruction list js" where
  "withPriorityFee cb not_int ixs microLamports cuLimit =
     (case hasComputeBudgetIx cb ixs (False, False) of (price, limit) \<Rightarrow>
        let pre = limit_prefix cb cuLimit limit in
        if microLamports > 0 \<and> \<not> price
        then (if of_int \<lfloor>microLamports\<rfloor> = microLamports then Inr (pre @ [setComputeUnitPrice cb \<lfloor>microLamports\<rfloor>] @ ixs) else Inl not_int)
        else Inr (pre @ ixs))"

definition rpcSend :: "string reply \<Rightarrow> string js" where
  "rpcSend rep = (case rep of
     NetFail msg \<Rightarrow> Inl msg
   | Resp st txt body \<Rightarrow>
      if \<not> ok_status st then (case txt of Inl e \<Rightarrow> Inl e | Inr t \<Rightarrow> Inl (''staked rpc '' @ show_nat st @ '': '' @ t))
      else (case body of
          Inl e \<Rightarrow> Inl e
        | Inr b \<Rightarrow> (case rb_error b of
            Some m \<Rightarrow> Inl (''staked rpc error: '' @ or_else m ''unknown'')
          | None \<Rightarrow> (case rb_result b of
              Some (c # cs) \<Rightarrow> Inr (c # cs)
            | _ \<Rightarrow> Inl ''staked rpc returned no signature''))))"

fun staked_attempts :: "(nat \<Rightarrow> string reply) \<Rightarrow> nat \<Rightarrow> nat \<Rightarrow> string option \<Rightarrow> nat \<times> (string option + string)" where
  "staked_attempts net i 0 lastError = (i, Inl lastError)"
| "staked_attempts net i (Suc n) lastError = (case rpcSend (net i) of
     Inr r \<Rightarrow> (Suc i, Inr r)
   | Inl err \<Rightarrow> staked_attempts net (Suc i) n (Some err))"

interpretation staked: retry_loop "\<lambda>i. rpcSend (net i)" "\<lambda>_. False" "staked_attempts net"
  for net
  by unfold_locales (simp_all split: sum.split)

definition sendRaw :: "int \<Rightarrow> (nat \<Rightarrow> string reply) \<Rightarrow> string js option \<Rightarrow> int option \<Rightarrow> nat \<times> string js" where
  "sendRaw retries net fallback optRetries =
     (case staked_attempts net 0 (nat (or_else optRetries retries + 1)) None of
        (k, Inr sig) \<Rightarrow> (k, Inr sig)
      | (k, Inl lastError) \<Rightarrow> (case fallback of
          Some r \<Rightarrow> (k, r)
        | None \<Rightarrow> (k, Inl (or_else lastError ''staked submit failed''))))"

subsection \<open>The settlement bundle (jito/bundle.ts)\<close>

text \<open>\<open>transfer\<close> is \<open>SystemProgram.transfer\<close> of web3.js.\<close>

definition buildSettlementBundle :: "(string \<Rightarrow> string \<Rightarrow> rat \<Rightarrow> 'ix) \<Rightarrow> rat \<Rightarrow> 'ix list \<Rightarrow> string
    \<Rightarrow> rat option \<Rightarrow> nat option \<Rightarrow> rat option \<Rightarrow> 'ix list" where
  "buildSettlementBundle transfer rnd instructions payer tipLamports taskPaymentLamports recentTipLamports =
     (let tip = computeTip recentTipLamports taskPaymentLamports in
      instructions @ [transfer payer (pickTipAccount rnd) (or_else tipLamports (of_int tip))])"

subsection \<open>Properties\<close>


definition sample_reply :: "nat \<Rightarrow> string reply" where
  "sample_reply i = (if i = 0 then NetFail ''timeout'' else if i = 1 then Resp 429 (Inr []) (Inl ''none'')
     else Resp 200 (Inr []) (Inr \<lparr>rb_result = Some ''b1'', rb_error = None\<rparr>))"


lemma send_each_prefix:
  "send_each f txs sigs = (sent, r) \<Longrightarrow>
    (case r of
       Inr out \<Rightarrow> sent = txs \<and> (\<exists>new. out = sigs @ new \<and> map f txs = map Inr new)
     | Inl e \<Rightarrow> \<exists>ok tx rest. txs = ok @ tx # rest \<and> sent = ok @ [tx] \<and> f tx = Inl e \<and> (\<forall>t \<in> set ok. \<exists>s. f t = Inr s))"
proof (induction txs arbitrary: sigs sent)
  case (Cons tx txs)
  show ?case
  proof (cases "f tx")
    case (Inl e)
    with Cons.prems show ?thesis by (auto intro!: exI [of _ "[]"])
  next
    case (Inr s)
    obtain sent' where rest: "send_each f txs (sigs @ [s]) = (sent', r)" and sent: "sent = tx # sent'"
      using Cons.prems Inr by (auto split: prod.splits)
    show ?thesis
    proof (cases r)
      case r: (Inr out)
      with Cons.IH [OF rest] Inr sent show ?thesis by auto
    next
      case r: (Inl e)
      with Cons.IH [OF rest] obtain ok t rs where ok: "txs = ok @ t # rs" "sent' = ok @ [t]" "f t = Inl e" "\<forall>t \<in> set ok. \<exists>s. f t = Inr s" by auto
      have "tx # txs = (tx # ok) @ t # rs \<and> sent = (tx # ok) @ [t] \<and> f t = Inl e \<and> (\<forall>t \<in> set (tx # ok). \<exists>s. f t = Inr s)"
        using ok sent Inr by simp
      with r show ?thesis by (simp del: append_Cons)
    qed
  qed
qed auto

text \<open>
  The fallback of a bundle keeps its order: with the bundle accepted nothing is sent alone; a fallback that returns
  has sent every transaction in order, its signatures being theirs; one that throws after the bundle failed has sent
  either nothing or the transactions up to and including the first that was refused.
\<close>

theorem fallback_in_order:
  assumes "submitBundleOrFallback retries net allowFallback send txs = (sent, res)"
  shows "case res of
      Inr (Bundle b) \<Rightarrow> sent = [] \<and> snd (submitBundle retries net txs None) = Inr b
    | Inr (Fallback sigs) \<Rightarrow> allowFallback \<and> sent = txs \<and> (\<exists>f. send = Some f \<and> map f txs = map Inr sigs)
    | Inl e \<Rightarrow> sent = [] \<and> snd (submitBundle retries net txs None) = Inl e \<or>
        (\<exists>f m ok tx rest. send = Some f \<and> e = Plain m \<and> txs = ok @ tx # rest \<and> sent = ok @ [tx] \<and> f tx = Inl m \<and>
          (\<forall>t \<in> set ok. \<exists>s. f t = Inr s))"
proof -
  obtain k r where sub: "submitBundle retries net txs None = (k, r)" by fastforce
  show ?thesis
  proof (cases "\<exists>e f. r = Inl e \<and> send = Some f \<and> allowFallback")
    case False
    with sub assms show ?thesis by (auto simp: submitBundleOrFallback_def split: sum.splits option.splits if_splits)
  next
    case True
    then obtain e f where r: "r = Inl e" and f: "send = Some f" and allow: allowFallback by blast
    obtain s v where each: "send_each f txs [] = (s, v)" by fastforce
    show ?thesis
    proof (cases v)
      case (Inr sigs)
      with each r f allow sub assms send_each_prefix [OF each] show ?thesis by (auto simp: submitBundleOrFallback_def)
    next
      case (Inl m)
      with each r f allow sub assms have "sent = s" "res = Inl (Plain m)" by (auto simp: submitBundleOrFallback_def)
      with send_each_prefix [OF each] Inl f show ?thesis by simp
    qed
  qed
qed

theorem fallback_in_order_witness:
  "submitBundleOrFallback 0 sample_reply True (Some (\<lambda>n. if n < (3 :: nat) then Inr [char_of (48 + n)] else Inl ''no'')) [1, 2]
     = ([1, 2], Inr (Fallback [''1'', ''2'']))
   \<and> map (\<lambda>n. if n < (3 :: nat) then Inr [char_of (48 + n)] else Inl ''no'') [1, 2] = map Inr [''1'', ''2'']"
proof -
  let ?f = "\<lambda>n. if n < (3 :: nat) then Inr [char_of (48 + n)] else Inl ''no''"
  have run: "submitBundleOrFallback 0 sample_reply True (Some ?f) [1, 2] = ([1, 2], Inr (Fallback [''1'', ''2'']))" by code_simp
  from fallback_in_order [OF run] run show ?thesis by simp
qed

text \<open>A clamped tip is never below the floor, never above the larger of floor and cap, and never above the share of
  the payment unless the floor is; inside those bounds it is the tip rounded up.\<close>

theorem clampTipLamports_bounds:
  "let fl = max 0 \<lfloor>tip_floor opts\<rfloor>; r = clampTipLamports tip opts; capAbs = max fl \<lfloor>tip_cap opts\<rfloor> in
     fl \<le> r \<and> r \<le> capAbs \<and> (r = fl \<or> r \<le> pay_cap opts capAbs) \<and>
     (\<forall>t. tip = Some t \<and> fl \<le> \<lceil>t\<rceil> \<and> \<lceil>t\<rceil> \<le> capAbs \<and> \<lceil>t\<rceil> \<le> pay_cap opts capAbs \<longrightarrow> r = max 0 \<lceil>t\<rceil>)"
proof -
  define fl where "fl = max 0 \<lfloor>tip_floor opts\<rfloor>"
  define capAbs where "capAbs = max fl \<lfloor>tip_cap opts\<rfloor>"
  define pc where "pc = pay_cap opts capAbs"
  define c where "c = \<lceil>case tip of None \<Rightarrow> 0 | Some x \<Rightarrow> if x < 0 then 0 else x\<rceil>"
  have r: "clampTipLamports tip opts = min (max c fl) (max (min capAbs pc) fl)"
    by (simp add: clampTipLamports_def Let_def fl_def capAbs_def pc_def c_def)
  have "c = max 0 \<lceil>t\<rceil>" if "tip = Some t" for t
    using that ceiling_mono [of t 0] ceiling_mono [of 0 t] by (cases "t < 0") (simp_all add: c_def)
  moreover have "0 \<le> fl" "fl \<le> capAbs" by (simp_all add: fl_def capAbs_def)
  ultimately show ?thesis
    unfolding Let_def r fl_def [symmetric] capAbs_def [symmetric] pc_def [symmetric] by auto
qed

lemma computeTip_floor: "TIP_FLOOR_LAMPORTS \<le> computeTip recent payment"
  by (auto simp: computeTip_def Let_def split: option.split)

lemma pickTipAccount_member:
  assumes "0 \<le> double (rnd * 8)" and "double (rnd * 8) < 8"
  shows "pickTipAccount rnd \<in> set JITO_TIP_ACCOUNTS"
proof -
  have len: "length JITO_TIP_ACCOUNTS = 8" by (simp add: JITO_TIP_ACCOUNTS_def)
  have "nat \<lfloor>double (rnd * 8)\<rfloor> < 8" using assms by (simp add: floor_less_iff nat_less_iff)
  then show ?thesis unfolding pickTipAccount_def len by (intro nth_mem) (simp add: len)
qed

lemma hasComputeBudgetIx_acc:
  "hasComputeBudgetIx cb ixs (p, l) =
     (p \<or> (\<exists>ix \<in> set ixs. fst ix = cb_program cb \<and> ix_tag ix = Some 3),
      l \<or> (\<exists>ix \<in> set ixs. fst ix = cb_program cb \<and> ix_tag ix = Some 2))"
  by (induction ixs arbitrary: p l) auto

text \<open>What web3.js documents of the two builders: instructions of the compute budget program, with the tags 2 and 3.\<close>

definition budget_tags :: "compute_budget \<Rightarrow> bool" where
  "budget_tags cb \<longleftrightarrow>
     (\<forall>u. fst (setComputeUnitLimit cb u) = cb_program cb \<and> ix_tag (setComputeUnitLimit cb u) = Some 2) \<and>
     (\<forall>m. fst (setComputeUnitPrice cb m) = cb_program cb \<and> ix_tag (setComputeUnitPrice cb m) = Some 3)"

text \<open>
  Pricing a transaction keeps its instructions, as the end of the new list, with at most two before them, and is
  idempotent: pricing the result again, with any price and any limit where the first call had both, changes nothing.
\<close>

theorem withPriorityFee_idempotent:
  assumes "budget_tags cb" and "withPriorityFee cb e ixs fee limit = Inr out"
  shows "(\<exists>pre. out = pre @ ixs \<and> length pre \<le> 2 \<and> (\<forall>ix \<in> set pre. fst ix = cb_program cb)) \<and>
    withPriorityFee cb e out fee limit = Inr out \<and>
    (0 < fee \<and> limit \<noteq> None \<longrightarrow> (\<forall>fee' limit'. withPriorityFee cb e out fee' limit' = Inr out))"
proof -
  obtain price lim where has: "hasComputeBudgetIx cb ixs (False, False) = (price, lim)" by fastforce
  have tags: "fst (setComputeUnitLimit cb u) = cb_program cb" "ix_tag (setComputeUnitLimit cb u) = Some 2"
    "fst (setComputeUnitPrice cb m) = cb_program cb" "ix_tag (setComputeUnitPrice cb m) = Some 3" for u m
    using assms(1) by (simp_all add: budget_tags_def)
  define pre where "pre = limit_prefix cb limit lim @ (if fee > 0 \<and> \<not> price then [setComputeUnitPrice cb \<lfloor>fee\<rfloor>] else [])"
  have out: "out = pre @ ixs"
    using assms(2) has by (auto simp: withPriorityFee_def pre_def Let_def split: if_splits)
  have pre: "length pre \<le> 2" "\<forall>ix \<in> set pre. fst ix = cb_program cb"
    by (auto simp: pre_def limit_prefix_def tags split: option.splits)
  have has': "hasComputeBudgetIx cb out (False, False) = (price \<or> fee > 0, lim \<or> limit \<noteq> None)"
    using has by (auto simp: out pre_def limit_prefix_def hasComputeBudgetIx_acc tags split: option.splits)
  have again: "withPriorityFee cb e out fee' limit' = Inr out"
    if "fee' > 0 \<longrightarrow> price \<or> fee > 0" "limit' \<noteq> None \<longrightarrow> lim \<or> limit \<noteq> None" for fee' limit'
    using that by (auto simp: withPriorityFee_def has' limit_prefix_def Let_def split: option.split)
  show ?thesis using out pre again by auto
qed

definition sample_budget :: compute_budget where
  "sample_budget = \<lparr>cb_program = ''CB'', setComputeUnitLimit = \<lambda>u. (''CB'', [2, nat \<lfloor>u\<rfloor>]),
     setComputeUnitPrice = \<lambda>m. (''CB'', [3, nat m])\<rparr>"

theorem withPriorityFee_idempotent_witness:
  "withPriorityFee sample_budget ''e'' [(''P'', [1])] 7 (Some 9) = Inr [(''CB'', [2, 9]), (''CB'', [3, 7]), (''P'', [1])] \<and>
   withPriorityFee sample_budget ''e'' [(''CB'', [2, 9]), (''CB'', [3, 7]), (''P'', [1])] 8 None
     = Inr [(''CB'', [2, 9]), (''CB'', [3, 7]), (''P'', [1])]"
proof -
  have tags: "budget_tags sample_budget" by (simp add: budget_tags_def sample_budget_def ix_tag_def)
  have run: "withPriorityFee sample_budget ''e'' [(''P'', [1])] 7 (Some 9) = Inr [(''CB'', [2, 9]), (''CB'', [3, 7]), (''P'', [1])]"
    by code_simp
  have "(0 :: rat) < 7 \<and> Some (9 :: rat) \<noteq> None" by simp
  with withPriorityFee_idempotent [OF tags run] run show ?thesis by blast
qed

text \<open>The cap of a priority fee wins over its floor.\<close>

lemma clampPriorityFee_cap: "fee_cap opts = Some c \<Longrightarrow> clampPriorityFee x opts \<le> \<lfloor>c\<rfloor>"
  by (simp add: clampPriorityFee_def Let_def)

lemma clampPriorityFee_floor_lost: "clampPriorityFee 50 \<lparr>fee_cap = Some 10, fee_floor = Some 20\<rparr> = 10"
  by code_simp

text \<open>\<open>sendBundle\<close> of the block engine returns the bundle id as a plain string; the client then reports no id.\<close>

lemma sendWithFallback_loses_id:
  assumes "rpcCall (net 0) = Inr (Some (BText b))" and "0 \<le> maxRetries"
  shows "sendWithFallback maxRetries net allow send txs = ([], Inr (Bundle None))"
proof -
  obtain n where "nat (maxRetries + 1) = Suc n" using assms(2) by (cases "nat (maxRetries + 1)") simp_all
  with assms(1) show ?thesis by (simp add: sendWithFallback_def sendBundle_def bundleId_of_def)
qed

text \<open>
  Submission through the staked node makes at most \<open>retries + 1\<close> requests. It returns a signature of the node exactly
  when one of those requests succeeds, namely the first; otherwise it gives what the fallback connection answers, or
  throws the error of the last request.
\<close>

theorem sendRaw_outcome:
  assumes "0 \<le> or_else optRetries retries" and "sendRaw retries net fallback optRetries = (k, res)"
  shows "int k \<le> or_else optRetries retries + 1 \<and>
    (if \<exists>j. int j \<le> or_else optRetries retries \<and> (\<exists>s. rpcSend (net j) = Inr s)
     then 0 < k \<and> rpcSend (net (k - 1)) = res \<and> (\<exists>s. res = Inr s) \<and> (\<forall>j. j + 1 < k \<longrightarrow> (\<exists>e. rpcSend (net j) = Inl e))
     else int k = or_else optRetries retries + 1 \<and> res = (case fallback of Some r \<Rightarrow> r | None \<Rightarrow> rpcSend (net (k - 1))))"
proof -
  define n where "n = nat (or_else optRetries retries + 1)"
  have n: "0 < n" "int n = or_else optRetries retries + 1" using assms(1) by (simp_all add: n_def)
  have lt: "int j \<le> or_else optRetries retries \<longleftrightarrow> j < n" for j using n(2) by linarith
  obtain q r where run: "staked_attempts net 0 n None = (q, r)" by fastforce
  have bound: "q \<le> n" using staked.requests_bounded [of net 0 n None] run by simp
  show ?thesis
  proof (cases r)
    case (Inr s)
    with run staked.first_success [of net 0 n None q s] obtain j where j: "j < n" "q = Suc j" "rpcSend (net j) = Inr s"
      "\<forall>m < j. \<exists>e. rpcSend (net m) = Inl e" by auto
    have "k = q" "res = Inr s" using assms(2) run Inr by (simp_all add: sendRaw_def n_def)
    with j n lt show ?thesis by auto
  next
    case (Inl eo)
    with run staked.fails [of net 0 n None q eo] n(1) obtain err where err: "eo = Some err" "rpcSend (net (q - 1)) = Inl err" "q = n"
      by auto
    have no: "\<exists>e. rpcSend (net j) = Inl e" if "j < n" for j
    proof (cases "j + 1 < q")
      case True
      with staked.before_failure [of net 0 n None q eo j] run Inl show ?thesis by auto
    next
      case False
      with that err(3) have "j = q - 1" by simp
      with err(2) show ?thesis by blast
    qed
    have "k = q" "res = (case fallback of Some r \<Rightarrow> r | None \<Rightarrow> Inl err)"
      using assms(2) run Inl err by (auto simp: sendRaw_def n_def or_else_def split: option.splits)
    moreover have "\<not> (\<exists>j. int j \<le> or_else optRetries retries \<and> (\<exists>s. rpcSend (net j) = Inr s))"
      using no lt by fastforce
    ultimately show ?thesis using err n by (simp only: if_False) (simp split: option.split)
  qed
qed

theorem sendRaw_outcome_witness:
  "sendRaw 0 sample_reply (Some (Inr ''sig'')) (Some 1) = (2, Inr ''sig'')"
proof -
  obtain k res where run: "sendRaw 0 sample_reply (Some (Inr ''sig'')) (Some 1) = (k, res)" by fastforce
  have fail: "\<not> (\<exists>j. int j \<le> or_else (Some 1) 0 \<and> (\<exists>s. rpcSend (sample_reply j) = Inr s))"
    by (auto simp: or_else_def sample_reply_def rpcSend_def ok_status_def)
  from sendRaw_outcome [OF _ run] fail have "int k = 2 \<and> res = Inr ''sig''" by (simp add: or_else_def)
  with run show ?thesis by auto
qed

end
