(* ===== verification/Portal_Mutation.thy ===== *)
theory Portal_Mutation
  imports Tx_Submit
begin

text \<open>
  The transaction hook of the portal (\<open>packages/sdk-ui/src/hooks/mutation.ts\<close>): building, pricing, simulating and sending a
  transaction, and the optimistic updates of the query cache with their rollback. The wallet, the RPC node and the query library are
  parameters or modelled by their documented behaviour: \<open>setQueryData\<close> with \<open>undefined\<close> changes nothing. Keys of queries are
  their JSON text.
\<close>

subsection \<open>Sending\<close>

type_synonym tx = "instruction list"

text \<open>What the hook does with a transaction, in order. Confirming answers with the error of the transaction on chain, if it had one; the
  hook does not look at it.\<close>

datatype action = Simulated tx | Signed tx | Submitted tx | WalletSent tx | ConfirmedSig string

record sim_response =
  sim_err :: "string option"
  sim_units :: "nat option"
  sim_logs :: "string list option"

record SimulationResult =
  sr_slot :: nat
  sr_units :: "nat option"
  sr_logs :: "string list"

definition parseSimulation :: "sim_response \<Rightarrow> SimulationResult" where
  "parseSimulation r = \<lparr>sr_slot = 0, sr_units = sim_units r, sr_logs = (case sim_logs r of None \<Rightarrow> [] | Some l \<Rightarrow> l)\<rparr>"

definition simulation_error :: "string \<Rightarrow> string \<Rightarrow> string" where
  "simulation_error err logs = ''Transaction simulation failed: '' @ err @ [CHR 0x0A] @ logs"

record wallet =
  simulateTransaction :: "tx \<Rightarrow> sim_response js"
  signTransaction :: "(tx \<Rightarrow> tx js) option"
  sendTransaction :: "tx \<Rightarrow> string js"
  submitter :: "(tx \<Rightarrow> string js) option"
  confirmTransaction :: "string \<Rightarrow> string option js"
  publicKey :: "string option"
  getLatestBlockhash :: "string js"

definition send_signed :: "wallet \<Rightarrow> tx \<Rightarrow> action list \<times> string js" where
  "send_signed w tx = (case (submitter w, signTransaction w) of
     (Some submit, Some sign) \<Rightarrow> (case sign tx of
         Inl e \<Rightarrow> ([Signed tx], Inl e)
       | Inr stx \<Rightarrow> ([Signed tx, Submitted stx], submit stx))
   | _ \<Rightarrow> ([WalletSent tx], sendTransaction w tx))"

definition simulateAndSend :: "wallet \<Rightarrow> tx \<Rightarrow> action list \<times> (string \<times> SimulationResult) js" where
  "simulateAndSend w tx = (case simulateTransaction w tx of
     Inl e \<Rightarrow> ([Simulated tx], Inl e)
   | Inr r \<Rightarrow> (case sim_err r of
       Some err \<Rightarrow> ([Simulated tx], Inl (simulation_error err (join [CHR 0x0A] (case sim_logs r of None \<Rightarrow> [] | Some l \<Rightarrow> l))))
     | None \<Rightarrow> (case send_signed w tx of
         (acts, Inl e) \<Rightarrow> (Simulated tx # acts, Inl e)
       | (acts, Inr sig) \<Rightarrow> (Simulated tx # acts, Inr (sig, parseSimulation r)))))"

record PriorityFeeConfig = PriorityFeeOptions +
  fc_microLamports :: "rat option"
  fc_estimateUrl :: "string option"
  fc_cuLimit :: "rat option"

datatype fee_setting = NoFee | AutoFee | FeeConfig PriorityFeeConfig

definition fee_config :: "fee_setting \<Rightarrow> PriorityFeeConfig option" where
  "fee_config f = (case f of
     NoFee \<Rightarrow> None
   | AutoFee \<Rightarrow> Some \<lparr>fee_cap = None, fee_floor = None, fc_microLamports = None, fc_estimateUrl = None, fc_cuLimit = None\<rparr>
   | FeeConfig c \<Rightarrow> Some c)"

text \<open>\<open>endpoint\<close> is the node of the connection; \<open>estimate\<close> the answer of a node to the fee request for the transaction. A failed
  estimate is a fee of zero; without a node nothing is changed.\<close>

definition chosen_fee :: "string option \<Rightarrow> (string \<Rightarrow> tx \<Rightarrow> rat option reply) \<Rightarrow> PriorityFeeConfig \<Rightarrow> tx \<Rightarrow> rat option" where
  "chosen_fee endpoint estimate cfg tx = (case fc_microLamports cfg of
     Some m \<Rightarrow> Some m
   | None \<Rightarrow> (case (case fc_estimateUrl cfg of Some u \<Rightarrow> Some u | None \<Rightarrow> endpoint) of
       None \<Rightarrow> None
     | Some url \<Rightarrow> if url = [] then None
         else (case getHeliusPriorityFeeEstimate (estimate url tx) of Inl _ \<Rightarrow> Some 0 | Inr m \<Rightarrow> Some (of_int m))))"

definition applyPriorityFee :: "compute_budget \<Rightarrow> string option \<Rightarrow> (string \<Rightarrow> tx \<Rightarrow> rat option reply) \<Rightarrow> fee_setting \<Rightarrow> tx \<Rightarrow> tx js" where
  "applyPriorityFee cb endpoint estimate config tx = (case fee_config config of
     None \<Rightarrow> Inr tx
   | Some cfg \<Rightarrow> (case chosen_fee endpoint estimate cfg tx of
       None \<Rightarrow> Inr tx
     | Some m \<Rightarrow> (let fee = clampPriorityFee m \<lparr>fee_cap = fee_cap cfg, fee_floor = fee_floor cfg\<rparr> in
         if fee > 0 \<or> fc_cuLimit cfg \<noteq> None then withPriorityFee cb ''not an integer'' tx (of_int fee) (fc_cuLimit cfg) else Inr tx)))"

record send_options =
  so_budget :: compute_budget
  so_endpoint :: "string option"
  so_estimate :: "string \<Rightarrow> tx \<Rightarrow> rat option reply"
  so_priorityFee :: fee_setting

definition mutationFn :: "wallet \<Rightarrow> send_options \<Rightarrow> tx js \<Rightarrow> action list \<times> (string \<times> SimulationResult) js" where
  "mutationFn w opts built =
     (if publicKey w = None then ([], Inl ''Wallet not connected'')
      else case built of Inl e \<Rightarrow> ([], Inl e) | Inr ixs \<Rightarrow>
        (case getLatestBlockhash w of Inl e \<Rightarrow> ([], Inl e) | Inr _ \<Rightarrow>
          (case applyPriorityFee (so_budget opts) (so_endpoint opts) (so_estimate opts) (so_priorityFee opts) ixs of
             Inl e \<Rightarrow> ([], Inl e)
           | Inr tx \<Rightarrow> (case simulateAndSend w tx of
               (acts, Inl e) \<Rightarrow> (acts, Inl e)
             | (acts, Inr (sig, sim)) \<Rightarrow> (case confirmTransaction w sig of
                 Inl e \<Rightarrow> (acts @ [ConfirmedSig sig], Inl e)
               | Inr _ \<Rightarrow> (acts @ [ConfirmedSig sig], Inr (sig, sim)))))))"

subsection \<open>Optimistic updates\<close>

type_synonym 'd cache = "(string, 'd) jsmap"

text \<open>\<open>qc.setQueryData(key, data)\<close>\<close>

definition setQueryData :: "string \<Rightarrow> 'd option \<Rightarrow> 'd cache \<Rightarrow> 'd cache" where
  "setQueryData k d c = (case d of None \<Rightarrow> c | Some v \<Rightarrow> map_set k v c)"

type_synonym 'd snapshots = "(string, 'd option) jsmap"

text \<open>The snapshot object of each run of the hook, by number, and the one \<open>snapshotsRef\<close> points to.\<close>

record 'd hook_state =
  hk_cache :: "'d cache"
  hk_snapshots :: "(nat, 'd snapshots) jsmap"
  hk_current :: nat

type_synonym ('i, 'd) update = "string \<times> ('d option \<Rightarrow> 'i \<Rightarrow> 'd option)"

fun apply_updates :: "('i, 'd) update list \<Rightarrow> 'i \<Rightarrow> 'd snapshots \<Rightarrow> 'd cache \<Rightarrow> 'd snapshots \<times> 'd cache" where
  "apply_updates [] inp snaps c = (snaps, c)"
| "apply_updates ((k, f) # us) inp snaps c =
     (let prev = map_get c k in apply_updates us inp (map_set k prev snaps) (setQueryData k (f prev inp) c))"

definition onMutate :: "('i, 'd) update list \<Rightarrow> nat \<Rightarrow> 'i \<Rightarrow> 'd hook_state \<Rightarrow> 'd hook_state" where
  "onMutate us run inp h = (case apply_updates us inp [] (hk_cache h) of (snaps, c) \<Rightarrow>
     \<lparr>hk_cache = c, hk_snapshots = map_set run snaps (hk_snapshots h), hk_current = run\<rparr>)"

fun rollback :: "'d snapshots \<Rightarrow> 'd cache \<Rightarrow> 'd cache" where
  "rollback [] c = c"
| "rollback ((k, d) # snaps) c = rollback snaps (setQueryData k d c)"

definition current_snapshots :: "'d hook_state \<Rightarrow> 'd snapshots" where
  "current_snapshots h = (case map_get (hk_snapshots h) (hk_current h) of None \<Rightarrow> [] | Some s \<Rightarrow> s)"

definition onError :: "'d hook_state \<Rightarrow> 'd hook_state" where
  "onError h = h\<lparr>hk_cache := rollback (current_snapshots h) (hk_cache h)\<rparr>"

definition onSettled :: "'d hook_state \<Rightarrow> 'd hook_state" where
  "onSettled h = h\<lparr>hk_snapshots := map_set (hk_current h) [] (hk_snapshots h)\<rparr>"

text \<open>A run that fails: \<open>onError\<close>, then \<open>onSettled\<close>.\<close>

definition mutation_fails :: "'d hook_state \<Rightarrow> 'd hook_state" where
  "mutation_fails h = onSettled (onError h)"

subsection \<open>Properties\<close>

lemma send_signed_actions:
  "send_signed w tx = (acts, r) \<Longrightarrow>
    (\<forall>t. WalletSent t \<in> set acts \<or> Signed t \<in> set acts \<longrightarrow> t = tx) \<and>
    (\<forall>t. Submitted t \<in> set acts \<longrightarrow> (\<exists>sign. signTransaction w = Some sign \<and> sign tx = Inr t)) \<and>
    (\<forall>t. Simulated t \<notin> set acts) \<and> (\<forall>s. ConfirmedSig s \<notin> set acts)"
  by (auto simp: send_signed_def split: option.splits sum.splits)

text \<open>
  C31. Nothing is signed or sent that was not simulated with success: whatever the hook hands to the wallet is the transaction built from
  the instructions with its fee, simulated first and without error; what goes to the submitter is that transaction signed; and a
  reported success has a signature from one of the two and a confirmation that did not throw.
\<close>

theorem sends_only_simulated:
  assumes "mutationFn w opts built = (acts, res)"
  shows "(acts = [] \<and> (\<exists>e. res = Inl e)) \<or>
    (\<exists>ixs tx. built = Inr ixs \<and> publicKey w \<noteq> None \<and>
      applyPriorityFee (so_budget opts) (so_endpoint opts) (so_estimate opts) (so_priorityFee opts) ixs = Inr tx \<and>
      (\<exists>rest. acts = Simulated tx # rest \<and> (rest \<noteq> [] \<longrightarrow> (\<exists>r. simulateTransaction w tx = Inr r \<and> sim_err r = None)) \<and>
        (\<forall>t. WalletSent t \<in> set rest \<or> Signed t \<in> set rest \<longrightarrow> t = tx) \<and>
        (\<forall>t. Submitted t \<in> set rest \<longrightarrow> (\<exists>sign. signTransaction w = Some sign \<and> sign tx = Inr t)) \<and>
        (\<forall>sig sim. res = Inr (sig, sim) \<longrightarrow> (\<exists>err. confirmTransaction w sig = Inr err) \<and> snd (send_signed w tx) = Inr sig)))"
proof (cases "\<exists>ixs h tx. built = Inr ixs \<and> publicKey w \<noteq> None \<and> getLatestBlockhash w = Inr h \<and>
      applyPriorityFee (so_budget opts) (so_endpoint opts) (so_estimate opts) (so_priorityFee opts) ixs = Inr tx")
  case False
  with assms have "acts = [] \<and> (\<exists>e. res = Inl e)" by (auto simp: mutationFn_def split: sum.splits if_splits)
  then show ?thesis by blast
next
  case True
  then obtain ixs h tx where t: "built = Inr ixs" "publicKey w \<noteq> None" "getLatestBlockhash w = Inr h"
    "applyPriorityFee (so_budget opts) (so_endpoint opts) (so_estimate opts) (so_priorityFee opts) ixs = Inr tx" by blast
  obtain as sr where sas: "simulateAndSend w tx = (as, sr)" by fastforce
  obtain bs br where ss: "send_signed w tx = (bs, br)" by fastforce
  note facts = send_signed_actions [OF ss]
  define goal where "goal = (\<lambda>rest. acts = Simulated tx # rest \<and> (rest \<noteq> [] \<longrightarrow> (\<exists>r. simulateTransaction w tx = Inr r \<and> sim_err r = None)) \<and>
        (\<forall>t. WalletSent t \<in> set rest \<or> Signed t \<in> set rest \<longrightarrow> t = tx) \<and>
        (\<forall>t. Submitted t \<in> set rest \<longrightarrow> (\<exists>sign. signTransaction w = Some sign \<and> sign tx = Inr t)) \<and>
        (\<forall>sig sim. res = Inr (sig, sim) \<longrightarrow> (\<exists>err. confirmTransaction w sig = Inr err) \<and> snd (send_signed w tx) = Inr sig))"
  have "\<exists>rest. goal rest"
  proof (cases "\<exists>r. simulateTransaction w tx = Inr r \<and> sim_err r = None")
    case False
    with sas have "as = [Simulated tx] \<and> (\<exists>e. sr = Inl e)" by (auto simp: simulateAndSend_def split: sum.splits option.splits)
    then have "goal []" using assms t sas by (auto simp: mutationFn_def goal_def split: sum.splits)
    then show ?thesis ..
  next
    case True
    then obtain r where r: "simulateTransaction w tx = Inr r" "sim_err r = None" by blast
    show ?thesis
    proof (cases br)
      case (Inl e)
      with r ss sas have "as = Simulated tx # bs \<and> sr = Inl e" by (simp add: simulateAndSend_def)
      then have "goal bs" using assms t sas facts r by (auto simp: mutationFn_def goal_def)
      then show ?thesis ..
    next
      case (Inr sig)
      with r ss sas have "as = Simulated tx # bs \<and> sr = Inr (sig, parseSimulation r)" by (simp add: simulateAndSend_def)
      then have "goal (bs @ [ConfirmedSig sig])"
        using assms t sas facts r ss Inr by (cases "confirmTransaction w sig") (auto simp: mutationFn_def goal_def)
      then show ?thesis ..
    qed
  qed
  then show ?thesis using t unfolding goal_def by blast
qed

definition sample_wallet :: wallet where
  "sample_wallet = \<lparr>simulateTransaction = (\<lambda>tx. Inr \<lparr>sim_err = (if tx = [] then Some ''empty'' else None), sim_units = Some 5, sim_logs = None\<rparr>),
     signTransaction = None, sendTransaction = (\<lambda>tx. Inr ''sig''), submitter = None, confirmTransaction = (\<lambda>s. Inr (Some ''failed on chain'')),
     publicKey = Some ''me'', getLatestBlockhash = Inr ''h''\<rparr>"

definition sample_options :: send_options where
  "sample_options = \<lparr>so_budget = sample_budget, so_endpoint = None, so_estimate = (\<lambda>u tx. NetFail ''down''), so_priorityFee = AutoFee\<rparr>"

theorem sends_only_simulated_witness:
  "mutationFn sample_wallet sample_options (Inr [(''P'', [1])]) =
     ([Simulated [(''P'', [1])], WalletSent [(''P'', [1])], ConfirmedSig ''sig''], Inr (''sig'', \<lparr>sr_slot = 0, sr_units = Some 5, sr_logs = []\<rparr>)) \<and>
   (\<exists>err. confirmTransaction sample_wallet ''sig'' = Inr err)"
proof -
  have run: "mutationFn sample_wallet sample_options (Inr [(''P'', [1])]) =
     ([Simulated [(''P'', [1])], WalletSent [(''P'', [1])], ConfirmedSig ''sig''], Inr (''sig'', \<lparr>sr_slot = 0, sr_units = Some 5, sr_logs = []\<rparr>))"
    by code_simp
  from sends_only_simulated [OF run] run show ?thesis by blast
qed

text \<open>In that run the transaction failed on chain, and the hook reports success: the error that the confirmation carries is not read.\<close>

lemma chain_error_reported_as_success:
  assumes "publicKey w = Some k" and "getLatestBlockhash w = Inr h" and "so_priorityFee opts = NoFee"
    and "simulateTransaction w ixs = Inr r" and "sim_err r = None" and "submitter w = None" and "sendTransaction w ixs = Inr sig"
    and "confirmTransaction w sig = Inr (Some err)"
  shows "snd (mutationFn w opts (Inr ixs)) = Inr (sig, parseSimulation r)"
  using assms by (simp add: mutationFn_def applyPriorityFee_def fee_config_def simulateAndSend_def send_signed_def)

lemma setQueryData_get: "map_get (setQueryData k d c) k' = (if k' = k \<and> d \<noteq> None then d else map_get c k')"
  by (auto simp: setQueryData_def map_get_set split: option.split)

lemma rollback_get:
  "distinct (map fst snaps) \<Longrightarrow> map_get (rollback snaps c) k = (case map_of snaps k of Some (Some v) \<Rightarrow> Some v | _ \<Rightarrow> map_get c k)"
proof (induction snaps arbitrary: c)
  case (Cons s snaps)
  obtain k' d where s: "s = (k', d)" by fastforce
  from Cons.prems s have "map_of snaps k' = None" by (simp add: map_of_eq_None_iff)
  with Cons s show ?case by (auto simp: setQueryData_get split: option.splits)
qed simp

lemma apply_updates_get:
  assumes "apply_updates us inp snaps c = (snaps', c')" and "distinct (map fst us)" and "set (map fst us) \<inter> set (map fst snaps) = {}"
    and "distinct (map fst snaps)"
  shows "distinct (map fst snaps') \<and>
    map_of snaps' k = (if k \<in> set (map fst us) then Some (map_get c k) else map_of snaps k) \<and>
    (k \<notin> set (map fst us) \<longrightarrow> map_get c' k = map_get c k)"
  using assms
proof (induction us arbitrary: snaps c)
  case (Cons u us)
  obtain k0 f where u: "u = (k0, f)" by fastforce
  have fresh: "map_set k0 (map_get c k0) snaps = snaps @ [(k0, map_get c k0)]"
    using Cons.prems(3) u by (intro map_set_fresh) (auto simp: map_keys_def)
  let ?s = "snaps @ [(k0, map_get c k0)]" and ?c = "setQueryData k0 (f (map_get c k0) inp) c"
  have run: "apply_updates us inp ?s ?c = (snaps', c')" using Cons.prems(1) u fresh by (simp add: Let_def)
  have "distinct (map fst us)" "set (map fst us) \<inter> set (map fst ?s) = {}" "distinct (map fst ?s)"
    using Cons.prems u by auto
  note ih = Cons.IH [OF run this]
  show ?case
  proof (cases "k = k0")
    case True
    then have "k \<notin> set (map fst us)" "map_of snaps k = None" using Cons.prems u by (auto simp: map_of_eq_None_iff)
    with ih True u show ?thesis by (simp add: map_of_append map_add_def)
  next
    case False
    with ih u show ?thesis by (auto simp: setQueryData_get map_add_def split: option.splits)
  qed
qed simp



text \<open>
  Two runs of one hook on the same key do not roll back: when the first fails while the second is under way, the second run's
  update is undone and the first run's stays; when the second fails too, nothing more is undone, and the old value never returns.
\<close>

theorem concurrent_rollback_keeps_failed_update:
  assumes "map_get (hk_cache h) k = Some d" and "f (Some d) a = Some x" and "g (Some x) b = Some y" and "run1 \<noteq> run2"
  shows "let both = onMutate [(k, g)] run2 b (onMutate [(k, f)] run1 a h) in
    map_get (hk_cache both) k = Some y \<and> map_get (hk_cache (mutation_fails both)) k = Some x \<and>
    map_get (hk_cache (mutation_fails (mutation_fails both))) k = Some x"
  using assms
  by (simp add: Let_def onMutate_def mutation_fails_def onError_def onSettled_def current_snapshots_def map_get_set setQueryData_def)

theorem concurrent_rollback_keeps_failed_update_witness:
  "let both = onMutate [(''k'', \<lambda>old n. Some n)] 2 (20 :: nat) (onMutate [(''k'', \<lambda>old n. Some n)] 1 10
      \<lparr>hk_cache = [(''k'', 1)], hk_snapshots = [], hk_current = 0\<rparr>) in
   map_get (hk_cache both) ''k'' = Some 20 \<and> map_get (hk_cache (mutation_fails both)) ''k'' = Some 10 \<and>
   map_get (hk_cache (mutation_fails (mutation_fails both))) ''k'' = Some 10"
  by (rule concurrent_rollback_keeps_failed_update) (simp_all add: map_get_def)

text \<open>Two updates of one key in one run: the snapshot of the second overwrites that of the first.\<close>

lemma repeated_key_not_restored:
  assumes "map_get (hk_cache h) k = Some d" and "f (Some d) a = Some x" and "g (Some x) a = Some y"
  shows "map_get (hk_cache (mutation_fails (onMutate [(k, f), (k, g)] run a h))) k = Some x"
  using assms
  by (simp add: Let_def onMutate_def mutation_fails_def onError_def onSettled_def current_snapshots_def map_get_set setQueryData_def)

end
