(* ===== verification/Sdk_Errors.thy ===== *)
theory Sdk_Errors
  imports Saep_Prelude
begin

text \<open>
  The error decoder of the SDK (\<open>packages/sdk/src/errors/index.ts\<close>): its tables of codes and messages, the map built from them and the
  lookup; and, to compare with, the error enumerations of the on-chain programs (\<open>programs/*/src/errors.rs\<close>), which Anchor
  numbers from 6000 in their order.
\<close>

type_synonym error_codes = "(string \<times> int) list"
type_synonym error_msgs = "(int \<times> string) list"

subsection \<open>Tables\<close>

definition AgentRegistryErrors :: error_codes where
  "AgentRegistryErrors =
     [(''Unauthorized'', 6000),
      (''Paused'', 6001),
      (''InvalidCapability'', 6002),
      (''StakeBelowMinimum'', 6003),
      (''AgentExists'', 6004),
      (''AgentNotFound'', 6005),
      (''InvalidStatusTransition'', 6006),
      (''SlashPending'', 6007),
      (''SlashBoundExceeded'', 6008),
      (''TimelockNotElapsed'', 6009),
      (''WithdrawalPending'', 6010),
      (''NoPendingSlash'', 6011),
      (''NoPendingWithdrawal'', 6012),
      (''ArithmeticOverflow'', 6013),
      (''InvalidManifest'', 6014),
      (''CallerNotTaskMarket'', 6015),
      (''NoPendingAuthority'', 6016),
      (''SlashCapTooHigh'', 6017),
      (''ReputationOutOfRange'', 6018),
      (''UnauthorizedReputationUpdate'', 6019),
      (''InvalidCapabilityBit'', 6020),
      (''CapabilityNotDeclared'', 6021),
      (''ReputationReplay'', 6022),
      (''PersonhoodRequired'', 6023),
      (''PersonhoodExpired'', 6024),
      (''PersonhoodRevoked'', 6025),
      (''GatekeeperNotAllowed'', 6026),
      (''AttestationOperatorMismatch'', 6027),
      (''GatewayTokenInvalid'', 6028),
      (''GatewayTokenNotActive'', 6029),
      (''GatewayTokenOwnerMismatch'', 6030),
      (''GatekeeperListFull'', 6031),
      (''AttestationStillValid'', 6032),
      (''ReentrancyDetected'', 6033),
      (''UnauthorizedCaller'', 6034),
      (''CallerGuardNotActive'', 6035),
      (''CpiDepthExceeded'', 6036),
      (''GuardAlreadyActive'', 6037),
      (''GuardNotInitialized'', 6038),
      (''AdminResetNotTimelocked'', 6039),
      (''CivicGatewayProgramNotSet'', 6040),
      (''CivicGatewayProgramMismatch'', 6041),
      (''InvalidCivicGateway'', 6042)]"

definition CapabilityRegistryErrors :: error_codes where
  "CapabilityRegistryErrors =
     [(''Unauthorized'', 6000),
      (''AlreadyInitialized'', 6001),
      (''BitIndexOutOfRange'', 6002),
      (''TagAlreadyExists'', 6003),
      (''TagNotFound'', 6004),
      (''TagRetired'', 6005),
      (''InvalidSlug'', 6006),
      (''InvalidManifestUri'', 6007),
      (''InvalidCapability'', 6008),
      (''Paused'', 6009),
      (''NoPendingAuthority'', 6010),
      (''TagCountOverflow'', 6011),
      (''InvalidPersonhoodTier'', 6012)]"

definition DisputeArbitrationErrors :: error_codes where
  "DisputeArbitrationErrors =
     [(''Unauthorized'', 6000),
      (''ReentrancyDetected'', 6001),
      (''UnauthorizedCaller'', 6002),
      (''CallerGuardNotActive'', 6003),
      (''CpiDepthExceeded'', 6004),
      (''GuardAlreadyActive'', 6005),
      (''GuardNotInitialized'', 6006),
      (''AdminResetNotTimelocked'', 6007),
      (''Paused'', 6008),
      (''PoolMissing'', 6009),
      (''PoolTooSmall'', 6010),
      (''VrfStale'', 6011),
      (''VrfNotFulfilled'', 6012),
      (''WrongStatus'', 6013),
      (''CommitWindowClosed'', 6014),
      (''RevealWindowClosed'', 6015),
      (''RevealWindowOpen'', 6016),
      (''CommitHashMismatch'', 6017),
      (''DuplicateVote'', 6018),
      (''ArbitratorNotSelected'', 6019),
      (''AppealWindowClosed'', 6020),
      (''AppealCollateralInsufficient'', 6021),
      (''TooManyAppeals'', 6022),
      (''SlashAlreadyPending'', 6023),
      (''SlashTimelockNotElapsed'', 6024),
      (''NoMajority'', 6025),
      (''VerdictEncodingInvalid'', 6026),
      (''StakeInsufficient'', 6027),
      (''StakeLockTooShort'', 6028),
      (''ArithmeticOverflow'', 6029),
      (''CallerNotTaskMarket'', 6030),
      (''ArbitratorNotActive'', 6031),
      (''PoolFull'', 6032),
      (''AlreadyRegistered'', 6033),
      (''AppealWindowOpen'', 6034),
      (''ExecutionWindowOpen'', 6035),
      (''NotWithdrawing'', 6036),
      (''WithdrawNotReady'', 6037),
      (''BadFaithThresholdNotMet'', 6038),
      (''InvalidBps'', 6039)]"

definition FeeCollectorErrors :: error_codes where
  "FeeCollectorErrors =
     [(''Unauthorized'', 6000),
      (''HookNotAllowed'', 6001),
      (''HookAllowlistFull'', 6002),
      (''AgentHookAllowlistFull'', 6003),
      (''InvalidProgramId'', 6004),
      (''MintExtensionRejected'', 6005),
      (''MintParseFailed'', 6006),
      (''NoPendingAuthority'', 6007),
      (''ReentrancyDetected'', 6008),
      (''UnauthorizedCaller'', 6009),
      (''CallerGuardNotActive'', 6010),
      (''CpiDepthExceeded'', 6011),
      (''GuardAlreadyActive'', 6012),
      (''GuardNotInitialized'', 6013),
      (''AdminResetNotTimelocked'', 6014),
      (''Paused'', 6015),
      (''InvalidBpsSum'', 6016),
      (''BucketCapExceeded'', 6017),
      (''EpochNotOpen'', 6018),
      (''EpochNotElapsed'', 6019),
      (''IntakeAccountingDrift'', 6020),
      (''DistributionAlreadyCommitted'', 6021),
      (''DistributionWindowElapsed'', 6022),
      (''MerkleProofInvalid'', 6023),
      (''MerkleProofTooDeep'', 6024),
      (''ClaimOverflow'', 6025),
      (''ClaimWindowElapsed'', 6026),
      (''BurnBelowThreshold'', 6027),
      (''BurnAlreadyExecuted'', 6028),
      (''SweepGraceNotElapsed'', 6029),
      (''AlreadySwept'', 6030),
      (''InvalidEpochStatus'', 6031),
      (''ArithmeticOverflow'', 6032),
      (''CallerNotRegisteredSlasher'', 6033),
      (''InvalidEpochDuration'', 6034),
      (''InvalidClaimWindow'', 6035)]"

definition GovernanceProgramErrors :: error_codes where
  "GovernanceProgramErrors =
     [(''Unauthorized'', 6000),
      (''Paused'', 6001),
      (''InvalidProposalStatus'', 6002),
      (''VotingNotEnded'', 6003),
      (''VotingEnded'', 6004),
      (''TimelockNotElapsed'', 6005),
      (''ExecutionWindowExpired'', 6006),
      (''QuorumNotMet'', 6007),
      (''MerkleProofInvalid'', 6008),
      (''MerkleProofTooDeep'', 6009),
      (''RegistryFull'', 6010),
      (''DuplicateProgram'', 6011),
      (''ProgramNotRegistered'', 6012),
      (''ArithmeticOverflow'', 6013),
      (''PayloadTooLarge'', 6014),
      (''CannotCancelAfterVoteStart'', 6015),
      (''EmptyMetadataUri'', 6016)]"

definition NxsStakingErrors :: error_codes where
  "NxsStakingErrors =
     [(''Unauthorized'', 6000),
      (''ReentrancyDetected'', 6001),
      (''UnauthorizedCaller'', 6002),
      (''CallerGuardNotActive'', 6003),
      (''CpiDepthExceeded'', 6004),
      (''GuardAlreadyActive'', 6005),
      (''GuardNotInitialized'', 6006),
      (''AdminResetNotTimelocked'', 6007),
      (''Paused'', 6008),
      (''InvalidLockup'', 6009),
      (''ZeroAmount'', 6010),
      (''LockupNotEnded'', 6011),
      (''CooldownNotEnded'', 6012),
      (''NotActive'', 6013),
      (''NotInCooldown'', 6014),
      (''ArithmeticOverflow'', 6015),
      (''EpochNotEnded'', 6016)]"

definition ProofVerifierErrors :: error_codes where
  "ProofVerifierErrors =
     [(''Unauthorized'', 6000),
      (''Paused'', 6001),
      (''VkAlreadyExists'', 6002),
      (''VkNotFound'', 6003),
      (''VkMismatch'', 6004),
      (''PublicInputCountMismatch'', 6005),
      (''PublicInputOutOfField'', 6006),
      (''ProofMalformed'', 6007),
      (''ProofInvalid'', 6008),
      (''TimelockNotElapsed'', 6009),
      (''NoPendingActivation'', 6010),
      (''ActivationPending'', 6011),
      (''NotProductionVk'', 6012),
      (''IcLengthMismatch'', 6013),
      (''TooManyPublicInputs'', 6014),
      (''NoPendingAuthority'', 6015),
      (''NotImplemented'', 6016),
      (''InvalidBatchSize'', 6017),
      (''BatchFull'', 6018),
      (''BatchEmpty'', 6019),
      (''BatchVkMismatch'', 6020),
      (''ReentrancyDetected'', 6021),
      (''UnauthorizedCaller'', 6022),
      (''CallerGuardNotActive'', 6023),
      (''CpiDepthExceeded'', 6024),
      (''GuardAlreadyActive'', 6025),
      (''GuardNotInitialized'', 6026),
      (''AdminResetNotTimelocked'', 6027),
      (''ReputationBindingNotReady'', 6028),
      (''SampleHashMismatch'', 6029),
      (''PoseidonError'', 6030),
      (''VkAlreadyFinalized'', 6031)]"

definition TaskMarketErrors :: error_codes where
  "TaskMarketErrors =
     [(''Unauthorized'', 6000),
      (''Paused'', 6001),
      (''MintNotAllowed'', 6002),
      (''InvalidAmount'', 6003),
      (''InvalidDeadline'', 6004),
      (''DeadlineTooFar'', 6005),
      (''AgentNotActive'', 6006),
      (''WrongStatus'', 6007),
      (''DeadlinePassed'', 6008),
      (''DisputeWindowClosed'', 6009),
      (''DisputeWindowOpen'', 6010),
      (''NotExpired'', 6011),
      (''EscrowMismatch'', 6012),
      (''ArithmeticOverflow'', 6013),
      (''ProofInvalid'', 6014),
      (''CallerNotOperator'', 6015),
      (''TaskNotFound'', 6016),
      (''FeeBoundExceeded'', 6017),
      (''TooManyMilestones'', 6018),
      (''NoPendingAuthority'', 6019),
      (''GraceNotElapsed'', 6020),
      (''ZeroResultHash'', 6021),
      (''AgentMismatch'', 6022),
      (''OutcomeCpiFailed'', 6023),
      (''InsufficientStake'', 6024),
      (''PhaseClosed'', 6025),
      (''RevealMismatch'', 6026),
      (''BondOutOfRange'', 6027),
      (''TooManyBidders'', 6028),
      (''BidBookNotSettled'', 6029),
      (''NotWinner'', 6030),
      (''NoReveals'', 6031),
      (''AlreadyRefunded'', 6032),
      (''WindowInvalid'', 6033),
      (''BidBookAlreadyOpen'', 6034),
      (''CommitsPresent'', 6035),
      (''PayloadTooLarge'', 6036),
      (''InvalidCapabilityBit'', 6037),
      (''UnknownCapability'', 6038),
      (''PersonhoodRequired'', 6039),
      (''PersonhoodExpired'', 6040),
      (''PersonhoodRevoked'', 6041),
      (''AttestationOperatorMismatch'', 6042),
      (''HookNotAllowed'', 6043),
      (''MintExtensionRejected'', 6044),
      (''HookAllowlistMismatch'', 6045),
      (''MintAlreadyAccepted'', 6046),
      (''ReentrancyDetected'', 6047),
      (''UnauthorizedCaller'', 6048),
      (''CallerGuardNotActive'', 6049),
      (''CpiDepthExceeded'', 6050),
      (''GuardAlreadyActive'', 6051),
      (''GuardNotInitialized'', 6052),
      (''AdminResetNotTimelocked'', 6053),
      (''IncompleteBidEnumeration'', 6054),
      (''DuplicateBidEnumeration'', 6055),
      (''CapabilityNotInAgentMask'', 6056),
      (''InvalidBidInEnumeration'', 6057),
      (''BondNotClaimed'', 6058),
      (''EscrowNotEmpty'', 6059)]"

definition TemplateRegistryErrors :: error_codes where
  "TemplateRegistryErrors =
     [(''Paused'', 6000),
      (''Unauthorized'', 6001),
      (''RoyaltyExceedsCap'', 6002),
      (''InvalidStatus'', 6003),
      (''LineageDepthExceeded'', 6004),
      (''CapabilityMaskMismatch'', 6005),
      (''RentalDisabled'', 6006),
      (''RentalDurationOutOfBounds'', 6007),
      (''RentalNotEnded'', 6008),
      (''RentalAlreadyClosed'', 6009),
      (''ArithmeticOverflow'', 6010),
      (''NothingToClaim'', 6011),
      (''InvalidCpiCaller'', 6012),
      (''FeeSplitExceeds100'', 6013)]"

definition TreasuryStandardErrors :: error_codes where
  "TreasuryStandardErrors =
     [(''Unauthorized'', 6000),
      (''Paused'', 6001),
      (''MintNotAllowed'', 6002),
      (''LimitExceeded'', 6003),
      (''InsufficientVault'', 6004),
      (''StreamAlreadyActive'', 6005),
      (''StreamNotActive'', 6006),
      (''StreamAlreadyClosed'', 6007),
      (''InvalidDuration'', 6008),
      (''InvalidRate'', 6009),
      (''OracleStale'', 6010),
      (''OracleConfidenceTooWide'', 6011),
      (''SwapSlippage'', 6012),
      (''ArithmeticOverflow'', 6013),
      (''CallerNotTaskMarket'', 6014),
      (''AgentNotActive'', 6015),
      (''InvalidLimits'', 6016),
      (''AllowedMintsFull'', 6017),
      (''MintNotFound'', 6018),
      (''NoPendingAuthority'', 6019),
      (''ZeroAmount'', 6020),
      (''PayTaskDisabled'', 6021),
      (''InvalidJupiterProgram'', 6022),
      (''SwapRouteRequired'', 6023),
      (''RouteDataTooLong'', 6024),
      (''SwapAmountExceeded'', 6025),
      (''OracleRequired'', 6026),
      (''OracleNonPositivePrice'', 6027),
      (''AgentMismatch'', 6028),
      (''OperatorMismatch'', 6029),
      (''TargetNotAllowed'', 6030),
      (''TooManyCallTargets'', 6031),
      (''InvalidCallTarget'', 6032),
      (''HookNotAllowed'', 6033),
      (''HookAllowlistAlreadySet'', 6034),
      (''HookAllowlistMismatch'', 6035),
      (''ReentrancyDetected'', 6036),
      (''UnauthorizedCaller'', 6037),
      (''CallerGuardNotActive'', 6038),
      (''CpiDepthExceeded'', 6039),
      (''GuardAlreadyActive'', 6040),
      (''GuardNotInitialized'', 6041),
      (''AdminResetNotTimelocked'', 6042)]"

definition agent_registry_msgs :: error_msgs where
  "agent_registry_msgs =
     [(6000, ''signer is not authorized for this instruction''),
      (6001, ''registry is paused''),
      (6002, ''capability mask contains unapproved bits''),
      (6003, ''stake is below configured minimum''),
      (6004, ''agent already exists for these seeds''),
      (6005, ''agent not found''),
      (6006, ''illegal status transition''),
      (6007, ''a slash is already pending''),
      (6008, ''slash amount exceeds per-incident bound''),
      (6009, ''slash timelock has not elapsed''),
      (6010, ''a withdrawal is already pending''),
      (6011, ''no pending slash''),
      (6012, ''no pending withdrawal''),
      (6013, ''arithmetic overflow''),
      (6014, ''manifest uri invalid''),
      (6015, ''caller is not the TaskMarket program''),
      (6016, ''no pending authority to accept''),
      (6017, ''max_slash_bps above 10% cap''),
      (6018, ''reputation value out of range''),
      (6019, ''only the proof_verifier program may update reputation''),
      (6020, ''capability bit exceeds capability_mask width''),
      (6021, ''agent has not declared this capability bit''),
      (6022, ''task_id already applied to this category reputation''),
      (6023, ''personhood attestation required but missing''),
      (6024, ''personhood attestation has expired''),
      (6025, ''personhood attestation has been revoked''),
      (6026, ''gatekeeper network or SAS issuer is not on the allowlist''),
      (6027, ''attestation operator does not match signer or bidder''),
      (6028, ''gateway token layout is invalid''),
      (6029, ''gateway token state is not active''),
      (6030, ''gateway token owner does not match operator''),
      (6031, ''gatekeeper allowlist overflow''),
      (6032, ''attestation is still valid; refresh not needed''),
      (6033, ''reentrancy detected '' @ [CHR 0xE2, CHR 0x80, CHR 0x94] @ '' guard is already active''),
      (6034, ''caller program is not on the allowed callers list''),
      (6035, ''caller program's reentrancy guard is not active''),
      (6036, ''cpi stack height exceeds allowed bound''),
      (6037, ''reentrancy guard is already active''),
      (6038, ''reentrancy guard has not been initialized''),
      (6039, ''admin reset has not met the 24h timelock''),
      (6040, ''civic gateway program id has not been configured on RegistryGlobal''),
      (6041, ''civic gateway token account owner does not match civic gateway program''),
      (6042, ''civic gateway program cannot be set to Pubkey::default'')]"

definition capability_registry_msgs :: error_msgs where
  "capability_registry_msgs =
     [(6000, ''signer is not the registry authority''),
      (6001, ''registry already initialized''),
      (6002, ''bit index must be < 128''),
      (6003, ''tag already exists for this bit index''),
      (6004, ''tag not found''),
      (6005, ''tag is retired''),
      (6006, ''slug must be non-empty lowercase ascii [a-z0-9_] without leading or trailing underscore''),
      (6007, ''manifest uri must be non-empty''),
      (6008, ''mask contains unapproved or retired bits''),
      (6009, ''registry is paused''),
      (6010, ''no pending authority to accept''),
      (6011, ''tag count overflow''),
      (6012, ''personhood tier value out of range'')]"

definition dispute_arbitration_msgs :: error_msgs where
  "dispute_arbitration_msgs =
     [(6000, ''signer is not authorized for this instruction''),
      (6001, ''reentrancy detected '' @ [CHR 0xE2, CHR 0x80, CHR 0x94] @ '' guard is already active''),
      (6002, ''caller program is not on the allowed callers list''),
      (6003, ''caller program's reentrancy guard is not active''),
      (6004, ''cpi stack height exceeds allowed bound''),
      (6005, ''reentrancy guard is already active''),
      (6006, ''reentrancy guard has not been initialized''),
      (6007, ''admin reset has not met the 24h timelock''),
      (6008, ''program is paused''),
      (6009, ''dispute pool has not been snapshotted''),
      (6010, ''dispute pool has too few eligible arbitrators''),
      (6011, ''VRF result is stale''),
      (6012, ''VRF has not been fulfilled''),
      (6013, ''invalid status for this operation''),
      (6014, ''commit window has closed''),
      (6015, ''reveal window has closed''),
      (6016, ''reveal window has not closed yet''),
      (6017, ''commit hash does not match revealed data''),
      (6018, ''arbitrator has already voted in this round''),
      (6019, ''arbitrator was not selected for this case''),
      (6020, ''appeal window has closed''),
      (6021, ''appeal collateral is insufficient''),
      (6022, ''maximum number of appeals reached''),
      (6023, ''a pending slash already exists for this arbitrator''),
      (6024, ''slash timelock has not elapsed''),
      (6025, ''no clean majority was reached''),
      (6026, ''verdict encoding is invalid''),
      (6027, ''stake is below minimum requirement''),
      (6028, ''stake lockup is too short''),
      (6029, ''arithmetic overflow''),
      (6030, ''caller is not the task market program''),
      (6031, ''arbitrator is not active''),
      (6032, ''pool is at maximum capacity''),
      (6033, ''arbitrator already registered''),
      (6034, ''appeal window has not elapsed''),
      (6035, ''execution window has not elapsed''),
      (6036, ''arbitrator is not in withdrawing status''),
      (6037, ''withdraw unlock time has not been reached''),
      (6038, ''bad faith threshold not met for slash''),
      (6039, ''invalid bps value'')]"

definition fee_collector_msgs :: error_msgs where
  "fee_collector_msgs =
     [(6000, ''signer is not authorized for this instruction''),
      (6001, ''transfer-hook program is not on the allowlist''),
      (6002, ''hook allowlist is at capacity''),
      (6003, ''per-agent hook allowlist is at capacity''),
      (6004, ''program id must be a non-default pubkey''),
      (6005, ''mint extension configuration is not acceptable''),
      (6006, ''failed to parse Token-2022 mint extensions''),
      (6007, ''no pending authority to accept''),
      (6008, ''reentrancy detected '' @ [CHR 0xE2, CHR 0x80, CHR 0x94] @ '' guard is already active''),
      (6009, ''caller program is not on the allowed callers list''),
      (6010, ''caller program's reentrancy guard is not active''),
      (6011, ''cpi stack height exceeds allowed bound''),
      (6012, ''reentrancy guard is already active''),
      (6013, ''reentrancy guard has not been initialized''),
      (6014, ''admin reset has not met the 24h timelock''),
      (6015, ''program is paused''),
      (6016, ''bps quadruple must sum to 10000''),
      (6017, ''bucket bps exceeds its hard cap''),
      (6018, ''epoch is not in Open status''),
      (6019, ''epoch duration has not elapsed''),
      (6020, ''intake vault balance does not match total_collected''),
      (6021, ''distribution root already committed for this epoch''),
      (6022, ''distribution commit window has elapsed''),
      (6023, ''merkle proof is invalid''),
      (6024, ''merkle proof exceeds max depth''),
      (6025, ''claim would exceed staker_amount for this epoch''),
      (6026, ''claim window has elapsed''),
      (6027, ''burn amount below minimum threshold''),
      (6028, ''burn already executed for this epoch''),
      (6029, ''sweep grace period has not elapsed''),
      (6030, ''epoch has already been swept''),
      (6031, ''invalid epoch status for this operation''),
      (6032, ''arithmetic overflow''),
      (6033, ''caller is not a registered slash source''),
      (6034, ''epoch duration out of allowed range''),
      (6035, ''claim window out of allowed range'')]"

definition governance_program_msgs :: error_msgs where
  "governance_program_msgs =
     [(6000, ''signer is not authorized''),
      (6001, ''governance is paused''),
      (6002, ''proposal is not in the expected status''),
      (6003, ''voting window has not ended''),
      (6004, ''voting window has ended''),
      (6005, ''timelock has not elapsed''),
      (6006, ''execution window has expired''),
      (6007, ''quorum was not met''),
      (6008, ''merkle proof is invalid''),
      (6009, ''merkle proof exceeds max depth''),
      (6010, ''program registry is at capacity''),
      (6011, ''duplicate program in registry''),
      (6012, ''target program not found in registry''),
      (6013, ''arithmetic overflow''),
      (6014, ''ix_data exceeds max payload size for target program''),
      (6015, ''proposal cannot be cancelled after voting starts''),
      (6016, ''metadata_uri is empty'')]"

definition nxs_staking_msgs :: error_msgs where
  "nxs_staking_msgs =
     [(6000, ''signer is not authorized for this instruction''),
      (6001, ''reentrancy detected '' @ [CHR 0xE2, CHR 0x80, CHR 0x94] @ '' guard is already active''),
      (6002, ''caller program is not on the allowed callers list''),
      (6003, ''caller program's reentrancy guard is not active''),
      (6004, ''cpi stack height exceeds allowed bound''),
      (6005, ''reentrancy guard is already active''),
      (6006, ''reentrancy guard has not been initialized''),
      (6007, ''admin reset has not met the 24h timelock''),
      (6008, ''staking pool is paused''),
      (6009, ''lockup duration out of allowed range''),
      (6010, ''amount must be greater than zero''),
      (6011, ''lockup period has not ended''),
      (6012, ''cooldown period has not ended''),
      (6013, ''stake account is not active''),
      (6014, ''stake account is not in cooldown''),
      (6015, ''arithmetic overflow''),
      (6016, ''epoch has not ended yet'')]"

definition proof_verifier_msgs :: error_msgs where
  "proof_verifier_msgs =
     [(6000, ''signer is not the verifier authority''),
      (6001, ''verifier is paused''),
      (6002, ''verifying key already exists''),
      (6003, ''verifying key not found''),
      (6004, ''provided verifying key does not match active vk''),
      (6005, ''public input count does not match verifying key''),
      (6006, ''public input exceeds bn254 scalar field modulus''),
      (6007, ''proof bytes failed curve deserialization''),
      (6008, ''pairing check failed''),
      (6009, ''timelock has not elapsed''),
      (6010, ''no pending vk activation''),
      (6011, ''a vk activation is already pending''),
      (6012, ''non-production vk cannot be activated in mainnet mode''),
      (6013, ''ic length must equal num_public_inputs + 1''),
      (6014, ''num_public_inputs exceeds m1 cap of 16''),
      (6015, ''no pending authority to accept''),
      (6016, ''not implemented in m1''),
      (6017, ''batch size must be 1-10''),
      (6018, ''batch is full''),
      (6019, ''batch has no proofs''),
      (6020, ''batch vk does not match active vk''),
      (6021, ''reentrancy detected '' @ [CHR 0xE2, CHR 0x80, CHR 0x94] @ '' guard is already active''),
      (6022, ''caller program is not on the allowed callers list''),
      (6023, ''caller program's reentrancy guard is not active''),
      (6024, ''cpi stack height exceeds allowed bound''),
      (6025, ''reentrancy guard is already active''),
      (6026, ''reentrancy guard has not been initialized''),
      (6027, ''admin reset has not met the 24h timelock''),
      (6028, ''reputation args are not yet bound to the circuit's public outputs; rail disabled''),
      (6029, ''on-chain poseidon hash of sample does not match proof's sample_hash commitment''),
      (6030, ''poseidon hash computation failed''),
      (6031, ''vk is already finalized and cannot accept more ic points'')]"

definition task_market_msgs :: error_msgs where
  "task_market_msgs =
     [(6000, ''signer is not authorized for this instruction''),
      (6001, ''market is paused''),
      (6002, ''payment mint is not allowed''),
      (6003, ''payment amount must be positive''),
      (6004, ''deadline must be in the future''),
      (6005, ''deadline exceeds max_deadline_secs''),
      (6006, ''agent is not active''),
      (6007, ''task is in the wrong status for this instruction''),
      (6008, ''deadline has passed''),
      (6009, ''dispute window has closed''),
      (6010, ''dispute window is still open''),
      (6011, ''task is not yet expired''),
      (6012, ''escrow balance mismatch''),
      (6013, ''arithmetic overflow''),
      (6014, ''proof verification failed''),
      (6015, ''signer is not the operator of the assigned agent''),
      (6016, ''task not found''),
      (6017, ''fee bps exceeds bound''),
      (6018, ''milestone_count exceeds maximum''),
      (6019, ''no pending authority to accept''),
      (6020, ''grace period has not elapsed''),
      (6021, ''result hash must be non-zero''),
      (6022, ''agent DID does not match task assignment''),
      (6023, ''agent registry CPI failed''),
      (6024, ''agent stake below required minimum''),
      (6025, ''bid phase closed for this action''),
      (6026, ''revealed bid does not match commit hash''),
      (6027, ''bond bps out of allowed range''),
      (6028, ''bid book is at capacity''),
      (6029, ''bid book has not been settled''),
      (6030, ''signer is not the winning bidder''),
      (6031, ''no eligible reveals in bid book''),
      (6032, ''bond has already been claimed''),
      (6033, ''bid window parameters invalid''),
      (6034, ''task already has an open bid book''),
      (6035, ''bid book has active commits; cannot cancel''),
      (6036, ''task payload exceeds size caps''),
      (6037, ''capability_bit out of allowed range''),
      (6038, ''agent does not advertise the requested capability_bit''),
      (6039, ''personhood attestation required but missing''),
      (6040, ''personhood attestation has expired''),
      (6041, ''personhood attestation has been revoked''),
      (6042, ''attestation operator does not match bidder''),
      (6043, ''transfer-hook program not on fee_collector allowlist''),
      (6044, ''mint extension configuration is not acceptable''),
      (6045, ''hook_allowlist account does not match MarketGlobal hook_allowlist''),
      (6046, ''mint already has a MintAcceptRecord''),
      (6047, ''reentrancy detected '' @ [CHR 0xE2, CHR 0x80, CHR 0x94] @ '' guard is already active''),
      (6048, ''caller program is not on the allowed callers list''),
      (6049, ''caller program's reentrancy guard is not active''),
      (6050, ''cpi stack height exceeds allowed bound''),
      (6051, ''reentrancy guard is already active''),
      (6052, ''reentrancy guard has not been initialized''),
      (6053, ''admin reset has not met the 24h timelock''),
      (6054, ''close_bidding must receive every revealed bid in remaining_accounts''),
      (6055, ''duplicate bid detected in close_bidding enumeration''),
      (6056, ''agent has not declared the task's capability bit''),
      (6057, ''unrevealed or slashed bid present in close_bidding enumeration''),
      (6058, ''bond must be claimed before closing bid PDA''),
      (6059, ''bond escrow still holds tokens'')]"

definition template_registry_msgs :: error_msgs where
  "template_registry_msgs =
     [(6000, ''Program is paused''),
      (6001, ''Unauthorized''),
      (6002, ''Royalty bps exceeds cap''),
      (6003, ''Template not in valid state for this operation''),
      (6004, ''Lineage depth exceeds maximum''),
      (6005, ''Capability mask includes bits not present in parent''),
      (6006, ''Rental is disabled for this template''),
      (6007, ''Rental duration out of bounds''),
      (6008, ''Rental not yet ended''),
      (6009, ''Rental already closed''),
      (6010, ''Arithmetic overflow''),
      (6011, ''Nothing to claim''),
      (6012, ''Invalid CPI caller''),
      (6013, ''Fee split exceeds 100%'')]"

definition treasury_standard_msgs :: error_msgs where
  "treasury_standard_msgs =
     [(6000, ''signer is not authorized for this instruction''),
      (6001, ''treasury is paused''),
      (6002, ''mint is not on the allowlist''),
      (6003, ''spending or transfer limit exceeded''),
      (6004, ''vault balance insufficient''),
      (6005, ''a stream is already active for this treasury''),
      (6006, ''stream is not active''),
      (6007, ''stream is already closed''),
      (6008, ''stream duration invalid''),
      (6009, ''stream rate invalid''),
      (6010, ''oracle price is stale''),
      (6011, ''oracle confidence interval too wide''),
      (6012, ''swap exceeded slippage tolerance''),
      (6013, ''arithmetic overflow''),
      (6014, ''caller is not TaskMarket program''),
      (6015, ''agent is not active in AgentRegistry''),
      (6016, ''limits violate per_tx <= daily <= weekly invariant''),
      (6017, ''allowed-mints list is full''),
      (6018, ''mint not found in allowlist''),
      (6019, ''no pending authority to accept''),
      (6020, ''amount must be greater than zero''),
      (6021, ''pay_task is reserved for M2 and is inert in M1''),
      (6022, ''jupiter program does not match configured address''),
      (6023, ''swap route data required for cross-mint withdrawal''),
      (6024, ''route_data exceeds MAX_ROUTE_DATA_LEN''),
      (6025, ''swap consumed more tokens than earned''),
      (6026, ''oracle price feed required for cross-mint withdrawal''),
      (6027, ''oracle price is non-positive''),
      (6028, ''agent DID does not match AgentAccount''),
      (6029, ''operator does not match AgentAccount operator''),
      (6030, ''outbound CPI target is not on the allowed-call-targets list''),
      (6031, ''allowed-call-targets list exceeds cap''),
      (6032, ''call target must be a non-default pubkey''),
      (6033, ''transfer-hook program not on fee_collector allowlist''),
      (6034, ''hook_allowlist pointer has already been set''),
      (6035, ''hook_allowlist account does not match TreasuryGlobal.hook_allowlist''),
      (6036, ''reentrancy detected '' @ [CHR 0xE2, CHR 0x80, CHR 0x94] @ '' guard is already active''),
      (6037, ''caller program is not on the allowed callers list''),
      (6038, ''caller program's reentrancy guard is not active''),
      (6039, ''cpi stack height exceeds allowed bound''),
      (6040, ''reentrancy guard is already active''),
      (6041, ''reentrancy guard has not been initialized''),
      (6042, ''admin reset has not met the 24h timelock'')]"

definition PROGRAM_ERROR_DEFS :: "(string \<times> error_codes \<times> error_msgs) list" where
  "PROGRAM_ERROR_DEFS =
     [(''agent_registry'', AgentRegistryErrors, agent_registry_msgs),
      (''capability_registry'', CapabilityRegistryErrors, capability_registry_msgs),
      (''dispute_arbitration'', DisputeArbitrationErrors, dispute_arbitration_msgs),
      (''fee_collector'', FeeCollectorErrors, fee_collector_msgs),
      (''governance_program'', GovernanceProgramErrors, governance_program_msgs),
      (''nxs_staking'', NxsStakingErrors, nxs_staking_msgs),
      (''proof_verifier'', ProofVerifierErrors, proof_verifier_msgs),
      (''task_market'', TaskMarketErrors, task_market_msgs),
      (''template_registry'', TemplateRegistryErrors, template_registry_msgs),
      (''treasury_standard'', TreasuryStandardErrors, treasury_standard_msgs)]"

subsection \<open>The decoder\<close>

record SaepError =
  se_code :: int
  se_name :: string
  se_msg :: string
  se_program :: string

type_synonym error_map = "(int, string \<times> string) jsmap"

fun add_entries :: "error_msgs \<Rightarrow> error_codes \<Rightarrow> error_map \<Rightarrow> error_map" where
  "add_entries msgs [] m = m"
| "add_entries msgs ((name, code) # es) m = add_entries msgs es (map_set code (name, case map_of msgs code of None \<Rightarrow> [] | Some t \<Rightarrow> t) m)"

definition buildFullMap :: "(string \<times> error_codes \<times> error_msgs) list \<Rightarrow> (string, error_map) jsmap" where
  "buildFullMap defs = foldl (\<lambda>result d. case d of (program, errors, msgs) \<Rightarrow> map_set program (add_entries msgs errors []) result) [] defs"

definition SAEP_ERRORS :: "(string, error_map) jsmap" where
  "SAEP_ERRORS = buildFullMap PROGRAM_ERROR_DEFS"

fun first_program :: "int \<Rightarrow> (string, error_map) jsmap \<Rightarrow> SaepError option" where
  "first_program code [] = None"
| "first_program code ((program, m) # rest) = (case map_get m code of
     Some (name, msg) \<Rightarrow> Some \<lparr>se_code = code, se_name = name, se_msg = msg, se_program = program\<rparr>
   | None \<Rightarrow> first_program code rest)"

definition decodeSaepError :: "int \<Rightarrow> string option \<Rightarrow> SaepError option" where
  "decodeSaepError code programName =
     (if truthy programName then
        (case programName of None \<Rightarrow> None | Some p \<Rightarrow> (case map_get SAEP_ERRORS p of
           None \<Rightarrow> None
         | Some m \<Rightarrow> (case map_get m code of
             None \<Rightarrow> None
           | Some (name, msg) \<Rightarrow> Some \<lparr>se_code = code, se_name = name, se_msg = msg, se_program = p\<rparr>)))
      else first_program code SAEP_ERRORS)"

subsection \<open>The errors of the programs\<close>

definition agent_registry_program_errors :: "string list" where
  "agent_registry_program_errors =
     [''Unauthorized'', ''Paused'', ''InvalidCapability'', ''StakeBelowMinimum'', ''AgentExists'',
      ''AgentNotFound'', ''InvalidStatusTransition'', ''SlashPending'', ''SlashBoundExceeded'', ''TimelockNotElapsed'',
      ''WithdrawalPending'', ''NoPendingSlash'', ''NoPendingWithdrawal'', ''ArithmeticOverflow'', ''InvalidManifest'',
      ''CallerNotTaskMarket'', ''NoPendingAuthority'', ''SlashCapTooHigh'', ''ReputationOutOfRange'', ''UnauthorizedReputationUpdate'',
      ''InvalidCapabilityBit'', ''CapabilityNotDeclared'', ''ReputationReplay'', ''PersonhoodRequired'', ''PersonhoodExpired'',
      ''PersonhoodRevoked'', ''GatekeeperNotAllowed'', ''AttestationOperatorMismatch'', ''GatewayTokenInvalid'', ''GatewayTokenNotActive'',
      ''GatewayTokenOwnerMismatch'', ''GatekeeperListFull'', ''AttestationStillValid'', ''ReentrancyDetected'', ''UnauthorizedCaller'',
      ''CallerGuardNotActive'', ''CpiDepthExceeded'', ''GuardAlreadyActive'', ''GuardNotInitialized'', ''AdminResetNotTimelocked'',
      ''CivicGatewayProgramNotSet'', ''CivicGatewayProgramMismatch'', ''InvalidCivicGateway'', ''DecayCooldownNotElapsed'', ''InvalidStakeMint'',
      ''StakeMintHasTransferHook'']"

definition capability_registry_program_errors :: "string list" where
  "capability_registry_program_errors =
     [''Unauthorized'', ''AlreadyInitialized'', ''BitIndexOutOfRange'', ''TagAlreadyExists'', ''TagNotFound'',
      ''TagRetired'', ''InvalidSlug'', ''InvalidManifestUri'', ''InvalidCapability'', ''Paused'',
      ''NoPendingAuthority'', ''TagCountOverflow'', ''InvalidPersonhoodTier'']"

definition dispute_arbitration_program_errors :: "string list" where
  "dispute_arbitration_program_errors =
     [''Unauthorized'', ''ReentrancyDetected'', ''UnauthorizedCaller'', ''CallerGuardNotActive'', ''CpiDepthExceeded'',
      ''GuardAlreadyActive'', ''GuardNotInitialized'', ''AdminResetNotTimelocked'', ''Paused'', ''PoolMissing'',
      ''PoolTooSmall'', ''VrfStale'', ''VrfNotFulfilled'', ''WrongStatus'', ''CommitWindowClosed'',
      ''RevealWindowClosed'', ''RevealWindowOpen'', ''CommitHashMismatch'', ''DuplicateVote'', ''ArbitratorNotSelected'',
      ''AppealWindowClosed'', ''AppealCollateralInsufficient'', ''TooManyAppeals'', ''SlashAlreadyPending'', ''SlashTimelockNotElapsed'',
      ''NoMajority'', ''VerdictEncodingInvalid'', ''StakeInsufficient'', ''StakeLockTooShort'', ''ArithmeticOverflow'',
      ''CallerNotTaskMarket'', ''ArbitratorNotActive'', ''PoolFull'', ''AlreadyRegistered'', ''AppealWindowOpen'',
      ''ExecutionWindowOpen'', ''NotWithdrawing'', ''WithdrawNotReady'', ''BadFaithThresholdNotMet'', ''InvalidBps'']"

definition fee_collector_program_errors :: "string list" where
  "fee_collector_program_errors =
     [''Unauthorized'', ''MintNotAllowed'', ''MintAllowlistFull'', ''AgentMintAllowlistFull'', ''ConfidentialTransfersDisabled'',
      ''HookNotAllowed'', ''HookAllowlistFull'', ''AgentHookAllowlistFull'', ''InvalidProgramId'', ''MintExtensionRejected'',
      ''MintParseFailed'', ''NoPendingAuthority'', ''ReentrancyDetected'', ''UnauthorizedCaller'', ''CallerGuardNotActive'',
      ''CpiDepthExceeded'', ''GuardAlreadyActive'', ''GuardNotInitialized'', ''AdminResetNotTimelocked'', ''Paused'',
      ''InvalidBpsSum'', ''BucketCapExceeded'', ''EpochNotOpen'', ''EpochNotElapsed'', ''IntakeAccountingDrift'',
      ''DistributionAlreadyCommitted'', ''DistributionWindowElapsed'', ''MerkleProofInvalid'', ''MerkleProofTooDeep'', ''ClaimOverflow'',
      ''ClaimWindowElapsed'', ''BurnBelowThreshold'', ''BurnAlreadyExecuted'', ''SweepGraceNotElapsed'', ''AlreadySwept'',
      ''InvalidEpochStatus'', ''ArithmeticOverflow'', ''CallerNotRegisteredSlasher'', ''InvalidEpochDuration'', ''InvalidClaimWindow'',
      ''ZeroDeposit'', ''InsufficientBalance'']"

definition governance_program_program_errors :: "string list" where
  "governance_program_program_errors =
     [''Unauthorized'', ''Paused'', ''InvalidProposalStatus'', ''VotingNotEnded'', ''VotingEnded'',
      ''TimelockNotElapsed'', ''ExecutionWindowExpired'', ''QuorumNotMet'', ''MerkleProofInvalid'', ''MerkleProofTooDeep'',
      ''RegistryFull'', ''DuplicateProgram'', ''ProgramNotRegistered'', ''ArithmeticOverflow'', ''PayloadTooLarge'',
      ''CannotCancelAfterVoteStart'', ''EmptyMetadataUri'']"

definition nxs_staking_program_errors :: "string list" where
  "nxs_staking_program_errors =
     [''Unauthorized'', ''ReentrancyDetected'', ''UnauthorizedCaller'', ''CallerGuardNotActive'', ''CpiDepthExceeded'',
      ''GuardAlreadyActive'', ''GuardNotInitialized'', ''AdminResetNotTimelocked'', ''Paused'', ''InvalidLockup'',
      ''ZeroAmount'', ''LockupNotEnded'', ''CooldownNotEnded'', ''NotActive'', ''NotInCooldown'',
      ''ArithmeticOverflow'', ''EpochNotEnded'', ''DepositsFrozen'', ''DepositsNotFrozen'', ''PoolClosed'',
      ''MigrationWindowActive'']"

definition proof_verifier_program_errors :: "string list" where
  "proof_verifier_program_errors =
     [''Unauthorized'', ''Paused'', ''VkAlreadyExists'', ''VkNotFound'', ''VkMismatch'',
      ''PublicInputCountMismatch'', ''PublicInputOutOfField'', ''ProofMalformed'', ''ProofInvalid'', ''TimelockNotElapsed'',
      ''NoPendingActivation'', ''ActivationPending'', ''NotProductionVk'', ''IcLengthMismatch'', ''TooManyPublicInputs'',
      ''NoPendingAuthority'', ''NotImplemented'', ''InvalidBatchSize'', ''BatchFull'', ''BatchEmpty'',
      ''BatchVkMismatch'', ''ReentrancyDetected'', ''UnauthorizedCaller'', ''CallerGuardNotActive'', ''CpiDepthExceeded'',
      ''GuardAlreadyActive'', ''GuardNotInitialized'', ''AdminResetNotTimelocked'', ''ReputationBindingNotReady'', ''SampleHashMismatch'',
      ''PoseidonError'', ''VkAlreadyFinalized'']"

definition task_market_program_errors :: "string list" where
  "task_market_program_errors =
     [''Unauthorized'', ''Paused'', ''MintNotAllowed'', ''InvalidAmount'', ''InvalidDeadline'',
      ''DeadlineTooFar'', ''AgentNotActive'', ''WrongStatus'', ''DeadlinePassed'', ''DisputeWindowClosed'',
      ''DisputeWindowOpen'', ''NotExpired'', ''EscrowMismatch'', ''ArithmeticOverflow'', ''ProofInvalid'',
      ''CallerNotOperator'', ''TaskNotFound'', ''FeeBoundExceeded'', ''TooManyMilestones'', ''NoPendingAuthority'',
      ''GraceNotElapsed'', ''ZeroResultHash'', ''AgentMismatch'', ''OutcomeCpiFailed'', ''InsufficientStake'',
      ''PhaseClosed'', ''RevealMismatch'', ''BondOutOfRange'', ''TooManyBidders'', ''BidBookNotSettled'',
      ''NotWinner'', ''NoReveals'', ''AlreadyRefunded'', ''WindowInvalid'', ''BidBookAlreadyOpen'',
      ''CommitsPresent'', ''PayloadTooLarge'', ''InvalidCapabilityBit'', ''UnknownCapability'', ''PersonhoodRequired'',
      ''PersonhoodExpired'', ''PersonhoodRevoked'', ''AttestationOperatorMismatch'', ''HookNotAllowed'', ''MintExtensionRejected'',
      ''HookAllowlistMismatch'', ''MintAlreadyAccepted'', ''ReentrancyDetected'', ''UnauthorizedCaller'', ''CallerGuardNotActive'',
      ''CpiDepthExceeded'', ''GuardAlreadyActive'', ''GuardNotInitialized'', ''AdminResetNotTimelocked'', ''IncompleteBidEnumeration'',
      ''DuplicateBidEnumeration'', ''CapabilityNotInAgentMask'', ''InvalidBidInEnumeration'', ''BondNotClaimed'', ''EscrowNotEmpty'']"

definition template_registry_program_errors :: "string list" where
  "template_registry_program_errors =
     [''Paused'', ''Unauthorized'', ''RoyaltyExceedsCap'', ''InvalidStatus'', ''LineageDepthExceeded'',
      ''CapabilityMaskMismatch'', ''RentalDisabled'', ''RentalDurationOutOfBounds'', ''RentalNotEnded'', ''RentalAlreadyClosed'',
      ''ArithmeticOverflow'', ''NothingToClaim'', ''InvalidCpiCaller'', ''FeeSplitExceeds100'']"

definition treasury_standard_program_errors :: "string list" where
  "treasury_standard_program_errors =
     [''Unauthorized'', ''Paused'', ''MintNotAllowed'', ''LimitExceeded'', ''InsufficientVault'',
      ''StreamAlreadyActive'', ''StreamNotActive'', ''StreamAlreadyClosed'', ''InvalidDuration'', ''InvalidRate'',
      ''OracleStale'', ''OracleConfidenceTooWide'', ''SwapSlippage'', ''ArithmeticOverflow'', ''CallerNotTaskMarket'',
      ''AgentNotActive'', ''InvalidLimits'', ''AllowedMintsFull'', ''MintNotFound'', ''NoPendingAuthority'',
      ''ZeroAmount'', ''PayTaskDisabled'', ''InvalidJupiterProgram'', ''SwapRouteRequired'', ''RouteDataTooLong'',
      ''SwapAmountExceeded'', ''OracleRequired'', ''OracleNonPositivePrice'', ''AgentMismatch'', ''OperatorMismatch'',
      ''TargetNotAllowed'', ''TooManyCallTargets'', ''InvalidCallTarget'', ''HookNotAllowed'', ''HookAllowlistAlreadySet'',
      ''HookAllowlistMismatch'', ''ReentrancyDetected'', ''UnauthorizedCaller'', ''CallerGuardNotActive'', ''CpiDepthExceeded'',
      ''GuardAlreadyActive'', ''GuardNotInitialized'', ''AdminResetNotTimelocked'', ''YieldNameTooLong'', ''YieldUriTooLong'',
      ''YieldAllocationInvalid'', ''YieldAllocationExceeded'', ''YieldStrategyNotActive'', ''TreasuryYieldNotActive'', ''YieldAccountingStale'',
      ''YieldRouteRequired'', ''UnsupportedYieldVenue'', ''InvalidYieldProgram'', ''YieldMintMismatch'', ''YieldReceiptMintMismatch'',
      ''YieldDepositAmountExceeded'', ''YieldWithdrawAmountExceeded'', ''YieldNoBalanceDelta'', ''YieldPositionClosed'', ''YieldUnwindIncomplete'']"

definition program_errors :: "(string \<times> string list) list" where
  "program_errors =
     [(''agent_registry'', agent_registry_program_errors),
      (''capability_registry'', capability_registry_program_errors),
      (''dispute_arbitration'', dispute_arbitration_program_errors),
      (''fee_collector'', fee_collector_program_errors),
      (''governance_program'', governance_program_program_errors),
      (''nxs_staking'', nxs_staking_program_errors),
      (''proof_verifier'', proof_verifier_program_errors),
      (''task_market'', task_market_program_errors),
      (''template_registry'', template_registry_program_errors),
      (''treasury_standard'', treasury_standard_program_errors)]"

definition table_of :: "string \<Rightarrow> error_codes \<times> error_msgs" where
  "table_of p = (case map_of PROGRAM_ERROR_DEFS p of None \<Rightarrow> ([], []) | Some t \<Rightarrow> t)"

text \<open>A table is well numbered when its codes run from 6000 and every code has a message.\<close>

definition numbered :: "error_codes \<times> error_msgs \<Rightarrow> bool" where
  "numbered t = (case t of (es, msgs) \<Rightarrow> map snd es = map (\<lambda>i. 6000 + int i) [0..<length es] \<and> map fst msgs = map snd es \<and> list_all (\<lambda>m. snd m \<noteq> []) msgs)"

subsection \<open>Lemmas\<close>

lemma add_entries_get:
  "distinct (map snd es) \<Longrightarrow> map_get (add_entries msgs es m) code =
     (case map_of (map (\<lambda>(n, c). (c, n)) es) code of Some n \<Rightarrow> Some (n, case map_of msgs code of None \<Rightarrow> [] | Some t \<Rightarrow> t) | None \<Rightarrow> map_get m code)"
proof (induction es arbitrary: m)
  case (Cons e es)
  obtain n c where e: "e = (n, c)" by fastforce
  from Cons.prems e have "map_of (map (\<lambda>(n, c). (c, n)) es) c = None" by (force simp: map_of_eq_None_iff)
  with Cons e show ?case by (auto simp: map_get_set split: option.splits)
qed simp

lemma map_of_numbered:
  assumes "map fst xs = map (\<lambda>i. 6000 + int i) [0..<n]"
  shows "map_of xs (6000 + int i) = (if i < n then Some (snd (xs ! i)) else None)"
proof -
  have len: "length xs = n" using arg_cong [OF assms, of length] by simp
  have nth: "fst (xs ! j) = 6000 + int j" if "j < n" for j
    using arg_cong [OF assms, of "\<lambda>l. l ! j"] that len by simp
  have dist: "distinct (map fst xs)" unfolding assms by (simp add: distinct_map inj_on_def)
  show ?thesis
  proof (cases "i < n")
    case True
    then have "(6000 + int i, snd (xs ! i)) \<in> set xs" using nth [OF True] len by (metis nth_mem prod.collapse)
    with dist True show ?thesis by simp
  next
    case False
    have "6000 + int i \<notin> fst ` set xs"
    proof
      assume "6000 + int i \<in> fst ` set xs"
      then obtain j where "j < n" "fst (xs ! j) = 6000 + int i" using len by (auto simp: in_set_conv_nth)
      with nth [of j] False show False by simp
    qed
    with False show ?thesis by (simp add: map_of_eq_None_iff)
  qed
qed

lemma numbered_get:
  assumes "numbered (es, msgs)"
  shows "map_get (add_entries msgs es []) (6000 + int i) = (if i < length es then Some (fst (es ! i), snd (msgs ! i)) else None)"
    and "i < length es \<Longrightarrow> snd (msgs ! i) \<noteq> []"
proof -
  have codes: "map snd es = map (\<lambda>i. 6000 + int i) [0..<length es]" and mc: "map fst msgs = map (\<lambda>i. 6000 + int i) [0..<length es]"
    and ne: "list_all (\<lambda>m. snd m \<noteq> []) msgs" using assms by (simp_all add: numbered_def)
  have len: "length msgs = length es" using arg_cong [OF mc, of length] by simp
  have dist: "distinct (map snd es)" unfolding codes by (simp add: distinct_map inj_on_def)
  have "map fst (map (\<lambda>(n, c). (c, n)) es) = map (\<lambda>i. 6000 + int i) [0..<length es]"
    by (subst codes [symmetric]) (simp add: comp_def case_prod_unfold)
  note swapped = map_of_numbered [OF this, of i]
  show "map_get (add_entries msgs es []) (6000 + int i) = (if i < length es then Some (fst (es ! i), snd (msgs ! i)) else None)"
    unfolding add_entries_get [OF dist] swapped map_of_numbered [OF mc] by (simp add: case_prod_unfold map_get_def)
  show "snd (msgs ! i) \<noteq> []" if "i < length es"
    using ne that len by (simp add: list_all_length)
qed

lemma foldl_map_set:
  "map_get (foldl (\<lambda>result d. case d of (p, es, ms) \<Rightarrow> map_set p (add_entries ms es []) result) m defs) p =
     (case map_of (rev defs) p of Some (es, ms) \<Rightarrow> Some (add_entries ms es []) | None \<Rightarrow> map_get m p)"
proof (induction defs arbitrary: m)
  case (Cons d defs)
  obtain q es ms where d: "d = (q, es, ms)" by (cases d) auto
  show ?case by (simp add: Cons.IH d map_get_set map_add_def split: option.split)
qed simp

lemma programs_distinct: "distinct (map fst PROGRAM_ERROR_DEFS)"
  by (simp add: PROGRAM_ERROR_DEFS_def)

lemma decode_with_program:
  assumes "map_of PROGRAM_ERROR_DEFS p = Some (es, msgs)" and "p \<noteq> []" and "numbered (es, msgs)"
  shows "decodeSaepError (6000 + int i) (Some p) =
    (if i < length es then Some \<lparr>se_code = 6000 + int i, se_name = fst (es ! i), se_msg = snd (msgs ! i), se_program = p\<rparr> else None)"
proof -
  have "map_of (rev PROGRAM_ERROR_DEFS) p = Some (es, msgs)"
    using map_of_SomeD [OF assms(1)] programs_distinct by (intro map_of_is_SomeI) (simp_all add: rev_map [symmetric])
  then have "map_get SAEP_ERRORS p = Some (add_entries msgs es [])"
    by (simp add: SAEP_ERRORS_def buildFullMap_def foldl_map_set)
  then show ?thesis using assms(2) by (simp add: decodeSaepError_def numbered_get(1) [OF assms(3)])
qed

lemma tables_numbered: "list_all (\<lambda>d. numbered (snd d)) PROGRAM_ERROR_DEFS"
  by code_simp

lemma table_numbered: "map_of PROGRAM_ERROR_DEFS p = Some t \<Longrightarrow> numbered t"
  using tables_numbered by (force simp: list_all_iff dest: map_of_SomeD)

text \<open>Each table against its program: the names agree as far as the table goes.\<close>

definition table_prefix :: "string \<times> string list \<Rightarrow> bool" where
  "table_prefix e = (case e of (p, names) \<Rightarrow> let es = fst (table_of p) in p = ''fee_collector'' \<or> map fst es = take (length es) names)"

lemma tables_match: "list_all table_prefix program_errors"
  by code_simp

lemma programs_covered: "list_all (\<lambda>(p, names). p \<noteq> [] \<and> map_of PROGRAM_ERROR_DEFS p \<noteq> None) program_errors"
  by code_simp

definition complete_tables :: "string list" where
  "complete_tables = [''capability_registry'', ''dispute_arbitration'', ''governance_program'', ''proof_verifier'', ''task_market'', ''template_registry'']"

lemma tables_complete: "list_all (\<lambda>(p, names). p \<in> set complete_tables \<longrightarrow> length (fst (table_of p)) = length names) program_errors"
  by code_simp

subsection \<open>Properties\<close>

text \<open>
  C33. Given the program, the decoder never names an error wrongly, except for the fee collector: for every error of another program's
  enumeration it returns the program's own name with a message and the code, or nothing; and nothing only for errors beyond the end of
  the table, which six of the programs do not have.
\<close>

theorem decoder_matches_programs:
  assumes "(p, names) \<in> set program_errors" and "p \<noteq> ''fee_collector''" and "i < length names"
  shows "case decodeSaepError (6000 + int i) (Some p) of
      Some e \<Rightarrow> se_name e = names ! i \<and> se_msg e \<noteq> [] \<and> se_code e = 6000 + int i \<and> se_program e = p
    | None \<Rightarrow> p \<notin> set complete_tables \<and> length (fst (table_of p)) \<le> i"
proof -
  have cov: "p \<noteq> []" "map_of PROGRAM_ERROR_DEFS p \<noteq> None" using programs_covered assms(1) by (auto simp: list_all_iff)
  then obtain es msgs where t: "map_of PROGRAM_ERROR_DEFS p = Some (es, msgs)" by auto
  have tab: "table_of p = (es, msgs)" by (simp add: table_of_def t)
  have pre: "map fst es = take (length es) names" using tables_match assms(1,2) by (auto simp: list_all_iff table_prefix_def tab Let_def)
  have full: "p \<in> set complete_tables \<longrightarrow> length es = length names" using tables_complete assms(1) by (auto simp: list_all_iff tab)
  note dec = decode_with_program [OF t cov(1) table_numbered [OF t], of i]
  show ?thesis
  proof (cases "i < length es")
    case True
    then have "fst (es ! i) = names ! i" using arg_cong [OF pre, of "\<lambda>l. l ! i"] by simp
    with True dec numbered_get(2) [OF table_numbered [OF t] True] show ?thesis by simp
  next
    case False
    with dec full assms(3) show ?thesis by (auto simp: tab)
  qed
qed

theorem decoder_matches_programs_witness:
  "decodeSaepError 6001 (Some ''task_market'') \<noteq> None \<and> se_name (the (decodeSaepError 6001 (Some ''task_market''))) = task_market_program_errors ! 1"
proof -
  have mem: "(''task_market'', task_market_program_errors) \<in> set program_errors" by (simp add: program_errors_def)
  have len: "1 < length task_market_program_errors" by (simp add: task_market_program_errors_def)
  have "''task_market'' \<in> set complete_tables" by (simp add: complete_tables_def)
  then show ?thesis using decoder_matches_programs [OF mem _ len] by (auto split: option.splits)
qed

text \<open>
  For the fee collector the decoder names the wrong error: the program has grown six errors in the middle of its enumeration, so
  every code of the table but the first is decoded to the name of a different error, and the last six codes to nothing.
\<close>

theorem fee_errors_misnamed:
  assumes "1 \<le> i" and "i < length fee_collector_program_errors"
  shows "case decodeSaepError (6000 + int i) (Some ''fee_collector'') of
      Some e \<Rightarrow> se_name e \<noteq> fee_collector_program_errors ! i \<and> i < 36
    | None \<Rightarrow> 36 \<le> i"
proof -
  have t: "map_of PROGRAM_ERROR_DEFS ''fee_collector'' = Some (FeeCollectorErrors, fee_collector_msgs)"
    by (simp add: PROGRAM_ERROR_DEFS_def)
  have len: "length FeeCollectorErrors = 36" by (simp add: FeeCollectorErrors_def)
  have wrong: "list_all (\<lambda>(a, b). fst a \<noteq> b) (tl (zip FeeCollectorErrors fee_collector_program_errors))" by code_simp
  have "fst (FeeCollectorErrors ! i) \<noteq> fee_collector_program_errors ! i" if "i < 36"
  proof -
    have "length fee_collector_program_errors = 42" by (simp add: fee_collector_program_errors_def)
    then have "tl (zip FeeCollectorErrors fee_collector_program_errors) ! (i - 1) = (FeeCollectorErrors ! i, fee_collector_program_errors ! i)"
      and "i - 1 < length (tl (zip FeeCollectorErrors fee_collector_program_errors))"
      using that assms(1) len by (simp_all add: nth_tl)
    with wrong show ?thesis by (force simp: list_all_length)
  qed
  then show ?thesis using decode_with_program [OF t _ table_numbered [OF t], of i] len by simp
qed

theorem fee_errors_misnamed_witness:
  "case decodeSaepError 6001 (Some ''fee_collector'') of Some e \<Rightarrow> se_name e \<noteq> fee_collector_program_errors ! 1 \<and> (1 :: nat) < 36 | None \<Rightarrow> 36 \<le> (1 :: nat)"
proof -
  have "1 < length fee_collector_program_errors" by (simp add: fee_collector_program_errors_def)
  from fee_errors_misnamed [OF _ this] show ?thesis by simp
qed

end
