(* ===== verification/Sdk_Economics.thy ===== *)
theory Sdk_Economics
  imports Saep_Prelude "HOL-Library.Signed_Division"
begin

text \<open>
  The template economics simulator of the portal (\<open>packages/sdk-ui/src/template-simulator.ts\<close>) and the treasury yield policy of the
  SDK (\<open>packages/sdk/src/research/yield.ts\<close>). Lamports are \<open>bigint\<close>, hence \<open>int\<close>, and \<open>bigint\<close> division truncates
  towards zero, hence \<open>sdiv\<close>.
\<close>

subsection \<open>Numbers\<close>

text \<open>An amount as it may be given: nothing, a \<open>bigint\<close>, a number (\<open>None\<close> when not finite), or a text with what \<open>BigInt\<close> makes
  of it (\<open>None\<close> when it throws).\<close>

datatype amount = AMissing | ABig int | ANumber "rat option" | AText string "int option"

definition toBigInt :: "amount \<Rightarrow> int" where
  "toBigInt v = (case v of
     AMissing \<Rightarrow> 0
   | ABig n \<Rightarrow> n
   | ANumber None \<Rightarrow> 0
   | ANumber (Some x) \<Rightarrow> max 0 \<lfloor>x\<rfloor>
   | AText s parsed \<Rightarrow> if s = [] then 0 else (case parsed of Some n \<Rightarrow> n | None \<Rightarrow> 0))"

definition clampInt :: "rat option \<Rightarrow> int \<Rightarrow> int \<Rightarrow> int" where
  "clampInt v lo hi = (case v of None \<Rightarrow> lo | Some x \<Rightarrow> min hi (max lo \<lfloor>x\<rfloor>))"

definition bpsMul :: "int \<Rightarrow> int \<Rightarrow> int" where
  "bpsMul v bps = (v * clampInt (Some (of_int bps)) 0 10000) sdiv 10000"

definition ceilDiv :: "int \<Rightarrow> int \<Rightarrow> int" where
  "ceilDiv numerator denominator = (numerator + denominator - 1) sdiv denominator"

subsection \<open>The simulator\<close>

record TemplateSimulationInput =
  in_tasksPerMonth :: "rat option"
  in_avgReward :: amount
  in_successRateBps :: "rat option"
  in_disputeRateBps :: "rat option"
  in_royaltyBps :: "rat option"
  in_platformFeeBps :: "rat option"
  in_rentPricePerSec :: amount
  in_rentDurationDays :: "rat option"
  in_forkSetup :: amount

datatype TemplateSimulationRecommendation = RecRent | RecFork | RecWait

record TemplateSimulationResult =
  out_tasksPerMonth :: int
  out_successful :: rat
  out_disputed :: rat
  out_gross :: int
  out_royalty :: int
  out_rent :: int
  out_platformFee :: int
  out_disputeLoss :: int
  out_rentNet :: int
  out_forkNet :: int
  out_bestNet :: int
  out_author :: int
  out_breakEven :: "int option"
  out_marginBps :: int
  out_recommendation :: TemplateSimulationRecommendation

definition perTaskContribution :: "int \<Rightarrow> int \<Rightarrow> int \<Rightarrow> int \<Rightarrow> int" where
  "perTaskContribution reward success royalty dispute =
     (let gross = bpsMul reward success in gross - bpsMul gross royalty - bpsMul reward dispute)"

definition simulateTemplateEconomics :: "TemplateSimulationInput \<Rightarrow> TemplateSimulationResult" where
  "simulateTemplateEconomics input =
     (let tasksPerMonth = clampInt (in_tasksPerMonth input) 0 1000000;
          avgReward = toBigInt (in_avgReward input);
          rentPrice = toBigInt (in_rentPricePerSec input);
          forkSetup = toBigInt (in_forkSetup input);
          successRate = clampInt (in_successRateBps input) 0 10000;
          disputeRate = clampInt (in_disputeRateBps input) 0 10000;
          royalty = clampInt (in_royaltyBps input) 0 10000;
          platform = clampInt (in_platformFeeBps input) 0 10000;
          days = clampInt (in_rentDurationDays input) 0 3650;
          expected = avgReward * tasksPerMonth;
          gross = bpsMul expected successRate;
          disputeLoss = bpsMul expected disputeRate;
          royaltyCost = bpsMul gross royalty;
          rentCost = rentPrice * days * 86400;
          platformFee = bpsMul rentCost platform;
          rentNet = gross - royaltyCost - rentCost - platformFee - disputeLoss;
          forkNet = gross - royaltyCost - forkSetup - disputeLoss;
          bestNet = (if rentNet \<ge> forkNet then rentNet else forkNet);
          contribution = perTaskContribution avgReward successRate royalty disputeRate;
          fixedRentCost = rentCost + platformFee in
      \<lparr>out_tasksPerMonth = tasksPerMonth,
       out_successful = of_int (tasksPerMonth * successRate) / 10000,
       out_disputed = of_int (tasksPerMonth * disputeRate) / 10000,
       out_gross = gross, out_royalty = royaltyCost, out_rent = rentCost, out_platformFee = platformFee, out_disputeLoss = disputeLoss,
       out_rentNet = rentNet, out_forkNet = forkNet, out_bestNet = bestNet, out_author = royaltyCost + rentCost,
       out_breakEven = (if fixedRentCost > 0 \<and> contribution > 0 then Some (ceilDiv fixedRentCost contribution) else None),
       out_marginBps = (if gross > 0 then (bestNet * 10000) sdiv gross else if bestNet \<ge> 0 then 0 else - 10000),
       out_recommendation = (if bestNet \<le> 0 then RecWait else if rentNet \<ge> forkNet then RecRent else RecFork)\<rparr>)"

subsection \<open>Yield policy\<close>

datatype YieldLifecycle = YLive | YResearch | YNext | YDeferred

datatype TreasuryYieldStatus = YInactive | YActive | YPaused | YUnwinding

record YieldStrategyDescriptor =
  ys_id :: string
  ys_venue :: string
  ys_label :: string
  ys_lifecycle :: YieldLifecycle
  ys_riskTier :: string
  ys_allowedMints :: "string list"

record TreasuryYieldPolicy =
  allowedStrategyIds :: "string list"
  maxAllocationBps :: int
  yp_paused :: bool
  emergencyUnwindEnabled :: bool

record TreasuryYieldSnapshot =
  yield_status :: TreasuryYieldStatus
  idleUsdMicro :: int
  deployedUsdMicro :: int
  realizedYieldUsdMicro :: int
  yield_strategy :: "string option"

definition DEFAULT_YIELD_STRATEGIES :: "YieldStrategyDescriptor list" where
  "DEFAULT_YIELD_STRATEGIES =
     [\<lparr>ys_id = ''kamino-lend-usdc'', ys_venue = ''kamino'', ys_label = ''Kamino Lending'', ys_lifecycle = YLive, ys_riskTier = ''conservative'', ys_allowedMints = [''USDC'']\<rparr>,
      \<lparr>ys_id = ''marginfi-lend-usdc'', ys_venue = ''marginfi'', ys_label = ''Marginfi Lending'', ys_lifecycle = YResearch, ys_riskTier = ''moderate'', ys_allowedMints = [''USDC'']\<rparr>,
      \<lparr>ys_id = ''drift-yield-usdc'', ys_venue = ''drift'', ys_label = ''Drift Strategies'', ys_lifecycle = YDeferred, ys_riskTier = ''aggressive'', ys_allowedMints = [''USDC'']\<rparr>]"

definition getYieldStrategyDescriptor :: "string \<Rightarrow> YieldStrategyDescriptor list \<Rightarrow> YieldStrategyDescriptor option" where
  "getYieldStrategyDescriptor strategyId registry = List.find (\<lambda>e. ys_id e = strategyId) registry"

fun strategy_errors :: "YieldStrategyDescriptor list \<Rightarrow> string list \<Rightarrow> string list" where
  "strategy_errors registry [] = []"
| "strategy_errors registry (i # ids) = (case getYieldStrategyDescriptor i registry of
     None \<Rightarrow> (''unknown strategy: '' @ i) # strategy_errors registry ids
   | Some s \<Rightarrow> (if ys_lifecycle s = YDeferred then [''strategy is deferred and cannot be activated yet: '' @ i] else []) @ strategy_errors registry ids)"

definition validateTreasuryYieldPolicy :: "TreasuryYieldPolicy \<Rightarrow> YieldStrategyDescriptor list \<Rightarrow> string list" where
  "validateTreasuryYieldPolicy policy registry =
     (if maxAllocationBps policy < 0 \<or> maxAllocationBps policy > 10000 then [''maxAllocationBps must be between 0 and 10_000''] else [])
     @ (if allowedStrategyIds policy = [] \<and> \<not> yp_paused policy then [''active policies must allow at least one strategy''] else [])
     @ strategy_errors registry (allowedStrategyIds policy)
     @ (if \<not> emergencyUnwindEnabled policy then [''emergencyUnwindEnabled must remain true for constrained treasuries''] else [])"

definition computeDeployableUsdMicro :: "TreasuryYieldSnapshot \<Rightarrow> TreasuryYieldPolicy \<Rightarrow> int" where
  "computeDeployableUsdMicro snap policy =
     (if yield_status snap = YPaused \<or> yield_status snap = YUnwinding \<or> yp_paused policy then 0
      else (idleUsdMicro snap * maxAllocationBps policy) sdiv 10000)"

subsection \<open>Lemmas\<close>

lemma sdiv_nonneg: "0 \<le> a \<Longrightarrow> 0 < b \<Longrightarrow> a sdiv b = (a :: int) div b"
  by (cases "a = 0") (simp_all add: signed_divide_int_def)

lemma clampInt_range: "lo \<le> hi \<Longrightarrow> lo \<le> clampInt v lo hi \<and> clampInt v lo hi \<le> hi"
  by (auto simp: clampInt_def split: option.split)

lemma clampInt_id: "lo \<le> n \<Longrightarrow> n \<le> hi \<Longrightarrow> clampInt (Some (of_int n)) lo hi = n"
  by (simp add: clampInt_def)

lemma bpsMul_range:
  assumes "0 \<le> v"
  shows "0 \<le> bpsMul v bps" and "bpsMul v bps \<le> v"
proof -
  let ?b = "clampInt (Some (of_int bps)) 0 10000"
  have b: "0 \<le> ?b" "?b \<le> 10000" using clampInt_range [of 0 10000] by simp_all
  have eq: "bpsMul v bps = v * ?b div 10000" using assms b by (simp add: bpsMul_def sdiv_nonneg)
  show "0 \<le> bpsMul v bps" using assms b by (simp add: eq pos_imp_zdiv_nonneg_iff)
  have "v * ?b \<le> v * 10000" using assms b by (intro mult_left_mono) auto
  then show "bpsMul v bps \<le> v" unfolding eq by linarith
qed

lemma ceilDiv_least:
  assumes "0 < a" and "0 < b"
  shows "a \<le> ceilDiv a b * b \<and> (ceilDiv a b - 1) * b < a \<and> 0 < ceilDiv a b"
proof -
  have eq: "ceilDiv a b = (a + b - 1) div b" using assms by (simp add: ceilDiv_def sdiv_nonneg)
  have split: "a + b - 1 = (a + b - 1) div b * b + (a + b - 1) mod b" by simp
  have m: "0 \<le> (a + b - 1) mod b" "(a + b - 1) mod b < b" using assms by simp_all
  have le: "a \<le> ceilDiv a b * b" unfolding eq using split m by linarith
  have lt: "ceilDiv a b * b - b < a" unfolding eq using split m by linarith
  have "0 < ceilDiv a b" using le assms by (metis mult_nonpos_nonneg not_le order_less_imp_le order_trans)
  with le lt show ?thesis by (simp add: algebra_simps)
qed

lemma bpsMul_times:
  assumes "0 \<le> v" and "0 \<le> n" and "0 \<le> bps" and "bps \<le> 10000" and "10000 dvd v * bps"
  shows "bpsMul (v * n) bps = n * bpsMul v bps"
proof -
  from assms(5) obtain k where k: "v * bps = 10000 * k" by (rule dvdE)
  have "bpsMul (v * n) bps = (v * n * bps) div 10000" and one: "bpsMul v bps = (v * bps) div 10000"
    using assms by (simp_all add: bpsMul_def clampInt_id sdiv_nonneg)
  moreover have "v * n * bps = 10000 * (n * k)" using k by (simp add: algebra_simps)
  ultimately show ?thesis by (simp add: k)
qed

subsection \<open>Properties\<close>

text \<open>
  The simulator recommends the better choice: the best net is the larger of the two, it says wait exactly when neither
  gains, and rent or fork only when that choice gains and is not worse than the other. With amounts that are not negative the
  royalty lies within the revenue, and a break-even count is the least number of tasks whose contribution pays the rent and the fee.
\<close>

theorem simulator_recommends_best:
  "let r = simulateTemplateEconomics i;
       c = perTaskContribution (toBigInt (in_avgReward i)) (clampInt (in_successRateBps i) 0 10000) (clampInt (in_royaltyBps i) 0 10000)
         (clampInt (in_disputeRateBps i) 0 10000) in
     out_bestNet r = max (out_rentNet r) (out_forkNet r) \<and>
     (out_recommendation r = RecWait \<longleftrightarrow> out_rentNet r \<le> 0 \<and> out_forkNet r \<le> 0) \<and>
     (out_recommendation r = RecRent \<longleftrightarrow> 0 < out_rentNet r \<and> out_forkNet r \<le> out_rentNet r) \<and>
     (out_recommendation r = RecFork \<longleftrightarrow> 0 < out_forkNet r \<and> out_rentNet r < out_forkNet r) \<and>
     (0 \<le> toBigInt (in_avgReward i) \<longrightarrow> 0 \<le> out_royalty r \<and> out_royalty r \<le> out_gross r) \<and>
     (\<forall>n. out_breakEven r = Some n \<longrightarrow> out_rent r + out_platformFee r \<le> n * c \<and> (n - 1) * c < out_rent r + out_platformFee r)"
proof -
  define r where "r = simulateTemplateEconomics i"
  define c where "c = perTaskContribution (toBigInt (in_avgReward i)) (clampInt (in_successRateBps i) 0 10000) (clampInt (in_royaltyBps i) 0 10000)
         (clampInt (in_disputeRateBps i) 0 10000)"
  note defs = r_def simulateTemplateEconomics_def Let_def
  have best: "out_bestNet r = (if out_rentNet r \<ge> out_forkNet r then out_rentNet r else out_forkNet r)" by (simp add: defs)
  have rec: "out_recommendation r = (if out_bestNet r \<le> 0 then RecWait else if out_rentNet r \<ge> out_forkNet r then RecRent else RecFork)"
    by (simp add: defs)
  have even: "out_breakEven r = (if out_rent r + out_platformFee r > 0 \<and> c > 0 then Some (ceilDiv (out_rent r + out_platformFee r) c) else None)"
    by (simp add: defs c_def)
  have royalty: "0 \<le> out_royalty r \<and> out_royalty r \<le> out_gross r" if "0 \<le> toBigInt (in_avgReward i)"
  proof -
    let ?e = "toBigInt (in_avgReward i) * clampInt (in_tasksPerMonth i) 0 1000000"
    have "0 \<le> ?e" using that clampInt_range [of 0 1000000] by simp
    then have "0 \<le> bpsMul ?e (clampInt (in_successRateBps i) 0 10000)" by (rule bpsMul_range)
    then show ?thesis by (simp add: defs bpsMul_range)
  qed
  have "out_rent r + out_platformFee r \<le> n * c \<and> (n - 1) * c < out_rent r + out_platformFee r" if "out_breakEven r = Some n" for n
    using that ceilDiv_least [of "out_rent r + out_platformFee r" c] unfolding even by (auto split: if_splits)
  then show ?thesis
    unfolding Let_def r_def [symmetric] c_def [symmetric] using royalty by (auto simp: best rec)
qed

definition sample_sim :: TemplateSimulationInput where
  "sample_sim = \<lparr>in_tasksPerMonth = Some 86400, in_avgReward = ABig 1, in_successRateBps = Some 10000, in_disputeRateBps = Some 5000,
     in_royaltyBps = Some 0, in_platformFeeBps = Some 0, in_rentPricePerSec = ABig 1, in_rentDurationDays = Some 1, in_forkSetup = AMissing\<rparr>"

theorem simulator_recommends_best_witness:
  "out_breakEven (simulateTemplateEconomics sample_sim) = Some 86400 \<and>
   out_rent (simulateTemplateEconomics sample_sim) + out_platformFee (simulateTemplateEconomics sample_sim) \<le> 86400 * perTaskContribution 1 10000 0 5000"
proof -
  have run: "out_breakEven (simulateTemplateEconomics sample_sim) = Some 86400" by code_simp
  have c: "perTaskContribution (toBigInt (in_avgReward sample_sim)) (clampInt (in_successRateBps sample_sim) 0 10000) (clampInt (in_royaltyBps sample_sim) 0 10000)
         (clampInt (in_disputeRateBps sample_sim) 0 10000) = perTaskContribution 1 10000 0 5000" by code_simp
  show ?thesis using simulator_recommends_best [of sample_sim] run unfolding Let_def c by blast
qed

text \<open>
  The break-even count is the true one when nothing is rounded per task: if the basis-point products of one task are whole,
  the net of renting with \<open>n\<close> tasks is \<open>n\<close> contributions less the rent and the fee, so the count is the least number of
  tasks at which renting does not lose.
\<close>

theorem break_even_exact:
  assumes "i = \<lparr>in_tasksPerMonth = Some (of_int n), in_avgReward = ABig reward, in_successRateBps = Some (of_int success),
      in_disputeRateBps = Some (of_int dispute), in_royaltyBps = Some (of_int royalty), in_platformFeeBps = platform,
      in_rentPricePerSec = price, in_rentDurationDays = days, in_forkSetup = fork\<rparr>"
    and "0 \<le> n" and "n \<le> 1000000" and "0 \<le> reward"
    and "0 \<le> success" and "success \<le> 10000" and "0 \<le> dispute" and "dispute \<le> 10000" and "0 \<le> royalty" and "royalty \<le> 10000"
    and "10000 dvd reward * success" and "10000 dvd reward * dispute" and "10000 dvd bpsMul reward success * royalty"
    and "out_breakEven (simulateTemplateEconomics i) = Some k"
  shows "0 \<le> out_rentNet (simulateTemplateEconomics i) \<longleftrightarrow> k \<le> n"
proof -
  define r where "r = simulateTemplateEconomics i"
  define c where "c = perTaskContribution reward success royalty dispute"
  define f where "f = out_rent r + out_platformFee r"
  have clamp: "clampInt (Some (of_int n)) 0 1000000 = n" "clampInt (Some (of_int success)) 0 10000 = success"
    "clampInt (Some (of_int dispute)) 0 10000 = dispute" "clampInt (Some (of_int royalty)) 0 10000 = royalty"
    using assms by (simp_all add: clampInt_id)
  have gross: "bpsMul (reward * n) success = n * bpsMul reward success" using assms by (intro bpsMul_times) auto
  have loss: "bpsMul (reward * n) dispute = n * bpsMul reward dispute" using assms by (intro bpsMul_times) auto
  have roy: "bpsMul (n * bpsMul reward success) royalty = n * bpsMul (bpsMul reward success) royalty"
    using bpsMul_times [of "bpsMul reward success" n royalty] bpsMul_range [of reward success] assms by (simp add: mult.commute)
  have net: "out_rentNet r = n * c - f"
    unfolding r_def f_def simulateTemplateEconomics_def Let_def assms(1)
    by (simp add: clamp toBigInt_def gross loss roy c_def perTaskContribution_def Let_def right_diff_distrib)
  have "out_breakEven r = (if f > 0 \<and> c > 0 then Some (ceilDiv f c) else None)"
    unfolding r_def f_def simulateTemplateEconomics_def Let_def assms(1) by (simp add: clamp toBigInt_def c_def)
  with assms(14) have k: "f > 0" "c > 0" "k = ceilDiv f c" by (auto simp: r_def split: if_splits)
  from ceilDiv_least [OF k(1,2)] have le: "f \<le> k * c" and lt: "(k - 1) * c < f" by (simp_all add: k(3))
  have "0 \<le> n * c - f \<longleftrightarrow> k \<le> n"
  proof
    assume "0 \<le> n * c - f"
    with lt have "(k - 1) * c < n * c" by linarith
    with k(2) show "k \<le> n" by (simp add: mult_less_cancel_right)
  next
    assume "k \<le> n"
    then have "k * c \<le> n * c" using k(2) by (intro mult_right_mono) auto
    with le show "0 \<le> n * c - f" by linarith
  qed
  then show ?thesis by (simp add: r_def [symmetric] net)
qed

definition sample_even :: "int \<Rightarrow> TemplateSimulationInput" where
  "sample_even n = \<lparr>in_tasksPerMonth = Some (of_int n), in_avgReward = ABig 20000, in_successRateBps = Some (of_int 5000),
      in_disputeRateBps = Some (of_int 1000), in_royaltyBps = Some (of_int 1000), in_platformFeeBps = Some 0,
      in_rentPricePerSec = ABig 1, in_rentDurationDays = Some 1, in_forkSetup = AMissing\<rparr>"

theorem break_even_exact_witness:
  "out_breakEven (simulateTemplateEconomics (sample_even 13)) = Some 13 \<and> 0 \<le> out_rentNet (simulateTemplateEconomics (sample_even 13))"
proof -
  have run: "out_breakEven (simulateTemplateEconomics (sample_even 13)) = Some 13" by code_simp
  have "bpsMul 20000 5000 = 10000" by code_simp
  then show ?thesis using break_even_exact [OF sample_even_def [of 13], of 13] run by simp
qed

text \<open>With rewards too small for whole basis points the count is too low: at the count itself renting still loses.\<close>

lemma break_even_rounds_down:
  "out_breakEven (simulateTemplateEconomics sample_sim) = Some 86400 \<and> out_tasksPerMonth (simulateTemplateEconomics sample_sim) = 86400 \<and>
   out_rentNet (simulateTemplateEconomics sample_sim) = - 43200"
  by code_simp

lemma strategy_errors_none:
  "strategy_errors registry ids = [] \<longleftrightarrow>
     (\<forall>i \<in> set ids. \<exists>s. getYieldStrategyDescriptor i registry = Some s \<and> ys_lifecycle s \<noteq> YDeferred)"
  by (induction ids) (auto split: option.splits)

text \<open>
  A policy without errors allows only known strategies that are not deferred, keeps the unwind switch on, and never deploys more
  than its share of the idle funds, nothing while paused or unwinding.
\<close>

theorem yield_policy_bounds:
  assumes "validateTreasuryYieldPolicy policy registry = []" and "0 \<le> idleUsdMicro snap"
  shows "0 \<le> computeDeployableUsdMicro snap policy \<and> computeDeployableUsdMicro snap policy \<le> idleUsdMicro snap \<and>
    10000 * computeDeployableUsdMicro snap policy \<le> idleUsdMicro snap * maxAllocationBps policy \<and>
    (yield_status snap \<in> {YPaused, YUnwinding} \<or> yp_paused policy \<longrightarrow> computeDeployableUsdMicro snap policy = 0) \<and>
    emergencyUnwindEnabled policy \<and>
    (\<forall>i \<in> set (allowedStrategyIds policy). \<exists>s. getYieldStrategyDescriptor i registry = Some s \<and> ys_lifecycle s \<noteq> YDeferred)"
proof -
  have v: "0 \<le> maxAllocationBps policy" "maxAllocationBps policy \<le> 10000" "emergencyUnwindEnabled policy"
    "strategy_errors registry (allowedStrategyIds policy) = []"
    using assms(1) by (auto simp: validateTreasuryYieldPolicy_def split: if_splits)
  let ?x = "idleUsdMicro snap * maxAllocationBps policy"
  have x: "0 \<le> ?x" "?x \<le> idleUsdMicro snap * 10000" using v assms(2) by (simp_all add: mult_left_mono)
  then have "?x sdiv 10000 = ?x div 10000" by (simp add: sdiv_nonneg)
  moreover have "0 \<le> ?x div 10000 \<and> ?x div 10000 \<le> idleUsdMicro snap \<and> 10000 * (?x div 10000) \<le> ?x" using x by linarith
  ultimately show ?thesis using v x assms(2) by (auto simp: computeDeployableUsdMicro_def strategy_errors_none)
qed

definition sample_policy :: TreasuryYieldPolicy where
  "sample_policy = \<lparr>allowedStrategyIds = [''kamino-lend-usdc''], maxAllocationBps = 5000, yp_paused = False, emergencyUnwindEnabled = True\<rparr>"

definition sample_treasury :: "int \<Rightarrow> int \<Rightarrow> TreasuryYieldSnapshot" where
  "sample_treasury idle deployed = \<lparr>yield_status = YActive, idleUsdMicro = idle, deployedUsdMicro = deployed, realizedYieldUsdMicro = 0, yield_strategy = None\<rparr>"

theorem yield_policy_bounds_witness:
  "validateTreasuryYieldPolicy sample_policy DEFAULT_YIELD_STRATEGIES = [] \<and> computeDeployableUsdMicro (sample_treasury 100 0) sample_policy \<le> 100"
proof -
  have ok: "validateTreasuryYieldPolicy sample_policy DEFAULT_YIELD_STRATEGIES = []" by code_simp
  from yield_policy_bounds [OF ok, of "sample_treasury 100 0"] ok show ?thesis by (simp add: sample_treasury_def)
qed

text \<open>The share is of the idle funds, not of the whole: deploying what is offered and asking again goes over the share of the
  whole, here three quarters under a limit of a half.\<close>

lemma allocation_compounds:
  "computeDeployableUsdMicro (sample_treasury 100 0) sample_policy = 50 \<and> computeDeployableUsdMicro (sample_treasury 50 50) sample_policy = 25"
  by code_simp

end
