(* ===== verification/Sdk_Idl.thy ===== *)
theory Sdk_Idl
  imports Sdk_Pda
begin

text \<open>
  The interface descriptions of the on-chain programs (\<open>packages/sdk/src/generated\<close>, the camelCase form of
  \<open>packages/sdk/src/idl\<close>) for every instruction the SDK builds, and what it means that a request to build an instruction
  agrees with its description. Account and argument names in seeds are written in camelCase as Anchor reads them;
  documentation strings and the \<open>relations\<close> of signers are left out.
\<close>

subsection \<open>Descriptions\<close>

datatype idl_seed = ConstSeed string | AccountSeed string | FieldSeed string string | ArgSeed string

datatype seed_program = OwnProgram | ProgramOf string | ProgramConst pubkey

datatype idl_flag = Writable | Signer | Optional

datatype idl_account =
  IdlAccount (ac_name: string) (ac_flags: "idl_flag list") (ac_address: "string option")
    (ac_pda: "(idl_seed list \<times> seed_program) option")

datatype idl_type = Prim string | ArrayOf idl_type nat | VecOf idl_type | Defined string

record idl_instruction =
  idl_name :: string
  idl_discriminator :: "nat list"
  idl_accounts :: "idl_account list"
  idl_args :: "(string \<times> idl_type) list"

subsection \<open>Requests\<close>

text \<open>What a builder hands to Anchor: \<open>program.methods.m(args).accounts(accs).remainingAccounts(rest)\<close>. An account
    given as
  \<open>null\<close> is \<open>None\<close>.\<close>

datatype ix_arg =
    BytesArg bytes
  | BufferArg bytes
  | BnArg int
  | NumberArg rat
  | KeyArg pubkey
  | BoolArg bool
  | TextArg string
  | ListArg "ix_arg list"
  | VariantArg string "(string \<times> ix_arg) list"
  | StructArg "(string \<times> ix_arg) list"

type_synonym account_meta = "pubkey \<times> bool \<times> bool"

record ix_request =
  rq_method :: string
  rq_args :: "ix_arg list"
  rq_accounts :: "(string \<times> pubkey option) list"
  rq_remaining :: "account_meta list"

type_synonym pda_search = "(pubkey, pubkey \<times> nat) find"

subsection \<open>Agreement\<close>

text \<open>\<open>object[name]\<close>\<close>

fun field_of :: "('k \<times> 'v) list \<Rightarrow> 'k \<Rightarrow> 'v option" where
  "field_of [] n = None"
| "field_of ((k, v) # fs) n = (if k = n then Some v else field_of fs n)"

text \<open>A value of the kind the type needs; byte arrays have the length of the type.\<close>

fun fits :: "idl_type \<Rightarrow> ix_arg \<Rightarrow> bool" where
  "fits (Prim p) (BnArg n) = (p \<in> {''u64'', ''i64'', ''u128''})"
| "fits (Prim p) (NumberArg n) = (p \<in> {''u8'', ''u16'', ''u32''})"
| "fits (Prim p) (KeyArg k) = (p = ''pubkey'')"
| "fits (Prim p) (BoolArg b) = (p = ''bool'')"
| "fits (Prim p) (TextArg s) = (p = ''string'')"
| "fits (Prim p) (BufferArg b) = (p = ''bytes'')"
| "fits (ArrayOf t n) (BytesArg b) = (t = Prim ''u8'' \<and> length b = n)"
| "fits (VecOf t) (ListArg xs) = list_all (fits t) xs"
| "fits (Defined d) (VariantArg v fs) = True"
| "fits (Defined d) (StructArg fs) = True"
| "fits _ _ = False"

fun arg_seed :: "ix_arg \<Rightarrow> bytes option" where
  "arg_seed (BytesArg b) = Some b"
| "arg_seed (BufferArg b) = Some b"
| "arg_seed (KeyArg k) = Some (toBuffer k)"
| "arg_seed (BnArg n) = (if in_u64 n then Some (u64le n) else None)"
| "arg_seed _ = None"

type_synonym accounts = "(string \<times> pubkey option) list"

definition provided :: "accounts \<Rightarrow> string \<Rightarrow> pubkey option" where
  "provided accs a = (case field_of accs a of Some (Some k) \<Rightarrow> Some k | _ \<Rightarrow> None)"

text \<open>The bytes of a seed; \<open>contents\<close> holds the known fields of the accounts.\<close>

type_synonym contents = "((string \<times> string) \<times> bytes) list"

fun seed_bytes :: "contents \<Rightarrow> (string \<times> ix_arg) list \<Rightarrow> accounts \<Rightarrow> idl_seed \<Rightarrow> bytes
    option" where
  "seed_bytes contents args accs (ConstSeed s) = Some (enc s)"
| "seed_bytes contents args accs (AccountSeed a) = map_option toBuffer (provided accs a)"
| "seed_bytes contents args accs (FieldSeed a f) = field_of contents (a, f)"
| "seed_bytes contents args accs (ArgSeed a) = Option.bind (field_of args a) arg_seed"

fun program_key :: "pubkey \<Rightarrow> accounts \<Rightarrow> seed_program \<Rightarrow> pubkey option" where
  "program_key programId accs OwnProgram = Some programId"
| "program_key programId accs (ProgramOf a) = provided accs a"
| "program_key programId accs (ProgramConst k) = Some k"

text \<open>The address the seeds of an account give, when all of them are known.\<close>

definition seeded_address :: "pda_search \<Rightarrow> pubkey \<Rightarrow> contents \<Rightarrow> (string \<times> ix_arg) list
    \<Rightarrow> accounts \<Rightarrow> idl_seed list \<Rightarrow> seed_program \<Rightarrow> pubkey option" where
  "seeded_address search programId contents args accs ss p = (case (those (map (seed_bytes contents args accs) ss), program_key programId
      accs p) of
     (Some bs, Some k) \<Rightarrow> Some (fst (search bs k)) | _ \<Rightarrow> None)"

text \<open>What a given key of an account is: wrong, right, or not decided because a field of another account is not known.\<close>

datatype key_state = Wrong | Right | Undecided

definition key_verdict :: "(string \<Rightarrow> pubkey) \<Rightarrow> (idl_seed list \<Rightarrow> seed_program \<Rightarrow> pubkey
    option) \<Rightarrow> idl_account \<Rightarrow> pubkey option \<Rightarrow> key_state" where
  "key_verdict publicKey seeded a v = (case v of
     None \<Rightarrow> if Optional \<in> set (ac_flags a) then Right else Wrong
   | Some k \<Rightarrow> (case ac_address a of
       Some s \<Rightarrow> if publicKey s = k then Right else Wrong
     | None \<Rightarrow> (case ac_pda a of
         None \<Rightarrow> Right
       | Some (ss, p) \<Rightarrow> (case seeded ss p of
           None \<Rightarrow> Undecided
         | Some k' \<Rightarrow> if k' = k then Right else Wrong))))"

text \<open>The accounts of a request against those of the description, in its order: the names the request leaves out and the
  names whose key is not decided, or \<open>None\<close> when a key is wrong or a name is not of the description.\<close>

fun check_accounts :: "(idl_account \<Rightarrow> pubkey option \<Rightarrow> key_state) \<Rightarrow> idl_account list \<Rightarrow>
    accounts \<Rightarrow> (string list \<times> string list) option" where
  "check_accounts judge [] [] = Some ([], [])"
| "check_accounts judge [] (p # ps) = None"
| "check_accounts judge (a # as) [] = map_option (\<lambda>(m, g). (ac_name a # m, g)) (check_accounts judge as [])"
| "check_accounts judge (a # as) ((n, v) # ps) =
     (if n = ac_name a then (case judge a v of
        Wrong \<Rightarrow> None
      | Right \<Rightarrow> check_accounts judge as ps
      | Undecided \<Rightarrow> map_option (\<lambda>(m, g). (m, n # g)) (check_accounts judge as ps))
      else map_option (\<lambda>(m, g). (ac_name a # m, g)) (check_accounts judge as ((n, v) # ps)))"

text \<open>A builder that returns a request agreeing with its description: the method, the kinds of the arguments, and the
  accounts, up to those it leaves to Anchor and those it takes undecided from its caller.\<close>

definition matches :: "(string \<Rightarrow> pubkey) \<Rightarrow> pda_search \<Rightarrow> pubkey \<Rightarrow> contents \<Rightarrow>
    idl_instruction \<Rightarrow> string list \<Rightarrow> string list \<Rightarrow> ix_request js \<Rightarrow> bool" where
  "matches publicKey search programId contents ix missing caller_given r = (case r of Inl e \<Rightarrow> False
     | Inr q \<Rightarrow> rq_method q = idl_name ix \<and> list_all2 fits (map snd (idl_args ix)) (rq_args q) \<and>
         check_accounts
           (key_verdict publicKey (seeded_address search programId contents (zip (map fst (idl_args ix)) (rq_args q)) (rq_accounts q)))
           (idl_accounts ix) (rq_accounts q) = Some (missing, caller_given))"

text \<open>A request that passes names only accounts of the description, in its order, and what it does not name is reported.\<close>

lemma check_accounts_names:
  assumes "check_accounts judge as ps = Some (missing, open_keys)"
  shows "subseq (map fst ps) (map ac_name as) \<and> set (map ac_name as) = set missing \<union> set (map fst ps) \<and>
    length as = length missing + length ps \<and> set open_keys \<subseteq> set (map fst ps)"
  using assms
proof (induction judge as ps arbitrary: missing open_keys rule: check_accounts.induct)
  case (4 judge a as n v ps)
  show ?case
  proof (cases "n = ac_name a")
    case True
    with "4.prems" obtain g where "check_accounts judge as ps = Some (missing, g)" and "set open_keys \<subseteq> insert n (set g)"
      and "judge a v \<noteq> Wrong"
      by (cases "judge a v") auto
    with "4.IH"(1,2) [OF True] True show ?thesis by (cases "judge a v") auto
  next
    case False
    with "4.prems" obtain m where "check_accounts judge as ((n, v) # ps) = Some (m, open_keys)" and "missing = ac_name a # m"
      by auto
    with "4.IH"(3) [OF False] False show ?thesis by (auto intro: list_emb_Cons)
  qed
next
  case (3 judge a as)
  then obtain m where "check_accounts judge as [] = Some (m, open_keys)" and "missing = ac_name a # m" by auto
  with "3.IH" show ?case by auto
qed auto


subsection \<open>Agent registry\<close>

definition registry_registerAgent :: idl_instruction where
  "registry_registerAgent = \<lparr>idl_name = ''registerAgent'', idl_discriminator = [135, 157, 66, 195, 2, 113, 175, 30],
     idl_accounts =
       [IdlAccount ''global'' [] None (Some ([ConstSeed ''global''], OwnProgram)),
        IdlAccount ''capabilityConfig'' [] None None,
        IdlAccount ''agent'' [Writable] None (Some ([ConstSeed ''agent'', AccountSeed ''operator'', ArgSeed ''agentId''], OwnProgram)),
        IdlAccount ''stakeMint'' [] None None,
        IdlAccount ''stakeVault'' [Writable] None (Some ([ConstSeed ''stake'', AccountSeed ''agent''], OwnProgram)),
        IdlAccount ''operatorTokenAccount'' [Writable] None None,
        IdlAccount ''operator'' [Writable, Signer] None None,
        IdlAccount ''personhoodAttestation'' [Optional] None (Some ([ConstSeed ''personhood'', AccountSeed ''operator''], OwnProgram)),
        IdlAccount ''guard'' [Writable] None (Some ([ConstSeed ''guard''], OwnProgram)),
        IdlAccount ''tokenProgram'' [] None None,
        IdlAccount ''systemProgram'' [] (Some ''11111111111111111111111111111111'') None,
        IdlAccount ''rent'' [] (Some ''SysvarRent111111111111111111111111111111111'') None],
     idl_args = [(''agentId'', ArrayOf (Prim ''u8'') 32), (''manifestUri'', ArrayOf (Prim ''u8'') 128),
         (''capabilityMask'', Prim ''u128''), (''priceLamports'', Prim ''u64''), (''streamRate'', Prim ''u64''),
         (''stakeAmount'', Prim ''u64'')]\<rparr>"

definition registry_updateManifest :: idl_instruction where
  "registry_updateManifest = \<lparr>idl_name = ''updateManifest'', idl_discriminator = [232, 75, 222, 229, 60, 55, 168, 49],
     idl_accounts =
       [IdlAccount ''global'' [] None (Some ([ConstSeed ''global''], OwnProgram)),
        IdlAccount ''capabilityConfig'' [] None None,
        IdlAccount ''agent'' [Writable] None (Some ([ConstSeed ''agent'', FieldSeed ''agent'' ''operator'',
         FieldSeed ''agent'' ''agent_id''], OwnProgram)),
        IdlAccount ''operator'' [Signer] None None],
     idl_args = [(''manifestUri'', ArrayOf (Prim ''u8'') 128), (''capabilityMask'', Prim ''u128''),
         (''priceLamports'', Prim ''u64''), (''streamRate'', Prim ''u64'')]\<rparr>"

definition registry_stakeIncrease :: idl_instruction where
  "registry_stakeIncrease = \<lparr>idl_name = ''stakeIncrease'', idl_discriminator = [239, 163, 255, 22, 206, 116, 44, 130],
     idl_accounts =
       [IdlAccount ''global'' [] None (Some ([ConstSeed ''global''], OwnProgram)),
        IdlAccount ''agent'' [Writable] None (Some ([ConstSeed ''agent'', FieldSeed ''agent'' ''operator'',
         FieldSeed ''agent'' ''agent_id''], OwnProgram)),
        IdlAccount ''stakeMint'' [] None None,
        IdlAccount ''stakeVault'' [Writable] None (Some ([ConstSeed ''stake'', AccountSeed ''agent''], OwnProgram)),
        IdlAccount ''operatorTokenAccount'' [Writable] None None,
        IdlAccount ''guard'' [Writable] None (Some ([ConstSeed ''guard''], OwnProgram)),
        IdlAccount ''operator'' [Signer] None None,
        IdlAccount ''tokenProgram'' [] None None],
     idl_args = [(''amount'', Prim ''u64'')]\<rparr>"

definition registry_stakeWithdrawRequest :: idl_instruction where
  "registry_stakeWithdrawRequest = \<lparr>idl_name = ''stakeWithdrawRequest'', idl_discriminator = [20, 22, 8, 195, 35, 24, 57, 20],
     idl_accounts =
       [IdlAccount ''global'' [] None (Some ([ConstSeed ''global''], OwnProgram)),
        IdlAccount ''agent'' [Writable] None (Some ([ConstSeed ''agent'', FieldSeed ''agent'' ''operator'',
         FieldSeed ''agent'' ''agent_id''], OwnProgram)),
        IdlAccount ''operator'' [Signer] None None],
     idl_args = [(''amount'', Prim ''u64'')]\<rparr>"

definition registry_stakeWithdrawExecute :: idl_instruction where
  "registry_stakeWithdrawExecute = \<lparr>idl_name = ''stakeWithdrawExecute'', idl_discriminator = [3, 191, 125, 25, 239, 169,
         129, 161],
     idl_accounts =
       [IdlAccount ''global'' [] None (Some ([ConstSeed ''global''], OwnProgram)),
        IdlAccount ''agent'' [Writable] None (Some ([ConstSeed ''agent'', FieldSeed ''agent'' ''operator'',
         FieldSeed ''agent'' ''agent_id''], OwnProgram)),
        IdlAccount ''stakeMint'' [] None None,
        IdlAccount ''stakeVault'' [Writable] None (Some ([ConstSeed ''stake'', AccountSeed ''agent''], OwnProgram)),
        IdlAccount ''operatorTokenAccount'' [Writable] None None,
        IdlAccount ''guard'' [Writable] None (Some ([ConstSeed ''guard''], OwnProgram)),
        IdlAccount ''operator'' [Signer] None None,
        IdlAccount ''tokenProgram'' [] None None],
     idl_args = []\<rparr>"

definition registry_setStatus :: idl_instruction where
  "registry_setStatus = \<lparr>idl_name = ''setStatus'', idl_discriminator = [181, 184, 224, 203, 193, 29, 177, 224],
     idl_accounts =
       [IdlAccount ''global'' [] None (Some ([ConstSeed ''global''], OwnProgram)),
        IdlAccount ''agent'' [Writable] None (Some ([ConstSeed ''agent'', FieldSeed ''agent'' ''operator'',
         FieldSeed ''agent'' ''agent_id''], OwnProgram)),
        IdlAccount ''signer'' [Signer] None None],
     idl_args = [(''newStatus'', Defined ''AgentStatus'')]\<rparr>"

subsection \<open>Capability registry\<close>

definition capability_proposeTag :: idl_instruction where
  "capability_proposeTag = \<lparr>idl_name = ''proposeTag'', idl_discriminator = [3, 89, 242, 204, 217, 153, 0, 134],
     idl_accounts =
       [IdlAccount ''config'' [Writable] None (Some ([ConstSeed ''config''], OwnProgram)),
        IdlAccount ''tag'' [Writable] None None,
        IdlAccount ''authority'' [Signer] None None,
        IdlAccount ''payer'' [Writable, Signer] None None,
        IdlAccount ''systemProgram'' [] (Some ''11111111111111111111111111111111'') None],
     idl_args = [(''bitIndex'', Prim ''u8''), (''slug'', ArrayOf (Prim ''u8'') 32),
         (''manifestUri'', ArrayOf (Prim ''u8'') 96)]\<rparr>"

definition capability_retireTag :: idl_instruction where
  "capability_retireTag = \<lparr>idl_name = ''retireTag'', idl_discriminator = [11, 248, 242, 230, 59, 185, 150, 162],
     idl_accounts =
       [IdlAccount ''config'' [Writable] None (Some ([ConstSeed ''config''], OwnProgram)),
        IdlAccount ''tag'' [Writable] None None,
        IdlAccount ''authority'' [Signer] None None],
     idl_args = [(''bitIndex'', Prim ''u8'')]\<rparr>"

definition capability_validateMask :: idl_instruction where
  "capability_validateMask = \<lparr>idl_name = ''validateMask'', idl_discriminator = [55, 133, 88, 171, 130, 82, 219, 242],
     idl_accounts =
       [IdlAccount ''config'' [] None (Some ([ConstSeed ''config''], OwnProgram))],
     idl_args = [(''mask'', Prim ''u128'')]\<rparr>"

subsection \<open>Treasury\<close>

definition treasury_initTreasury :: idl_instruction where
  "treasury_initTreasury = \<lparr>idl_name = ''initTreasury'', idl_discriminator = [105, 152, 173, 51, 158, 151, 49, 14],
     idl_accounts =
       [IdlAccount ''global'' [] None (Some ([ConstSeed ''treasury_global''], OwnProgram)),
        IdlAccount ''treasury'' [Writable] None (Some ([ConstSeed ''treasury'', ArgSeed ''agentDid''], OwnProgram)),
        IdlAccount ''operator'' [Writable, Signer] None None,
        IdlAccount ''agentRegistryProgram'' [] (Some ''EQJ4Lp2gxJDD5hs185aDcermYWdAi4cQeSKfnuqLAQYu'') None,
        IdlAccount ''registryGlobal'' [] None (Some ([ConstSeed ''global''], ProgramOf ''agentRegistryProgram'')),
        IdlAccount ''agentAccount'' [] None (Some ([ConstSeed ''agent'', FieldSeed ''agentAccount'' ''operator'',
         FieldSeed ''agentAccount'' ''agent_id''], ProgramOf ''agentRegistryProgram'')),
        IdlAccount ''systemProgram'' [] (Some ''11111111111111111111111111111111'') None],
     idl_args = [(''agentDid'', ArrayOf (Prim ''u8'') 32), (''dailySpendLimit'', Prim ''u64''), (''perTxLimit'', Prim ''u64''),
         (''weeklyLimit'', Prim ''u64'')]\<rparr>"

definition treasury_setLimits :: idl_instruction where
  "treasury_setLimits = \<lparr>idl_name = ''setLimits'', idl_discriminator = [207, 50, 250, 67, 211, 33, 70, 91],
     idl_accounts =
       [IdlAccount ''global'' [] None (Some ([ConstSeed ''treasury_global''], OwnProgram)),
        IdlAccount ''treasury'' [Writable] None (Some ([ConstSeed ''treasury'', FieldSeed ''treasury'' ''agent_did''], OwnProgram)),
        IdlAccount ''operator'' [Signer] None None],
     idl_args = [(''daily'', Prim ''u64''), (''perTx'', Prim ''u64''), (''weekly'', Prim ''u64'')]\<rparr>"

definition treasury_withdraw :: idl_instruction where
  "treasury_withdraw = \<lparr>idl_name = ''withdraw'', idl_discriminator = [183, 18, 70, 156, 148, 109, 161, 34],
     idl_accounts =
       [IdlAccount ''global'' [] None (Some ([ConstSeed ''treasury_global''], OwnProgram)),
        IdlAccount ''treasury'' [Writable] None (Some ([ConstSeed ''treasury'', FieldSeed ''treasury'' ''agent_did''], OwnProgram)),
        IdlAccount ''allowedTargets'' [Optional] None (Some ([ConstSeed ''allowed_targets'', FieldSeed ''treasury'' ''agent_did''],
         OwnProgram)),
        IdlAccount ''mint'' [] None None,
        IdlAccount ''vault'' [Writable] None (Some ([ConstSeed ''vault'', FieldSeed ''treasury'' ''agent_did'',
         AccountSeed ''mint''], OwnProgram)),
        IdlAccount ''destination'' [Writable] None None,
        IdlAccount ''priceFeed'' [Optional] None None,
        IdlAccount ''hookAllowlist'' [Optional] None None,
        IdlAccount ''guard'' [Writable] None (Some ([ConstSeed ''guard''], OwnProgram)),
        IdlAccount ''operator'' [Signer] None None,
        IdlAccount ''tokenProgram'' [] None None],
     idl_args = [(''amount'', Prim ''u64'')]\<rparr>"

definition treasury_initStream :: idl_instruction where
  "treasury_initStream = \<lparr>idl_name = ''initStream'', idl_discriminator = [74, 210, 201, 7, 0, 227, 146, 105],
     idl_accounts =
       [IdlAccount ''global'' [] None (Some ([ConstSeed ''treasury_global''], OwnProgram)),
        IdlAccount ''allowedMints'' [] None (Some ([ConstSeed ''allowed_mints''], OwnProgram)),
        IdlAccount ''treasury'' [Writable] None (Some ([ConstSeed ''treasury'', FieldSeed ''treasury'' ''agent_did''], OwnProgram)),
        IdlAccount ''allowedTargets'' [Optional] None (Some ([ConstSeed ''allowed_targets'', FieldSeed ''treasury'' ''agent_did''],
         OwnProgram)),
        IdlAccount ''stream'' [Writable] None (Some ([ConstSeed ''stream'', FieldSeed ''treasury'' ''agent_did'',
         AccountSeed ''client'', ArgSeed ''streamNonce''], OwnProgram)),
        IdlAccount ''payerMint'' [] None None,
        IdlAccount ''payoutMint'' [] None None,
        IdlAccount ''escrow'' [Writable] None (Some ([ConstSeed ''stream_escrow'', AccountSeed ''stream''], OwnProgram)),
        IdlAccount ''clientTokenAccount'' [Writable] None None,
        IdlAccount ''hookAllowlist'' [Optional] None None,
        IdlAccount ''guard'' [Writable] None (Some ([ConstSeed ''guard''], OwnProgram)),
        IdlAccount ''client'' [Writable, Signer] None None,
        IdlAccount ''tokenProgram'' [] None None,
        IdlAccount ''systemProgram'' [] (Some ''11111111111111111111111111111111'') None,
        IdlAccount ''rent'' [] (Some ''SysvarRent111111111111111111111111111111111'') None],
     idl_args = [(''streamNonce'', ArrayOf (Prim ''u8'') 8), (''ratePerSec'', Prim ''u64''), (''maxDuration'', Prim ''i64'')]\<rparr>"

definition treasury_closeStream :: idl_instruction where
  "treasury_closeStream = \<lparr>idl_name = ''closeStream'', idl_discriminator = [255, 241, 196, 212, 95, 93, 160, 89],
     idl_accounts =
       [IdlAccount ''global'' [] None (Some ([ConstSeed ''treasury_global''], OwnProgram)),
        IdlAccount ''treasury'' [Writable] None (Some ([ConstSeed ''treasury'', FieldSeed ''treasury'' ''agent_did''], OwnProgram)),
        IdlAccount ''allowedTargets'' [Optional] None (Some ([ConstSeed ''allowed_targets'', FieldSeed ''treasury'' ''agent_did''],
         OwnProgram)),
        IdlAccount ''stream'' [Writable] None (Some ([ConstSeed ''stream'', FieldSeed ''stream'' ''agent_did'',
         FieldSeed ''stream'' ''client'', FieldSeed ''stream'' ''stream_nonce''], OwnProgram)),
        IdlAccount ''payerMint'' [] None None,
        IdlAccount ''escrow'' [Writable] None (Some ([ConstSeed ''stream_escrow'', AccountSeed ''stream''], OwnProgram)),
        IdlAccount ''agentVault'' [Writable] None (Some ([ConstSeed ''vault'', FieldSeed ''treasury'' ''agent_did'',
         AccountSeed ''payerMint''], OwnProgram)),
        IdlAccount ''clientTokenAccount'' [Writable] None None,
        IdlAccount ''hookAllowlist'' [Optional] None None,
        IdlAccount ''agentHooks'' [Optional] None (Some ([ConstSeed ''agent_hooks'', FieldSeed ''treasury'' ''agent_did''],
         ProgramConst 0x3ac068eb6f37a3b9e0ca113397a88b14eb99356fdbd4d0f45d3a54edf75bcc00)),
        IdlAccount ''guard'' [Writable] None (Some ([ConstSeed ''guard''], OwnProgram)),
        IdlAccount ''signer'' [Signer] None None,
        IdlAccount ''tokenProgram'' [] None None],
     idl_args = []\<rparr>"

definition treasury_withdrawEarned :: idl_instruction where
  "treasury_withdrawEarned = \<lparr>idl_name = ''withdrawEarned'', idl_discriminator = [231, 255, 26, 76, 28, 120, 137, 111],
     idl_accounts =
       [IdlAccount ''global'' [] None (Some ([ConstSeed ''treasury_global''], OwnProgram)),
        IdlAccount ''treasury'' [] None (Some ([ConstSeed ''treasury'', FieldSeed ''treasury'' ''agent_did''], OwnProgram)),
        IdlAccount ''allowedTargets'' [Optional] None (Some ([ConstSeed ''allowed_targets'', FieldSeed ''treasury'' ''agent_did''],
         OwnProgram)),
        IdlAccount ''stream'' [Writable] None (Some ([ConstSeed ''stream'', FieldSeed ''stream'' ''agent_did'',
         FieldSeed ''stream'' ''client'', FieldSeed ''stream'' ''stream_nonce''], OwnProgram)),
        IdlAccount ''payerMint'' [] None None,
        IdlAccount ''payoutMint'' [] None None,
        IdlAccount ''escrow'' [Writable] None (Some ([ConstSeed ''stream_escrow'', AccountSeed ''stream''], OwnProgram)),
        IdlAccount ''agentVault'' [Writable] None (Some ([ConstSeed ''vault'', FieldSeed ''treasury'' ''agent_did'',
         AccountSeed ''payoutMint''], OwnProgram)),
        IdlAccount ''jupiterProgram'' [] None None,
        IdlAccount ''payerPriceFeed'' [Optional] None None,
        IdlAccount ''payoutPriceFeed'' [Optional] None None,
        IdlAccount ''hookAllowlist'' [Optional] None None,
        IdlAccount ''agentHooks'' [Optional] None (Some ([ConstSeed ''agent_hooks'', FieldSeed ''treasury'' ''agent_did''],
         ProgramConst 0x3ac068eb6f37a3b9e0ca113397a88b14eb99356fdbd4d0f45d3a54edf75bcc00)),
        IdlAccount ''guard'' [Writable] None (Some ([ConstSeed ''guard''], OwnProgram)),
        IdlAccount ''operator'' [Signer] None None,
        IdlAccount ''tokenProgram'' [] None None],
     idl_args = [(''routeData'', Prim ''bytes'')]\<rparr>"

definition treasury_registerYieldStrategy :: idl_instruction where
  "treasury_registerYieldStrategy = \<lparr>idl_name = ''registerYieldStrategy'', idl_discriminator = [232, 227, 174, 62, 153, 242,
         64, 148],
     idl_accounts =
       [IdlAccount ''global'' [] None (Some ([ConstSeed ''treasury_global''], OwnProgram)),
        IdlAccount ''strategy'' [Writable] None (Some ([ConstSeed ''yield_strategy'', ArgSeed ''strategyId''], OwnProgram)),
        IdlAccount ''authority'' [Writable, Signer] None None,
        IdlAccount ''systemProgram'' [] (Some ''11111111111111111111111111111111'') None],
     idl_args = [(''strategyId'', ArrayOf (Prim ''u8'') 32), (''venue'', Defined ''YieldVenue''),
         (''strategyProgram'', Prim ''pubkey''), (''underlyingMint'', Prim ''pubkey''), (''receiptMint'', Prim ''pubkey''),
         (''maxAllocationBps'', Prim ''u16''), (''riskTier'', Defined ''YieldRiskTier''), (''name'', Prim ''string''),
         (''metadataUri'', Prim ''string'')]\<rparr>"

definition treasury_setYieldStrategyStatus :: idl_instruction where
  "treasury_setYieldStrategyStatus = \<lparr>idl_name = ''setYieldStrategyStatus'', idl_discriminator = [161, 25, 86, 105, 1, 69,
         157, 158],
     idl_accounts =
       [IdlAccount ''global'' [] None (Some ([ConstSeed ''treasury_global''], OwnProgram)),
        IdlAccount ''strategy'' [Writable] None (Some ([ConstSeed ''yield_strategy'', FieldSeed ''strategy'' ''strategy_id''],
         OwnProgram)),
        IdlAccount ''authority'' [Signer] None None],
     idl_args = [(''status'', Defined ''YieldStrategyStatus'')]\<rparr>"

definition treasury_setTreasuryYieldConfig :: idl_instruction where
  "treasury_setTreasuryYieldConfig = \<lparr>idl_name = ''setTreasuryYieldConfig'', idl_discriminator = [210, 165, 119, 107, 224,
         73, 193, 252],
     idl_accounts =
       [IdlAccount ''global'' [] None (Some ([ConstSeed ''treasury_global''], OwnProgram)),
        IdlAccount ''treasury'' [] None (Some ([ConstSeed ''treasury'', ArgSeed ''agentDid''], OwnProgram)),
        IdlAccount ''strategy'' [] None (Some ([ConstSeed ''yield_strategy'', ArgSeed ''strategyId''], OwnProgram)),
        IdlAccount ''yieldConfig'' [Writable] None (Some ([ConstSeed ''yield_config'', ArgSeed ''agentDid''], OwnProgram)),
        IdlAccount ''operator'' [Writable, Signer] None None,
        IdlAccount ''systemProgram'' [] (Some ''11111111111111111111111111111111'') None],
     idl_args = [(''agentDid'', ArrayOf (Prim ''u8'') 32), (''strategyId'', ArrayOf (Prim ''u8'') 32),
         (''allocationBps'', Prim ''u16''), (''paused'', Prim ''bool'')]\<rparr>"

definition treasury_requestTreasuryYieldUnwind :: idl_instruction where
  "treasury_requestTreasuryYieldUnwind = \<lparr>idl_name = ''requestTreasuryYieldUnwind'', idl_discriminator = [108, 126, 41, 113,
         159, 18, 70, 153],
     idl_accounts =
       [IdlAccount ''global'' [] None (Some ([ConstSeed ''treasury_global''], OwnProgram)),
        IdlAccount ''treasury'' [] None (Some ([ConstSeed ''treasury'', FieldSeed ''treasury'' ''agent_did''], OwnProgram)),
        IdlAccount ''yieldConfig'' [Writable] None (Some ([ConstSeed ''yield_config'', FieldSeed ''treasury'' ''agent_did''],
         OwnProgram)),
        IdlAccount ''operator'' [Signer] None None],
     idl_args = []\<rparr>"

definition treasury_recordTreasuryYieldAccounting :: idl_instruction where
  "treasury_recordTreasuryYieldAccounting = \<lparr>idl_name = ''recordTreasuryYieldAccounting'', idl_discriminator = [47, 242,
         226, 248, 199, 249, 114, 201],
     idl_accounts =
       [IdlAccount ''global'' [] None (Some ([ConstSeed ''treasury_global''], OwnProgram)),
        IdlAccount ''yieldConfig'' [Writable] None (Some ([ConstSeed ''yield_config'', FieldSeed ''yieldConfig'' ''agent_did''],
         OwnProgram)),
        IdlAccount ''authority'' [Signer] None None],
     idl_args = [(''idleAmount'', Prim ''u64''), (''deployedAmount'', Prim ''u64''), (''realizedYieldAmount'', Prim ''i64''),
         (''accountingSlot'', Prim ''u64'')]\<rparr>"

definition treasury_depositToYieldStrategy :: idl_instruction where
  "treasury_depositToYieldStrategy = \<lparr>idl_name = ''depositToYieldStrategy'', idl_discriminator = [123, 218, 167, 59, 133,
         108, 103, 215],
     idl_accounts =
       [IdlAccount ''global'' [] None (Some ([ConstSeed ''treasury_global''], OwnProgram)),
        IdlAccount ''treasury'' [Writable] None (Some ([ConstSeed ''treasury'', FieldSeed ''treasury'' ''agent_did''], OwnProgram)),
        IdlAccount ''allowedMints'' [] None (Some ([ConstSeed ''allowed_mints''], OwnProgram)),
        IdlAccount ''allowedTargets'' [Optional] None (Some ([ConstSeed ''allowed_targets'', FieldSeed ''treasury'' ''agent_did''],
         OwnProgram)),
        IdlAccount ''strategy'' [] None (Some ([ConstSeed ''yield_strategy'', FieldSeed ''strategy'' ''strategy_id''], OwnProgram)),
        IdlAccount ''yieldConfig'' [Writable] None (Some ([ConstSeed ''yield_config'', FieldSeed ''treasury'' ''agent_did''],
         OwnProgram)),
        IdlAccount ''position'' [Writable] None (Some ([ConstSeed ''yield_position'', FieldSeed ''treasury'' ''agent_did'',
         FieldSeed ''strategy'' ''strategy_id'', AccountSeed ''mint''], OwnProgram)),
        IdlAccount ''mint'' [] None None,
        IdlAccount ''receiptMint'' [] None None,
        IdlAccount ''vault'' [Writable] None (Some ([ConstSeed ''vault'', FieldSeed ''treasury'' ''agent_did'',
         AccountSeed ''mint''], OwnProgram)),
        IdlAccount ''receiptVault'' [Writable] None (Some ([ConstSeed ''yield_receipt_vault'', AccountSeed ''position''], OwnProgram)),
        IdlAccount ''kaminoProgram'' [] None None,
        IdlAccount ''priceFeed'' [Optional] None None,
        IdlAccount ''guard'' [Writable] None (Some ([ConstSeed ''guard''], OwnProgram)),
        IdlAccount ''operator'' [Writable, Signer] None None,
        IdlAccount ''tokenProgram'' [] None None,
        IdlAccount ''systemProgram'' [] (Some ''11111111111111111111111111111111'') None,
        IdlAccount ''rent'' [] (Some ''SysvarRent111111111111111111111111111111111'') None],
     idl_args = [(''amount'', Prim ''u64''), (''routeData'', Prim ''bytes'')]\<rparr>"

definition treasury_withdrawFromYieldStrategy :: idl_instruction where
  "treasury_withdrawFromYieldStrategy = \<lparr>idl_name = ''withdrawFromYieldStrategy'', idl_discriminator = [86, 199, 213, 140,
         192, 214, 80, 66],
     idl_accounts =
       [IdlAccount ''global'' [] None (Some ([ConstSeed ''treasury_global''], OwnProgram)),
        IdlAccount ''treasury'' [Writable] None (Some ([ConstSeed ''treasury'', FieldSeed ''treasury'' ''agent_did''], OwnProgram)),
        IdlAccount ''allowedTargets'' [Optional] None (Some ([ConstSeed ''allowed_targets'', FieldSeed ''treasury'' ''agent_did''],
         OwnProgram)),
        IdlAccount ''strategy'' [] None (Some ([ConstSeed ''yield_strategy'', FieldSeed ''strategy'' ''strategy_id''], OwnProgram)),
        IdlAccount ''yieldConfig'' [Writable] None (Some ([ConstSeed ''yield_config'', FieldSeed ''treasury'' ''agent_did''],
         OwnProgram)),
        IdlAccount ''position'' [Writable] None (Some ([ConstSeed ''yield_position'', FieldSeed ''treasury'' ''agent_did'',
         FieldSeed ''strategy'' ''strategy_id'', AccountSeed ''mint''], OwnProgram)),
        IdlAccount ''mint'' [] None None,
        IdlAccount ''receiptMint'' [] None None,
        IdlAccount ''vault'' [Writable] None (Some ([ConstSeed ''vault'', FieldSeed ''treasury'' ''agent_did'',
         AccountSeed ''mint''], OwnProgram)),
        IdlAccount ''receiptVault'' [Writable] None (Some ([ConstSeed ''yield_receipt_vault'', AccountSeed ''position''], OwnProgram)),
        IdlAccount ''kaminoProgram'' [] None None,
        IdlAccount ''guard'' [Writable] None (Some ([ConstSeed ''guard''], OwnProgram)),
        IdlAccount ''operator'' [Signer] None None,
        IdlAccount ''tokenProgram'' [] None None],
     idl_args = [(''receiptAmount'', Prim ''u64''), (''routeData'', Prim ''bytes'')]\<rparr>"

definition treasury_emergencyUnwindYieldStrategy :: idl_instruction where
  "treasury_emergencyUnwindYieldStrategy = \<lparr>idl_name = ''emergencyUnwindYieldStrategy'', idl_discriminator = [194, 107, 61,
         130, 159, 126, 115, 53],
     idl_accounts =
       [IdlAccount ''global'' [] None (Some ([ConstSeed ''treasury_global''], OwnProgram)),
        IdlAccount ''treasury'' [Writable] None (Some ([ConstSeed ''treasury'', FieldSeed ''treasury'' ''agent_did''], OwnProgram)),
        IdlAccount ''allowedTargets'' [Optional] None (Some ([ConstSeed ''allowed_targets'', FieldSeed ''treasury'' ''agent_did''],
         OwnProgram)),
        IdlAccount ''strategy'' [] None (Some ([ConstSeed ''yield_strategy'', FieldSeed ''strategy'' ''strategy_id''], OwnProgram)),
        IdlAccount ''yieldConfig'' [Writable] None (Some ([ConstSeed ''yield_config'', FieldSeed ''treasury'' ''agent_did''],
         OwnProgram)),
        IdlAccount ''position'' [Writable] None (Some ([ConstSeed ''yield_position'', FieldSeed ''treasury'' ''agent_did'',
         FieldSeed ''strategy'' ''strategy_id'', AccountSeed ''mint''], OwnProgram)),
        IdlAccount ''mint'' [] None None,
        IdlAccount ''receiptMint'' [] None None,
        IdlAccount ''vault'' [Writable] None (Some ([ConstSeed ''vault'', FieldSeed ''treasury'' ''agent_did'',
         AccountSeed ''mint''], OwnProgram)),
        IdlAccount ''receiptVault'' [Writable] None (Some ([ConstSeed ''yield_receipt_vault'', AccountSeed ''position''], OwnProgram)),
        IdlAccount ''kaminoProgram'' [] None None,
        IdlAccount ''guard'' [Writable] None (Some ([ConstSeed ''guard''], OwnProgram)),
        IdlAccount ''authority'' [Signer] None None,
        IdlAccount ''tokenProgram'' [] None None],
     idl_args = [(''routeData'', Prim ''bytes'')]\<rparr>"

subsection \<open>Task market\<close>

definition market_createTask :: idl_instruction where
  "market_createTask = \<lparr>idl_name = ''createTask'', idl_discriminator = [194, 80, 6, 180, 232, 127, 48, 171],
     idl_accounts =
       [IdlAccount ''global'' [] None (Some ([ConstSeed ''market_global''], OwnProgram)),
        IdlAccount ''task'' [Writable] None (Some ([ConstSeed ''task'', AccountSeed ''client'', ArgSeed ''taskNonce''], OwnProgram)),
        IdlAccount ''client'' [Writable, Signer] None None,
        IdlAccount ''agentRegistryProgram'' [] (Some ''EQJ4Lp2gxJDD5hs185aDcermYWdAi4cQeSKfnuqLAQYu'') None,
        IdlAccount ''registryGlobal'' [] None (Some ([ConstSeed ''global''], ProgramOf ''agentRegistryProgram'')),
        IdlAccount ''agentAccount'' [] None (Some ([ConstSeed ''agent'', FieldSeed ''agentAccount'' ''operator'',
         FieldSeed ''agentAccount'' ''agent_id''], ProgramOf ''agentRegistryProgram'')),
        IdlAccount ''systemProgram'' [] (Some ''11111111111111111111111111111111'') None],
     idl_args = [(''taskNonce'', ArrayOf (Prim ''u8'') 8), (''agentDid'', ArrayOf (Prim ''u8'') 32),
         (''paymentMint'', Prim ''pubkey''), (''paymentAmount'', Prim ''u64''), (''payload'', Defined ''TaskPayload''),
         (''criteriaRoot'', ArrayOf (Prim ''u8'') 32), (''deadline'', Prim ''i64''), (''milestoneCount'', Prim ''u8'')]\<rparr>"

definition market_fundTask :: idl_instruction where
  "market_fundTask = \<lparr>idl_name = ''fundTask'', idl_discriminator = [188, 87, 71, 120, 11, 238, 84, 232],
     idl_accounts =
       [IdlAccount ''global'' [] None (Some ([ConstSeed ''market_global''], OwnProgram)),
        IdlAccount ''task'' [Writable] None (Some ([ConstSeed ''task'', FieldSeed ''task'' ''client'',
         FieldSeed ''task'' ''task_nonce''], OwnProgram)),
        IdlAccount ''paymentMint'' [] None None,
        IdlAccount ''escrow'' [Writable] None (Some ([ConstSeed ''task_escrow'', AccountSeed ''task''], OwnProgram)),
        IdlAccount ''clientTokenAccount'' [Writable] None None,
        IdlAccount ''hookAllowlist'' [Optional] None None,
        IdlAccount ''guard'' [Writable] None (Some ([ConstSeed ''guard''], OwnProgram)),
        IdlAccount ''client'' [Writable, Signer] None None,
        IdlAccount ''tokenProgram'' [] None None,
        IdlAccount ''systemProgram'' [] (Some ''11111111111111111111111111111111'') None],
     idl_args = []\<rparr>"

definition market_submitResult :: idl_instruction where
  "market_submitResult = \<lparr>idl_name = ''submitResult'', idl_discriminator = [240, 42, 89, 180, 10, 239, 9, 214],
     idl_accounts =
       [IdlAccount ''global'' [] None (Some ([ConstSeed ''market_global''], OwnProgram)),
        IdlAccount ''task'' [Writable] None (Some ([ConstSeed ''task'', FieldSeed ''task'' ''client'',
         FieldSeed ''task'' ''task_nonce''], OwnProgram)),
        IdlAccount ''operator'' [Signer] None None,
        IdlAccount ''agentRegistryProgram'' [] (Some ''EQJ4Lp2gxJDD5hs185aDcermYWdAi4cQeSKfnuqLAQYu'') None,
        IdlAccount ''agentAccount'' [] None (Some ([ConstSeed ''agent'', FieldSeed ''agentAccount'' ''operator'',
         FieldSeed ''agentAccount'' ''agent_id''], ProgramOf ''agentRegistryProgram'')),
        IdlAccount ''guard'' [Writable] None (Some ([ConstSeed ''guard''], OwnProgram))],
     idl_args = [(''resultHash'', ArrayOf (Prim ''u8'') 32), (''proofKey'', ArrayOf (Prim ''u8'') 32)]\<rparr>"

definition market_verifyTask :: idl_instruction where
  "market_verifyTask = \<lparr>idl_name = ''verifyTask'', idl_discriminator = [175, 152, 172, 204, 64, 126, 201, 206],
     idl_accounts =
       [IdlAccount ''global'' [] None (Some ([ConstSeed ''market_global''], OwnProgram)),
        IdlAccount ''task'' [Writable] None (Some ([ConstSeed ''task'', FieldSeed ''task'' ''client'',
         FieldSeed ''task'' ''task_nonce''], OwnProgram)),
        IdlAccount ''proofVerifierProgram'' [] (Some ''DcJx1p6bcNuFm4i5WMgK4uGZitc1bf4Ubc5d4sctZKVe'') None,
        IdlAccount ''verifierConfig'' [] None (Some ([ConstSeed ''verifier_config''], ProgramOf ''proofVerifierProgram'')),
        IdlAccount ''verifierKey'' [] None (Some ([ConstSeed ''vk'', FieldSeed ''verifierKey'' ''vk_id''],
         ProgramOf ''proofVerifierProgram'')),
        IdlAccount ''verifierMode'' [] None (Some ([ConstSeed ''mode''], ProgramOf ''proofVerifierProgram'')),
        IdlAccount ''guard'' [Writable] None (Some ([ConstSeed ''guard''], OwnProgram)),
        IdlAccount ''verifierSelfGuard'' [] None None,
        IdlAccount ''verifierAllowedCallers'' [] None None,
        IdlAccount ''instructions'' [] (Some ''Sysvar1nstructions1111111111111111111111111'') None,
        IdlAccount ''cranker'' [Signer] None None],
     idl_args = [(''proofA'', ArrayOf (Prim ''u8'') 64), (''proofB'', ArrayOf (Prim ''u8'') 128),
         (''proofC'', ArrayOf (Prim ''u8'') 64)]\<rparr>"

definition market_release :: idl_instruction where
  "market_release = \<lparr>idl_name = ''release'', idl_discriminator = [253, 249, 15, 206, 28, 127, 193, 241],
     idl_accounts =
       [IdlAccount ''global'' [] None (Some ([ConstSeed ''market_global''], OwnProgram)),
        IdlAccount ''task'' [Writable] None (Some ([ConstSeed ''task'', FieldSeed ''task'' ''client'',
         FieldSeed ''task'' ''task_nonce''], OwnProgram)),
        IdlAccount ''paymentMint'' [] None None,
        IdlAccount ''escrow'' [Writable] None (Some ([ConstSeed ''task_escrow'', AccountSeed ''task''], OwnProgram)),
        IdlAccount ''agentTokenAccount'' [Writable] None None,
        IdlAccount ''feeCollectorTokenAccount'' [Writable] None None,
        IdlAccount ''solrepPoolTokenAccount'' [Writable] None None,
        IdlAccount ''agentRegistryProgram'' [] (Some ''EQJ4Lp2gxJDD5hs185aDcermYWdAi4cQeSKfnuqLAQYu'') None,
        IdlAccount ''registryGlobal'' [] None (Some ([ConstSeed ''global''], ProgramOf ''agentRegistryProgram'')),
        IdlAccount ''agentAccount'' [] None (Some ([ConstSeed ''agent'', FieldSeed ''agentAccount'' ''operator'',
         FieldSeed ''agentAccount'' ''agent_id''], ProgramOf ''agentRegistryProgram'')),
        IdlAccount ''selfProgram'' [] (Some ''HiyqZ4q1GPPgx1EaxSuyBFKTzoPAYDPmnSfTX1vjbB8w'') None,
        IdlAccount ''hookAllowlist'' [Optional] None None,
        IdlAccount ''guard'' [Writable] None (Some ([ConstSeed ''guard''], OwnProgram)),
        IdlAccount ''cranker'' [Signer] None None,
        IdlAccount ''tokenProgram'' [] None None],
     idl_args = []\<rparr>"

definition market_expire :: idl_instruction where
  "market_expire = \<lparr>idl_name = ''expire'', idl_discriminator = [243, 83, 205, 58, 57, 201, 247, 146],
     idl_accounts =
       [IdlAccount ''global'' [] None (Some ([ConstSeed ''market_global''], OwnProgram)),
        IdlAccount ''task'' [Writable] None (Some ([ConstSeed ''task'', FieldSeed ''task'' ''client'',
         FieldSeed ''task'' ''task_nonce''], OwnProgram)),
        IdlAccount ''paymentMint'' [] None None,
        IdlAccount ''escrow'' [Writable] None (Some ([ConstSeed ''task_escrow'', AccountSeed ''task''], OwnProgram)),
        IdlAccount ''clientTokenAccount'' [Writable] None None,
        IdlAccount ''client'' [] None None,
        IdlAccount ''agentRegistryProgram'' [] (Some ''EQJ4Lp2gxJDD5hs185aDcermYWdAi4cQeSKfnuqLAQYu'') None,
        IdlAccount ''registryGlobal'' [] None (Some ([ConstSeed ''global''], ProgramOf ''agentRegistryProgram'')),
        IdlAccount ''agentAccount'' [] None (Some ([ConstSeed ''agent'', FieldSeed ''agentAccount'' ''operator'',
         FieldSeed ''agentAccount'' ''agent_id''], ProgramOf ''agentRegistryProgram'')),
        IdlAccount ''selfProgram'' [] (Some ''HiyqZ4q1GPPgx1EaxSuyBFKTzoPAYDPmnSfTX1vjbB8w'') None,
        IdlAccount ''hookAllowlist'' [Optional] None None,
        IdlAccount ''guard'' [Writable] None (Some ([ConstSeed ''guard''], OwnProgram)),
        IdlAccount ''cranker'' [Signer] None None,
        IdlAccount ''tokenProgram'' [] None None],
     idl_args = []\<rparr>"

definition market_raiseDispute :: idl_instruction where
  "market_raiseDispute = \<lparr>idl_name = ''raiseDispute'', idl_discriminator = [41, 243, 1, 51, 150, 95, 246, 73],
     idl_accounts =
       [IdlAccount ''task'' [Writable] None (Some ([ConstSeed ''task'', FieldSeed ''task'' ''client'',
         FieldSeed ''task'' ''task_nonce''], OwnProgram)),
        IdlAccount ''client'' [Signer] None None],
     idl_args = []\<rparr>"

definition market_disputedTimeoutRefund :: idl_instruction where
  "market_disputedTimeoutRefund = \<lparr>idl_name = ''disputedTimeoutRefund'', idl_discriminator = [17, 111, 165, 110, 200, 139,
         22, 136],
     idl_accounts =
       [IdlAccount ''global'' [] None (Some ([ConstSeed ''market_global''], OwnProgram)),
        IdlAccount ''task'' [Writable] None (Some ([ConstSeed ''task'', FieldSeed ''task'' ''client'',
         FieldSeed ''task'' ''task_nonce''], OwnProgram)),
        IdlAccount ''paymentMint'' [] None None,
        IdlAccount ''escrow'' [Writable] None (Some ([ConstSeed ''task_escrow'', AccountSeed ''task''], OwnProgram)),
        IdlAccount ''clientTokenAccount'' [Writable] None None,
        IdlAccount ''client'' [] None None,
        IdlAccount ''hookAllowlist'' [Optional] None None,
        IdlAccount ''guard'' [Writable] None (Some ([ConstSeed ''guard''], OwnProgram)),
        IdlAccount ''cranker'' [Signer] None None,
        IdlAccount ''tokenProgram'' [] None None],
     idl_args = []\<rparr>"

definition market_openBidding :: idl_instruction where
  "market_openBidding = \<lparr>idl_name = ''openBidding'', idl_discriminator = [89, 97, 154, 176, 213, 63, 102, 206],
     idl_accounts =
       [IdlAccount ''global'' [] None (Some ([ConstSeed ''market_global''], OwnProgram)),
        IdlAccount ''task'' [Writable] None (Some ([ConstSeed ''task'', FieldSeed ''task'' ''client'',
         FieldSeed ''task'' ''task_nonce''], OwnProgram)),
        IdlAccount ''bidBook'' [Writable] None (Some ([ConstSeed ''bid_book'', FieldSeed ''task'' ''task_id''], OwnProgram)),
        IdlAccount ''paymentMint'' [] None None,
        IdlAccount ''bondEscrow'' [Writable] None (Some ([ConstSeed ''bond_escrow'', FieldSeed ''task'' ''task_id''], OwnProgram)),
        IdlAccount ''client'' [Writable, Signer] None None,
        IdlAccount ''tokenProgram'' [] None None,
        IdlAccount ''systemProgram'' [] (Some ''11111111111111111111111111111111'') None],
     idl_args = [(''commitSecs'', Prim ''i64''), (''revealSecs'', Prim ''i64''), (''bondBps'', Prim ''u16'')]\<rparr>"

definition market_commitBid :: idl_instruction where
  "market_commitBid = \<lparr>idl_name = ''commitBid'', idl_discriminator = [149, 237, 198, 113, 53, 66, 70, 76],
     idl_accounts =
       [IdlAccount ''global'' [] None (Some ([ConstSeed ''market_global''], OwnProgram)),
        IdlAccount ''task'' [] None (Some ([ConstSeed ''task'', FieldSeed ''task'' ''client'', FieldSeed ''task'' ''task_nonce''],
         OwnProgram)),
        IdlAccount ''bidBook'' [Writable] None (Some ([ConstSeed ''bid_book'', FieldSeed ''task'' ''task_id''], OwnProgram)),
        IdlAccount ''bid'' [Writable] None (Some ([ConstSeed ''bid'', FieldSeed ''task'' ''task_id'', AccountSeed ''bidder''],
         OwnProgram)),
        IdlAccount ''paymentMint'' [] None None,
        IdlAccount ''bondEscrow'' [Writable] None (Some ([ConstSeed ''bond_escrow'', FieldSeed ''task'' ''task_id''], OwnProgram)),
        IdlAccount ''bidderTokenAccount'' [Writable] None None,
        IdlAccount ''bidder'' [Writable, Signer] None None,
        IdlAccount ''agentRegistryProgram'' [] (Some ''EQJ4Lp2gxJDD5hs185aDcermYWdAi4cQeSKfnuqLAQYu'') None,
        IdlAccount ''registryGlobal'' [] None (Some ([ConstSeed ''global''], ProgramOf ''agentRegistryProgram'')),
        IdlAccount ''agentAccount'' [] None (Some ([ConstSeed ''agent'', FieldSeed ''agentAccount'' ''operator'',
         FieldSeed ''agentAccount'' ''agent_id''], ProgramOf ''agentRegistryProgram'')),
        IdlAccount ''personhoodAttestation'' [Optional] None (Some ([ConstSeed ''personhood'', AccountSeed ''bidder''],
         ProgramOf ''agentRegistryProgram'')),
        IdlAccount ''capabilityTag'' [Optional] None None,
        IdlAccount ''hookAllowlist'' [Optional] None None,
        IdlAccount ''tokenProgram'' [] None None,
        IdlAccount ''systemProgram'' [] (Some ''11111111111111111111111111111111'') None],
     idl_args = [(''commitHash'', ArrayOf (Prim ''u8'') 32), (''agentDid'', ArrayOf (Prim ''u8'') 32)]\<rparr>"

definition market_revealBid :: idl_instruction where
  "market_revealBid = \<lparr>idl_name = ''revealBid'', idl_discriminator = [48, 73, 28, 255, 202, 126, 236, 196],
     idl_accounts =
       [IdlAccount ''task'' [] None (Some ([ConstSeed ''task'', FieldSeed ''task'' ''client'', FieldSeed ''task'' ''task_nonce''],
         OwnProgram)),
        IdlAccount ''bidBook'' [Writable] None (Some ([ConstSeed ''bid_book'', FieldSeed ''task'' ''task_id''], OwnProgram)),
        IdlAccount ''bid'' [Writable] None (Some ([ConstSeed ''bid'', FieldSeed ''task'' ''task_id'', AccountSeed ''bidder''],
         OwnProgram)),
        IdlAccount ''bidder'' [Signer] None None],
     idl_args = [(''amount'', Prim ''u64''), (''nonce'', ArrayOf (Prim ''u8'') 32)]\<rparr>"

definition market_closeBidding :: idl_instruction where
  "market_closeBidding = \<lparr>idl_name = ''closeBidding'', idl_discriminator = [219, 203, 190, 31, 25, 53, 75, 228],
     idl_accounts =
       [IdlAccount ''global'' [] None (Some ([ConstSeed ''market_global''], OwnProgram)),
        IdlAccount ''task'' [Writable] None (Some ([ConstSeed ''task'', FieldSeed ''task'' ''client'',
         FieldSeed ''task'' ''task_nonce''], OwnProgram)),
        IdlAccount ''bidBook'' [Writable] None (Some ([ConstSeed ''bid_book'', FieldSeed ''task'' ''task_id''], OwnProgram)),
        IdlAccount ''guard'' [Writable] None (Some ([ConstSeed ''guard''], OwnProgram)),
        IdlAccount ''cranker'' [Signer] None None],
     idl_args = []\<rparr>"

definition market_claimBond :: idl_instruction where
  "market_claimBond = \<lparr>idl_name = ''claimBond'', idl_discriminator = [173, 34, 157, 61, 45, 120, 246, 11],
     idl_accounts =
       [IdlAccount ''global'' [] None (Some ([ConstSeed ''market_global''], OwnProgram)),
        IdlAccount ''task'' [] None (Some ([ConstSeed ''task'', FieldSeed ''task'' ''client'', FieldSeed ''task'' ''task_nonce''],
         OwnProgram)),
        IdlAccount ''bidBook'' [] None (Some ([ConstSeed ''bid_book'', FieldSeed ''task'' ''task_id''], OwnProgram)),
        IdlAccount ''bid'' [Writable] None (Some ([ConstSeed ''bid'', FieldSeed ''task'' ''task_id'', AccountSeed ''bidder''],
         OwnProgram)),
        IdlAccount ''paymentMint'' [] None None,
        IdlAccount ''bondEscrow'' [Writable] None (Some ([ConstSeed ''bond_escrow'', FieldSeed ''task'' ''task_id''], OwnProgram)),
        IdlAccount ''bidderTokenAccount'' [Writable] None None,
        IdlAccount ''feeCollectorTokenAccount'' [Writable] None None,
        IdlAccount ''hookAllowlist'' [Optional] None None,
        IdlAccount ''bidder'' [Signer] None None,
        IdlAccount ''tokenProgram'' [] None None],
     idl_args = []\<rparr>"

definition market_cancelBidding :: idl_instruction where
  "market_cancelBidding = \<lparr>idl_name = ''cancelBidding'', idl_discriminator = [144, 6, 97, 99, 211, 177, 168, 245],
     idl_accounts =
       [IdlAccount ''task'' [Writable] None (Some ([ConstSeed ''task'', FieldSeed ''task'' ''client'',
         FieldSeed ''task'' ''task_nonce''], OwnProgram)),
        IdlAccount ''bidBook'' [Writable] None (Some ([ConstSeed ''bid_book'', FieldSeed ''task'' ''task_id''], OwnProgram)),
        IdlAccount ''paymentMint'' [] None None,
        IdlAccount ''bondEscrow'' [Writable] None (Some ([ConstSeed ''bond_escrow'', FieldSeed ''task'' ''task_id''], OwnProgram)),
        IdlAccount ''client'' [Writable, Signer] None None,
        IdlAccount ''tokenProgram'' [] None None],
     idl_args = []\<rparr>"

definition market_cancelUnfundedTask :: idl_instruction where
  "market_cancelUnfundedTask = \<lparr>idl_name = ''cancelUnfundedTask'', idl_discriminator = [193, 14, 137, 66, 7, 191, 162, 99],
     idl_accounts =
       [IdlAccount ''task'' [Writable] None (Some ([ConstSeed ''task'', FieldSeed ''task'' ''client'',
         FieldSeed ''task'' ''task_nonce''], OwnProgram)),
        IdlAccount ''client'' [Writable, Signer] None None],
     idl_args = []\<rparr>"

subsection \<open>Proof verifier\<close>

definition verifier_registerVk :: idl_instruction where
  "verifier_registerVk = \<lparr>idl_name = ''registerVk'', idl_discriminator = [248, 1, 135, 102, 153, 191, 170, 30],
     idl_accounts =
       [IdlAccount ''config'' [] None (Some ([ConstSeed ''verifier_config''], OwnProgram)),
        IdlAccount ''vk'' [Writable] None (Some ([ConstSeed ''vk'', ArgSeed ''vkId''], OwnProgram)),
        IdlAccount ''authority'' [Signer] None None,
        IdlAccount ''payer'' [Writable, Signer] None None,
        IdlAccount ''systemProgram'' [] (Some ''11111111111111111111111111111111'') None],
     idl_args = [(''vkId'', ArrayOf (Prim ''u8'') 32), (''alphaG1'', ArrayOf (Prim ''u8'') 64),
         (''betaG2'', ArrayOf (Prim ''u8'') 128), (''gammaG2'', ArrayOf (Prim ''u8'') 128),
         (''deltaG2'', ArrayOf (Prim ''u8'') 128), (''ic'', VecOf (ArrayOf (Prim ''u8'') 64)), (''numPublicInputs'', Prim ''u8''),
         (''circuitLabel'', ArrayOf (Prim ''u8'') 32), (''isProduction'', Prim ''bool'')]\<rparr>"

definition verifier_proposeVkActivation :: idl_instruction where
  "verifier_proposeVkActivation = \<lparr>idl_name = ''proposeVkActivation'', idl_discriminator = [233, 195, 204, 114, 237, 202,
         226, 208],
     idl_accounts =
       [IdlAccount ''config'' [Writable] None (Some ([ConstSeed ''verifier_config''], OwnProgram)),
        IdlAccount ''vk'' [] None (Some ([ConstSeed ''vk'', FieldSeed ''vk'' ''vk_id''], OwnProgram)),
        IdlAccount ''mode'' [] None (Some ([ConstSeed ''mode''], OwnProgram)),
        IdlAccount ''authority'' [Signer] None None],
     idl_args = []\<rparr>"

definition verifier_executeVkActivation :: idl_instruction where
  "verifier_executeVkActivation = \<lparr>idl_name = ''executeVkActivation'', idl_discriminator = [74, 212, 229, 200, 41, 188, 71,
         198],
     idl_accounts =
       [IdlAccount ''config'' [Writable] None (Some ([ConstSeed ''verifier_config''], OwnProgram)),
        IdlAccount ''vk'' [] None (Some ([ConstSeed ''vk'', FieldSeed ''vk'' ''vk_id''], OwnProgram))],
     idl_args = []\<rparr>"

definition verifier_verifyProof :: idl_instruction where
  "verifier_verifyProof = \<lparr>idl_name = ''verifyProof'', idl_discriminator = [217, 211, 191, 110, 144, 13, 186, 98],
     idl_accounts =
       [IdlAccount ''config'' [] None (Some ([ConstSeed ''verifier_config''], OwnProgram)),
        IdlAccount ''vk'' [] None (Some ([ConstSeed ''vk'', FieldSeed ''vk'' ''vk_id''], OwnProgram)),
        IdlAccount ''mode'' [] None (Some ([ConstSeed ''mode''], OwnProgram)),
        IdlAccount ''selfGuard'' [] None (Some ([ConstSeed ''guard''], OwnProgram)),
        IdlAccount ''allowedCallers'' [] None (Some ([ConstSeed ''allowed_callers''], OwnProgram)),
        IdlAccount ''callerGuard'' [] None None,
        IdlAccount ''instructions'' [] (Some ''Sysvar1nstructions1111111111111111111111111'') None],
     idl_args = [(''proofA'', ArrayOf (Prim ''u8'') 64), (''proofB'', ArrayOf (Prim ''u8'') 128),
         (''proofC'', ArrayOf (Prim ''u8'') 64), (''publicInputs'', VecOf (ArrayOf (Prim ''u8'') 32))]\<rparr>"

subsection \<open>Dispute arbitration\<close>

definition dispute_raiseDispute :: idl_instruction where
  "dispute_raiseDispute = \<lparr>idl_name = ''raiseDispute'', idl_discriminator = [41, 243, 1, 51, 150, 95, 246, 73],
     idl_accounts =
       [IdlAccount ''config'' [Writable] None (Some ([ConstSeed ''dispute_config''], OwnProgram)),
        IdlAccount ''disputeCase'' [Writable] None (Some ([ConstSeed ''dispute_case'', FieldSeed ''config'' ''next_case_id''],
         OwnProgram)),
        IdlAccount ''pool'' [] None (Some ([ConstSeed ''dispute_pool''], OwnProgram)),
        IdlAccount ''payer'' [Writable, Signer] None None,
        IdlAccount ''systemProgram'' [] (Some ''11111111111111111111111111111111'') None],
     idl_args = [(''taskId'', Prim ''u64''), (''client'', Prim ''pubkey''), (''agentOperator'', Prim ''pubkey''),
         (''escrowAmount'', Prim ''u64''), (''paymentMint'', Prim ''pubkey'')]\<rparr>"

definition dispute_commitVote :: idl_instruction where
  "dispute_commitVote = \<lparr>idl_name = ''commitVote'', idl_discriminator = [134, 97, 90, 126, 91, 66, 16, 26],
     idl_accounts =
       [IdlAccount ''config'' [] None (Some ([ConstSeed ''dispute_config''], OwnProgram)),
        IdlAccount ''disputeCase'' [] None (Some ([ConstSeed ''dispute_case'', FieldSeed ''disputeCase'' ''case_id''], OwnProgram)),
        IdlAccount ''arbitrator'' [] None (Some ([ConstSeed ''arbitrator'', AccountSeed ''arbitratorSigner''], OwnProgram)),
        IdlAccount ''voteRecord'' [Writable] None None,
        IdlAccount ''operator'' [] None None,
        IdlAccount ''arbitratorSigner'' [Writable, Signer] None None,
        IdlAccount ''systemProgram'' [] (Some ''11111111111111111111111111111111'') None],
     idl_args = [(''commitHash'', ArrayOf (Prim ''u8'') 32)]\<rparr>"

definition dispute_revealVote :: idl_instruction where
  "dispute_revealVote = \<lparr>idl_name = ''revealVote'', idl_discriminator = [100, 157, 139, 17, 186, 75, 185, 149],
     idl_accounts =
       [IdlAccount ''config'' [] None (Some ([ConstSeed ''dispute_config''], OwnProgram)),
        IdlAccount ''disputeCase'' [Writable] None (Some ([ConstSeed ''dispute_case'', FieldSeed ''disputeCase'' ''case_id''],
         OwnProgram)),
        IdlAccount ''arbitrator'' [] None (Some ([ConstSeed ''arbitrator'', AccountSeed ''arbitratorSigner''], OwnProgram)),
        IdlAccount ''voteRecord'' [Writable] None None,
        IdlAccount ''arbitratorSigner'' [Signer] None None],
     idl_args = [(''verdict'', Defined ''DisputeVerdict''), (''salt'', ArrayOf (Prim ''u8'') 32)]\<rparr>"

definition dispute_resolveDispute :: idl_instruction where
  "dispute_resolveDispute = \<lparr>idl_name = ''resolveDispute'', idl_discriminator = [231, 6, 202, 6, 96, 103, 12, 230],
     idl_accounts =
       [IdlAccount ''config'' [] None (Some ([ConstSeed ''dispute_config''], OwnProgram)),
        IdlAccount ''disputeCase'' [Writable] None (Some ([ConstSeed ''dispute_case'', FieldSeed ''disputeCase'' ''case_id''],
         OwnProgram)),
        IdlAccount ''cranker'' [Signer] None None],
     idl_args = []\<rparr>"

definition dispute_escalateAppeal :: idl_instruction where
  "dispute_escalateAppeal = \<lparr>idl_name = ''escalateAppeal'', idl_discriminator = [207, 25, 110, 186, 204, 76, 4, 220],
     idl_accounts =
       [IdlAccount ''config'' [] None (Some ([ConstSeed ''dispute_config''], OwnProgram)),
        IdlAccount ''disputeCase'' [Writable] None (Some ([ConstSeed ''dispute_case'', FieldSeed ''disputeCase'' ''case_id''],
         OwnProgram)),
        IdlAccount ''appealRecord'' [Writable] None (Some ([ConstSeed ''appeal'', FieldSeed ''disputeCase'' ''case_id''], OwnProgram)),
        IdlAccount ''appellant'' [Writable, Signer] None None,
        IdlAccount ''systemProgram'' [] (Some ''11111111111111111111111111111111'') None],
     idl_args = []\<rparr>"

definition dispute_registerArbitrator :: idl_instruction where
  "dispute_registerArbitrator = \<lparr>idl_name = ''registerArbitrator'', idl_discriminator = [141, 158, 50, 47, 214, 118, 229, 183],
     idl_accounts =
       [IdlAccount ''config'' [] None (Some ([ConstSeed ''dispute_config''], OwnProgram)),
        IdlAccount ''arbitrator'' [Writable] None (Some ([ConstSeed ''arbitrator'', AccountSeed ''operator''], OwnProgram)),
        IdlAccount ''stakeAccount'' [] None None,
        IdlAccount ''operator'' [Writable, Signer] None None,
        IdlAccount ''systemProgram'' [] (Some ''11111111111111111111111111111111'') None],
     idl_args = [(''effectiveStake'', Prim ''u64''), (''lockEnd'', Prim ''i64'')]\<rparr>"

definition dispute_slashArbitrator :: idl_instruction where
  "dispute_slashArbitrator = \<lparr>idl_name = ''slashArbitrator'', idl_discriminator = [156, 206, 214, 107, 241, 102, 228, 1],
     idl_accounts =
       [IdlAccount ''config'' [] None (Some ([ConstSeed ''dispute_config''], OwnProgram)),
        IdlAccount ''disputeCase'' [] None (Some ([ConstSeed ''dispute_case'', FieldSeed ''disputeCase'' ''case_id''], OwnProgram)),
        IdlAccount ''arbitrator'' [Writable] None (Some ([ConstSeed ''arbitrator'', FieldSeed ''arbitrator'' ''operator''],
         OwnProgram)),
        IdlAccount ''pendingSlash'' [Writable] None (Some ([ConstSeed ''pending_slash'', FieldSeed ''arbitrator'' ''operator''],
         OwnProgram)),
        IdlAccount ''authority'' [Writable, Signer] None None,
        IdlAccount ''systemProgram'' [] (Some ''11111111111111111111111111111111'') None],
     idl_args = [(''reasonCode'', Prim ''u8'')]\<rparr>"

definition dispute_tallyRound :: idl_instruction where
  "dispute_tallyRound = \<lparr>idl_name = ''tallyRound'', idl_discriminator = [176, 99, 204, 229, 229, 240, 167, 240],
     idl_accounts =
       [IdlAccount ''disputeCase'' [Writable] None (Some ([ConstSeed ''dispute_case'', FieldSeed ''disputeCase'' ''case_id''],
         OwnProgram)),
        IdlAccount ''cranker'' [Signer] None None],
     idl_args = []\<rparr>"

subsection \<open>Governance\<close>

definition governance_propose :: idl_instruction where
  "governance_propose = \<lparr>idl_name = ''propose'', idl_discriminator = [93, 253, 82, 168, 118, 33, 102, 90],
     idl_accounts =
       [IdlAccount ''config'' [Writable] None (Some ([ConstSeed ''governance_config''], OwnProgram)),
        IdlAccount ''registry'' [] None (Some ([ConstSeed ''program_registry''], OwnProgram)),
        IdlAccount ''proposal'' [Writable] None (Some ([ConstSeed ''proposal'', FieldSeed ''config'' ''next_proposal_id''],
         OwnProgram)),
        IdlAccount ''proposer'' [Writable, Signer] None None,
        IdlAccount ''systemProgram'' [] (Some ''11111111111111111111111111111111'') None],
     idl_args = [(''category'', Defined ''ProposalCategory''), (''targetProgram'', Prim ''pubkey''), (''ixData'', Prim ''bytes''),
         (''metadataUri'', Prim ''bytes''), (''snapshot'', Defined ''ProposalSnapshot'')]\<rparr>"

definition governance_vote :: idl_instruction where
  "governance_vote = \<lparr>idl_name = ''vote'', idl_discriminator = [227, 110, 155, 23, 136, 126, 172, 25],
     idl_accounts =
       [IdlAccount ''config'' [] None (Some ([ConstSeed ''governance_config''], OwnProgram)),
        IdlAccount ''proposal'' [Writable] None (Some ([ConstSeed ''proposal'', FieldSeed ''proposal'' ''proposal_id''], OwnProgram)),
        IdlAccount ''voteRecord'' [Writable] None (Some ([ConstSeed ''vote'', AccountSeed ''proposal'', AccountSeed ''voter''],
         OwnProgram)),
        IdlAccount ''voter'' [Writable, Signer] None None,
        IdlAccount ''systemProgram'' [] (Some ''11111111111111111111111111111111'') None],
     idl_args = [(''choice'', Defined ''VoteChoice''), (''weight'', Prim ''u128''),
         (''merkleProof'', VecOf (ArrayOf (Prim ''u8'') 32))]\<rparr>"

definition governance_finalizeVote :: idl_instruction where
  "governance_finalizeVote = \<lparr>idl_name = ''finalizeVote'', idl_discriminator = [181, 176, 6, 248, 249, 134, 146, 56],
     idl_accounts =
       [IdlAccount ''config'' [] None (Some ([ConstSeed ''governance_config''], OwnProgram)),
        IdlAccount ''registry'' [] None (Some ([ConstSeed ''program_registry''], OwnProgram)),
        IdlAccount ''proposal'' [Writable] None (Some ([ConstSeed ''proposal'', FieldSeed ''proposal'' ''proposal_id''], OwnProgram)),
        IdlAccount ''cranker'' [Signer] None None],
     idl_args = []\<rparr>"

definition governance_executeProposal :: idl_instruction where
  "governance_executeProposal = \<lparr>idl_name = ''executeProposal'', idl_discriminator = [186, 60, 116, 133, 108, 128, 111, 28],
     idl_accounts =
       [IdlAccount ''config'' [] None (Some ([ConstSeed ''governance_config''], OwnProgram)),
        IdlAccount ''registry'' [] None (Some ([ConstSeed ''program_registry''], OwnProgram)),
        IdlAccount ''proposal'' [Writable] None (Some ([ConstSeed ''proposal'', FieldSeed ''proposal'' ''proposal_id''], OwnProgram)),
        IdlAccount ''executionRecord'' [Writable] None (Some ([ConstSeed ''execution'', AccountSeed ''proposal''], OwnProgram)),
        IdlAccount ''executor'' [Writable, Signer] None None,
        IdlAccount ''systemProgram'' [] (Some ''11111111111111111111111111111111'') None],
     idl_args = []\<rparr>"

definition governance_expireProposal :: idl_instruction where
  "governance_expireProposal = \<lparr>idl_name = ''expireProposal'', idl_discriminator = [21, 237, 43, 176, 1, 202, 146, 144],
     idl_accounts =
       [IdlAccount ''proposal'' [Writable] None (Some ([ConstSeed ''proposal'', FieldSeed ''proposal'' ''proposal_id''], OwnProgram)),
        IdlAccount ''cranker'' [Signer] None None],
     idl_args = []\<rparr>"

definition governance_proposerCancel :: idl_instruction where
  "governance_proposerCancel = \<lparr>idl_name = ''proposerCancel'', idl_discriminator = [191, 37, 166, 218, 45, 231, 66, 236],
     idl_accounts =
       [IdlAccount ''proposal'' [Writable] None (Some ([ConstSeed ''proposal'', FieldSeed ''proposal'' ''proposal_id''], OwnProgram)),
        IdlAccount ''proposer'' [Signer] None None],
     idl_args = []\<rparr>"

definition governance_queueExecution :: idl_instruction where
  "governance_queueExecution = \<lparr>idl_name = ''queueExecution'', idl_discriminator = [112, 47, 222, 94, 168, 153, 227, 95],
     idl_accounts =
       [IdlAccount ''proposal'' [Writable] None (Some ([ConstSeed ''proposal'', FieldSeed ''proposal'' ''proposal_id''], OwnProgram)),
        IdlAccount ''cranker'' [Signer] None None],
     idl_args = []\<rparr>"

subsection \<open>Fee collector\<close>

definition fee_claimStaker :: idl_instruction where
  "fee_claimStaker = \<lparr>idl_name = ''claimStaker'', idl_discriminator = [226, 211, 121, 82, 144, 238, 194, 189],
     idl_accounts =
       [IdlAccount ''config'' [] None (Some ([ConstSeed ''fee_config''], OwnProgram)),
        IdlAccount ''epoch'' [Writable] None (Some ([ConstSeed ''epoch'', ArgSeed ''epochId''], OwnProgram)),
        IdlAccount ''claim'' [Writable] None (Some ([ConstSeed ''claim'', ArgSeed ''epochId'', AccountSeed ''staker''], OwnProgram)),
        IdlAccount ''saepMint'' [] None None,
        IdlAccount ''stakerVault'' [Writable] None (Some ([ConstSeed ''staker_vault''], OwnProgram)),
        IdlAccount ''stakerTokenAccount'' [Writable] None None,
        IdlAccount ''staker'' [Writable, Signer] None None,
        IdlAccount ''tokenProgram'' [] None None,
        IdlAccount ''systemProgram'' [] (Some ''11111111111111111111111111111111'') None],
     idl_args = [(''epochId'', Prim ''u64''), (''amount'', Prim ''u64''), (''merkleProof'', VecOf (ArrayOf (Prim ''u8'') 32))]\<rparr>"

definition fee_processEpoch :: idl_instruction where
  "fee_processEpoch = \<lparr>idl_name = ''processEpoch'', idl_discriminator = [115, 194, 215, 160, 113, 154, 81, 5],
     idl_accounts =
       [IdlAccount ''config'' [Writable] None (Some ([ConstSeed ''fee_config''], OwnProgram)),
        IdlAccount ''currentEpoch'' [Writable] None (Some ([ConstSeed ''epoch'', FieldSeed ''currentEpoch'' ''epoch_id''],
         OwnProgram)),
        IdlAccount ''nextEpoch'' [Writable] None (Some ([ConstSeed ''epoch'', FieldSeed ''config'' ''next_epoch_id''], OwnProgram)),
        IdlAccount ''saepMint'' [] None None,
        IdlAccount ''intakeVault'' [Writable] None (Some ([ConstSeed ''intake_vault''], OwnProgram)),
        IdlAccount ''burnVault'' [Writable] None (Some ([ConstSeed ''burn_vault''], OwnProgram)),
        IdlAccount ''stakerVault'' [Writable] None (Some ([ConstSeed ''staker_vault''], OwnProgram)),
        IdlAccount ''grantRecipient'' [Writable] None None,
        IdlAccount ''treasuryRecipient'' [Writable] None None,
        IdlAccount ''cranker'' [Writable, Signer] None None,
        IdlAccount ''tokenProgram'' [] None None,
        IdlAccount ''systemProgram'' [] (Some ''11111111111111111111111111111111'') None],
     idl_args = [(''snapshotId'', Prim ''u64'')]\<rparr>"

definition fee_executeBurn :: idl_instruction where
  "fee_executeBurn = \<lparr>idl_name = ''executeBurn'', idl_discriminator = [234, 48, 129, 220, 40, 222, 58, 159],
     idl_accounts =
       [IdlAccount ''config'' [] None (Some ([ConstSeed ''fee_config''], OwnProgram)),
        IdlAccount ''epoch'' [Writable] None (Some ([ConstSeed ''epoch'', ArgSeed ''epochId''], OwnProgram)),
        IdlAccount ''saepMint'' [Writable] None None,
        IdlAccount ''burnVault'' [Writable] None (Some ([ConstSeed ''burn_vault''], OwnProgram)),
        IdlAccount ''cranker'' [Signer] None None,
        IdlAccount ''tokenProgram'' [] None None],
     idl_args = [(''epochId'', Prim ''u64'')]\<rparr>"

definition fee_depositSaep :: idl_instruction where
  "fee_depositSaep = \<lparr>idl_name = ''depositSaep'', idl_discriminator = [73, 76, 141, 21, 235, 215, 144, 133],
     idl_accounts =
       [IdlAccount ''config'' [] None (Some ([ConstSeed ''fee_config''], OwnProgram)),
        IdlAccount ''externalMint'' [Writable] None None,
        IdlAccount ''internalMint'' [Writable] None None,
        IdlAccount ''depositorExternal'' [Writable] None None,
        IdlAccount ''depositorInternal'' [Writable] None None,
        IdlAccount ''depositVault'' [Writable] None (Some ([ConstSeed ''deposit_vault''], OwnProgram)),
        IdlAccount ''mintAuthority'' [] None (Some ([ConstSeed ''mint_authority''], OwnProgram)),
        IdlAccount ''depositor'' [Signer] None None,
        IdlAccount ''externalTokenProgram'' [] None None,
        IdlAccount ''internalTokenProgram'' [] None None],
     idl_args = [(''amount'', Prim ''u64'')]\<rparr>"

definition fee_withdrawSaep :: idl_instruction where
  "fee_withdrawSaep = \<lparr>idl_name = ''withdrawSaep'', idl_discriminator = [158, 242, 130, 67, 232, 20, 180, 172],
     idl_accounts =
       [IdlAccount ''config'' [] None (Some ([ConstSeed ''fee_config''], OwnProgram)),
        IdlAccount ''externalMint'' [Writable] None None,
        IdlAccount ''internalMint'' [Writable] None None,
        IdlAccount ''withdrawerInternal'' [Writable] None None,
        IdlAccount ''withdrawerExternal'' [Writable] None None,
        IdlAccount ''depositVault'' [Writable] None (Some ([ConstSeed ''deposit_vault''], OwnProgram)),
        IdlAccount ''mintAuthority'' [] None (Some ([ConstSeed ''mint_authority''], OwnProgram)),
        IdlAccount ''withdrawer'' [Signer] None None,
        IdlAccount ''externalTokenProgram'' [] None None,
        IdlAccount ''internalTokenProgram'' [] None None],
     idl_args = [(''amount'', Prim ''u64'')]\<rparr>"

definition fee_harvestTransferFees :: idl_instruction where
  "fee_harvestTransferFees = \<lparr>idl_name = ''harvestTransferFees'', idl_discriminator = [246, 104, 231, 171, 131, 105, 50, 55],
     idl_accounts =
       [IdlAccount ''config'' [Writable] None (Some ([ConstSeed ''fee_config''], OwnProgram)),
        IdlAccount ''currentEpoch'' [Writable] None (Some ([ConstSeed ''epoch'',
         FieldSeed ''config'' ''next_epoch_id.saturating_sub(1)''], OwnProgram)),
        IdlAccount ''saepMint'' [Writable] None None,
        IdlAccount ''intakeVault'' [Writable] None (Some ([ConstSeed ''intake_vault''], OwnProgram)),
        IdlAccount ''feeWithdrawAuthority'' [] None (Some ([ConstSeed ''transfer_fee_withdraw_authority''], OwnProgram)),
        IdlAccount ''cranker'' [Signer] None None,
        IdlAccount ''tokenProgram'' [] None None],
     idl_args = []\<rparr>"

definition fee_harvestConfidentialFees :: idl_instruction where
  "fee_harvestConfidentialFees = \<lparr>idl_name = ''harvestConfidentialFees'', idl_discriminator = [75, 72, 225, 51, 34, 119, 20,
         50],
     idl_accounts =
       [IdlAccount ''config'' [Writable] None (Some ([ConstSeed ''fee_config''], OwnProgram)),
        IdlAccount ''currentEpoch'' [Writable] None (Some ([ConstSeed ''epoch'',
         FieldSeed ''config'' ''next_epoch_id.saturating_sub(1)''], OwnProgram)),
        IdlAccount ''saepMint'' [Writable] None None,
        IdlAccount ''intakeVault'' [Writable] None (Some ([ConstSeed ''intake_vault''], OwnProgram)),
        IdlAccount ''feeWithdrawAuthority'' [] None (Some ([ConstSeed ''transfer_fee_withdraw_authority''], OwnProgram)),
        IdlAccount ''cranker'' [Signer] None None,
        IdlAccount ''tokenProgram'' [] None None],
     idl_args = []\<rparr>"

definition fee_commitDistributionRoot :: idl_instruction where
  "fee_commitDistributionRoot = \<lparr>idl_name = ''commitDistributionRoot'', idl_discriminator = [101, 170, 88, 162, 27, 185,
         114, 173],
     idl_accounts =
       [IdlAccount ''config'' [] None (Some ([ConstSeed ''fee_config''], OwnProgram)),
        IdlAccount ''epoch'' [Writable] None (Some ([ConstSeed ''epoch'', ArgSeed ''epochId''], OwnProgram)),
        IdlAccount ''committer'' [Signer] None None],
     idl_args = [(''epochId'', Prim ''u64''), (''root'', ArrayOf (Prim ''u8'') 32), (''leafCount'', Prim ''u32''),
         (''totalWeight'', Prim ''u64'')]\<rparr>"

definition fee_setConfidentialTransfers :: idl_instruction where
  "fee_setConfidentialTransfers = \<lparr>idl_name = ''setConfidentialTransfers'', idl_discriminator = [89, 244, 199, 206, 160, 44,
         207, 126],
     idl_accounts =
       [IdlAccount ''config'' [Writable] None (Some ([ConstSeed ''fee_config''], OwnProgram)),
        IdlAccount ''authority'' [Signer] None None],
     idl_args = [(''enabled'', Prim ''bool'')]\<rparr>"

subsection \<open>Staking\<close>

definition staking_stake :: idl_instruction where
  "staking_stake = \<lparr>idl_name = ''stake'', idl_discriminator = [206, 176, 202, 18, 200, 209, 179, 108],
     idl_accounts =
       [IdlAccount ''pool'' [Writable] None (Some ([ConstSeed ''staking_pool''], OwnProgram)),
        IdlAccount ''stakeAccount'' [Writable] None (Some ([ConstSeed ''stake'', AccountSeed ''pool'', AccountSeed ''owner''],
         OwnProgram)),
        IdlAccount ''stakeMint'' [] None None,
        IdlAccount ''vault'' [Writable] None (Some ([ConstSeed ''stake_vault'', AccountSeed ''stakeAccount''], OwnProgram)),
        IdlAccount ''ownerTokenAccount'' [Writable] None None,
        IdlAccount ''owner'' [Writable, Signer] None None,
        IdlAccount ''tokenProgram'' [] None None,
        IdlAccount ''systemProgram'' [] (Some ''11111111111111111111111111111111'') None],
     idl_args = [(''amount'', Prim ''u64''), (''lockupDurationSecs'', Prim ''i64'')]\<rparr>"

definition staking_beginUnstake :: idl_instruction where
  "staking_beginUnstake = \<lparr>idl_name = ''beginUnstake'', idl_discriminator = [156, 67, 177, 83, 28, 111, 174, 132],
     idl_accounts =
       [IdlAccount ''pool'' [Writable] None (Some ([ConstSeed ''staking_pool''], OwnProgram)),
        IdlAccount ''stakeAccount'' [Writable] None (Some ([ConstSeed ''stake'', AccountSeed ''pool'', AccountSeed ''owner''],
         OwnProgram)),
        IdlAccount ''owner'' [Signer] None None],
     idl_args = []\<rparr>"

definition staking_withdraw :: idl_instruction where
  "staking_withdraw = \<lparr>idl_name = ''withdraw'', idl_discriminator = [183, 18, 70, 156, 148, 109, 161, 34],
     idl_accounts =
       [IdlAccount ''pool'' [Writable] None (Some ([ConstSeed ''staking_pool''], OwnProgram)),
        IdlAccount ''stakeAccount'' [Writable] None (Some ([ConstSeed ''stake'', AccountSeed ''pool'', AccountSeed ''owner''],
         OwnProgram)),
        IdlAccount ''stakeMint'' [] None None,
        IdlAccount ''vault'' [Writable] None (Some ([ConstSeed ''stake_vault'', AccountSeed ''stakeAccount''], OwnProgram)),
        IdlAccount ''ownerTokenAccount'' [Writable] None None,
        IdlAccount ''owner'' [Signer] None None,
        IdlAccount ''tokenProgram'' [] None None],
     idl_args = []\<rparr>"

definition staking_snapshotEpoch :: idl_instruction where
  "staking_snapshotEpoch = \<lparr>idl_name = ''snapshotEpoch'', idl_discriminator = [246, 129, 45, 23, 245, 142, 227, 41],
     idl_accounts =
       [IdlAccount ''config'' [] None (Some ([ConstSeed ''staking_config''], OwnProgram)),
        IdlAccount ''pool'' [Writable] None (Some ([ConstSeed ''staking_pool''], OwnProgram)),
        IdlAccount ''snapshot'' [Writable] None (Some ([ConstSeed ''epoch_snapshot'', FieldSeed ''pool'' ''current_epoch''],
         OwnProgram)),
        IdlAccount ''authority'' [Writable, Signer] None None,
        IdlAccount ''systemProgram'' [] (Some ''11111111111111111111111111111111'') None],
     idl_args = [(''totalVotingPower'', Prim ''u128''), (''stakerCount'', Prim ''u32'')]\<rparr>"

subsection \<open>Template registry\<close>

definition template_mintTemplate :: idl_instruction where
  "template_mintTemplate = \<lparr>idl_name = ''mintTemplate'', idl_discriminator = [102, 202, 189, 68, 157, 166, 93, 28],
     idl_accounts =
       [IdlAccount ''global'' [] None (Some ([ConstSeed ''tpl_global''], OwnProgram)),
        IdlAccount ''template'' [Writable] None (Some ([ConstSeed ''template'', ArgSeed ''templateId''], OwnProgram)),
        IdlAccount ''author'' [Writable, Signer] None None,
        IdlAccount ''systemProgram'' [] (Some ''11111111111111111111111111111111'') None],
     idl_args = [(''templateId'', ArrayOf (Prim ''u8'') 32), (''configHash'', ArrayOf (Prim ''u8'') 32),
         (''configUri'', ArrayOf (Prim ''u8'') 128), (''capabilityMask'', Prim ''u128''), (''royaltyBps'', Prim ''u16''),
         (''rentPricePerSec'', Prim ''u64''), (''minRentDuration'', Prim ''i64''), (''maxRentDuration'', Prim ''i64'')]\<rparr>"

definition template_updateTemplate :: idl_instruction where
  "template_updateTemplate = \<lparr>idl_name = ''updateTemplate'', idl_discriminator = [44, 43, 160, 160, 253, 236, 99, 61],
     idl_accounts =
       [IdlAccount ''global'' [] None (Some ([ConstSeed ''tpl_global''], OwnProgram)),
        IdlAccount ''template'' [Writable] None (Some ([ConstSeed ''template'', FieldSeed ''template'' ''template_id''], OwnProgram)),
        IdlAccount ''author'' [Signer] None None],
     idl_args = [(''configHash'', ArrayOf (Prim ''u8'') 32), (''configUri'', ArrayOf (Prim ''u8'') 128)]\<rparr>"

definition template_retireTemplate :: idl_instruction where
  "template_retireTemplate = \<lparr>idl_name = ''retireTemplate'', idl_discriminator = [17, 65, 241, 254, 218, 113, 64, 56],
     idl_accounts =
       [IdlAccount ''global'' [] None (Some ([ConstSeed ''tpl_global''], OwnProgram)),
        IdlAccount ''template'' [Writable] None (Some ([ConstSeed ''template'', FieldSeed ''template'' ''template_id''], OwnProgram)),
        IdlAccount ''signer'' [Signer] None None],
     idl_args = []\<rparr>"

definition template_forkTemplate :: idl_instruction where
  "template_forkTemplate = \<lparr>idl_name = ''forkTemplate'', idl_discriminator = [122, 103, 70, 69, 60, 42, 209, 55],
     idl_accounts =
       [IdlAccount ''global'' [] None (Some ([ConstSeed ''tpl_global''], OwnProgram)),
        IdlAccount ''parent'' [Writable] None (Some ([ConstSeed ''template'', FieldSeed ''parent'' ''template_id''], OwnProgram)),
        IdlAccount ''fork'' [Writable] None (Some ([ConstSeed ''fork'', ArgSeed ''childAgentDid''], OwnProgram)),
        IdlAccount ''forker'' [Writable, Signer] None None,
        IdlAccount ''systemProgram'' [] (Some ''11111111111111111111111111111111'') None],
     idl_args = [(''childAgentDid'', ArrayOf (Prim ''u8'') 32)]\<rparr>"

definition template_openRental :: idl_instruction where
  "template_openRental = \<lparr>idl_name = ''openRental'', idl_discriminator = [180, 220, 236, 104, 25, 41, 254, 142],
     idl_accounts =
       [IdlAccount ''global'' [] None (Some ([ConstSeed ''tpl_global''], OwnProgram)),
        IdlAccount ''template'' [] None (Some ([ConstSeed ''template'', FieldSeed ''template'' ''template_id''], OwnProgram)),
        IdlAccount ''rental'' [Writable] None (Some ([ConstSeed ''rental'', AccountSeed ''template'', AccountSeed ''renter'',
         ArgSeed ''rentalNonce''], OwnProgram)),
        IdlAccount ''mint'' [] None None,
        IdlAccount ''escrow'' [Writable] None (Some ([ConstSeed ''rental_escrow'', AccountSeed ''rental''], OwnProgram)),
        IdlAccount ''renterTokenAccount'' [Writable] None None,
        IdlAccount ''renter'' [Writable, Signer] None None,
        IdlAccount ''tokenProgram'' [] None None,
        IdlAccount ''systemProgram'' [] (Some ''11111111111111111111111111111111'') None],
     idl_args = [(''durationSecs'', Prim ''i64''), (''rentalNonce'', ArrayOf (Prim ''u8'') 8)]\<rparr>"

definition template_closeRental :: idl_instruction where
  "template_closeRental = \<lparr>idl_name = ''closeRental'', idl_discriminator = [179, 188, 113, 211, 41, 232, 51, 51],
     idl_accounts =
       [IdlAccount ''global'' [] None (Some ([ConstSeed ''tpl_global''], OwnProgram)),
        IdlAccount ''template'' [] None (Some ([ConstSeed ''template'', FieldSeed ''template'' ''template_id''], OwnProgram)),
        IdlAccount ''rental'' [Writable] None None,
        IdlAccount ''mint'' [] None None,
        IdlAccount ''escrow'' [Writable] None (Some ([ConstSeed ''rental_escrow'', AccountSeed ''rental''], OwnProgram)),
        IdlAccount ''authorTokenAccount'' [Writable] None None,
        IdlAccount ''feeCollectorTokenAccount'' [Writable] None None,
        IdlAccount ''renterTokenAccount'' [Writable] None None,
        IdlAccount ''signer'' [Signer] None None,
        IdlAccount ''tokenProgram'' [] None None],
     idl_args = []\<rparr>"

definition template_claimRentalRevenue :: idl_instruction where
  "template_claimRentalRevenue = \<lparr>idl_name = ''claimRentalRevenue'', idl_discriminator = [73, 99, 248, 57, 155, 198, 3, 109],
     idl_accounts =
       [IdlAccount ''global'' [] None (Some ([ConstSeed ''tpl_global''], OwnProgram)),
        IdlAccount ''template'' [] None (Some ([ConstSeed ''template'', FieldSeed ''template'' ''template_id''], OwnProgram)),
        IdlAccount ''rental'' [Writable] None None,
        IdlAccount ''mint'' [] None None,
        IdlAccount ''escrow'' [Writable] None (Some ([ConstSeed ''rental_escrow'', AccountSeed ''rental''], OwnProgram)),
        IdlAccount ''authorTokenAccount'' [Writable] None None,
        IdlAccount ''feeCollectorTokenAccount'' [Writable] None None,
        IdlAccount ''cranker'' [Signer] None None,
        IdlAccount ''tokenProgram'' [] None None],
     idl_args = []\<rparr>"

end
