(* ===== verification/Sdk_Builders.thy ===== *)
theory Sdk_Builders
  imports Sdk_Idl
begin

text \<open>
  The instruction builders of the SDK (\<open>packages/sdk/src/programs\<close>) and the cluster configuration
  (\<open>packages/sdk/src/cluster/index.ts\<close>). A builder takes the fields of its input in the order of its interface and returns
  the request it hands to Anchor, or the error it throws: derived addresses first, in the order of the code. The constructor
  \<open>new PublicKey(text)\<close> is the parameter \<open>publicKey\<close>, the address search the parameter \<open>search\<close>.
\<close>

subsection \<open>Clusters\<close>

datatype SaepProgramName =
    AgentRegistryId | TreasuryStandardId | TaskMarketId | DisputeArbitrationId | GovernanceProgramId
  | FeeCollectorId | ProofVerifierId | CapabilityRegistryId | NxsStakingId | TemplateRegistryId

type_synonym ProgramIdMap = "SaepProgramName \<Rightarrow> pubkey"

datatype SaepCluster = Devnet | MainnetBeta | Localnet

fun DEVNET_PROGRAM_IDS :: "SaepProgramName \<Rightarrow> string" where
  "DEVNET_PROGRAM_IDS AgentRegistryId = ''EQJ4Lp2gxJDD5hs185aDcermYWdAi4cQeSKfnuqLAQYu''"
| "DEVNET_PROGRAM_IDS TreasuryStandardId = ''6boJQg4L6FRS7YZ5rFXfKUaXSy3eCKnW2SdrT3LJLizQ''"
| "DEVNET_PROGRAM_IDS TaskMarketId = ''HiyqZ4q1GPPgx1EaxSuyBFKTzoPAYDPmnSfTX1vjbB8w''"
| "DEVNET_PROGRAM_IDS DisputeArbitrationId = ''GM8xiT17USBpCW24XXBmUR8YVCxxrJPMEcsddwfUokMa''"
| "DEVNET_PROGRAM_IDS GovernanceProgramId = ''9uczLDZaN9EWqW76be75ji4vCsz3cydefbChqvBS6qw1''"
| "DEVNET_PROGRAM_IDS FeeCollectorId = ''4xLpFgjpZwJbf61UyvyMhmEBmeJzPaCyKvZeYuK2YFFu''"
| "DEVNET_PROGRAM_IDS ProofVerifierId = ''DcJx1p6bcNuFm4i5WMgK4uGZitc1bf4Ubc5d4sctZKVe''"
| "DEVNET_PROGRAM_IDS CapabilityRegistryId = ''GW161Wce7z4S2rdcSCPNGixn2YQajefNc4r3jUj9zZ5F''"
| "DEVNET_PROGRAM_IDS NxsStakingId = ''GjXfJ6MHb6SJ4XBK3qcpGw4n256qYPrDcXrNj6kf2i2Z''"
| "DEVNET_PROGRAM_IDS TemplateRegistryId = ''3QE649JDQbbudJX5j3VkmRSiRvfcu3mHCymPxZn9KC3e''"

record ClusterConfig =
  cc_cluster :: SaepCluster
  cc_endpoint :: string
  cc_programIds :: ProgramIdMap

definition toPubkeyMap :: "(string \<Rightarrow> pubkey) \<Rightarrow> (SaepProgramName \<Rightarrow> string) \<Rightarrow>
    ProgramIdMap" where
  "toPubkeyMap publicKey raw = (\<lambda>n. publicKey (raw n))"

text \<open>The input with its optional fields; \<open>clusterApiUrl\<close> is web3.js's.\<close>

definition resolveCluster :: "(string \<Rightarrow> pubkey) \<Rightarrow> (SaepCluster \<Rightarrow> string) \<Rightarrow> SaepCluster
    option \<Rightarrow> string option \<Rightarrow> (SaepProgramName \<Rightarrow> string option) \<Rightarrow> ClusterConfig" where
  "resolveCluster publicKey clusterApiUrl cluster_opt endpoint_opt overrides =
     (let cluster = (case cluster_opt of None \<Rightarrow> Devnet | Some c \<Rightarrow> c);
          endpoint = (case endpoint_opt of Some e \<Rightarrow> e
            | None \<Rightarrow> if cluster = Localnet then ''http://127.0.0.1:8899'' else clusterApiUrl cluster);
          merged = (\<lambda>n. case overrides n of None \<Rightarrow> DEVNET_PROGRAM_IDS n | Some s \<Rightarrow> s)
      in \<lparr>cc_cluster = cluster, cc_endpoint = endpoint, cc_programIds = toPubkeyMap publicKey merged\<rparr>)"

subsection \<open>Common parts\<close>

definition SystemProgram_programId :: string where
  "SystemProgram_programId = ''11111111111111111111111111111111''"

definition SYSVAR_RENT_PUBKEY :: string where
  "SYSVAR_RENT_PUBKEY = ''SysvarRent111111111111111111111111111111111''"

definition SYSVAR_RENT :: string where
  "SYSVAR_RENT = ''SysvarRent111111111111111111111111111111111''"

definition SYSVAR_INSTRUCTIONS_PUBKEY :: string where
  "SYSVAR_INSTRUCTIONS_PUBKEY = ''Sysvar1nstructions1111111111111111111111111''"

definition TOKEN_2022_PROGRAM_ID :: string where
  "TOKEN_2022_PROGRAM_ID = ''TokenzQdBNbLqP5VEhdkAS6EPFLC1PHnBqCXEpPxuEb''"

text \<open>\<open>input.tokenProgramId ?? TOKEN_2022_PROGRAM_ID\<close>\<close>

definition token_program :: "(string \<Rightarrow> pubkey) \<Rightarrow> pubkey option \<Rightarrow> pubkey" where
  "token_program publicKey p = (case p of None \<Rightarrow> publicKey TOKEN_2022_PROGRAM_ID | Some k \<Rightarrow> k)"

definition default_list :: "'a list option \<Rightarrow> 'a list" where
  "default_list xs = (case xs of None \<Rightarrow> [] | Some ys \<Rightarrow> ys)"

text \<open>\<open>const x = f(\<dots>)\<close> and \<open>const [x] = somePda(\<dots>)\<close> when the call may throw.\<close>

definition and_then :: "'a js \<Rightarrow> ('a \<Rightarrow> 'b js) \<Rightarrow> 'b js" where
  "and_then r k = (case r of Inl e \<Rightarrow> Inl e | Inr x \<Rightarrow> k x)"

definition with_pda :: "(pubkey \<times> nat) js \<Rightarrow> (pubkey \<Rightarrow> 'b js) \<Rightarrow> 'b js" where
  "with_pda r k = and_then r (\<lambda>p. k (fst p))"


subsection \<open>Agent registry\<close>

definition AGENT_ID_LEN :: nat where
  "AGENT_ID_LEN = 32"

definition MANIFEST_URI_LEN :: nat where
  "MANIFEST_URI_LEN = 128"

definition encodeAgentId :: "string \<Rightarrow> bytes js" where
  "encodeAgentId seed_text = (let bs = text_encode seed_text in
     if length bs > AGENT_ID_LEN then Inl (''agentId seed exceeds '' @ show_nat AGENT_ID_LEN @ '' bytes'')
     else Inr (bs @ replicate (AGENT_ID_LEN - length bs) 0))"

definition encodeManifestUri :: "string \<Rightarrow> bytes js" where
  "encodeManifestUri uri = (let bs = text_encode uri in
     if length bs > MANIFEST_URI_LEN then Inl (''manifestUri exceeds '' @ show_nat MANIFEST_URI_LEN @ '' bytes'')
     else Inr (bs @ replicate (MANIFEST_URI_LEN - length bs) 0))"

text \<open>The module's own \<open>capabilityConfigPda\<close>, which returns the address alone.\<close>

definition register_capabilityConfigPda :: "pda_search \<Rightarrow> pubkey \<Rightarrow> pubkey" where
  "register_capabilityConfigPda search capabilityRegistry = fst (search [enc ''config''] capabilityRegistry)"


definition buildRegisterAgentIx :: "(string \<Rightarrow> pubkey) \<Rightarrow> pda_search \<Rightarrow> pubkey \<Rightarrow> pubkey
    \<Rightarrow> bytes \<Rightarrow> string \<Rightarrow> int \<Rightarrow> int \<Rightarrow> int \<Rightarrow> int \<Rightarrow> pubkey
    \<Rightarrow> pubkey \<Rightarrow> pubkey \<Rightarrow> pubkey option \<Rightarrow> pubkey option \<Rightarrow> ix_request js" where
  "buildRegisterAgentIx publicKey search programId operator_key agentId manifestUri capabilityMask priceLamports streamRate stakeAmount
      stakeMint operatorTokenAccount capabilityRegistryProgramId personhoodAttestation tokenProgramId =
     with_pda (agentRegistryGlobalPda search programId) (\<lambda>global.
     with_pda (agentAccountPda search programId operator_key agentId) (\<lambda>agent.
     with_pda (agentStakePda search programId agent) (\<lambda>stakeVault.
     with_pda (guardPda search programId) (\<lambda>guard.
     (let capabilityConfig = register_capabilityConfigPda search capabilityRegistryProgramId in
     and_then (encodeManifestUri manifestUri) (\<lambda>manifestBytes.
     Inr \<lparr>rq_method = ''registerAgent'', rq_args = [BytesArg agentId, BytesArg manifestBytes, BnArg capabilityMask,
         BnArg priceLamports, BnArg streamRate, BnArg stakeAmount],
       rq_accounts = [(''global'', Some global), (''capabilityConfig'', Some capabilityConfig), (''agent'', Some agent),
         (''stakeMint'', Some stakeMint), (''stakeVault'', Some stakeVault),
         (''operatorTokenAccount'', Some operatorTokenAccount), (''operator'', Some operator_key),
         (''personhoodAttestation'', personhoodAttestation), (''guard'', Some guard),
         (''tokenProgram'', Some (token_program publicKey tokenProgramId)),
         (''systemProgram'', Some (publicKey SystemProgram_programId)), (''rent'', Some (publicKey SYSVAR_RENT_PUBKEY))],
       rq_remaining = []\<rparr>))))))"

definition buildUpdateManifestIx :: "pda_search \<Rightarrow> pubkey \<Rightarrow> pubkey \<Rightarrow> pubkey \<Rightarrow> string
    \<Rightarrow> int \<Rightarrow> int \<Rightarrow> int \<Rightarrow> pubkey \<Rightarrow> ix_request js" where
  "buildUpdateManifestIx search programId operator_key agent manifestUri capabilityMask priceLamports streamRate
      capabilityRegistryProgramId =
     with_pda (agentRegistryGlobalPda search programId) (\<lambda>global.
     with_pda (capabilityConfigPda search capabilityRegistryProgramId) (\<lambda>capConfig.
     and_then (encodeManifestUri manifestUri) (\<lambda>manifestBytes.
     Inr \<lparr>rq_method = ''updateManifest'', rq_args = [BytesArg manifestBytes, BnArg capabilityMask, BnArg priceLamports,
         BnArg streamRate],
       rq_accounts = [(''global'', Some global), (''capabilityConfig'', Some capConfig), (''agent'', Some agent),
         (''operator'', Some operator_key)],
       rq_remaining = []\<rparr>)))"

definition buildStakeIncreaseIx :: "(string \<Rightarrow> pubkey) \<Rightarrow> pda_search \<Rightarrow> pubkey \<Rightarrow> pubkey
    \<Rightarrow> pubkey \<Rightarrow> pubkey \<Rightarrow> pubkey \<Rightarrow> int \<Rightarrow> ix_request js" where
  "buildStakeIncreaseIx publicKey search programId operator_key agent stakeMint operatorTokenAccount amount =
     with_pda (agentRegistryGlobalPda search programId) (\<lambda>global.
     with_pda (agentStakePda search programId agent) (\<lambda>stakeVault.
     Inr \<lparr>rq_method = ''stakeIncrease'', rq_args = [BnArg amount],
       rq_accounts = [(''global'', Some global), (''agent'', Some agent), (''stakeMint'', Some stakeMint),
         (''stakeVault'', Some stakeVault), (''operatorTokenAccount'', Some operatorTokenAccount),
         (''operator'', Some operator_key), (''tokenProgram'', Some (publicKey TOKEN_2022_PROGRAM_ID))],
       rq_remaining = []\<rparr>))"

definition buildRequestStakeWithdrawIx :: "pda_search \<Rightarrow> pubkey \<Rightarrow> pubkey \<Rightarrow> pubkey \<Rightarrow> int
    \<Rightarrow> ix_request js" where
  "buildRequestStakeWithdrawIx search programId operator_key agent amount =
     with_pda (agentRegistryGlobalPda search programId) (\<lambda>global.
     Inr \<lparr>rq_method = ''stakeWithdrawRequest'', rq_args = [BnArg amount],
       rq_accounts = [(''global'', Some global), (''agent'', Some agent), (''operator'', Some operator_key)],
       rq_remaining = []\<rparr>)"

definition buildExecuteStakeWithdrawIx :: "(string \<Rightarrow> pubkey) \<Rightarrow> pda_search \<Rightarrow> pubkey \<Rightarrow>
    pubkey \<Rightarrow> pubkey \<Rightarrow> pubkey \<Rightarrow> pubkey \<Rightarrow> ix_request js" where
  "buildExecuteStakeWithdrawIx publicKey search programId operator_key agent stakeMint operatorTokenAccount =
     with_pda (agentRegistryGlobalPda search programId) (\<lambda>global.
     with_pda (agentStakePda search programId agent) (\<lambda>stakeVault.
     Inr \<lparr>rq_method = ''stakeWithdrawExecute'', rq_args = [],
       rq_accounts = [(''global'', Some global), (''agent'', Some agent), (''stakeMint'', Some stakeMint),
         (''stakeVault'', Some stakeVault), (''operatorTokenAccount'', Some operatorTokenAccount),
         (''operator'', Some operator_key), (''tokenProgram'', Some (publicKey TOKEN_2022_PROGRAM_ID))],
       rq_remaining = []\<rparr>))"

definition buildDeregisterIx :: "pda_search \<Rightarrow> pubkey \<Rightarrow> pubkey \<Rightarrow> pubkey \<Rightarrow> ix_request
    js" where
  "buildDeregisterIx search programId operator_key agent =
     with_pda (agentRegistryGlobalPda search programId) (\<lambda>global.
     Inr \<lparr>rq_method = ''setStatus'', rq_args = [VariantArg ''deregistered'' []],
       rq_accounts = [(''global'', Some global), (''agent'', Some agent), (''signer'', Some operator_key)],
       rq_remaining = []\<rparr>)"

definition buildReactivateIx :: "pda_search \<Rightarrow> pubkey \<Rightarrow> pubkey \<Rightarrow> pubkey \<Rightarrow> ix_request
    js" where
  "buildReactivateIx search programId operator_key agent =
     with_pda (agentRegistryGlobalPda search programId) (\<lambda>global.
     Inr \<lparr>rq_method = ''setStatus'', rq_args = [VariantArg ''active'' []],
       rq_accounts = [(''global'', Some global), (''agent'', Some agent), (''signer'', Some operator_key)],
       rq_remaining = []\<rparr>)"

subsection \<open>Capability registry\<close>

definition buildProposeTagIx :: "(string \<Rightarrow> pubkey) \<Rightarrow> pda_search \<Rightarrow> pubkey \<Rightarrow> pubkey
    \<Rightarrow> pubkey \<Rightarrow> pubkey \<Rightarrow> rat \<Rightarrow> bytes \<Rightarrow> bytes \<Rightarrow> ix_request js" where
  "buildProposeTagIx publicKey search programId authority payer tag_key bitIndex slug manifestUri =
     with_pda (capabilityConfigPda search programId) (\<lambda>config.
     Inr \<lparr>rq_method = ''proposeTag'', rq_args = [NumberArg bitIndex, BytesArg slug, BytesArg manifestUri],
       rq_accounts = [(''config'', Some config), (''tag'', Some tag_key), (''authority'', Some authority),
         (''payer'', Some payer), (''systemProgram'', Some (publicKey SystemProgram_programId))],
       rq_remaining = []\<rparr>)"

definition buildRetireTagIx :: "pda_search \<Rightarrow> pubkey \<Rightarrow> pubkey \<Rightarrow> pubkey \<Rightarrow> rat \<Rightarrow>
    ix_request js" where
  "buildRetireTagIx search programId authority tag_key bitIndex =
     with_pda (capabilityConfigPda search programId) (\<lambda>config.
     Inr \<lparr>rq_method = ''retireTag'', rq_args = [NumberArg bitIndex],
       rq_accounts = [(''config'', Some config), (''tag'', Some tag_key), (''authority'', Some authority)],
       rq_remaining = []\<rparr>)"

definition buildValidateMaskIx :: "pda_search \<Rightarrow> pubkey \<Rightarrow> int \<Rightarrow> ix_request js" where
  "buildValidateMaskIx search programId mask_value =
     with_pda (capabilityConfigPda search programId) (\<lambda>config.
     Inr \<lparr>rq_method = ''validateMask'', rq_args = [BnArg mask_value],
       rq_accounts = [(''config'', Some config)],
       rq_remaining = []\<rparr>)"

subsection \<open>Treasury\<close>

definition yieldVenueArg :: "string \<Rightarrow> ix_arg" where
  "yieldVenueArg venue = VariantArg venue []"

definition yieldRiskTierArg :: "string \<Rightarrow> ix_arg" where
  "yieldRiskTierArg riskTier = VariantArg riskTier []"

definition yieldStrategyStatusArg :: "string \<Rightarrow> ix_arg" where
  "yieldStrategyStatusArg status = VariantArg status []"

definition MAX_YIELD_ROUTE_DATA_LEN :: nat where
  "MAX_YIELD_ROUTE_DATA_LEN = 512"

definition assertYieldMovementInput :: "bytes \<Rightarrow> bytes \<Rightarrow> bytes \<Rightarrow> unit js" where
  "assertYieldMovementInput agentDid strategyId routeData =
     (if length agentDid \<noteq> 32 then Inl ''agentDid must be 32 bytes''
      else if length strategyId \<noteq> 32 then Inl ''strategyId must be 32 bytes''
      else if length routeData = 0 then Inl ''routeData is required''
      else if length routeData > MAX_YIELD_ROUTE_DATA_LEN
        then Inl (''routeData exceeds '' @ show_nat MAX_YIELD_ROUTE_DATA_LEN @ '' bytes'')
      else Inr ())"

record yield_pdas =
  yp_global :: pubkey
  yp_allowedMints :: pubkey
  yp_treasury :: pubkey
  yp_strategy :: pubkey
  yp_yieldConfig :: pubkey
  yp_position :: pubkey
  yp_vault :: pubkey
  yp_receiptVault :: pubkey
  yp_guard :: pubkey

definition yieldMovementPdas :: "pda_search \<Rightarrow> pubkey \<Rightarrow> bytes \<Rightarrow> bytes \<Rightarrow> pubkey
    \<Rightarrow> yield_pdas js" where
  "yieldMovementPdas search programId agentDid strategyId mint =
     with_pda (treasuryGlobalPda search programId) (\<lambda>global.
     with_pda (treasuryAllowedMintsPda search programId) (\<lambda>allowedMints.
     with_pda (treasuryPda search programId agentDid) (\<lambda>treasury.
     with_pda (treasuryYieldStrategyPda search programId strategyId) (\<lambda>strategy.
     with_pda (treasuryYieldConfigPda search programId agentDid) (\<lambda>yieldConfig.
     with_pda (treasuryYieldPositionPda search programId agentDid strategyId mint) (\<lambda>position.
     with_pda (vaultPda search programId agentDid mint) (\<lambda>vault.
     with_pda (treasuryYieldReceiptVaultPda search programId position) (\<lambda>receiptVault.
     with_pda (reentrancyGuardPda search programId) (\<lambda>guard.
     Inr \<lparr>yp_global = global, yp_allowedMints = allowedMints, yp_treasury = treasury, yp_strategy = strategy,
       yp_yieldConfig = yieldConfig, yp_position = position, yp_vault = vault, yp_receiptVault = receiptVault,
       yp_guard = guard\<rparr>)))))))))"


definition buildInitTreasuryIx :: "(string \<Rightarrow> pubkey) \<Rightarrow> pda_search \<Rightarrow> pubkey \<Rightarrow> ProgramIdMap
    \<Rightarrow> pubkey \<Rightarrow> bytes \<Rightarrow> pubkey \<Rightarrow> bytes \<Rightarrow> int \<Rightarrow> int \<Rightarrow>
    int \<Rightarrow> ix_request js" where
  "buildInitTreasuryIx publicKey search programId ids operator_key agentDid agentOperator agentId dailySpendLimit perTxLimit weeklyLimit =
     with_pda (treasuryGlobalPda search programId) (\<lambda>global.
     with_pda (treasuryPda search programId agentDid) (\<lambda>treasury.
     with_pda (agentRegistryGlobalPda search (ids AgentRegistryId)) (\<lambda>registryGlobal.
     with_pda (agentAccountPda search (ids AgentRegistryId) agentOperator agentId) (\<lambda>agentAccount.
     Inr \<lparr>rq_method = ''initTreasury'', rq_args = [BytesArg agentDid, BnArg dailySpendLimit, BnArg perTxLimit,
         BnArg weeklyLimit],
       rq_accounts = [(''global'', Some global), (''treasury'', Some treasury), (''operator'', Some operator_key),
         (''agentRegistryProgram'', Some (ids AgentRegistryId)), (''registryGlobal'', Some registryGlobal),
         (''agentAccount'', Some agentAccount), (''systemProgram'', Some (publicKey SystemProgram_programId))],
       rq_remaining = []\<rparr>))))"

definition buildSetLimitsIx :: "pda_search \<Rightarrow> pubkey \<Rightarrow> pubkey \<Rightarrow> bytes \<Rightarrow> int \<Rightarrow>
    int \<Rightarrow> int \<Rightarrow> ix_request js" where
  "buildSetLimitsIx search programId operator_key agentDid daily perTx weekly =
     with_pda (treasuryGlobalPda search programId) (\<lambda>global.
     with_pda (treasuryPda search programId agentDid) (\<lambda>treasury.
     Inr \<lparr>rq_method = ''setLimits'', rq_args = [BnArg daily, BnArg perTx, BnArg weekly],
       rq_accounts = [(''global'', Some global), (''treasury'', Some treasury), (''operator'', Some operator_key)],
       rq_remaining = []\<rparr>))"

definition buildWithdrawIx :: "(string \<Rightarrow> pubkey) \<Rightarrow> pda_search \<Rightarrow> pubkey \<Rightarrow> pubkey
    \<Rightarrow> bytes \<Rightarrow> pubkey \<Rightarrow> pubkey \<Rightarrow> int \<Rightarrow> pubkey option \<Rightarrow> ix_request
    js" where
  "buildWithdrawIx publicKey search programId operator_key agentDid mint destination amount priceFeed =
     with_pda (treasuryGlobalPda search programId) (\<lambda>global.
     with_pda (treasuryPda search programId agentDid) (\<lambda>treasury.
     with_pda (vaultPda search programId agentDid mint) (\<lambda>vault.
     Inr \<lparr>rq_method = ''withdraw'', rq_args = [BnArg amount],
       rq_accounts = [(''global'', Some global), (''treasury'', Some treasury), (''mint'', Some mint), (''vault'', Some vault),
         (''destination'', Some destination), (''priceFeed'', priceFeed), (''operator'', Some operator_key),
         (''tokenProgram'', Some (publicKey TOKEN_2022_PROGRAM_ID))],
       rq_remaining = []\<rparr>)))"

definition buildInitStreamIx :: "(string \<Rightarrow> pubkey) \<Rightarrow> pda_search \<Rightarrow> pubkey \<Rightarrow> pubkey
    \<Rightarrow> bytes \<Rightarrow> bytes \<Rightarrow> pubkey \<Rightarrow> pubkey \<Rightarrow> pubkey \<Rightarrow> int
    \<Rightarrow> int \<Rightarrow> ix_request js" where
  "buildInitStreamIx publicKey search programId client agentDid streamNonce payerMint payoutMint clientTokenAccount ratePerSec
      maxDuration =
     with_pda (treasuryGlobalPda search programId) (\<lambda>global.
     with_pda (treasuryAllowedMintsPda search programId) (\<lambda>allowedMints.
     with_pda (treasuryPda search programId agentDid) (\<lambda>treasury.
     with_pda (streamPda search programId agentDid client streamNonce) (\<lambda>stream.
     with_pda (streamEscrowPda search programId stream) (\<lambda>escrow.
     Inr \<lparr>rq_method = ''initStream'', rq_args = [BytesArg streamNonce, BnArg ratePerSec, BnArg maxDuration],
       rq_accounts = [(''global'', Some global), (''allowedMints'', Some allowedMints), (''treasury'', Some treasury),
         (''stream'', Some stream), (''payerMint'', Some payerMint), (''payoutMint'', Some payoutMint), (''escrow'', Some escrow),
         (''clientTokenAccount'', Some clientTokenAccount), (''client'', Some client),
         (''tokenProgram'', Some (publicKey TOKEN_2022_PROGRAM_ID)),
         (''systemProgram'', Some (publicKey SystemProgram_programId)), (''rent'', Some (publicKey SYSVAR_RENT))],
       rq_remaining = []\<rparr>)))))"

definition buildCloseStreamIx :: "(string \<Rightarrow> pubkey) \<Rightarrow> pda_search \<Rightarrow> pubkey \<Rightarrow> pubkey
    \<Rightarrow> pubkey \<Rightarrow> pubkey \<Rightarrow> pubkey \<Rightarrow> bytes \<Rightarrow> pubkey \<Rightarrow> ix_request
    js" where
  "buildCloseStreamIx publicKey search programId signer stream treasury payerMint agentDid clientTokenAccount =
     with_pda (streamEscrowPda search programId stream) (\<lambda>escrow.
     with_pda (vaultPda search programId agentDid payerMint) (\<lambda>agentVault.
     Inr \<lparr>rq_method = ''closeStream'', rq_args = [],
       rq_accounts = [(''treasury'', Some treasury), (''stream'', Some stream), (''payerMint'', Some payerMint),
         (''escrow'', Some escrow), (''agentVault'', Some agentVault), (''clientTokenAccount'', Some clientTokenAccount),
         (''signer'', Some signer), (''tokenProgram'', Some (publicKey TOKEN_2022_PROGRAM_ID))],
       rq_remaining = []\<rparr>))"

definition buildWithdrawEarnedIx :: "(string \<Rightarrow> pubkey) \<Rightarrow> pda_search \<Rightarrow> pubkey \<Rightarrow> pubkey
    \<Rightarrow> bytes \<Rightarrow> pubkey \<Rightarrow> pubkey \<Rightarrow> pubkey \<Rightarrow> pubkey \<Rightarrow> bytes
    \<Rightarrow> pubkey option \<Rightarrow> pubkey option \<Rightarrow> pubkey option \<Rightarrow> pubkey option \<Rightarrow> pubkey
    option \<Rightarrow> pubkey option \<Rightarrow> ix_request js" where
  "buildWithdrawEarnedIx publicKey search programId operator_key agentDid stream payerMint payoutMint jupiterProgram routeData
      payerPriceFeed payoutPriceFeed allowedTargets hookAllowlist agentHooks tokenProgramId =
     with_pda (treasuryGlobalPda search programId) (\<lambda>global.
     with_pda (treasuryPda search programId agentDid) (\<lambda>treasury.
     with_pda (streamEscrowPda search programId stream) (\<lambda>escrow.
     with_pda (vaultPda search programId agentDid payoutMint) (\<lambda>agentVault.
     with_pda (reentrancyGuardPda search programId) (\<lambda>guard.
     Inr \<lparr>rq_method = ''withdrawEarned'', rq_args = [BufferArg routeData],
       rq_accounts = [(''global'', Some global), (''treasury'', Some treasury), (''allowedTargets'', allowedTargets),
         (''stream'', Some stream), (''payerMint'', Some payerMint), (''payoutMint'', Some payoutMint), (''escrow'', Some escrow),
         (''agentVault'', Some agentVault), (''jupiterProgram'', Some jupiterProgram), (''payerPriceFeed'', payerPriceFeed),
         (''payoutPriceFeed'', payoutPriceFeed), (''hookAllowlist'', hookAllowlist), (''agentHooks'', agentHooks),
         (''guard'', Some guard), (''operator'', Some operator_key),
         (''tokenProgram'', Some (token_program publicKey tokenProgramId))],
       rq_remaining = []\<rparr>)))))"

definition buildRegisterYieldStrategyIx :: "(string \<Rightarrow> pubkey) \<Rightarrow> pda_search \<Rightarrow> pubkey \<Rightarrow>
    pubkey \<Rightarrow> bytes \<Rightarrow> string \<Rightarrow> pubkey \<Rightarrow> pubkey \<Rightarrow> pubkey \<Rightarrow> rat
    \<Rightarrow> string \<Rightarrow> string \<Rightarrow> string \<Rightarrow> ix_request js" where
  "buildRegisterYieldStrategyIx publicKey search programId authority strategyId venue strategyProgram underlyingMint receiptMint
      maxAllocationBps riskTier name_text metadataUri =
     with_pda (treasuryGlobalPda search programId) (\<lambda>global.
     with_pda (treasuryYieldStrategyPda search programId strategyId) (\<lambda>strategy.
     Inr \<lparr>rq_method = ''registerYieldStrategy'', rq_args = [BytesArg strategyId, yieldVenueArg venue,
         KeyArg strategyProgram, KeyArg underlyingMint, KeyArg receiptMint, NumberArg maxAllocationBps, yieldRiskTierArg riskTier,
         TextArg name_text, TextArg metadataUri],
       rq_accounts = [(''global'', Some global), (''strategy'', Some strategy), (''authority'', Some authority),
         (''systemProgram'', Some (publicKey SystemProgram_programId))],
       rq_remaining = []\<rparr>))"

definition buildSetYieldStrategyStatusIx :: "pda_search \<Rightarrow> pubkey \<Rightarrow> pubkey \<Rightarrow> bytes \<Rightarrow>
    string \<Rightarrow> ix_request js" where
  "buildSetYieldStrategyStatusIx search programId authority strategyId status =
     with_pda (treasuryGlobalPda search programId) (\<lambda>global.
     with_pda (treasuryYieldStrategyPda search programId strategyId) (\<lambda>strategy.
     Inr \<lparr>rq_method = ''setYieldStrategyStatus'', rq_args = [yieldStrategyStatusArg status],
       rq_accounts = [(''global'', Some global), (''strategy'', Some strategy), (''authority'', Some authority)],
       rq_remaining = []\<rparr>))"

definition buildSetTreasuryYieldConfigIx :: "(string \<Rightarrow> pubkey) \<Rightarrow> pda_search \<Rightarrow> pubkey \<Rightarrow>
    pubkey \<Rightarrow> bytes \<Rightarrow> bytes \<Rightarrow> rat \<Rightarrow> bool option \<Rightarrow> ix_request js" where
  "buildSetTreasuryYieldConfigIx publicKey search programId operator_key agentDid strategyId allocationBps paused =
     with_pda (treasuryGlobalPda search programId) (\<lambda>global.
     with_pda (treasuryPda search programId agentDid) (\<lambda>treasury.
     with_pda (treasuryYieldStrategyPda search programId strategyId) (\<lambda>strategy.
     with_pda (treasuryYieldConfigPda search programId agentDid) (\<lambda>yieldConfig.
     Inr \<lparr>rq_method = ''setTreasuryYieldConfig'', rq_args = [BytesArg agentDid, BytesArg strategyId,
         NumberArg allocationBps, BoolArg (case paused of None \<Rightarrow> False | Some p \<Rightarrow> p)],
       rq_accounts = [(''global'', Some global), (''treasury'', Some treasury), (''strategy'', Some strategy),
         (''yieldConfig'', Some yieldConfig), (''operator'', Some operator_key),
         (''systemProgram'', Some (publicKey SystemProgram_programId))],
       rq_remaining = []\<rparr>))))"

definition buildRequestTreasuryYieldUnwindIx :: "pda_search \<Rightarrow> pubkey \<Rightarrow> pubkey \<Rightarrow> bytes \<Rightarrow>
    ix_request js" where
  "buildRequestTreasuryYieldUnwindIx search programId operator_key agentDid =
     with_pda (treasuryGlobalPda search programId) (\<lambda>global.
     with_pda (treasuryPda search programId agentDid) (\<lambda>treasury.
     with_pda (treasuryYieldConfigPda search programId agentDid) (\<lambda>yieldConfig.
     Inr \<lparr>rq_method = ''requestTreasuryYieldUnwind'', rq_args = [],
       rq_accounts = [(''global'', Some global), (''treasury'', Some treasury), (''yieldConfig'', Some yieldConfig),
         (''operator'', Some operator_key)],
       rq_remaining = []\<rparr>)))"

definition buildRecordTreasuryYieldAccountingIx :: "pda_search \<Rightarrow> pubkey \<Rightarrow> pubkey \<Rightarrow> bytes
    \<Rightarrow> int \<Rightarrow> int \<Rightarrow> int \<Rightarrow> int \<Rightarrow> ix_request js" where
  "buildRecordTreasuryYieldAccountingIx search programId authority agentDid idleAmount deployedAmount realizedYieldAmount accountingSlot =
     with_pda (treasuryGlobalPda search programId) (\<lambda>global.
     with_pda (treasuryYieldConfigPda search programId agentDid) (\<lambda>yieldConfig.
     Inr \<lparr>rq_method = ''recordTreasuryYieldAccounting'', rq_args = [BnArg idleAmount, BnArg deployedAmount,
         BnArg realizedYieldAmount, BnArg accountingSlot],
       rq_accounts = [(''global'', Some global), (''yieldConfig'', Some yieldConfig), (''authority'', Some authority)],
       rq_remaining = []\<rparr>))"

definition buildDepositToYieldStrategyIx :: "(string \<Rightarrow> pubkey) \<Rightarrow> pda_search \<Rightarrow> pubkey \<Rightarrow>
    bytes \<Rightarrow> bytes \<Rightarrow> pubkey \<Rightarrow> pubkey \<Rightarrow> pubkey \<Rightarrow> bytes \<Rightarrow>
    (account_meta list) option \<Rightarrow> pubkey option \<Rightarrow> pubkey option \<Rightarrow> pubkey \<Rightarrow> int
    \<Rightarrow> pubkey option \<Rightarrow> ix_request js" where
  "buildDepositToYieldStrategyIx publicKey search programId agentDid strategyId mint receiptMint kaminoProgram routeData routeAccounts
      allowedTargets tokenProgramId operator_key amount priceFeed =
     and_then (assertYieldMovementInput agentDid strategyId routeData) (\<lambda>_.
     and_then (if amount \<le> 0 then Inl ''amount must be greater than zero'' else Inr ()) (\<lambda>_.
     and_then (yieldMovementPdas search programId agentDid strategyId mint) (\<lambda>pdas.
     Inr \<lparr>rq_method = ''depositToYieldStrategy'', rq_args = [BnArg amount, BufferArg routeData],
       rq_accounts = [(''global'', Some (yp_global pdas)), (''treasury'', Some (yp_treasury pdas)),
         (''allowedMints'', Some (yp_allowedMints pdas)), (''allowedTargets'', allowedTargets),
         (''strategy'', Some (yp_strategy pdas)), (''yieldConfig'', Some (yp_yieldConfig pdas)),
         (''position'', Some (yp_position pdas)), (''mint'', Some mint), (''receiptMint'', Some receiptMint),
         (''vault'', Some (yp_vault pdas)), (''receiptVault'', Some (yp_receiptVault pdas)),
         (''kaminoProgram'', Some kaminoProgram), (''priceFeed'', priceFeed), (''guard'', Some (yp_guard pdas)),
         (''operator'', Some operator_key), (''tokenProgram'', Some (token_program publicKey tokenProgramId)),
         (''systemProgram'', Some (publicKey SystemProgram_programId)), (''rent'', Some (publicKey SYSVAR_RENT))],
       rq_remaining = default_list routeAccounts\<rparr>)))"

definition buildWithdrawFromYieldStrategyIx :: "(string \<Rightarrow> pubkey) \<Rightarrow> pda_search \<Rightarrow> pubkey \<Rightarrow>
    bytes \<Rightarrow> bytes \<Rightarrow> pubkey \<Rightarrow> pubkey \<Rightarrow> pubkey \<Rightarrow> bytes \<Rightarrow>
    (account_meta list) option \<Rightarrow> pubkey option \<Rightarrow> pubkey option \<Rightarrow> pubkey \<Rightarrow> int
    \<Rightarrow> ix_request js" where
  "buildWithdrawFromYieldStrategyIx publicKey search programId agentDid strategyId mint receiptMint kaminoProgram routeData routeAccounts
      allowedTargets tokenProgramId operator_key receiptAmount =
     and_then (assertYieldMovementInput agentDid strategyId routeData) (\<lambda>_.
     and_then (if receiptAmount \<le> 0 then Inl ''receiptAmount must be greater than zero'' else Inr ()) (\<lambda>_.
     and_then (yieldMovementPdas search programId agentDid strategyId mint) (\<lambda>pdas.
     Inr \<lparr>rq_method = ''withdrawFromYieldStrategy'', rq_args = [BnArg receiptAmount, BufferArg routeData],
       rq_accounts = [(''global'', Some (yp_global pdas)), (''treasury'', Some (yp_treasury pdas)),
         (''allowedTargets'', allowedTargets), (''strategy'', Some (yp_strategy pdas)),
         (''yieldConfig'', Some (yp_yieldConfig pdas)), (''position'', Some (yp_position pdas)), (''mint'', Some mint),
         (''receiptMint'', Some receiptMint), (''vault'', Some (yp_vault pdas)), (''receiptVault'', Some (yp_receiptVault pdas)),
         (''kaminoProgram'', Some kaminoProgram), (''guard'', Some (yp_guard pdas)), (''operator'', Some operator_key),
         (''tokenProgram'', Some (token_program publicKey tokenProgramId))],
       rq_remaining = default_list routeAccounts\<rparr>)))"

definition buildEmergencyUnwindYieldStrategyIx :: "(string \<Rightarrow> pubkey) \<Rightarrow> pda_search \<Rightarrow> pubkey
    \<Rightarrow> bytes \<Rightarrow> bytes \<Rightarrow> pubkey \<Rightarrow> pubkey \<Rightarrow> pubkey \<Rightarrow> bytes
    \<Rightarrow> (account_meta list) option \<Rightarrow> pubkey option \<Rightarrow> pubkey option \<Rightarrow> pubkey \<Rightarrow>
    ix_request js" where
  "buildEmergencyUnwindYieldStrategyIx publicKey search programId agentDid strategyId mint receiptMint kaminoProgram routeData
      routeAccounts allowedTargets tokenProgramId authority =
     and_then (assertYieldMovementInput agentDid strategyId routeData) (\<lambda>_.
     and_then (yieldMovementPdas search programId agentDid strategyId mint) (\<lambda>pdas.
     Inr \<lparr>rq_method = ''emergencyUnwindYieldStrategy'', rq_args = [BufferArg routeData],
       rq_accounts = [(''global'', Some (yp_global pdas)), (''treasury'', Some (yp_treasury pdas)),
         (''allowedTargets'', allowedTargets), (''strategy'', Some (yp_strategy pdas)),
         (''yieldConfig'', Some (yp_yieldConfig pdas)), (''position'', Some (yp_position pdas)), (''mint'', Some mint),
         (''receiptMint'', Some receiptMint), (''vault'', Some (yp_vault pdas)), (''receiptVault'', Some (yp_receiptVault pdas)),
         (''kaminoProgram'', Some kaminoProgram), (''guard'', Some (yp_guard pdas)), (''authority'', Some authority),
         (''tokenProgram'', Some (token_program publicKey tokenProgramId))],
       rq_remaining = default_list routeAccounts\<rparr>))"

subsection \<open>Task market\<close>

text \<open>A task kind in either of the two input forms: fields beside \<open>type\<close>, or under the name of the kind.\<close>

datatype task_kind =
    SwapExact pubkey pubkey int int
  | Transfer pubkey pubkey int
  | DataFetch bytes bytes
  | Compute bytes bytes
  | Generic rat bytes

datatype kind_input = Legacy task_kind | Structured task_kind

datatype tier = TierNone | TierBasic | TierVerified

datatype PersonhoodTierInput = TierName tier | TierObject tier

record CreateTaskPayloadInput =
  cp_kind :: kind_input
  cp_capabilityBit :: rat
  cp_criteria :: bytes
  cp_requiresPersonhood :: "PersonhoodTierInput option"

definition toByteArray :: "bytes \<Rightarrow> string \<Rightarrow> nat option \<Rightarrow> ix_arg js" where
  "toByteArray bs label expectedLength = (case expectedLength of
     Some n \<Rightarrow> if length bs \<noteq> n then Inl (label @ '' must be '' @ show_nat n @ '' bytes'') else Inr (BytesArg bs)
   | None \<Rightarrow> Inr (BytesArg bs))"

fun tier_name :: "tier \<Rightarrow> string" where
  "tier_name TierNone = ''none''"
| "tier_name TierBasic = ''basic''"
| "tier_name TierVerified = ''verified''"

definition normalizePersonhoodTier :: "PersonhoodTierInput option \<Rightarrow> ix_arg" where
  "normalizePersonhoodTier tier =
     (if tier = None \<or> tier = Some (TierName TierNone) \<or> tier = Some (TierObject TierNone) then VariantArg ''none'' []
      else if tier = Some (TierName TierBasic) \<or> tier = Some (TierObject TierBasic) then VariantArg ''basic'' []
      else VariantArg ''verified'' [])"

text \<open>The \<open>switch\<close> on \<open>kind.type\<close>; the chain of \<open>in\<close> tests after it is the same translation
    of the other form.\<close>

fun normalizeLegacyKind :: "task_kind \<Rightarrow> ix_arg js" where
  "normalizeLegacyKind (SwapExact inMint outMint amountIn minOut) =
     Inr (VariantArg ''swapExact'' [(''inMint'', KeyArg inMint), (''outMint'', KeyArg outMint),
       (''amountIn'', BnArg amountIn), (''minOut'', BnArg minOut)])"
| "normalizeLegacyKind (Transfer mint to_key amount) =
     Inr (VariantArg ''transfer'' [(''mint'', KeyArg mint), (''to'', KeyArg to_key), (''amount'', BnArg amount)])"
| "normalizeLegacyKind (DataFetch urlHash expectedHash) =
     and_then (toByteArray urlHash ''payload.kind.urlHash'' (Some 32)) (\<lambda>u.
     and_then (toByteArray expectedHash ''payload.kind.expectedHash'' (Some 32)) (\<lambda>e.
     Inr (VariantArg ''dataFetch'' [(''urlHash'', u), (''expectedHash'', e)])))"
| "normalizeLegacyKind (Compute circuitId publicInputsHash) =
     and_then (toByteArray circuitId ''payload.kind.circuitId'' (Some 32)) (\<lambda>c.
     and_then (toByteArray publicInputsHash ''payload.kind.publicInputsHash'' (Some 32)) (\<lambda>p.
     Inr (VariantArg ''compute'' [(''circuitId'', c), (''publicInputsHash'', p)])))"
| "normalizeLegacyKind (Generic capabilityBit argsHash) =
     and_then (toByteArray argsHash ''payload.kind.argsHash'' (Some 32)) (\<lambda>a.
     Inr (VariantArg ''generic'' [(''capabilityBit'', NumberArg capabilityBit), (''argsHash'', a)]))"

definition normalizeStructuredKind :: "task_kind \<Rightarrow> ix_arg js" where
  "normalizeStructuredKind kind = (case kind of
     SwapExact inMint outMint amountIn minOut \<Rightarrow>
       Inr (VariantArg ''swapExact'' [(''inMint'', KeyArg inMint), (''outMint'', KeyArg outMint),
         (''amountIn'', BnArg amountIn), (''minOut'', BnArg minOut)])
   | Transfer mint to_key amount \<Rightarrow>
       Inr (VariantArg ''transfer'' [(''mint'', KeyArg mint), (''to'', KeyArg to_key), (''amount'', BnArg amount)])
   | DataFetch urlHash expectedHash \<Rightarrow>
       and_then (toByteArray urlHash ''payload.kind.urlHash'' (Some 32)) (\<lambda>u.
       and_then (toByteArray expectedHash ''payload.kind.expectedHash'' (Some 32)) (\<lambda>e.
       Inr (VariantArg ''dataFetch'' [(''urlHash'', u), (''expectedHash'', e)])))
   | Compute circuitId publicInputsHash \<Rightarrow>
       and_then (toByteArray circuitId ''payload.kind.circuitId'' (Some 32)) (\<lambda>c.
       and_then (toByteArray publicInputsHash ''payload.kind.publicInputsHash'' (Some 32)) (\<lambda>p.
       Inr (VariantArg ''compute'' [(''circuitId'', c), (''publicInputsHash'', p)])))
   | Generic capabilityBit argsHash \<Rightarrow>
       and_then (toByteArray argsHash ''payload.kind.argsHash'' (Some 32)) (\<lambda>a.
       Inr (VariantArg ''generic'' [(''capabilityBit'', NumberArg capabilityBit), (''argsHash'', a)])))"

fun normalizeTaskKind :: "kind_input \<Rightarrow> ix_arg js" where
  "normalizeTaskKind (Legacy kind) = normalizeLegacyKind kind"
| "normalizeTaskKind (Structured kind) = normalizeStructuredKind kind"

definition normalizeTaskPayload :: "CreateTaskPayloadInput \<Rightarrow> ix_arg js" where
  "normalizeTaskPayload input = and_then (normalizeTaskKind (cp_kind input)) (\<lambda>kind.
     Inr (StructArg [(''kind'', kind), (''capabilityBit'', NumberArg (cp_capabilityBit input)),
       (''criteria'', BufferArg (cp_criteria input)), (''requiresPersonhood'', normalizePersonhoodTier (cp_requiresPersonhood input))]))"


definition buildCreateTaskIx :: "(string \<Rightarrow> pubkey) \<Rightarrow> pda_search \<Rightarrow> pubkey \<Rightarrow> ProgramIdMap
    \<Rightarrow> pubkey \<Rightarrow> bytes \<Rightarrow> bytes \<Rightarrow> pubkey \<Rightarrow> bytes \<Rightarrow> pubkey
    \<Rightarrow> int \<Rightarrow> CreateTaskPayloadInput \<Rightarrow> bytes \<Rightarrow> int \<Rightarrow> rat \<Rightarrow>
    ix_request js" where
  "buildCreateTaskIx publicKey search programId ids client taskNonce agentDid agentOperator agentId paymentMint paymentAmount payload
      criteriaRoot deadline milestoneCount =
     with_pda (marketGlobalPda search programId) (\<lambda>global.
     with_pda (taskPda search programId client taskNonce) (\<lambda>task.
     with_pda (agentRegistryGlobalPda search (ids AgentRegistryId)) (\<lambda>registryGlobal.
     with_pda (agentAccountPda search (ids AgentRegistryId) agentOperator agentId) (\<lambda>agentAccount.
     and_then (normalizeTaskPayload payload) (\<lambda>taskPayload.
     Inr \<lparr>rq_method = ''createTask'', rq_args = [BytesArg taskNonce, BytesArg agentDid, KeyArg paymentMint,
         BnArg paymentAmount, taskPayload, BytesArg criteriaRoot, BnArg deadline, NumberArg milestoneCount],
       rq_accounts = [(''global'', Some global), (''task'', Some task), (''client'', Some client),
         (''agentRegistryProgram'', Some (ids AgentRegistryId)), (''registryGlobal'', Some registryGlobal),
         (''agentAccount'', Some agentAccount), (''systemProgram'', Some (publicKey SystemProgram_programId))],
       rq_remaining = []\<rparr>)))))"

definition buildFundTaskIx :: "(string \<Rightarrow> pubkey) \<Rightarrow> pda_search \<Rightarrow> pubkey \<Rightarrow> pubkey
    \<Rightarrow> pubkey \<Rightarrow> pubkey \<Rightarrow> pubkey \<Rightarrow> pubkey option \<Rightarrow> ix_request js" where
  "buildFundTaskIx publicKey search programId client task paymentMint clientTokenAccount tokenProgramId =
     with_pda (marketGlobalPda search programId) (\<lambda>global.
     with_pda (taskEscrowPda search programId task) (\<lambda>escrow.
     with_pda (guardPda search programId) (\<lambda>guard.
     Inr \<lparr>rq_method = ''fundTask'', rq_args = [],
       rq_accounts = [(''global'', Some global), (''task'', Some task), (''paymentMint'', Some paymentMint),
         (''escrow'', Some escrow), (''clientTokenAccount'', Some clientTokenAccount), (''hookAllowlist'', None),
         (''guard'', Some guard), (''client'', Some client), (''tokenProgram'', Some (token_program publicKey tokenProgramId)),
         (''systemProgram'', Some (publicKey SystemProgram_programId))],
       rq_remaining = []\<rparr>)))"

definition buildSubmitResultIx :: "pda_search \<Rightarrow> pubkey \<Rightarrow> ProgramIdMap \<Rightarrow> pubkey \<Rightarrow> pubkey
    \<Rightarrow> pubkey \<Rightarrow> bytes \<Rightarrow> bytes \<Rightarrow> ix_request js" where
  "buildSubmitResultIx search programId ids operator_key task agentAccount resultHash proofKey =
     with_pda (marketGlobalPda search programId) (\<lambda>global.
     with_pda (guardPda search programId) (\<lambda>guard.
     Inr \<lparr>rq_method = ''submitResult'', rq_args = [BytesArg resultHash, BytesArg proofKey],
       rq_accounts = [(''global'', Some global), (''task'', Some task), (''operator'', Some operator_key),
         (''agentRegistryProgram'', Some (ids AgentRegistryId)), (''agentAccount'', Some agentAccount), (''guard'', Some guard)],
       rq_remaining = []\<rparr>))"

definition buildVerifyTaskIx :: "(string \<Rightarrow> pubkey) \<Rightarrow> pda_search \<Rightarrow> pubkey \<Rightarrow> ProgramIdMap
    \<Rightarrow> pubkey \<Rightarrow> pubkey \<Rightarrow> pubkey \<Rightarrow> bytes \<Rightarrow> bytes \<Rightarrow> bytes
    \<Rightarrow> bytes \<Rightarrow> ix_request js" where
  "buildVerifyTaskIx publicKey search programId ids cranker task verifierKey vkId proofA proofB proofC =
     with_pda (marketGlobalPda search programId) (\<lambda>global.
     with_pda (verifierConfigPda search (ids ProofVerifierId)) (\<lambda>verConfig.
     with_pda (verifierKeyPda search (ids ProofVerifierId) vkId) (\<lambda>vk.
     with_pda (verifierModePda search (ids ProofVerifierId)) (\<lambda>mode.
     with_pda (reentrancyGuardPda search programId) (\<lambda>guard.
     with_pda (reentrancyGuardPda search (ids ProofVerifierId)) (\<lambda>verifierSelfGuard.
     with_pda (proofVerifierAllowedCallersPda search (ids ProofVerifierId)) (\<lambda>verifierAllowedCallers.
     Inr \<lparr>rq_method = ''verifyTask'', rq_args = [BytesArg proofA, BytesArg proofB, BytesArg proofC],
       rq_accounts = [(''global'', Some global), (''task'', Some task), (''proofVerifierProgram'', Some (ids ProofVerifierId)),
         (''verifierConfig'', Some verConfig), (''verifierKey'', Some vk), (''verifierMode'', Some mode), (''guard'', Some guard),
         (''verifierSelfGuard'', Some verifierSelfGuard), (''verifierAllowedCallers'', Some verifierAllowedCallers),
         (''instructions'', Some (publicKey SYSVAR_INSTRUCTIONS_PUBKEY)), (''cranker'', Some cranker)],
       rq_remaining = []\<rparr>)))))))"

definition buildReleaseIx :: "(string \<Rightarrow> pubkey) \<Rightarrow> pda_search \<Rightarrow> pubkey \<Rightarrow> ProgramIdMap
    \<Rightarrow> pubkey \<Rightarrow> pubkey \<Rightarrow> pubkey \<Rightarrow> pubkey \<Rightarrow> pubkey \<Rightarrow> pubkey
    \<Rightarrow> pubkey \<Rightarrow> pubkey \<Rightarrow> pubkey option \<Rightarrow> pubkey option \<Rightarrow> ix_request js" where
  "buildReleaseIx publicKey search programId ids cranker task paymentMint agentTokenAccount feeCollectorTokenAccount
      solrepPoolTokenAccount agentAccount client hookAllowlist tokenProgramId =
     with_pda (marketGlobalPda search programId) (\<lambda>global.
     with_pda (taskEscrowPda search programId task) (\<lambda>escrow.
     with_pda (agentRegistryGlobalPda search (ids AgentRegistryId)) (\<lambda>registryGlobal.
     with_pda (reentrancyGuardPda search programId) (\<lambda>guard.
     Inr \<lparr>rq_method = ''release'', rq_args = [],
       rq_accounts = [(''global'', Some global), (''task'', Some task), (''paymentMint'', Some paymentMint),
         (''escrow'', Some escrow), (''agentTokenAccount'', Some agentTokenAccount),
         (''feeCollectorTokenAccount'', Some feeCollectorTokenAccount), (''solrepPoolTokenAccount'', Some solrepPoolTokenAccount),
         (''agentRegistryProgram'', Some (ids AgentRegistryId)), (''registryGlobal'', Some registryGlobal),
         (''agentAccount'', Some agentAccount), (''selfProgram'', Some (ids TaskMarketId)), (''hookAllowlist'', hookAllowlist),
         (''guard'', Some guard), (''cranker'', Some cranker), (''tokenProgram'', Some (token_program publicKey tokenProgramId))],
       rq_remaining = []\<rparr>))))"

definition buildExpireIx :: "(string \<Rightarrow> pubkey) \<Rightarrow> pda_search \<Rightarrow> pubkey \<Rightarrow> ProgramIdMap
    \<Rightarrow> pubkey \<Rightarrow> pubkey \<Rightarrow> pubkey \<Rightarrow> pubkey \<Rightarrow> pubkey \<Rightarrow> pubkey
    \<Rightarrow> pubkey option \<Rightarrow> ix_request js" where
  "buildExpireIx publicKey search programId ids cranker task paymentMint clientTokenAccount client agentAccount tokenProgramId =
     with_pda (marketGlobalPda search programId) (\<lambda>global.
     with_pda (taskEscrowPda search programId task) (\<lambda>escrow.
     with_pda (agentRegistryGlobalPda search (ids AgentRegistryId)) (\<lambda>registryGlobal.
     Inr \<lparr>rq_method = ''expire'', rq_args = [],
       rq_accounts = [(''global'', Some global), (''task'', Some task), (''paymentMint'', Some paymentMint),
         (''escrow'', Some escrow), (''clientTokenAccount'', Some clientTokenAccount), (''client'', Some client),
         (''agentRegistryProgram'', Some (ids AgentRegistryId)), (''registryGlobal'', Some registryGlobal),
         (''agentAccount'', Some agentAccount), (''selfProgram'', Some (ids TaskMarketId)), (''cranker'', Some cranker),
         (''tokenProgram'', Some (token_program publicKey tokenProgramId))],
       rq_remaining = []\<rparr>)))"

definition buildRaiseDisputeIx :: "pubkey \<Rightarrow> pubkey \<Rightarrow> ix_request js" where
  "buildRaiseDisputeIx client task =
     Inr \<lparr>rq_method = ''raiseDispute'', rq_args = [],
       rq_accounts = [(''task'', Some task), (''client'', Some client)],
       rq_remaining = []\<rparr>"

definition buildDisputedTimeoutRefundIx :: "(string \<Rightarrow> pubkey) \<Rightarrow> pda_search \<Rightarrow> pubkey \<Rightarrow>
    pubkey \<Rightarrow> pubkey \<Rightarrow> pubkey \<Rightarrow> pubkey \<Rightarrow> pubkey \<Rightarrow> pubkey option \<Rightarrow>
    ix_request js" where
  "buildDisputedTimeoutRefundIx publicKey search programId cranker client task paymentMint clientTokenAccount tokenProgramId =
     with_pda (marketGlobalPda search programId) (\<lambda>global.
     with_pda (taskEscrowPda search programId task) (\<lambda>escrow.
     Inr \<lparr>rq_method = ''disputedTimeoutRefund'', rq_args = [],
       rq_accounts = [(''global'', Some global), (''task'', Some task), (''paymentMint'', Some paymentMint),
         (''escrow'', Some escrow), (''clientTokenAccount'', Some clientTokenAccount), (''client'', Some client),
         (''cranker'', Some cranker), (''tokenProgram'', Some (token_program publicKey tokenProgramId))],
       rq_remaining = []\<rparr>))"

definition buildOpenBiddingIx :: "(string \<Rightarrow> pubkey) \<Rightarrow> pda_search \<Rightarrow> pubkey \<Rightarrow> pubkey
    \<Rightarrow> pubkey \<Rightarrow> bytes \<Rightarrow> pubkey \<Rightarrow> int \<Rightarrow> int \<Rightarrow> rat \<Rightarrow>
    pubkey option \<Rightarrow> ix_request js" where
  "buildOpenBiddingIx publicKey search programId client task taskId paymentMint commitSecs revealSecs bondBps tokenProgramId =
     with_pda (marketGlobalPda search programId) (\<lambda>global.
     with_pda (bidBookPda search programId taskId) (\<lambda>bidBook.
     with_pda (bondEscrowPda search programId taskId) (\<lambda>bondEscrow.
     Inr \<lparr>rq_method = ''openBidding'', rq_args = [BnArg commitSecs, BnArg revealSecs, NumberArg bondBps],
       rq_accounts = [(''global'', Some global), (''task'', Some task), (''bidBook'', Some bidBook),
         (''paymentMint'', Some paymentMint), (''bondEscrow'', Some bondEscrow), (''client'', Some client),
         (''tokenProgram'', Some (token_program publicKey tokenProgramId)),
         (''systemProgram'', Some (publicKey SystemProgram_programId))],
       rq_remaining = []\<rparr>)))"

definition buildCommitBidIx :: "(string \<Rightarrow> pubkey) \<Rightarrow> pda_search \<Rightarrow> pubkey \<Rightarrow> ProgramIdMap
    \<Rightarrow> pubkey \<Rightarrow> pubkey \<Rightarrow> bytes \<Rightarrow> pubkey \<Rightarrow> pubkey \<Rightarrow> pubkey
    \<Rightarrow> bytes \<Rightarrow> bytes \<Rightarrow> bytes \<Rightarrow> pubkey option \<Rightarrow> ix_request js" where
  "buildCommitBidIx publicKey search programId ids bidder task taskId paymentMint bidderTokenAccount agentOperator agentId agentDid
      commitHash tokenProgramId =
     with_pda (marketGlobalPda search programId) (\<lambda>global.
     with_pda (agentRegistryGlobalPda search (ids AgentRegistryId)) (\<lambda>registryGlobal.
     with_pda (bidBookPda search programId taskId) (\<lambda>bidBook.
     with_pda (bidPda search programId taskId bidder) (\<lambda>bid.
     with_pda (bondEscrowPda search programId taskId) (\<lambda>bondEscrow.
     with_pda (agentAccountPda search (ids AgentRegistryId) agentOperator agentId) (\<lambda>agentAccount.
     Inr \<lparr>rq_method = ''commitBid'', rq_args = [BytesArg commitHash, BytesArg agentDid],
       rq_accounts = [(''global'', Some global), (''task'', Some task), (''bidBook'', Some bidBook), (''bid'', Some bid),
         (''paymentMint'', Some paymentMint), (''bondEscrow'', Some bondEscrow),
         (''bidderTokenAccount'', Some bidderTokenAccount), (''bidder'', Some bidder),
         (''agentRegistryProgram'', Some (ids AgentRegistryId)), (''registryGlobal'', Some registryGlobal),
         (''agentAccount'', Some agentAccount), (''personhoodAttestation'', None), (''capabilityTag'', None),
         (''hookAllowlist'', None), (''tokenProgram'', Some (token_program publicKey tokenProgramId)),
         (''systemProgram'', Some (publicKey SystemProgram_programId))],
       rq_remaining = []\<rparr>))))))"

definition buildRevealBidIx :: "pda_search \<Rightarrow> pubkey \<Rightarrow> pubkey \<Rightarrow> pubkey \<Rightarrow> bytes
    \<Rightarrow> int \<Rightarrow> bytes \<Rightarrow> ix_request js" where
  "buildRevealBidIx search programId bidder task taskId amount nonce =
     with_pda (bidBookPda search programId taskId) (\<lambda>bidBook.
     with_pda (bidPda search programId taskId bidder) (\<lambda>bid.
     Inr \<lparr>rq_method = ''revealBid'', rq_args = [BnArg amount, BytesArg nonce],
       rq_accounts = [(''task'', Some task), (''bidBook'', Some bidBook), (''bid'', Some bid), (''bidder'', Some bidder)],
       rq_remaining = []\<rparr>))"

definition buildCloseBiddingIx :: "pda_search \<Rightarrow> pubkey \<Rightarrow> pubkey \<Rightarrow> pubkey \<Rightarrow> bytes
    \<Rightarrow> ix_request js" where
  "buildCloseBiddingIx search programId cranker task taskId =
     with_pda (marketGlobalPda search programId) (\<lambda>global.
     with_pda (bidBookPda search programId taskId) (\<lambda>bidBook.
     with_pda (reentrancyGuardPda search programId) (\<lambda>guard.
     Inr \<lparr>rq_method = ''closeBidding'', rq_args = [],
       rq_accounts = [(''global'', Some global), (''task'', Some task), (''bidBook'', Some bidBook), (''guard'', Some guard),
         (''cranker'', Some cranker)],
       rq_remaining = []\<rparr>)))"

definition buildClaimBondIx :: "(string \<Rightarrow> pubkey) \<Rightarrow> pda_search \<Rightarrow> pubkey \<Rightarrow> pubkey
    \<Rightarrow> pubkey \<Rightarrow> bytes \<Rightarrow> pubkey \<Rightarrow> pubkey \<Rightarrow> pubkey \<Rightarrow> pubkey option
    \<Rightarrow> ix_request js" where
  "buildClaimBondIx publicKey search programId bidder task taskId paymentMint bidderTokenAccount feeCollectorTokenAccount tokenProgramId =
     with_pda (marketGlobalPda search programId) (\<lambda>global.
     with_pda (bidBookPda search programId taskId) (\<lambda>bidBook.
     with_pda (bidPda search programId taskId bidder) (\<lambda>bid.
     with_pda (bondEscrowPda search programId taskId) (\<lambda>bondEscrow.
     Inr \<lparr>rq_method = ''claimBond'', rq_args = [],
       rq_accounts = [(''global'', Some global), (''task'', Some task), (''bidBook'', Some bidBook), (''bid'', Some bid),
         (''paymentMint'', Some paymentMint), (''bondEscrow'', Some bondEscrow),
         (''bidderTokenAccount'', Some bidderTokenAccount), (''feeCollectorTokenAccount'', Some feeCollectorTokenAccount),
         (''bidder'', Some bidder), (''tokenProgram'', Some (token_program publicKey tokenProgramId))],
       rq_remaining = []\<rparr>))))"

definition buildCancelBiddingIx :: "(string \<Rightarrow> pubkey) \<Rightarrow> pda_search \<Rightarrow> pubkey \<Rightarrow> pubkey
    \<Rightarrow> pubkey \<Rightarrow> bytes \<Rightarrow> pubkey \<Rightarrow> pubkey option \<Rightarrow> ix_request js" where
  "buildCancelBiddingIx publicKey search programId client task taskId paymentMint tokenProgramId =
     with_pda (bidBookPda search programId taskId) (\<lambda>bidBook.
     with_pda (bondEscrowPda search programId taskId) (\<lambda>bondEscrow.
     Inr \<lparr>rq_method = ''cancelBidding'', rq_args = [],
       rq_accounts = [(''task'', Some task), (''bidBook'', Some bidBook), (''paymentMint'', Some paymentMint),
         (''bondEscrow'', Some bondEscrow), (''client'', Some client),
         (''tokenProgram'', Some (token_program publicKey tokenProgramId))],
       rq_remaining = []\<rparr>))"

definition buildCancelUnfundedTaskIx :: "pubkey \<Rightarrow> pubkey \<Rightarrow> ix_request js" where
  "buildCancelUnfundedTaskIx client task =
     Inr \<lparr>rq_method = ''cancelUnfundedTask'', rq_args = [],
       rq_accounts = [(''task'', Some task), (''client'', Some client)],
       rq_remaining = []\<rparr>"

subsection \<open>Proof verifier\<close>

definition buildRegisterVkIx :: "(string \<Rightarrow> pubkey) \<Rightarrow> pda_search \<Rightarrow> pubkey \<Rightarrow> pubkey
    \<Rightarrow> pubkey \<Rightarrow> bytes \<Rightarrow> bytes \<Rightarrow> bytes \<Rightarrow> bytes \<Rightarrow> bytes
    \<Rightarrow> bytes list \<Rightarrow> rat \<Rightarrow> bytes \<Rightarrow> bool \<Rightarrow> ix_request js" where
  "buildRegisterVkIx publicKey search programId authority payer vkId alphaG1 betaG2 gammaG2 deltaG2 ic numPublicInputs circuitLabel
      isProduction =
     with_pda (verifierConfigPda search programId) (\<lambda>config.
     with_pda (verifierKeyPda search programId vkId) (\<lambda>vk.
     Inr \<lparr>rq_method = ''registerVk'', rq_args = [BytesArg vkId, BytesArg alphaG1, BytesArg betaG2, BytesArg gammaG2,
         BytesArg deltaG2, ListArg (map BytesArg ic), NumberArg numPublicInputs, BytesArg circuitLabel, BoolArg isProduction],
       rq_accounts = [(''config'', Some config), (''vk'', Some vk), (''authority'', Some authority), (''payer'', Some payer),
         (''systemProgram'', Some (publicKey SystemProgram_programId))],
       rq_remaining = []\<rparr>))"

definition buildProposeVkActivationIx :: "pda_search \<Rightarrow> pubkey \<Rightarrow> pubkey \<Rightarrow> pubkey \<Rightarrow>
    ix_request js" where
  "buildProposeVkActivationIx search programId authority vk =
     with_pda (verifierConfigPda search programId) (\<lambda>config.
     with_pda (verifierModePda search programId) (\<lambda>mode.
     Inr \<lparr>rq_method = ''proposeVkActivation'', rq_args = [],
       rq_accounts = [(''config'', Some config), (''vk'', Some vk), (''mode'', Some mode), (''authority'', Some authority)],
       rq_remaining = []\<rparr>))"

definition buildExecuteVkActivationIx :: "pda_search \<Rightarrow> pubkey \<Rightarrow> pubkey \<Rightarrow> ix_request js" where
  "buildExecuteVkActivationIx search programId vk =
     with_pda (verifierConfigPda search programId) (\<lambda>config.
     Inr \<lparr>rq_method = ''executeVkActivation'', rq_args = [],
       rq_accounts = [(''config'', Some config), (''vk'', Some vk)],
       rq_remaining = []\<rparr>)"

definition buildVerifyProofIx :: "(string \<Rightarrow> pubkey) \<Rightarrow> pda_search \<Rightarrow> pubkey \<Rightarrow> pubkey
    \<Rightarrow> bytes \<Rightarrow> bytes \<Rightarrow> bytes \<Rightarrow> bytes list \<Rightarrow> pubkey \<Rightarrow> ix_request
    js" where
  "buildVerifyProofIx publicKey search programId vk proofA proofB proofC publicInputs callerGuard =
     with_pda (verifierConfigPda search programId) (\<lambda>config.
     with_pda (verifierModePda search programId) (\<lambda>mode.
     with_pda (proofVerifierGuardPda search programId) (\<lambda>selfGuard.
     with_pda (proofVerifierAllowedCallersPda search programId) (\<lambda>allowedCallers.
     Inr \<lparr>rq_method = ''verifyProof'', rq_args = [BytesArg proofA, BytesArg proofB, BytesArg proofC,
         ListArg (map BytesArg publicInputs)],
       rq_accounts = [(''config'', Some config), (''vk'', Some vk), (''mode'', Some mode), (''selfGuard'', Some selfGuard),
         (''allowedCallers'', Some allowedCallers), (''callerGuard'', Some callerGuard),
         (''instructions'', Some (publicKey SYSVAR_INSTRUCTIONS_PUBKEY))],
       rq_remaining = []\<rparr>))))"

subsection \<open>Dispute arbitration\<close>

definition buildDisputeRaiseIx :: "(string \<Rightarrow> pubkey) \<Rightarrow> pda_search \<Rightarrow> pubkey \<Rightarrow> pubkey
    \<Rightarrow> pubkey \<Rightarrow> int \<Rightarrow> pubkey \<Rightarrow> pubkey \<Rightarrow> int \<Rightarrow> pubkey \<Rightarrow>
    ix_request js" where
  "buildDisputeRaiseIx publicKey search programId disputeCase payer taskId client agentOperator escrowAmount paymentMint =
     with_pda (disputeConfigPda search programId) (\<lambda>config.
     with_pda (disputePoolPda search programId) (\<lambda>pool.
     Inr \<lparr>rq_method = ''raiseDispute'', rq_args = [BnArg taskId, KeyArg client, KeyArg agentOperator, BnArg escrowAmount,
         KeyArg paymentMint],
       rq_accounts = [(''config'', Some config), (''disputeCase'', Some disputeCase), (''pool'', Some pool),
         (''payer'', Some payer), (''systemProgram'', Some (publicKey SystemProgram_programId))],
       rq_remaining = []\<rparr>))"

definition buildCommitVoteIx :: "(string \<Rightarrow> pubkey) \<Rightarrow> pda_search \<Rightarrow> pubkey \<Rightarrow> pubkey
    \<Rightarrow> pubkey \<Rightarrow> pubkey \<Rightarrow> int \<Rightarrow> bytes \<Rightarrow> ix_request js" where
  "buildCommitVoteIx publicKey search programId disputeCase arbitratorSigner operator_key caseId commitHash =
     with_pda (disputeConfigPda search programId) (\<lambda>config.
     with_pda (arbitratorPda search programId arbitratorSigner) (\<lambda>arbitrator.
     with_pda (disputeVotePda search programId caseId arbitrator) (\<lambda>voteRecord.
     Inr \<lparr>rq_method = ''commitVote'', rq_args = [BytesArg commitHash],
       rq_accounts = [(''config'', Some config), (''disputeCase'', Some disputeCase), (''arbitrator'', Some arbitrator),
         (''voteRecord'', Some voteRecord), (''operator'', Some operator_key), (''arbitratorSigner'', Some arbitratorSigner),
         (''systemProgram'', Some (publicKey SystemProgram_programId))],
       rq_remaining = []\<rparr>)))"

definition buildRevealVoteIx :: "pda_search \<Rightarrow> pubkey \<Rightarrow> pubkey \<Rightarrow> pubkey \<Rightarrow> int
    \<Rightarrow> string \<Rightarrow> bytes \<Rightarrow> ix_request js" where
  "buildRevealVoteIx search programId disputeCase arbitratorSigner caseId verdict salt =
     with_pda (disputeConfigPda search programId) (\<lambda>config.
     with_pda (arbitratorPda search programId arbitratorSigner) (\<lambda>arbitrator.
     with_pda (disputeVotePda search programId caseId arbitrator) (\<lambda>voteRecord.
     Inr \<lparr>rq_method = ''revealVote'', rq_args = [VariantArg verdict [], BytesArg salt],
       rq_accounts = [(''config'', Some config), (''disputeCase'', Some disputeCase), (''arbitrator'', Some arbitrator),
         (''voteRecord'', Some voteRecord), (''arbitratorSigner'', Some arbitratorSigner)],
       rq_remaining = []\<rparr>)))"

definition buildResolveDisputeIx :: "pda_search \<Rightarrow> pubkey \<Rightarrow> pubkey \<Rightarrow> pubkey \<Rightarrow> ix_request
    js" where
  "buildResolveDisputeIx search programId disputeCase cranker =
     with_pda (disputeConfigPda search programId) (\<lambda>config.
     Inr \<lparr>rq_method = ''resolveDispute'', rq_args = [],
       rq_accounts = [(''config'', Some config), (''disputeCase'', Some disputeCase), (''cranker'', Some cranker)],
       rq_remaining = []\<rparr>)"

definition buildEscalateAppealIx :: "(string \<Rightarrow> pubkey) \<Rightarrow> pda_search \<Rightarrow> pubkey \<Rightarrow> pubkey
    \<Rightarrow> pubkey \<Rightarrow> int \<Rightarrow> ix_request js" where
  "buildEscalateAppealIx publicKey search programId disputeCase appellant caseId =
     with_pda (disputeConfigPda search programId) (\<lambda>config.
     with_pda (appealPda search programId caseId) (\<lambda>appealRecord.
     Inr \<lparr>rq_method = ''escalateAppeal'', rq_args = [],
       rq_accounts = [(''config'', Some config), (''disputeCase'', Some disputeCase), (''appealRecord'', Some appealRecord),
         (''appellant'', Some appellant), (''systemProgram'', Some (publicKey SystemProgram_programId))],
       rq_remaining = []\<rparr>))"

definition buildRegisterArbitratorIx :: "(string \<Rightarrow> pubkey) \<Rightarrow> pda_search \<Rightarrow> pubkey \<Rightarrow> pubkey
    \<Rightarrow> pubkey \<Rightarrow> int \<Rightarrow> int \<Rightarrow> ix_request js" where
  "buildRegisterArbitratorIx publicKey search programId operator_key stakeAccount effectiveStake lockEnd =
     with_pda (disputeConfigPda search programId) (\<lambda>config.
     with_pda (arbitratorPda search programId operator_key) (\<lambda>arbitrator.
     Inr \<lparr>rq_method = ''registerArbitrator'', rq_args = [BnArg effectiveStake, BnArg lockEnd],
       rq_accounts = [(''config'', Some config), (''arbitrator'', Some arbitrator), (''stakeAccount'', Some stakeAccount),
         (''operator'', Some operator_key), (''systemProgram'', Some (publicKey SystemProgram_programId))],
       rq_remaining = []\<rparr>))"

definition buildSlashArbitratorIx :: "(string \<Rightarrow> pubkey) \<Rightarrow> pda_search \<Rightarrow> pubkey \<Rightarrow> pubkey
    \<Rightarrow> pubkey \<Rightarrow> pubkey \<Rightarrow> rat \<Rightarrow> ix_request js" where
  "buildSlashArbitratorIx publicKey search programId disputeCase arbitratorOperator proposer reasonCode =
     with_pda (disputeConfigPda search programId) (\<lambda>config.
     with_pda (arbitratorPda search programId arbitratorOperator) (\<lambda>arbitrator.
     with_pda (pendingSlashPda search programId arbitratorOperator) (\<lambda>pendingSlash.
     Inr \<lparr>rq_method = ''slashArbitrator'', rq_args = [NumberArg reasonCode],
       rq_accounts = [(''config'', Some config), (''disputeCase'', Some disputeCase), (''arbitrator'', Some arbitrator),
         (''pendingSlash'', Some pendingSlash), (''authority'', Some proposer),
         (''systemProgram'', Some (publicKey SystemProgram_programId))],
       rq_remaining = []\<rparr>)))"

definition buildTallyRoundIx :: "pubkey \<Rightarrow> pubkey \<Rightarrow> ix_request js" where
  "buildTallyRoundIx disputeCase cranker =
     Inr \<lparr>rq_method = ''tallyRound'', rq_args = [],
       rq_accounts = [(''disputeCase'', Some disputeCase), (''cranker'', Some cranker)],
       rq_remaining = []\<rparr>"

subsection \<open>Governance\<close>

definition buildProposeIx :: "(string \<Rightarrow> pubkey) \<Rightarrow> pda_search \<Rightarrow> pubkey \<Rightarrow> pubkey
    \<Rightarrow> pubkey \<Rightarrow> string \<Rightarrow> pubkey \<Rightarrow> bytes \<Rightarrow> bytes \<Rightarrow> int
    \<Rightarrow> int \<Rightarrow> bytes \<Rightarrow> ix_request js" where
  "buildProposeIx publicKey search programId proposer proposal category targetProgram ixData metadataUri totalEligibleWeight snapshotSlot
      snapshotRoot =
     with_pda (govConfigPda search programId) (\<lambda>config.
     with_pda (programRegistryPda search programId) (\<lambda>registry.
     Inr \<lparr>rq_method = ''propose'', rq_args = [VariantArg category [], KeyArg targetProgram, BufferArg ixData,
         BufferArg metadataUri, StructArg [(''totalEligibleWeight'', BnArg totalEligibleWeight),
         (''snapshotSlot'', BnArg snapshotSlot), (''snapshotRoot'', BytesArg snapshotRoot)]],
       rq_accounts = [(''config'', Some config), (''registry'', Some registry), (''proposal'', Some proposal),
         (''proposer'', Some proposer), (''systemProgram'', Some (publicKey SystemProgram_programId))],
       rq_remaining = []\<rparr>))"

definition buildVoteIx :: "(string \<Rightarrow> pubkey) \<Rightarrow> pda_search \<Rightarrow> pubkey \<Rightarrow> pubkey \<Rightarrow>
    pubkey \<Rightarrow> string \<Rightarrow> int \<Rightarrow> bytes list \<Rightarrow> ix_request js" where
  "buildVoteIx publicKey search programId proposal voter choice weight merkleProof =
     with_pda (govConfigPda search programId) (\<lambda>config.
     with_pda (govVoteRecordPda search programId proposal voter) (\<lambda>voteRecord.
     Inr \<lparr>rq_method = ''vote'', rq_args = [VariantArg choice [], BnArg weight, ListArg (map BytesArg merkleProof)],
       rq_accounts = [(''config'', Some config), (''proposal'', Some proposal), (''voteRecord'', Some voteRecord),
         (''voter'', Some voter), (''systemProgram'', Some (publicKey SystemProgram_programId))],
       rq_remaining = []\<rparr>))"

definition buildFinalizeVoteIx :: "pda_search \<Rightarrow> pubkey \<Rightarrow> pubkey \<Rightarrow> pubkey \<Rightarrow> ix_request
    js" where
  "buildFinalizeVoteIx search programId proposal cranker =
     with_pda (govConfigPda search programId) (\<lambda>config.
     with_pda (programRegistryPda search programId) (\<lambda>registry.
     Inr \<lparr>rq_method = ''finalizeVote'', rq_args = [],
       rq_accounts = [(''config'', Some config), (''registry'', Some registry), (''proposal'', Some proposal),
         (''cranker'', Some cranker)],
       rq_remaining = []\<rparr>))"

definition buildExecuteProposalIx :: "(string \<Rightarrow> pubkey) \<Rightarrow> pda_search \<Rightarrow> pubkey \<Rightarrow> pubkey
    \<Rightarrow> pubkey \<Rightarrow> ix_request js" where
  "buildExecuteProposalIx publicKey search programId proposal executor =
     with_pda (govConfigPda search programId) (\<lambda>config.
     with_pda (programRegistryPda search programId) (\<lambda>registry.
     with_pda (executionRecordPda search programId proposal) (\<lambda>executionRecord.
     Inr \<lparr>rq_method = ''executeProposal'', rq_args = [],
       rq_accounts = [(''config'', Some config), (''registry'', Some registry), (''proposal'', Some proposal),
         (''executionRecord'', Some executionRecord), (''executor'', Some executor),
         (''systemProgram'', Some (publicKey SystemProgram_programId))],
       rq_remaining = []\<rparr>)))"

definition buildExpireProposalIx :: "pubkey \<Rightarrow> pubkey \<Rightarrow> ix_request js" where
  "buildExpireProposalIx proposal cranker =
     Inr \<lparr>rq_method = ''expireProposal'', rq_args = [],
       rq_accounts = [(''proposal'', Some proposal), (''cranker'', Some cranker)],
       rq_remaining = []\<rparr>"

definition buildProposerCancelIx :: "pubkey \<Rightarrow> pubkey \<Rightarrow> ix_request js" where
  "buildProposerCancelIx proposal proposer =
     Inr \<lparr>rq_method = ''proposerCancel'', rq_args = [],
       rq_accounts = [(''proposal'', Some proposal), (''proposer'', Some proposer)],
       rq_remaining = []\<rparr>"

definition buildQueueExecutionIx :: "pubkey \<Rightarrow> pubkey \<Rightarrow> ix_request js" where
  "buildQueueExecutionIx proposal cranker =
     Inr \<lparr>rq_method = ''queueExecution'', rq_args = [],
       rq_accounts = [(''proposal'', Some proposal), (''cranker'', Some cranker)],
       rq_remaining = []\<rparr>"

subsection \<open>Fee collector\<close>

definition buildClaimStakerIx :: "(string \<Rightarrow> pubkey) \<Rightarrow> pda_search \<Rightarrow> pubkey \<Rightarrow> pubkey
    \<Rightarrow> pubkey \<Rightarrow> pubkey \<Rightarrow> int \<Rightarrow> int \<Rightarrow> bytes list \<Rightarrow> pubkey
    \<Rightarrow> ix_request js" where
  "buildClaimStakerIx publicKey search programId staker saepMint stakerTokenAccount epochId amount merkleProof tokenProgram =
     with_pda (feeConfigPda search programId) (\<lambda>config.
     with_pda (epochPda search programId epochId) (\<lambda>epoch.
     with_pda (claimPda search programId epochId staker) (\<lambda>claim.
     with_pda (stakerVaultPda search programId) (\<lambda>stakerVault.
     Inr \<lparr>rq_method = ''claimStaker'', rq_args = [BnArg epochId, BnArg amount, ListArg (map BytesArg merkleProof)],
       rq_accounts = [(''config'', Some config), (''epoch'', Some epoch), (''claim'', Some claim), (''saepMint'', Some saepMint),
         (''stakerVault'', Some stakerVault), (''stakerTokenAccount'', Some stakerTokenAccount), (''staker'', Some staker),
         (''tokenProgram'', Some tokenProgram), (''systemProgram'', Some (publicKey SystemProgram_programId))],
       rq_remaining = []\<rparr>))))"

definition buildProcessEpochIx :: "(string \<Rightarrow> pubkey) \<Rightarrow> pda_search \<Rightarrow> pubkey \<Rightarrow> pubkey
    \<Rightarrow> pubkey \<Rightarrow> pubkey \<Rightarrow> pubkey \<Rightarrow> int \<Rightarrow> int \<Rightarrow> int \<Rightarrow>
    pubkey \<Rightarrow> ix_request js" where
  "buildProcessEpochIx publicKey search programId cranker saepMint grantRecipient treasuryRecipient currentEpochId nextEpochId snapshotId
      tokenProgram =
     with_pda (feeConfigPda search programId) (\<lambda>config.
     with_pda (epochPda search programId currentEpochId) (\<lambda>currentEpoch.
     with_pda (epochPda search programId nextEpochId) (\<lambda>nextEpoch.
     with_pda (intakeVaultPda search programId) (\<lambda>intakeVault.
     with_pda (burnVaultPda search programId) (\<lambda>burnVault.
     with_pda (stakerVaultPda search programId) (\<lambda>stakerVault.
     Inr \<lparr>rq_method = ''processEpoch'', rq_args = [BnArg snapshotId],
       rq_accounts = [(''config'', Some config), (''currentEpoch'', Some currentEpoch), (''nextEpoch'', Some nextEpoch),
         (''saepMint'', Some saepMint), (''intakeVault'', Some intakeVault), (''burnVault'', Some burnVault),
         (''stakerVault'', Some stakerVault), (''grantRecipient'', Some grantRecipient),
         (''treasuryRecipient'', Some treasuryRecipient), (''cranker'', Some cranker), (''tokenProgram'', Some tokenProgram),
         (''systemProgram'', Some (publicKey SystemProgram_programId))],
       rq_remaining = []\<rparr>))))))"

definition buildExecuteBurnIx :: "pda_search \<Rightarrow> pubkey \<Rightarrow> pubkey \<Rightarrow> pubkey \<Rightarrow> int
    \<Rightarrow> pubkey \<Rightarrow> ix_request js" where
  "buildExecuteBurnIx search programId cranker saepMint epochId tokenProgram =
     with_pda (feeConfigPda search programId) (\<lambda>config.
     with_pda (epochPda search programId epochId) (\<lambda>epoch.
     with_pda (burnVaultPda search programId) (\<lambda>burnVault.
     Inr \<lparr>rq_method = ''executeBurn'', rq_args = [BnArg epochId],
       rq_accounts = [(''config'', Some config), (''epoch'', Some epoch), (''saepMint'', Some saepMint),
         (''burnVault'', Some burnVault), (''cranker'', Some cranker), (''tokenProgram'', Some tokenProgram)],
       rq_remaining = []\<rparr>)))"

definition buildDepositSaepIx :: "pda_search \<Rightarrow> pubkey \<Rightarrow> pubkey \<Rightarrow> pubkey \<Rightarrow> pubkey
    \<Rightarrow> pubkey \<Rightarrow> pubkey \<Rightarrow> pubkey \<Rightarrow> pubkey \<Rightarrow> int \<Rightarrow> ix_request
    js" where
  "buildDepositSaepIx search programId depositor externalMint internalMint depositorExternal depositorInternal externalTokenProgram
      internalTokenProgram amount =
     with_pda (feeConfigPda search programId) (\<lambda>config.
     with_pda (depositVaultPda search programId) (\<lambda>depositVault.
     with_pda (mintAuthorityPda search programId) (\<lambda>mintAuthority.
     Inr \<lparr>rq_method = ''depositSaep'', rq_args = [BnArg amount],
       rq_accounts = [(''config'', Some config), (''externalMint'', Some externalMint), (''internalMint'', Some internalMint),
         (''depositorExternal'', Some depositorExternal), (''depositorInternal'', Some depositorInternal),
         (''depositVault'', Some depositVault), (''mintAuthority'', Some mintAuthority), (''depositor'', Some depositor),
         (''externalTokenProgram'', Some externalTokenProgram), (''internalTokenProgram'', Some internalTokenProgram)],
       rq_remaining = []\<rparr>)))"

definition buildWithdrawSaepIx :: "pda_search \<Rightarrow> pubkey \<Rightarrow> pubkey \<Rightarrow> pubkey \<Rightarrow> pubkey
    \<Rightarrow> pubkey \<Rightarrow> pubkey \<Rightarrow> pubkey \<Rightarrow> pubkey \<Rightarrow> int \<Rightarrow> ix_request
    js" where
  "buildWithdrawSaepIx search programId withdrawer externalMint internalMint withdrawerExternal withdrawerInternal externalTokenProgram
      internalTokenProgram amount =
     with_pda (feeConfigPda search programId) (\<lambda>config.
     with_pda (depositVaultPda search programId) (\<lambda>depositVault.
     with_pda (mintAuthorityPda search programId) (\<lambda>mintAuthority.
     Inr \<lparr>rq_method = ''withdrawSaep'', rq_args = [BnArg amount],
       rq_accounts = [(''config'', Some config), (''externalMint'', Some externalMint), (''internalMint'', Some internalMint),
         (''withdrawerInternal'', Some withdrawerInternal), (''withdrawerExternal'', Some withdrawerExternal),
         (''depositVault'', Some depositVault), (''mintAuthority'', Some mintAuthority), (''withdrawer'', Some withdrawer),
         (''externalTokenProgram'', Some externalTokenProgram), (''internalTokenProgram'', Some internalTokenProgram)],
       rq_remaining = []\<rparr>)))"

definition buildHarvestTransferFeesIx :: "pda_search \<Rightarrow> pubkey \<Rightarrow> pubkey \<Rightarrow> pubkey \<Rightarrow> int
    \<Rightarrow> pubkey \<Rightarrow> (account_meta list) option \<Rightarrow> ix_request js" where
  "buildHarvestTransferFeesIx search programId cranker saepMint currentEpochId tokenProgram remainingAccounts =
     with_pda (feeConfigPda search programId) (\<lambda>config.
     with_pda (epochPda search programId currentEpochId) (\<lambda>currentEpoch.
     with_pda (intakeVaultPda search programId) (\<lambda>intakeVault.
     with_pda (transferFeeWithdrawAuthorityPda search programId) (\<lambda>feeWithdrawAuthority.
     Inr \<lparr>rq_method = ''harvestTransferFees'', rq_args = [],
       rq_accounts = [(''config'', Some config), (''currentEpoch'', Some currentEpoch), (''saepMint'', Some saepMint),
         (''intakeVault'', Some intakeVault), (''feeWithdrawAuthority'', Some feeWithdrawAuthority), (''cranker'', Some cranker),
         (''tokenProgram'', Some tokenProgram)],
       rq_remaining = default_list remainingAccounts\<rparr>))))"

definition buildHarvestConfidentialFeesIx :: "pda_search \<Rightarrow> pubkey \<Rightarrow> pubkey \<Rightarrow> pubkey \<Rightarrow> int
    \<Rightarrow> pubkey \<Rightarrow> (account_meta list) option \<Rightarrow> ix_request js" where
  "buildHarvestConfidentialFeesIx search programId cranker saepMint currentEpochId tokenProgram remainingAccounts =
     with_pda (feeConfigPda search programId) (\<lambda>config.
     with_pda (epochPda search programId currentEpochId) (\<lambda>currentEpoch.
     with_pda (intakeVaultPda search programId) (\<lambda>intakeVault.
     with_pda (transferFeeWithdrawAuthorityPda search programId) (\<lambda>feeWithdrawAuthority.
     Inr \<lparr>rq_method = ''harvestConfidentialFees'', rq_args = [],
       rq_accounts = [(''config'', Some config), (''currentEpoch'', Some currentEpoch), (''saepMint'', Some saepMint),
         (''intakeVault'', Some intakeVault), (''feeWithdrawAuthority'', Some feeWithdrawAuthority), (''cranker'', Some cranker),
         (''tokenProgram'', Some tokenProgram)],
       rq_remaining = default_list remainingAccounts\<rparr>))))"

definition buildCommitDistributionRootIx :: "pda_search \<Rightarrow> pubkey \<Rightarrow> pubkey \<Rightarrow> int \<Rightarrow> bytes
    \<Rightarrow> rat \<Rightarrow> int \<Rightarrow> ix_request js" where
  "buildCommitDistributionRootIx search programId committer epochId root_hash leafCount totalWeight =
     with_pda (feeConfigPda search programId) (\<lambda>config.
     with_pda (epochPda search programId epochId) (\<lambda>epoch.
     Inr \<lparr>rq_method = ''commitDistributionRoot'', rq_args = [BnArg epochId, BytesArg root_hash, NumberArg leafCount,
         BnArg totalWeight],
       rq_accounts = [(''config'', Some config), (''epoch'', Some epoch), (''committer'', Some committer)],
       rq_remaining = []\<rparr>))"

definition buildSetConfidentialTransfersIx :: "pda_search \<Rightarrow> pubkey \<Rightarrow> pubkey \<Rightarrow> bool \<Rightarrow>
    ix_request js" where
  "buildSetConfidentialTransfersIx search programId authority enabled =
     with_pda (feeConfigPda search programId) (\<lambda>config.
     Inr \<lparr>rq_method = ''setConfidentialTransfers'', rq_args = [BoolArg enabled],
       rq_accounts = [(''config'', Some config), (''authority'', Some authority)],
       rq_remaining = []\<rparr>)"

subsection \<open>Staking\<close>

definition buildStakeIx :: "(string \<Rightarrow> pubkey) \<Rightarrow> pda_search \<Rightarrow> pubkey \<Rightarrow> pubkey
    \<Rightarrow> pubkey \<Rightarrow> pubkey \<Rightarrow> int \<Rightarrow> int \<Rightarrow> pubkey \<Rightarrow> ix_request js" where
  "buildStakeIx publicKey search programId owner stakeMint ownerTokenAccount amount lockupDurationSecs tokenProgram =
     with_pda (stakingPoolPda search programId) (\<lambda>pool.
     with_pda (stakeAccountPda search programId pool owner) (\<lambda>stakeAccount.
     with_pda (stakeVaultPda search programId stakeAccount) (\<lambda>vault.
     Inr \<lparr>rq_method = ''stake'', rq_args = [BnArg amount, BnArg lockupDurationSecs],
       rq_accounts = [(''pool'', Some pool), (''stakeAccount'', Some stakeAccount), (''stakeMint'', Some stakeMint),
         (''vault'', Some vault), (''ownerTokenAccount'', Some ownerTokenAccount), (''owner'', Some owner),
         (''tokenProgram'', Some tokenProgram), (''systemProgram'', Some (publicKey SystemProgram_programId))],
       rq_remaining = []\<rparr>)))"

definition buildBeginUnstakeIx :: "pda_search \<Rightarrow> pubkey \<Rightarrow> pubkey \<Rightarrow> ix_request js" where
  "buildBeginUnstakeIx search programId owner =
     with_pda (stakingPoolPda search programId) (\<lambda>pool.
     with_pda (stakeAccountPda search programId pool owner) (\<lambda>stakeAccount.
     Inr \<lparr>rq_method = ''beginUnstake'', rq_args = [],
       rq_accounts = [(''pool'', Some pool), (''stakeAccount'', Some stakeAccount), (''owner'', Some owner)],
       rq_remaining = []\<rparr>))"

definition buildStakeWithdrawIx :: "pda_search \<Rightarrow> pubkey \<Rightarrow> pubkey \<Rightarrow> pubkey \<Rightarrow> pubkey
    \<Rightarrow> pubkey \<Rightarrow> ix_request js" where
  "buildStakeWithdrawIx search programId owner stakeMint ownerTokenAccount tokenProgram =
     with_pda (stakingPoolPda search programId) (\<lambda>pool.
     with_pda (stakeAccountPda search programId pool owner) (\<lambda>stakeAccount.
     with_pda (stakeVaultPda search programId stakeAccount) (\<lambda>vault.
     Inr \<lparr>rq_method = ''withdraw'', rq_args = [],
       rq_accounts = [(''pool'', Some pool), (''stakeAccount'', Some stakeAccount), (''stakeMint'', Some stakeMint),
         (''vault'', Some vault), (''ownerTokenAccount'', Some ownerTokenAccount), (''owner'', Some owner),
         (''tokenProgram'', Some tokenProgram)],
       rq_remaining = []\<rparr>)))"

definition buildSnapshotEpochIx :: "(string \<Rightarrow> pubkey) \<Rightarrow> pda_search \<Rightarrow> pubkey \<Rightarrow> pubkey
    \<Rightarrow> int \<Rightarrow> rat \<Rightarrow> int \<Rightarrow> ix_request js" where
  "buildSnapshotEpochIx publicKey search programId authority totalVotingPower stakerCount currentEpoch =
     with_pda (stakingConfigPda search programId) (\<lambda>config.
     with_pda (stakingPoolPda search programId) (\<lambda>pool.
     with_pda (votingPowerSnapshotPda search programId currentEpoch) (\<lambda>snapshot.
     Inr \<lparr>rq_method = ''snapshotEpoch'', rq_args = [BnArg totalVotingPower, NumberArg stakerCount],
       rq_accounts = [(''config'', Some config), (''pool'', Some pool), (''snapshot'', Some snapshot),
         (''authority'', Some authority), (''systemProgram'', Some (publicKey SystemProgram_programId))],
       rq_remaining = []\<rparr>)))"

subsection \<open>Template registry\<close>

definition buildMintTemplateIx :: "(string \<Rightarrow> pubkey) \<Rightarrow> pda_search \<Rightarrow> pubkey \<Rightarrow> pubkey
    \<Rightarrow> bytes \<Rightarrow> bytes \<Rightarrow> bytes \<Rightarrow> int \<Rightarrow> rat \<Rightarrow> int \<Rightarrow> int
    \<Rightarrow> int \<Rightarrow> ix_request js" where
  "buildMintTemplateIx publicKey search programId author templateId configHash configUri capabilityMask royaltyBps rentPricePerSec
      minRentDuration maxRentDuration =
     with_pda (templateGlobalPda search programId) (\<lambda>global.
     with_pda (templatePda search programId templateId) (\<lambda>template.
     Inr \<lparr>rq_method = ''mintTemplate'', rq_args = [BytesArg templateId, BytesArg configHash, BytesArg configUri,
         BnArg capabilityMask, NumberArg royaltyBps, BnArg rentPricePerSec, BnArg minRentDuration, BnArg maxRentDuration],
       rq_accounts = [(''global'', Some global), (''template'', Some template), (''author'', Some author),
         (''systemProgram'', Some (publicKey SystemProgram_programId))],
       rq_remaining = []\<rparr>))"

definition buildUpdateTemplateIx :: "pda_search \<Rightarrow> pubkey \<Rightarrow> pubkey \<Rightarrow> bytes \<Rightarrow> bytes
    \<Rightarrow> bytes \<Rightarrow> ix_request js" where
  "buildUpdateTemplateIx search programId author templateId configHash configUri =
     with_pda (templateGlobalPda search programId) (\<lambda>global.
     with_pda (templatePda search programId templateId) (\<lambda>template.
     Inr \<lparr>rq_method = ''updateTemplate'', rq_args = [BytesArg configHash, BytesArg configUri],
       rq_accounts = [(''global'', Some global), (''template'', Some template), (''author'', Some author)],
       rq_remaining = []\<rparr>))"

definition buildRetireTemplateIx :: "pda_search \<Rightarrow> pubkey \<Rightarrow> pubkey \<Rightarrow> bytes \<Rightarrow> ix_request
    js" where
  "buildRetireTemplateIx search programId signer templateId =
     with_pda (templateGlobalPda search programId) (\<lambda>global.
     with_pda (templatePda search programId templateId) (\<lambda>template.
     Inr \<lparr>rq_method = ''retireTemplate'', rq_args = [],
       rq_accounts = [(''global'', Some global), (''template'', Some template), (''signer'', Some signer)],
       rq_remaining = []\<rparr>))"

definition buildForkTemplateIx :: "(string \<Rightarrow> pubkey) \<Rightarrow> pda_search \<Rightarrow> pubkey \<Rightarrow> pubkey
    \<Rightarrow> bytes \<Rightarrow> bytes \<Rightarrow> ix_request js" where
  "buildForkTemplateIx publicKey search programId forker parentTemplateId childAgentDid =
     with_pda (templateGlobalPda search programId) (\<lambda>global.
     with_pda (templatePda search programId parentTemplateId) (\<lambda>parent.
     with_pda (forkPda search programId childAgentDid) (\<lambda>fork.
     Inr \<lparr>rq_method = ''forkTemplate'', rq_args = [BytesArg childAgentDid],
       rq_accounts = [(''global'', Some global), (''parent'', Some parent), (''fork'', Some fork), (''forker'', Some forker),
         (''systemProgram'', Some (publicKey SystemProgram_programId))],
       rq_remaining = []\<rparr>)))"

definition buildOpenRentalIx :: "(string \<Rightarrow> pubkey) \<Rightarrow> pda_search \<Rightarrow> pubkey \<Rightarrow> pubkey
    \<Rightarrow> bytes \<Rightarrow> pubkey \<Rightarrow> pubkey \<Rightarrow> int \<Rightarrow> bytes \<Rightarrow> pubkey
    \<Rightarrow> ix_request js" where
  "buildOpenRentalIx publicKey search programId renter templateId mint renterTokenAccount durationSecs rentalNonce tokenProgram =
     with_pda (templateGlobalPda search programId) (\<lambda>global.
     with_pda (templatePda search programId templateId) (\<lambda>template.
     with_pda (rentalPda search programId template renter rentalNonce) (\<lambda>rental.
     with_pda (rentalEscrowPda search programId rental) (\<lambda>escrow.
     Inr \<lparr>rq_method = ''openRental'', rq_args = [BnArg durationSecs, BytesArg rentalNonce],
       rq_accounts = [(''global'', Some global), (''template'', Some template), (''rental'', Some rental), (''mint'', Some mint),
         (''escrow'', Some escrow), (''renterTokenAccount'', Some renterTokenAccount), (''renter'', Some renter),
         (''tokenProgram'', Some tokenProgram), (''systemProgram'', Some (publicKey SystemProgram_programId))],
       rq_remaining = []\<rparr>))))"

definition buildCloseRentalIx :: "pda_search \<Rightarrow> pubkey \<Rightarrow> pubkey \<Rightarrow> pubkey \<Rightarrow> bytes
    \<Rightarrow> pubkey \<Rightarrow> pubkey \<Rightarrow> pubkey \<Rightarrow> pubkey \<Rightarrow> pubkey \<Rightarrow> ix_request
    js" where
  "buildCloseRentalIx search programId signer rental templateId mint authorTokenAccount feeCollectorTokenAccount renterTokenAccount
      tokenProgram =
     with_pda (templateGlobalPda search programId) (\<lambda>global.
     with_pda (templatePda search programId templateId) (\<lambda>template.
     with_pda (rentalEscrowPda search programId rental) (\<lambda>escrow.
     Inr \<lparr>rq_method = ''closeRental'', rq_args = [],
       rq_accounts = [(''global'', Some global), (''template'', Some template), (''rental'', Some rental), (''mint'', Some mint),
         (''escrow'', Some escrow), (''authorTokenAccount'', Some authorTokenAccount),
         (''feeCollectorTokenAccount'', Some feeCollectorTokenAccount), (''renterTokenAccount'', Some renterTokenAccount),
         (''signer'', Some signer), (''tokenProgram'', Some tokenProgram)],
       rq_remaining = []\<rparr>)))"

definition buildClaimRentalRevenueIx :: "pda_search \<Rightarrow> pubkey \<Rightarrow> pubkey \<Rightarrow> pubkey \<Rightarrow> bytes
    \<Rightarrow> pubkey \<Rightarrow> pubkey \<Rightarrow> pubkey \<Rightarrow> pubkey \<Rightarrow> ix_request js" where
  "buildClaimRentalRevenueIx search programId cranker rental templateId mint authorTokenAccount feeCollectorTokenAccount tokenProgram =
     with_pda (templateGlobalPda search programId) (\<lambda>global.
     with_pda (templatePda search programId templateId) (\<lambda>template.
     with_pda (rentalEscrowPda search programId rental) (\<lambda>escrow.
     Inr \<lparr>rq_method = ''claimRentalRevenue'', rq_args = [],
       rq_accounts = [(''global'', Some global), (''template'', Some template), (''rental'', Some rental), (''mint'', Some mint),
         (''escrow'', Some escrow), (''authorTokenAccount'', Some authorTokenAccount),
         (''feeCollectorTokenAccount'', Some feeCollectorTokenAccount), (''cranker'', Some cranker),
         (''tokenProgram'', Some tokenProgram)],
       rq_remaining = []\<rparr>)))"

end
