(* ===== verification/Sdk_Agreement.thy ===== *)
theory Sdk_Agreement
  imports Sdk_Builders
begin

text \<open>
  Every instruction builder of the SDK agrees with the interface description of its program: the method, the number and kinds
  of the arguments, the account names, the fixed addresses, and each derived address against the seeds of the
  description.
\<close>

lemma encodeManifestUri_short:
  "length uri \<le> 128 \<Longrightarrow> encodeManifestUri uri = Inr (text_encode uri @ replicate (128 - length uri) 0)"
  by (simp add: encodeManifestUri_def MANIFEST_URI_LEN_def)

lemma normalizeTaskPayload_struct:
  assumes "js_ok (normalizeTaskPayload payload)"
  obtains fs where "normalizeTaskPayload payload = Inr (StructArg fs)"
  using assms by (auto simp: normalizeTaskPayload_def and_then_def split: sum.splits)

lemmas pda_eval =
  agentRegistryGlobalPda_def agentAccountPda_def agentStakePda_def reentrancyGuardPda_def categoryReputationPda_def
  proofVerifierRepAuthorityPda_def treasuryGlobalPda_def treasuryAllowedMintsPda_def treasuryPda_def treasuryAllowedTargetsPda_def
  treasuryYieldStrategyPda_def treasuryYieldConfigPda_def treasuryYieldPositionPda_def treasuryYieldReceiptVaultPda_def vaultPda_def
  marketGlobalPda_def taskPda_def taskEscrowPda_def bidBookPda_def bondEscrowPda_def
  bidPda_def verifierConfigPda_def verifierKeyPda_def verifierModePda_def proofVerifierAllowedCallersPda_def
  batchStatePda_def guardPda_def proofVerifierGuardPda_def capabilityConfigPda_def streamPda_def
  streamEscrowPda_def disputeConfigPda_def disputePoolPda_def disputeCasePda_def arbitratorPda_def
  disputeVotePda_def appealPda_def pendingSlashPda_def govConfigPda_def programRegistryPda_def
  proposalPda_def govVoteRecordPda_def executionRecordPda_def feeConfigPda_def feeHookAllowlistPda_def
  feeAgentHooksPda_def epochPda_def claimPda_def intakeVaultPda_def burnVaultPda_def
  stakerVaultPda_def depositVaultPda_def mintAuthorityPda_def transferFeeWithdrawAuthorityPda_def stakingPoolPda_def
  stakeAccountPda_def stakeVaultPda_def apyAuthorityPda_def stakingConfigPda_def votingPowerSnapshotPda_def
  templateGlobalPda_def templatePda_def rentalPda_def rentalEscrowPda_def forkPda_def

text \<open>To decide an agreement the accounts are walked once, with the lookups behind names: an entry of the request is read
  only where a seed asks for it.\<close>

lemma matchesI:
  assumes "r = Inr q" and "rq_method q = idl_name ix" and "list_all2 fits (map snd (idl_args ix)) (rq_args q)"
    and "\<And>J S B K A F G. \<lbrakk>
      \<And>a v. J a v = key_verdict publicKey S a v;
      \<And>ss p. S ss p = (case (those (map B ss), K p) of (Some bs, Some k) \<Rightarrow> Some (fst (search bs k)) | _ \<Rightarrow>
          None);
      \<And>s. B (ConstSeed s) = Some (enc s);
      \<And>a. B (AccountSeed a) = map_option toBuffer (A a);
      \<And>a f. B (FieldSeed a f) = F (a, f);
      \<And>a. B (ArgSeed a) = Option.bind (G a) arg_seed;
      K OwnProgram = Some programId;
      \<And>a. K (ProgramOf a) = A a;
      \<And>k. K (ProgramConst k) = Some k;
      \<And>a. A a = provided (rq_accounts q) a;
      \<And>n. F n = field_of contents n;
      \<And>n. G n = field_of (zip (map fst (idl_args ix)) (rq_args q)) n\<rbrakk>
      \<Longrightarrow> check_accounts J (idl_accounts ix) (rq_accounts q) = Some (missing, given)"
  shows "matches publicKey search programId contents ix missing given r"
proof -
  let ?args = "zip (map fst (idl_args ix)) (rq_args q)" and ?accs = "rq_accounts q"
  let ?S = "seeded_address search programId contents ?args ?accs"
  have "check_accounts (key_verdict publicKey ?S) (idl_accounts ix) ?accs = Some (missing, given)"
    by (rule assms(4) [of _ ?S "seed_bytes contents ?args ?accs" "program_key programId ?accs" "provided ?accs"
          "field_of contents" "field_of ?args"]) (simp_all add: seeded_address_def)
  with assms(1-3) show ?thesis by (simp add: matches_def)
qed

lemma key_verdict_simps:
  "key_verdict publicKey S (IdlAccount n fl None None) (Some k) = Right"
  "key_verdict publicKey S (IdlAccount n fl (Some s) pda) (Some k) = (if publicKey s = k then Right else Wrong)"
  "key_verdict publicKey S (IdlAccount n fl None (Some (ss, p))) (Some k) =
     (case S ss p of None \<Rightarrow> Undecided | Some k' \<Rightarrow> if k' = k then Right else Wrong)"
  "key_verdict publicKey S (IdlAccount n fl address pda) None = (if Optional \<in> set fl then Right else Wrong)"
  by (simp_all add: key_verdict_def)

lemma key_verdict_optional:
  "key_verdict publicKey S (IdlAccount n [Optional] None None) v = Right"
  "S ss p \<noteq> None \<Longrightarrow> v = None \<or> v = S ss p \<Longrightarrow> key_verdict publicKey S (IdlAccount n [Optional]
      None (Some (ss, p))) v = Right"
  by (auto simp: key_verdict_def split: option.split)

lemmas ix_run = with_pda_def and_then_def Let_def encodeManifestUri_short register_capabilityConfigPda_def
  assertYieldMovementInput_def yieldMovementPdas_def MAX_YIELD_ROUTE_DATA_LEN_def pda_eval

lemmas ix_walk = key_verdict_simps key_verdict_optional provided_def toPubkeyMap_def SystemProgram_programId_def SYSVAR_RENT_PUBKEY_def
    SYSVAR_RENT_def
  SYSVAR_INSTRUCTIONS_PUBKEY_def

lemmas ix_args = yieldVenueArg_def yieldRiskTierArg_def yieldStrategyStatusArg_def list.pred_map o_def


subsection \<open>Agent registry\<close>

lemma buildRegisterAgentIx_matches:
  assumes "length agentId = 32" and "length manifestUri \<le> 128" and "personhoodAttestation \<in> {None,
             Some (fst (search [enc ''personhood'', toBuffer operator_key] programId))}"
  shows "matches publicKey search programId
     [] registry_registerAgent [] []
     (buildRegisterAgentIx publicKey search programId operator_key agentId manifestUri capabilityMask priceLamports streamRate
         stakeAmount stakeMint operatorTokenAccount capabilityRegistryProgramId personhoodAttestation tokenProgramId)"
  by (insert assms, rule matchesI, simp add: buildRegisterAgentIx_def ix_run, simp add: registry_registerAgent_def,
      simp add: registry_registerAgent_def ix_args, simp add: registry_registerAgent_def ix_walk)

lemma buildUpdateManifestIx_matches:
  assumes "length manifestUri \<le> 128"
  shows "matches publicKey search programId
     [] registry_updateManifest [] [''agent'']
     (buildUpdateManifestIx search programId operator_key agent manifestUri capabilityMask priceLamports streamRate
         capabilityRegistryProgramId)"
  by (insert assms, rule matchesI, simp add: buildUpdateManifestIx_def ix_run, simp add: registry_updateManifest_def,
      simp add: registry_updateManifest_def ix_args, simp add: registry_updateManifest_def ix_walk)

lemma buildStakeIncreaseIx_matches:
  "matches publicKey search programId
     [] registry_stakeIncrease [''guard''] [''agent'']
     (buildStakeIncreaseIx publicKey search programId operator_key agent stakeMint operatorTokenAccount amount)"
  by (rule matchesI, simp add: buildStakeIncreaseIx_def ix_run, simp add: registry_stakeIncrease_def,
      simp add: registry_stakeIncrease_def ix_args, simp add: registry_stakeIncrease_def ix_walk)

lemma buildRequestStakeWithdrawIx_matches:
  "matches publicKey search programId
     [] registry_stakeWithdrawRequest [] [''agent'']
     (buildRequestStakeWithdrawIx search programId operator_key agent amount)"
  by (rule matchesI, simp add: buildRequestStakeWithdrawIx_def ix_run, simp add: registry_stakeWithdrawRequest_def,
      simp add: registry_stakeWithdrawRequest_def ix_args, simp add: registry_stakeWithdrawRequest_def ix_walk)

lemma buildExecuteStakeWithdrawIx_matches:
  "matches publicKey search programId
     [] registry_stakeWithdrawExecute [''guard''] [''agent'']
     (buildExecuteStakeWithdrawIx publicKey search programId operator_key agent stakeMint operatorTokenAccount)"
  by (rule matchesI, simp add: buildExecuteStakeWithdrawIx_def ix_run, simp add: registry_stakeWithdrawExecute_def,
      simp add: registry_stakeWithdrawExecute_def ix_args, simp add: registry_stakeWithdrawExecute_def ix_walk)

lemma buildDeregisterIx_matches:
  "matches publicKey search programId
     [] registry_setStatus [] [''agent'']
     (buildDeregisterIx search programId operator_key agent)"
  by (rule matchesI, simp add: buildDeregisterIx_def ix_run, simp add: registry_setStatus_def,
      simp add: registry_setStatus_def ix_args, simp add: registry_setStatus_def ix_walk)

lemma buildReactivateIx_matches:
  "matches publicKey search programId
     [] registry_setStatus [] [''agent'']
     (buildReactivateIx search programId operator_key agent)"
  by (rule matchesI, simp add: buildReactivateIx_def ix_run, simp add: registry_setStatus_def,
      simp add: registry_setStatus_def ix_args, simp add: registry_setStatus_def ix_walk)

subsection \<open>Capability registry\<close>

lemma buildProposeTagIx_matches:
  assumes "length slug = 32" and "length manifestUri = 96"
  shows "matches publicKey search programId
     [] capability_proposeTag [] []
     (buildProposeTagIx publicKey search programId authority payer tag_key bitIndex slug manifestUri)"
  by (insert assms, rule matchesI, simp add: buildProposeTagIx_def ix_run, simp add: capability_proposeTag_def,
      simp add: capability_proposeTag_def ix_args, simp add: capability_proposeTag_def ix_walk)

lemma buildRetireTagIx_matches:
  "matches publicKey search programId
     [] capability_retireTag [] []
     (buildRetireTagIx search programId authority tag_key bitIndex)"
  by (rule matchesI, simp add: buildRetireTagIx_def ix_run, simp add: capability_retireTag_def,
      simp add: capability_retireTag_def ix_args, simp add: capability_retireTag_def ix_walk)

lemma buildValidateMaskIx_matches:
  "matches publicKey search programId
     [] capability_validateMask [] []
     (buildValidateMaskIx search programId mask_value)"
  by (rule matchesI, simp add: buildValidateMaskIx_def ix_run, simp add: capability_validateMask_def,
      simp add: capability_validateMask_def ix_args, simp add: capability_validateMask_def ix_walk)

subsection \<open>Treasury\<close>

lemma buildInitTreasuryIx_matches:
  assumes "length agentDid = 32" and "length agentId = 32"
  shows "matches publicKey search programId
     [((''agentAccount'', ''operator''), toBuffer agentOperator), ((''agentAccount'', ''agent_id''), agentId)] treasury_initTreasury [] []
     (buildInitTreasuryIx publicKey search programId (toPubkeyMap publicKey DEVNET_PROGRAM_IDS) operator_key agentDid agentOperator
         agentId dailySpendLimit perTxLimit weeklyLimit)"
  by (insert assms, rule matchesI, simp add: buildInitTreasuryIx_def ix_run, simp add: treasury_initTreasury_def,
      simp add: treasury_initTreasury_def ix_args, simp add: treasury_initTreasury_def ix_walk)

lemma buildSetLimitsIx_matches:
  assumes "length agentDid = 32"
  shows "matches publicKey search programId
     [((''treasury'', ''agent_did''), agentDid)] treasury_setLimits [] []
     (buildSetLimitsIx search programId operator_key agentDid daily perTx weekly)"
  by (insert assms, rule matchesI, simp add: buildSetLimitsIx_def ix_run, simp add: treasury_setLimits_def,
      simp add: treasury_setLimits_def ix_args, simp add: treasury_setLimits_def ix_walk)

lemma buildWithdrawIx_matches:
  assumes "length agentDid = 32"
  shows "matches publicKey search programId
     [((''treasury'', ''agent_did''), agentDid)] treasury_withdraw [''allowedTargets'', ''hookAllowlist'', ''guard''] []
     (buildWithdrawIx publicKey search programId operator_key agentDid mint destination amount priceFeed)"
  by (insert assms, rule matchesI, simp add: buildWithdrawIx_def ix_run, simp add: treasury_withdraw_def,
      simp add: treasury_withdraw_def ix_args, simp add: treasury_withdraw_def ix_walk)

lemma buildInitStreamIx_matches:
  assumes "length streamNonce = 8" and "length agentDid = 32"
  shows "matches publicKey search programId
     [((''treasury'', ''agent_did''), agentDid)] treasury_initStream [''allowedTargets'', ''hookAllowlist'', ''guard''] []
     (buildInitStreamIx publicKey search programId client agentDid streamNonce payerMint payoutMint clientTokenAccount ratePerSec
         maxDuration)"
  by (insert assms, rule matchesI, simp add: buildInitStreamIx_def ix_run, simp add: treasury_initStream_def,
      simp add: treasury_initStream_def ix_args, simp add: treasury_initStream_def ix_walk)

lemma buildCloseStreamIx_matches:
  assumes "length agentDid = 32" and "treasury = fst (search [enc ''treasury'', agentDid] programId)"
  shows "matches publicKey search programId
     [((''treasury'', ''agent_did''), agentDid)] treasury_closeStream [''global'', ''allowedTargets'', ''hookAllowlist'', ''agentHooks'',
         ''guard''] [''stream'']
     (buildCloseStreamIx publicKey search programId signer stream treasury payerMint agentDid clientTokenAccount)"
  by (insert assms, rule matchesI, simp add: buildCloseStreamIx_def ix_run, simp add: treasury_closeStream_def,
      simp add: treasury_closeStream_def ix_args, simp add: treasury_closeStream_def ix_walk)

lemma buildWithdrawEarnedIx_matches:
  assumes "length agentDid = 32" and "allowedTargets \<in> {None, Some (fst (search [enc ''allowed_targets'',
             agentDid] programId))}" and "agentHooks \<in> {None, Some (fst (search [enc ''agent_hooks'',
             agentDid] (0x3ac068eb6f37a3b9e0ca113397a88b14eb99356fdbd4d0f45d3a54edf75bcc00)))}"
  shows "matches publicKey search programId
     [((''treasury'', ''agent_did''), agentDid)] treasury_withdrawEarned [] [''stream'']
     (buildWithdrawEarnedIx publicKey search programId operator_key agentDid stream payerMint payoutMint jupiterProgram routeData
         payerPriceFeed payoutPriceFeed allowedTargets hookAllowlist agentHooks tokenProgramId)"
  by (insert assms, rule matchesI, simp add: buildWithdrawEarnedIx_def ix_run, simp add: treasury_withdrawEarned_def,
      simp add: treasury_withdrawEarned_def ix_args, simp add: treasury_withdrawEarned_def ix_walk)

lemma buildRegisterYieldStrategyIx_matches:
  assumes "length strategyId = 32"
  shows "matches publicKey search programId
     [] treasury_registerYieldStrategy [] []
     (buildRegisterYieldStrategyIx publicKey search programId authority strategyId venue strategyProgram underlyingMint receiptMint
         maxAllocationBps riskTier name_text metadataUri)"
  by (insert assms, rule matchesI, simp add: buildRegisterYieldStrategyIx_def ix_run, simp add: treasury_registerYieldStrategy_def,
      simp add: treasury_registerYieldStrategy_def ix_args, simp add: treasury_registerYieldStrategy_def ix_walk)

lemma buildSetYieldStrategyStatusIx_matches:
  assumes "length strategyId = 32"
  shows "matches publicKey search programId
     [((''strategy'', ''strategy_id''), strategyId)] treasury_setYieldStrategyStatus [] []
     (buildSetYieldStrategyStatusIx search programId authority strategyId status)"
  by (insert assms, rule matchesI, simp add: buildSetYieldStrategyStatusIx_def ix_run, simp add: treasury_setYieldStrategyStatus_def,
      simp add: treasury_setYieldStrategyStatus_def ix_args, simp add: treasury_setYieldStrategyStatus_def ix_walk)

lemma buildSetTreasuryYieldConfigIx_matches:
  assumes "length agentDid = 32" and "length strategyId = 32"
  shows "matches publicKey search programId
     [] treasury_setTreasuryYieldConfig [] []
     (buildSetTreasuryYieldConfigIx publicKey search programId operator_key agentDid strategyId allocationBps paused)"
  by (insert assms, rule matchesI, simp add: buildSetTreasuryYieldConfigIx_def ix_run, simp add: treasury_setTreasuryYieldConfig_def,
      simp add: treasury_setTreasuryYieldConfig_def ix_args, simp add: treasury_setTreasuryYieldConfig_def ix_walk)

lemma buildRequestTreasuryYieldUnwindIx_matches:
  assumes "length agentDid = 32"
  shows "matches publicKey search programId
     [((''treasury'', ''agent_did''), agentDid)] treasury_requestTreasuryYieldUnwind [] []
     (buildRequestTreasuryYieldUnwindIx search programId operator_key agentDid)"
  by (insert assms, rule matchesI, simp add: buildRequestTreasuryYieldUnwindIx_def ix_run, simp add:
      treasury_requestTreasuryYieldUnwind_def,
      simp add: treasury_requestTreasuryYieldUnwind_def ix_args, simp add: treasury_requestTreasuryYieldUnwind_def ix_walk)

lemma buildRecordTreasuryYieldAccountingIx_matches:
  assumes "length agentDid = 32"
  shows "matches publicKey search programId
     [((''yieldConfig'', ''agent_did''), agentDid)] treasury_recordTreasuryYieldAccounting [] []
     (buildRecordTreasuryYieldAccountingIx search programId authority agentDid idleAmount deployedAmount realizedYieldAmount
         accountingSlot)"
  by (insert assms, rule matchesI, simp add: buildRecordTreasuryYieldAccountingIx_def ix_run, simp add:
      treasury_recordTreasuryYieldAccounting_def,
      simp add: treasury_recordTreasuryYieldAccounting_def ix_args, simp add: treasury_recordTreasuryYieldAccounting_def ix_walk)

lemma buildDepositToYieldStrategyIx_matches:
  assumes "length agentDid = 32" and "length strategyId = 32" and "routeData \<noteq> []" and "length routeData \<le> 512" and "0 <
      amount" and "allowedTargets \<in> {None, Some (fst (search [enc ''allowed_targets'', agentDid] programId))}"
  shows "matches publicKey search programId
     [((''treasury'', ''agent_did''), agentDid), ((''strategy'', ''strategy_id''), strategyId)] treasury_depositToYieldStrategy [] []
     (buildDepositToYieldStrategyIx publicKey search programId agentDid strategyId mint receiptMint kaminoProgram routeData routeAccounts
         allowedTargets tokenProgramId operator_key amount priceFeed)"
  by (insert assms, rule matchesI, simp add: buildDepositToYieldStrategyIx_def ix_run, simp add: treasury_depositToYieldStrategy_def,
      simp add: treasury_depositToYieldStrategy_def ix_args, simp add: treasury_depositToYieldStrategy_def ix_walk)

lemma buildWithdrawFromYieldStrategyIx_matches:
  assumes "length agentDid = 32" and "length strategyId = 32" and "routeData \<noteq> []" and "length routeData \<le> 512" and "0 <
      receiptAmount" and "allowedTargets \<in> {None, Some (fst (search [enc ''allowed_targets'', agentDid] programId))}"
  shows "matches publicKey search programId
     [((''treasury'', ''agent_did''), agentDid), ((''strategy'', ''strategy_id''), strategyId)] treasury_withdrawFromYieldStrategy [] []
     (buildWithdrawFromYieldStrategyIx publicKey search programId agentDid strategyId mint receiptMint kaminoProgram routeData
         routeAccounts allowedTargets tokenProgramId operator_key receiptAmount)"
  by (insert assms, rule matchesI, simp add: buildWithdrawFromYieldStrategyIx_def ix_run, simp add:
      treasury_withdrawFromYieldStrategy_def,
      simp add: treasury_withdrawFromYieldStrategy_def ix_args, simp add: treasury_withdrawFromYieldStrategy_def ix_walk)

lemma buildEmergencyUnwindYieldStrategyIx_matches:
  assumes "length agentDid = 32" and "length strategyId = 32" and "routeData \<noteq> []" and "length routeData \<le> 512" and
      "allowedTargets \<in> {None, Some (fst (search [enc ''allowed_targets'', agentDid] programId))}"
  shows "matches publicKey search programId
     [((''treasury'', ''agent_did''), agentDid), ((''strategy'', ''strategy_id''), strategyId)] treasury_emergencyUnwindYieldStrategy []
         []
     (buildEmergencyUnwindYieldStrategyIx publicKey search programId agentDid strategyId mint receiptMint kaminoProgram routeData
         routeAccounts allowedTargets tokenProgramId authority)"
  by (insert assms, rule matchesI, simp add: buildEmergencyUnwindYieldStrategyIx_def ix_run, simp add:
      treasury_emergencyUnwindYieldStrategy_def,
      simp add: treasury_emergencyUnwindYieldStrategy_def ix_args, simp add: treasury_emergencyUnwindYieldStrategy_def ix_walk)

subsection \<open>Task market\<close>

lemma buildCreateTaskIx_matches:
  assumes "length taskNonce = 8" and "length agentDid = 32" and "length criteriaRoot = 32" and "length agentId = 32" and
      "normalizeTaskPayload payload = Inr (StructArg taskPayload)"
  shows "matches publicKey search programId
     [((''agentAccount'', ''operator''), toBuffer agentOperator), ((''agentAccount'', ''agent_id''), agentId)] market_createTask [] []
     (buildCreateTaskIx publicKey search programId (toPubkeyMap publicKey DEVNET_PROGRAM_IDS) client taskNonce agentDid agentOperator
         agentId paymentMint paymentAmount payload criteriaRoot deadline milestoneCount)"
  by (insert assms, rule matchesI, simp add: buildCreateTaskIx_def ix_run, simp add: market_createTask_def,
      simp add: market_createTask_def ix_args, simp add: market_createTask_def ix_walk)

lemma buildCreateTaskIx_ok:
  assumes "length taskNonce = 8" and "length agentDid = 32" and "length criteriaRoot = 32" and "length agentId = 32" and "js_ok
      (normalizeTaskPayload payload)"
  shows "matches publicKey search programId
     [((''agentAccount'', ''operator''), toBuffer agentOperator), ((''agentAccount'', ''agent_id''), agentId)] market_createTask [] []
     (buildCreateTaskIx publicKey search programId (toPubkeyMap publicKey DEVNET_PROGRAM_IDS) client taskNonce agentDid agentOperator
         agentId paymentMint paymentAmount payload criteriaRoot deadline milestoneCount)"
  using assms(5)
  by (rule normalizeTaskPayload_struct) (rule buildCreateTaskIx_matches, use assms in simp_all)

lemma buildFundTaskIx_matches:
  "matches publicKey search programId
     [] market_fundTask [] [''task'']
     (buildFundTaskIx publicKey search programId client task paymentMint clientTokenAccount tokenProgramId)"
  by (rule matchesI, simp add: buildFundTaskIx_def ix_run, simp add: market_fundTask_def,
      simp add: market_fundTask_def ix_args, simp add: market_fundTask_def ix_walk)

lemma buildSubmitResultIx_matches:
  assumes "length resultHash = 32" and "length proofKey = 32"
  shows "matches publicKey search programId
     [] market_submitResult [] [''task'', ''agentAccount'']
     (buildSubmitResultIx search programId (toPubkeyMap publicKey DEVNET_PROGRAM_IDS) operator_key task agentAccount resultHash proofKey)"
  by (insert assms, rule matchesI, simp add: buildSubmitResultIx_def ix_run, simp add: market_submitResult_def,
      simp add: market_submitResult_def ix_args, simp add: market_submitResult_def ix_walk)

lemma buildVerifyTaskIx_matches:
  assumes "length proofA = 64" and "length proofB = 128" and "length proofC = 64" and "length vkId = 32"
  shows "matches publicKey search programId
     [((''verifierKey'', ''vk_id''), vkId)] market_verifyTask [] [''task'']
     (buildVerifyTaskIx publicKey search programId (toPubkeyMap publicKey DEVNET_PROGRAM_IDS) cranker task verifierKey vkId proofA proofB
         proofC)"
  by (insert assms, rule matchesI, simp add: buildVerifyTaskIx_def ix_run, simp add: market_verifyTask_def,
      simp add: market_verifyTask_def ix_args, simp add: market_verifyTask_def ix_walk)

lemma buildReleaseIx_matches:
  "matches publicKey search programId
     [] market_release [] [''task'', ''agentAccount'']
     (buildReleaseIx publicKey search programId (toPubkeyMap publicKey DEVNET_PROGRAM_IDS) cranker task paymentMint agentTokenAccount
         feeCollectorTokenAccount solrepPoolTokenAccount agentAccount client hookAllowlist tokenProgramId)"
  by (rule matchesI, simp add: buildReleaseIx_def ix_run, simp add: market_release_def,
      simp add: market_release_def ix_args, simp add: market_release_def ix_walk)

lemma buildExpireIx_matches:
  "matches publicKey search programId
     [] market_expire [''hookAllowlist'', ''guard''] [''task'', ''agentAccount'']
     (buildExpireIx publicKey search programId (toPubkeyMap publicKey DEVNET_PROGRAM_IDS) cranker task paymentMint clientTokenAccount
         client agentAccount tokenProgramId)"
  by (rule matchesI, simp add: buildExpireIx_def ix_run, simp add: market_expire_def,
      simp add: market_expire_def ix_args, simp add: market_expire_def ix_walk)

lemma buildRaiseDisputeIx_matches:
  "matches publicKey search programId
     [] market_raiseDispute [] [''task'']
     (buildRaiseDisputeIx client task)"
  by (rule matchesI, simp add: buildRaiseDisputeIx_def ix_run, simp add: market_raiseDispute_def,
      simp add: market_raiseDispute_def ix_args, simp add: market_raiseDispute_def ix_walk)

lemma buildDisputedTimeoutRefundIx_matches:
  "matches publicKey search programId
     [] market_disputedTimeoutRefund [''hookAllowlist'', ''guard''] [''task'']
     (buildDisputedTimeoutRefundIx publicKey search programId cranker client task paymentMint clientTokenAccount tokenProgramId)"
  by (rule matchesI, simp add: buildDisputedTimeoutRefundIx_def ix_run, simp add: market_disputedTimeoutRefund_def,
      simp add: market_disputedTimeoutRefund_def ix_args, simp add: market_disputedTimeoutRefund_def ix_walk)

lemma buildOpenBiddingIx_matches:
  assumes "length taskId = 32"
  shows "matches publicKey search programId
     [((''task'', ''task_id''), taskId)] market_openBidding [] [''task'']
     (buildOpenBiddingIx publicKey search programId client task taskId paymentMint commitSecs revealSecs bondBps tokenProgramId)"
  by (insert assms, rule matchesI, simp add: buildOpenBiddingIx_def ix_run, simp add: market_openBidding_def,
      simp add: market_openBidding_def ix_args, simp add: market_openBidding_def ix_walk)

lemma buildCommitBidIx_matches:
  assumes "length commitHash = 32" and "length agentDid = 32" and "length taskId = 32" and "length agentId = 32"
  shows "matches publicKey search programId
     [((''task'', ''task_id''), taskId), ((''agentAccount'', ''operator''), toBuffer agentOperator), ((''agentAccount'', ''agent_id''),
         agentId)] market_commitBid [] [''task'']
     (buildCommitBidIx publicKey search programId (toPubkeyMap publicKey DEVNET_PROGRAM_IDS) bidder task taskId paymentMint
         bidderTokenAccount agentOperator agentId agentDid commitHash tokenProgramId)"
  by (insert assms, rule matchesI, simp add: buildCommitBidIx_def ix_run, simp add: market_commitBid_def,
      simp add: market_commitBid_def ix_args, simp add: market_commitBid_def ix_walk)

lemma buildRevealBidIx_matches:
  assumes "length nonce = 32" and "length taskId = 32"
  shows "matches publicKey search programId
     [((''task'', ''task_id''), taskId)] market_revealBid [] [''task'']
     (buildRevealBidIx search programId bidder task taskId amount nonce)"
  by (insert assms, rule matchesI, simp add: buildRevealBidIx_def ix_run, simp add: market_revealBid_def,
      simp add: market_revealBid_def ix_args, simp add: market_revealBid_def ix_walk)

lemma buildCloseBiddingIx_matches:
  assumes "length taskId = 32"
  shows "matches publicKey search programId
     [((''task'', ''task_id''), taskId)] market_closeBidding [] [''task'']
     (buildCloseBiddingIx search programId cranker task taskId)"
  by (insert assms, rule matchesI, simp add: buildCloseBiddingIx_def ix_run, simp add: market_closeBidding_def,
      simp add: market_closeBidding_def ix_args, simp add: market_closeBidding_def ix_walk)

lemma buildClaimBondIx_matches:
  assumes "length taskId = 32"
  shows "matches publicKey search programId
     [((''task'', ''task_id''), taskId)] market_claimBond [''hookAllowlist''] [''task'']
     (buildClaimBondIx publicKey search programId bidder task taskId paymentMint bidderTokenAccount feeCollectorTokenAccount
         tokenProgramId)"
  by (insert assms, rule matchesI, simp add: buildClaimBondIx_def ix_run, simp add: market_claimBond_def,
      simp add: market_claimBond_def ix_args, simp add: market_claimBond_def ix_walk)

lemma buildCancelBiddingIx_matches:
  assumes "length taskId = 32"
  shows "matches publicKey search programId
     [((''task'', ''task_id''), taskId)] market_cancelBidding [] [''task'']
     (buildCancelBiddingIx publicKey search programId client task taskId paymentMint tokenProgramId)"
  by (insert assms, rule matchesI, simp add: buildCancelBiddingIx_def ix_run, simp add: market_cancelBidding_def,
      simp add: market_cancelBidding_def ix_args, simp add: market_cancelBidding_def ix_walk)

lemma buildCancelUnfundedTaskIx_matches:
  "matches publicKey search programId
     [] market_cancelUnfundedTask [] [''task'']
     (buildCancelUnfundedTaskIx client task)"
  by (rule matchesI, simp add: buildCancelUnfundedTaskIx_def ix_run, simp add: market_cancelUnfundedTask_def,
      simp add: market_cancelUnfundedTask_def ix_args, simp add: market_cancelUnfundedTask_def ix_walk)

subsection \<open>Proof verifier\<close>

lemma buildRegisterVkIx_matches:
  assumes "length vkId = 32" and "length alphaG1 = 64" and "length betaG2 = 128" and "length gammaG2 = 128" and "length deltaG2 =
      128" and "list_all (\<lambda>x. length x = 64) ic" and "length circuitLabel = 32"
  shows "matches publicKey search programId
     [] verifier_registerVk [] []
     (buildRegisterVkIx publicKey search programId authority payer vkId alphaG1 betaG2 gammaG2 deltaG2 ic numPublicInputs circuitLabel
         isProduction)"
  by (insert assms, rule matchesI, simp add: buildRegisterVkIx_def ix_run, simp add: verifier_registerVk_def,
      simp add: verifier_registerVk_def ix_args, simp add: verifier_registerVk_def ix_walk)

lemma buildProposeVkActivationIx_matches:
  "matches publicKey search programId
     [] verifier_proposeVkActivation [] [''vk'']
     (buildProposeVkActivationIx search programId authority vk)"
  by (rule matchesI, simp add: buildProposeVkActivationIx_def ix_run, simp add: verifier_proposeVkActivation_def,
      simp add: verifier_proposeVkActivation_def ix_args, simp add: verifier_proposeVkActivation_def ix_walk)

lemma buildExecuteVkActivationIx_matches:
  "matches publicKey search programId
     [] verifier_executeVkActivation [] [''vk'']
     (buildExecuteVkActivationIx search programId vk)"
  by (rule matchesI, simp add: buildExecuteVkActivationIx_def ix_run, simp add: verifier_executeVkActivation_def,
      simp add: verifier_executeVkActivation_def ix_args, simp add: verifier_executeVkActivation_def ix_walk)

lemma buildVerifyProofIx_matches:
  assumes "length proofA = 64" and "length proofB = 128" and "length proofC = 64" and "list_all (\<lambda>x. length x = 32) publicInputs"
  shows "matches publicKey search programId
     [] verifier_verifyProof [] [''vk'']
     (buildVerifyProofIx publicKey search programId vk proofA proofB proofC publicInputs callerGuard)"
  by (insert assms, rule matchesI, simp add: buildVerifyProofIx_def ix_run, simp add: verifier_verifyProof_def,
      simp add: verifier_verifyProof_def ix_args, simp add: verifier_verifyProof_def ix_walk)

subsection \<open>Dispute arbitration\<close>

lemma buildDisputeRaiseIx_matches:
  "matches publicKey search programId
     [] dispute_raiseDispute [] [''disputeCase'']
     (buildDisputeRaiseIx publicKey search programId disputeCase payer taskId client agentOperator escrowAmount paymentMint)"
  by (rule matchesI, simp add: buildDisputeRaiseIx_def ix_run, simp add: dispute_raiseDispute_def,
      simp add: dispute_raiseDispute_def ix_args, simp add: dispute_raiseDispute_def ix_walk)

lemma buildCommitVoteIx_matches:
  assumes "length commitHash = 32" and "in_u64 caseId"
  shows "matches publicKey search programId
     [] dispute_commitVote [] [''disputeCase'']
     (buildCommitVoteIx publicKey search programId disputeCase arbitratorSigner operator_key caseId commitHash)"
  by (insert assms, rule matchesI, simp add: buildCommitVoteIx_def ix_run, simp add: dispute_commitVote_def,
      simp add: dispute_commitVote_def ix_args, simp add: dispute_commitVote_def ix_walk)

lemma buildRevealVoteIx_matches:
  assumes "length salt = 32" and "in_u64 caseId"
  shows "matches publicKey search programId
     [] dispute_revealVote [] [''disputeCase'']
     (buildRevealVoteIx search programId disputeCase arbitratorSigner caseId verdict salt)"
  by (insert assms, rule matchesI, simp add: buildRevealVoteIx_def ix_run, simp add: dispute_revealVote_def,
      simp add: dispute_revealVote_def ix_args, simp add: dispute_revealVote_def ix_walk)

lemma buildResolveDisputeIx_matches:
  "matches publicKey search programId
     [] dispute_resolveDispute [] [''disputeCase'']
     (buildResolveDisputeIx search programId disputeCase cranker)"
  by (rule matchesI, simp add: buildResolveDisputeIx_def ix_run, simp add: dispute_resolveDispute_def,
      simp add: dispute_resolveDispute_def ix_args, simp add: dispute_resolveDispute_def ix_walk)

lemma buildEscalateAppealIx_matches:
  assumes "in_u64 caseId" and "disputeCase = fst (search [enc ''dispute_case'', u64le caseId] programId)"
  shows "matches publicKey search programId
     [((''disputeCase'', ''case_id''), u64le caseId)] dispute_escalateAppeal [] []
     (buildEscalateAppealIx publicKey search programId disputeCase appellant caseId)"
  by (insert assms, rule matchesI, simp add: buildEscalateAppealIx_def ix_run, simp add: dispute_escalateAppeal_def,
      simp add: dispute_escalateAppeal_def ix_args, simp add: dispute_escalateAppeal_def ix_walk)

lemma buildRegisterArbitratorIx_matches:
  "matches publicKey search programId
     [] dispute_registerArbitrator [] []
     (buildRegisterArbitratorIx publicKey search programId operator_key stakeAccount effectiveStake lockEnd)"
  by (rule matchesI, simp add: buildRegisterArbitratorIx_def ix_run, simp add: dispute_registerArbitrator_def,
      simp add: dispute_registerArbitrator_def ix_args, simp add: dispute_registerArbitrator_def ix_walk)

lemma buildSlashArbitratorIx_matches:
  "matches publicKey search programId
     [((''arbitrator'', ''operator''), toBuffer arbitratorOperator)] dispute_slashArbitrator [] [''disputeCase'']
     (buildSlashArbitratorIx publicKey search programId disputeCase arbitratorOperator proposer reasonCode)"
  by (rule matchesI, simp add: buildSlashArbitratorIx_def ix_run, simp add: dispute_slashArbitrator_def,
      simp add: dispute_slashArbitrator_def ix_args, simp add: dispute_slashArbitrator_def ix_walk)

lemma buildTallyRoundIx_matches:
  "matches publicKey search programId
     [] dispute_tallyRound [] [''disputeCase'']
     (buildTallyRoundIx disputeCase cranker)"
  by (rule matchesI, simp add: buildTallyRoundIx_def ix_run, simp add: dispute_tallyRound_def,
      simp add: dispute_tallyRound_def ix_args, simp add: dispute_tallyRound_def ix_walk)

subsection \<open>Governance\<close>

lemma buildProposeIx_matches:
  "matches publicKey search programId
     [] governance_propose [] [''proposal'']
     (buildProposeIx publicKey search programId proposer proposal category targetProgram ixData metadataUri totalEligibleWeight
         snapshotSlot snapshotRoot)"
  by (rule matchesI, simp add: buildProposeIx_def ix_run, simp add: governance_propose_def,
      simp add: governance_propose_def ix_args, simp add: governance_propose_def ix_walk)

lemma buildVoteIx_matches:
  assumes "list_all (\<lambda>x. length x = 32) merkleProof"
  shows "matches publicKey search programId
     [] governance_vote [] [''proposal'']
     (buildVoteIx publicKey search programId proposal voter choice weight merkleProof)"
  by (insert assms, rule matchesI, simp add: buildVoteIx_def ix_run, simp add: governance_vote_def,
      simp add: governance_vote_def ix_args, simp add: governance_vote_def ix_walk)

lemma buildFinalizeVoteIx_matches:
  "matches publicKey search programId
     [] governance_finalizeVote [] [''proposal'']
     (buildFinalizeVoteIx search programId proposal cranker)"
  by (rule matchesI, simp add: buildFinalizeVoteIx_def ix_run, simp add: governance_finalizeVote_def,
      simp add: governance_finalizeVote_def ix_args, simp add: governance_finalizeVote_def ix_walk)

lemma buildExecuteProposalIx_matches:
  "matches publicKey search programId
     [] governance_executeProposal [] [''proposal'']
     (buildExecuteProposalIx publicKey search programId proposal executor)"
  by (rule matchesI, simp add: buildExecuteProposalIx_def ix_run, simp add: governance_executeProposal_def,
      simp add: governance_executeProposal_def ix_args, simp add: governance_executeProposal_def ix_walk)

lemma buildExpireProposalIx_matches:
  "matches publicKey search programId
     [] governance_expireProposal [] [''proposal'']
     (buildExpireProposalIx proposal cranker)"
  by (rule matchesI, simp add: buildExpireProposalIx_def ix_run, simp add: governance_expireProposal_def,
      simp add: governance_expireProposal_def ix_args, simp add: governance_expireProposal_def ix_walk)

lemma buildProposerCancelIx_matches:
  "matches publicKey search programId
     [] governance_proposerCancel [] [''proposal'']
     (buildProposerCancelIx proposal proposer)"
  by (rule matchesI, simp add: buildProposerCancelIx_def ix_run, simp add: governance_proposerCancel_def,
      simp add: governance_proposerCancel_def ix_args, simp add: governance_proposerCancel_def ix_walk)

lemma buildQueueExecutionIx_matches:
  "matches publicKey search programId
     [] governance_queueExecution [] [''proposal'']
     (buildQueueExecutionIx proposal cranker)"
  by (rule matchesI, simp add: buildQueueExecutionIx_def ix_run, simp add: governance_queueExecution_def,
      simp add: governance_queueExecution_def ix_args, simp add: governance_queueExecution_def ix_walk)

subsection \<open>Fee collector\<close>

lemma buildClaimStakerIx_matches:
  assumes "list_all (\<lambda>x. length x = 32) merkleProof" and "in_u64 epochId"
  shows "matches publicKey search programId
     [] fee_claimStaker [] []
     (buildClaimStakerIx publicKey search programId staker saepMint stakerTokenAccount epochId amount merkleProof tokenProgram)"
  by (insert assms, rule matchesI, simp add: buildClaimStakerIx_def ix_run, simp add: fee_claimStaker_def,
      simp add: fee_claimStaker_def ix_args, simp add: fee_claimStaker_def ix_walk)

lemma buildProcessEpochIx_matches:
  assumes "in_u64 currentEpochId" and "in_u64 nextEpochId"
  shows "matches publicKey search programId
     [((''currentEpoch'', ''epoch_id''), u64le currentEpochId), ((''config'', ''next_epoch_id''), u64le nextEpochId)] fee_processEpoch []
         []
     (buildProcessEpochIx publicKey search programId cranker saepMint grantRecipient treasuryRecipient currentEpochId nextEpochId
         snapshotId tokenProgram)"
  by (insert assms, rule matchesI, simp add: buildProcessEpochIx_def ix_run, simp add: fee_processEpoch_def,
      simp add: fee_processEpoch_def ix_args, simp add: fee_processEpoch_def ix_walk)

lemma buildExecuteBurnIx_matches:
  assumes "in_u64 epochId"
  shows "matches publicKey search programId
     [] fee_executeBurn [] []
     (buildExecuteBurnIx search programId cranker saepMint epochId tokenProgram)"
  by (insert assms, rule matchesI, simp add: buildExecuteBurnIx_def ix_run, simp add: fee_executeBurn_def,
      simp add: fee_executeBurn_def ix_args, simp add: fee_executeBurn_def ix_walk)

lemma buildDepositSaepIx_matches:
  "matches publicKey search programId
     [] fee_depositSaep [] []
     (buildDepositSaepIx search programId depositor externalMint internalMint depositorExternal depositorInternal externalTokenProgram
         internalTokenProgram amount)"
  by (rule matchesI, simp add: buildDepositSaepIx_def ix_run, simp add: fee_depositSaep_def,
      simp add: fee_depositSaep_def ix_args, simp add: fee_depositSaep_def ix_walk)

lemma buildWithdrawSaepIx_matches:
  "matches publicKey search programId
     [] fee_withdrawSaep [] []
     (buildWithdrawSaepIx search programId withdrawer externalMint internalMint withdrawerExternal withdrawerInternal
         externalTokenProgram internalTokenProgram amount)"
  by (rule matchesI, simp add: buildWithdrawSaepIx_def ix_run, simp add: fee_withdrawSaep_def,
      simp add: fee_withdrawSaep_def ix_args, simp add: fee_withdrawSaep_def ix_walk)

lemma buildHarvestTransferFeesIx_matches:
  assumes "in_u64 currentEpochId"
  shows "matches publicKey search programId
     [((''config'', ''next_epoch_id.saturating_sub(1)''), u64le currentEpochId)] fee_harvestTransferFees [] []
     (buildHarvestTransferFeesIx search programId cranker saepMint currentEpochId tokenProgram remainingAccounts)"
  by (insert assms, rule matchesI, simp add: buildHarvestTransferFeesIx_def ix_run, simp add: fee_harvestTransferFees_def,
      simp add: fee_harvestTransferFees_def ix_args, simp add: fee_harvestTransferFees_def ix_walk)

lemma buildHarvestConfidentialFeesIx_matches:
  assumes "in_u64 currentEpochId"
  shows "matches publicKey search programId
     [((''config'', ''next_epoch_id.saturating_sub(1)''), u64le currentEpochId)] fee_harvestConfidentialFees [] []
     (buildHarvestConfidentialFeesIx search programId cranker saepMint currentEpochId tokenProgram remainingAccounts)"
  by (insert assms, rule matchesI, simp add: buildHarvestConfidentialFeesIx_def ix_run, simp add: fee_harvestConfidentialFees_def,
      simp add: fee_harvestConfidentialFees_def ix_args, simp add: fee_harvestConfidentialFees_def ix_walk)

lemma buildCommitDistributionRootIx_matches:
  assumes "length root_hash = 32" and "in_u64 epochId"
  shows "matches publicKey search programId
     [] fee_commitDistributionRoot [] []
     (buildCommitDistributionRootIx search programId committer epochId root_hash leafCount totalWeight)"
  by (insert assms, rule matchesI, simp add: buildCommitDistributionRootIx_def ix_run, simp add: fee_commitDistributionRoot_def,
      simp add: fee_commitDistributionRoot_def ix_args, simp add: fee_commitDistributionRoot_def ix_walk)

lemma buildSetConfidentialTransfersIx_matches:
  "matches publicKey search programId
     [] fee_setConfidentialTransfers [] []
     (buildSetConfidentialTransfersIx search programId authority enabled)"
  by (rule matchesI, simp add: buildSetConfidentialTransfersIx_def ix_run, simp add: fee_setConfidentialTransfers_def,
      simp add: fee_setConfidentialTransfers_def ix_args, simp add: fee_setConfidentialTransfers_def ix_walk)

subsection \<open>Staking\<close>

lemma buildStakeIx_matches:
  "matches publicKey search programId
     [] staking_stake [] []
     (buildStakeIx publicKey search programId owner stakeMint ownerTokenAccount amount lockupDurationSecs tokenProgram)"
  by (rule matchesI, simp add: buildStakeIx_def ix_run, simp add: staking_stake_def,
      simp add: staking_stake_def ix_args, simp add: staking_stake_def ix_walk)

lemma buildBeginUnstakeIx_matches:
  "matches publicKey search programId
     [] staking_beginUnstake [] []
     (buildBeginUnstakeIx search programId owner)"
  by (rule matchesI, simp add: buildBeginUnstakeIx_def ix_run, simp add: staking_beginUnstake_def,
      simp add: staking_beginUnstake_def ix_args, simp add: staking_beginUnstake_def ix_walk)

lemma buildStakeWithdrawIx_matches:
  "matches publicKey search programId
     [] staking_withdraw [] []
     (buildStakeWithdrawIx search programId owner stakeMint ownerTokenAccount tokenProgram)"
  by (rule matchesI, simp add: buildStakeWithdrawIx_def ix_run, simp add: staking_withdraw_def,
      simp add: staking_withdraw_def ix_args, simp add: staking_withdraw_def ix_walk)

lemma buildSnapshotEpochIx_matches:
  assumes "in_u64 currentEpoch"
  shows "matches publicKey search programId
     [((''pool'', ''current_epoch''), u64le currentEpoch)] staking_snapshotEpoch [] []
     (buildSnapshotEpochIx publicKey search programId authority totalVotingPower stakerCount currentEpoch)"
  by (insert assms, rule matchesI, simp add: buildSnapshotEpochIx_def ix_run, simp add: staking_snapshotEpoch_def,
      simp add: staking_snapshotEpoch_def ix_args, simp add: staking_snapshotEpoch_def ix_walk)

subsection \<open>Template registry\<close>

lemma buildMintTemplateIx_matches:
  assumes "length templateId = 32" and "length configHash = 32" and "length configUri = 128"
  shows "matches publicKey search programId
     [] template_mintTemplate [] []
     (buildMintTemplateIx publicKey search programId author templateId configHash configUri capabilityMask royaltyBps rentPricePerSec
         minRentDuration maxRentDuration)"
  by (insert assms, rule matchesI, simp add: buildMintTemplateIx_def ix_run, simp add: template_mintTemplate_def,
      simp add: template_mintTemplate_def ix_args, simp add: template_mintTemplate_def ix_walk)

lemma buildUpdateTemplateIx_matches:
  assumes "length configHash = 32" and "length configUri = 128" and "length templateId = 32"
  shows "matches publicKey search programId
     [((''template'', ''template_id''), templateId)] template_updateTemplate [] []
     (buildUpdateTemplateIx search programId author templateId configHash configUri)"
  by (insert assms, rule matchesI, simp add: buildUpdateTemplateIx_def ix_run, simp add: template_updateTemplate_def,
      simp add: template_updateTemplate_def ix_args, simp add: template_updateTemplate_def ix_walk)

lemma buildRetireTemplateIx_matches:
  assumes "length templateId = 32"
  shows "matches publicKey search programId
     [((''template'', ''template_id''), templateId)] template_retireTemplate [] []
     (buildRetireTemplateIx search programId signer templateId)"
  by (insert assms, rule matchesI, simp add: buildRetireTemplateIx_def ix_run, simp add: template_retireTemplate_def,
      simp add: template_retireTemplate_def ix_args, simp add: template_retireTemplate_def ix_walk)

lemma buildForkTemplateIx_matches:
  assumes "length childAgentDid = 32" and "length parentTemplateId = 32"
  shows "matches publicKey search programId
     [((''parent'', ''template_id''), parentTemplateId)] template_forkTemplate [] []
     (buildForkTemplateIx publicKey search programId forker parentTemplateId childAgentDid)"
  by (insert assms, rule matchesI, simp add: buildForkTemplateIx_def ix_run, simp add: template_forkTemplate_def,
      simp add: template_forkTemplate_def ix_args, simp add: template_forkTemplate_def ix_walk)

lemma buildOpenRentalIx_matches:
  assumes "length rentalNonce = 8" and "length templateId = 32"
  shows "matches publicKey search programId
     [((''template'', ''template_id''), templateId)] template_openRental [] []
     (buildOpenRentalIx publicKey search programId renter templateId mint renterTokenAccount durationSecs rentalNonce tokenProgram)"
  by (insert assms, rule matchesI, simp add: buildOpenRentalIx_def ix_run, simp add: template_openRental_def,
      simp add: template_openRental_def ix_args, simp add: template_openRental_def ix_walk)

lemma buildCloseRentalIx_matches:
  assumes "length templateId = 32"
  shows "matches publicKey search programId
     [((''template'', ''template_id''), templateId)] template_closeRental [] []
     (buildCloseRentalIx search programId signer rental templateId mint authorTokenAccount feeCollectorTokenAccount renterTokenAccount
         tokenProgram)"
  by (insert assms, rule matchesI, simp add: buildCloseRentalIx_def ix_run, simp add: template_closeRental_def,
      simp add: template_closeRental_def ix_args, simp add: template_closeRental_def ix_walk)

lemma buildClaimRentalRevenueIx_matches:
  assumes "length templateId = 32"
  shows "matches publicKey search programId
     [((''template'', ''template_id''), templateId)] template_claimRentalRevenue [] []
     (buildClaimRentalRevenueIx search programId cranker rental templateId mint authorTokenAccount feeCollectorTokenAccount tokenProgram)"
  by (insert assms, rule matchesI, simp add: buildClaimRentalRevenueIx_def ix_run, simp add: template_claimRentalRevenue_def,
      simp add: template_claimRentalRevenue_def ix_args, simp add: template_claimRentalRevenue_def ix_walk)

subsection \<open>Programs\<close>

definition all_match :: "(string \<Rightarrow> pubkey) \<Rightarrow> pda_search \<Rightarrow> pubkey \<Rightarrow> (contents \<times>
    idl_instruction \<times> string list \<times> string list \<times> ix_request js) list \<Rightarrow> bool" where
  "all_match publicKey search programId calls = list_all (\<lambda>(contents, ix, missing, given, r). matches publicKey search programId
      contents ix missing given r) calls"

theorem registry_builders_agree:
  assumes "length agentId = 32" and "length manifestUri \<le> 128" and "personhoodAttestation \<in> {None,
             Some (fst (search [enc ''personhood'', toBuffer operator_key] programId))}"
  shows "all_match publicKey search programId
     [([], registry_registerAgent, [], [],
        buildRegisterAgentIx publicKey search programId operator_key agentId manifestUri capabilityMask priceLamports streamRate
            stakeAmount stakeMint operatorTokenAccount capabilityRegistryProgramId personhoodAttestation tokenProgramId),
      ([], registry_updateManifest, [], [''agent''],
        buildUpdateManifestIx search programId operator_key agent manifestUri capabilityMask priceLamports streamRate
            capabilityRegistryProgramId),
      ([], registry_stakeIncrease, [''guard''], [''agent''],
        buildStakeIncreaseIx publicKey search programId operator_key agent stakeMint operatorTokenAccount amount),
      ([], registry_stakeWithdrawRequest, [], [''agent''],
        buildRequestStakeWithdrawIx search programId operator_key agent amount),
      ([], registry_stakeWithdrawExecute, [''guard''], [''agent''],
        buildExecuteStakeWithdrawIx publicKey search programId operator_key agent stakeMint operatorTokenAccount),
      ([], registry_setStatus, [], [''agent''],
        buildDeregisterIx search programId operator_key agent),
      ([], registry_setStatus, [], [''agent''],
        buildReactivateIx search programId operator_key agent)]"
  unfolding all_match_def list.pred_inject(2) prod.case
  by (intro conjI list.pred_inject(1) buildRegisterAgentIx_matches buildUpdateManifestIx_matches buildStakeIncreaseIx_matches
      buildRequestStakeWithdrawIx_matches buildExecuteStakeWithdrawIx_matches buildDeregisterIx_matches buildReactivateIx_matches assms)

theorem capability_builders_agree:
  assumes "length slug = 32" and "length manifestUri = 96"
  shows "all_match publicKey search programId
     [([], capability_proposeTag, [], [],
        buildProposeTagIx publicKey search programId authority payer tag_key bitIndex slug manifestUri),
      ([], capability_retireTag, [], [],
        buildRetireTagIx search programId authority tag_key bitIndex),
      ([], capability_validateMask, [], [],
        buildValidateMaskIx search programId mask_value)]"
  unfolding all_match_def list.pred_inject(2) prod.case
  by (intro conjI list.pred_inject(1) buildProposeTagIx_matches buildRetireTagIx_matches buildValidateMaskIx_matches assms)

theorem treasury_builders_agree:
  assumes "length agentDid = 32" and "length agentId = 32" and "length streamNonce = 8" and "treasury = fst (search [enc ''treasury'',
             agentDid] programId)" and "allowedTargets \<in> {None, Some (fst (search [enc ''allowed_targets'',
             agentDid] programId))}" and "agentHooks \<in> {None, Some (fst (search [enc ''agent_hooks'',
             agentDid] (0x3ac068eb6f37a3b9e0ca113397a88b14eb99356fdbd4d0f45d3a54edf75bcc00)))}" and "length strategyId = 32" and
                 "routeData \<noteq> []" and "length routeData \<le> 512" and "0 < amount" and "0 < receiptAmount"
  shows "all_match publicKey search programId
     [([((''agentAccount'', ''operator''), toBuffer agentOperator), ((''agentAccount'', ''agent_id''), agentId)], treasury_initTreasury,
         [], [],
        buildInitTreasuryIx publicKey search programId (toPubkeyMap publicKey DEVNET_PROGRAM_IDS) operator_key agentDid agentOperator
            agentId dailySpendLimit perTxLimit weeklyLimit),
      ([((''treasury'', ''agent_did''), agentDid)], treasury_setLimits, [], [],
        buildSetLimitsIx search programId operator_key agentDid daily perTx weekly),
      ([((''treasury'', ''agent_did''), agentDid)], treasury_withdraw, [''allowedTargets'', ''hookAllowlist'', ''guard''], [],
        buildWithdrawIx publicKey search programId operator_key agentDid mint destination amount priceFeed),
      ([((''treasury'', ''agent_did''), agentDid)], treasury_initStream, [''allowedTargets'', ''hookAllowlist'', ''guard''], [],
        buildInitStreamIx publicKey search programId client agentDid streamNonce payerMint payoutMint clientTokenAccount ratePerSec
            maxDuration),
      ([((''treasury'', ''agent_did''), agentDid)], treasury_closeStream, [''global'', ''allowedTargets'', ''hookAllowlist'',
          ''agentHooks'', ''guard''], [''stream''],
        buildCloseStreamIx publicKey search programId signer stream treasury payerMint agentDid clientTokenAccount),
      ([((''treasury'', ''agent_did''), agentDid)], treasury_withdrawEarned, [], [''stream''],
        buildWithdrawEarnedIx publicKey search programId operator_key agentDid stream payerMint payoutMint jupiterProgram routeData
            payerPriceFeed payoutPriceFeed allowedTargets hookAllowlist agentHooks tokenProgramId),
      ([], treasury_registerYieldStrategy, [], [],
        buildRegisterYieldStrategyIx publicKey search programId authority strategyId venue strategyProgram underlyingMint receiptMint
            maxAllocationBps riskTier name_text metadataUri),
      ([((''strategy'', ''strategy_id''), strategyId)], treasury_setYieldStrategyStatus, [], [],
        buildSetYieldStrategyStatusIx search programId authority strategyId status),
      ([], treasury_setTreasuryYieldConfig, [], [],
        buildSetTreasuryYieldConfigIx publicKey search programId operator_key agentDid strategyId allocationBps paused),
      ([((''treasury'', ''agent_did''), agentDid)], treasury_requestTreasuryYieldUnwind, [], [],
        buildRequestTreasuryYieldUnwindIx search programId operator_key agentDid),
      ([((''yieldConfig'', ''agent_did''), agentDid)], treasury_recordTreasuryYieldAccounting, [], [],
        buildRecordTreasuryYieldAccountingIx search programId authority agentDid idleAmount deployedAmount realizedYieldAmount
            accountingSlot),
      ([((''treasury'', ''agent_did''), agentDid), ((''strategy'', ''strategy_id''), strategyId)], treasury_depositToYieldStrategy, [],
          [],
        buildDepositToYieldStrategyIx publicKey search programId agentDid strategyId mint receiptMint kaminoProgram routeData
            routeAccounts allowedTargets tokenProgramId operator_key amount priceFeed),
      ([((''treasury'', ''agent_did''), agentDid), ((''strategy'', ''strategy_id''), strategyId)], treasury_withdrawFromYieldStrategy,
          [], [],
        buildWithdrawFromYieldStrategyIx publicKey search programId agentDid strategyId mint receiptMint kaminoProgram routeData
            routeAccounts allowedTargets tokenProgramId operator_key receiptAmount),
      ([((''treasury'', ''agent_did''), agentDid), ((''strategy'', ''strategy_id''), strategyId)], treasury_emergencyUnwindYieldStrategy,
          [], [],
        buildEmergencyUnwindYieldStrategyIx publicKey search programId agentDid strategyId mint receiptMint kaminoProgram routeData
            routeAccounts allowedTargets tokenProgramId authority)]"
  unfolding all_match_def list.pred_inject(2) prod.case
  by (intro conjI list.pred_inject(1) buildInitTreasuryIx_matches buildSetLimitsIx_matches buildWithdrawIx_matches
      buildInitStreamIx_matches buildCloseStreamIx_matches buildWithdrawEarnedIx_matches buildRegisterYieldStrategyIx_matches
      buildSetYieldStrategyStatusIx_matches buildSetTreasuryYieldConfigIx_matches buildRequestTreasuryYieldUnwindIx_matches
      buildRecordTreasuryYieldAccountingIx_matches buildDepositToYieldStrategyIx_matches buildWithdrawFromYieldStrategyIx_matches
      buildEmergencyUnwindYieldStrategyIx_matches assms)




theorem verifier_builders_agree:
  assumes "length vkId = 32" and "length alphaG1 = 64" and "length betaG2 = 128" and "length gammaG2 = 128" and "length deltaG2 =
      128" and "list_all (\<lambda>x. length x = 64) ic" and "length circuitLabel = 32" and "length proofA = 64" and "length proofB =
      128" and "length proofC = 64" and "list_all (\<lambda>x. length x = 32) publicInputs"
  shows "all_match publicKey search programId
     [([], verifier_registerVk, [], [],
        buildRegisterVkIx publicKey search programId authority payer vkId alphaG1 betaG2 gammaG2 deltaG2 ic numPublicInputs circuitLabel
            isProduction),
      ([], verifier_proposeVkActivation, [], [''vk''],
        buildProposeVkActivationIx search programId authority vk),
      ([], verifier_executeVkActivation, [], [''vk''],
        buildExecuteVkActivationIx search programId vk),
      ([], verifier_verifyProof, [], [''vk''],
        buildVerifyProofIx publicKey search programId vk proofA proofB proofC publicInputs callerGuard)]"
  unfolding all_match_def list.pred_inject(2) prod.case
  by (intro conjI list.pred_inject(1) buildRegisterVkIx_matches buildProposeVkActivationIx_matches buildExecuteVkActivationIx_matches
      buildVerifyProofIx_matches assms)

theorem dispute_builders_agree:
  assumes "length commitHash = 32" and "in_u64 caseId" and "length salt = 32" and "disputeCase = fst (search [enc ''dispute_case'',
             u64le caseId] programId)"
  shows "all_match publicKey search programId
     [([], dispute_raiseDispute, [], [''disputeCase''],
        buildDisputeRaiseIx publicKey search programId disputeCase payer taskId client agentOperator escrowAmount paymentMint),
      ([], dispute_commitVote, [], [''disputeCase''],
        buildCommitVoteIx publicKey search programId disputeCase arbitratorSigner operator_key caseId commitHash),
      ([], dispute_revealVote, [], [''disputeCase''],
        buildRevealVoteIx search programId disputeCase arbitratorSigner caseId verdict salt),
      ([], dispute_resolveDispute, [], [''disputeCase''],
        buildResolveDisputeIx search programId disputeCase cranker),
      ([((''disputeCase'', ''case_id''), u64le caseId)], dispute_escalateAppeal, [], [],
        buildEscalateAppealIx publicKey search programId disputeCase appellant caseId),
      ([], dispute_registerArbitrator, [], [],
        buildRegisterArbitratorIx publicKey search programId operator_key stakeAccount effectiveStake lockEnd),
      ([((''arbitrator'', ''operator''), toBuffer arbitratorOperator)], dispute_slashArbitrator, [], [''disputeCase''],
        buildSlashArbitratorIx publicKey search programId disputeCase arbitratorOperator proposer reasonCode),
      ([], dispute_tallyRound, [], [''disputeCase''],
        buildTallyRoundIx disputeCase cranker)]"
  unfolding all_match_def list.pred_inject(2) prod.case
  by (intro conjI list.pred_inject(1) buildDisputeRaiseIx_matches buildCommitVoteIx_matches buildRevealVoteIx_matches
      buildResolveDisputeIx_matches buildEscalateAppealIx_matches buildRegisterArbitratorIx_matches buildSlashArbitratorIx_matches
      buildTallyRoundIx_matches assms)

theorem governance_builders_agree:
  assumes "list_all (\<lambda>x. length x = 32) merkleProof"
  shows "all_match publicKey search programId
     [([], governance_propose, [], [''proposal''],
        buildProposeIx publicKey search programId proposer proposal category targetProgram ixData metadataUri totalEligibleWeight
            snapshotSlot snapshotRoot),
      ([], governance_vote, [], [''proposal''],
        buildVoteIx publicKey search programId proposal voter choice weight merkleProof),
      ([], governance_finalizeVote, [], [''proposal''],
        buildFinalizeVoteIx search programId proposal cranker),
      ([], governance_executeProposal, [], [''proposal''],
        buildExecuteProposalIx publicKey search programId proposal executor),
      ([], governance_expireProposal, [], [''proposal''],
        buildExpireProposalIx proposal cranker),
      ([], governance_proposerCancel, [], [''proposal''],
        buildProposerCancelIx proposal proposer),
      ([], governance_queueExecution, [], [''proposal''],
        buildQueueExecutionIx proposal cranker)]"
  unfolding all_match_def list.pred_inject(2) prod.case
  by (intro conjI list.pred_inject(1) buildProposeIx_matches buildVoteIx_matches buildFinalizeVoteIx_matches
      buildExecuteProposalIx_matches buildExpireProposalIx_matches buildProposerCancelIx_matches buildQueueExecutionIx_matches assms)

theorem fee_builders_agree:
  assumes "list_all (\<lambda>x. length x = 32) merkleProof" and "in_u64 epochId" and "in_u64 currentEpochId" and "in_u64
      nextEpochId" and "length root_hash = 32"
  shows "all_match publicKey search programId
     [([], fee_claimStaker, [], [],
        buildClaimStakerIx publicKey search programId staker saepMint stakerTokenAccount epochId amount merkleProof tokenProgram),
      ([((''currentEpoch'', ''epoch_id''), u64le currentEpochId), ((''config'', ''next_epoch_id''), u64le nextEpochId)],
          fee_processEpoch, [], [],
        buildProcessEpochIx publicKey search programId cranker saepMint grantRecipient treasuryRecipient currentEpochId nextEpochId
            snapshotId tokenProgram),
      ([], fee_executeBurn, [], [],
        buildExecuteBurnIx search programId cranker saepMint epochId tokenProgram),
      ([], fee_depositSaep, [], [],
        buildDepositSaepIx search programId depositor externalMint internalMint depositorExternal depositorInternal externalTokenProgram
            internalTokenProgram amount),
      ([], fee_withdrawSaep, [], [],
        buildWithdrawSaepIx search programId withdrawer externalMint internalMint withdrawerExternal withdrawerInternal
            externalTokenProgram internalTokenProgram amount),
      ([((''config'', ''next_epoch_id.saturating_sub(1)''), u64le currentEpochId)], fee_harvestTransferFees, [], [],
        buildHarvestTransferFeesIx search programId cranker saepMint currentEpochId tokenProgram remainingAccounts),
      ([((''config'', ''next_epoch_id.saturating_sub(1)''), u64le currentEpochId)], fee_harvestConfidentialFees, [], [],
        buildHarvestConfidentialFeesIx search programId cranker saepMint currentEpochId tokenProgram remainingAccounts),
      ([], fee_commitDistributionRoot, [], [],
        buildCommitDistributionRootIx search programId committer epochId root_hash leafCount totalWeight),
      ([], fee_setConfidentialTransfers, [], [],
        buildSetConfidentialTransfersIx search programId authority enabled)]"
  unfolding all_match_def list.pred_inject(2) prod.case
  by (intro conjI list.pred_inject(1) buildClaimStakerIx_matches buildProcessEpochIx_matches buildExecuteBurnIx_matches
      buildDepositSaepIx_matches buildWithdrawSaepIx_matches buildHarvestTransferFeesIx_matches buildHarvestConfidentialFeesIx_matches
      buildCommitDistributionRootIx_matches buildSetConfidentialTransfersIx_matches assms)

theorem staking_builders_agree:
  assumes "in_u64 currentEpoch"
  shows "all_match publicKey search programId
     [([], staking_stake, [], [],
        buildStakeIx publicKey search programId owner stakeMint ownerTokenAccount amount lockupDurationSecs tokenProgram),
      ([], staking_beginUnstake, [], [],
        buildBeginUnstakeIx search programId owner),
      ([], staking_withdraw, [], [],
        buildStakeWithdrawIx search programId owner stakeMint ownerTokenAccount tokenProgram),
      ([((''pool'', ''current_epoch''), u64le currentEpoch)], staking_snapshotEpoch, [], [],
        buildSnapshotEpochIx publicKey search programId authority totalVotingPower stakerCount currentEpoch)]"
  unfolding all_match_def list.pred_inject(2) prod.case
  by (intro conjI list.pred_inject(1) buildStakeIx_matches buildBeginUnstakeIx_matches buildStakeWithdrawIx_matches
      buildSnapshotEpochIx_matches assms)

theorem template_builders_agree:
  assumes "length templateId = 32" and "length configHash = 32" and "length configUri = 128" and "length childAgentDid = 32" and "length
      parentTemplateId = 32" and "length rentalNonce = 8"
  shows "all_match publicKey search programId
     [([], template_mintTemplate, [], [],
        buildMintTemplateIx publicKey search programId author templateId configHash configUri capabilityMask royaltyBps rentPricePerSec
            minRentDuration maxRentDuration),
      ([((''template'', ''template_id''), templateId)], template_updateTemplate, [], [],
        buildUpdateTemplateIx search programId author templateId configHash configUri),
      ([((''template'', ''template_id''), templateId)], template_retireTemplate, [], [],
        buildRetireTemplateIx search programId signer templateId),
      ([((''parent'', ''template_id''), parentTemplateId)], template_forkTemplate, [], [],
        buildForkTemplateIx publicKey search programId forker parentTemplateId childAgentDid),
      ([((''template'', ''template_id''), templateId)], template_openRental, [], [],
        buildOpenRentalIx publicKey search programId renter templateId mint renterTokenAccount durationSecs rentalNonce tokenProgram),
      ([((''template'', ''template_id''), templateId)], template_closeRental, [], [],
        buildCloseRentalIx search programId signer rental templateId mint authorTokenAccount feeCollectorTokenAccount renterTokenAccount
            tokenProgram),
      ([((''template'', ''template_id''), templateId)], template_claimRentalRevenue, [], [],
        buildClaimRentalRevenueIx search programId cranker rental templateId mint authorTokenAccount feeCollectorTokenAccount
            tokenProgram)]"
  unfolding all_match_def list.pred_inject(2) prod.case
  by (intro conjI list.pred_inject(1) buildMintTemplateIx_matches buildUpdateTemplateIx_matches buildRetireTemplateIx_matches
      buildForkTemplateIx_matches buildOpenRentalIx_matches buildCloseRentalIx_matches buildClaimRentalRevenueIx_matches assms)

subsection \<open>Vote records\<close>

text \<open>The description of the dispute program has no seeds for \<open>voteRecord\<close>; the program itself asks for these, with the
  round of the case and the key of the signer.\<close>

definition vote_record_seeds :: "int \<Rightarrow> pubkey \<Rightarrow> 8 word \<Rightarrow> bytes list" where
  "vote_record_seeds caseId arbitrator_signer round_no = [enc ''dispute_vote'', u64le caseId, toBuffer arbitrator_signer, [round_no]]"

definition sdk_vote_seeds :: "pda_search \<Rightarrow> pubkey \<Rightarrow> int \<Rightarrow> pubkey \<Rightarrow> bytes list" where
  "sdk_vote_seeds search programId caseId arbitrator_signer =
     [enc ''dispute_vote'', u64le caseId, toBuffer (fst (search [enc ''arbitrator'', toBuffer arbitrator_signer] programId))]"

lemma vote_seeds_differ: "concat (sdk_vote_seeds search programId caseId s) \<noteq> concat (vote_record_seeds caseId s round_no)"
proof
  assume "concat (sdk_vote_seeds search programId caseId s) = concat (vote_record_seeds caseId s round_no)"
  from arg_cong [OF this, of length] show False by (simp add: sdk_vote_seeds_def vote_record_seeds_def)
qed

text \<open>C28. The requests the SDK builds to commit and to reveal a dispute vote never carry the vote record the program asks for,
  in any round: the SDK derives it from the arbitrator account instead of the signer and without the round. It suffices
  that the address search keeps the two seed lists apart.\<close>

theorem vote_record_rejected:
  assumes "in_u64 caseId"
    and "fst (search (sdk_vote_seeds search programId caseId arbitratorSigner) programId) =
      fst (search (vote_record_seeds caseId arbitratorSigner round_no) programId) \<Longrightarrow>
      concat (sdk_vote_seeds search programId caseId arbitratorSigner) = concat (vote_record_seeds caseId arbitratorSigner round_no)"
  shows "\<exists>commit reveal k. buildCommitVoteIx publicKey search programId disputeCase arbitratorSigner operator_key caseId
      commitHash = Inr commit \<and>
    buildRevealVoteIx search programId disputeCase arbitratorSigner caseId verdict salt = Inr reveal \<and>
    field_of (rq_accounts commit) ''voteRecord'' = Some (Some k) \<and> field_of (rq_accounts reveal) ''voteRecord'' = Some (Some k)
        \<and>
    k \<noteq> fst (search (vote_record_seeds caseId arbitratorSigner round_no) programId)"
proof -
  have "fst (search (sdk_vote_seeds search programId caseId arbitratorSigner) programId) \<noteq>
      fst (search (vote_record_seeds caseId arbitratorSigner round_no) programId)"
    using assms(2) vote_seeds_differ by blast
  with assms(1) show ?thesis
    by (simp add: buildCommitVoteIx_def buildRevealVoteIx_def ix_run sdk_vote_seeds_def)
qed

theorem vote_record_rejected_witness:
  "\<exists>commit reveal k. buildCommitVoteIx (\<lambda>s. 0) (\<lambda>bs p. (of_nat (length (concat bs)), 255)) 1 2 3 4 5 (replicate
      32 0) = Inr commit \<and>
    buildRevealVoteIx (\<lambda>bs p. (of_nat (length (concat bs)), 255)) 1 2 3 5 ''forAgent'' (replicate 32 0) = Inr reveal \<and>
    field_of (rq_accounts commit) ''voteRecord'' = Some (Some k) \<and> field_of (rq_accounts reveal) ''voteRecord'' = Some (Some k)
        \<and>
    k \<noteq> fst ((\<lambda>bs p. (of_nat (length (concat bs)), 255 :: nat)) (vote_record_seeds 5 3 0) (1 :: pubkey))"
  by (rule vote_record_rejected) (simp_all add: in_u64_def sdk_vote_seeds_def vote_record_seeds_def enc_def u64le_def)

subsection \<open>Task kinds\<close>

text \<open>The two input forms of a task kind give the same argument and the same errors; the argument exists exactly when the
  hashes have 32 bytes.\<close>

fun kind_hashes :: "task_kind \<Rightarrow> bytes list" where
  "kind_hashes (DataFetch u e) = [u, e]"
| "kind_hashes (Compute c p) = [c, p]"
| "kind_hashes (Generic b a) = [a]"
| "kind_hashes _ = []"

theorem task_kind_forms_agree:
  "normalizeTaskKind (Legacy kind) = normalizeTaskKind (Structured kind) \<and>
   (js_ok (normalizeTaskKind (Legacy kind)) \<longleftrightarrow> list_all (\<lambda>h. length h = 32) (kind_hashes kind))"
  by (cases kind) (simp_all add: normalizeStructuredKind_def and_then_def toByteArray_def)

subsection \<open>Identifiers\<close>

text \<open>A seed text of at most 32 bytes is kept in the agent identifier; two such texts without zero bytes have different
  identifiers.\<close>

lemma encodeAgentId_length: "encodeAgentId s = Inr b \<Longrightarrow> length b = 32"
  by (auto simp: encodeAgentId_def AGENT_ID_LEN_def Let_def split: if_splits)

lemma strip_padding:
  assumes "\<forall>b \<in> set xs. b \<noteq> 0"
  shows "takeWhile (\<lambda>b. b \<noteq> 0) (xs @ replicate n 0) = xs"
  using assms by (cases n) (simp_all add: takeWhile_append2)

lemma encodeAgentId_strip:
  assumes "encodeAgentId s = Inr b" and "\<forall>x \<in> set (text_encode s). x \<noteq> 0"
  shows "takeWhile (\<lambda>x. x \<noteq> 0) b = text_encode s"
  using assms strip_padding [OF assms(2)] by (auto simp: encodeAgentId_def Let_def split: if_splits)

lemma encodeAgentId_inj:
  assumes "encodeAgentId s = Inr b" and "encodeAgentId t = Inr b"
    and "\<forall>x \<in> set (text_encode s). x \<noteq> 0" and "\<forall>x \<in> set (text_encode t). x \<noteq> 0"
  shows "s = t"
  using encodeAgentId_strip [OF assms(1,3)] encodeAgentId_strip [OF assms(2,4)] text_encode_inj by metis


end
